(* ===== verification/Go_Prelude.thy ===== *)
theory Go_Prelude
  imports Main "HOL-Library.List_Lexorder" "HOL-Library.Char_ord"
    "HOL-Library.Product_Lexorder" "HOL-Library.Multiset"
begin

text \<open>
  Shared vocabulary of the development: the Go error values of the packages
  \<open>domain\<close> and \<open>application\<close>, results as sums, Go maps as association lists, the string
  helpers of Go's \<open>strings\<close> package the code relies on, stable sorting by a comparator as
  \<open>sort.SliceStable\<close> does it, and the two generic interfaces (a comparator that is a key
  order, a machine with an invariant) that the components instantiate.

  Go strings are byte strings: a \<open>string\<close> here is the list of its UTF-8 bytes.
  A Go \<open>int\<close> is 64 bits wide; the quantities below (minutes, positions, revisions,
  counts) never approach that bound, and are modelled as \<open>int\<close> or \<open>nat\<close>. Where a shift or a byte-level computation is bounded by
  its width, the component says so. An instant (\<open>time.Time\<close>) is its distance in nanoseconds
  from Go's zero time, so the zero time is \<open>0\<close>.
\<close>

named_theorems go_simps

subsection \<open>Errors and results\<close>

datatype domain_error =
    ErrInvalidTransition
  | ErrCoord
  | ErrLens
  | ErrDomainValidation

text \<open>
  Four are errors the application passes on unmapped: \<open>ErrUnique\<close>, a violated uniqueness constraint,
  \<open>ErrRecordNotFound\<close>, a missing row (\<open>gorm.ErrRecordNotFound\<close>), \<open>ErrJSON\<close>, a JSON text that does not parse, and
  \<open>ErrOther\<close>, any other error.
  \<open>DoesNotReturn\<close> is no error of the code: it is the outcome of a call that loops for ever.
\<close>

datatype app_error =
    ErrNotFound
  | ErrConflict
  | ErrTooManyJobs
  | ErrRevision
  | ErrPrecondition
  | ErrValidation
  | ErrActiveSession
  | ErrStaleAgentAttempt
  | ErrExternalImportExists
  | ErrForbidden
  | ErrCoreLimit
  | ErrSupportBeforeCoreDone
  | DoesNotReturn
  | ErrUnique
  | ErrRecordNotFound
  | ErrJSON
  | ErrActiveRunExists
  | ErrUnknownThreadStatus
  | ErrModelBusy
  | ErrHarnessUnavailable
  | ErrToolsETagStale
  | ErrHarnessToken
  | ErrRunNotActive
  | ErrApprovalTimeout
  | ErrApprovalNotAwaiting
  | ErrApprovalDuplicate
  | ErrEmptyCommand
  | ErrTooManyAttachments
  | ErrLoginThrottled
  | ErrInvalidCredentials
  | ErrInvalidToken
  | ErrTokenReuse
  | ErrUserDisabled
  | ErrFastCASDisabled
  | ErrOther

type_synonym 'a result = "app_error + 'a"
type_synonym time = int
type_synonym id = string

text \<open>The early return \<open>if err != nil { return err }\<close>.\<close>

definition bind_r :: "'e + 'a \<Rightarrow> ('a \<Rightarrow> 'e + 'b) \<Rightarrow> 'e + 'b" where
  "bind_r m f = (case m of Inl e \<Rightarrow> Inl e | Inr a \<Rightarrow> f a)"

lemma bind_r_simps [simp]:
  "bind_r (Inl e) f = Inl e"
  "bind_r (Inr a) f = f a"
  by (simp_all add: bind_r_def)

lemma bind_r_Inr_iff [go_simps]:
  "bind_r m f = Inr b \<longleftrightarrow> (\<exists>a. m = Inr a \<and> f a = Inr b)"
  by (cases m) simp_all

lemma bind_r_Inl_iff [go_simps]:
  "bind_r m f = Inl e \<longleftrightarrow> m = Inl e \<or> (\<exists>a. m = Inr a \<and> f a = Inl e)"
  by (cases m) simp_all

definition guard_r :: "bool \<Rightarrow> 'e \<Rightarrow> 'e + unit" where
  "guard_r ok e = (if ok then Inr () else Inl e)"

lemma guard_r_simps [simp]:
  "guard_r True e = Inr ()"
  "guard_r False e = Inl e"
  by (simp_all add: guard_r_def)

lemma guard_r_Inr_iff [go_simps]: "guard_r b e = Inr u \<longleftrightarrow> b"
  by (simp add: guard_r_def)

lemma guard_r_Inl_iff [go_simps]: "guard_r b e = Inl e' \<longleftrightarrow> \<not> b \<and> e' = e"
  by (auto simp: guard_r_def)

subsection \<open>Go maps\<close>

text \<open>
  A Go map is an association list whose first entry for a key is the current one. Reading a
  missing key gives the zero value of the element type.
\<close>

type_synonym ('k, 'v) gomap = "('k \<times> 'v) list"

definition gomap_get :: "'v \<Rightarrow> ('k, 'v) gomap \<Rightarrow> 'k \<Rightarrow> 'v" where
  "gomap_get zero m k = (case map_of m k of None \<Rightarrow> zero | Some v \<Rightarrow> v)"

lemma gomap_get_Nil [simp]: "gomap_get z [] k = z"
  by (simp add: gomap_get_def)

lemma gomap_get_Cons [simp]: "gomap_get z ((k', v) # m) k = (if k = k' then v else gomap_get z m k)"
  by (auto simp: gomap_get_def)

subsection \<open>Strings\<close>

text \<open>
  The UTF-8 encodings of the code points \<open>unicode.IsSpace\<close> accepts, which is what
  \<open>strings.TrimSpace\<close> removes at both ends. None of them is a proper suffix or prefix of a
  longer valid encoding, so cutting them off as byte sequences is what decoding does.
\<close>

definition space_seqs :: "string list" where
  "space_seqs =
    [[CHR 0x20], [CHR 0x0A], [CHR 0x09], [CHR 0x0D], [CHR 0x0B], [CHR 0x0C],
     [CHR 0xC2, CHR 0x85], [CHR 0xC2, CHR 0xA0], [CHR 0xE1, CHR 0x9A, CHR 0x80],
     [CHR 0xE2, CHR 0x80, CHR 0x80], [CHR 0xE2, CHR 0x80, CHR 0x81], [CHR 0xE2, CHR 0x80, CHR 0x82],
     [CHR 0xE2, CHR 0x80, CHR 0x83], [CHR 0xE2, CHR 0x80, CHR 0x84], [CHR 0xE2, CHR 0x80, CHR 0x85],
     [CHR 0xE2, CHR 0x80, CHR 0x86], [CHR 0xE2, CHR 0x80, CHR 0x87], [CHR 0xE2, CHR 0x80, CHR 0x88],
     [CHR 0xE2, CHR 0x80, CHR 0x89], [CHR 0xE2, CHR 0x80, CHR 0x8A], [CHR 0xE2, CHR 0x80, CHR 0xA8],
     [CHR 0xE2, CHR 0x80, CHR 0xA9], [CHR 0xE2, CHR 0x80, CHR 0xAF], [CHR 0xE2, CHR 0x81, CHR 0x9F],
     [CHR 0xE3, CHR 0x80, CHR 0x80]]"

fun cut_prefix :: "string \<Rightarrow> string \<Rightarrow> string option" where
  "cut_prefix [] s = Some s"
| "cut_prefix (p # ps) [] = None"
| "cut_prefix (p # ps) (c # cs) = (if p = c then cut_prefix ps cs else None)"

fun cut_any :: "string list \<Rightarrow> string \<Rightarrow> string option" where
  "cut_any [] s = None"
| "cut_any (p # ps) s = (case cut_prefix p s of None \<Rightarrow> cut_any ps s | Some r \<Rightarrow> Some r)"

function cut_left :: "string list \<Rightarrow> string \<Rightarrow> string" where
  "cut_left ps s =
    (case cut_any ps s of
       None \<Rightarrow> s
     | Some r \<Rightarrow> if length r < length s then cut_left ps r else s)"
  by pat_completeness auto
termination
  by (relation "measure (\<lambda>(ps, s). length s)") auto

declare cut_left.simps [simp del]

definition trim_space :: "string \<Rightarrow> string" where
  "trim_space s = rev (cut_left (map rev space_seqs) (rev (cut_left space_seqs s)))"

lemmas trim_eval = trim_space_def space_seqs_def cut_left.simps

text \<open>\<open>strings.Split\<close> on a one-byte separator.\<close>

fun split_char :: "char \<Rightarrow> string \<Rightarrow> string list" where
  "split_char c [] = [[]]"
| "split_char c (x # xs) =
    (if x = c then [] # split_char c xs
     else (case split_char c xs of [] \<Rightarrow> [[x]] | w # ws \<Rightarrow> (x # w) # ws))"

fun join_char :: "char \<Rightarrow> string list \<Rightarrow> string" where
  "join_char c [] = []"
| "join_char c [w] = w"
| "join_char c (w # v # ws) = w @ c # join_char c (v # ws)"

lemma split_char_nonempty [simp]: "split_char c s \<noteq> []"
  by (cases s) (auto split: list.splits)

lemma join_split_char: "join_char c (split_char c s) = s"
proof (induction s)
  case (Cons x xs)
  then show ?case
    by (cases "split_char c xs" rule: remdups_adj.cases) auto
qed simp

lemma split_char_no_sep: "w \<in> set (split_char c s) \<Longrightarrow> c \<notin> set w"
  by (induction s arbitrary: w) (auto split: if_splits list.splits)

subsection \<open>Descending keys and stable sorting\<close>

text \<open>A key that orders the other way round: SQL's \<open>DESC\<close> and comparators with \<open>>\<close>.\<close>

datatype 'a desc = Desc (undesc: 'a)

instantiation desc :: (linorder) linorder
begin

definition less_eq_desc :: "'a desc \<Rightarrow> 'a desc \<Rightarrow> bool" where
  "less_eq_desc x y \<longleftrightarrow> undesc y \<le> undesc x"

definition less_desc :: "'a desc \<Rightarrow> 'a desc \<Rightarrow> bool" where
  "less_desc x y \<longleftrightarrow> undesc y < undesc x"

instance
  by standard (auto simp: less_eq_desc_def less_desc_def desc.expand)

end

lemma less_Desc [simp]: "Desc x < Desc y \<longleftrightarrow> y < x"
  and less_eq_Desc [simp]: "Desc x \<le> Desc y \<longleftrightarrow> y \<le> x"
  by (simp_all add: less_desc_def less_eq_desc_def)

text \<open>\<open>sort.SliceStable\<close>: insertion keeps an element behind the ones it does not precede.\<close>

fun insert_stable :: "('a \<Rightarrow> 'a \<Rightarrow> bool) \<Rightarrow> 'a \<Rightarrow> 'a list \<Rightarrow> 'a list" where
  "insert_stable before x [] = [x]"
| "insert_stable before x (y # ys) =
    (if before y x then y # insert_stable before x ys else x # y # ys)"

definition slice_stable :: "('a \<Rightarrow> 'a \<Rightarrow> bool) \<Rightarrow> 'a list \<Rightarrow> 'a list" where
  "slice_stable before xs = foldr (insert_stable before) xs []"

text \<open>
  The contract of a comparator: it is the strict order of some key. Every comparator the
  code sorts with instantiates it, and the facts about the sorted slice follow once.
\<close>

locale key_comparator =
  fixes before :: "'a \<Rightarrow> 'a \<Rightarrow> bool"
    and key :: "'a \<Rightarrow> 'b::linorder"
  assumes before_key: "before x y \<longleftrightarrow> key x < key y"
begin

lemma insert_stable_key: "insert_stable before x ys = insort_key key x ys"
  by (induction ys) (auto simp: before_key)

lemma slice_stable_sort_key: "slice_stable before xs = sort_key key xs"
  by (simp add: slice_stable_def sort_key_def insert_stable_key [abs_def])

lemma slice_stable_sorted: "sorted (map key (slice_stable before xs))"
  by (simp add: slice_stable_sort_key)

lemma slice_stable_mset: "mset (slice_stable before xs) = mset xs"
  by (simp add: slice_stable_sort_key)

lemma slice_stable_set: "set (slice_stable before xs) = set xs"
  by (simp add: slice_stable_sort_key)

lemma slice_stable_length: "length (slice_stable before xs) = length xs"
  by (simp add: slice_stable_sort_key)

lemma slice_stable_take_minimal:
  assumes "x \<in> set (take n (slice_stable before xs))"
    and "y \<in> set (drop n (slice_stable before xs))"
  shows "\<not> before y x"
proof -
  have "sorted (map key (take n (slice_stable before xs)) @ map key (drop n (slice_stable before xs)))"
    using slice_stable_sorted [of xs] by (metis append_take_drop_id map_append)
  with assms have "key x \<le> key y"
    by (simp add: sorted_append)
  then show ?thesis
    by (simp add: before_key not_less)
qed

end

subsection \<open>Machines with an invariant\<close>

text \<open>
  A component with state is a step function over its events. The one obligation of the
  component is that each step keeps the invariant; runs then keep it.
\<close>

locale invariant_machine =
  fixes step :: "'s \<Rightarrow> 'e \<Rightarrow> 's"
    and inv :: "'s \<Rightarrow> bool"
  assumes step_inv: "inv s \<Longrightarrow> inv (step s e)"
begin

lemma run_inv: "inv s \<Longrightarrow> inv (foldl step s es)"
  by (induction es arbitrary: s) (simp_all add: step_inv)

end

subsection \<open>Lists\<close>

lemma map_if_same [simp]: "map (\<lambda>x. if P x then x else x) xs = xs"
  by (induction xs) auto

lemma distinct_map_filterI: "distinct (map f xs) \<Longrightarrow> distinct (map f (filter P xs))"
  by (rule distinct_map_filter)

end
