(* ===== verification/Domain_Rules.thy ===== *)
theory Domain_Rules
  imports Go_Prelude
begin

text \<open>
  The rules of \<open>internal/domain/rules.go\<close>: the choice of at most three daily candidates, the
  state machines of goals, tasks and external imports, the completion types of a plan item
  and the ancestor walk that refuses a cyclic task tree.
\<close>

subsection \<open>Daily candidates\<close>

record candidate =
  c_ID :: id
  c_Status :: string
  c_Priority :: int
  c_Position :: int
  c_Estimate :: int
  c_MinimumAction :: string
  c_GoalActive :: bool
  c_DependencyDone :: bool

definition candidate_eligible :: "candidate \<Rightarrow> bool" where
  "candidate_eligible c \<longleftrightarrow>
    c_ID c \<noteq> [] \<and> c_GoalActive c \<and> c_DependencyDone c \<and> trim_space (c_MinimumAction c) \<noteq> [] \<and>
    (c_Status c = ''ready'' \<or> c_Status c = ''in_progress'')"

text \<open>The loop of \<open>SelectDailyCandidates\<close>, with the set \<open>seen\<close> of the identifiers taken.\<close>

fun collect_candidates :: "candidate list \<Rightarrow> id list \<Rightarrow> candidate list" where
  "collect_candidates [] seen = []"
| "collect_candidates (c # cs) seen =
    (if c_ID c = [] \<or> c_ID c \<in> set seen \<or> \<not> c_GoalActive c \<or> \<not> c_DependencyDone c
        \<or> trim_space (c_MinimumAction c) = []
     then collect_candidates cs seen
     else if c_Status c \<noteq> ''ready'' \<and> c_Status c \<noteq> ''in_progress''
     then collect_candidates cs seen
     else c # collect_candidates cs (c_ID c # seen))"

definition candidate_before :: "candidate \<Rightarrow> candidate \<Rightarrow> bool" where
  "candidate_before a b =
    (if c_Priority a \<noteq> c_Priority b then c_Priority a > c_Priority b
     else if c_Position a \<noteq> c_Position b then c_Position a < c_Position b
     else c_ID a < c_ID b)"

definition SelectDailyCandidates :: "candidate list \<Rightarrow> int \<Rightarrow> candidate list" where
  "SelectDailyCandidates candidates availableMinutes =
    (let selected = slice_stable candidate_before (collect_candidates candidates [])
     in if length selected > 3 then take 3 selected else selected)"

definition candidate_key :: "candidate \<Rightarrow> int desc \<times> int \<times> string" where
  "candidate_key c = (Desc (c_Priority c), c_Position c, c_ID c)"

interpretation cand: key_comparator candidate_before candidate_key
  by unfold_locales (auto simp: candidate_before_def candidate_key_def)

lemma collect_candidates_sound:
  "c \<in> set (collect_candidates cs seen) \<Longrightarrow>
     c \<in> set cs \<and> candidate_eligible c \<and> c_ID c \<notin> set seen"
  by (induction cs seen rule: collect_candidates.induct)
     (auto simp: candidate_eligible_def split: if_splits)

lemma collect_candidates_distinct: "distinct (map c_ID (collect_candidates cs seen))"
  by (induction cs seen rule: collect_candidates.induct)
     (auto dest: collect_candidates_sound)

lemma collect_candidates_complete:
  "c \<in> set cs \<Longrightarrow> candidate_eligible c \<Longrightarrow>
     c_ID c \<in> set seen \<or> c_ID c \<in> c_ID ` set (collect_candidates cs seen)"
  by (induction cs seen rule: collect_candidates.induct)
     (auto simp: candidate_eligible_def)

lemma collect_candidates_ids:
  "c_ID ` set (collect_candidates cs []) = {c_ID c |c. c \<in> set cs \<and> candidate_eligible c}"
  using collect_candidates_sound [of _ cs "[]"] collect_candidates_complete [of _ cs "[]"]
  by fastforce

lemma collect_candidates_length:
  "length (collect_candidates cs []) = card {c_ID c |c. c \<in> set cs \<and> candidate_eligible c}"
  using distinct_card [OF collect_candidates_distinct [of cs "[]"]] collect_candidates_ids [of cs]
  by simp

lemma SelectDailyCandidates_take:
  "SelectDailyCandidates cs m = take 3 (slice_stable candidate_before (collect_candidates cs []))"
  by (simp add: SelectDailyCandidates_def Let_def)

subsection \<open>State machines of goals, tasks and imports\<close>

definition goal_transitions :: "(string, string list) gomap" where
  "goal_transitions =
    [(''draft'', [''active'', ''abandoned'', ''archived'']),
     (''active'', [''paused'', ''completed'', ''abandoned'', ''archived'']),
     (''paused'', [''active'', ''abandoned'', ''archived'']),
     (''completed'', [''active'', ''archived'']),
     (''abandoned'', [''active'', ''archived'']),
     (''archived'', [''active''])]"

definition ValidateGoalTransition :: "string \<Rightarrow> string \<Rightarrow> domain_error option" where
  "ValidateGoalTransition from_s to_s =
    (if map_of goal_transitions from_s \<noteq> None \<and> from_s = to_s then None
     else if to_s \<notin> set (gomap_get [] goal_transitions from_s) then Some ErrInvalidTransition
     else None)"

definition open_task_statuses :: "string list" where
  "open_task_statuses =
    [''ready'', ''in_progress'', ''blocked'', ''paused'', ''cancelled'', ''superseded'']"

definition ValidateTaskTransition :: "string \<Rightarrow> string \<Rightarrow> domain_error option" where
  "ValidateTaskTransition from_s to_s =
    (if from_s \<in> set open_task_statuses \<and> to_s \<in> set open_task_statuses then None
     else Some ErrInvalidTransition)"

definition ValidateExternalImportTransition :: "string \<Rightarrow> string \<Rightarrow> domain_error option" where
  "ValidateExternalImportTransition from_s to_s =
    (if from_s = ''candidate'' \<and> (to_s = ''converted'' \<or> to_s = ''rejected'') then None
     else Some ErrInvalidTransition)"

definition externalImportSources :: "string list" where
  "externalImportSources =
    [''fastinsight'', ''fastnews'', ''fastread'', ''fastwrite'', ''fastppt'', ''fastlab'']"

definition externalImportKinds :: "string list" where
  "externalImportKinds =
    [''candidate_task'', ''research_material'', ''progress_evidence'', ''review_issue'',
     ''generated_report'']"

definition ValidExternalImportSource :: "string \<Rightarrow> bool" where
  "ValidExternalImportSource value \<longleftrightarrow> value \<in> set externalImportSources"

definition ValidExternalImportKind :: "string \<Rightarrow> bool" where
  "ValidExternalImportKind value \<longleftrightarrow> value \<in> set externalImportKinds"

definition ValidateCompletionType :: "string \<Rightarrow> string \<Rightarrow> bool" where
  "ValidateCompletionType value allowedCSV \<longleftrightarrow>
    (\<exists>allowed \<in> set (split_char CHR '','' allowedCSV). trim_space allowed = value)"

subsection \<open>The ancestor walk\<close>

text \<open>
  The loop follows \<open>parents\<close> until the empty identifier; on a parent map with a cycle that
  avoids the task it does not return, which is the value \<open>None\<close>.
\<close>

partial_function (option) WouldCreateCycle ::
    "id \<Rightarrow> id \<Rightarrow> (id, id) gomap \<Rightarrow> bool option" where
  "WouldCreateCycle taskID current parents =
    (if current = [] then Some False
     else if current = taskID then Some True
     else WouldCreateCycle taskID (gomap_get [] parents current) parents)"

text \<open>One step up the tree: the empty identifier marks a root.\<close>

definition parent_step :: "(id, id) gomap \<Rightarrow> (id \<times> id) set" where
  "parent_step parents = {(p, c). gomap_get [] parents c = p \<and> p \<noteq> [] \<and> c \<noteq> []}"

lemma parent_step_Nil: "parent_step [] = {}"
  by (simp add: parent_step_def)

lemma acyclic_parent_step_Nil [simp]: "acyclic (parent_step [])"
  by (simp add: parent_step_Nil acyclic_irrefl)

definition forest :: "(id, id) gomap \<Rightarrow> bool" where
  "forest parents \<longleftrightarrow> wf (parent_step parents)"

lemma parent_step_iff [simp]:
  "(p, c) \<in> parent_step m \<longleftrightarrow> gomap_get [] m c = p \<and> p \<noteq> [] \<and> c \<noteq> []"
  by (simp add: parent_step_def)

lemma WouldCreateCycle_forest:
  assumes "forest parents"
  shows "WouldCreateCycle t p parents =
    Some (p \<noteq> [] \<and> (t, p) \<in> (parent_step parents)\<^sup>*)"
  using assms [unfolded forest_def]
proof (induction p rule: wf_induct_rule)
  case (less p)
  let ?q = "gomap_get [] parents p"
  show ?case
  proof (cases "p = [] \<or> p = t")
    case True
    then show ?thesis by (subst WouldCreateCycle.simps) auto
  next
    case False
    then have unfold: "WouldCreateCycle t p parents = WouldCreateCycle t ?q parents"
      by (subst WouldCreateCycle.simps) simp
    show ?thesis
    proof (cases "?q = []")
      case True
      then have "WouldCreateCycle t ?q parents = Some False"
        by (subst WouldCreateCycle.simps) simp
      moreover have "(t, p) \<notin> (parent_step parents)\<^sup>*"
        using True False by (auto elim: rtranclE)
      ultimately show ?thesis using unfold by simp
    next
      case q: False
      with False have "(?q, p) \<in> parent_step parents" by simp
      from less [OF this] q have "WouldCreateCycle t ?q parents = Some ((t, ?q) \<in> (parent_step parents)\<^sup>*)"
        by simp
      moreover have "(t, p) \<in> (parent_step parents)\<^sup>* \<longleftrightarrow> (t, ?q) \<in> (parent_step parents)\<^sup>*"
        using False q by (auto elim: rtranclE intro: rtrancl_into_rtrancl)
      ultimately show ?thesis using unfold False by simp
    qed
  qed
qed

lemma finite_parent_step: "finite (parent_step m)"
proof -
  have "parent_step m \<subseteq> (\<lambda>c. (gomap_get [] m c, c)) ` (fst ` set m)"
  proof
    fix e assume "e \<in> parent_step m"
    then obtain c where e: "e = (gomap_get [] m c, c)" and "gomap_get [] m c \<noteq> []"
      by (cases e) auto
    then have "map_of m c \<noteq> None"
      by (auto simp: gomap_get_def split: option.splits)
    then have "c \<in> fst ` set m"
      by (simp add: map_of_eq_None_iff)
    with e show "e \<in> (\<lambda>c. (gomap_get [] m c, c)) ` (fst ` set m)"
      by blast
  qed
  then show ?thesis
    by (rule finite_subset) simp
qed

lemma forest_iff_acyclic: "forest m \<longleftrightarrow> acyclic (parent_step m)"
  unfolding forest_def using finite_parent_step wf_iff_acyclic_if_finite by blast

lemma parent_step_update:
  "parent_step ((t, p) # m) \<subseteq> insert (p, t) (parent_step m)"
  by (auto split: if_splits)

lemma parent_step_update_acyclic:
  assumes "acyclic (parent_step m)" and "(t, p) \<notin> (parent_step m)\<^sup>*"
  shows "acyclic (parent_step ((t, p) # m))"
proof -
  have "acyclic (insert (p, t) (parent_step m))"
    using assms by simp
  then show ?thesis
    by (rule acyclic_subset) (rule parent_step_update)
qed

lemma accepted_move_acyclic:
  assumes "acyclic (parent_step parents)"
    and "WouldCreateCycle t p parents = Some False"
  shows "acyclic (parent_step ((t, p) # parents))"
proof (cases "p = []")
  case True
  then have "parent_step ((t, p) # parents) \<subseteq> parent_step parents"
    by (auto split: if_splits)
  with assms(1) show ?thesis by (rule acyclic_subset)
next
  case False
  with assms have "(t, p) \<notin> (parent_step parents)\<^sup>*"
    by (simp add: WouldCreateCycle_forest forest_iff_acyclic)
  with assms(1) show ?thesis by (rule parent_step_update_acyclic)
qed

subsection \<open>Properties\<close>


definition sample_candidate :: "id \<Rightarrow> int \<Rightarrow> candidate" where
  "sample_candidate k priority =
    \<lparr>c_ID = k, c_Status = ''ready'', c_Priority = priority, c_Position = 0, c_Estimate = 30,
     c_MinimumAction = ''write'', c_GoalActive = True, c_DependencyDone = True\<rparr>"

lemma sample_candidate_ID [simp]: "c_ID (sample_candidate k p) = k"
  by (simp add: sample_candidate_def)

lemma sample_candidate_eligible [simp]: "candidate_eligible (sample_candidate k p) \<longleftrightarrow> k \<noteq> []"
  by (simp add: sample_candidate_def candidate_eligible_def trim_eval)


text \<open>
  C2. On a parent map without a cycle the ancestor walk returns, and it answers exactly
  whether the task is the proposed parent or one of its ancestors.
\<close>

theorem WouldCreateCycle_decides:
  assumes "acyclic (parent_step parents)"
  shows "WouldCreateCycle t p parents = Some (p \<noteq> [] \<and> (t, p) \<in> (parent_step parents)\<^sup>*)"
  using assms by (simp add: WouldCreateCycle_forest forest_iff_acyclic)

theorem WouldCreateCycle_decides_witness:
  "WouldCreateCycle ''a'' ''c'' [(''c'', ''b''), (''b'', ''a'')] =
     Some ((''a'', ''c'') \<in> (parent_step [(''c'', ''b''), (''b'', ''a'')])\<^sup>*)"
proof -
  have "acyclic (parent_step [(''c'', ''b''), (''b'', ''a'')])"
    by (rule accepted_move_acyclic, rule accepted_move_acyclic)
       (simp_all add: WouldCreateCycle.simps)
  from WouldCreateCycle_decides [OF this, of "''a''" "''c''"] show ?thesis by simp
qed

text \<open>
  Moving a task under a parent the walk accepted keeps the task tree acyclic, whatever
  the parent map was before.
\<close>

theorem accepted_move_keeps_acyclic:
  assumes "acyclic (parent_step parents)"
    and "WouldCreateCycle t p parents = Some False"
  shows "acyclic (parent_step ((t, p) # parents))"
  using assms by (rule accepted_move_acyclic)

theorem accepted_move_keeps_acyclic_witness:
  "acyclic (parent_step [(''c'', ''a''), (''b'', ''a'')])"
proof -
  have "acyclic (parent_step [(''b'', ''a'')])"
    by (rule accepted_move_acyclic) (simp_all add: WouldCreateCycle.simps)
  moreover have "WouldCreateCycle ''c'' ''a'' [(''b'', ''a'')] = Some False"
    by (simp add: WouldCreateCycle.simps)
  ultimately show ?thesis
    by (rule accepted_move_keeps_acyclic)
qed

end
