(* ===== verification/Go_Time.thy ===== *)
theory Go_Time
  imports Go_Prelude
begin

text \<open>
  What the repository uses of Go's \<open>time\<close> package: the proleptic Gregorian calendar, the text
  form \<open>2006-01-02\<close> of a local date, \<open>time.Date\<close> and \<open>AddDate\<close> in a location, and
  the helpers \<open>resolveZone\<close> (\<open>application/lens.go\<close>), \<open>ParseDateInZone\<close>
  (\<open>application/app.go\<close>) and the week functions of \<open>domain/lens.go\<close>.

  A day is its distance from 1 January of year 1. A location is the lookup function of the
  time zone database: for an instant in seconds it gives the offset in force and the first
  and last second of the period it is in force. Years of local dates lie in 0--9999, the range
  of the four-digit year of the text form.
\<close>

subsection \<open>The calendar\<close>

definition is_leap :: "int \<Rightarrow> bool" where
  "is_leap y \<longleftrightarrow> y mod 4 = 0 \<and> (y mod 100 \<noteq> 0 \<or> y mod 400 = 0)"

definition days_before_year :: "int \<Rightarrow> int" where
  "days_before_year y = 365 * (y - 1) + (y - 1) div 4 - (y - 1) div 100 + (y - 1) div 400"

definition month_lengths :: "int \<Rightarrow> int list" where
  "month_lengths y = [31, if is_leap y then 29 else 28, 31, 30, 31, 30, 31, 31, 30, 31, 30, 31]"

definition days_before_month :: "int \<Rightarrow> int \<Rightarrow> int" where
  "days_before_month y m = sum_list (take (nat (m - 1)) (month_lengths y))"

definition civil_day :: "int \<Rightarrow> int \<Rightarrow> int \<Rightarrow> int" where
  "civil_day y m d = days_before_year y + days_before_month y m + (d - 1)"

lemma div_step:
  fixes y k :: int
  assumes "0 < k"
  shows "y div k = (y - 1) div k + (if y mod k = 0 then 1 else 0)"
proof -
  define q r where "q = (y - 1) div k" and "r = (y - 1) mod k"
  have r: "0 \<le> r" "r < k" using assms by (simp_all add: r_def)
  have y: "y = k * q + (r + 1)" by (simp add: q_def r_def algebra_simps)
  show ?thesis
  proof (cases "r + 1 = k")
    case True
    then have "y = k * (q + 1) + 0" using y by (simp add: algebra_simps)
    then have "y div k = q + 1" "y mod k = 0"
      using assms by (auto intro: int_div_pos_eq int_mod_pos_eq)
    then show ?thesis by (simp add: q_def)
  next
    case False
    then have "y div k = q" "y mod k = r + 1"
      using y r by (auto intro: int_div_pos_eq int_mod_pos_eq)
    then show ?thesis using r by (simp add: q_def)
  qed
qed

lemma leap_cases: "(y::int) mod 100 = 0 \<Longrightarrow> y mod 4 = 0" "(y::int) mod 400 = 0 \<Longrightarrow> y mod 100 = 0"
proof -
  have "(4::int) dvd 100" "(100::int) dvd 400" by simp_all
  then show "y mod 100 = 0 \<Longrightarrow> y mod 4 = 0" "y mod 400 = 0 \<Longrightarrow> y mod 100 = 0"
    by (metis dvd_eq_mod_eq_0 dvd_trans)+
qed

lemma leap_count:
  "(b \<Longrightarrow> a) \<Longrightarrow> (c \<Longrightarrow> b) \<Longrightarrow> (if a \<and> (\<not> b \<or> c) then 366 else 365 :: int) =
     365 + (if a then 1 else 0) - (if b then 1 else 0) + (if c then 1 else 0)"
  by (cases a; cases b; cases c) simp_all

lemma days_before_year_Suc:
  "days_before_year (y + 1) = days_before_year y + (if is_leap y then 366 else 365)"
proof -
  define a b c where "a = (y - 1) div 4" and "b = (y - 1) div 100" and "c = (y - 1) div 400"
  define p q r :: int where "p = (if y mod 4 = 0 then 1 else 0)"
    and "q = (if y mod 100 = 0 then 1 else 0)" and "r = (if y mod 400 = 0 then 1 else 0)"
  have quot: "y div 4 = a + p" "y div 100 = b + q" "y div 400 = c + r"
    unfolding a_def b_def c_def p_def q_def r_def
    by (rule div_step, rule zero_less_numeral)+
  have leap: "(if is_leap y then 366 else 365 :: int) = 365 + p - q + r"
    unfolding is_leap_def p_def q_def r_def 
    using leap_cases by (rule leap_count)
  have "days_before_year (y + 1) = 365 * y + (a + p) - (b + q) + (c + r)"
    unfolding days_before_year_def quot [symmetric] by simp
  moreover have "days_before_year y = 365 * (y - 1) + a - b + c"
    unfolding days_before_year_def a_def b_def c_def by (rule refl)
  ultimately show ?thesis
    unfolding leap by simp
qed

lemma days_before_year_less: "y < z \<Longrightarrow> days_before_year y + 365 \<le> days_before_year z"
proof (induction z rule: int_gr_induct)
  case base
  then show ?case by (simp add: days_before_year_Suc)
next
  case (step z)
  then show ?case by (simp add: days_before_year_Suc split: if_splits)
qed

lemma days_before_year_less_iff [simp]: "days_before_year y < days_before_year z \<longleftrightarrow> y < z"
  using days_before_year_less [of y z] days_before_year_less [of z y]
  by (cases y z rule: linorder_cases) simp_all

text \<open>
  The year of a day. The start value is a year that has begun by then (a year has at most 366
  days, and at least 365 before year 1), from which the loop counts up.
\<close>

function year_from :: "int \<Rightarrow> int \<Rightarrow> int" where
  "year_from y n = (if days_before_year (y + 1) \<le> n then year_from (y + 1) n else y)"
  by pat_completeness auto
termination
  by (relation "measure (\<lambda>(y, n). nat (n + 1 - days_before_year y))")
     (auto simp: days_before_year_Suc split: if_splits)

declare year_from.simps [simp del]

definition year_start :: "int \<Rightarrow> int" where
  "year_start n = (if 0 \<le> n then n div 366 + 1 else n div 365 + 1)"

definition year_of_day :: "int \<Rightarrow> int" where
  "year_of_day n = year_from (year_start n) n"

fun split_yday :: "int list \<Rightarrow> int \<Rightarrow> int \<Rightarrow> int \<times> int" where
  "split_yday [] m n = (m, n + 1)"
| "split_yday (l # ls) m n = (if n < l then (m, n + 1) else split_yday ls (m + 1) (n - l))"

definition civil_of_day :: "int \<Rightarrow> int \<times> int \<times> int" where
  "civil_of_day n =
    (let y = year_of_day n; (m, d) = split_yday (month_lengths y) 1 (n - days_before_year y)
     in (y, m, d))"

lemma year_from_bounds:
  "days_before_year y \<le> n \<Longrightarrow>
     days_before_year (year_from y n) \<le> n \<and> n < days_before_year (year_from y n + 1)"
proof (induction y n rule: year_from.induct)
  case (1 y n)
  then show ?case by (cases "days_before_year (y + 1) \<le> n") (auto simp: year_from.simps [of y n])
qed

lemma days_before_year_upper: "0 \<le> y \<Longrightarrow> days_before_year (y + 1) \<le> 366 * y"
proof (induction y rule: int_ge_induct)
  case base
  then show ?case by (simp add: days_before_year_def)
next
  case (step y)
  then show ?case using days_before_year_Suc [of "y + 1"] by (simp split: if_splits)
qed

lemma days_before_year_lower: "y \<le> 0 \<Longrightarrow> days_before_year (y + 1) \<le> 365 * y"
proof (induction y rule: int_le_induct)
  case base
  then show ?case by (simp add: days_before_year_def)
next
  case (step y)
  then show ?case using days_before_year_Suc [of y] by (simp split: if_splits)
qed

lemma year_start_le: "days_before_year (year_start n) \<le> n"
proof (cases "0 \<le> n")
  case True
  have "366 * (n div 366) \<le> n" by (metis mult_div_mod_eq le_add_same_cancel1 pos_mod_sign zero_less_numeral)
  moreover have "0 \<le> n div 366" using True by (simp add: pos_imp_zdiv_nonneg_iff)
  ultimately show ?thesis
    using True days_before_year_upper [of "n div 366"] unfolding year_start_def by simp
next
  case False
  have "365 * (n div 365) \<le> n" by (metis mult_div_mod_eq le_add_same_cancel1 pos_mod_sign zero_less_numeral)
  moreover have "n div 365 \<le> 0" using False div_nonpos_pos_le0 [of n 365] by simp
  ultimately show ?thesis
    using False days_before_year_lower [of "n div 365"] unfolding year_start_def by simp
qed

lemma year_of_day_bounds:
  "days_before_year (year_of_day n) \<le> n" "n < days_before_year (year_of_day n + 1)"
  unfolding year_of_day_def using year_from_bounds [OF year_start_le] by blast+

lemma year_of_day_eq:
  assumes "days_before_year y \<le> n" and "n < days_before_year (y + 1)"
  shows "year_of_day n = y"
proof -
  have "days_before_year y < days_before_year (year_of_day n + 1)"
    "days_before_year (year_of_day n) < days_before_year (y + 1)"
    using assms year_of_day_bounds [of n] by linarith+
  then show ?thesis by simp
qed

lemma split_yday_valid:
  assumes "0 \<le> n" and "n < sum_list ls"
  shows "\<exists>k < length ls. split_yday ls m n = (m + int k, n - sum_list (take k ls) + 1) \<and>
    sum_list (take k ls) \<le> n \<and> n < sum_list (take (Suc k) ls)"
  using assms
proof (induction ls m n rule: split_yday.induct)
  case (2 l ls m n)
  show ?case
  proof (cases "n < l")
    case True
    with 2 show ?thesis by (intro exI [of _ 0]) simp
  next
    case False
    with 2 obtain k where "k < length ls"
      "split_yday ls (m + 1) (n - l) = (m + 1 + int k, n - l - sum_list (take k ls) + 1)"
      "sum_list (take k ls) \<le> n - l" "n - l < sum_list (take (Suc k) ls)" by auto
    with False show ?thesis by (intro exI [of _ "Suc k"]) auto
  qed
qed simp

lemma split_yday_eq:
  assumes "k < length ls" and "0 \<le> d" and "d < ls ! k" and "\<forall>l \<in> set ls. 0 \<le> l"
  shows "split_yday ls m (sum_list (take k ls) + d) = (m + int k, d + 1)"
  using assms
proof (induction k arbitrary: ls m)
  case 0
  then show ?case by (cases ls) auto
next
  case (Suc k)
  then obtain l ls' where ls: "ls = l # ls'" by (cases ls) auto
  have "0 \<le> sum_list (take k ls')"
    using Suc.prems ls by (intro sum_list_nonneg) (auto dest: in_set_takeD)
  then have "\<not> sum_list (take k ls') + d + l < l" using Suc.prems by simp
  moreover have "split_yday ls' (m + 1) (sum_list (take k ls') + d) = (m + 1 + int k, d + 1)"
    using Suc.prems ls by (intro Suc.IH) auto
  ultimately show ?case by (simp add: ls add.assoc)
qed

lemma month_lengths_facts:
  "length (month_lengths y) = 12" "sum_list (month_lengths y) = (if is_leap y then 366 else 365)"
  "\<forall>l \<in> set (month_lengths y). 28 \<le> l \<and> l \<le> 31"
  by (simp_all add: month_lengths_def)

definition valid_civil :: "int \<Rightarrow> int \<Rightarrow> int \<Rightarrow> bool" where
  "valid_civil y m d \<longleftrightarrow>
    1 \<le> m \<and> m \<le> 12 \<and> 1 \<le> d \<and> d \<le> month_lengths y ! nat (m - 1)"

lemma civil_of_day_valid:
  assumes "civil_of_day n = (y, m, d)"
  shows "valid_civil y m d \<and> civil_day y m d = n \<and> y = year_of_day n"
proof -
  let ?y = "year_of_day n" and ?r = "n - days_before_year (year_of_day n)"
  have "0 \<le> ?r" "?r < sum_list (month_lengths ?y)"
    using year_of_day_bounds [of n] by (auto simp: month_lengths_facts days_before_year_Suc)
  then obtain k where k: "k < 12"
    and eq: "split_yday (month_lengths ?y) 1 ?r =
      (1 + int k, ?r - sum_list (take k (month_lengths ?y)) + 1)"
    and lo: "sum_list (take k (month_lengths ?y)) \<le> ?r"
    and hi: "?r < sum_list (take (Suc k) (month_lengths ?y))"
    using split_yday_valid [of ?r "month_lengths ?y" 1] by (auto simp: month_lengths_facts)
  have res: "y = ?y" "m = 1 + int k" "d = ?r - sum_list (take k (month_lengths ?y)) + 1"
    using assms unfolding civil_of_day_def Let_def eq by auto
  have "take (Suc k) (month_lengths ?y) = take k (month_lengths ?y) @ [month_lengths ?y ! k]"
    using k by (intro take_Suc_conv_app_nth) (simp add: month_lengths_facts)
  with lo hi k res show ?thesis
    by (simp add: valid_civil_def civil_day_def days_before_month_def)
qed

lemma civil_day_range:
  assumes "valid_civil y m d"
  shows "days_before_year y \<le> civil_day y m d" "civil_day y m d < days_before_year (y + 1)"
    "civil_of_day (civil_day y m d) = (y, m, d)"
proof -
  define k where "k = nat (m - 1)"
  have k: "k < 12" "m = 1 + int k" "1 \<le> d" "d \<le> month_lengths y ! k"
    using assms by (auto simp: valid_civil_def k_def)
  let ?t = "\<lambda>i. sum_list (take i (month_lengths y))"
  have nonneg: "0 \<le> ?t i" "0 \<le> sum_list (drop i (month_lengths y))" for i
    using month_lengths_facts(3) [of y]
    by (auto intro!: sum_list_nonneg dest!: in_set_takeD in_set_dropD)
  have "?t (Suc k) = ?t k + month_lengths y ! k"
    using k by (subst take_Suc_conv_app_nth) (simp_all add: month_lengths_facts)
  moreover have "?t (Suc k) \<le> sum_list (month_lengths y)"
    using nonneg(2) [of "Suc k"] by (metis append_take_drop_id sum_list_append le_add_same_cancel1)
  ultimately show lo: "days_before_year y \<le> civil_day y m d"
    and hi: "civil_day y m d < days_before_year (y + 1)"
    using k nonneg(1) [of k] unfolding civil_day_def days_before_month_def k_def [symmetric]
    by (auto simp: days_before_year_Suc month_lengths_facts)
  have y: "year_of_day (civil_day y m d) = y" using lo hi by (rule year_of_day_eq)
  have "split_yday (month_lengths y) 1 (?t k + (d - 1)) = (1 + int k, d - 1 + 1)"
    using k month_lengths_facts [of y] by (intro split_yday_eq) auto
  then show "civil_of_day (civil_day y m d) = (y, m, d)"
    unfolding civil_of_day_def Let_def y unfolding civil_day_def days_before_month_def k_def [symmetric]
    using k by simp
qed

subsection \<open>The text form of a local date\<close>

definition digit :: "int \<Rightarrow> char" where
  "digit n = char_of (48 + nat n)"

definition digit_value :: "char \<Rightarrow> int" where
  "digit_value c = int (of_char c) - 48"

definition is_digit :: "char \<Rightarrow> bool" where
  "is_digit c \<longleftrightarrow> 0 \<le> digit_value c \<and> digit_value c \<le> 9"

definition pad2 :: "int \<Rightarrow> string" where
  "pad2 n = [digit (n div 10), digit (n mod 10)]"

definition pad4 :: "int \<Rightarrow> string" where
  "pad4 n = pad2 (n div 100) @ pad2 (n mod 100)"

text \<open>\<open>Format("2006-01-02")\<close>.\<close>

definition format_date :: "int \<Rightarrow> string" where
  "format_date n = (let (y, m, d) = civil_of_day n
     in pad4 y @ CHR ''-'' # pad2 m @ CHR ''-'' # pad2 d)"

text \<open>\<open>time.Parse("2006-01-02", s)\<close>: the day, or \<open>None\<close> for its error.\<close>

definition parse_date :: "string \<Rightarrow> int option" where
  "parse_date s = (case s of
     [y1, y2, y3, y4, s1, m1, m2, s2, d1, d2] \<Rightarrow>
       if s1 = CHR ''-'' \<and> s2 = CHR ''-'' \<and> list_all is_digit [y1, y2, y3, y4, m1, m2, d1, d2]
       then
         let y = digit_value y1 * 1000 + digit_value y2 * 100 + digit_value y3 * 10 + digit_value y4;
             m = digit_value m1 * 10 + digit_value m2;
             d = digit_value d1 * 10 + digit_value d2
         in if valid_civil y m d then Some (civil_day y m d) else None
       else None
   | _ \<Rightarrow> None)"

definition date_range :: "int \<Rightarrow> bool" where
  "date_range n \<longleftrightarrow> days_before_year 0 \<le> n \<and> n < days_before_year 10000"

lemma digit_value_digit [simp]: "0 \<le> n \<Longrightarrow> n \<le> 9 \<Longrightarrow> digit_value (digit n) = n"
  by (simp add: digit_value_def digit_def)

lemma is_digit_digit [simp]: "0 \<le> n \<Longrightarrow> n \<le> 9 \<Longrightarrow> is_digit (digit n)"
  by (simp add: is_digit_def)

lemma digit_less [simp]: "0 \<le> a \<Longrightarrow> a \<le> 9 \<Longrightarrow> 0 \<le> b \<Longrightarrow> b \<le> 9 \<Longrightarrow> digit a < digit b \<longleftrightarrow> a < b"
  by (auto simp: digit_def less_char_def)

lemma digit_eq [simp]: "0 \<le> a \<Longrightarrow> a \<le> 9 \<Longrightarrow> 0 \<le> b \<Longrightarrow> b \<le> 9 \<Longrightarrow> digit a = digit b \<longleftrightarrow> a = b"
  by (metis digit_value_digit)

lemma civil_of_day_range:
  assumes "date_range n" and "civil_of_day n = (y, m, d)"
  shows "0 \<le> y \<and> y < 10000 \<and> 1 \<le> m \<and> m \<le> 12 \<and> 1 \<le> d \<and> d \<le> 31"
proof -
  from assms(2) have v: "valid_civil y m d" and y: "y = year_of_day n"
    using civil_of_day_valid by blast+
  have "days_before_year 0 < days_before_year (y + 1)" "days_before_year y < days_before_year 10000"
    using assms(1) year_of_day_bounds [of n] unfolding date_range_def y by linarith+
  then have "0 \<le> y \<and> y < 10000" by simp
  moreover have "nat (m - 1) < length (month_lengths y)"
    using v by (auto simp: valid_civil_def month_lengths_facts)
  then have "month_lengths y ! nat (m - 1) \<le> 31"
    using month_lengths_facts(3) [of y] nth_mem by blast
  ultimately show ?thesis using v by (auto simp: valid_civil_def)
qed

lemma two_digits: "0 \<le> n \<Longrightarrow> n \<le> 99 \<Longrightarrow>
    0 \<le> n div 10 \<and> n div 10 \<le> 9 \<and> 0 \<le> n mod 10 \<and> n mod 10 \<le> (9::int)"
  by auto

lemma hundreds: "0 \<le> n \<Longrightarrow> n < 10000 \<Longrightarrow>
    0 \<le> n div 100 \<and> n div 100 \<le> 99 \<and> 0 \<le> n mod 100 \<and> n mod 100 \<le> (99::int)"
  by auto

lemma parse_digits:
  assumes "0 \<le> a \<and> a \<le> 9" "0 \<le> b \<and> b \<le> 9" "0 \<le> c \<and> c \<le> 9" "0 \<le> e \<and> e \<le> 9"
    "0 \<le> f \<and> f \<le> 9" "0 \<le> g \<and> g \<le> 9" "0 \<le> h \<and> h \<le> 9" "0 \<le> i \<and> i \<le> 9"
  shows "parse_date [digit a, digit b, digit c, digit e, CHR ''-'', digit f, digit g, CHR ''-'', digit h, digit i] =
    (let y = a * 1000 + b * 100 + c * 10 + e; m = f * 10 + g; d = h * 10 + i
     in if valid_civil y m d then Some (civil_day y m d) else None)"
  using assms by (simp add: parse_date_def)

lemma parse_format_date:
  assumes "date_range n"
  shows "parse_date (format_date n) = Some n"
proof -
  obtain y m d where c: "civil_of_day n = (y, m, d)" by (cases "civil_of_day n") auto
  from civil_of_day_range [OF assms c]
  have r: "0 \<le> y" "y < 10000" "0 \<le> m" "m \<le> 99" "0 \<le> d" "d \<le> 99" by auto
  define h l where "h = y div 100" and "l = y mod 100"
  have hl: "0 \<le> h" "h \<le> 99" "0 \<le> l" "l \<le> 99" "y = h * 100 + l"
    using hundreds [of y] r by (simp_all add: h_def l_def)
  note t = two_digits [OF hl(1,2)] two_digits [OF hl(3,4)] two_digits [OF r(3,4)] two_digits [OF r(5,6)]
  have split10: "k = k div 10 * 10 + k mod 10" for k :: int by simp
  have y: "h div 10 * 1000 + h mod 10 * 100 + l div 10 * 10 + l mod 10 = y"
    using hl(5) split10 [of h] split10 [of l] by linarith
  have fmt: "format_date n = [digit (h div 10), digit (h mod 10), digit (l div 10), digit (l mod 10),
      CHR ''-'', digit (m div 10), digit (m mod 10), CHR ''-'', digit (d div 10), digit (d mod 10)]"
    using c by (simp add: format_date_def pad2_def pad4_def h_def l_def)
  have md: "m div 10 * 10 + m mod 10 = m" "d div 10 * 10 + d mod 10 = d" by simp_all
  from civil_of_day_valid [OF c] have v: "valid_civil y m d" "civil_day y m d = n" by blast+
  show ?thesis
    unfolding fmt using t by (subst parse_digits) (simp_all only: y md v Let_def if_True conj_absorb)
qed

lemma append_less:
  fixes xs ys us vs :: string
  shows "length xs = length ys \<Longrightarrow> xs @ us < ys @ vs \<longleftrightarrow> xs < ys \<or> xs = ys \<and> us < vs"
  by (induction xs ys rule: list_induct2) auto

lemma radix_less:
  fixes p q r u :: int
  assumes "0 \<le> q" "q < k" "0 \<le> u" "u < k"
  shows "k * p + q < k * r + u \<longleftrightarrow> p < r \<or> p = r \<and> q < u"
proof (cases p r rule: linorder_cases)
  case less
  then have "k * (p + 1) \<le> k * r" using assms by (intro mult_left_mono) simp_all
  then have "k * p + k \<le> k * r" by (simp add: algebra_simps)
  with assms have "k * p + q < k * r + u" by linarith
  with less show ?thesis by simp
next
  case greater
  then have "k * (r + 1) \<le> k * p" using assms by (intro mult_left_mono) simp_all
  then have "k * r + k \<le> k * p" by (simp add: algebra_simps)
  with assms have "\<not> k * p + q < k * r + u" by linarith
  with greater show ?thesis by simp
qed simp

lemma radix_split: "0 < k \<Longrightarrow> a < b \<longleftrightarrow> a div k < b div k \<or> a div k = b div k \<and> a mod k < b mod (k::int)"
  using radix_less [of "a mod k" k "b mod k" "a div k" "b div k"] by simp

lemma radix_eq: "a = b \<longleftrightarrow> a div k = b div k \<and> a mod k = b mod (k::int)"
  by (metis mult_div_mod_eq)

lemma pad2_less:
  assumes "0 \<le> a" "a \<le> 99" "0 \<le> b" "b \<le> 99"
  shows "pad2 a < pad2 b \<longleftrightarrow> a < b" "pad2 a = pad2 b \<longleftrightarrow> a = b"
  unfolding pad2_def radix_split [of 10 a b, OF zero_less_numeral] radix_eq [of a b 10]
  using two_digits [OF assms(1,2)] two_digits [OF assms(3,4)] by (simp_all only: Cons_less_Cons
      digit_less digit_eq list.inject simp_thms less_irrefl)

lemma pad4_less:
  assumes "0 \<le> a" "a < 10000" "0 \<le> b" "b < 10000"
  shows "pad4 a < pad4 b \<longleftrightarrow> a < b" "pad4 a = pad4 b \<longleftrightarrow> a = b"
proof -
  note t = hundreds [OF assms(1,2)] hundreds [OF assms(3,4)]
  have l: "length (pad2 (a div 100)) = length (pad2 (b div 100))" by (simp add: pad2_def)
  show "pad4 a < pad4 b \<longleftrightarrow> a < b" "pad4 a = pad4 b \<longleftrightarrow> a = b"
    unfolding pad4_def radix_split [of 100 a b, OF zero_less_numeral] radix_eq [of a b 100]
      append_less [OF l] append_eq_append_conv [OF disjI1, OF l]
    using t by (simp_all only: pad2_less)
qed

lemma days_before_month_mono:
  assumes "i < j"
  shows "sum_list (take i (month_lengths y)) + (if i < 12 then month_lengths y ! i else 0)
    \<le> sum_list (take j (month_lengths y))"
proof -
  let ?ls = "month_lengths y"
  have "take j ?ls = take (Suc i) ?ls @ take (j - Suc i) (drop (Suc i) ?ls)"
    using assms by (metis Suc_leI le_add_diff_inverse take_add)
  moreover have "0 \<le> sum_list (take (j - Suc i) (drop (Suc i) ?ls))"
    using month_lengths_facts(3) [of y]
    by (auto intro!: sum_list_nonneg dest!: in_set_takeD in_set_dropD)
  moreover have "sum_list (take (Suc i) ?ls) = sum_list (take i ?ls) + (if i < 12 then ?ls ! i else 0)"
  proof (cases "i < 12")
    case True
    then show ?thesis by (subst take_Suc_conv_app_nth) (simp_all add: month_lengths_facts)
  next
    case False
    then show ?thesis by (simp add: month_lengths_facts)
  qed
  ultimately show ?thesis by simp
qed

lemma civil_day_less:
  assumes "valid_civil y m d" and "valid_civil z k e" and "civil_day y m d < civil_day z k e"
  shows "y < z \<or> y = z \<and> (m < k \<or> m = k \<and> d < e)"
proof -
  have "days_before_year y < days_before_year (z + 1)"
    using assms civil_day_range(1) [OF assms(1)] civil_day_range(2) [OF assms(2)] by linarith
  then have yz: "y \<le> z" by simp
  show ?thesis
  proof (cases "y = z \<and> k < m")
    case True
    then have "nat (k - 1) < nat (m - 1)" "nat (k - 1) < 12"
      using assms(1,2) by (auto simp: valid_civil_def)
    with days_before_month_mono [OF this(1), of y] True assms show ?thesis
      by (auto simp: civil_day_def days_before_month_def valid_civil_def)
  next
    case False
    with yz assms show ?thesis by (auto simp: civil_day_def)
  qed
qed

lemma format_date_less_mono:
  assumes "date_range n" and "date_range n'" and "n < n'"
  shows "format_date n < format_date n'"
proof -
  obtain y m d where c: "civil_of_day n = (y, m, d)" by (cases "civil_of_day n") auto
  obtain z k e where c': "civil_of_day n' = (z, k, e)" by (cases "civil_of_day n'") auto
  have v: "valid_civil y m d" "civil_day y m d = n" and v': "valid_civil z k e" "civil_day z k e = n'"
    using civil_of_day_valid [OF c] civil_of_day_valid [OF c'] by blast+
  have ord: "y < z \<or> y = z \<and> (m < k \<or> m = k \<and> d < e)"
    using civil_day_less [OF v(1) v'(1)] v(2) v'(2) assms(3) by blast
  have r: "0 \<le> y" "y < 10000" "0 \<le> m" "m \<le> 99" "0 \<le> d" "d \<le> 99"
    "0 \<le> z" "z < 10000" "0 \<le> k" "k \<le> 99" "0 \<le> e" "e \<le> 99"
    using civil_of_day_range [OF assms(1) c] civil_of_day_range [OF assms(2) c'] by auto
  have len: "length (pad4 y) = length (pad4 z)" "length (pad2 m) = length (pad2 k)"
    by (simp_all add: pad4_def pad2_def)
  have md: "pad2 m @ CHR ''-'' # pad2 d < pad2 k @ CHR ''-'' # pad2 e \<longleftrightarrow> m < k \<or> m = k \<and> d < e"
    unfolding append_less [OF len(2)] Cons_less_Cons
    by (simp only: pad2_less [OF r(3,4) r(9,10)] pad2_less [OF r(5,6) r(11,12)] less_irrefl simp_thms)
  have "format_date n < format_date n' \<longleftrightarrow> y < z \<or> y = z \<and> (m < k \<or> m = k \<and> d < e)"
    unfolding format_date_def c c' Let_def split_conv append_less [OF len(1)] Cons_less_Cons md
    by (simp only: pad4_less [OF r(1,2) r(7,8)] less_irrefl simp_thms)
  with ord show ?thesis by blast
qed

lemma format_date_less_iff:
  assumes "date_range n" and "date_range n'"
  shows "format_date n < format_date n' \<longleftrightarrow> n < n'"
  using format_date_less_mono [OF assms] format_date_less_mono [OF assms(2,1)]
  by (cases n n' rule: linorder_cases) auto

lemma format_date_eq_iff:
  assumes "date_range n" and "date_range n'"
  shows "format_date n = format_date n' \<longleftrightarrow> n = n'"
  using parse_format_date [OF assms(1)] parse_format_date [OF assms(2)] by (metis option.inject)

subsection \<open>Locations\<close>

type_synonym location = "int \<Rightarrow> int \<times> int \<times> int"

definition second :: int where
  "second = 1000000000"

definition fixed_zone :: "int \<Rightarrow> location" where
  "fixed_zone offset = (\<lambda>_. (offset, - (2 ^ 63), 2 ^ 63 - 1))"

definition time_UTC :: location where
  "time_UTC = fixed_zone 0"

text \<open>Seconds of the local clock, and the local day, at an instant.\<close>

definition local_seconds :: "location \<Rightarrow> time \<Rightarrow> int" where
  "local_seconds loc t = t div second + fst (loc (t div second))"

definition local_day :: "location \<Rightarrow> time \<Rightarrow> int" where
  "local_day loc t = local_seconds loc t div 86400"

text \<open>
  \<open>time.Date\<close> with the day and the second of the day given: the offset is looked up at the
  clock reading taken as UTC, and looked up again if that period does not contain the result.
\<close>

definition time_date :: "location \<Rightarrow> int \<Rightarrow> int \<Rightarrow> time" where
  "time_date loc day secs =
    (let u = day * 86400 + secs; (off, st, en) = loc u
     in if off = 0 then u * second
        else let utc = u - off;
                 off' = (if utc < st \<or> en \<le> utc then fst (loc utc) else off)
             in (u - off') * second)"

definition add_date :: "location \<Rightarrow> time \<Rightarrow> int \<Rightarrow> time" where
  "add_date loc t k =
    time_date loc (local_day loc t + k) (local_seconds loc t mod 86400) + t mod second"

definition format_local :: "location \<Rightarrow> time \<Rightarrow> string" where
  "format_local loc t = format_date (local_day loc t)"

definition parse_in_location :: "string \<Rightarrow> location \<Rightarrow> time option" where
  "parse_in_location s loc = map_option (\<lambda>n. time_date loc n 0) (parse_date s)"

text \<open>\<open>ParseDateInZone\<close>, with the time zone database \<open>zones\<close>.\<close>

definition ParseDateInZone :: "(string \<Rightarrow> location option) \<Rightarrow> string \<Rightarrow> string \<Rightarrow> unit result" where
  "ParseDateInZone zones date zone =
    (case zones zone of
       None \<Rightarrow> Inl ErrValidation
     | Some loc \<Rightarrow> (case parse_in_location date loc of None \<Rightarrow> Inl ErrValidation | Some _ \<Rightarrow> Inr ()))"

definition defaultTimezone :: string where
  "defaultTimezone = ''Asia/Shanghai''"

fun resolveZone :: "(string \<Rightarrow> location option) \<Rightarrow> string list \<Rightarrow> location \<times> string" where
  "resolveZone zones [] =
    (case zones defaultTimezone of
       None \<Rightarrow> (fixed_zone (8 * 3600), defaultTimezone)
     | Some loc \<Rightarrow> (loc, defaultTimezone))"
| "resolveZone zones (candidate # requested) =
    (let name = trim_space candidate
     in if name = [] then resolveZone zones requested
        else case zones name of
          Some loc \<Rightarrow> (loc, name)
        | None \<Rightarrow> resolveZone zones requested)"

text \<open>
  Midnight of a local day exists in a location when the two lookups agree: the result of
  \<open>time.Date\<close> then reads as that day.
\<close>

definition has_midnight :: "location \<Rightarrow> int \<Rightarrow> bool" where
  "has_midnight loc n \<longleftrightarrow> local_seconds loc (time_date loc n 0) = n * 86400"

lemma second_pos [simp]: "0 < second" "second \<noteq> 0"
  by (simp_all add: second_def)

lemma local_day_midnight: "has_midnight loc n \<Longrightarrow> local_day loc (time_date loc n 0) = n"
  by (simp add: has_midnight_def local_day_def)

lemma time_date_whole: "time_date loc n k mod second = 0"
  by (auto simp: time_date_def Let_def split_beta)

lemma add_date_midnight:
  assumes "has_midnight loc n"
  shows "add_date loc (time_date loc n 0) k = time_date loc (n + k) 0"
  using assms
  by (simp add: add_date_def local_day_midnight time_date_whole) (simp add: has_midnight_def)

lemma has_midnight_fixed: "has_midnight (fixed_zone off) n"
  by (simp add: has_midnight_def local_seconds_def time_date_def fixed_zone_def Let_def)

lemma format_local_midnight:
  "has_midnight loc n \<Longrightarrow> format_local loc (time_date loc n 0) = format_date n"
  by (simp add: format_local_def local_day_midnight)

end
