(* ===== verification/Json_Values.thy ===== *)
theory Json_Values
  imports Go_Time Complex_Main "HOL-Library.AList"
begin

text \<open>
  JSON values as \<open>encoding/json\<close> decodes them into \<open>any\<close>: \<open>nil\<close>, \<open>bool\<close>, \<open>float64\<close> (a rational
  here), \<open>string\<close>, \<open>[]any\<close> and \<open>map[string]any\<close>. An object lists its keys once, in any order; the
  text of a value is not modelled, only the value that is written and read back. Two more
  functions of the standard library the code leans on are \<open>strconv.Itoa\<close> and \<open>strconv.Atoi\<close>.
\<close>

datatype json =
    JNull
  | JBool bool
  | JNumber rat
  | JString string
  | JArray "json list"
  | JObject "(string \<times> json) list"

subsection \<open>Numbers as text\<close>

function itoa_nat :: "nat \<Rightarrow> string" where
  "itoa_nat n = (if n < 10 then [digit (int n)] else itoa_nat (n div 10) @ [digit (int (n mod 10))])"
  by pat_completeness auto
termination by (relation "measure id") auto

declare itoa_nat.simps [simp del]

definition strconv_Itoa :: "int \<Rightarrow> string" where
  "strconv_Itoa n = (if n < 0 then CHR ''-'' # itoa_nat (nat (- n)) else itoa_nat (nat n))"

definition digits_value :: "string \<Rightarrow> int" where
  "digits_value s = foldl (\<lambda>v c. 10 * v + digit_value c) 0 s"

text \<open>An optional sign, at least one digit, and a value in the range of an \<open>int\<close>.\<close>

fun split_sign :: "string \<Rightarrow> int \<times> string" where
  "split_sign [] = (1, [])"
| "split_sign (c # cs) =
    (if c = CHR ''-'' then (- 1, cs) else if c = CHR ''+'' then (1, cs) else (1, c # cs))"

definition strconv_Atoi :: "string \<Rightarrow> int option" where
  "strconv_Atoi s =
    (let (sign, ds) = split_sign s; n = sign * digits_value ds
     in if ds = [] \<or> \<not> list_all is_digit ds then None
        else if n < - (2 ^ 63) \<or> 2 ^ 63 \<le> n then None
        else Some n)"

lemma digits_value_snoc: "digits_value (s @ [c]) = 10 * digits_value s + digit_value c"
  by (simp add: digits_value_def)

lemma itoa_nat_digits:
  "digits_value (itoa_nat n) = int n \<and> list_all is_digit (itoa_nat n) \<and> itoa_nat n \<noteq> [] \<and>
   hd (itoa_nat n) = digit (digit_value (hd (itoa_nat n)))"
proof (induction n rule: itoa_nat.induct)
  case (1 n)
  show ?case
  proof (cases "n < 10")
    case True
    then show ?thesis by (subst (1 2 3 4 5) itoa_nat.simps) (simp add: digits_value_def)
  next
    case False
    note IH = 1 [OF False]
    have eq: "itoa_nat n = itoa_nat (n div 10) @ [digit (int (n mod 10))]"
      using False by (subst itoa_nat.simps) simp
    have r: "0 \<le> int (n mod 10)" "int (n mod 10) \<le> 9" by auto
    have "digits_value (itoa_nat n) = 10 * int (n div 10) + int (n mod 10)"
      unfolding eq digits_value_snoc using IH r by simp
    also have "\<dots> = int n" by presburger
    finally show ?thesis unfolding eq using IH r by simp
  qed
qed

lemma is_digit_not_sign: "is_digit c \<Longrightarrow> c \<noteq> CHR ''-'' \<and> c \<noteq> CHR ''+''"
  by (auto simp: is_digit_def digit_value_def)

lemma split_sign_itoa: "split_sign (itoa_nat n) = (1, itoa_nat n)"
proof (cases "itoa_nat n")
  case (Cons c cs)
  then have "is_digit c" using itoa_nat_digits [of n] by simp
  from is_digit_not_sign [OF this] Cons show ?thesis by simp
qed simp

lemma strconv_Itoa_nat: "strconv_Itoa (int n) = itoa_nat n"
  by (simp add: strconv_Itoa_def)

lemma strconv_Atoi_Itoa:
  assumes "int n < 2 ^ 63"
  shows "strconv_Atoi (strconv_Itoa (int n)) = Some (int n)"
proof -
  have "\<not> int n < - (2 ^ 63)" "\<not> 2 ^ 63 \<le> int n" using assms by linarith+
  then show ?thesis
    using itoa_nat_digits [of n] by (simp only: strconv_Itoa_nat strconv_Atoi_def split_sign_itoa Let_def) simp
qed

lemma itoa_inj: "strconv_Itoa (int m) = strconv_Itoa (int n) \<longleftrightarrow> m = n"
  using itoa_nat_digits [of m] itoa_nat_digits [of n] unfolding strconv_Itoa_nat by (metis of_nat_eq_iff)

subsection \<open>Objects\<close>

text \<open>A missing key reads as \<open>nil\<close>.\<close>

definition obj_get :: "(string \<times> json) list \<Rightarrow> string \<Rightarrow> json" where
  "obj_get kvs k = (case map_of kvs k of None \<Rightarrow> JNull | Some v \<Rightarrow> v)"

definition obj_set :: "(string \<times> json) list \<Rightarrow> string \<Rightarrow> json \<Rightarrow> (string \<times> json) list" where
  "obj_set kvs k v = AList.update k v kvs"

lemma obj_get_set [simp]: "obj_get (obj_set kvs k v) j = (if j = k then v else obj_get kvs j)"
  by (simp add: obj_get_def obj_set_def update_conv')

text \<open>Go marshals the keys it is given; the values of a struct's fields, the ones left out by \<open>omitempty\<close> missing.\<close>

definition omit_if :: "bool \<Rightarrow> string \<Rightarrow> json \<Rightarrow> (string \<times> json) list" where
  "omit_if b k v = (if b then [] else [(k, v)])"

subsection \<open>Decoding into a struct\<close>

text \<open>
  What \<open>json.Unmarshal\<close> stores into a field of each type: a missing key or \<open>null\<close> leaves the
  zero value, a value of another kind is an error. Keys are compared exactly; the case-insensitive
  match of the decoder, which texts written by the program never need, is left out.
\<close>

definition dec_string :: "json \<Rightarrow> string result" where
  "dec_string v = (case v of JNull \<Rightarrow> Inr [] | JString s \<Rightarrow> Inr s | _ \<Rightarrow> Inl ErrJSON)"

definition dec_bool :: "json \<Rightarrow> bool result" where
  "dec_bool v = (case v of JNull \<Rightarrow> Inr False | JBool b \<Rightarrow> Inr b | _ \<Rightarrow> Inl ErrJSON)"

text \<open>A number decodes into an \<open>int\<close> when it is whole and in range.\<close>

definition dec_int :: "json \<Rightarrow> int result" where
  "dec_int v = (case v of JNull \<Rightarrow> Inr 0
     | JNumber r \<Rightarrow>
         (case quotient_of r of (n, d) \<Rightarrow>
            if d = 1 \<and> - (2 ^ 63) \<le> n \<and> n < 2 ^ 63 then Inr n else Inl ErrJSON)
     | _ \<Rightarrow> Inl ErrJSON)"

definition dec_object :: "json \<Rightarrow> (string \<times> json) list result" where
  "dec_object v = (case v of JNull \<Rightarrow> Inr [] | JObject kvs \<Rightarrow> Inr kvs | _ \<Rightarrow> Inl ErrJSON)"

text \<open>\<open>[]any\<close> and \<open>map[string]any\<close>, whose zero value is \<open>nil\<close>.\<close>

definition dec_anys :: "json \<Rightarrow> json list option result" where
  "dec_anys v = (case v of JNull \<Rightarrow> Inr None | JArray xs \<Rightarrow> Inr (Some xs) | _ \<Rightarrow> Inl ErrJSON)"

definition dec_map :: "json \<Rightarrow> (string \<times> json) list option result" where
  "dec_map v = (case v of JNull \<Rightarrow> Inr None | JObject kvs \<Rightarrow> Inr (Some kvs) | _ \<Rightarrow> Inl ErrJSON)"

text \<open>A slice of another type: each element is decoded.\<close>

fun map_r :: "('a \<Rightarrow> 'e + 'b) \<Rightarrow> 'a list \<Rightarrow> 'e + 'b list" where
  "map_r f [] = Inr []"
| "map_r f (x # xs) = bind_r (f x) (\<lambda>y. bind_r (map_r f xs) (\<lambda>ys. Inr (y # ys)))"

definition dec_list :: "(json \<Rightarrow> 'a result) \<Rightarrow> json \<Rightarrow> 'a list option result" where
  "dec_list f v = (case v of JNull \<Rightarrow> Inr None
     | JArray xs \<Rightarrow> bind_r (map_r f xs) (\<lambda>ys. Inr (Some ys)) | _ \<Rightarrow> Inl ErrJSON)"

lemma map_r_map: "(\<And>x. x \<in> set xs \<Longrightarrow> f (g x) = Inr (h x)) \<Longrightarrow> map_r f (map g xs) = Inr (map h xs)"
  by (induction xs) simp_all

lemma dec_list_map: "(\<And>x. x \<in> set xs \<Longrightarrow> f (g x) = Inr (h x)) \<Longrightarrow> dec_list f (JArray (map g xs)) = Inr (Some (map h xs))"
  by (simp add: dec_list_def map_r_map)

end
