(* ===== verification/Models.thy ===== *)
theory Models
  imports Json_Values
begin

text \<open>
  The rows of \<open>internal/persistence/models.go\<close> the modelled operations read and write, one
  record per struct with the struct's fields, and the zero values of Go. A pointer field is an
  \<open>option\<close>, with \<open>None\<close> for \<open>nil\<close> and for SQL's \<open>NULL\<close>.
\<close>

record goal =
  g_ID :: id
  g_UserID :: id
  g_Title :: string
  g_Description :: string
  g_SuccessCriteria :: string
  g_Status :: string
  g_TargetDate :: "string option"
  g_Revision :: int
  g_CreatedAt :: time
  g_UpdatedAt :: time
  g_DeletedAt :: "time option"
  g_DeletionID :: id

record task =
  t_ID :: id
  t_UserID :: id
  t_GoalID :: id
  t_ParentID :: "id option"
  t_DependsOn :: "id list"
  t_Type :: string
  t_Title :: string
  t_Description :: string
  t_Status :: string
  t_SuccessCriteria :: string
  t_MinimumAction :: string
  t_BlockedReason :: string
  t_Priority :: int
  t_Position :: int
  t_EstimateMinutes :: int
  t_Revision :: int
  t_CreatedAt :: time
  t_UpdatedAt :: time
  t_DeletedAt :: "time option"
  t_DeletionID :: id

record user =
  u_ID :: id
  u_Identifier :: string
  u_PasswordHash :: string
  u_DisplayName :: string
  u_Timezone :: string
  u_Locale :: string
  u_Role :: string
  u_Status :: string
  u_Revision :: int
  u_CreatedAt :: time
  u_UpdatedAt :: time

record daily_plan =
  p_ID :: id
  p_UserID :: id
  p_LocalDate :: string
  p_Timezone :: string
  p_Status :: string
  p_AlgorithmVersion :: string
  p_CurrentRevision :: int
  p_Revision :: int
  p_FrozenAt :: "time option"
  p_ManualItemsRemoved :: bool
  p_CreatedAt :: time
  p_UpdatedAt :: time

record plan_item =
  i_ID :: id
  i_LogicalID :: id
  i_UserID :: id
  i_PlanID :: id
  i_TaskID :: "id option"
  i_Kind :: string
  i_Title :: string
  i_Commitment :: string
  i_MinimumAction :: string
  i_AllowedTypes :: string
  i_Status :: string
  i_CompletionType :: string
  i_CompletionSummary :: string
  i_PlanRevision :: int
  i_TargetMinutes :: int
  i_Position :: int
  i_Revision :: int
  i_CreatedAt :: time
  i_UpdatedAt :: time

record planning_settings =
  ps_UserID :: id
  ps_PrimaryGoalID :: "id option"
  ps_ConfiguredPrimaryGoalID :: "id option"
  ps_PrimaryGoalMode :: string
  ps_DailyBudgetMinutes :: int
  ps_Revision :: int
  ps_CreatedAt :: time
  ps_UpdatedAt :: time

record work_session =
  w_ID :: id
  w_UserID :: id
  w_TaskID :: id
  w_DailyPlanItemID :: "id option"
  w_DailyPlanItemLogicalID :: id
  w_SessionType :: string
  w_Status :: string
  w_Outcome :: string
  w_Note :: string
  w_TargetMinutes :: int
  w_AccumulatedSeconds :: int
  w_DurationSeconds :: int
  w_Revision :: int
  w_StartedAt :: time
  w_LastTransitionAt :: "time option"
  w_PausedAt :: "time option"
  w_EndedAt :: "time option"
  w_CreatedAt :: time
  w_UpdatedAt :: time

text \<open>
  A JSON column is kept as the value it is written from and read back into; \<open>None\<close> is a
  text that does not parse. The recorded items of a snapshot carry no user, because
  \<open>DailyPlanItem.UserID\<close> is not serialised. Of \<open>InputSnapshot\<close> the fields below are
  written by the planning operations; the ones an operation does not write are absent
  from its text and have their zero value when read.
\<close>

record plan_candidate =
  pc_TaskID :: id
  pc_MinimumAction :: string
  pc_Commitment :: string
  pc_Reason :: string

record plan_input =
  in_Source :: string
  in_Algorithm :: string
  in_TaskIDs :: "id list"
  in_Candidates :: "plan_candidate list"
  in_ItemSources :: "(id, string) gomap"
  in_Scopes :: "(id, id list) gomap"
  in_PrimaryGoalID :: "id option"
  in_BudgetMinutes :: int
  in_AvailableMinutes :: int
  in_LocalDate :: string
  in_BaseRevision :: int
  in_AppendOnly :: bool
  in_DeletedItemIDs :: "id list"

definition no_input :: plan_input where
  "no_input = \<lparr>in_Source = [], in_Algorithm = [], in_TaskIDs = [], in_Candidates = [],
     in_ItemSources = [], in_Scopes = [], in_PrimaryGoalID = None, in_BudgetMinutes = 0,
     in_AvailableMinutes = 0, in_LocalDate = [], in_BaseRevision = 0, in_AppendOnly = False,
     in_DeletedItemIDs = []\<rparr>"

record plan_revision =
  r_ID :: id
  r_PlanID :: id
  r_InputSnapshot :: "plan_input option"
  r_InputHash :: string
  r_PlanSnapshot :: "plan_item list option"
  r_Reason :: string
  r_Revision :: int
  r_CreatedAt :: time

text \<open>
  \<open>EvidenceJSON\<close>: the empty array of a plain task event, the evidence of a daily item
  (\<open>planItemEvidence\<close>), the association of a task completed from the day, or another text.
\<close>

record item_evidence =
  ev_LogicalID :: id
  ev_WorkSessionIDs :: "id list"
  ev_ReversesEventID :: id

datatype evidence_json =
    NoEvidence
  | ItemEvidence item_evidence
  | TaskEvidence (te_ItemID: id) (te_EventID: id) (te_LogicalID: id)
  | OtherEvidence string

record progress_event =
  e_ID :: id
  e_UserID :: id
  e_Type :: string
  e_Summary :: string
  e_EvidenceJSON :: evidence_json
  e_GoalID :: "id option"
  e_TaskID :: "id option"
  e_PlanItemID :: "id option"
  e_OccurredAt :: time
  e_CreatedAt :: time

datatype payload_value = PText string | PInt int | PTexts "string list" | PBool bool | PFields "(string \<times> string) list"

record notification_channel =
  nc_ID :: id
  nc_Name :: string
  nc_Provider :: string
  nc_Endpoint :: string
  nc_SettingsJSON :: "(string \<times> string) list"
  nc_SecretCiphertext :: string
  nc_SecretHint :: string
  nc_Status :: string
  nc_LastCheckAt :: "time option"
  nc_LastCheckStatus :: string
  nc_LastError :: string
  nc_Revision :: int
  nc_CreatedAt :: time
  nc_UpdatedAt :: time

record notification_target =
  nt_ID :: id
  nt_UserID :: id
  nt_ChannelID :: id
  nt_Label :: string
  nt_AddressCiphertext :: string
  nt_AddressHash :: string
  nt_AddressHint :: string
  nt_Status :: string
  nt_FailureCount :: int
  nt_LastError :: string
  nt_LastSentAt :: "time option"
  nt_Revision :: int
  nt_CreatedAt :: time
  nt_UpdatedAt :: time

record notification_message =
  nm_ID :: id
  nm_UserID :: id
  nm_ChannelID :: id
  nm_TargetID :: id
  nm_Topic :: string
  nm_Title :: string
  nm_Body :: string
  nm_URL :: string
  nm_PayloadJSON :: string
  nm_Status :: string
  nm_Attempts :: int
  nm_MaxAttempts :: int
  nm_ProviderMessageID :: string
  nm_LastError :: string
  nm_RunAfter :: time
  nm_CreatedAt :: time
  nm_UpdatedAt :: time
  nm_SentAt :: "time option"

record admin_audit_event =
  aa_ID :: id
  aa_ActorUserID :: id
  aa_TargetUserID :: "id option"
  aa_Action :: string
  aa_DetailJSON :: "(string \<times> payload_value) list"
  aa_CreatedAt :: time

record conversation_message =
  cm_ID :: id
  cm_UserID :: id
  cm_ConversationID :: id
  cm_Role :: string
  cm_Content :: string
  cm_JobID :: id
  cm_TranscriptionJobID :: id
  cm_CreatedAt :: time


text \<open>
  The rows of the agent runtime. The snapshot of a run and the committed chunks are the JSON values of
  their columns, \<open>None\<close> for an empty text; the arguments and the result of a tool call are texts,
  because a model may have written them.
\<close>

record agent_thread =
  th_ID :: id
  th_UserID :: id
  th_GoalID :: "id option"
  th_Title :: string
  th_Status :: string
  th_Custom :: string
  th_Checkpoint :: string
  th_LibfxVersion :: string
  th_LastMessageAt :: "time option"
  th_CreatedAt :: time
  th_UpdatedAt :: time

record agent_run =
  ar_ID :: id
  ar_UserID :: id
  ar_ThreadID :: id
  ar_JobID :: id
  ar_Status :: string
  ar_StateJSON :: "json option"
  ar_CheckpointSeq :: int
  ar_ParentMessageID :: "id option"
  ar_HarnessMode :: string
  ar_CancelRequested :: bool
  ar_ApprovalWaitMs :: int
  ar_ModelCalls :: int
  ar_ModelAttempts :: int
  ar_ModelVerifiedStop :: string
  ar_ModelInflight :: string
  ar_StartedAt :: "time option"
  ar_ApprovalStartedAt :: "time option"
  ar_UsageJSON :: string
  ar_ErrorCode :: string
  ar_ErrorMessage :: string
  ar_Revision :: int
  ar_CreatedAt :: time
  ar_UpdatedAt :: time
  ar_FinishedAt :: "time option"

record harness_token =
  ht_Generation :: id
  ht_NextTokenCipher :: string
  ht_RotationUntil :: "time option"
  ht_ID :: id
  ht_TokenHash :: string
  ht_UserID :: id
  ht_ThreadID :: id
  ht_RunID :: id
  ht_Mode :: string
  ht_ToolsETag :: string
  ht_ExpiresAt :: time
  ht_LastHeartbeatAt :: "time option"
  ht_RevokedAt :: "time option"
  ht_CreatedAt :: time

record agent_message =
  am_ID :: id
  am_UserID :: id
  am_ThreadID :: id
  am_RunID :: id
  am_ParentID :: "id option"
  am_Role :: string
  am_Seq :: int
  am_CreatedAt :: time

record message_part =
  mp_ID :: id
  mp_UserID :: id
  mp_MessageID :: id
  mp_Idx :: int
  mp_Type :: string
  mp_Text :: string
  mp_ToolCallID :: "string option"
  mp_ToolName :: string
  mp_ArgsJSON :: string
  mp_ResultJSON :: string
  mp_IsError :: bool
  mp_ArtifactJSON :: string
  mp_ApprovalStatus :: string
  mp_ProposalID :: "id option"
  mp_ToolModelTurn :: int
  mp_ToolArgsReady :: bool
  mp_ToolExecutionClaimed :: bool
  mp_CreatedAt :: time
  mp_UpdatedAt :: time

record agent_attachment =
  at_ID :: id
  at_UserID :: id
  at_ThreadID :: "id option"
  at_MessageID :: "id option"
  at_Mime :: string
  at_Bytes :: int
  at_Width :: int
  at_Height :: int
  at_Path :: string
  at_CreatedAt :: time

record run_chunk =
  rc_RunID :: id
  rc_Seq :: int
  rc_UserID :: id
  rc_ChunkJSON :: json
  rc_CreatedAt :: time

text \<open>The rows of coordinates, imports from other services, devices, logins, model providers and the panel.\<close>

record task_coord =
  xy_ID :: id
  xy_UserID :: id
  xy_TaskID :: id
  xy_Lens :: string
  xy_X :: int
  xy_Y :: int
  xy_Source :: string
  xy_Pinned :: bool
  xy_Rationale :: string
  xy_Revision :: int
  xy_CreatedAt :: time
  xy_UpdatedAt :: time

record external_import =
  ei_ID :: id
  ei_UserID :: id
  ei_SchemaVersion :: string
  ei_TraceID :: string
  ei_SourceSystem :: string
  ei_SourceExternalID :: string
  ei_SourceURL :: string
  ei_ContentHash :: string
  ei_Kind :: string
  ei_Title :: string
  ei_Description :: string
  ei_SuggestedGoalID :: "id option"
  ei_ArtifactsJSON :: string
  ei_MetadataJSON :: string
  ei_Status :: string
  ei_TaskID :: "id option"
  ei_DecisionNote :: string
  ei_Revision :: int
  ei_DecidedAt :: "time option"
  ei_CreatedAt :: time
  ei_UpdatedAt :: time

record device =
  dv_ID :: id
  dv_UserID :: id
  dv_Name :: string
  dv_Kind :: string
  dv_Timezone :: string
  dv_CapabilitiesJSON :: string
  dv_TokenHash :: string
  dv_Status :: string
  dv_LastSeenAt :: "time option"
  dv_Revision :: int
  dv_CreatedAt :: time
  dv_UpdatedAt :: time

record login_session =
  ls_ID :: id
  ls_FamilyID :: id
  ls_UserID :: id
  ls_RefreshHash :: string
  ls_ReplacedByHash :: string
  ls_Status :: string
  ls_ExpiresAt :: time
  ls_CreatedAt :: time
  ls_UpdatedAt :: time
  ls_AuthSource :: string
  ls_CasIssuer :: string
  ls_CasLinkID :: id
  ls_CasSID :: string
  ls_CasLinkVersion :: int

record research_account =
  rsa_AccountID :: id
  rsa_UserID :: id
  rsa_KeyID :: string
  rsa_Person :: string
  rsa_CreatedAt :: time
  rsa_UpdatedAt :: time

record cas_transaction =
  ctx_State :: string
  ctx_Payload :: string
  ctx_ExpiresAt :: time

record cas_link =
  lk_ID :: id
  lk_Issuer :: string
  lk_ClientID :: string
  lk_UserID :: id
  lk_Subject :: string
  lk_State :: string
  lk_Version :: int
  lk_VerifiedAt :: time

record cas_event =
  ce_Issuer :: string
  ce_ID :: id
  ce_ProcessedAt :: time

record model_provider =
  mdl_ID :: id
  mdl_Name :: string
  mdl_ProviderType :: string
  mdl_BaseURL :: string
  mdl_ModelName :: string
  mdl_TranscriptionModel :: string
  mdl_APIKeyCiphertext :: string
  mdl_APIKeyHint :: string
  mdl_Status :: string
  mdl_IsDefault :: bool
  mdl_Revision :: int
  mdl_CreatedAt :: time
  mdl_UpdatedAt :: time

record panel_override =
  po_Title :: "string option"
  po_Detail :: "string option"
  po_Selected :: "bool option"
  po_Position :: "int option"

record panel_profile =
  pf_UserID :: id
  pf_DisplayName :: string
  pf_Seat :: string
  pf_Title :: string
  pf_AvatarDataURL :: string
  pf_WeatherOverride :: string
  pf_TaskOverrides :: "(string, panel_override) gomap"
  pf_Revision :: int
  pf_CreatedAt :: time
  pf_UpdatedAt :: time

record panel_pairing =
  pg_ID :: id
  pg_UserID :: id
  pg_DeviceName :: string
  pg_Scope :: string
  pg_TokenHash :: string
  pg_ExpiresAt :: time
  pg_CreatedAt :: time
  pg_RevokedAt :: "time option"

record outbox_event =
  o_ID :: id
  o_UserID :: id
  o_EventType :: string
  o_PayloadJSON :: "(string \<times> payload_value) list"
  o_Status :: string
  o_Attempts :: int
  o_CreatedAt :: time
  o_ProcessedAt :: "time option"

record task_tree_revision =
  tr_ID :: id
  tr_UserID :: id
  tr_GoalID :: id
  tr_Reason :: string
  tr_Source :: string
  tr_Snapshot :: "task list"
  tr_Revision :: int
  tr_CreatedAt :: time

record proposal =
  pr_ID :: id
  pr_Kind :: string
  pr_UserID :: id
  pr_GoalID :: id
  pr_JobID :: id
  pr_Status :: string
  pr_Instruction :: string
  pr_PatchJSON :: string
  pr_BaseRevision :: int
  pr_Revision :: int
  pr_CreatedAt :: time
  pr_UpdatedAt :: time

record agent_job =
  j_ID :: id
  j_UserID :: id
  j_Type :: string
  j_Status :: string
  j_RetryOfJobID :: "id option"
  j_SubjectType :: string
  j_SubjectID :: id
  j_InputJSON :: string
  j_OutputJSON :: string
  j_ErrorCode :: string
  j_ErrorMessage :: string
  j_LockedBy :: string
  j_RunTokenHash :: string
  j_BaseRevision :: int
  j_AttemptCount :: int
  j_MaxAttempts :: int
  j_LeaseVersion :: int
  j_Revision :: int
  j_CancelRequested :: bool
  j_RunAfter :: time
  j_CreatedAt :: time
  j_UpdatedAt :: time
  j_LockedUntil :: "time option"
  j_StartedAt :: "time option"
  j_FinishedAt :: "time option"

definition zero_goal :: goal where
  "zero_goal =
    \<lparr>g_ID = [], g_UserID = [], g_Title = [], g_Description = [], g_SuccessCriteria = [], g_Status = [], g_TargetDate = None,
     g_Revision = 0, g_CreatedAt = 0, g_UpdatedAt = 0, g_DeletedAt = None, g_DeletionID = []\<rparr>"

definition zero_task :: task where
  "zero_task =
    \<lparr>t_ID = [], t_UserID = [], t_GoalID = [], t_ParentID = None, t_DependsOn = [], t_Type = [],
     t_Title = [], t_Description = [], t_Status = [], t_SuccessCriteria = [], t_MinimumAction = [],
     t_BlockedReason = [], t_Priority = 0, t_Position = 0, t_EstimateMinutes = 0, t_Revision = 0,
     t_CreatedAt = 0, t_UpdatedAt = 0, t_DeletedAt = None, t_DeletionID = []\<rparr>"

end
