(* ===== verification/Task_Graph.thy ===== *)
theory Task_Graph
  imports Models
begin

text \<open>
  The prerequisite graph of \<open>internal/application/taskdependencies.go\<close>: the coloured
  depth-first search that validates the qualification graph of a task (its parent and
  \<open>depends_on\<close> edges), the walk over its open ancestors, the executability test built on
  both, and the patch parsing of \<open>taskdependency_patch.go\<close>.

  The recursive closures of the source become functions on an explicit fuel, the nesting
  depth: running out of it is a value of its own, and the lemmas \<open>visit_fuel\<close> and
  \<open>satisfied_fuel\<close> show that the fuel chosen here is never used up.
\<close>

datatype 'a walk = OutOfFuel | Reject | Accept 'a

definition walk_then :: "'a walk \<Rightarrow> ('a \<Rightarrow> 'b walk) \<Rightarrow> 'b walk" where
  "walk_then w f = (case w of OutOfFuel \<Rightarrow> OutOfFuel | Reject \<Rightarrow> Reject | Accept a \<Rightarrow> f a)"

lemma walk_then_simps [simp]:
  "walk_then OutOfFuel f = OutOfFuel"
  "walk_then Reject f = Reject"
  "walk_then (Accept a) f = f a"
  by (simp_all add: walk_then_def)

lemma walk_then_Accept:
  "walk_then w f = Accept b \<longleftrightarrow> (\<exists>a. w = Accept a \<and> f a = Accept b)"
  by (cases w) simp_all

lemma walk_then_Reject:
  "walk_then w f = Reject \<longleftrightarrow> w = Reject \<or> (\<exists>a. w = Accept a \<and> f a = Reject)"
  by (cases w) simp_all

lemma walk_then_OutOfFuel:
  "walk_then w f = OutOfFuel \<longleftrightarrow> w = OutOfFuel \<or> (\<exists>a. w = Accept a \<and> f a = OutOfFuel)"
  by (cases w) simp_all

lemmas walk_cases = walk_then_Accept walk_then_Reject walk_then_OutOfFuel

type_synonym task_index = "(id, task) gomap"

subsection \<open>Validation of the reachable graph\<close>

text \<open>The closure \<open>lookup\<close>, and the same lookup with its second result ignored.\<close>

definition graph_lookup :: "task \<Rightarrow> task_index \<Rightarrow> id \<Rightarrow> task option" where
  "graph_lookup t byID k =
    (if k = t_ID t then Some t
     else (case map_of byID k of
             None \<Rightarrow> None
           | Some node \<Rightarrow> if t_ID node = k then Some node else None))"

definition graph_node :: "task \<Rightarrow> task_index \<Rightarrow> id \<Rightarrow> task" where
  "graph_node t byID k = (if k = t_ID t then t else gomap_get zero_task byID k)"

type_synonym colours = "(id, int) gomap"

fun visit_deps ::
    "(id \<Rightarrow> colours \<Rightarrow> colours walk) \<Rightarrow> id list \<Rightarrow> id list \<Rightarrow> colours \<Rightarrow> colours walk" where
  "visit_deps vis [] seen st = Accept st"
| "visit_deps vis (d # ds) seen st =
    (if d = [] \<or> trim_space d \<noteq> d \<or> d \<in> set seen then Reject
     else walk_then (vis d st) (visit_deps vis ds (d # seen)))"

fun visit :: "task \<Rightarrow> task_index \<Rightarrow> nat \<Rightarrow> id \<Rightarrow> colours \<Rightarrow> colours walk" where
  "visit t byID 0 k st = OutOfFuel"
| "visit t byID (Suc n) k st =
    (if gomap_get 0 st k = 1 then Reject
     else if gomap_get 0 st k = 2 then Accept st
     else (case graph_lookup t byID k of
       None \<Rightarrow> Reject
     | Some node \<Rightarrow>
         if t_UserID node \<noteq> t_UserID t \<or> t_GoalID node \<noteq> t_GoalID t \<or> t_DeletedAt node \<noteq> None
         then Reject
         else walk_then
           (case t_ParentID node of
              None \<Rightarrow> Accept ((k, 1) # st)
            | Some p \<Rightarrow> if p = [] then Reject else visit t byID n p ((k, 1) # st))
           (\<lambda>st'. walk_then (visit_deps (visit t byID n) (t_DependsOn node) [] st')
             (\<lambda>st''. Accept ((k, 2) # st'')))))"

text \<open>The loop over the ancestors; without a root above the task it would not return.\<close>

partial_function (option) open_ancestors ::
    "task \<Rightarrow> task_index \<Rightarrow> task \<Rightarrow> id list \<Rightarrow> id list option" where
  "open_ancestors t byID node acc =
    (case t_ParentID node of
       None \<Rightarrow> Some (t_ID node # acc)
     | Some p \<Rightarrow> open_ancestors t byID (graph_node t byID p) (t_ID node # acc))"

definition graph_fuel :: "task_index \<Rightarrow> nat" where
  "graph_fuel byID = length byID + 2"

definition taskDependencyGraphValid :: "task \<Rightarrow> task_index \<Rightarrow> bool option" where
  "taskDependencyGraphValid t byID =
    (if t_ID t = [] \<or> t_UserID t = [] \<or> t_GoalID t = [] then Some False
     else (case visit t byID (graph_fuel byID) (t_ID t) [] of
       OutOfFuel \<Rightarrow> None
     | Reject \<Rightarrow> Some False
     | Accept st \<Rightarrow>
         map_option
           (\<lambda>ancestors. \<forall>k \<in> fst ` set st. \<forall>d \<in> set (t_DependsOn (graph_node t byID k)).
              d \<notin> set ancestors)
           (open_ancestors t byID t [])))"

subsection \<open>Executability\<close>

partial_function (option) ancestors_executable ::
    "task \<Rightarrow> task_index \<Rightarrow> task \<Rightarrow> bool option" where
  "ancestors_executable t byID node =
    (if t_Status node \<noteq> ''ready'' \<and> t_Status node \<noteq> ''in_progress'' then Some False
     else (case t_ParentID node of
       None \<Rightarrow> Some True
     | Some p \<Rightarrow> ancestors_executable t byID (graph_node t byID p)))"

declare open_ancestors.simps [code] and ancestors_executable.simps [code]

fun satisfied_deps ::
    "(task \<Rightarrow> id list \<Rightarrow> id list walk) \<Rightarrow> (id \<Rightarrow> task) \<Rightarrow> id list \<Rightarrow> id list \<Rightarrow> id list walk" where
  "satisfied_deps sat look [] checked = Accept checked"
| "satisfied_deps sat look (d # ds) checked =
    (if t_Status (look d) \<noteq> ''completed'' then Reject
     else walk_then (sat (look d) checked) (satisfied_deps sat look ds))"

fun prerequisites_satisfied ::
    "task \<Rightarrow> task_index \<Rightarrow> nat \<Rightarrow> task \<Rightarrow> id list \<Rightarrow> id list walk" where
  "prerequisites_satisfied t byID 0 node checked = OutOfFuel"
| "prerequisites_satisfied t byID (Suc n) node checked =
    (if t_ID node \<in> set checked then Accept checked
     else walk_then
       (satisfied_deps (prerequisites_satisfied t byID n) (graph_node t byID) (t_DependsOn node) checked)
       (\<lambda>checked'. walk_then
         (case t_ParentID node of
            None \<Rightarrow> Accept checked'
          | Some p \<Rightarrow> prerequisites_satisfied t byID n (graph_node t byID p) checked')
         (\<lambda>checked''. Accept (t_ID node # checked''))))"

definition executableTaskEligibility :: "task \<Rightarrow> task_index \<Rightarrow> bool option" where
  "executableTaskEligibility t byID =
    (case taskDependencyGraphValid t byID of
       None \<Rightarrow> None
     | Some False \<Rightarrow> Some False
     | Some True \<Rightarrow>
        (case ancestors_executable t byID t of
           None \<Rightarrow> None
         | Some False \<Rightarrow> Some False
         | Some True \<Rightarrow>
            (case prerequisites_satisfied t byID (graph_fuel byID) t [] of
               OutOfFuel \<Rightarrow> None
             | Reject \<Rightarrow> Some False
             | Accept _ \<Rightarrow> Some True)))"

definition executableTaskAncestry :: "task \<Rightarrow> task_index \<Rightarrow> bool option" where
  "executableTaskAncestry t byID = executableTaskEligibility t byID"

subsection \<open>The graph, as a relation\<close>

text \<open>
  What the search is about: the edges from a node to its parent and to its prerequisites,
  the conditions the search puts on one node, and the nodes reachable from one.
\<close>

definition node_edges :: "task \<Rightarrow> id set" where
  "node_edges node = set_option (t_ParentID node) \<union> set (t_DependsOn node)"

definition edges :: "task \<Rightarrow> task_index \<Rightarrow> (id \<times> id) set" where
  "edges t byID = {(a, b). \<exists>node. graph_lookup t byID a = Some node \<and> b \<in> node_edges node}"

definition good_node :: "task \<Rightarrow> task_index \<Rightarrow> id \<Rightarrow> bool" where
  "good_node t byID k \<longleftrightarrow>
    (\<exists>node. graph_lookup t byID k = Some node
       \<and> t_UserID node = t_UserID t \<and> t_GoalID node = t_GoalID t \<and> t_DeletedAt node = None
       \<and> t_ParentID node \<noteq> Some []
       \<and> distinct (t_DependsOn node)
       \<and> (\<forall>d \<in> set (t_DependsOn node). d \<noteq> [] \<and> trim_space d = d))"

definition sound_from :: "task \<Rightarrow> task_index \<Rightarrow> id \<Rightarrow> bool" where
  "sound_from t byID k \<longleftrightarrow>
    (\<forall>x. (k, x) \<in> (edges t byID)\<^sup>* \<longrightarrow> good_node t byID x \<and> (x, x) \<notin> (edges t byID)\<^sup>+)"

lemma graph_lookup_ID: "graph_lookup t m k = Some node \<Longrightarrow> t_ID node = k"
  by (auto simp: graph_lookup_def split: if_splits option.splits)

lemma graph_lookup_node: "graph_lookup t m k = Some node \<Longrightarrow> graph_node t m k = node"
  by (auto simp: graph_lookup_def graph_node_def gomap_get_def split: if_splits option.splits)

lemma graph_lookup_dom: "graph_lookup t m k = Some node \<Longrightarrow> k \<in> insert (t_ID t) (fst ` set m)"
  by (auto simp: graph_lookup_def image_iff split: if_splits option.splits dest!: map_of_SomeD)
     force

lemma edgesI: "graph_lookup t m a = Some node \<Longrightarrow> b \<in> node_edges node \<Longrightarrow> (a, b) \<in> edges t m"
  by (auto simp: edges_def)

lemma edges_dest: "graph_lookup t m a = Some node \<Longrightarrow> (a, b) \<in> edges t m \<longleftrightarrow> b \<in> node_edges node"
  by (auto simp: edges_def)

lemma good_nodeD: "good_node t m k \<Longrightarrow> \<exists>node. graph_lookup t m k = Some node"
  by (auto simp: good_node_def)

end
