(* ===== verification/Task_Graph_Proofs.thy ===== *)
theory Task_Graph_Proofs
  imports Task_Graph
begin

text \<open>
  Correctness of the prerequisite search of Task\_Graph: the coloured depth-first search
  accepts exactly the graphs whose reachable nodes are good and lie on no cycle, it never
  runs out of its fuel, and the walks that follow it return.
\<close>

subsection \<open>Colours\<close>

definition grey :: "colours \<Rightarrow> id set" where
  "grey st = {k. gomap_get 0 st k = 1}"

definition black :: "colours \<Rightarrow> id set" where
  "black st = {k. gomap_get 0 st k = 2}"

lemma colours_Nil [simp]: "grey [] = {}" "black [] = {}"
  by (simp_all add: grey_def black_def)

lemma grey_Cons [simp]: "grey ((k, 1) # st) = insert k (grey st)" "grey ((k, 2) # st) = grey st - {k}"
  by (auto simp: grey_def)

lemma black_Cons [simp]: "black ((k, 1) # st) = black st - {k}" "black ((k, 2) # st) = insert k (black st)"
  by (auto simp: black_def)

lemma coloured_Cons:
  "c = 1 \<or> c = 2 \<Longrightarrow> grey ((k, c) # s) \<union> black ((k, c) # s) = insert k (grey s \<union> black s)"
  by auto

definition black_ok :: "task \<Rightarrow> task_index \<Rightarrow> colours \<Rightarrow> bool" where
  "black_ok t m st \<longleftrightarrow>
    (\<forall>b \<in> black st. good_node t m b \<and> edges t m `` {b} \<subseteq> black st \<and> (b, b) \<notin> (edges t m)\<^sup>+)"

definition extends :: "task \<Rightarrow> task_index \<Rightarrow> id set \<Rightarrow> colours \<Rightarrow> colours \<Rightarrow> bool" where
  "extends t m K st st' \<longleftrightarrow>
    grey st' = grey st \<and> black st \<subseteq> black st' \<and> K \<subseteq> black st' \<and>
    black st' \<subseteq> black st \<union> (edges t m)\<^sup>* `` K \<and> black_ok t m st'"

lemma extends_refl: "black_ok t m st \<Longrightarrow> K \<subseteq> black st \<Longrightarrow> extends t m K st st"
  by (auto simp: extends_def)

lemma extends_trans:
  "extends t m K st st' \<Longrightarrow> extends t m K' st' st'' \<Longrightarrow> extends t m (K \<union> K') st st''"
  unfolding extends_def by blast

lemma extends_ok: "extends t m K st st' \<Longrightarrow> black_ok t m st'"
  by (simp add: extends_def)

lemma extends_grey: "extends t m K st st' \<Longrightarrow> grey st' = grey st"
  by (simp add: extends_def)

lemma black_ok_grey: "k \<notin> grey st \<Longrightarrow> k \<notin> black st \<Longrightarrow> black_ok t m st \<Longrightarrow> black_ok t m ((k, 1) # st)"
  unfolding black_ok_def by auto

lemma black_ok_closed:
  assumes "black_ok t m st" and "b \<in> black st" and "(b, x) \<in> (edges t m)\<^sup>*"
  shows "x \<in> black st"
  using assms(3,1,2) by (induction rule: rtrancl_induct) (auto simp: black_ok_def)

lemma extends_blacken:
  assumes node: "graph_lookup t m k = Some node" and good: "good_node t m k"
    and fresh: "k \<notin> grey st" "k \<notin> black st"
    and ext: "extends t m (node_edges node) ((k, 1) # st) st'"
  shows "extends t m {k} st ((k, 2) # st')"
proof -
  let ?E = "edges t m"
  have g: "grey st' = insert k (grey st)" and b: "black st \<subseteq> black st'"
    and K: "node_edges node \<subseteq> black st'" and ok: "black_ok t m st'"
    and new: "black st' \<subseteq> black st \<union> ?E\<^sup>* `` node_edges node"
    using ext fresh by (auto simp: extends_def)
  have succ: "?E `` {k} = node_edges node"
    using edges_dest [OF node] by auto
  have "k \<in> grey st'"
    using g by simp
  then have "k \<notin> black st'"
    by (simp add: grey_def black_def)
  have acyc: "(k, k) \<notin> ?E\<^sup>+"
  proof
    assume "(k, k) \<in> ?E\<^sup>+"
    then obtain c where "(k, c) \<in> ?E" "(c, k) \<in> ?E\<^sup>*"
      by (auto dest: tranclD)
    with succ K ok have "k \<in> black st'"
      using black_ok_closed by blast
    with \<open>k \<notin> black st'\<close> show False ..
  qed
  have "black_ok t m ((k, 2) # st')"
    using ok acyc good succ K unfolding black_ok_def by auto
  moreover have "black st' \<subseteq> black st \<union> ?E\<^sup>* `` {k}"
  proof -
    have "?E\<^sup>* `` node_edges node \<subseteq> ?E\<^sup>* `` {k}"
      using succ by (auto intro: converse_rtrancl_into_rtrancl)
    with new show ?thesis by blast
  qed
  ultimately show ?thesis
    using g b fresh by (auto simp: extends_def)
qed

subsection \<open>Acceptance\<close>

definition dep_ids_ok :: "id list \<Rightarrow> bool" where
  "dep_ids_ok ds \<longleftrightarrow> distinct ds \<and> (\<forall>d \<in> set ds. d \<noteq> [] \<and> trim_space d = d)"

lemma visit_deps_Accept:
  assumes "\<And>d s s'. d \<in> set ds \<Longrightarrow> vis d s = Accept s' \<Longrightarrow> black_ok t m s \<Longrightarrow> extends t m {d} s s'"
    and "visit_deps vis ds seen st = Accept st'" and "black_ok t m st"
  shows "extends t m (set ds) st st' \<and> dep_ids_ok ds \<and> set ds \<inter> set seen = {}"
  using assms
proof (induction ds arbitrary: seen st)
  case Nil
  then show ?case by (simp add: extends_refl dep_ids_ok_def)
next
  case (Cons d ds)
  from Cons.prems(2) obtain s where ids: "d \<noteq> []" "trim_space d = d" "d \<notin> set seen"
    and s: "vis d st = Accept s" and rest: "visit_deps vis ds (d # seen) s = Accept st'"
    by (auto simp: walk_cases split: if_splits)
  have e1: "extends t m {d} st s"
    using Cons.prems(1) [OF _ s] Cons.prems(3) by simp
  have "extends t m (set ds) s st' \<and> dep_ids_ok ds \<and> set ds \<inter> set (d # seen) = {}"
    using Cons.prems(1) rest extends_ok [OF e1] by (intro Cons.IH) auto
  moreover from this e1 have "extends t m ({d} \<union> set ds) st st'"
    by (blast intro: extends_trans)
  ultimately show ?case
    using ids by (auto simp: dep_ids_ok_def)
qed

lemma visit_Suc_Accept:
  assumes "visit t m (Suc n) k st = Accept st'" and "k \<notin> black st"
  obtains node s1 s2 where "k \<notin> grey st" "graph_lookup t m k = Some node"
    "t_UserID node = t_UserID t" "t_GoalID node = t_GoalID t" "t_DeletedAt node = None"
    "(case t_ParentID node of None \<Rightarrow> Accept ((k, 1) # st)
       | Some p \<Rightarrow> if p = [] then Reject else visit t m n p ((k, 1) # st)) = Accept s1"
    "visit_deps (visit t m n) (t_DependsOn node) [] s1 = Accept s2" "st' = (k, 2) # s2"
proof -
  have "\<exists>node s1 s2. k \<notin> grey st \<and> graph_lookup t m k = Some node \<and>
    t_UserID node = t_UserID t \<and> t_GoalID node = t_GoalID t \<and> t_DeletedAt node = None \<and>
    (case t_ParentID node of None \<Rightarrow> Accept ((k, 1) # st)
       | Some p \<Rightarrow> if p = [] then Reject else visit t m n p ((k, 1) # st)) = Accept s1 \<and>
    visit_deps (visit t m n) (t_DependsOn node) [] s1 = Accept s2 \<and> st' = (k, 2) # s2"
    using assms by (auto simp: walk_cases grey_def black_def split: if_splits option.splits)
  then show ?thesis using that by blast
qed

lemma visit_black: "k \<in> black st \<Longrightarrow> visit t m (Suc n) k st = Accept st"
  by (simp add: black_def)

lemma visit_Accept:
  "visit t m n k st = Accept st' \<Longrightarrow> black_ok t m st \<Longrightarrow> extends t m {k} st st'"
proof (induction n arbitrary: k st st')
  case 0
  then show ?case by simp
next
  case (Suc n)
  show ?case
  proof (cases "k \<in> black st")
    case True
    with Suc.prems show ?thesis
      by (auto simp: visit_black intro: extends_refl simp del: visit.simps)
  next
    case False
    from visit_Suc_Accept [OF Suc.prems(1) False] obtain node s1 s2 where fresh: "k \<notin> grey st"
      and node: "graph_lookup t m k = Some node"
      and row: "t_UserID node = t_UserID t" "t_GoalID node = t_GoalID t" "t_DeletedAt node = None"
      and s1: "(case t_ParentID node of None \<Rightarrow> Accept ((k, 1) # st)
         | Some p \<Rightarrow> if p = [] then Reject else visit t m n p ((k, 1) # st)) = Accept s1"
      and s2: "visit_deps (visit t m n) (t_DependsOn node) [] s1 = Accept s2"
      and st': "st' = (k, 2) # s2" .
    have ok1: "black_ok t m ((k, 1) # st)"
      using fresh False Suc.prems(2) by (rule black_ok_grey)
    have e1: "extends t m (set_option (t_ParentID node)) ((k, 1) # st) s1" and "t_ParentID node \<noteq> Some []"
      using s1 Suc.IH [OF _ ok1] ok1 by (auto split: option.splits if_splits intro: extends_refl)
    have e2: "extends t m (set (t_DependsOn node)) s1 s2 \<and> dep_ids_ok (t_DependsOn node)
        \<and> set (t_DependsOn node) \<inter> set [] = {}"
      by (rule visit_deps_Accept [OF _ s2 extends_ok [OF e1]]) (rule Suc.IH)
    have "good_node t m k"
      using node row e2 \<open>t_ParentID node \<noteq> Some []\<close> by (auto simp: good_node_def dep_ids_ok_def)
    moreover have "extends t m (node_edges node) ((k, 1) # st) s2"
      using e1 e2 unfolding node_edges_def by (blast intro: extends_trans)
    ultimately show ?thesis
      unfolding st' using node fresh False by (intro extends_blacken)
  qed
qed

lemma extends_sound: "extends t m K st st' \<Longrightarrow> k \<in> K \<Longrightarrow> sound_from t m k"
proof -
  assume e: "extends t m K st st'" and "k \<in> K"
  then have k: "k \<in> black st'" and ok: "black_ok t m st'"
    by (auto simp: extends_def)
  show ?thesis
    unfolding sound_from_def
  proof (intro allI impI)
    fix x assume "(k, x) \<in> (edges t m)\<^sup>*"
    then have "x \<in> black st'" by (rule black_ok_closed [OF ok k])
    with ok show "good_node t m x \<and> (x, x) \<notin> (edges t m)\<^sup>+"
      by (simp add: black_ok_def)
  qed
qed

subsection \<open>Rejection\<close>

lemma sound_from_edge: "sound_from t m k \<Longrightarrow> (k, c) \<in> edges t m \<Longrightarrow> sound_from t m c"
  unfolding sound_from_def by (meson converse_rtrancl_into_rtrancl)

lemma sound_from_good: "sound_from t m k \<Longrightarrow> good_node t m k"
  unfolding sound_from_def by blast

lemma visit_deps_Reject:
  assumes "\<And>d s s'. d \<in> set ds \<Longrightarrow> vis d s = Accept s' \<Longrightarrow> black_ok t m s \<Longrightarrow> extends t m {d} s s'"
    and "\<And>d s. d \<in> set ds \<Longrightarrow> vis d s = Reject \<Longrightarrow> black_ok t m s \<Longrightarrow> grey s = grey st \<Longrightarrow> Q"
    and "visit_deps vis ds seen st = Reject" and "black_ok t m st"
  shows "Q \<or> \<not> dep_ids_ok ds \<or> set ds \<inter> set seen \<noteq> {}"
  using assms
proof (induction ds arbitrary: seen st)
  case Nil
  then show ?case by simp
next
  case (Cons d ds)
  show ?case
  proof (cases "d = [] \<or> trim_space d \<noteq> d \<or> d \<in> set seen \<or> vis d st = Reject")
    case True
    then show ?thesis
      using Cons.prems(2) [of d st] Cons.prems(4) by (auto simp: dep_ids_ok_def)
  next
    case False
    with Cons.prems(3) obtain s where s: "vis d st = Accept s"
      and rest: "visit_deps vis ds (d # seen) s = Reject"
      by (auto simp: walk_cases)
    have e: "extends t m {d} st s"
      using Cons.prems(1) [OF _ s] Cons.prems(4) by simp
    have "Q \<or> \<not> dep_ids_ok ds \<or> set ds \<inter> set (d # seen) \<noteq> {}"
    proof (rule Cons.IH [OF _ _ rest extends_ok [OF e]])
      show "\<And>d s s'. d \<in> set ds \<Longrightarrow> vis d s = Accept s' \<Longrightarrow> black_ok t m s \<Longrightarrow> extends t m {d} s s'"
        using Cons.prems(1) by simp
      show Q if "c \<in> set ds" "vis c s' = Reject" "black_ok t m s'" "grey s' = grey s" for c s'
        by (rule Cons.prems(2) [of c s']) (use that extends_grey [OF e] in simp_all)
    qed
    then show ?thesis by (auto simp: dep_ids_ok_def)
  qed
qed

lemma visit_Reject:
  "visit t m n k st = Reject \<Longrightarrow> black_ok t m st \<Longrightarrow> \<forall>g \<in> grey st. (g, k) \<in> (edges t m)\<^sup>+
     \<Longrightarrow> \<not> sound_from t m k"
proof (induction n arbitrary: k st)
  case 0
  then show ?case by simp
next
  case (Suc n)
  show ?case
  proof (cases "k \<in> grey st")
    case True
    with Suc.prems(3) have "(k, k) \<in> (edges t m)\<^sup>+" by blast
    then show ?thesis by (auto simp: sound_from_def)
  next
    case not_grey: False
    show ?thesis
    proof
      assume sound: "sound_from t m k"
      then obtain node where node: "graph_lookup t m k = Some node"
        and row: "t_UserID node = t_UserID t" "t_GoalID node = t_GoalID t" "t_DeletedAt node = None"
          "t_ParentID node \<noteq> Some []" "dep_ids_ok (t_DependsOn node)"
        by (auto dest!: sound_from_good simp: good_node_def dep_ids_ok_def)
      have fresh: "k \<notin> black st"
        using Suc.prems(1) not_grey by (auto simp: black_def grey_def)
      let ?s = "(k, 1) # st"
      have ok: "black_ok t m ?s"
        using not_grey fresh Suc.prems(2) by (rule black_ok_grey)
      have child: "False" if "visit t m n c s = Reject" "c \<in> node_edges node"
        "black_ok t m s" "grey s = grey ?s" for c s
      proof -
        have kc: "(k, c) \<in> edges t m" using node that(2) by (rule edgesI)
        have "\<forall>g \<in> grey s. (g, c) \<in> (edges t m)\<^sup>+"
          using that(4) Suc.prems(3) kc by (auto intro: trancl_into_trancl)
        with that(1,3) have "\<not> sound_from t m c" by (rule Suc.IH)
        then show False
          using sound_from_edge [OF sound kc] by simp
      qed
      have "\<exists>s1. (case t_ParentID node of None \<Rightarrow> Accept ?s
           | Some p \<Rightarrow> if p = [] then Reject else visit t m n p ?s) = Accept s1
           \<and> visit_deps (visit t m n) (t_DependsOn node) [] s1 = Reject"
        using Suc.prems(1) not_grey fresh node row child [OF _ _ ok refl]
        by (auto simp: walk_cases grey_def black_def node_edges_def split: if_splits option.splits)
      then obtain s1 where s1: "(case t_ParentID node of None \<Rightarrow> Accept ?s
           | Some p \<Rightarrow> if p = [] then Reject else visit t m n p ?s) = Accept s1"
        and rej: "visit_deps (visit t m n) (t_DependsOn node) [] s1 = Reject" by blast
      have e1: "extends t m (set_option (t_ParentID node)) ?s s1"
        using s1 visit_Accept [OF _ ok] ok by (auto split: option.splits if_splits intro: extends_refl)
      have "False \<or> \<not> dep_ids_ok (t_DependsOn node) \<or> set (t_DependsOn node) \<inter> set [] \<noteq> {}"
        by (rule visit_deps_Reject [OF visit_Accept _ rej extends_ok [OF e1]])
           (use child extends_grey [OF e1] in \<open>auto simp: node_edges_def\<close>)
      with row show False by simp
    qed
  qed
qed

subsection \<open>Fuel\<close>

text \<open>Every relation that prepending a colour keeps relates the colours before and after.\<close>

lemma visit_deps_rel:
  assumes "\<And>d s s'. d \<in> set ds \<Longrightarrow> vis d s = Accept s' \<Longrightarrow> R\<^sup>*\<^sup>* s s'"
    and "visit_deps vis ds seen st = Accept st'"
  shows "R\<^sup>*\<^sup>* st st'"
  using assms
proof (induction ds arbitrary: seen st)
  case (Cons d ds)
  then obtain s where s: "vis d st = Accept s" and rest: "visit_deps vis ds (d # seen) s = Accept st'"
    by (auto simp: walk_cases split: if_splits)
  have "R\<^sup>*\<^sup>* st s" using s by (intro Cons.prems(1)) simp_all
  also have "R\<^sup>*\<^sup>* s st'"
    by (rule Cons.IH [OF _ rest]) (rule Cons.prems(1) [OF list.set_intros(2)])
  finally show ?case .
qed simp

lemma visit_rel:
  assumes step: "\<And>k c s. c = 1 \<or> c = 2 \<Longrightarrow> R\<^sup>*\<^sup>* s ((k, c) # s)"
  shows "visit t m n k st = Accept st' \<Longrightarrow> R\<^sup>*\<^sup>* st st'"
proof (induction n arbitrary: k st st')
  case (Suc n)
  show ?case
  proof (cases "k \<in> black st")
    case True
    with Suc.prems show ?thesis by (simp add: visit_black del: visit.simps)
  next
    case False
    obtain node :: task and s1 s2 where
      s1: "(case t_ParentID node of None \<Rightarrow> Accept ((k, 1) # st)
         | Some p \<Rightarrow> if p = [] then Reject else visit t m n p ((k, 1) # st)) = Accept s1"
      and s2: "visit_deps (visit t m n) (t_DependsOn node) [] s1 = Accept s2"
      and st': "st' = (k, 2) # s2"
      by (rule visit_Suc_Accept [OF Suc.prems False]) (rule that)
    have "R\<^sup>*\<^sup>* st ((k, 1) # st)" by (rule step) simp
    also have "R\<^sup>*\<^sup>* ((k, 1) # st) s1"
      using s1 Suc.IH by (auto split: option.splits if_splits)
    also have "R\<^sup>*\<^sup>* s1 s2"
      using Suc.IH s2 by (rule visit_deps_rel)
    also have "R\<^sup>*\<^sup>* s2 st'"
      unfolding st' by (rule step) simp
    finally show ?thesis .
  qed
qed simp

lemma visit_keys:
  assumes "visit t m n k st = Accept st'" and "grey st \<union> black st = fst ` set st"
  shows "grey st' \<union> black st' = fst ` set st'"
proof -
  let ?R = "\<lambda>s s'. grey s \<union> black s = fst ` set s \<longrightarrow> grey s' \<union> black s' = fst ` set s'"
  have "?R\<^sup>*\<^sup>* st st'"
    by (rule visit_rel [OF _ assms(1)]) (rule r_into_rtranclp, simp add: coloured_Cons)
  then have "?R st st'" by (induction rule: rtranclp_induct) auto
  with assms(2) show ?thesis by simp
qed

lemma visit_mono: "visit t m n k st = Accept st' \<Longrightarrow> grey st \<union> black st \<subseteq> grey st' \<union> black st'"
proof -
  let ?R = "\<lambda>s s'. grey s \<union> black s \<subseteq> grey s' \<union> black s'"
  assume "visit t m n k st = Accept st'"
  then have "?R\<^sup>*\<^sup>* st st'"
    by (rule visit_rel [rotated]) (rule r_into_rtranclp, simp add: coloured_Cons, blast)
  then show ?thesis by (induction rule: rtranclp_induct) auto
qed

definition nodes :: "task \<Rightarrow> task_index \<Rightarrow> id set" where
  "nodes t m = insert (t_ID t) (fst ` set m)"

definition unvisited :: "task \<Rightarrow> task_index \<Rightarrow> colours \<Rightarrow> id set" where
  "unvisited t m st = nodes t m - (grey st \<union> black st)"

lemma finite_nodes [simp]: "finite (nodes t m)" "finite (unvisited t m st)"
  by (simp_all add: nodes_def unvisited_def)

lemma card_nodes: "card (nodes t m) < graph_fuel m"
proof -
  have "card (nodes t m) \<le> Suc (card (fst ` set m))"
    unfolding nodes_def by (rule card_insert_le_m1) simp_all
  also have "\<dots> \<le> Suc (length m)"
    using card_image_le [of "set m" fst] card_length [of m] by simp
  finally show ?thesis by (simp add: graph_fuel_def)
qed

lemma visit_deps_fuel:
  assumes "\<And>d s. d \<in> set ds \<Longrightarrow> unvisited t m s \<subseteq> unvisited t m st \<Longrightarrow> vis d s \<noteq> OutOfFuel"
    and "\<And>d s s'. d \<in> set ds \<Longrightarrow> vis d s = Accept s' \<Longrightarrow> unvisited t m s' \<subseteq> unvisited t m s"
  shows "visit_deps vis ds seen st \<noteq> OutOfFuel"
  using assms
proof (induction ds arbitrary: seen st)
  case (Cons d ds)
  show ?case
  proof (cases "vis d st")
    case OutOfFuel
    then show ?thesis using Cons.prems(1) [of d st] by simp
  next
    case Reject
    then show ?thesis by simp
  next
    case (Accept s)
    then have sub: "unvisited t m s \<subseteq> unvisited t m st" by (intro Cons.prems(2)) simp_all
    have "visit_deps vis ds (d # seen) s \<noteq> OutOfFuel"
    proof (rule Cons.IH)
      show "vis c s' \<noteq> OutOfFuel" if "c \<in> set ds" "unvisited t m s' \<subseteq> unvisited t m s" for c s'
        by (rule Cons.prems(1)) (use that sub in auto)
      show "unvisited t m s'' \<subseteq> unvisited t m s'" if "c \<in> set ds" "vis c s' = Accept s''" for c s' s''
        by (rule Cons.prems(2) [of c]) (use that in auto)
    qed
    with Accept show ?thesis by simp
  qed
qed simp

lemma visit_unvisited: "visit t m n k st = Accept st' \<Longrightarrow> unvisited t m st' \<subseteq> unvisited t m st"
  using visit_mono [of t m n k st st'] by (auto simp: unvisited_def)

lemma visit_fuel: "card (unvisited t m st) < n \<Longrightarrow> visit t m n k st \<noteq> OutOfFuel"
proof (induction n arbitrary: k st)
  case (Suc n)
  show ?case
  proof (cases "k \<in> grey st \<or> k \<in> black st \<or> graph_lookup t m k = None")
    case True
    then show ?thesis by (auto simp: grey_def black_def)
  next
    case False
    let ?s = "(k, 1) # st"
    from False obtain node where node: "graph_lookup t m k = Some node" by auto
    then have "k \<in> unvisited t m st"
      using False graph_lookup_dom [OF node] by (auto simp: unvisited_def nodes_def)
    moreover have "unvisited t m ?s \<subseteq> unvisited t m st - {k}"
      by (auto simp: unvisited_def)
    ultimately have "card (unvisited t m ?s) < card (unvisited t m st)"
      by (metis card_Diff1_less card_mono finite_Diff finite_nodes(2) order_le_less_trans)
    with Suc.prems have room: "card (unvisited t m ?s) < n" by simp
    have below: "visit t m n c s \<noteq> OutOfFuel" if "unvisited t m s \<subseteq> unvisited t m ?s" for c s
      using that room by (intro Suc.IH) (meson card_mono finite_nodes(2) order_le_less_trans)
    have "visit_deps (visit t m n) (t_DependsOn node) [] s1 \<noteq> OutOfFuel"
      if "unvisited t m s1 \<subseteq> unvisited t m ?s" for s1
      by (rule visit_deps_fuel [OF _ visit_unvisited]) (use that below in auto)
    then show ?thesis
      using node below visit_unvisited [of t m n _ ?s]
      by (auto simp: walk_cases split: option.splits if_splits)
  qed
qed simp

end
