(* ===== verification/Task_Eligibility.thy ===== *)
theory Task_Eligibility
  imports Task_Graph_Proofs
begin

text \<open>
  What the search and the two walks of \<open>taskdependencies.go\<close> decide, in terms of the graph:
  a task's graph is valid when every node it reaches is a live row of the same owner and goal
  on no cycle and no prerequisite is one of the task's own ancestors; a task is executable
  when its graph is valid, it and its ancestors are open and every prerequisite it reaches is
  completed.
\<close>

definition reach :: "task \<Rightarrow> task_index \<Rightarrow> id \<Rightarrow> id set" where
  "reach t m k = (edges t m)\<^sup>* `` {k}"

definition parent_edges :: "task \<Rightarrow> task_index \<Rightarrow> (id \<times> id) set" where
  "parent_edges t m = {(a, b). \<exists>node. graph_lookup t m a = Some node \<and> t_ParentID node = Some b}"

definition ancestor_ids :: "task \<Rightarrow> task_index \<Rightarrow> id \<Rightarrow> id set" where
  "ancestor_ids t m k = (parent_edges t m)\<^sup>* `` {k}"

definition graph_ok :: "task \<Rightarrow> task_index \<Rightarrow> bool" where
  "graph_ok t m \<longleftrightarrow>
    t_ID t \<noteq> [] \<and> t_UserID t \<noteq> [] \<and> t_GoalID t \<noteq> [] \<and> sound_from t m (t_ID t) \<and>
    (\<forall>x \<in> reach t m (t_ID t). \<forall>d \<in> set (t_DependsOn (graph_node t m x)).
       d \<notin> ancestor_ids t m (t_ID t))"

lemma graph_lookup_self [simp]: "graph_lookup t m (t_ID t) = Some t"
  by (simp add: graph_lookup_def)

lemma graph_node_self [simp]: "graph_node t m (t_ID t) = t"
  by (simp add: graph_node_def)

lemma parent_edges_subset: "parent_edges t m \<subseteq> edges t m"
  by (auto simp: parent_edges_def edges_def node_edges_def)

lemma ancestors_reach: "ancestor_ids t m k \<subseteq> reach t m k"
  unfolding ancestor_ids_def reach_def using rtrancl_mono [OF parent_edges_subset] by blast

lemma reach_refl [simp]: "k \<in> reach t m k"
  by (simp add: reach_def)

lemma reach_trans: "x \<in> reach t m k \<Longrightarrow> y \<in> reach t m x \<Longrightarrow> y \<in> reach t m k"
  by (auto simp: reach_def)

lemma reach_edge: "x \<in> reach t m k \<Longrightarrow> (x, y) \<in> edges t m \<Longrightarrow> y \<in> reach t m k"
  by (auto simp: reach_def)

lemma reach_step: "reach t m k = insert k (\<Union>c \<in> edges t m `` {k}. reach t m c)"
  unfolding reach_def by (auto elim: converse_rtranclE intro: converse_rtrancl_into_rtrancl)

lemma reach_step_node:
  assumes "graph_lookup t m k = Some node"
  shows "reach t m k = insert k (\<Union>c \<in> node_edges node. reach t m c)"
proof -
  have "edges t m `` {k} = node_edges node" using edges_dest [OF assms] by auto
  with reach_step show ?thesis by metis
qed

lemma ancestor_ids_step:
  assumes "graph_lookup t m k = Some node"
  shows "ancestor_ids t m k =
    insert k (case t_ParentID node of None \<Rightarrow> {} | Some p \<Rightarrow> ancestor_ids t m p)"
proof -
  have "ancestor_ids t m k = insert k (\<Union>c \<in> parent_edges t m `` {k}. ancestor_ids t m c)"
    unfolding ancestor_ids_def
    by (auto elim: converse_rtranclE intro: converse_rtrancl_into_rtrancl)
  moreover have "parent_edges t m `` {k} = set_option (t_ParentID node)"
    using assms by (auto simp: parent_edges_def)
  ultimately show ?thesis by (auto split: option.split)
qed

subsection \<open>Induction over a sound graph\<close>

lemma sound_from_node:
  assumes "sound_from t m k"
  obtains node where "graph_lookup t m k = Some node" "graph_node t m k = node" "t_ID node = k"
  using good_nodeD [OF sound_from_good [OF assms]] graph_lookup_node graph_lookup_ID by blast

lemma reach_nodes: "sound_from t m k \<Longrightarrow> reach t m k \<subseteq> nodes t m"
  unfolding reach_def nodes_def sound_from_def using good_nodeD graph_lookup_dom by blast

lemma reach_less:
  assumes "sound_from t m k" and "(k, c) \<in> edges t m"
  shows "card (reach t m c) < card (reach t m k)"
proof (rule psubset_card_mono)
  show "finite (reach t m k)"
    using reach_nodes [OF assms(1)] by (rule finite_subset) simp
  have "k \<notin> reach t m c"
  proof
    assume "k \<in> reach t m c"
    then have "(c, k) \<in> (edges t m)\<^sup>*" by (simp add: reach_def)
    with assms(2) have "(k, k) \<in> (edges t m)\<^sup>+" by (rule rtrancl_into_trancl2)
    with assms(1) show False by (auto simp: sound_from_def)
  qed
  moreover have "reach t m c \<subseteq> reach t m k"
    using assms(2) reach_step [of t m k] by blast
  ultimately show "reach t m c \<subset> reach t m k"
    by auto
qed

lemma sound_induct [consumes 1, case_names node]:
  assumes "sound_from t m k"
    and step: "\<And>k node. sound_from t m k \<Longrightarrow> graph_lookup t m k = Some node \<Longrightarrow>
      (\<And>c. c \<in> node_edges node \<Longrightarrow> P c) \<Longrightarrow> P k"
  shows "P k"
  using assms(1)
proof (induction "card (reach t m k)" arbitrary: k rule: less_induct)
  case less
  obtain node where node: "graph_lookup t m k = Some node"
    using less.prems by (rule sound_from_node)
  show ?case
  proof (rule step [OF less.prems node])
    fix c assume "c \<in> node_edges node"
    then have kc: "(k, c) \<in> edges t m" using node by (simp add: edges_dest)
    show "P c"
      by (rule less.hyps [OF reach_less [OF less.prems kc] sound_from_edge [OF less.prems kc]])
  qed
qed

lemma parent_in_edges: "t_ParentID node = Some p \<Longrightarrow> p \<in> node_edges node"
  by (simp add: node_edges_def)

lemma open_ancestors_returns:
  assumes "sound_from t m k"
  shows "\<exists>as. open_ancestors t m (graph_node t m k) acc = Some as \<and>
    set as = set acc \<union> ancestor_ids t m k"
  using assms
proof (induction arbitrary: acc rule: sound_induct)
  case (node k node)
  note ids = graph_lookup_node [OF node(2)] graph_lookup_ID [OF node(2)]
  show ?case
  proof (cases "t_ParentID node")
    case None
    then show ?thesis
      using ids ancestor_ids_step [OF node(2)] by (subst open_ancestors.simps) simp
  next
    case (Some p)
    obtain as where "open_ancestors t m (graph_node t m p) (k # acc) = Some as"
      and "set as = set (k # acc) \<union> ancestor_ids t m p"
      using node(3) [OF parent_in_edges [OF Some]] by blast
    then show ?thesis
      using ids Some ancestor_ids_step [OF node(2)] by (subst open_ancestors.simps) simp
  qed
qed

lemma ancestors_executable_returns:
  assumes "sound_from t m k"
  shows "ancestors_executable t m (graph_node t m k) =
    Some (\<forall>a \<in> ancestor_ids t m k. t_Status (graph_node t m a) \<in> {''ready'', ''in_progress''})"
  using assms
proof (induction rule: sound_induct)
  case (node k node)
  note ids = graph_lookup_node [OF node(2)]
  show ?case
  proof (cases "t_ParentID node")
    case None
    then show ?thesis
      using ids ancestor_ids_step [OF node(2)] by (subst ancestors_executable.simps) simp
  next
    case (Some p)
    with node(3) [OF parent_in_edges [OF Some]] show ?thesis
      using ids ancestor_ids_step [OF node(2)] by (subst ancestors_executable.simps) simp
  qed
qed

subsection \<open>Prerequisites\<close>

definition deps_completed :: "task \<Rightarrow> task_index \<Rightarrow> id \<Rightarrow> bool" where
  "deps_completed t m k \<longleftrightarrow>
    (\<forall>d \<in> set (t_DependsOn (graph_node t m k)). t_Status (graph_node t m d) = ''completed'')"

definition all_completed :: "task \<Rightarrow> task_index \<Rightarrow> id \<Rightarrow> bool" where
  "all_completed t m k \<longleftrightarrow> (\<forall>x \<in> reach t m k. deps_completed t m x)"

lemma all_completed_step:
  assumes "graph_lookup t m k = Some node"
  shows "all_completed t m k \<longleftrightarrow>
    deps_completed t m k \<and> (\<forall>c \<in> node_edges node. all_completed t m c)"
  unfolding all_completed_def using reach_step_node [OF assms] by auto

text \<open>A walk decides \<open>K\<close>: it accepts with memoised nodes that are done, or rejects.\<close>

definition decides :: "task \<Rightarrow> task_index \<Rightarrow> bool \<Rightarrow> id list walk \<Rightarrow> bool" where
  "decides t m K w \<longleftrightarrow>
    (if K then (\<exists>checked. w = Accept checked \<and> (\<forall>c \<in> set checked. all_completed t m c))
     else w = Reject)"

lemma decides_then:
  assumes "decides t m K w"
    and "\<And>checked. K \<Longrightarrow> \<forall>c \<in> set checked. all_completed t m c \<Longrightarrow> decides t m K' (f checked)"
  shows "decides t m (K \<and> K') (walk_then w f)"
  using assms by (cases K) (auto simp: decides_def)

lemma satisfied_deps_decides:
  assumes "\<And>d checked. d \<in> set ds \<Longrightarrow> \<forall>c \<in> set checked. all_completed t m c \<Longrightarrow>
      decides t m (all_completed t m d) (sat (graph_node t m d) checked)"
    and "\<forall>c \<in> set checked. all_completed t m c"
  shows "decides t m
    (\<forall>d \<in> set ds. t_Status (graph_node t m d) = ''completed'' \<and> all_completed t m d)
    (satisfied_deps sat (graph_node t m) ds checked)"
  using assms
proof (induction ds arbitrary: checked)
  case Nil
  then show ?case by (simp add: decides_def)
next
  case (Cons d ds)
  show ?case
  proof (cases "t_Status (graph_node t m d) = ''completed''")
    case True
    have "decides t m (all_completed t m d \<and>
        (\<forall>d \<in> set ds. t_Status (graph_node t m d) = ''completed'' \<and> all_completed t m d))
      (walk_then (sat (graph_node t m d) checked) (satisfied_deps sat (graph_node t m) ds))"
    proof (rule decides_then)
      show "decides t m (all_completed t m d) (sat (graph_node t m d) checked)"
        using Cons.prems by simp
      show "decides t m (\<forall>d \<in> set ds. t_Status (graph_node t m d) = ''completed'' \<and> all_completed t m d)
          (satisfied_deps sat (graph_node t m) ds checked')"
        if "\<forall>c \<in> set checked'. all_completed t m c" for checked'
        by (rule Cons.IH [OF _ that]) (rule Cons.prems(1), simp_all)
    qed
    with True show ?thesis by simp
  next
    case False
    then show ?thesis by (simp add: decides_def)
  qed
qed

lemma prerequisites_satisfied_decides:
  assumes "sound_from t m k" and "card (reach t m k) \<le> n"
    and "\<forall>c \<in> set checked. all_completed t m c"
  shows "decides t m (all_completed t m k) (prerequisites_satisfied t m n (graph_node t m k) checked)"
  using assms
proof (induction arbitrary: n checked rule: sound_induct)
  case (node k node)
  note ids = graph_lookup_node [OF node(2)] graph_lookup_ID [OF node(2)]
  have "finite (reach t m k)"
    using reach_nodes [OF node(1)] by (rule finite_subset) simp
  then have "card (reach t m k) > 0"
    by (simp add: card_gt_0_iff) (metis empty_iff reach_refl)
  with node.prems(1) obtain n' where n: "n = Suc n'"
    by (cases n) simp_all
  have below: "decides t m (all_completed t m c) (prerequisites_satisfied t m n' (graph_node t m c) ch)"
    if "c \<in> node_edges node" "\<forall>c \<in> set ch. all_completed t m c" for c ch
  proof (rule node(3) [OF that(1) _ that(2)])
    have "card (reach t m c) < card (reach t m k)"
      using node(1) edgesI [OF node(2) that(1)] by (rule reach_less)
    with node.prems(1) n show "card (reach t m c) \<le> n'" by simp
  qed
  show ?case
  proof (cases "k \<in> set checked")
    case True
    with node.prems(2) show ?thesis
      unfolding n by (auto simp: ids decides_def)
  next
    case False
    let ?deps = "\<forall>d \<in> set (t_DependsOn node).
      t_Status (graph_node t m d) = ''completed'' \<and> all_completed t m d"
    let ?parent = "\<forall>p \<in> set_option (t_ParentID node). all_completed t m p"
    have all: "all_completed t m k \<longleftrightarrow> ?deps \<and> ?parent \<and> True"
      using all_completed_step [OF node(2)] ids by (auto simp: deps_completed_def node_edges_def)
    have "decides t m (?deps \<and> ?parent \<and> True)
      (walk_then (satisfied_deps (prerequisites_satisfied t m n') (graph_node t m) (t_DependsOn node) checked)
        (\<lambda>checked'. walk_then
         (case t_ParentID node of None \<Rightarrow> Accept checked'
          | Some p \<Rightarrow> prerequisites_satisfied t m n' (graph_node t m p) checked')
         (\<lambda>checked''. Accept (k # checked''))))"
    proof (intro decides_then)
      show "decides t m ?deps
          (satisfied_deps (prerequisites_satisfied t m n') (graph_node t m) (t_DependsOn node) checked)"
        by (rule satisfied_deps_decides [OF _ node.prems(2)]) (rule below, simp_all add: node_edges_def)
    next
      fix ch assume "\<forall>c \<in> set ch. all_completed t m c"
      then show "decides t m ?parent
          (case t_ParentID node of None \<Rightarrow> Accept ch
           | Some p \<Rightarrow> prerequisites_satisfied t m n' (graph_node t m p) ch)"
        using below [OF parent_in_edges] by (auto simp: decides_def split: option.split)
    next
      fix ch assume "?deps" "?parent" "\<forall>c \<in> set ch. all_completed t m c"
      then show "decides t m True (Accept (k # ch))"
        using all by (simp add: decides_def)
    qed
    with False all show ?thesis
      unfolding n by (simp add: ids)
  qed
qed

subsection \<open>The decisions\<close>

lemma taskDependencyGraphValid_iff: "taskDependencyGraphValid t m = Some (graph_ok t m)"
proof (cases "t_ID t = [] \<or> t_UserID t = [] \<or> t_GoalID t = []")
  case True
  then show ?thesis by (auto simp: taskDependencyGraphValid_def graph_ok_def)
next
  case False
  have fuel: "visit t m (graph_fuel m) (t_ID t) [] \<noteq> OutOfFuel"
    by (rule visit_fuel) (simp add: unvisited_def card_nodes)
  have start: "black_ok t m []" by (simp add: black_ok_def)
  show ?thesis
  proof (cases "visit t m (graph_fuel m) (t_ID t) []")
    case OutOfFuel
    with fuel show ?thesis by simp
  next
    case Reject
    then have "\<not> sound_from t m (t_ID t)"
      using start by (rule visit_Reject) simp
    with Reject False show ?thesis
      by (simp add: taskDependencyGraphValid_def graph_ok_def)
  next
    case (Accept st)
    then have e: "extends t m {t_ID t} [] st"
      using start by (rule visit_Accept)
    then have sound: "sound_from t m (t_ID t)"
      by (rule extends_sound) simp
    have "fst ` set st = grey st \<union> black st"
      using visit_keys [OF Accept] by simp
    also have "\<dots> = reach t m (t_ID t)"
      using e black_ok_closed [OF extends_ok [OF e]] by (auto simp: extends_def reach_def)
    finally have keys: "fst ` set st = reach t m (t_ID t)" .
    obtain as where "open_ancestors t m t [] = Some as" "set as = ancestor_ids t m (t_ID t)"
      using open_ancestors_returns [OF sound, of "[]"] by auto
    then show ?thesis
      using False Accept sound keys by (simp add: taskDependencyGraphValid_def graph_ok_def)
  qed
qed

definition eligible :: "task \<Rightarrow> task_index \<Rightarrow> bool" where
  "eligible t m \<longleftrightarrow> graph_ok t m \<and>
    (\<forall>a \<in> ancestor_ids t m (t_ID t). t_Status (graph_node t m a) \<in> {''ready'', ''in_progress''}) \<and>
    all_completed t m (t_ID t)"

lemma executableTaskEligibility_iff: "executableTaskEligibility t m = Some (eligible t m)"
proof (cases "graph_ok t m")
  case False
  then show ?thesis
    by (simp add: executableTaskEligibility_def taskDependencyGraphValid_iff eligible_def)
next
  case True
  then have sound: "sound_from t m (t_ID t)" by (simp add: graph_ok_def)
  have "card (reach t m (t_ID t)) \<le> graph_fuel m"
    using card_mono [OF _ reach_nodes [OF sound]] card_nodes [of t m] by simp
  then have "decides t m (all_completed t m (t_ID t))
      (prerequisites_satisfied t m (graph_fuel m) t [])"
    using prerequisites_satisfied_decides [OF sound, of "graph_fuel m" "[]"] by simp
  then show ?thesis
    using True ancestors_executable_returns [OF sound]
    by (auto simp: executableTaskEligibility_def taskDependencyGraphValid_iff eligible_def decides_def
      split: if_splits bool.split)
qed

end
