(* ===== verification/Store.thy ===== *)
theory Store
  imports Models Go_Time
begin

text \<open>
  The database as the modelled transactions see it. A table is the list of its rows; a query
  is a filter over that list, in the order of its \<open>ORDER BY\<close> or of the rows. \<open>First\<close> on a
  primary key yields the row with that key; an operation on the database cannot fail for
  reasons outside the program (a full disk, a lost connection), so
  \<open>gorm.ErrRecordNotFound\<close> is the only error of a query. A transaction is a function from the
  store to an error or a result with the new store: when it returns an error the caller keeps
  the old store, which is the rollback.
\<close>

record store =
  s_users :: "user list"
  s_goals :: "goal list"
  s_tasks :: "task list"
  s_plans :: "daily_plan list"
  s_revisions :: "plan_revision list"
  s_items :: "plan_item list"
  s_settings :: "planning_settings list"
  s_sessions :: "work_session list"
  s_events :: "progress_event list"
  s_trees :: "task_tree_revision list"
  s_proposals :: "proposal list"
  s_jobs :: "agent_job list"
  s_outbox :: "outbox_event list"
  s_messages :: "conversation_message list"
  s_channels :: "notification_channel list"
  s_targets :: "notification_target list"
  s_notices :: "notification_message list"
  s_audits :: "admin_audit_event list"
  s_threads :: "agent_thread list"
  s_runs :: "agent_run list"
  s_tokens :: "harness_token list"
  s_thread_messages :: "agent_message list"
  s_parts :: "message_part list"
  s_attachments :: "agent_attachment list"
  s_chunks :: "run_chunk list"
  s_coords :: "task_coord list"
  s_imports :: "external_import list"
  s_devices :: "device list"
  s_logins :: "login_session list"
  s_research :: "research_account list"
  s_cas_transactions :: "cas_transaction list"
  s_cas_links :: "cas_link list"
  s_cas_events :: "cas_event list"
  s_providers :: "model_provider list"
  s_profiles :: "panel_profile list"
  s_pairings :: "panel_pairing list"
  s_next :: nat

definition empty_store :: store where
  "empty_store = \<lparr>s_users = [], s_goals = [], s_tasks = [], s_plans = [], s_revisions = [],
     s_items = [], s_settings = [], s_sessions = [], s_events = [], s_trees = [],
     s_proposals = [], s_jobs = [], s_outbox = [], s_messages = [], s_channels = [], s_targets = [],
     s_notices = [], s_audits = [], s_threads = [], s_runs = [], s_tokens = [], s_thread_messages = [],
     s_parts = [], s_attachments = [], s_chunks = [], s_coords = [], s_imports = [],
     s_devices = [], s_logins = [], s_research = [], s_cas_transactions = [], s_cas_links = [], s_cas_events = [], s_providers = [], s_profiles = [], s_pairings = [], s_next = 0\<rparr>"

text \<open>
  What a transaction reads from outside the store: the clock (one reading per transaction), the
  text of the \<open>n\<close>-th fresh UUID, the hash of an input snapshot and the time zone database.
\<close>

record env =
  env_now :: time
  env_uuid :: "nat \<Rightarrow> string"
  env_hash :: "plan_input \<Rightarrow> string"
  env_zones :: "string \<Rightarrow> location option"

subsection \<open>Transactions\<close>

type_synonym 'a tx = "store \<Rightarrow> ('a \<times> store) result"

definition tx_return :: "'a \<Rightarrow> 'a tx" where
  "tx_return a s = Inr (a, s)"

definition tx_bind :: "'a tx \<Rightarrow> ('a \<Rightarrow> 'b tx) \<Rightarrow> 'b tx" where
  "tx_bind m f s = (case m s of Inl e \<Rightarrow> Inl e | Inr (a, s') \<Rightarrow> f a s')"

definition tx_fail :: "app_error \<Rightarrow> 'a tx" where
  "tx_fail e s = Inl e"

definition tx_check :: "bool \<Rightarrow> app_error \<Rightarrow> unit tx" where
  "tx_check b e s = (if b then Inr ((), s) else Inl e)"

definition tx_read :: "(store \<Rightarrow> 'a) \<Rightarrow> 'a tx" where
  "tx_read f s = Inr (f s, s)"

definition tx_try :: "(store \<Rightarrow> 'a result) \<Rightarrow> 'a tx" where
  "tx_try f s = (case f s of Inl e \<Rightarrow> Inl e | Inr a \<Rightarrow> Inr (a, s))"

definition tx_write :: "(store \<Rightarrow> store) \<Rightarrow> unit tx" where
  "tx_write f s = Inr ((), f s)"

fun tx_each :: "('a \<Rightarrow> unit tx) \<Rightarrow> 'a list \<Rightarrow> unit tx" where
  "tx_each f [] = tx_return ()"
| "tx_each f (x # xs) = tx_bind (f x) (\<lambda>_. tx_each f xs)"

fun tx_map :: "('a \<Rightarrow> 'b tx) \<Rightarrow> 'a list \<Rightarrow> 'b list tx" where
  "tx_map f [] = tx_return []"
| "tx_map f (x # xs) = tx_bind (f x) (\<lambda>y. tx_bind (tx_map f xs) (\<lambda>ys. tx_return (y # ys)))"

fun tx_fold :: "('a \<Rightarrow> 'b \<Rightarrow> 'b tx) \<Rightarrow> 'a list \<Rightarrow> 'b \<Rightarrow> 'b tx" where
  "tx_fold f [] b = tx_return b"
| "tx_fold f (x # xs) b = tx_bind (f x b) (tx_fold f xs)"

lemma tx_simps [simp]:
  "tx_return a s = Inr (a, s)"
  "tx_fail e s = Inl e"
  "tx_check True e s = Inr ((), s)"
  "tx_check False e s = Inl e"
  "tx_read f s = Inr (f s, s)"
  "tx_write g s = Inr ((), g s)"
  by (simp_all add: tx_return_def tx_fail_def tx_check_def tx_read_def tx_write_def)

lemma tx_bind_Inr [go_simps]:
  "tx_bind m f s = Inr r \<longleftrightarrow> (\<exists>a s'. m s = Inr (a, s') \<and> f a s' = Inr r)"
  by (auto simp: tx_bind_def split: sum.splits)

lemma tx_bind_Inl [go_simps]:
  "tx_bind m f s = Inl e \<longleftrightarrow> m s = Inl e \<or> (\<exists>a s'. m s = Inr (a, s') \<and> f a s' = Inl e)"
  by (auto simp: tx_bind_def split: sum.splits)

lemma tx_check_Inr [go_simps]: "tx_check b e s = Inr r \<longleftrightarrow> b \<and> r = ((), s)"
  by (auto simp: tx_check_def)

lemma tx_check_Inl [go_simps]: "tx_check b e s = Inl e' \<longleftrightarrow> \<not> b \<and> e' = e"
  by (auto simp: tx_check_def)

lemma tx_try_Inr [go_simps]: "tx_try f s = Inr (a, s') \<longleftrightarrow> f s = Inr a \<and> s' = s"
  by (auto simp: tx_try_def split: sum.splits)

lemma tx_try_Inl [go_simps]: "tx_try f s = Inl e \<longleftrightarrow> f s = Inl e"
  by (auto simp: tx_try_def split: sum.splits)

text \<open>\<open>persistence.NewID\<close>: the prefix and the hexadecimal text of a fresh UUID.\<close>

definition NewID :: "env \<Rightarrow> string \<Rightarrow> id tx" where
  "NewID en prefix s = Inr (prefix @ CHR ''_'' # env_uuid en (s_next s), s\<lparr>s_next := s_next s + 1\<rparr>)"

lemma NewID_Inr [go_simps]: "NewID en p s = Inr (k, s') \<longleftrightarrow>
    k = p @ CHR ''_'' # env_uuid en (s_next s) \<and> s' = s\<lparr>s_next := s_next s + 1\<rparr>"
  by (auto simp: NewID_def)

text \<open>An \<open>UPDATE\<close> of the rows that satisfy a condition, and its \<open>RowsAffected\<close>.\<close>

definition update_rows :: "('r \<Rightarrow> bool) \<Rightarrow> ('r \<Rightarrow> 'r) \<Rightarrow> 'r list \<Rightarrow> 'r list" where
  "update_rows P f rows = map (\<lambda>r. if P r then f r else r) rows"

definition rows_affected :: "('r \<Rightarrow> bool) \<Rightarrow> 'r list \<Rightarrow> nat" where
  "rows_affected P rows = length (filter P rows)"

definition createOutbox :: "env \<Rightarrow> id \<Rightarrow> string \<Rightarrow> (string \<times> payload_value) list \<Rightarrow> unit tx" where
  "createOutbox en userID eventType payload =
    tx_bind (NewID en ''event'') (\<lambda>k. tx_write (\<lambda>s. s\<lparr>s_outbox := s_outbox s @
      [\<lparr>o_ID = k, o_UserID = userID, o_EventType = eventType, o_PayloadJSON = payload,
        o_Status = ''pending'', o_Attempts = 0, o_CreatedAt = env_now en, o_ProcessedAt = None\<rparr>]\<rparr>))"

definition find_user :: "store \<Rightarrow> id \<Rightarrow> user result" where
  "find_user s userID =
    (case find (\<lambda>u. u_ID u = userID) (s_users s) of None \<Rightarrow> Inl ErrNotFound | Some u \<Rightarrow> Inr u)"

definition find_plan :: "store \<Rightarrow> id \<Rightarrow> id \<Rightarrow> daily_plan result" where
  "find_plan s planID userID =
    (case find (\<lambda>p. p_ID p = planID \<and> p_UserID p = userID) (s_plans s) of
       None \<Rightarrow> Inl ErrNotFound | Some p \<Rightarrow> Inr p)"

definition find_dated_plan :: "store \<Rightarrow> id \<Rightarrow> string \<Rightarrow> string \<Rightarrow> daily_plan result" where
  "find_dated_plan s userID localDate zone =
    (case find (\<lambda>p. p_UserID p = userID \<and> p_LocalDate p = localDate \<and> p_Timezone p = zone)
       (s_plans s) of None \<Rightarrow> Inl ErrNotFound | Some p \<Rightarrow> Inr p)"

text \<open>The rows of a snapshot as they are recorded.\<close>

definition snapshot_items :: "plan_item list \<Rightarrow> plan_item list" where
  "snapshot_items items = map (\<lambda>i. i\<lparr>i_UserID := []\<rparr>) items"

lemma update_rows_map:
  "(\<And>r. g (f r) = g r) \<Longrightarrow> map g (update_rows P f rows) = map g rows"
  by (auto simp: update_rows_def)

lemma update_rows_filter_other:
  "(\<And>r. Q r \<Longrightarrow> \<not> P r) \<Longrightarrow> (\<And>r. P r \<Longrightarrow> Q (f r) = Q r) \<Longrightarrow>
     filter Q (update_rows P f rows) = filter Q rows"
  by (induction rows) (auto simp: update_rows_def)

subsection \<open>Frames\<close>

text \<open>A part of the store that a transaction does not change.\<close>

named_theorems tx_frame

definition tx_keeps :: "(store \<Rightarrow> 'b) \<Rightarrow> 'a tx \<Rightarrow> bool" where
  "tx_keeps g m \<longleftrightarrow> (\<forall>s a s'. m s = Inr (a, s') \<longrightarrow> g s' = g s)"

lemma tx_keepsD: "tx_keeps g m \<Longrightarrow> m s = Inr (a, s') \<Longrightarrow> g s' = g s"
  by (simp add: tx_keeps_def)

lemma tx_keeps_bind [tx_frame]: "tx_keeps g m \<Longrightarrow> (\<And>a. tx_keeps g (f a)) \<Longrightarrow> tx_keeps g (tx_bind m f)"
  unfolding tx_keeps_def tx_bind_Inr by metis

lemma tx_keeps_basic [tx_frame]:
  "tx_keeps g (tx_return a)"
  "tx_keeps g (tx_fail e)"
  "tx_keeps g (tx_check b e)"
  "tx_keeps g (tx_read f)"
  "tx_keeps g (tx_try r)"
  by (auto simp: tx_keeps_def go_simps)

lemma tx_keeps_write [tx_frame]: "(\<And>s. g (h s) = g s) \<Longrightarrow> tx_keeps g (tx_write h)"
  by (auto simp: tx_keeps_def)

lemma tx_keeps_NewID [tx_frame]: "(\<And>s n. g (s\<lparr>s_next := n\<rparr>) = g s) \<Longrightarrow> tx_keeps g (NewID en p)"
  by (auto simp: tx_keeps_def go_simps)

lemma tx_keeps_createOutbox [tx_frame]:
  "(\<And>s n. g (s\<lparr>s_next := n\<rparr>) = g s) \<Longrightarrow> (\<And>s os. g (s\<lparr>s_outbox := os\<rparr>) = g s) \<Longrightarrow>
    tx_keeps g (createOutbox en u t p)"
  unfolding createOutbox_def by (intro tx_frame) auto

lemma tx_keeps_each [tx_frame]: "(\<And>x. tx_keeps g (f x)) \<Longrightarrow> tx_keeps g (tx_each f xs)"
  by (induction xs) (auto intro: tx_frame)

lemma tx_keeps_map [tx_frame]: "(\<And>x. tx_keeps g (f x)) \<Longrightarrow> tx_keeps g (tx_map f xs)"
  by (induction xs) (auto intro!: tx_frame)

lemma tx_keeps_fold [tx_frame]: "(\<And>x b. tx_keeps g (f x b)) \<Longrightarrow> tx_keeps g (tx_fold f xs b)"
  by (induction xs arbitrary: b) (auto intro!: tx_frame)

lemma tx_keeps_cases [tx_frame]:
  "(b \<Longrightarrow> tx_keeps g m) \<Longrightarrow> (\<not> b \<Longrightarrow> tx_keeps g n) \<Longrightarrow> tx_keeps g (if b then m else n)"
  "(x = None \<Longrightarrow> tx_keeps g m) \<Longrightarrow> (\<And>y. x = Some y \<Longrightarrow> tx_keeps g (k y)) \<Longrightarrow>
    tx_keeps g (case x of None \<Rightarrow> m | Some y \<Rightarrow> k y)"
  "(\<And>y z. p = (y, z) \<Longrightarrow> tx_keeps g (q y z)) \<Longrightarrow> tx_keeps g (case p of (y, z) \<Rightarrow> q y z)"
  by (cases b, simp_all) (cases x, simp_all, cases p, simp)

subsection \<open>Insertions and updates of a table\<close>

definition tx_create :: "(store \<Rightarrow> 'r list) \<Rightarrow> ('r list \<Rightarrow> store \<Rightarrow> store) \<Rightarrow> ('r \<Rightarrow> 'k) \<Rightarrow> 'r \<Rightarrow> unit tx" where
  "tx_create rows put key r =
    tx_bind (tx_read (\<lambda>s. key r \<in> set (map key (rows s)))) (\<lambda>taken.
    tx_bind (tx_check (\<not> taken) ErrUnique) (\<lambda>_.
    tx_write (\<lambda>s. put (rows s @ [r]) s)))"

text \<open>An update and the number of rows it affected.\<close>

definition tx_update :: "(store \<Rightarrow> 'r list) \<Rightarrow> ('r list \<Rightarrow> store \<Rightarrow> store) \<Rightarrow> ('r \<Rightarrow> bool) \<Rightarrow> ('r \<Rightarrow> 'r) \<Rightarrow> nat tx" where
  "tx_update rows put P f =
    tx_bind (tx_read (\<lambda>s. rows_affected P (rows s))) (\<lambda>n.
    tx_bind (tx_write (\<lambda>s. put (update_rows P f (rows s)) s)) (\<lambda>_. tx_return n))"

text \<open>\<open>RowsAffected == 0\<close> is reported as a missing record.\<close>

definition must_affect :: "nat tx \<Rightarrow> unit tx" where
  "must_affect m = tx_bind m (\<lambda>n. tx_check (n \<noteq> 0) ErrRecordNotFound)"

definition first_row :: "'r list \<Rightarrow> 'r result" where
  "first_row rows = (case rows of [] \<Rightarrow> Inl ErrRecordNotFound | r # _ \<Rightarrow> Inr r)"

subsection \<open>Calls outside a transaction\<close>

text \<open>A sequence of transactions: an error leaves what the earlier ones wrote.\<close>

type_synonym 'a op = "store \<Rightarrow> 'a result \<times> store"

definition op_tx :: "'a tx \<Rightarrow> 'a op" where
  "op_tx m s = (case m s of Inl e \<Rightarrow> (Inl e, s) | Inr (a, s') \<Rightarrow> (Inr a, s'))"

definition op_return :: "'a \<Rightarrow> 'a op" where
  "op_return a s = (Inr a, s)"

definition op_fail :: "app_error \<Rightarrow> 'a op" where
  "op_fail e s = (Inl e, s)"

definition op_bind :: "'a op \<Rightarrow> ('a \<Rightarrow> 'b op) \<Rightarrow> 'b op" where
  "op_bind m f s = (case m s of (Inl e, s') \<Rightarrow> (Inl e, s') | (Inr a, s') \<Rightarrow> f a s')"

text \<open>\<open>_ = call()\<close>, and a call whose error is handled.\<close>

definition op_drop :: "'a op \<Rightarrow> unit op" where
  "op_drop m s = (Inr (), snd (m s))"

definition op_catch :: "'a op \<Rightarrow> (app_error \<Rightarrow> 'a op) \<Rightarrow> 'a op" where
  "op_catch m h s = (case m s of (Inl e, s') \<Rightarrow> h e s' | (Inr a, s') \<Rightarrow> (Inr a, s'))"

fun op_each :: "('a \<Rightarrow> unit op) \<Rightarrow> 'a list \<Rightarrow> unit op" where
  "op_each f [] = op_return ()"
| "op_each f (x # xs) = op_bind (f x) (\<lambda>_. op_each f xs)"

end
