(* ===== verification/Task_Store.thy ===== *)
theory Task_Store
  imports Task_Eligibility Store
begin

text \<open>
  The guards of \<open>internal/application/lifecycle.go\<close>, \<open>taskdependencies.go\<close> and
  \<open>taskexecution.go\<close> that read the store.
\<close>

definition RequireLiveGoalTx :: "store \<Rightarrow> id \<Rightarrow> id \<Rightarrow> goal result" where
  "RequireLiveGoalTx s userID k =
    (case find (\<lambda>g. g_ID g = k \<and> g_UserID g = userID \<and> g_DeletedAt g = None) (s_goals s) of
       None \<Rightarrow> Inl ErrNotFound
     | Some g \<Rightarrow> Inr g)"

definition find_live_task :: "store \<Rightarrow> id \<Rightarrow> id \<Rightarrow> task option" where
  "find_live_task s userID k =
    find (\<lambda>t. t_ID t = k \<and> t_UserID t = userID \<and> t_DeletedAt t = None) (s_tasks s)"

definition find_live_parent :: "store \<Rightarrow> id \<Rightarrow> id \<Rightarrow> id \<Rightarrow> task option" where
  "find_live_parent s userID goalID k =
    find (\<lambda>t. t_ID t = k \<and> t_UserID t = userID \<and> t_GoalID t = goalID \<and> t_DeletedAt t = None)
      (s_tasks s)"

lemma find_Some_set: "find P xs = Some x \<Longrightarrow> x \<in> set xs \<and> P x"
  by (induction xs) (auto split: if_splits)

lemma find_live_parentD:
  "find_live_parent s u g k = Some t \<Longrightarrow>
     t \<in> set (s_tasks s) \<and> t_ID t = k \<and> t_UserID t = u \<and> t_GoalID t = g \<and> t_DeletedAt t = None"
  by (auto simp: find_live_parent_def dest!: find_Some_set)

lemma find_live_taskD:
  "find_live_task s u k = Some t \<Longrightarrow>
     t \<in> set (s_tasks s) \<and> t_ID t = k \<and> t_UserID t = u \<and> t_DeletedAt t = None"
  by (auto simp: find_live_task_def dest!: find_Some_set)

text \<open>
  The loop of \<open>RequireLiveTaskTx\<close>. It returns on every store: each turn marks one more of
  the finitely many rows as seen.
\<close>

function live_parent_chain :: "store \<Rightarrow> id \<Rightarrow> id \<Rightarrow> id option \<Rightarrow> id list \<Rightarrow> unit result" where
  "live_parent_chain s userID goalID parentID seen =
    (case parentID of
       None \<Rightarrow> Inr ()
     | Some p \<Rightarrow>
         if p \<in> set seen then Inl ErrConflict
         else (case find_live_parent s userID goalID p of
             None \<Rightarrow> Inl ErrNotFound
           | Some parent \<Rightarrow> live_parent_chain s userID goalID (t_ParentID parent) (p # seen)))"
  by pat_completeness auto
termination
proof (relation "measure (\<lambda>(s, u, g, p, seen). card (t_ID ` set (s_tasks s) - set seen))", goal_cases)
  case 1
  then show ?case by simp
next
  case (2 s u g parentID seen p parent)
  then have "p \<in> t_ID ` set (s_tasks s)" by (auto dest!: find_live_parentD)
  with 2 have "t_ID ` set (s_tasks s) - set (p # seen) \<subset> t_ID ` set (s_tasks s) - set seen" by auto
  then show ?case by (simp add: psubset_card_mono)
qed

declare live_parent_chain.simps [simp del]

definition RequireLiveTaskTx :: "store \<Rightarrow> id \<Rightarrow> id \<Rightarrow> task result" where
  "RequireLiveTaskTx s userID k =
    (case find_live_task s userID k of
       None \<Rightarrow> Inl ErrNotFound
     | Some t \<Rightarrow>
         bind_r (RequireLiveGoalTx s userID (t_GoalID t)) (\<lambda>_.
         bind_r (live_parent_chain s userID (t_GoalID t) (t_ParentID t) [t_ID t]) (\<lambda>_. Inr t)))"

subsection \<open>Saving a candidate\<close>

definition goal_tasks :: "store \<Rightarrow> id \<Rightarrow> id \<Rightarrow> task list" where
  "goal_tasks s userID goalID =
    filter (\<lambda>t. t_UserID t = userID \<and> t_GoalID t = goalID) (s_tasks s)"

text \<open>The map \<open>byID\<close> a loop over rows fills: a later row replaces an earlier one.\<close>

definition index_tasks :: "task list \<Rightarrow> task_index" where
  "index_tasks ts = rev (map (\<lambda>t. (t_ID t, t)) ts)"

definition keyed :: "task_index \<Rightarrow> bool" where
  "keyed m \<longleftrightarrow> (\<forall>k node. map_of m k = Some node \<longrightarrow> t_ID node = k)"

lemma keyedD: "keyed m \<Longrightarrow> map_of m k = Some node \<Longrightarrow> t_ID node = k"
  by (simp add: keyed_def)

lemma keyed_index [simp]: "keyed (index_tasks rows)"
  by (auto simp: keyed_def index_tasks_def dest!: map_of_SomeD)

lemma keyed_Cons [simp]: "keyed m \<Longrightarrow> keyed ((t_ID t, t) # m)"
  by (simp add: keyed_def)

text \<open>
  The closure \<open>reachesCandidate\<close>: \<open>Reject\<close> is its answer true, which ends the search,
  \<open>Accept\<close> carries the identifiers seen so far with the answer false.
\<close>

abbreviation Reached :: "'a walk" where
  "Reached \<equiv> Reject"

fun reach_deps :: "(id \<Rightarrow> id list \<Rightarrow> id list walk) \<Rightarrow> id list \<Rightarrow> id list \<Rightarrow> id list walk" where
  "reach_deps f [] seen = Accept seen"
| "reach_deps f (d # ds) seen = walk_then (f d seen) (reach_deps f ds)"

fun reachesCandidate :: "id \<Rightarrow> task_index \<Rightarrow> nat \<Rightarrow> id \<Rightarrow> id list \<Rightarrow> id list walk" where
  "reachesCandidate cand byID 0 k seen = OutOfFuel"
| "reachesCandidate cand byID (Suc n) k seen =
    (if k = cand then Reached
     else if k \<in> set seen then Accept seen
     else (case map_of byID k of
       None \<Rightarrow> Accept (k # seen)
     | Some node \<Rightarrow>
         walk_then
           (case t_ParentID node of
              None \<Rightarrow> Accept (k # seen)
            | Some p \<Rightarrow> reachesCandidate cand byID n p (k # seen))
           (reach_deps (reachesCandidate cand byID n) (t_DependsOn node))))"

text \<open>The loop over the other rows; \<open>None\<close> would be a search that does not return.\<close>

fun check_dependents :: "task \<Rightarrow> task_index \<Rightarrow> task list \<Rightarrow> unit result option" where
  "check_dependents t byID [] = Some (Inr ())"
| "check_dependents t byID (c # cs) =
    (if t_ID c = t_ID t \<or> t_DeletedAt c \<noteq> None then check_dependents t byID cs
     else (case reachesCandidate (t_ID t) byID (graph_fuel byID) (t_ID c) [] of
         OutOfFuel \<Rightarrow> None
       | Accept _ \<Rightarrow> check_dependents t byID cs
       | Reached \<Rightarrow>
           (case taskDependencyGraphValid c byID of
              None \<Rightarrow> None
            | Some ok \<Rightarrow> if \<not> ok then Some (Inl ErrValidation) else check_dependents t byID cs)))"

definition validateTaskDependenciesTx :: "store \<Rightarrow> task \<Rightarrow> unit result option" where
  "validateTaskDependenciesTx s t =
    (case RequireLiveGoalTx s (t_UserID t) (t_GoalID t) of
       Inl e \<Rightarrow> Some (Inl e)
     | Inr _ \<Rightarrow>
        let rows = goal_tasks s (t_UserID t) (t_GoalID t);
            byID = (t_ID t, t) # index_tasks rows
        in (case taskDependencyGraphValid t byID of
              None \<Rightarrow> None
            | Some ok \<Rightarrow> if \<not> ok then Some (Inl ErrValidation) else check_dependents t byID rows))"

definition taskExecutableTx :: "store \<Rightarrow> id \<Rightarrow> id \<Rightarrow> bool result option" where
  "taskExecutableTx s userID taskID =
    (case RequireLiveTaskTx s userID taskID of
       Inl e \<Rightarrow> Some (Inl e)
     | Inr t \<Rightarrow>
        (case RequireLiveGoalTx s userID (t_GoalID t) of
           Inl e \<Rightarrow> Some (Inl e)
         | Inr g \<Rightarrow>
             if g_Status g \<noteq> ''active'' then Some (Inr False)
             else map_option Inr
               (executableTaskEligibility t (index_tasks (goal_tasks s userID (t_GoalID t))))))"

subsection \<open>The dependents that are checked\<close>

definition index_edges :: "task_index \<Rightarrow> (id \<times> id) set" where
  "index_edges m = {(a, b). \<exists>node. map_of m a = Some node \<and> b \<in> node_edges node}"

definition finished :: "task_index \<Rightarrow> id list \<Rightarrow> id list \<Rightarrow> bool" where
  "finished m seen seen' \<longleftrightarrow> (\<forall>x \<in> set seen' - set seen. index_edges m `` {x} \<subseteq> set seen')"

definition missed :: "id \<Rightarrow> task_index \<Rightarrow> id set \<Rightarrow> id list \<Rightarrow> id list \<Rightarrow> bool" where
  "missed cand m K seen seen' \<longleftrightarrow>
    set seen \<subseteq> set seen' \<and> K \<subseteq> set seen' \<and> cand \<notin> set seen' - set seen \<and> finished m seen seen'"

lemma missed_refl: "missed cand m {} seen seen"
  by (simp add: missed_def finished_def)

lemma missed_trans:
  "missed cand m K seen s1 \<Longrightarrow> missed cand m K' s1 s2 \<Longrightarrow> missed cand m (K \<union> K') seen s2"
  unfolding missed_def finished_def by blast

lemma missed_node:
  assumes "missed cand m (node_edges node) (k # seen) seen'"
    and "map_of m k = Some node" and "k \<noteq> cand"
  shows "missed cand m {k} seen seen'"
proof -
  have "index_edges m `` {k} = node_edges node"
    using assms(2) by (auto simp: index_edges_def)
  then have "index_edges m `` {x} \<subseteq> set seen'" if "x \<in> set seen' - set seen" for x
    using assms(1) that unfolding missed_def finished_def by (cases "x = k") auto
  then show ?thesis
    using assms(1,3) unfolding missed_def finished_def by auto
qed

lemma reach_deps_missed:
  assumes "\<And>d s s'. d \<in> set ds \<Longrightarrow> f d s = Accept s' \<Longrightarrow> missed cand m {d} s s'"
    and "reach_deps f ds seen = Accept seen'"
  shows "missed cand m (set ds) seen seen'"
  using assms
proof (induction ds arbitrary: seen)
  case Nil
  then show ?case by (simp add: missed_refl)
next
  case (Cons d ds)
  then obtain s where s: "f d seen = Accept s" and rest: "reach_deps f ds s = Accept seen'"
    by (auto simp: walk_cases)
  have "missed cand m {d} seen s" by (rule Cons.prems(1) [OF _ s]) simp
  moreover have "missed cand m (set ds) s seen'"
    by (rule Cons.IH [OF _ rest]) (rule Cons.prems(1) [OF list.set_intros(2)])
  ultimately have "missed cand m ({d} \<union> set ds) seen seen'" by (rule missed_trans)
  then show ?case by simp
qed

lemma reaches_missed:
  "reachesCandidate cand m n k seen = Accept seen' \<Longrightarrow> missed cand m {k} seen seen'"
proof (induction n arbitrary: k seen seen')
  case (Suc n)
  show ?case
  proof (cases "k = cand \<or> k \<in> set seen")
    case True
    with Suc.prems show ?thesis by (auto simp: missed_def finished_def split: if_splits)
  next
    case False
    show ?thesis
    proof (cases "map_of m k")
      case None
      with Suc.prems False show ?thesis
        by (auto simp: missed_def finished_def index_edges_def)
    next
      case (Some node)
      with Suc.prems False obtain s1 where
        s1: "(case t_ParentID node of None \<Rightarrow> Accept (k # seen)
           | Some p \<Rightarrow> reachesCandidate cand m n p (k # seen)) = Accept s1"
        and s2: "reach_deps (reachesCandidate cand m n) (t_DependsOn node) s1 = Accept seen'"
        by (auto simp: walk_cases)
      have "missed cand m (set_option (t_ParentID node)) (k # seen) s1"
        using s1 Suc.IH by (auto split: option.splits intro: missed_refl)
      moreover have "missed cand m (set (t_DependsOn node)) s1 seen'"
        using Suc.IH s2 by (rule reach_deps_missed)
      ultimately have "missed cand m (node_edges node) (k # seen) seen'"
        unfolding node_edges_def by (rule missed_trans)
      then show ?thesis
        using False Some by (intro missed_node) auto
    qed
  qed
qed simp

lemma reaches_missed_all:
  assumes "reachesCandidate cand m n k [] = Accept seen'"
  shows "(k, cand) \<notin> (index_edges m)\<^sup>*"
proof
  assume reach: "(k, cand) \<in> (index_edges m)\<^sup>*"
  have miss: "missed cand m {k} [] seen'"
    using assms by (rule reaches_missed)
  have "x \<in> set seen'" if "(k, x) \<in> (index_edges m)\<^sup>*" for x
    using that
  proof (induction rule: rtrancl_induct)
    case base
    then show ?case using miss by (simp add: missed_def)
  next
    case (step y z)
    then show ?case using miss by (auto simp: missed_def finished_def)
  qed
  with reach miss show False by (auto simp: missed_def)
qed

lemma reach_deps_Reached:
  assumes "\<And>d s. d \<in> set ds \<Longrightarrow> f d s = Reached \<Longrightarrow> Q" and "reach_deps f ds seen = Reached"
  shows Q
  using assms
proof (induction ds arbitrary: seen)
  case (Cons d ds)
  show ?case
  proof (cases "f d seen = Reached")
    case True
    then show ?thesis by (intro Cons.prems(1)) simp_all
  next
    case False
    with Cons.prems(2) obtain s where "reach_deps f ds s = Reached"
      by (auto simp: walk_cases)
    then show ?thesis
      by (rule Cons.IH [rotated]) (rule Cons.prems(1) [OF list.set_intros(2)])
  qed
qed simp

lemma reaches_sound: "reachesCandidate cand m n k seen = Reached \<Longrightarrow> (k, cand) \<in> (index_edges m)\<^sup>*"
proof (induction n arbitrary: k seen)
  case (Suc n)
  show ?case
  proof (cases "k = cand")
    case True
    then show ?thesis by simp
  next
    case False
    with Suc.prems obtain node where node: "map_of m k = Some node"
      by (auto split: if_splits option.splits)
    have below: "(k, cand) \<in> (index_edges m)\<^sup>*"
      if "c \<in> node_edges node" "reachesCandidate cand m n c s = Reached" for c s
    proof -
      have "(k, c) \<in> index_edges m" using node that(1) by (auto simp: index_edges_def)
      moreover have "(c, cand) \<in> (index_edges m)\<^sup>*" using that(2) by (rule Suc.IH)
      ultimately show ?thesis by (rule converse_rtrancl_into_rtrancl)
    qed
    from Suc.prems False node consider
        (parent) p s where "t_ParentID node = Some p" "reachesCandidate cand m n p s = Reached"
      | (deps) s where "reach_deps (reachesCandidate cand m n) (t_DependsOn node) s = Reached"
      by (auto simp: walk_cases split: if_splits option.splits)
    then show ?thesis
    proof cases
      case parent
      then show ?thesis by (intro below) (auto simp: node_edges_def)
    next
      case deps
      show ?thesis
        by (rule reach_deps_Reached [OF _ deps]) (auto intro: below simp: node_edges_def)
    qed
  qed
qed simp

lemma reaches_fuel:
  "card (fst ` set m - set seen) < n \<Longrightarrow> reachesCandidate cand m n k seen \<noteq> OutOfFuel"
proof (induction n arbitrary: k seen)
  case (Suc n)
  show ?case
  proof (cases "k = cand \<or> k \<in> set seen \<or> map_of m k = None")
    case True
    then show ?thesis by auto
  next
    case False
    then obtain node where node: "map_of m k = Some node" by auto
    then have "k \<in> fst ` set m" by (metis map_of_eq_None_iff option.discI)
    with False have "fst ` set m - set (k # seen) \<subset> fst ` set m - set seen" by auto
    then have "card (fst ` set m - set (k # seen)) < card (fst ` set m - set seen)"
      by (rule psubset_card_mono [rotated]) simp
    with Suc.prems have room: "card (fst ` set m - set (k # seen)) < n" by simp
    have below: "reachesCandidate cand m n c s \<noteq> OutOfFuel" if "set (k # seen) \<subseteq> set s" for c s
    proof (rule Suc.IH)
      have "card (fst ` set m - set s) \<le> card (fst ` set m - set (k # seen))"
        using that by (intro card_mono) auto
      with room show "card (fst ` set m - set s) < n" by simp
    qed
    have deps: "reach_deps (reachesCandidate cand m n) ds s \<noteq> OutOfFuel"
      if "set (k # seen) \<subseteq> set s" for ds s
      using that
    proof (induction ds arbitrary: s)
      case (Cons d ds)
      show ?case
      proof (cases "reachesCandidate cand m n d s")
        case (Accept s')
        then have "set s \<subseteq> set s'" using reaches_missed by (auto simp: missed_def)
        with Cons Accept show ?thesis by auto
      qed (use below Cons.prems in auto)
    qed simp
    have parent: "set (k # seen) \<subseteq> set s1" if "reachesCandidate cand m n p (k # seen) = Accept s1" for p s1
      using reaches_missed [OF that] by (auto simp: missed_def)
    show ?thesis
    proof (cases "t_ParentID node")
      case None
      with False node deps [of "k # seen"] show ?thesis by simp
    next
      case (Some p)
      show ?thesis
      proof (cases "reachesCandidate cand m n p (k # seen)")
        case OutOfFuel
        with below [of "k # seen"] show ?thesis by simp
      next
        case Reject
        with False node Some show ?thesis by simp
      next
        case (Accept s1)
        with False node Some deps [OF parent [OF Accept]] show ?thesis by simp
      qed
    qed
  qed
qed simp

lemma reaches_decides:
  "(case reachesCandidate cand m (graph_fuel m) k [] of OutOfFuel \<Rightarrow> None | Reject \<Rightarrow> Some True
     | Accept _ \<Rightarrow> Some False) = Some ((k, cand) \<in> (index_edges m)\<^sup>*)"
proof -
  have "card (fst ` set m - set []) < graph_fuel m"
    using card_image_le [of "set m" fst] card_length [of m] by (simp add: graph_fuel_def)
  then have "reachesCandidate cand m (graph_fuel m) k [] \<noteq> OutOfFuel"
    by (rule reaches_fuel)
  then show ?thesis
    using reaches_missed_all [of cand m _ k] reaches_sound [of cand m _ k]
    by (cases "reachesCandidate cand m (graph_fuel m) k []") auto
qed

lemma check_dependents_result:
  "check_dependents t m cs = Some (if \<forall>c \<in> set cs. t_ID c \<noteq> t_ID t \<longrightarrow> t_DeletedAt c = None \<longrightarrow>
       (t_ID c, t_ID t) \<in> (index_edges m)\<^sup>* \<longrightarrow> graph_ok c m
     then Inr () else Inl ErrValidation)"
proof (induction cs)
  case (Cons c cs)
  note dec = reaches_decides [of "t_ID t" m "t_ID c"]
  show ?case
  proof (cases "t_ID c = t_ID t \<or> t_DeletedAt c \<noteq> None")
    case True
    then have "check_dependents t m (c # cs) = check_dependents t m cs" by simp
    with True Cons.IH show ?thesis by auto
  next
    case False
    show ?thesis
    proof (cases "reachesCandidate (t_ID t) m (graph_fuel m) (t_ID c) []")
      case OutOfFuel
      with dec show ?thesis by simp
    next
      case Reject
      with dec have "(t_ID c, t_ID t) \<in> (index_edges m)\<^sup>*" by simp
      with Reject False Cons.IH show ?thesis
        by (simp add: taskDependencyGraphValid_iff)
    next
      case (Accept seen)
      with dec have "(t_ID c, t_ID t) \<notin> (index_edges m)\<^sup>*" by simp
      with Accept False Cons.IH show ?thesis by simp
    qed
  qed
qed simp

end
