(* ===== verification/Task_Graph_Properties.thy ===== *)
theory Task_Graph_Properties
  imports Task_Store
begin

text \<open>
  The properties of the prerequisite graph: what the validator and the executability test
  decide, that both return on every input, that a valid graph can always be worked off, and
  that a save the validator accepted keeps every live task of the goal valid.
\<close>

subsection \<open>Locality of a valid graph\<close>

lemma graph_lookup_map_of: "map_of m = map_of m' \<Longrightarrow> graph_lookup t m = graph_lookup t m'"
  by (rule ext) (simp add: graph_lookup_def)

lemma graph_ok_map_of:
  assumes "map_of m = map_of m'"
  shows "graph_ok t m \<longleftrightarrow> graph_ok t m'"
proof -
  have nodes: "graph_node t m = graph_node t m'"
    by (rule ext) (simp add: graph_node_def gomap_get_def assms)
  have "edges t m = edges t m'" "parent_edges t m = parent_edges t m'"
    "good_node t m = good_node t m'"
    by (auto simp: edges_def parent_edges_def good_node_def graph_lookup_map_of [OF assms])
  with nodes show ?thesis
    by (simp add: graph_ok_def reach_def ancestor_ids_def sound_from_def)
qed

lemma reach_mono_local:
  assumes agree: "\<forall>x \<in> reach c m' k. graph_lookup c m' x = graph_lookup c m x"
    and "x \<in> reach c m' k"
  shows "(x, y) \<in> (edges c m')\<^sup>* \<Longrightarrow> (x, y) \<in> (edges c m)\<^sup>*"
    and "(x, y) \<in> (edges c m')\<^sup>+ \<Longrightarrow> (x, y) \<in> (edges c m)\<^sup>+"
    and "(x, y) \<in> (parent_edges c m')\<^sup>* \<Longrightarrow> (x, y) \<in> (parent_edges c m)\<^sup>*"
proof -
  have edge: "(a, b) \<in> edges c m" if "a \<in> reach c m' k" "(a, b) \<in> edges c m'" for a b
    using that agree by (auto simp: edges_def)
  have parent: "(a, b) \<in> parent_edges c m" if "a \<in> reach c m' k" "(a, b) \<in> parent_edges c m'" for a b
    using that agree by (auto simp: parent_edges_def)
  have stay: "y \<in> reach c m' k" if "(x, y) \<in> (edges c m')\<^sup>*" for y
    using assms(2) that by (auto simp: reach_def)
  show "(x, y) \<in> (edges c m')\<^sup>* \<Longrightarrow> (x, y) \<in> (edges c m)\<^sup>*"
    by (induction rule: rtrancl_induct) (auto intro: edge stay rtrancl_into_rtrancl)
  show "(x, y) \<in> (edges c m')\<^sup>+ \<Longrightarrow> (x, y) \<in> (edges c m)\<^sup>+"
  proof (induction rule: trancl_induct)
    case (base y)
    then show ?case using assms(2) edge by blast
  next
    case (step y z)
    then show ?case using edge stay [OF trancl_into_rtrancl] by (meson trancl_into_trancl)
  qed
  show "(x, y) \<in> (parent_edges c m')\<^sup>* \<Longrightarrow> (x, y) \<in> (parent_edges c m)\<^sup>*"
  proof (induction rule: rtrancl_induct)
    case (step y z)
    have "(x, y) \<in> (edges c m')\<^sup>*"
      using step.hyps(1) rtrancl_mono [OF parent_edges_subset] by blast
    then show ?case
      using step parent stay by (meson rtrancl.rtrancl_into_rtrancl)
  qed simp
qed

lemma graph_ok_local:
  assumes agree: "\<forall>x \<in> reach c m' (t_ID c). graph_lookup c m' x = graph_lookup c m x"
    and ok: "graph_ok c m"
  shows "graph_ok c m'"
proof -
  note mono = reach_mono_local [OF agree]
  have sound: "good_node c m x \<and> (x, x) \<notin> (edges c m)\<^sup>+" and reach: "x \<in> reach c m (t_ID c)"
    if "x \<in> reach c m' (t_ID c)" for x
    using ok mono(1) [OF reach_refl] that by (auto simp: graph_ok_def sound_from_def reach_def)
  have good: "good_node c m' x" if "x \<in> reach c m' (t_ID c)" for x
    using sound [OF that] agree that by (simp add: good_node_def)
  have "sound_from c m' (t_ID c)"
    unfolding sound_from_def
  proof (intro allI impI)
    fix x assume "(t_ID c, x) \<in> (edges c m')\<^sup>*"
    then have "x \<in> reach c m' (t_ID c)" by (simp add: reach_def)
    then show "good_node c m' x \<and> (x, x) \<notin> (edges c m')\<^sup>+"
      using good sound mono(2) by blast
  qed
  moreover have "d \<notin> ancestor_ids c m' (t_ID c)"
    if x: "x \<in> reach c m' (t_ID c)" and d: "d \<in> set (t_DependsOn (graph_node c m' x))" for x d
  proof -
    obtain node :: task where "graph_lookup c m' x = Some node"
      using good [OF x] by (auto simp: good_node_def)
    then have "graph_node c m' x = graph_node c m x"
      using agree x graph_lookup_node by metis
    then have "d \<notin> ancestor_ids c m (t_ID c)"
      using ok d reach [OF x] by (auto simp: graph_ok_def)
    then show ?thesis
      using mono(3) [OF reach_refl] by (auto simp: ancestor_ids_def)
  qed
  ultimately show ?thesis
    using ok by (simp add: graph_ok_def)
qed

subsection \<open>Indexes over rows with distinct identifiers\<close>

lemma graph_lookup_keyed:
  assumes "keyed m" and "map_of m (t_ID c) = Some c"
  shows "graph_lookup c m k = map_of m k"
proof (cases "map_of m k")
  case None
  with assms(2) show ?thesis by (auto simp: graph_lookup_def)
next
  case (Some node)
  have key: "t_ID node = k" using Some by (rule keyedD [OF assms(1)])
  show ?thesis
  proof (cases "k = t_ID c")
    case True
    then show ?thesis using assms(2) by (simp add: graph_lookup_def)
  next
    case False
    then show ?thesis using Some key by (simp add: graph_lookup_def)
  qed
qed

lemma edges_keyed: "keyed m \<Longrightarrow> map_of m (t_ID c) = Some c \<Longrightarrow> edges c m = index_edges m"
  by (simp add: edges_def index_edges_def graph_lookup_keyed)

lemma map_of_index:
  assumes "distinct (map t_ID rows)"
  shows "map_of (index_tasks rows) k = Some r \<longleftrightarrow> r \<in> set rows \<and> t_ID r = k"
proof -
  have d: "distinct (map fst (index_tasks rows))"
    using assms by (simp add: index_tasks_def rev_map [symmetric] comp_def)
  have "map_of (index_tasks rows) k = Some r \<longleftrightarrow> (k, r) \<in> set (index_tasks rows)"
    using map_of_eq_Some_iff [OF d] .
  then show ?thesis by (auto simp: index_tasks_def)
qed

text \<open>The rows of the goal once the candidate is saved: replaced, or added.\<close>

definition save_task :: "task \<Rightarrow> task list \<Rightarrow> task list" where
  "save_task t rows =
    (if t_ID t \<in> t_ID ` set rows then map (\<lambda>r. if t_ID r = t_ID t then t else r) rows
     else rows @ [t])"

lemma save_task_ids:
  assumes "distinct (map t_ID rows)"
  shows "distinct (map t_ID (save_task t rows))"
proof -
  have "map t_ID (map (\<lambda>r. if t_ID r = t_ID t then t else r) rows) = map t_ID rows"
    by (induction rows) auto
  with assms show ?thesis
    by (simp add: save_task_def del: map_map)
qed

lemma save_task_set: "set (save_task t rows) = insert t {r \<in> set rows. t_ID r \<noteq> t_ID t}"
  by (auto simp: save_task_def) (metis image_eqI)

lemma map_of_save:
  assumes "distinct (map t_ID rows)"
  shows "map_of (index_tasks (save_task t rows)) = map_of ((t_ID t, t) # index_tasks rows)"
proof
  fix k
  have "map_of (index_tasks (save_task t rows)) k = Some r \<longleftrightarrow>
      map_of ((t_ID t, t) # index_tasks rows) k = Some r" for r
    using map_of_index [OF assms, of k] map_of_index [OF save_task_ids [OF assms], of t k]
    by (auto simp: save_task_set)
  then show "map_of (index_tasks (save_task t rows)) k = map_of ((t_ID t, t) # index_tasks rows) k"
    by (metis option.exhaust)
qed

definition goal_graphs_ok :: "task list \<Rightarrow> bool" where
  "goal_graphs_ok rows \<longleftrightarrow>
    (\<forall>c \<in> set rows. t_DeletedAt c = None \<longrightarrow> graph_ok c (index_tasks rows))"

lemma validate_result:
  "validateTaskDependenciesTx s t =
    Some (case RequireLiveGoalTx s (t_UserID t) (t_GoalID t) of
        Inl e \<Rightarrow> Inl e
      | Inr _ \<Rightarrow>
         (let rows = goal_tasks s (t_UserID t) (t_GoalID t); m = (t_ID t, t) # index_tasks rows
          in if graph_ok t m \<and>
              (\<forall>c \<in> set rows. t_ID c \<noteq> t_ID t \<longrightarrow> t_DeletedAt c = None \<longrightarrow>
                (t_ID c, t_ID t) \<in> (index_edges m)\<^sup>* \<longrightarrow> graph_ok c m)
             then Inr () else Inl ErrValidation))"
  by (auto simp: validateTaskDependenciesTx_def taskDependencyGraphValid_iff check_dependents_result
      Let_def split: sum.split)

lemma validated_save_ok:
  assumes rows: "rows = goal_tasks s (t_UserID t) (t_GoalID t)"
    and distinct: "distinct (map t_ID rows)"
    and before: "goal_graphs_ok rows"
    and valid: "validateTaskDependenciesTx s t = Some (Inr ())"
  shows "goal_graphs_ok (save_task t rows)"
proof -
  let ?m = "(t_ID t, t) # index_tasks rows"
  have t_ok: "graph_ok t ?m"
    and dep_ok: "\<And>c. c \<in> set rows \<Longrightarrow> t_ID c \<noteq> t_ID t \<Longrightarrow> t_DeletedAt c = None \<Longrightarrow>
        (t_ID c, t_ID t) \<in> (index_edges ?m)\<^sup>* \<Longrightarrow> graph_ok c ?m"
    using valid unfolding validate_result
    by (auto simp: rows Let_def split: sum.splits if_splits)
  have "graph_ok c ?m" if c: "c \<in> set (save_task t rows)" "t_DeletedAt c = None" for c
  proof (cases "t_ID c = t_ID t \<or> (t_ID c, t_ID t) \<in> (index_edges ?m)\<^sup>*")
    case True
    with c t_ok dep_ok show ?thesis by (auto simp: save_task_set)
  next
    case False
    then have row: "c \<in> set rows" and other: "t_ID c \<noteq> t_ID t"
      using c by (auto simp: save_task_set)
    then have self: "map_of (index_tasks rows) (t_ID c) = Some c"
      using map_of_index [OF distinct] by blast
    with other have self': "map_of ?m (t_ID c) = Some c" by simp
    have "\<forall>x \<in> reach c ?m (t_ID c). graph_lookup c ?m x = graph_lookup c (index_tasks rows) x"
    proof
      fix x assume "x \<in> reach c ?m (t_ID c)"
      then have "(t_ID c, x) \<in> (index_edges ?m)\<^sup>*"
        by (simp add: reach_def edges_keyed self' del: map_of.simps)
      with False have "x \<noteq> t_ID t" by auto
      then show "graph_lookup c ?m x = graph_lookup c (index_tasks rows) x"
        by (simp add: graph_lookup_def)
    qed
    moreover have "graph_ok c (index_tasks rows)"
      using before row c(2) by (simp add: goal_graphs_ok_def)
    ultimately show ?thesis by (rule graph_ok_local)
  qed
  then show ?thesis
    by (simp add: goal_graphs_ok_def graph_ok_map_of [OF map_of_save [OF distinct]])
qed

subsection \<open>Working a valid graph off\<close>

text \<open>The rows once the ancestors of the task are open and everything else is completed.\<close>

definition worked_off :: "id set \<Rightarrow> task \<Rightarrow> task" where
  "worked_off undone node =
    node\<lparr>t_Status := if t_ID node \<in> undone then ''ready'' else ''completed''\<rparr>"

definition worked_index :: "id set \<Rightarrow> task_index \<Rightarrow> task_index" where
  "worked_index undone m = map (map_prod id (worked_off undone)) m"

lemma worked_off_fields [simp]:
  "t_ID (worked_off A n) = t_ID n" "t_UserID (worked_off A n) = t_UserID n"
  "t_GoalID (worked_off A n) = t_GoalID n" "t_DeletedAt (worked_off A n) = t_DeletedAt n"
  "t_ParentID (worked_off A n) = t_ParentID n" "t_DependsOn (worked_off A n) = t_DependsOn n"
  by (simp_all add: worked_off_def)

lemma worked_off_status [simp]:
  "t_Status (worked_off A n) = (if t_ID n \<in> A then ''ready'' else ''completed'')"
  by (simp add: worked_off_def)

lemma node_edges_worked [simp]: "node_edges (worked_off A n) = node_edges n"
  by (simp add: node_edges_def)

lemma graph_lookup_worked:
  "graph_lookup (worked_off A t) (worked_index A m) k = map_option (worked_off A) (graph_lookup t m k)"
proof -
  have "map_of (worked_index A m) k = map_option (worked_off A) (map_of m k)"
    by (simp add: worked_index_def map_prod_def map_of_map case_prod_beta')
       (induction m, auto)
  then show ?thesis
    by (simp add: graph_lookup_def split: option.split)
qed

lemma worked_graph:
  "edges (worked_off A t) (worked_index A m) = edges t m"
  "parent_edges (worked_off A t) (worked_index A m) = parent_edges t m"
  "good_node (worked_off A t) (worked_index A m) = good_node t m"
  by (auto simp: edges_def parent_edges_def good_node_def graph_lookup_worked fun_eq_iff)

lemma worked_reach:
  "reach (worked_off A t) (worked_index A m) k = reach t m k"
  "ancestor_ids (worked_off A t) (worked_index A m) k = ancestor_ids t m k"
  "sound_from (worked_off A t) (worked_index A m) k = sound_from t m k"
  by (simp_all add: reach_def ancestor_ids_def sound_from_def worked_graph)

lemma worked_node:
  assumes "sound_from t m k"
  shows "graph_node (worked_off A t) (worked_index A m) k = worked_off A (graph_node t m k)"
proof -
  obtain node where "graph_lookup t m k = Some node" "graph_node t m k = node"
    using assms by (rule sound_from_node)
  then show ?thesis
    using graph_lookup_node [of "worked_off A t" "worked_index A m" k] by (simp add: graph_lookup_worked)
qed

lemma sound_from_reach: "sound_from t m k \<Longrightarrow> x \<in> reach t m k \<Longrightarrow> sound_from t m x"
  unfolding sound_from_def reach_def by (auto intro: rtrancl_trans)

lemma sound_from_ID: "sound_from t m x \<Longrightarrow> t_ID (graph_node t m x) = x"
  using sound_from_node by metis

lemma worked_off_eligible:
  assumes "graph_ok t m" and A: "A = ancestor_ids t m (t_ID t)"
  shows "eligible (worked_off A t) (worked_index A m)"
proof -
  have sound: "sound_from t m x" if "x \<in> reach t m (t_ID t)" for x
    using assms(1) that by (auto simp: graph_ok_def intro: sound_from_reach)
  have dep: "d \<in> reach t m (t_ID t) \<and> d \<notin> A"
    if x: "x \<in> reach t m (t_ID t)" and d: "d \<in> set (t_DependsOn (graph_node t m x))" for x d
  proof -
    obtain node where "graph_lookup t m x = Some node" "graph_node t m x = node"
      using sound [OF x] by (rule sound_from_node)
    with d have "(x, d) \<in> edges t m" by (simp add: edges_dest node_edges_def)
    with x d show ?thesis
      using assms by (auto simp: graph_ok_def intro: reach_edge)
  qed
  have "deps_completed (worked_off A t) (worked_index A m) x" if "x \<in> reach t m (t_ID t)" for x
    using dep [OF that] sound sound_from_ID
    by (auto simp: deps_completed_def worked_node [OF sound [OF that]] worked_node)
  moreover have "t_Status (graph_node (worked_off A t) (worked_index A m) a) \<in> {''ready'', ''in_progress''}"
    if "a \<in> A" for a
  proof -
    have "sound_from t m a" using that A ancestors_reach sound by blast
    with that show ?thesis by (simp add: worked_node sound_from_ID)
  qed
  moreover have "graph_ok (worked_off A t) (worked_index A m)"
    using assms sound by (simp add: graph_ok_def worked_reach worked_node)
  ultimately show ?thesis
    by (simp add: eligible_def all_completed_def worked_reach A)
qed

subsection \<open>Properties\<close>

definition sample_task :: "id \<Rightarrow> id option \<Rightarrow> id list \<Rightarrow> string \<Rightarrow> task" where
  "sample_task k parent deps status =
    zero_task\<lparr>t_ID := k, t_UserID := ''u'', t_GoalID := ''g'', t_ParentID := parent,
      t_DependsOn := deps, t_Type := ''task'', t_Status := status\<rparr>"

definition sample_index :: task_index where
  "sample_index = index_tasks
    [sample_task ''root'' None [] ''ready'', sample_task ''pre'' (Some ''root'') [] ''ready'',
     sample_task ''leaf'' (Some ''root'') [''pre''] ''ready'']"

lemma sample_valid:
  "taskDependencyGraphValid (sample_task ''leaf'' (Some ''root'') [''pre''] ''ready'') sample_index
    = Some True"
  by (simp add: taskDependencyGraphValid_def sample_index_def index_tasks_def sample_task_def
      zero_task_def graph_fuel_def numeral_eq_Suc graph_lookup_def graph_node_def
      open_ancestors.simps trim_eval)

text \<open>
  C3. The coloured depth-first search returns on every task and every index, cyclic ones and
  ones with missing or foreign rows included, and accepts exactly when each node the task
  reaches by parent and prerequisite edges is a live row of the same owner and goal with
  well-formed identifiers, none of them lies on a cycle, and no prerequisite of a reached node
  is the task itself or one of its ancestors.
\<close>

theorem taskDependencyGraphValid_decides:
  "taskDependencyGraphValid t byID = Some (graph_ok t byID)"
  by (rule taskDependencyGraphValid_iff)

text \<open>
  The executability test returns on every input, and answers true exactly when the graph is
  valid, the task and all its ancestors are ready or in progress, and every prerequisite of
  every node it reaches is finally completed; the memo of checked nodes never hides one.
\<close>

theorem executableTaskEligibility_decides:
  "executableTaskEligibility t byID = Some
    (graph_ok t byID \<and>
     (\<forall>a \<in> ancestor_ids t byID (t_ID t).
        t_Status (graph_node t byID a) \<in> {''ready'', ''in_progress''}) \<and>
     (\<forall>x \<in> reach t byID (t_ID t). \<forall>d \<in> set (t_DependsOn (graph_node t byID x)).
        t_Status (graph_node t byID d) = ''completed''))"
  by (simp add: executableTaskEligibility_iff eligible_def all_completed_def deps_completed_def)

theorem executableTaskEligibility_decides_witness:
  "t_Status (graph_node (sample_task ''leaf'' None [''pre''] ''ready'')
     [(''pre'', sample_task ''pre'' None [] ''completed'')] ''pre'') = ''completed''"
proof -
  let ?t = "sample_task ''leaf'' None [''pre''] ''ready''"
    and ?m = "[(''pre'', sample_task ''pre'' None [] ''completed'')]"
  have "executableTaskEligibility ?t ?m = Some True"
    by (simp add: executableTaskEligibility_def taskDependencyGraphValid_def sample_task_def
      zero_task_def graph_fuel_def numeral_eq_Suc graph_lookup_def graph_node_def
      open_ancestors.simps ancestors_executable.simps trim_eval)
  then have "\<forall>x \<in> reach ?t ?m (t_ID ?t). \<forall>d \<in> set (t_DependsOn (graph_node ?t ?m x)).
      t_Status (graph_node ?t ?m d) = ''completed''"
    using executableTaskEligibility_decides [of ?t ?m] by simp
  then have "\<forall>d \<in> set (t_DependsOn (graph_node ?t ?m (t_ID ?t))).
      t_Status (graph_node ?t ?m d) = ''completed''"
    by (rule bspec) (rule reach_refl)
  moreover have "''pre'' \<in> set (t_DependsOn (graph_node ?t ?m (t_ID ?t)))"
    by (simp add: graph_node_def sample_task_def)
  ultimately show ?thesis by blast
qed

text \<open>C4. 
  A graph the validator accepts is never a deadlock: once every row other than the task and
  its ancestors is completed and these are open, the task is executable.
\<close>

theorem valid_graph_can_run:
  assumes "taskDependencyGraphValid t byID = Some True"
  shows "executableTaskEligibility
      (worked_off (ancestor_ids t byID (t_ID t)) t)
      (worked_index (ancestor_ids t byID (t_ID t)) byID) = Some True"
  using assms worked_off_eligible [OF _ refl, of t byID]
  by (simp add: taskDependencyGraphValid_iff executableTaskEligibility_iff)

theorem valid_graph_can_run_witness:
  "executableTaskEligibility
      (worked_off (ancestor_ids (sample_task ''leaf'' (Some ''root'') [''pre''] ''ready'') sample_index ''leaf'')
        (sample_task ''leaf'' (Some ''root'') [''pre''] ''ready''))
      (worked_index (ancestor_ids (sample_task ''leaf'' (Some ''root'') [''pre''] ''ready'') sample_index ''leaf'')
        sample_index) = Some True"
  using valid_graph_can_run [OF sample_valid] by (simp add: sample_task_def)

text \<open>
  C5. The check before a save returns on every store. Without a live goal it reports the
  goal's error; otherwise it accepts exactly when the candidate's own graph is valid in the
  index that already holds the candidate, and so is that of every other live row of the goal
  that reaches the candidate.
\<close>

theorem validateTaskDependenciesTx_decides:
  "validateTaskDependenciesTx s t =
    Some (case RequireLiveGoalTx s (t_UserID t) (t_GoalID t) of
        Inl e \<Rightarrow> Inl e
      | Inr _ \<Rightarrow>
         (let rows = goal_tasks s (t_UserID t) (t_GoalID t); m = (t_ID t, t) # index_tasks rows
          in if graph_ok t m \<and>
              (\<forall>c \<in> set rows. t_ID c \<noteq> t_ID t \<longrightarrow> t_DeletedAt c = None \<longrightarrow>
                (t_ID c, t_ID t) \<in> (index_edges m)\<^sup>* \<longrightarrow> graph_ok c m)
             then Inr () else Inl ErrValidation))"
  by (rule validate_result)

theorem validateTaskDependenciesTx_decides_witness:
  "validateTaskDependenciesTx
     empty_store (sample_task ''leaf'' None [] ''ready'') = Some (Inl ErrNotFound)"
  unfolding validateTaskDependenciesTx_decides by (simp add: RequireLiveGoalTx_def empty_store_def)

text \<open>
  C6. Invariant of the task tree: if the graphs of all live rows of a goal are valid and the check
  accepts a new or edited row, then the graphs of all live rows are valid after the save,
  although the check looked at no more than the rows that reach the candidate.
\<close>

theorem validated_save_keeps_graphs:
  assumes "distinct (map t_ID (goal_tasks s (t_UserID t) (t_GoalID t)))"
    and "goal_graphs_ok (goal_tasks s (t_UserID t) (t_GoalID t))"
    and "validateTaskDependenciesTx s t = Some (Inr ())"
  shows "goal_graphs_ok (save_task t (goal_tasks s (t_UserID t) (t_GoalID t)))"
  using assms by (intro validated_save_ok [OF refl])

definition sample_store :: store where
  "sample_store =
    empty_store\<lparr>s_goals := [\<lparr>g_ID = ''g'', g_UserID = ''u'', g_Title = ''t'', g_Description = [],
       g_SuccessCriteria = ''c'', g_Status = ''active'', g_TargetDate = None, g_Revision = 1,
       g_CreatedAt = 1, g_UpdatedAt = 1, g_DeletedAt = None, g_DeletionID = []\<rparr>]\<rparr>"

theorem validated_save_keeps_graphs_witness:
  "goal_graphs_ok (save_task (sample_task ''a'' None [] ''ready'') [])"
proof -
  let ?t = "sample_task ''a'' None [] ''ready''"
  have rows: "goal_tasks sample_store (t_UserID ?t) (t_GoalID ?t) = []"
    by (simp add: goal_tasks_def sample_store_def empty_store_def)
  have "validateTaskDependenciesTx sample_store ?t = Some (Inr ())"
    by (simp add: validateTaskDependenciesTx_def RequireLiveGoalTx_def sample_store_def empty_store_def
        sample_task_def zero_task_def goal_tasks_def index_tasks_def taskDependencyGraphValid_def
        graph_fuel_def numeral_eq_Suc graph_lookup_def graph_node_def open_ancestors.simps)
  from validated_save_keeps_graphs [of sample_store ?t, unfolded rows, OF _ _ this] show ?thesis
    by (simp add: goal_graphs_ok_def)
qed

end
