(* ===== verification/Login_Throttle.thy ===== *)
theory Login_Throttle
  imports Go_Prelude "HOL-Library.AList"
begin

text \<open>
  The password-guessing throttle of \<open>internal/platform/auth/throttle.go\<close>. The map
  \<open>entries\<close> is an association list with one entry per key. \<open>begin\<close> and \<open>succeed\<close> hold the
  mutex for their whole body, so concurrent requests are a sequence of these steps; the clock
  \<open>t.now\<close> and the order in which Go iterates over the map are arguments of a step. The
  Unicode case mapping \<open>strings.ToLower\<close> is the parameter \<open>lower\<close>.
\<close>

definition nano_second :: int where "nano_second = 1000000000"
definition nano_minute :: int where "nano_minute = 60 * nano_second"

record throttle_entry =
  e_failures :: int
  e_windowStart :: time
  e_blockedUntil :: time
  e_lastSeen :: time

record throttle_rule =
  r_prefix :: string
  r_threshold :: int
  r_maxBlock :: int

type_synonym throttle_key = "string \<times> throttle_rule"

record login_throttle =
  th_entries :: "(string \<times> throttle_entry) list"
  th_lastSweep :: time

definition ruleAccountClient :: throttle_rule where
  "ruleAccountClient = \<lparr>r_prefix = ''ac:'', r_threshold = 5, r_maxBlock = 15 * nano_minute\<rparr>"

definition ruleClient :: throttle_rule where
  "ruleClient = \<lparr>r_prefix = ''c:'', r_threshold = 50, r_maxBlock = 15 * nano_minute\<rparr>"

definition ruleAccount :: throttle_rule where
  "ruleAccount = \<lparr>r_prefix = ''a:'', r_threshold = 50, r_maxBlock = 2 * nano_minute\<rparr>"

definition throttleWindow :: int where "throttleWindow = 15 * nano_minute"
definition throttleBaseBlock :: int where "throttleBaseBlock = 30 * nano_second"
definition throttleIdle :: int where "throttleIdle = 30 * nano_minute"
definition throttleMaxEntries :: nat where "throttleMaxEntries = 50000"

definition newLoginThrottle :: login_throttle where
  "newLoginThrottle = \<lparr>th_entries = [], th_lastSweep = 0\<rparr>"

definition throttleKeys :: "(string \<Rightarrow> string) \<Rightarrow> string \<Rightarrow> string \<Rightarrow> throttle_key list" where
  "throttleKeys lower identifier client =
    (let account = lower (trim_space identifier);
         keys = [(r_prefix ruleAccountClient @ client @ CHR 0x00 # account, ruleAccountClient)];
         keys' = (if client \<noteq> [] then keys @ [(r_prefix ruleClient @ client, ruleClient)] else keys)
     in keys' @ [(r_prefix ruleAccount @ account, ruleAccount)])"

definition blocked :: "time \<Rightarrow> throttle_entry \<Rightarrow> bool" where
  "blocked now e \<longleftrightarrow> e_blockedUntil e > now"

subsection \<open>Sweeping\<close>

fun shed :: "time \<Rightarrow> string list \<Rightarrow> (string \<times> throttle_entry) list \<Rightarrow> (string \<times> throttle_entry) list" where
  "shed now [] es = es"
| "shed now (k # ks) es =
    (if length es < throttleMaxEntries * 9 div 10 then es
     else (case map_of es k of
         None \<Rightarrow> shed now ks es
       | Some e \<Rightarrow> if \<not> blocked now e then shed now ks (AList.delete k es) else shed now ks es))"

definition sweepLocked :: "time \<Rightarrow> string list \<Rightarrow> login_throttle \<Rightarrow> login_throttle" where
  "sweepLocked now order t =
    (if length (th_entries t) < throttleMaxEntries \<and> now - th_lastSweep t < nano_minute then t
     else
       let kept = filter (\<lambda>(k, e). \<not> (now - e_lastSeen e > throttleIdle \<and> \<not> blocked now e)) (th_entries t)
       in if length kept < throttleMaxEntries
          then t\<lparr>th_entries := kept, th_lastSweep := now\<rparr>
          else t\<lparr>th_entries := shed now order kept, th_lastSweep := now\<rparr>)"

subsection \<open>Charging and refunding\<close>

text \<open>The body of the second loop of \<open>begin\<close>, for one key.\<close>

definition count_failure :: "time \<Rightarrow> throttle_entry option \<Rightarrow> throttle_entry" where
  "count_failure now old =
    (let e0 = (case old of
                 None \<Rightarrow> \<lparr>e_failures = 0, e_windowStart = now, e_blockedUntil = 0, e_lastSeen = 0\<rparr>
               | Some e \<Rightarrow> e);
         e1 = (if now - e_windowStart e0 > throttleWindow
               then e0\<lparr>e_failures := 0, e_windowStart := now\<rparr> else e0)
     in e1\<lparr>e_failures := e_failures e1 + 1, e_lastSeen := now\<rparr>)"

definition block_time :: "throttle_rule \<Rightarrow> int \<Rightarrow> int" where
  "block_time rule over = min (throttleBaseBlock * 2 ^ nat (min over 10)) (r_maxBlock rule)"

definition charge_entry :: "time \<Rightarrow> throttle_rule \<Rightarrow> throttle_entry option \<Rightarrow> throttle_entry" where
  "charge_entry now rule old =
    (let e = count_failure now old; over = e_failures e - r_threshold rule
     in if over \<ge> 0 then e\<lparr>e_blockedUntil := now + block_time rule over\<rparr> else e)"

definition charge_key :: "time \<Rightarrow> (string \<times> throttle_entry) list \<Rightarrow> throttle_key \<Rightarrow> (string \<times> throttle_entry) list" where
  "charge_key now es k = AList.update (fst k) (charge_entry now (snd k) (map_of es (fst k))) es"

definition key_blocked :: "time \<Rightarrow> (string \<times> throttle_entry) list \<Rightarrow> throttle_key \<Rightarrow> bool" where
  "key_blocked now es k = (case map_of es (fst k) of None \<Rightarrow> False | Some e \<Rightarrow> blocked now e)"

text \<open>\<open>begin\<close>: the ticket and whether the attempt may proceed, with the new state.\<close>

definition begin_attempt ::
    "(string \<Rightarrow> string) \<Rightarrow> time \<Rightarrow> string list \<Rightarrow> string \<Rightarrow> string \<Rightarrow> login_throttle
      \<Rightarrow> throttle_key list \<times> bool \<times> login_throttle" where
  "begin_attempt lower now order identifier client t =
    (let t1 = sweepLocked now order t;
         keys = throttleKeys lower identifier client
     in if \<exists>k \<in> set keys. key_blocked now (th_entries t1) k then ([], False, t1)
        else (keys, True, t1\<lparr>th_entries := foldl (charge_key now) (th_entries t1) keys\<rparr>))"

definition refund_key :: "(string \<times> throttle_entry) list \<Rightarrow> throttle_key \<Rightarrow> (string \<times> throttle_entry) list" where
  "refund_key es k =
    (case map_of es (fst k) of
       None \<Rightarrow> es
     | Some e \<Rightarrow>
         if snd k = ruleAccountClient then AList.delete (fst k) es
         else
           let e1 = e\<lparr>e_failures := e_failures e - 1\<rparr>;
               e2 = (if e_failures e1 < r_threshold (snd k) then e1\<lparr>e_blockedUntil := 0\<rparr> else e1)
           in if e_failures e2 \<le> 0 then AList.delete (fst k) es
              else AList.update (fst k) e2 es)"

definition succeed :: "throttle_key list \<Rightarrow> login_throttle \<Rightarrow> login_throttle" where
  "succeed ticket t = t\<lparr>th_entries := foldl refund_key (th_entries t) ticket\<rparr>"

subsection \<open>The machine\<close>

datatype throttle_event =
    BeginAttempt time "string list" string string
  | Succeed string string

definition throttle_step :: "(string \<Rightarrow> string) \<Rightarrow> login_throttle \<Rightarrow> throttle_event \<Rightarrow> login_throttle" where
  "throttle_step lower t e =
    (case e of
       BeginAttempt now order identifier client \<Rightarrow>
         snd (snd (begin_attempt lower now order identifier client t))
     | Succeed identifier client \<Rightarrow> succeed (throttleKeys lower identifier client) t)"

text \<open>
  The invariant: one entry per key, and an entry's failures are positive; a block never reaches
  further than the longest one after the entry was last seen, and never past the idle time.
\<close>

definition entry_ok :: "throttle_entry \<Rightarrow> bool" where
  "entry_ok e \<longleftrightarrow> e_failures e > 0 \<and>
    (e_blockedUntil e = 0 \<or> e_blockedUntil e \<le> e_lastSeen e + 15 * nano_minute)"

definition throttle_ok :: "login_throttle \<Rightarrow> bool" where
  "throttle_ok t \<longleftrightarrow>
    distinct (map fst (th_entries t)) \<and> (\<forall>k e. map_of (th_entries t) k = Some e \<longrightarrow> entry_ok e)"

lemma nano_pos [simp]: "nano_second > 0" "nano_minute > 0"
  by (simp_all add: nano_second_def nano_minute_def)

lemma throttleKeys_rules:
  "k \<in> set (throttleKeys lower i c) \<Longrightarrow> snd k \<in> {ruleAccountClient, ruleClient, ruleAccount}"
  by (auto simp: throttleKeys_def Let_def split: if_splits)

lemma throttleKeys_distinct: "distinct (map fst (throttleKeys lower i c))"
  by (auto simp: throttleKeys_def Let_def ruleAccountClient_def ruleClient_def ruleAccount_def)

lemma rules_max: "r \<in> {ruleAccountClient, ruleClient, ruleAccount} \<Longrightarrow> r_maxBlock r \<le> 15 * nano_minute"
  by (auto simp: ruleAccountClient_def ruleClient_def ruleAccount_def nano_minute_def nano_second_def)

lemma charge_entry_failures:
  "e_failures (charge_entry now rule old) =
    (case old of None \<Rightarrow> 1
     | Some e \<Rightarrow> if now - e_windowStart e > throttleWindow then 1 else e_failures e + 1)"
  by (auto simp: charge_entry_def count_failure_def Let_def throttleWindow_def split: option.split)

lemma charge_entry_lastSeen [simp]: "e_lastSeen (charge_entry now rule old) = now"
  by (simp add: charge_entry_def count_failure_def Let_def)

lemma charge_entry_blockedUntil:
  "e_blockedUntil (charge_entry now rule old) =
    (if e_failures (charge_entry now rule old) \<ge> r_threshold rule
     then now + block_time rule (e_failures (charge_entry now rule old) - r_threshold rule)
     else (case old of None \<Rightarrow> 0 | Some e \<Rightarrow> e_blockedUntil e))"
  by (simp add: charge_entry_def Let_def) (simp add: count_failure_def Let_def split: option.split)

lemma block_time_le: "block_time rule over \<le> r_maxBlock rule"
  by (simp add: block_time_def)

lemma charge_entry_ok:
  assumes "\<forall>e \<in> set_option old. entry_ok e" and "r_maxBlock rule \<le> 15 * nano_minute"
    and "\<forall>e \<in> set_option old. \<not> blocked now e"
  shows "entry_ok (charge_entry now rule old)"
proof -
  have "e_failures (charge_entry now rule old) > 0"
    using assms(1) by (auto simp: charge_entry_failures entry_ok_def split: option.splits)
  moreover have "e_blockedUntil (charge_entry now rule old) = 0 \<or>
      e_blockedUntil (charge_entry now rule old) \<le> now + 15 * nano_minute"
  proof -
    have "block_time rule x \<le> 15 * nano_minute" for x
      using assms(2) block_time_le [of rule x] by simp
    moreover have "e_blockedUntil e \<le> now + 15 * nano_minute" if "e \<in> set_option old" for e
    proof -
      have "e_blockedUntil e \<le> now" using assms(3) that by (simp add: blocked_def not_less)
      with nano_pos(2) show ?thesis by linarith
    qed
    ultimately show ?thesis
      unfolding charge_entry_blockedUntil by (cases old) auto
  qed
  ultimately show ?thesis by (simp add: entry_ok_def)
qed

lemma map_of_charge: "map_of (charge_key now es k) = (map_of es)(fst k \<mapsto> charge_entry now (snd k) (map_of es (fst k)))"
  by (simp add: charge_key_def update_conv')

lemma map_of_charges:
  "distinct (map fst ks) \<Longrightarrow> map_of (foldl (charge_key now) es ks) j =
    (case map_of ks j of None \<Rightarrow> map_of es j | Some r \<Rightarrow> Some (charge_entry now r (map_of es j)))"
proof (induction ks arbitrary: es)
  case (Cons k ks)
  show ?case
  proof (cases "j = fst k")
    case True
    with Cons.prems have "map_of ks j = None"
      by (simp add: map_of_eq_None_iff)
    with Cons True show ?thesis by (simp add: map_of_charge)
  next
    case False
    with Cons show ?thesis by (simp add: map_of_charge split: option.split)
  qed
qed simp

definition entries_ok :: "(string \<times> throttle_entry) list \<Rightarrow> bool" where
  "entries_ok es \<longleftrightarrow> distinct (map fst es) \<and> (\<forall>k e. map_of es k = Some e \<longrightarrow> entry_ok e)"

lemma throttle_ok_entries: "throttle_ok t \<longleftrightarrow> entries_ok (th_entries t)"
  by (simp add: throttle_ok_def entries_ok_def)

lemma entries_ok_update: "entries_ok es \<Longrightarrow> entry_ok v \<Longrightarrow> entries_ok (AList.update k v es)"
  by (auto simp: entries_ok_def distinct_update update_conv')

lemma entries_ok_delete: "entries_ok es \<Longrightarrow> entries_ok (AList.delete k es)"
  by (auto simp: entries_ok_def distinct_delete delete_conv' fun_upd_apply split: if_splits)

lemma entries_ok_map_of: "entries_ok es \<Longrightarrow> map_of es k = Some e \<Longrightarrow> entry_ok e"
  by (auto simp: entries_ok_def)

lemma entries_ok_filter: "entries_ok es \<Longrightarrow> entries_ok (filter P es)"
  by (auto simp: entries_ok_def distinct_map_filter map_of_eq_Some_iff)

subsection \<open>Sweeping keeps what blocks\<close>

lemma shed_ok: "entries_ok es \<Longrightarrow> entries_ok (shed now order es)"
  by (induction now order es rule: shed.induct) (auto split: option.split intro: entries_ok_delete)

lemma sweep_ok: "throttle_ok t \<Longrightarrow> throttle_ok (sweepLocked now order t)"
  by (auto simp: sweepLocked_def Let_def throttle_ok_entries intro!: shed_ok entries_ok_filter)

lemma shed_keeps_blocked:
  "map_of es k = Some e \<Longrightarrow> blocked now e \<Longrightarrow> map_of (shed now order es) k = Some e"
proof (induction now order es rule: shed.induct)
  case (2 now j ks es)
  show ?case
  proof (cases "j = k")
    case True
    with 2 show ?thesis by simp
  next
    case False
    with 2 have "map_of (AList.delete j es) k = Some e" by (simp add: delete_conv')
    with 2 show ?thesis by (simp split: option.split)
  qed
qed simp

lemma map_of_filter_distinct:
  "distinct (map fst es) \<Longrightarrow> map_of es k = Some e \<Longrightarrow> P (k, e) \<Longrightarrow> map_of (filter P es) k = Some e"
  by (induction es) (auto simp: map_of_eq_None_iff dest: map_of_SomeD)

lemma sweep_keeps_blocked:
  assumes "throttle_ok t" and "map_of (th_entries t) k = Some e" and "blocked now e"
  shows "map_of (th_entries (sweepLocked now order t)) k = Some e"
proof -
  have "map_of (filter (\<lambda>(k, e). \<not> (now - e_lastSeen e > throttleIdle \<and> \<not> blocked now e)) (th_entries t)) k = Some e"
    using assms by (intro map_of_filter_distinct) (auto simp: throttle_ok_def)
  then show ?thesis
    using assms(2,3) by (auto simp: sweepLocked_def Let_def intro: shed_keeps_blocked)
qed

lemma shed_map_le: "map_of (shed now order es) k = Some e \<Longrightarrow> map_of es k = Some e"
  by (induction now order es rule: shed.induct)
     (auto split: option.splits if_splits simp: delete_conv' fun_upd_apply)

lemma shed_subset: "set (shed now order es) \<subseteq> set es"
  by (induction now order es rule: shed.induct)
     (auto split: option.splits if_splits simp: AList.delete_eq)

lemma shed_bound:
  "entries_ok es \<Longrightarrow> length (shed now order es) < throttleMaxEntries * 9 div 10 \<or>
     (\<forall>k \<in> set order. \<forall>e. map_of (shed now order es) k = Some e \<longrightarrow> blocked now e)"
proof (induction now order es rule: shed.induct)
  case (2 now k ks es)
  show ?case
  proof (cases "length es < throttleMaxEntries * 9 div 10 \<or> map_of es k = None")
    case True
    then show ?thesis
    proof
      assume none: "map_of es k = None"
      then have "map_of (shed now ks es) k = None"
        using shed_map_le [of now ks es k] by (cases "map_of (shed now ks es) k") auto
      with none 2 show ?thesis by auto
    qed simp
  next
    case False
    then obtain e where e: "map_of es k = Some e" by auto
    show ?thesis
    proof (cases "blocked now e")
      case True
      have "map_of (shed now ks es) k = Some e" using e True by (rule shed_keeps_blocked)
      with 2 False e True show ?thesis by auto
    next
      case nb: False
      have "map_of (shed now ks (AList.delete k es)) k = None"
        using shed_map_le [of now ks "AList.delete k es" k]
        by (cases "map_of (shed now ks (AList.delete k es)) k") (auto simp: delete_conv')
      with 2 False e nb entries_ok_delete [OF 2(4)] show ?thesis by auto
    qed
  qed
qed simp

subsection \<open>The steps keep the invariant\<close>

lemma charges_ok:
  assumes "entries_ok es" and "distinct (map fst ks)"
    and "\<forall>k \<in> set ks. r_maxBlock (snd k) \<le> 15 * nano_minute \<and> \<not> key_blocked now es k"
  shows "entries_ok (foldl (charge_key now) es ks)"
  using assms
proof (induction ks arbitrary: es)
  case (Cons k ks)
  have "entry_ok (charge_entry now (snd k) (map_of es (fst k)))"
    using Cons.prems by (intro charge_entry_ok)
      (auto simp: key_blocked_def elim: entries_ok_map_of split: option.splits)
  then have "entries_ok (charge_key now es k)"
    using Cons.prems(1) by (simp add: charge_key_def entries_ok_update)
  moreover have "key_blocked now (charge_key now es k) j = key_blocked now es j" if "j \<in> set ks" for j
  proof -
    have "fst j \<noteq> fst k" using Cons.prems(2) that by (auto simp: image_iff)
    then show ?thesis by (simp add: key_blocked_def map_of_charge)
  qed
  ultimately show ?case
    using Cons.prems by (auto intro!: Cons.IH)
qed simp

lemma begin_ok: "throttle_ok t \<Longrightarrow> throttle_ok (snd (snd (begin_attempt lower now order i c t)))"
proof -
  assume "throttle_ok t"
  then have "throttle_ok (sweepLocked now order t)" by (rule sweep_ok)
  then show ?thesis
    by (auto simp: begin_attempt_def Let_def throttle_ok_entries throttleKeys_distinct
        intro!: charges_ok rules_max throttleKeys_rules)
qed

lemma refund_ok: "entries_ok es \<Longrightarrow> entries_ok (refund_key es k)"
proof (cases "map_of es (fst k)")
  case (Some e)
  assume es: "entries_ok es"
  then have "entry_ok e" using Some by (rule entries_ok_map_of)
  then show ?thesis
    using es Some
    by (auto simp: refund_key_def Let_def entry_ok_def intro!: entries_ok_delete entries_ok_update)
qed (simp add: refund_key_def)

lemma succeed_ok: "throttle_ok t \<Longrightarrow> throttle_ok (succeed ticket t)"
proof -
  have "entries_ok es \<Longrightarrow> entries_ok (foldl refund_key es ticket)" for es
    by (induction ticket arbitrary: es) (simp_all add: refund_ok)
  then show "throttle_ok t \<Longrightarrow> throttle_ok (succeed ticket t)"
    by (simp add: throttle_ok_entries succeed_def)
qed

interpretation throttle: invariant_machine "throttle_step lower" throttle_ok for lower
  by unfold_locales
     (auto simp: throttle_step_def intro: begin_ok succeed_ok split: throttle_event.split)

subsection \<open>Lockout and refund\<close>

definition ac_key :: "(string \<Rightarrow> string) \<Rightarrow> string \<Rightarrow> string \<Rightarrow> string" where
  "ac_key lower identifier client = fst (hd (throttleKeys lower identifier client))"

lemma throttleKeys_ac:
  "\<exists>rest. throttleKeys lower i c = (ac_key lower i c, ruleAccountClient) # rest \<and>
     (\<forall>k \<in> set rest. snd k \<noteq> ruleAccountClient \<and> (\<forall>i' c'. fst k \<noteq> ac_key lower i' c'))"
  by (auto simp: throttleKeys_def ac_key_def Let_def ruleAccountClient_def ruleClient_def ruleAccount_def)

lemma ac_key_in: "(ac_key lower i c, ruleAccountClient) \<in> set (throttleKeys lower i c)"
  using throttleKeys_ac [of lower i c] by auto

lemma begin_refused:
  assumes "throttle_ok t" and "map_of (th_entries t) (ac_key lower i c) = Some e" and "blocked now e"
  shows "begin_attempt lower now order i c t = ([], False, sweepLocked now order t)"
proof -
  have "map_of (th_entries (sweepLocked now order t)) (ac_key lower i c) = Some e"
    using assms by (rule sweep_keeps_blocked)
  then have "key_blocked now (th_entries (sweepLocked now order t)) (ac_key lower i c, ruleAccountClient)"
    using assms(3) by (simp add: key_blocked_def)
  then show ?thesis
    using ac_key_in [of lower i c] by (auto simp: begin_attempt_def Let_def)
qed

lemma begin_keeps_blocked:
  assumes "throttle_ok t" and "map_of (th_entries t) k = Some e" and "blocked now e"
  shows "map_of (th_entries (snd (snd (begin_attempt lower now order i c t)))) k = Some e"
proof -
  let ?t = "sweepLocked now order t" and ?ks = "throttleKeys lower i c"
  have k: "map_of (th_entries ?t) k = Some e"
    using assms by (rule sweep_keeps_blocked)
  show ?thesis
  proof (cases "\<exists>j \<in> set ?ks. key_blocked now (th_entries ?t) j")
    case True
    then show ?thesis using k by (simp add: begin_attempt_def Let_def)
  next
    case False
    have "map_of ?ks k = None"
    proof (rule ccontr)
      assume "map_of ?ks k \<noteq> None"
      then obtain r where "(k, r) \<in> set ?ks" by (auto dest: map_of_SomeD)
      with False k assms(3) show False by (force simp: key_blocked_def)
    qed
    then show ?thesis
      using False k by (simp add: begin_attempt_def Let_def map_of_charges throttleKeys_distinct)
  qed
qed

definition refund_entry :: "throttle_rule \<Rightarrow> throttle_entry option \<Rightarrow> throttle_entry option" where
  "refund_entry rule old =
    (case old of
       None \<Rightarrow> None
     | Some e \<Rightarrow>
         if rule = ruleAccountClient \<or> e_failures e \<le> 1 then None
         else Some (e\<lparr>e_failures := e_failures e - 1,
           e_blockedUntil := (if e_failures e - 1 < r_threshold rule then 0 else e_blockedUntil e)\<rparr>))"

lemma map_of_refund_key:
  "map_of (refund_key es k) = (map_of es)(fst k := refund_entry (snd k) (map_of es (fst k)))"
  by (rule ext) (auto simp: refund_key_def refund_entry_def Let_def update_conv' delete_conv' split: option.split)

lemma map_of_refunds:
  "distinct (map fst ks) \<Longrightarrow> map_of (foldl refund_key es ks) j =
    (case map_of ks j of None \<Rightarrow> map_of es j | Some r \<Rightarrow> refund_entry r (map_of es j))"
proof (induction ks arbitrary: es)
  case (Cons k ks)
  show ?case
  proof (cases "j = fst k")
    case True
    with Cons.prems have "map_of ks j = None"
      by (simp add: map_of_eq_None_iff)
    with Cons True show ?thesis by (simp add: map_of_refund_key)
  next
    case False
    with Cons show ?thesis by (simp add: map_of_refund_key split: option.split)
  qed
qed simp

lemma succeed_other_key:
  assumes "k = ac_key lower i c" and "ac_key lower i' c' \<noteq> k"
  shows "map_of (th_entries (succeed (throttleKeys lower i' c') t)) k = map_of (th_entries t) k"
proof -
  have "map_of (throttleKeys lower i' c') k = None"
    using throttleKeys_ac [of lower i' c'] assms by (auto simp: map_of_eq_None_iff) (metis fst_conv)
  then show ?thesis
    by (simp add: succeed_def map_of_refunds throttleKeys_distinct)
qed

text \<open>Events that cannot lift a block on \<open>k\<close> which ends at \<open>until\<close>.\<close>

definition keeps_block :: "(string \<Rightarrow> string) \<Rightarrow> string \<Rightarrow> time \<Rightarrow> throttle_event \<Rightarrow> bool" where
  "keeps_block lower k until ev =
    (case ev of
       BeginAttempt now order i c \<Rightarrow> now < until
     | Succeed i c \<Rightarrow> ac_key lower i c \<noteq> k)"

lemma step_keeps_block:
  assumes "throttle_ok t" and "k = ac_key lower i c" and "map_of (th_entries t) k = Some e"
    and "keeps_block lower k (e_blockedUntil e) ev"
  shows "map_of (th_entries (throttle_step lower t ev)) k = Some e"
  using assms begin_keeps_blocked [of t k e] succeed_other_key [of k lower i c]
  by (auto simp: throttle_step_def keeps_block_def blocked_def split: throttle_event.splits)

lemma run_keeps_block:
  assumes "throttle_ok t" and "k = ac_key lower i c" and "map_of (th_entries t) k = Some e"
    and "list_all (keeps_block lower k (e_blockedUntil e)) evs"
  shows "throttle_ok (foldl (throttle_step lower) t evs) \<and>
    map_of (th_entries (foldl (throttle_step lower) t evs)) k = Some e"
  using assms
proof (induction evs arbitrary: t)
  case (Cons ev evs)
  have "throttle_ok (throttle_step lower t ev)"
    using Cons.prems(1) by (rule throttle.step_inv)
  moreover have "map_of (th_entries (throttle_step lower t ev)) k = Some e"
    using Cons.prems by (intro step_keeps_block) auto
  ultimately show ?case
    using Cons by simp
qed simp

lemma shed_distinct_keys: "map_of (shed now order es) k = Some e \<Longrightarrow> k \<in> fst ` set es"
  using shed_map_le [of now order es k e] by (metis map_of_eq_None_iff option.distinct(1))

lemma sweep_bound:
  assumes "throttle_ok t" and "fst ` set (th_entries t) \<subseteq> set order"
  shows "length (th_entries (sweepLocked now order t)) < throttleMaxEntries \<or>
    (\<forall>k e. map_of (th_entries (sweepLocked now order t)) k = Some e \<longrightarrow> blocked now e)"
proof -
  let ?kept = "filter (\<lambda>(k, e). \<not> (now - e_lastSeen e > throttleIdle \<and> \<not> blocked now e)) (th_entries t)"
  have ok: "entries_ok ?kept"
    using assms(1) by (simp add: throttle_ok_entries entries_ok_filter)
  have "blocked now e"
    if "\<forall>k \<in> set order. \<forall>e. map_of (shed now order ?kept) k = Some e \<longrightarrow> blocked now e"
      and m: "map_of (shed now order ?kept) k = Some e" for k e
  proof -
    have "k \<in> fst ` set ?kept" using m by (rule shed_distinct_keys)
    then have "k \<in> set order" using assms(2) by auto
    with that show ?thesis by blast
  qed
  moreover have "throttleMaxEntries * 9 div 10 < throttleMaxEntries"
    by (simp add: throttleMaxEntries_def)
  ultimately have "length (shed now order ?kept) < throttleMaxEntries \<or>
      (\<forall>k e. map_of (shed now order ?kept) k = Some e \<longrightarrow> blocked now e)"
    using shed_bound [OF ok, of now order] by (meson less_trans)
  then show ?thesis
    by (simp add: sweepLocked_def Let_def)
qed

lemma begin_allowed:
  assumes "begin_attempt lower now order i c t = (ticket, True, t')"
  shows "ticket = throttleKeys lower i c"
    and "\<forall>k \<in> set (throttleKeys lower i c). \<not> key_blocked now (th_entries (sweepLocked now order t)) k"
    and "map_of (th_entries t') j =
      (case map_of (throttleKeys lower i c) j of
         None \<Rightarrow> map_of (th_entries (sweepLocked now order t)) j
       | Some r \<Rightarrow> Some (charge_entry now r (map_of (th_entries (sweepLocked now order t)) j)))"
  using assms by (auto simp: begin_attempt_def Let_def map_of_charges throttleKeys_distinct split: if_splits)

lemma map_of_ac: "map_of (throttleKeys lower i c) (ac_key lower i c) = Some ruleAccountClient"
  using throttleKeys_ac [of lower i c] by auto

subsection \<open>Properties\<close>

text \<open>
  C7. From the empty throttle, whatever attempts and successes arrive, at whatever times and
  with whatever map iteration order, there is one entry per key, its failure count is positive
  and its block ends at most fifteen minutes after the entry was last charged.
\<close>

theorem throttle_always_ok:
  "throttle_ok (foldl (throttle_step lower) newLoginThrottle evs)"
  by (rule throttle.run_inv) (simp add: throttle_ok_def newLoginThrottle_def)

text \<open>
  The sweep never forgets a key that is blocking, in whatever order the map is walked, and
  it bounds memory: afterwards there are fewer than fifty thousand entries, or every entry
  that is left is blocking.
\<close>

theorem sweep_keeps_blocks_and_bounds:
  assumes "throttle_ok t" and "fst ` set (th_entries t) \<subseteq> set order"
  shows "(\<forall>k e. map_of (th_entries t) k = Some e \<longrightarrow> blocked now e \<longrightarrow>
      map_of (th_entries (sweepLocked now order t)) k = Some e) \<and>
    (length (th_entries (sweepLocked now order t)) < throttleMaxEntries \<or>
     (\<forall>k e. map_of (th_entries (sweepLocked now order t)) k = Some e \<longrightarrow> blocked now e))"
  using sweep_keeps_blocked [OF assms(1)] sweep_bound [OF assms] by blast

definition sample_throttle :: login_throttle where
  "sample_throttle =
    \<lparr>th_entries =
       [(''ac:ip'' @ CHR 0x00 # ''bob'',
         \<lparr>e_failures = 4, e_windowStart = nano_minute, e_blockedUntil = 0, e_lastSeen = nano_minute\<rparr>),
        (''a:eve'',
         \<lparr>e_failures = 50, e_windowStart = nano_minute, e_blockedUntil = 80 * nano_minute, e_lastSeen = 78 * nano_minute\<rparr>)],
     th_lastSweep = 0\<rparr>"

lemma sample_throttle_ok: "throttle_ok sample_throttle"
  by (simp add: throttle_ok_def sample_throttle_def entry_ok_def nano_minute_def nano_second_def)

theorem sweep_keeps_blocks_and_bounds_witness:
  "map_of (th_entries (sweepLocked (79 * nano_minute) [''a:eve'', ''ac:ip'' @ CHR 0x00 # ''bob''] sample_throttle))
     ''a:eve'' \<noteq> None"
proof -
  have "fst ` set (th_entries sample_throttle) \<subseteq> set [''a:eve'', ''ac:ip'' @ CHR 0x00 # ''bob'']"
    by (simp add: sample_throttle_def)
  from sweep_keeps_blocks_and_bounds [OF sample_throttle_ok this, THEN conjunct1,
      rule_format, of "''a:eve''" _ "79 * nano_minute"]
  show ?thesis
    by (simp add: sample_throttle_def blocked_def nano_minute_def nano_second_def)
qed

text \<open>
  C8. Lockout. When an admitted attempt brings the failures of its account-and-client pair to
  five or more, the pair is blocked for thirty seconds doubled with each further failure, at
  most fifteen minutes, and until that time every attempt of the pair is refused, whatever
  other clients attempt and however often the entries are swept, unless this very pair signs in.
\<close>

theorem lockout_holds:
  assumes "throttle_ok t"
    and "begin_attempt lower now order i c t = (ticket, True, t')"
    and "map_of (th_entries t') (ac_key lower i c) = Some e" and "e_failures e \<ge> 5"
    and "list_all (keeps_block lower (ac_key lower i c) (e_blockedUntil e)) evs"
    and "now' < e_blockedUntil e"
  shows "e_blockedUntil e =
      now + min (30 * nano_second * 2 ^ nat (min (e_failures e - 5) 10)) (15 * nano_minute) \<and>
    \<not> fst (snd (begin_attempt lower now' order' i c (foldl (throttle_step lower) t' evs)))"
proof
  have e: "e = charge_entry now ruleAccountClient (map_of (th_entries (sweepLocked now order t)) (ac_key lower i c))"
    using assms(3) begin_allowed(3) [OF assms(2), of "ac_key lower i c"] by (simp add: map_of_ac)
  then show "e_blockedUntil e =
      now + min (30 * nano_second * 2 ^ nat (min (e_failures e - 5) 10)) (15 * nano_minute)"
    using assms(4) charge_entry_blockedUntil [of now ruleAccountClient]
    by (simp add: ruleAccountClient_def block_time_def throttleBaseBlock_def)
  have "throttle_ok t'"
    using begin_ok [OF assms(1), of lower now order i c] assms(2) by simp
  from run_keeps_block [OF this refl assms(3,5)] assms(6)
  show "\<not> fst (snd (begin_attempt lower now' order' i c (foldl (throttle_step lower) t' evs)))"
    using begin_refused [of _ lower i c e now'] by (simp add: blocked_def)
qed

theorem lockout_holds_witness:
  "\<not> fst (snd (begin_attempt (\<lambda>s. s) (2 * nano_minute + 29 * nano_second) [] ''bob'' ''ip''
     (foldl (throttle_step (\<lambda>s. s))
       (snd (snd (begin_attempt (\<lambda>s. s) (2 * nano_minute) [] '' bob'' ''ip'' sample_throttle)))
       [BeginAttempt (2 * nano_minute) [] ''bob'' ''ip2'', Succeed ''bob'' ''ip2''])))"
proof -
  let ?b = "begin_attempt (\<lambda>s. s) (2 * nano_minute) [] '' bob'' ''ip'' sample_throttle"
  note defs = begin_attempt_def Let_def sweepLocked_def throttleKeys_def sample_throttle_def
    nano_minute_def nano_second_def throttleMaxEntries_def trim_eval
    key_blocked_def blocked_def ruleAccountClient_def ruleClient_def ruleAccount_def charge_key_def
    charge_entry_def count_failure_def throttleWindow_def block_time_def throttleBaseBlock_def
    throttleIdle_def
  let ?e = "\<lparr>e_failures = 5, e_windowStart = nano_minute, e_blockedUntil = 2 * nano_minute + 30 * nano_second,
     e_lastSeen = 2 * nano_minute\<rparr>"
  have b: "?b = (fst ?b, True, snd (snd ?b))" and key: "ac_key (\<lambda>s. s) '' bob'' ''ip'' = ''ac:ip'' @ CHR 0x00 # ''bob''"
    and same: "throttleKeys (\<lambda>s. s) '' bob'' ''ip'' = throttleKeys (\<lambda>s. s) ''bob'' ''ip''"
    and other: "ac_key (\<lambda>s. s) ''bob'' ''ip2'' \<noteq> ac_key (\<lambda>s. s) '' bob'' ''ip''"
    and m: "map_of (th_entries (snd (snd ?b))) (ac_key (\<lambda>s. s) '' bob'' ''ip'') = Some ?e"
    by (simp_all add: defs ac_key_def)
  have "\<not> fst (snd (begin_attempt (\<lambda>s. s) (2 * nano_minute + 29 * nano_second) [] '' bob'' ''ip''
     (foldl (throttle_step (\<lambda>s. s)) (snd (snd ?b))
       [BeginAttempt (2 * nano_minute) [] ''bob'' ''ip2'', Succeed ''bob'' ''ip2''])))"
    by (rule lockout_holds [OF sample_throttle_ok b m, THEN conjunct2]) (simp_all add: keeps_block_def other nano_second_def)
  then show ?thesis
    by (simp add: begin_attempt_def same)
qed

text \<open>
  Signing in refunds exactly this attempt. After an admitted attempt and its success the
  account-and-client entry is gone, and each shared entry counts what it counted before the
  attempt; one that was missing, or whose window had passed, is gone.
\<close>

theorem success_refunds_the_attempt:
  assumes "throttle_ok t" and "begin_attempt lower now order i c t = (ticket, True, t')"
    and "k \<in> set ticket"
  shows "map_option e_failures (map_of (th_entries (succeed ticket t')) (fst k)) =
    (if snd k = ruleAccountClient then None
     else (case map_of (th_entries (sweepLocked now order t)) (fst k) of
         None \<Rightarrow> None
       | Some e \<Rightarrow> if now - e_windowStart e > throttleWindow then None else Some (e_failures e)))"
proof -
  note allowed = begin_allowed [OF assms(2)]
  have m: "map_of ticket (fst k) = Some (snd k)"
    using assms(3) allowed(1) throttleKeys_distinct by (metis map_of_is_SomeI prod.collapse)
  let ?old = "map_of (th_entries (sweepLocked now order t)) (fst k)"
  have pos: "e_failures e > 0" if "?old = Some e" for e
    using that sweep_ok [OF assms(1), of now order] by (auto simp: throttle_ok_def entry_ok_def)
  have "map_of (th_entries t') (fst k) = Some (charge_entry now (snd k) ?old)"
    unfolding allowed(3) [of "fst k"] m [unfolded allowed(1)] by simp
  moreover have "distinct (map fst ticket)"
    unfolding allowed(1) by (rule throttleKeys_distinct)
  ultimately have "map_of (th_entries (succeed ticket t')) (fst k) =
      refund_entry (snd k) (Some (charge_entry now (snd k) ?old))"
    unfolding succeed_def using m map_of_refunds by (simp del: map_of_eq_Some_iff)
  then show ?thesis
    using pos by (auto simp: refund_entry_def charge_entry_failures split: option.split)
qed

theorem success_refunds_the_attempt_witness:
  "map_of (th_entries (succeed (throttleKeys (\<lambda>s. s) ''bob'' ''ip'')
     (snd (snd (begin_attempt (\<lambda>s. s) (2 * nano_minute) [] ''bob'' ''ip'' sample_throttle)))))
     (ac_key (\<lambda>s. s) ''bob'' ''ip'') = None"
proof -
  let ?b = "begin_attempt (\<lambda>s. s) (2 * nano_minute) [] ''bob'' ''ip'' sample_throttle"
  have b: "?b = (throttleKeys (\<lambda>s. s) ''bob'' ''ip'', True, snd (snd ?b))"
    by (simp add: begin_attempt_def Let_def sweepLocked_def throttleKeys_def sample_throttle_def
        nano_minute_def nano_second_def throttleMaxEntries_def trim_eval
        key_blocked_def blocked_def ruleAccountClient_def ruleClient_def ruleAccount_def throttleIdle_def)
  from success_refunds_the_attempt [OF sample_throttle_ok b ac_key_in] show ?thesis
    by simp
qed

end
