(* ===== verification/Lens_Rules.thy ===== *)
theory Lens_Rules
  imports Go_Time Complex_Main
begin

text \<open>
  The rules of \<open>internal/domain/lens.go\<close>: coordinates and quadrants of the research-risk lens,
  ISO weeks, the distance of two local dates and the choice of the weekly summary sentence. A
  share is a \<open>float64\<close> in the code and a rational here; the code compares shares with one
  half only. The percentage printed in the \<open>drain_dominant\<close> sentence is kept as the share it
  is rounded from.
\<close>

subsection \<open>Coordinates and quadrants\<close>

definition LensResearchRisk :: string where
  "LensResearchRisk = ''research_risk''"

definition CoordThreshold :: int where "CoordThreshold = 50"
definition CoordMin :: int where "CoordMin = 0"
definition CoordMax :: int where "CoordMax = 100"

definition ValidLens :: "string \<Rightarrow> bool" where
  "ValidLens lens \<longleftrightarrow> lens = LensResearchRisk"

definition ValidateCoord :: "int \<Rightarrow> int \<Rightarrow> domain_error option" where
  "ValidateCoord x y =
    (if x < CoordMin \<or> x > CoordMax \<or> y < CoordMin \<or> y > CoordMax then Some ErrCoord else None)"

definition QuadrantCriticalRisk :: string where "QuadrantCriticalRisk = ''A''"
definition QuadrantMainProgress :: string where "QuadrantMainProgress = ''B''"
definition QuadrantTimeHole :: string where "QuadrantTimeHole = ''C''"
definition QuadrantDrain :: string where "QuadrantDrain = ''D''"

lemmas quadrant_defs = QuadrantCriticalRisk_def QuadrantMainProgress_def QuadrantTimeHole_def
  QuadrantDrain_def

definition Quadrant :: "int \<Rightarrow> int \<Rightarrow> string" where
  "Quadrant x y =
    (let highX = x \<ge> CoordThreshold; highY = y \<ge> CoordThreshold
     in if highX \<and> highY then QuadrantCriticalRisk
        else if \<not> highX \<and> highY then QuadrantMainProgress
        else if highX \<and> \<not> highY then QuadrantTimeHole
        else QuadrantDrain)"

definition Quadrants :: "string list" where
  "Quadrants = [QuadrantCriticalRisk, QuadrantMainProgress, QuadrantTimeHole, QuadrantDrain]"

subsection \<open>ISO weeks\<close>

text \<open>Day 0, 1 January of year 1, is a Monday.\<close>

definition iso_week :: "int \<Rightarrow> int \<times> int" where
  "iso_week n =
    (let thursday = n - n mod 7 + 3; y = year_of_day thursday
     in (y, (thursday - days_before_year y) div 7 + 1))"

definition CurrentISOWeek :: "time \<Rightarrow> location option \<Rightarrow> string" where
  "CurrentISOWeek t loc =
    (let l = (case loc of None \<Rightarrow> time_UTC | Some l \<Rightarrow> l); (year, week) = iso_week (local_day l t)
     in pad4 year @ ''-W'' @ pad2 week)"

text \<open>\<open>strings.Cut\<close> at the first occurrence of a separator, and \<open>strconv.Atoi\<close>.\<close>

fun cut_at :: "string \<Rightarrow> string \<Rightarrow> (string \<times> string) option" where
  "cut_at sep [] = (if sep = [] then Some ([], []) else None)"
| "cut_at sep (c # cs) =
    (case cut_prefix sep (c # cs) of
       Some r \<Rightarrow> Some ([], r)
     | None \<Rightarrow> map_option (\<lambda>(a, b). (c # a, b)) (cut_at sep cs))"

definition decimal :: "string \<Rightarrow> int" where
  "decimal ds = foldl (\<lambda>a c. a * 10 + digit_value c) 0 ds"

definition Atoi :: "string \<Rightarrow> int option" where
  "Atoi s =
    (let neg = (s \<noteq> [] \<and> hd s = CHR ''-'');
         ds = (if s \<noteq> [] \<and> (hd s = CHR ''-'' \<or> hd s = CHR ''+'') then tl s else s);
         v = (if neg then - decimal ds else decimal ds)
     in if ds \<noteq> [] \<and> list_all is_digit ds \<and> - (2 ^ 63) \<le> v \<and> v < 2 ^ 63 then Some v else None)"

definition ISOWeekRange ::
    "string \<Rightarrow> location option \<Rightarrow> domain_error + (time \<times> time \<times> string \<times> string)" where
  "ISOWeekRange week loc =
    (let l = (case loc of None \<Rightarrow> time_UTC | Some l \<Rightarrow> l)
     in case cut_at ''-W'' (trim_space week) of
          None \<Rightarrow> Inl ErrDomainValidation
        | Some (yearText, weekText) \<Rightarrow>
            (case (Atoi yearText, Atoi weekText) of
               (Some year, Some number) \<Rightarrow>
                 if year < 1 \<or> number < 1 \<or> number > 53 then Inl ErrDomainValidation
                 else
                   let januaryFourth = time_date l (civil_day year 1 4) 0;
                       weekday = local_day l januaryFourth mod 7 + 1;
                       monday = add_date l (add_date l januaryFourth (- (weekday - 1))) ((number - 1) * 7)
                   in if iso_week (local_day l monday) \<noteq> (year, number) then Inl ErrDomainValidation
                      else Inr (monday, add_date l monday 7, format_local l monday,
                                format_local l (add_date l monday 6))
             | _ \<Rightarrow> Inl ErrDomainValidation))"

text \<open>
  \<open>LocalDaysBetween\<close>: the distance of the two local midnights in hours divided by 24,
  rounded to the nearest day. The distance is a whole number of seconds, and only a distance
  of exactly half a day is rounded away from zero.
\<close>

definition round_days :: "int \<Rightarrow> int" where
  "round_days secs =
    (if 0 \<le> secs then (secs + 43200) div 86400 else - ((- secs + 43200) div 86400))"

definition LocalDaysBetween :: "time \<Rightarrow> time \<Rightarrow> location option \<Rightarrow> int" where
  "LocalDaysBetween from_t to_t loc =
    (let l = (case loc of None \<Rightarrow> time_UTC | Some l \<Rightarrow> l)
     in if from_t = 0 then 0
        else
          let st = time_date l (local_day l from_t) 0;
              en = time_date l (local_day l to_t) 0;
              days = round_days ((en - st) div second)
          in if days < 0 then 0 else days)"

subsection \<open>The weekly summary\<close>

record stalled_task =
  st_TaskID :: id
  st_Title :: string
  st_GoalID :: id
  st_Quadrant :: string
  st_DaysSinceProgress :: int

record weekly_summary_input =
  ws_TotalMinutes :: int
  ws_QuadrantMinutes :: "(string, int) gomap"
  ws_QuadrantDelta :: "(string, int) gomap"
  ws_EvidenceTotal :: int
  ws_MinimumActionCount :: int
  ws_MinimumActionShare :: rat
  ws_Stalled :: "stalled_task list"

text \<open>The sentences with the values printed in them.\<close>

datatype summary_text =
    NoMinutes
  | StalledFor string int
  | DrainShare rat
  | MinimumActions int int
  | RiskMinutes int int
  | Distribution int int int int int

definition WeeklySummary :: "weekly_summary_input \<Rightarrow> string \<times> summary_text" where
  "WeeklySummary input =
    (let minutes = gomap_get 0 (ws_QuadrantMinutes input);
         delta = gomap_get 0 (ws_QuadrantDelta input) QuadrantCriticalRisk
     in if ws_TotalMinutes input = 0 \<and> ws_Stalled input = [] then (''empty'', NoMinutes)
        else case ws_Stalled input of
          stalled # _ \<Rightarrow>
            (''stalled_risk'', StalledFor (st_Title stalled) (st_DaysSinceProgress stalled))
        | [] \<Rightarrow>
            if ws_TotalMinutes input > 0 \<and>
               of_int (minutes QuadrantDrain) / of_int (ws_TotalMinutes input) > (1 / 2 :: rat)
            then (''drain_dominant'',
                  DrainShare (of_int (minutes QuadrantDrain) / of_int (ws_TotalMinutes input)))
            else if ws_MinimumActionShare input > 1 / 2
            then (''minimum_action_heavy'',
                  MinimumActions (ws_EvidenceTotal input) (ws_MinimumActionCount input))
            else if delta > 0
            then (''risk_improving'', RiskMinutes (minutes QuadrantCriticalRisk) delta)
            else (''neutral'', Distribution (ws_TotalMinutes input) (minutes QuadrantCriticalRisk)
                    (minutes QuadrantMainProgress) (minutes QuadrantTimeHole) (minutes QuadrantDrain)))"

subsection \<open>Weeks and days\<close>

lemma iso_week_monday:
  assumes "iso_week n = (y, w)"
  defines "jan4 \<equiv> civil_day y 1 4"
  shows "jan4 - jan4 mod 7 + (w - 1) * 7 = n - n mod 7 \<and> 1 \<le> w \<and> w \<le> 53 \<and>
    iso_week (n - n mod 7) = (y, w)"
proof -
  define th where "th = n - n mod 7 + 3"
  define a where "a = days_before_year y"
  define r where "r = (th - a) mod 7"
  have y: "y = year_of_day th" and w: "w = (th - a) div 7 + 1"
    using assms(1) unfolding iso_week_def Let_def th_def [symmetric] a_def by auto
  have lo: "a \<le> th" and hi: "th < a + 366"
    using year_of_day_bounds [of th] y by (auto simp: a_def days_before_year_Suc split: if_splits)
  have r: "0 \<le> r" "r < 7" by (simp_all add: r_def)
  have th: "th = a + 7 * (w - 1) + r" by (simp add: w r_def)
  have jan4: "jan4 = a + 3"
    by (simp add: jan4_def civil_day_def days_before_month_def a_def)
  have "(n - n mod 7) mod 7 = 0" by (simp add: minus_mod_eq_mult_div)
  moreover have "n - n mod 7 = (a + r - 3) + 7 * (w - 1)" using th by (simp add: th_def)
  moreover have "((a + r - 3) + 7 * (w - 1)) mod 7 = (a + r - 3) mod 7" by (rule mod_mult_self2)
  ultimately have "(a + r - 3) mod 7 = 0" by metis
  moreover have "jan4 = (a + r - 3) + (6 - r)" by (simp add: jan4)
  ultimately have "jan4 mod 7 = (6 - r) mod 7" by (metis add_0 mod_add_left_eq)
  then have "jan4 mod 7 = 6 - r" using r by simp
  then have "jan4 - jan4 mod 7 + (w - 1) * 7 = n - n mod 7"
    using jan4 th by (simp add: th_def)
  moreover have "0 \<le> (th - a) div 7" "(th - a) div 7 \<le> 52"
    using lo hi by (simp_all add: pos_imp_zdiv_nonneg_iff)
  moreover have "iso_week (n - n mod 7) = iso_week n" by (simp add: iso_week_def)
  ultimately show ?thesis using assms(1) by (simp add: w)
qed

lemma cut_left_none: "(\<And>p. p \<in> set ps \<Longrightarrow> p \<noteq> [] \<and> hd p \<noteq> hd s) \<Longrightarrow> s \<noteq> [] \<Longrightarrow> cut_left ps s = s"
proof -
  assume hd: "\<And>p. p \<in> set ps \<Longrightarrow> p \<noteq> [] \<and> hd p \<noteq> hd s" and "s \<noteq> []"
  then obtain c cs where s: "s = c # cs" by (cases s) auto
  from hd have "cut_any ps s = None"
  proof (induction ps)
    case (Cons p ps)
    from Cons.prems [of p] obtain d ds where "p = d # ds" "d \<noteq> c" by (cases p) (auto simp: s)
    moreover have "cut_any ps s = None" using Cons by simp
    ultimately show ?case by (simp add: s)
  qed simp
  then show ?thesis by (simp add: cut_left.simps)
qed

lemma trim_space_digits:
  assumes "s \<noteq> []" and "is_digit (hd s)" and "is_digit (last s)"
  shows "trim_space s = s"
proof -
  have nd: "\<not> is_digit (hd p) \<and> \<not> is_digit (last p) \<and> p \<noteq> []" if "p \<in> set space_seqs" for p
    using that by (auto simp: space_seqs_def is_digit_def digit_value_def)
  have "cut_left space_seqs s = s"
    by (rule cut_left_none) (use nd assms in metis)+
  moreover have "cut_left (map rev space_seqs) (rev s) = rev s"
  proof (rule cut_left_none)
    fix p assume "p \<in> set (map rev space_seqs)"
    then obtain q where "p = rev q" "q \<in> set space_seqs" by auto
    then show "p \<noteq> [] \<and> hd p \<noteq> hd (rev s)" using nd [of q] assms by (auto simp: hd_rev)
  qed (use assms in simp)
  ultimately show ?thesis by (simp add: trim_space_def)
qed

lemma digit_not_sign [simp]:
  "0 \<le> a \<Longrightarrow> a \<le> 9 \<Longrightarrow> digit a \<noteq> CHR ''-''" "0 \<le> a \<Longrightarrow> a \<le> 9 \<Longrightarrow> digit a \<noteq> CHR ''+''"
  "0 \<le> a \<Longrightarrow> a \<le> 9 \<Longrightarrow> CHR ''-'' \<noteq> digit a"
proof -
  have "\<not> is_digit CHR ''-''" "\<not> is_digit CHR ''+''" by (simp_all add: is_digit_def digit_value_def)
  then show "0 \<le> a \<Longrightarrow> a \<le> 9 \<Longrightarrow> digit a \<noteq> CHR ''-''" "0 \<le> a \<Longrightarrow> a \<le> 9 \<Longrightarrow> digit a \<noteq> CHR ''+''"
    "0 \<le> a \<Longrightarrow> a \<le> 9 \<Longrightarrow> CHR ''-'' \<noteq> digit a"
    by (metis is_digit_digit)+
qed

lemma Atoi_digits2:
  assumes "0 \<le> a \<and> a \<le> 9" "0 \<le> b \<and> b \<le> 9"
  shows "Atoi [digit a, digit b] = Some (a * 10 + b)"
  using assms by (simp add: Atoi_def decimal_def Let_def)

lemma Atoi_digits4:
  assumes "0 \<le> a \<and> a \<le> 9" "0 \<le> b \<and> b \<le> 9" "0 \<le> c \<and> c \<le> 9" "0 \<le> d \<and> d \<le> 9"
  shows "Atoi [digit a, digit b, digit c, digit d] = Some (a * 1000 + b * 100 + c * 10 + d)"
  using assms by (simp add: Atoi_def decimal_def Let_def)

lemma digits2: "0 \<le> n \<Longrightarrow> n \<le> 99 \<Longrightarrow>
    \<exists>a b. (0 \<le> a \<and> a \<le> 9) \<and> (0 \<le> b \<and> b \<le> 9) \<and> pad2 n = [digit a, digit b] \<and> a * 10 + b = n"
  using two_digits [of n] by (intro exI [of _ "n div 10"] exI [of _ "n mod 10"]) (simp add: pad2_def)

lemma digits4: assumes "0 \<le> n" "n < 10000"
  shows "\<exists>a b c d. (0 \<le> a \<and> a \<le> 9) \<and> (0 \<le> b \<and> b \<le> 9) \<and> (0 \<le> c \<and> c \<le> 9) \<and> (0 \<le> d \<and> d \<le> 9) \<and>
    pad4 n = [digit a, digit b, digit c, digit d] \<and> a * 1000 + b * 100 + c * 10 + d = n"
proof -
  define h l where "h = n div 100" and "l = n mod 100"
  have hl: "0 \<le> h" "h \<le> 99" "0 \<le> l" "l \<le> 99" "h * 100 + l = n"
    using hundreds [OF assms] by (simp_all add: h_def l_def)
  obtain a b where ab: "0 \<le> a \<and> a \<le> 9" "0 \<le> b \<and> b \<le> 9" "pad2 h = [digit a, digit b]" "a * 10 + b = h"
    using digits2 [OF hl(1,2)] by blast
  obtain c d where cd: "0 \<le> c \<and> c \<le> 9" "0 \<le> d \<and> d \<le> 9" "pad2 l = [digit c, digit d]" "c * 10 + d = l"
    using digits2 [OF hl(3,4)] by blast
  have "pad4 n = [digit a, digit b, digit c, digit d]"
    using ab cd by (simp add: pad4_def h_def l_def)
  moreover have "a * 1000 + b * 100 + c * 10 + d = n" using ab(4) cd(4) hl(5) by simp
  ultimately show ?thesis using ab(1,2) cd(1,2) by blast
qed

lemma week_text_parses:
  assumes "0 \<le> y" "y < 10000" "0 \<le> w" "w \<le> 99"
  defines "text \<equiv> pad4 y @ ''-W'' @ pad2 w"
  shows "cut_at ''-W'' (trim_space text) = Some (pad4 y, pad2 w) \<and> Atoi (pad4 y) = Some y \<and>
    Atoi (pad2 w) = Some w"
proof -
  obtain a b c d where y: "0 \<le> a \<and> a \<le> 9" "0 \<le> b \<and> b \<le> 9" "0 \<le> c \<and> c \<le> 9" "0 \<le> d \<and> d \<le> 9"
    "pad4 y = [digit a, digit b, digit c, digit d]" "a * 1000 + b * 100 + c * 10 + d = y"
    using digits4 [OF assms(1,2)] by blast
  obtain e f where w: "0 \<le> e \<and> e \<le> 9" "0 \<le> f \<and> f \<le> 9" "pad2 w = [digit e, digit f]" "e * 10 + f = w"
    using digits2 [OF assms(3,4)] by blast
  have trim: "trim_space text = text"
    using y(1) w(2) by (intro trim_space_digits) (simp_all add: text_def y(5) w(3))
  have "cut_at ''-W'' text = Some (pad4 y, pad2 w)"
    using y(1-4) by (simp add: text_def y(5) w(3))
  then show ?thesis
    using Atoi_digits4 [OF y(1-4)] Atoi_digits2 [OF w(1,2)] by (simp add: trim y(5,6) w(3,4))
qed

lemma local_day_fixed:
  "local_day (fixed_zone off) (time_date (fixed_zone off) n 0) = n"
  by (rule local_day_midnight [OF has_midnight_fixed])

lemma add_date_fixed:
  "add_date (fixed_zone off) (time_date (fixed_zone off) n 0) k = time_date (fixed_zone off) (n + k) 0"
  by (rule add_date_midnight [OF has_midnight_fixed])

lemma time_date_fixed: "time_date (fixed_zone off) n 0 = (n * 86400 - off) * second"
  by (simp add: time_date_def fixed_zone_def Let_def)

lemma local_day_fixed_bounds:
  "time_date (fixed_zone off) (local_day (fixed_zone off) t) 0 \<le> t"
  "t < time_date (fixed_zone off) (local_day (fixed_zone off) t + 1) 0"
proof -
  define s where "s = t div second"
  define n where "n = (s + off) div 86400"
  have t: "s * second \<le> t" "t < (s + 1) * second"
    by (simp_all add: s_def second_def)
  have n: "n * 86400 - off \<le> s" "s + 1 \<le> (n + 1) * 86400 - off" by (simp_all add: n_def)
  have "(n * 86400 - off) * second \<le> s * second" "(s + 1) * second \<le> ((n + 1) * 86400 - off) * second"
    using n by (simp_all add: second_def)
  moreover have "local_day (fixed_zone off) t = n"
    by (simp add: local_day_def local_seconds_def fixed_zone_def n_def s_def)
  ultimately show "time_date (fixed_zone off) (local_day (fixed_zone off) t) 0 \<le> t"
    "t < time_date (fixed_zone off) (local_day (fixed_zone off) t + 1) 0"
    using t unfolding time_date_fixed by (metis order.trans order.strict_trans2)+
qed

lemma time_date_fixed_mono:
  "n \<le> k \<Longrightarrow> time_date (fixed_zone off) n 0 \<le> time_date (fixed_zone off) k 0"
  by (simp add: time_date_fixed second_def)

text \<open>At a fixed offset from UTC the week identifier of an instant is one that
  \<open>ISOWeekRange\<close> accepts, and the half-open range it returns is the seven days that contain
  the instant, from a Monday of that ISO week on.\<close>

theorem ISOWeekRange_round_trip:
  assumes "1 \<le> fst (iso_week (local_day (fixed_zone off) t))"
    and "fst (iso_week (local_day (fixed_zone off) t)) < 10000"
  shows "\<exists>st en sd ed.
    ISOWeekRange (CurrentISOWeek t (Some (fixed_zone off))) (Some (fixed_zone off)) = Inr (st, en, sd, ed) \<and>
    st \<le> t \<and> t < en \<and> en - st = 7 * 86400 * second \<and>
    local_day (fixed_zone off) st mod 7 = 0 \<and>
    iso_week (local_day (fixed_zone off) st) = iso_week (local_day (fixed_zone off) t) \<and>
    sd = format_date (local_day (fixed_zone off) st) \<and> ed = format_date (local_day (fixed_zone off) st + 6)"
proof -
  let ?l = "fixed_zone off"
  define n where "n = local_day ?l t"
  define mon where "mon = n - n mod 7"
  obtain y w where yw: "iso_week n = (y, w)" by (cases "iso_week n") auto
  from assms yw have y: "1 \<le> y" "y < 10000" by (simp_all add: n_def)
  let ?j = "civil_day y 1 4"
  from iso_week_monday [OF yw] have w: "1 \<le> w" "w \<le> 53" and mon: "?j - ?j mod 7 + (w - 1) * 7 = mon"
    and iso: "iso_week mon = (y, w)" by (simp_all add: mon_def)
  have wk: "CurrentISOWeek t (Some ?l) = pad4 y @ ''-W'' @ pad2 w"
    using yw by (simp add: CurrentISOWeek_def n_def)
  have parse: "cut_at ''-W'' (trim_space (CurrentISOWeek t (Some ?l))) = Some (pad4 y, pad2 w)"
    "Atoi (pad4 y) = Some y" "Atoi (pad2 w) = Some w"
    using week_text_parses [of y w] y w unfolding wk by simp_all
  have arith: "?j + - (?j mod 7 + 1 - 1) + (w - 1) * 7 = mon" using mon by simp
  have range: "ISOWeekRange (CurrentISOWeek t (Some ?l)) (Some ?l) =
      Inr (time_date ?l mon 0, time_date ?l (mon + 7) 0, format_date mon, format_date (mon + 6))"
    unfolding ISOWeekRange_def Let_def option.case parse prod.case local_day_fixed add_date_fixed arith
    using y w iso by (simp add: format_local_def local_day_fixed)
  have "time_date ?l mon 0 \<le> time_date ?l n 0"
    by (rule time_date_fixed_mono) (simp add: mon_def)
  moreover have "time_date ?l (n + 1) 0 \<le> time_date ?l (mon + 7) 0"
    by (rule time_date_fixed_mono) (simp add: mon_def)
  moreover have "time_date ?l n 0 \<le> t" "t < time_date ?l (n + 1) 0"
    unfolding n_def by (rule local_day_fixed_bounds)+
  ultimately have "time_date ?l mon 0 \<le> t" "t < time_date ?l (mon + 7) 0" by (blast intro: order.trans order.strict_trans2)+
  moreover have "mon mod 7 = 0" by (simp add: mon_def minus_mod_eq_mult_div)
  moreover have "time_date ?l (mon + 7) 0 - time_date ?l mon 0 = 7 * 86400 * second"
    by (simp add: time_date_fixed algebra_simps)
  ultimately show ?thesis
    using range iso yw by (simp add: local_day_fixed n_def)
qed

lemma ISOWeekRange_round_trip_witness:
  "\<exists>st en sd ed.
    ISOWeekRange (CurrentISOWeek 63924163200000000000 (Some (fixed_zone 28800))) (Some (fixed_zone 28800))
      = Inr (st, en, sd, ed) \<and>
    st \<le> 63924163200000000000 \<and> 63924163200000000000 < en \<and> en - st = 7 * 86400 * second \<and>
    local_day (fixed_zone 28800) st mod 7 = 0 \<and>
    iso_week (local_day (fixed_zone 28800) st) = iso_week (local_day (fixed_zone 28800) 63924163200000000000) \<and>
    sd = format_date (local_day (fixed_zone 28800) st) \<and>
    ed = format_date (local_day (fixed_zone 28800) st + 6)"
  by (rule ISOWeekRange_round_trip; code_simp)

text \<open>The number of days shown between two instants is the difference of their local
  dates, never negative, also across a change of the clocks: the midnights need only exist and
  their offsets differ by less than half a day.\<close>

theorem LocalDaysBetween_correct:
  assumes "a \<noteq> 0"
    and "has_midnight l (local_day l a)" and "has_midnight l (local_day l b)"
    and "\<bar>fst (l (time_date l (local_day l a) 0 div second)) -
           fst (l (time_date l (local_day l b) 0 div second))\<bar> < 43200"
  shows "LocalDaysBetween a b (Some l) = max 0 (local_day l b - local_day l a)"
proof -
  let ?n = "local_day l a" and ?k = "local_day l b"
  define s e where "s = time_date l ?n 0 div second" and "e = time_date l ?k 0 div second"
  define d where "d = fst (l s) - fst (l e)"
  have se: "time_date l ?n 0 = s * second" "time_date l ?k 0 = e * second"
    using time_date_whole [of l ?n 0] time_date_whole [of l ?k 0]
    by (auto simp: s_def e_def mod_eq_0_iff_dvd)
  have "s + fst (l s) = ?n * 86400" "e + fst (l e) = ?k * 86400"
    using assms(2,3) by (simp_all add: has_midnight_def local_seconds_def s_def e_def)
  then have diff: "e - s = (?k - ?n) * 86400 + d" by (simp add: d_def algebra_simps)
  have d: "- 43200 < d" "d < 43200" using assms(4) by (simp_all add: d_def s_def e_def)
  have quot: "(e * second - s * second) div second = e - s"
    by (metis left_diff_distrib nonzero_mult_div_cancel_right second_pos(2))
  have "round_days (e - s) = ?k - ?n"
  proof (cases "0 \<le> e - s")
    case True
    have "e - s + 43200 = 86400 * (?k - ?n) + (d + 43200)" using diff by simp
    then have "(e - s + 43200) div 86400 = ?k - ?n" using d by (intro int_div_pos_eq) auto
    with True show ?thesis by (simp add: round_days_def)
  next
    case False
    have "- (e - s) + 43200 = 86400 * (?n - ?k) + (43200 - d)" using diff by simp
    then have "(- (e - s) + 43200) div 86400 = ?n - ?k" using d by (intro int_div_pos_eq) auto
    with False show ?thesis by (simp add: round_days_def)
  qed
  then show ?thesis
    using assms(1) by (simp add: LocalDaysBetween_def Let_def se quot)
qed

text \<open>A zone whose clock goes forward by an hour at 02:00 on a day in March: 23 hours separate
  the two midnights around the change, and the distance is one day all the same.\<close>

definition spring_zone :: location where
  "spring_zone u = (if u < 63910000800 then (3600, - (2 ^ 63), 63910000800) else (7200, 63910000800, 2 ^ 63 - 1))"

lemma LocalDaysBetween_correct_witness:
  "LocalDaysBetween 63910000000000000000 63910080000000000000 (Some spring_zone) =
    max 0 (local_day spring_zone 63910080000000000000 - local_day spring_zone 63910000000000000000) \<and>
   local_day spring_zone 63910080000000000000 - local_day spring_zone 63910000000000000000 = 1"
proof
  show "LocalDaysBetween 63910000000000000000 63910080000000000000 (Some spring_zone) =
    max 0 (local_day spring_zone 63910080000000000000 - local_day spring_zone 63910000000000000000)"
    by (rule LocalDaysBetween_correct; code_simp)
qed code_simp

end
