(* ===== verification/Plan_Rules.thy ===== *)
theory Plan_Rules
  imports Task_Store Domain_Rules
begin

text \<open>
  The pure rules of the daily plan: the division of the day's budget into slots
  (\<open>application/planning.go\<close>, \<open>planning_guard.go\<close>), the text a task promises for a day, the
  walks from a task to its ancestors (\<open>planning_selection_scope.go\<close>,
  \<open>planning_task_edits.go\<close>, \<open>planning_guard.go\<close>) and the identity of an item across revisions.
\<close>

subsection \<open>Budget and slots\<close>

definition defaultDailyBudget :: int where
  "defaultDailyBudget = 120"

definition scheduleDays :: nat where
  "scheduleDays = 7"

definition planningSlots :: "int \<Rightarrow> int" where
  "planningSlots budget = 3"

definition resolvePlanningBudget :: "int \<Rightarrow> planning_settings \<Rightarrow> int result" where
  "resolvePlanningBudget available settings =
    (let a = (if available = 0 then ps_DailyBudgetMinutes settings else available)
     in if a < 30 \<or> a > 480 then Inl ErrValidation else Inr a)"

definition planningTargetMinutes :: "int \<Rightarrow> int" where
  "planningTargetMinutes budget =
    (let b = (if budget \<le> 0 then defaultDailyBudget else budget); slots = planningSlots b
     in if slots > 0 then b div slots else 30)"

text \<open>The loop that subtracts the promised minutes, and its count of core items.\<close>

fun promised :: "plan_item list \<Rightarrow> int \<Rightarrow> int \<Rightarrow> int \<times> int" where
  "promised [] remainingMinutes core = (remainingMinutes, core)"
| "promised (i # items) remainingMinutes core =
    (if i_Kind i = ''core''
     then promised items (if i_TargetMinutes i > 0 then remainingMinutes - i_TargetMinutes i else remainingMinutes) (core + 1)
     else promised items remainingMinutes core)"

definition remainingPlanBudget :: "plan_item list \<Rightarrow> int \<Rightarrow> int \<times> int \<times> int" where
  "remainingPlanBudget items available =
    (let available = (if available = 0 then defaultDailyBudget else available);
         (rest, core) = promised items available 0;
         remainingMinutes = (if rest < 0 then 0 else rest);
         slots = planningSlots available - core;
         slots = (if slots > 3 - core then 3 - core else slots);
         slots = (if slots > remainingMinutes then remainingMinutes else slots);
         slots = (if slots < 0 then 0 else slots)
     in (remainingMinutes, slots, if slots > 0 then remainingMinutes div slots else 0))"

subsection \<open>What a task promises for a day\<close>

definition dailyTaskCommitment :: "task \<Rightarrow> int \<Rightarrow> string" where
  "dailyTaskCommitment t targetMinutes =
    (if t_EstimateMinutes t > 0 \<and> t_EstimateMinutes t \<le> targetMinutes \<and>
        trim_space (t_SuccessCriteria t) \<noteq> []
     then trim_space (t_SuccessCriteria t)
     else t_MinimumAction t)"

definition logicalItemID :: "plan_item \<Rightarrow> id" where
  "logicalItemID i = (if i_LogicalID i \<noteq> [] then i_LogicalID i else i_ID i)"

definition hasCoreItem :: "plan_item list \<Rightarrow> bool" where
  "hasCoreItem items \<longleftrightarrow> (\<exists>i \<in> set items. i_Kind i = ''core'')"

definition candidatesForTasks :: "task list \<Rightarrow> candidate list" where
  "candidatesForTasks ts =
    map (\<lambda>t. \<lparr>c_ID = t_ID t, c_Status = t_Status t, c_Priority = t_Priority t,
      c_Position = t_Position t, c_Estimate = t_EstimateMinutes t,
      c_MinimumAction = t_MinimumAction t, c_GoalActive = True, c_DependencyDone = True\<rparr>) ts"

definition freezePlanWithCore :: "env \<Rightarrow> daily_plan \<Rightarrow> bool \<Rightarrow> daily_plan" where
  "freezePlanWithCore en plan hasCore =
    (if \<not> hasCore \<or> p_FrozenAt plan \<noteq> None then plan
     else case env_zones en (p_Timezone plan) of
       None \<Rightarrow> plan
     | Some loc \<Rightarrow>
         if p_LocalDate plan \<le> format_local loc (env_now en)
         then plan\<lparr>p_FrozenAt := Some (env_now en)\<rparr> else plan)"

text \<open>\<open>newScheduledItem\<close>, with the fresh identifier as an argument.\<close>

definition scheduled_item ::
    "id \<Rightarrow> id \<Rightarrow> id \<Rightarrow> int \<Rightarrow> int \<Rightarrow> int \<Rightarrow> task \<Rightarrow> time \<Rightarrow> plan_item" where
  "scheduled_item k userID planID revision position budget t now =
    (let target = planningTargetMinutes budget
     in \<lparr>i_ID = k, i_LogicalID = k, i_UserID = userID, i_PlanID = planID,
         i_TaskID = Some (t_ID t), i_Kind = ''core'', i_Title = t_Title t,
         i_Commitment = dailyTaskCommitment t target, i_MinimumAction = t_MinimumAction t,
         i_AllowedTypes = ''result,step,time,minimum_action'', i_Status = ''planned'',
         i_CompletionType = [], i_CompletionSummary = [], i_PlanRevision = revision,
         i_TargetMinutes = target, i_Position = position, i_Revision = 1, i_CreatedAt = now,
         i_UpdatedAt = now\<rparr>)"

definition newScheduledItem :: "env \<Rightarrow> id \<Rightarrow> id \<Rightarrow> int \<Rightarrow> int \<Rightarrow> int \<Rightarrow> task \<Rightarrow> plan_item tx" where
  "newScheduledItem en userID planID revision position budget t =
    tx_bind (NewID en ''dpi'') (\<lambda>k.
      tx_return (scheduled_item k userID planID revision position budget t (env_now en)))"

subsection \<open>Walks to the ancestors\<close>

text \<open>
  The walks stop at a task whose identifier they have seen, so they return on every index: a turn
  adds the identifier of one more of the finitely many rows to the seen ones.
\<close>

abbreviation walk_measure :: "task \<Rightarrow> task_index \<Rightarrow> id list \<Rightarrow> nat" where
  "walk_measure t byID seen \<equiv> card (t_ID ` insert t (snd ` set byID) - set seen)"

lemma walk_measure_decreases:
  assumes "t_ID t \<notin> set seen" and "map_of byID p = Some t'"
  shows "walk_measure t' byID (t_ID t # seen) < walk_measure t byID seen"
proof (rule psubset_card_mono)
  have "t' \<in> snd ` set byID" using map_of_SomeD [OF assms(2)] by force
  then show "t_ID ` insert t' (snd ` set byID) - set (t_ID t # seen)
      \<subset> t_ID ` insert t (snd ` set byID) - set seen" using assms(1) by auto
qed simp

function descends_from :: "task \<Rightarrow> id set \<Rightarrow> task_index \<Rightarrow> id list \<Rightarrow> bool" where
  "descends_from t protectedParents byID seen =
    (case t_ParentID t of
       None \<Rightarrow> False
     | Some p \<Rightarrow>
         if t_ID t \<in> set seen then False
         else if p \<in> protectedParents then True
         else case map_of byID p of
           None \<Rightarrow> False
         | Some parent \<Rightarrow> descends_from parent protectedParents byID (t_ID t # seen))"
  by pat_completeness auto
termination
  by (relation "measure (\<lambda>(t, pp, byID, seen). walk_measure t byID seen)")
     (simp, simp only: in_measure split_conv, rule walk_measure_decreases)

declare descends_from.simps [simp del]

definition taskDescendsFrom :: "task \<Rightarrow> id set \<Rightarrow> task_index \<Rightarrow> bool" where
  "taskDescendsFrom t protectedParents byID = descends_from t protectedParents byID []"

text \<open>The result \<open>None\<close> is the code's \<open>nil, false\<close>.\<close>

function parent_chain :: "task \<Rightarrow> task_index \<Rightarrow> id list \<Rightarrow> id list option" where
  "parent_chain t byID seen =
    (case t_ParentID t of
       None \<Rightarrow> Some []
     | Some p \<Rightarrow>
         (case map_of byID p of
            None \<Rightarrow> None
          | Some parent \<Rightarrow>
              if p \<in> set seen \<or> t_UserID parent \<noteq> t_UserID t \<or> t_GoalID parent \<noteq> t_GoalID t
              then None
              else map_option (\<lambda>chain. p # chain) (parent_chain parent byID (p # seen))))"
  by pat_completeness auto
termination
proof (relation "measure (\<lambda>(t, byID, seen). card (fst ` set byID - set seen))", goal_cases)
  case (2 t byID seen p parent)
  then have "p \<in> fst ` set byID" by (metis map_of_eq_None_iff option.discI)
  with 2 have "fst ` set byID - set (p # seen) \<subset> fst ` set byID - set seen" by auto
  then show ?case by (simp add: psubset_card_mono)
qed simp

declare parent_chain.simps [simp del]

definition planningParentChain :: "task \<Rightarrow> task_index \<Rightarrow> id list option" where
  "planningParentChain t byID = parent_chain t byID [t_ID t]"

function state_ready :: "task \<Rightarrow> task_index \<Rightarrow> task \<Rightarrow> id list \<Rightarrow> bool" where
  "state_ready t byID current seen =
    (if t_ID current \<in> set seen \<or> t_DeletedAt current \<noteq> None \<or> t_UserID current \<noteq> t_UserID t \<or>
        t_GoalID current \<noteq> t_GoalID t \<or>
        (t_Status current \<noteq> ''ready'' \<and> t_Status current \<noteq> ''in_progress'')
     then False
     else case t_ParentID current of
       None \<Rightarrow> True
     | Some p \<Rightarrow> (case map_of byID p of
         None \<Rightarrow> False
       | Some parent \<Rightarrow> state_ready t byID parent (t_ID current # seen)))"
  by pat_completeness auto
termination
  by (relation "measure (\<lambda>(t, byID, current, seen). walk_measure current byID seen)")
     (simp_all only: wf_measure in_measure split_conv walk_measure_decreases de_Morgan_disj simp_thms)

declare state_ready.simps [simp del]

definition planningStateReady :: "task \<Rightarrow> task_index \<Rightarrow> bool" where
  "planningStateReady t byID = state_ready t byID t []"

text \<open>The tasks that have a child that counts, and those of them an evidenced item holds.\<close>

definition gomap_values :: "('k, 'v) gomap \<Rightarrow> 'v list" where
  "gomap_values m = map snd (filter (\<lambda>(k, v). map_of m k = Some v) m)"

definition live_parents :: "task_index \<Rightarrow> id set" where
  "live_parents byID = set (List.map_filter (\<lambda>t.
     if t_Status t \<noteq> ''cancelled'' \<and> t_Status t \<noteq> ''superseded'' then t_ParentID t else None)
     (gomap_values byID))"

definition open_status :: "plan_item \<Rightarrow> bool" where
  "open_status i \<longleftrightarrow> i_Status i = ''planned'' \<or> i_Status i = ''in_progress'' \<or> i_Status i = ''satisfied''"

definition protectedPlanParentIDs :: "plan_item list \<Rightarrow> id set \<Rightarrow> task_index \<Rightarrow> id set" where
  "protectedPlanParentIDs items protected byID = set (List.map_filter (\<lambda>i.
     (case i_TaskID i of
        None \<Rightarrow> None
      | Some k \<Rightarrow>
          if i_Kind i = ''core'' \<and> k \<in> live_parents byID \<and> i_ID i \<in> protected \<and> open_status i
          then Some k else None)) items)"

subsection \<open>Laws of the budget\<close>

lemma promised_core: "snd (promised items m c) = c + int (length (filter (\<lambda>i. i_Kind i = ''core'') items))"
  by (induction items arbitrary: m c) auto

definition core_minutes :: "plan_item list \<Rightarrow> int" where
  "core_minutes items = (\<Sum>i \<leftarrow> items. if i_Kind i = ''core'' then max 0 (i_TargetMinutes i) else 0)"

lemma promised_minutes: "fst (promised items m c) = m - core_minutes items"
  by (induction items arbitrary: m c) (auto simp: core_minutes_def)

abbreviation core_count :: "plan_item list \<Rightarrow> nat" where
  "core_count items \<equiv> length (filter (\<lambda>i. i_Kind i = ''core'') items)"

lemma core_minutes_nonneg: "0 \<le> core_minutes items"
  by (induction items) (auto simp: core_minutes_def)

lemma core_minutes_append [simp]: "core_minutes (xs @ ys) = core_minutes xs + core_minutes ys"
  by (simp add: core_minutes_def)

lemma remainingPlanBudget_eq:
  "remainingPlanBudget items available =
    (let rest = max 0 ((if available = 0 then 120 else available) - core_minutes items);
         slots = max 0 (min (3 - int (core_count items)) rest)
     in (rest, slots, if slots > 0 then rest div slots else 0))"
proof -
  define a where "a = (if available = 0 then 120 else available)"
  obtain r c where p: "promised items a 0 = (r, c)" by (cases "promised items a 0")
  have r: "r = a - core_minutes items" and c: "c = int (core_count items)"
    using promised_minutes [of items a 0] promised_core [of items a 0] by (simp_all add: p)
  show ?thesis
    unfolding remainingPlanBudget_def defaultDailyBudget_def a_def [symmetric] planningSlots_def Let_def
      p prod.case r c
    by (auto simp: max_def min_def)
qed

lemma div_times_le: "0 < (s::int) \<Longrightarrow> s * (m div s) \<le> m"
  by (metis mult_div_mod_eq le_add_same_cancel1 pos_mod_sign)

lemma planningTargetMinutes_bound:
  assumes "30 \<le> b" "b \<le> 480"
  shows "10 \<le> planningTargetMinutes b \<and> 3 * planningTargetMinutes b \<le> b"
proof -
  have "3 * (b div 3) \<le> b" by (rule div_times_le) simp
  moreover have "10 \<le> b div 3" using assms zdiv_mono1 [of 30 b 3] by simp
  ultimately show ?thesis using assms by (simp add: planningTargetMinutes_def planningSlots_def)
qed

end
