(* ===== verification/Plan_Rules_Properties.thy ===== *)
theory Plan_Rules_Properties
  imports Plan_Rules
begin

text \<open>
  The laws of the pure rules of the daily plan: the division of a budget never promises more
  than the day has, and the walks to the ancestors decide what their names say on every index,
  also when the rows form a cycle.
\<close>

subsection \<open>The division of the day\<close>

text \<open>Dividing what is left of a day: at most three core items in all unless there were more
  already, a positive slice for each free slot, and all slices together with the minutes
  already promised fit the budget unless the promises alone exceed it.\<close>

theorem remainingPlanBudget_fits:
  "case remainingPlanBudget items available of (rest, slots, target) \<Rightarrow>
     0 \<le> slots \<and> int (core_count items) + slots \<le> max 3 (int (core_count items)) \<and>
     (slots = 0 \<longleftrightarrow> target = 0) \<and> 0 \<le> target \<and>
     core_minutes items + slots * target
       \<le> max (if available = 0 then defaultDailyBudget else available) (core_minutes items) \<and>
     (slots = 0 \<longleftrightarrow> 3 \<le> core_count items \<or>
       (if available = 0 then defaultDailyBudget else available) \<le> core_minutes items)"
proof -
  define a where "a = (if available = 0 then defaultDailyBudget else available)"
  define c where "c = int (core_count items)"
  define m where "m = core_minutes items"
  define rest where "rest = max 0 (a - m)"
  define slots where "slots = max 0 (min (3 - c) rest)"
  have m: "0 \<le> m" by (simp add: m_def core_minutes_nonneg)
  have c: "0 \<le> c" "3 \<le> core_count items \<longleftrightarrow> 3 \<le> c" by (simp_all add: c_def)
  have eq: "remainingPlanBudget items available = (rest, slots, if slots > 0 then rest div slots else 0)"
    unfolding remainingPlanBudget_eq Let_def a_def c_def m_def rest_def slots_def defaultDailyBudget_def
    by (rule refl)
  have zero: "slots = 0 \<longleftrightarrow> 3 \<le> c \<or> a \<le> m"
    using m by (auto simp: slots_def rest_def max_def min_def)
  have bound: "0 \<le> slots" "c + slots \<le> max 3 c" "slots \<le> rest \<or> slots = 0" "rest = 0 \<or> m + rest = a"
    by (auto simp: slots_def rest_def max_def min_def)
  have pos: "slots * (rest div slots) \<le> rest \<and> 1 \<le> rest div slots" if "0 < slots"
  proof
    show "slots * (rest div slots) \<le> rest" using that by (rule div_times_le)
    show "1 \<le> rest div slots" using that bound(3) zdiv_mono1 [of slots rest slots] by simp
  qed
  show ?thesis
    unfolding eq prod.case a_def [symmetric] c_def [symmetric] m_def [symmetric] c(2)
  proof (cases "0 < slots")
    case True
    with zero have "rest \<noteq> 0" "\<not> (3 \<le> c \<or> a \<le> m)" by (auto simp: slots_def)
    with True pos bound show "0 \<le> slots \<and> c + slots \<le> max 3 c \<and>
      (slots = 0 \<longleftrightarrow> (if 0 < slots then rest div slots else 0) = 0) \<and>
      0 \<le> (if 0 < slots then rest div slots else 0) \<and>
      m + slots * (if 0 < slots then rest div slots else 0) \<le> max a m \<and> (slots = 0 \<longleftrightarrow> 3 \<le> c \<or> a \<le> m)"
      by auto
  next
    case False
    with bound(1) have "slots = 0" by simp
    with zero bound show "0 \<le> slots \<and> c + slots \<le> max 3 c \<and>
      (slots = 0 \<longleftrightarrow> (if 0 < slots then rest div slots else 0) = 0) \<and>
      0 \<le> (if 0 < slots then rest div slots else 0) \<and>
      m + slots * (if 0 < slots then rest div slots else 0) \<le> max a m \<and> (slots = 0 \<longleftrightarrow> 3 \<le> c \<or> a \<le> m)"
      by auto
  qed
qed

subsection \<open>The walks\<close>

definition parent_link :: "task_index \<Rightarrow> (task \<times> task) set" where
  "parent_link byID = {(t, t'). \<exists>p. t_ParentID t = Some p \<and> map_of byID p = Some t'}"

definition hits :: "id set \<Rightarrow> task \<Rightarrow> bool" where
  "hits P t \<longleftrightarrow> (\<exists>p \<in> P. t_ParentID t = Some p)"

text \<open>A row that carries its own identifier in the index.\<close>

definition filed :: "task_index \<Rightarrow> task \<Rightarrow> task \<Rightarrow> bool" where
  "filed byID t0 t \<longleftrightarrow> map_of byID (t_ID t) = Some t \<or> map_of byID (t_ID t) = None \<and> t = t0"

lemma filed_inj: "filed byID t0 x \<Longrightarrow> filed byID t0 y \<Longrightarrow> t_ID x = t_ID y \<Longrightarrow> x = y"
  unfolding filed_def by (metis option.inject option.distinct(1))

lemma descends_from_walk:
  assumes "keyed byID" and "set seen = t_ID ` V" and "filed byID t0 t" and "\<forall>v \<in> V. filed byID t0 v"
    and "parent_link byID `` V \<subseteq> insert t V" and "\<forall>v \<in> V. \<not> hits P v"
  shows "descends_from t P byID seen \<longleftrightarrow> (\<exists>t'. (t, t') \<in> (parent_link byID)\<^sup>* \<and> hits P t')"
  using assms
proof (induction t P byID seen arbitrary: V rule: descends_from.induct)
  case (1 t P byID seen)
  show ?case
  proof (cases "t_ID t \<in> set seen")
    case True
    with "1.prems" obtain v where "v \<in> V" "t_ID v = t_ID t" by auto
    then have "t \<in> V" using "1.prems" filed_inj [of byID t0 v t] by auto
    have reach: "t' \<in> V" if "(t, t') \<in> (parent_link byID)\<^sup>*" for t'
      using that
    proof (induction rule: rtrancl_induct)
      case base
      show ?case by (rule \<open>t \<in> V\<close>)
    next
      case (step y z)
      then have "z \<in> insert t V" using "1.prems"(5) by auto
      then show ?case using \<open>t \<in> V\<close> by auto
    qed
    have "\<not> (\<exists>t'. (t, t') \<in> (parent_link byID)\<^sup>* \<and> hits P t')"
    proof (rule notI, elim exE conjE)
      fix t' assume "(t, t') \<in> (parent_link byID)\<^sup>*" "hits P t'"
      with reach "1.prems"(6) show False by simp
    qed
    moreover have "\<not> descends_from t P byID seen"
      using True by (cases "t_ParentID t") (simp_all add: descends_from.simps [of t P byID seen])
    ultimately show ?thesis by simp
  next
    case False
    show ?thesis
    proof (cases "t_ParentID t")
      case None
      then have "(t, t') \<in> (parent_link byID)\<^sup>* \<Longrightarrow> t' = t" for t'
        by (auto simp: parent_link_def elim: converse_rtranclE)
      then have "\<not> (\<exists>t'. (t, t') \<in> (parent_link byID)\<^sup>* \<and> hits P t')"
        using None by (metis hits_def option.discI)
      with None show ?thesis by (subst descends_from.simps) simp
    next
      case (Some p)
      show ?thesis
      proof (cases "p \<in> P")
        case True
        with Some have "hits P t" by (auto simp: hits_def)
        with True Some False show ?thesis by (subst descends_from.simps) auto
      next
        case nohit: False
        with Some have nt: "\<not> hits P t" by (auto simp: hits_def)
        show ?thesis
        proof (cases "map_of byID p")
          case None
          with Some have "(t, t') \<in> (parent_link byID)\<^sup>* \<Longrightarrow> t' = t" for t'
            by (auto simp: parent_link_def elim: converse_rtranclE)
          then have "\<not> (\<exists>t'. (t, t') \<in> (parent_link byID)\<^sup>* \<and> hits P t')" using nt by metis
          with None Some False nohit show ?thesis by (subst descends_from.simps) simp
        next
          case found: (Some t')
          then have link: "(t, t') \<in> parent_link byID" using Some by (simp add: parent_link_def)
          have only: "(t, x) \<in> parent_link byID \<Longrightarrow> x = t'" for x
            using Some found by (auto simp: parent_link_def)
          have "filed byID t0 t'"
            using "1.prems"(1) found by (auto simp: filed_def dest: keyedD)
          moreover have "parent_link byID `` insert t V \<subseteq> insert t' (insert t V)"
            using "1.prems"(5) only by auto
          ultimately have "descends_from t' P byID (t_ID t # seen) \<longleftrightarrow>
              (\<exists>t''. (t', t'') \<in> (parent_link byID)\<^sup>* \<and> hits P t'')"
            using "1.prems" nt by (intro "1.IH" [OF Some False nohit found, of "insert t V"]) auto
          moreover have "(\<exists>t''. (t, t'') \<in> (parent_link byID)\<^sup>* \<and> hits P t'') \<longleftrightarrow>
              (\<exists>t''. (t', t'') \<in> (parent_link byID)\<^sup>* \<and> hits P t'')"
            using nt link only by (metis converse_rtranclE converse_rtrancl_into_rtrancl)
          ultimately show ?thesis
            using Some False nohit found by (subst descends_from.simps) simp
        qed
      qed
    qed
  qed
qed

text \<open>The walk that keeps new work away from a protected parent returns on every index and
  finds a protected ancestor exactly when there is one, also on rows that form a cycle.\<close>

theorem taskDescendsFrom_decides:
  assumes "keyed byID" and "map_of byID (t_ID t) = Some t \<or> map_of byID (t_ID t) = None"
  shows "taskDescendsFrom t P byID \<longleftrightarrow>
    (\<exists>t' p. (t, t') \<in> (parent_link byID)\<^sup>* \<and> t_ParentID t' = Some p \<and> p \<in> P)"
proof -
  have "descends_from t P byID [] \<longleftrightarrow> (\<exists>t'. (t, t') \<in> (parent_link byID)\<^sup>* \<and> hits P t')"
    using assms by (intro descends_from_walk [where V = "{}" and ?t0.0 = t]) (auto simp: filed_def)
  then show ?thesis
    by (auto simp: taskDescendsFrom_def hits_def)
qed

definition loop_row :: "id \<Rightarrow> id \<Rightarrow> task" where
  "loop_row k p = zero_task\<lparr>t_ID := k, t_ParentID := Some p\<rparr>"

definition loop_index :: task_index where
  "loop_index = [(''a'', loop_row ''a'' ''b''), (''b'', loop_row ''b'' ''a'')]"

lemma taskDescendsFrom_decides_witness:
  "\<not> (\<exists>t' p. (loop_row ''a'' ''b'', t') \<in> (parent_link loop_index)\<^sup>* \<and> t_ParentID t' = Some p \<and> p \<in> {''c''})"
proof -
  have "keyed loop_index"
    by (auto simp: keyed_def loop_index_def loop_row_def split: if_splits)
  moreover have "\<not> taskDescendsFrom (loop_row ''a'' ''b'') {''c''} loop_index"
    by (simp add: taskDescendsFrom_def descends_from.simps loop_index_def loop_row_def)
  ultimately show ?thesis
    using taskDescendsFrom_decides [of loop_index "loop_row ''a'' ''b''" "{''c''}"]
    by (simp add: loop_index_def loop_row_def)
qed

text \<open>A list of identifiers is the chain of a task when it names the rows from its parent up to a
  root, all of the task's owner and goal.\<close>

fun is_chain :: "task \<Rightarrow> task_index \<Rightarrow> id list \<Rightarrow> bool" where
  "is_chain t byID [] \<longleftrightarrow> t_ParentID t = None"
| "is_chain t byID (p # ps) \<longleftrightarrow> t_ParentID t = Some p \<and>
     (case map_of byID p of
        None \<Rightarrow> False
      | Some parent \<Rightarrow> t_UserID parent = t_UserID t \<and> t_GoalID parent = t_GoalID t \<and> is_chain parent byID ps)"

text \<open>The parent chain recorded with an approved selection is the path to the root, and there
  is none exactly when the path leaves the index, the owner or the goal, or runs into a cycle.\<close>

theorem planningParentChain_decides:
  "planningParentChain t byID = Some chain \<longleftrightarrow> is_chain t byID chain \<and> distinct (t_ID t # chain)"
proof -
  have "parent_chain t byID seen = Some chain \<longleftrightarrow>
      is_chain t byID chain \<and> distinct chain \<and> set chain \<inter> set seen = {}" for seen
  proof (induction t byID seen arbitrary: chain rule: parent_chain.induct)
    case (1 t byID seen)
    show ?case
    proof (cases "t_ParentID t")
      case None
      then show ?thesis by (subst parent_chain.simps) (cases chain; auto)
    next
      case (Some p)
      show ?thesis
      proof (cases "map_of byID p")
        case None
        with Some show ?thesis by (subst parent_chain.simps) (cases chain; auto)
      next
        case found: (Some parent)
        note ih = "1.IH" [OF Some found]
        show ?thesis
        proof (cases chain)
          case Nil
          with Some found show ?thesis by (subst parent_chain.simps) auto
        next
          case (Cons q qs)
          with Some found ih [of qs] show ?thesis
            by (subst parent_chain.simps) auto
        qed
      qed
    qed
  qed
  from this [of "[t_ID t]"] show ?thesis
    by (auto simp: planningParentChain_def)
qed

end
