(* ===== verification/Plan_Store.thy ===== *)
theory Plan_Store
  imports Plan_Rules
begin

text \<open>
  The reads of the planning engine (\<open>application/planning.go\<close>, \<open>planning_guard.go\<close>,
  \<open>planning_selection_scope.go\<close>, \<open>planning_task_edits.go\<close>): settings and primary goal, the
  executable leaves that can be planned, the items of a plan, which of them are protected by
  work that has happened, where an item's words come from, and how a reserved item follows
  the edits of its task.
\<close>

subsection \<open>Settings and primary goal\<close>

definition default_settings :: "id \<Rightarrow> planning_settings" where
  "default_settings userID =
    \<lparr>ps_UserID = userID, ps_PrimaryGoalID = None, ps_ConfiguredPrimaryGoalID = None,
     ps_PrimaryGoalMode = [], ps_DailyBudgetMinutes = defaultDailyBudget, ps_Revision = 0,
     ps_CreatedAt = 0, ps_UpdatedAt = 0\<rparr>"

definition planningSettingsTx :: "store \<Rightarrow> id \<Rightarrow> planning_settings" where
  "planningSettingsTx s userID =
    (case find (\<lambda>p. ps_UserID p = userID) (s_settings s) of
       None \<Rightarrow> default_settings userID
     | Some p \<Rightarrow> p)"

definition active_goal :: "id \<Rightarrow> goal \<Rightarrow> bool" where
  "active_goal userID g \<longleftrightarrow> g_UserID g = userID \<and> g_Status g = ''active'' \<and> g_DeletedAt g = None"

text \<open>The empty identifier is the code's answer for a user without an active goal.\<close>

definition oldest_active_goal :: "store \<Rightarrow> id \<Rightarrow> id" where
  "oldest_active_goal s userID =
    (case sort_key (\<lambda>g. (g_CreatedAt g, g_ID g)) (filter (active_goal userID) (s_goals s)) of
       [] \<Rightarrow> []
     | g # _ \<Rightarrow> g_ID g)"

definition primaryGoalTx :: "store \<Rightarrow> id \<Rightarrow> planning_settings \<Rightarrow> id" where
  "primaryGoalTx s userID settings =
    (case ps_PrimaryGoalID settings of
       None \<Rightarrow> oldest_active_goal s userID
     | Some k \<Rightarrow> (case find (\<lambda>g. g_ID g = k \<and> active_goal userID g) (s_goals s) of
         None \<Rightarrow> oldest_active_goal s userID
       | Some g \<Rightarrow> g_ID g))"

definition resolvePlanningSettingsProjectionTx ::
    "store \<Rightarrow> id \<Rightarrow> planning_settings \<Rightarrow> planning_settings" where
  "resolvePlanningSettingsProjectionTx s userID settings =
    (let goalID = primaryGoalTx s userID settings
     in settings\<lparr>ps_ConfiguredPrimaryGoalID := ps_PrimaryGoalID settings,
          ps_PrimaryGoalMode := (if ps_PrimaryGoalID settings \<noteq> None then ''fixed'' else ''automatic''),
          ps_PrimaryGoalID := (if goalID \<noteq> [] then Some goalID else None)\<rparr>)"

definition GetPlanningSettings :: "store \<Rightarrow> id \<Rightarrow> planning_settings result" where
  "GetPlanningSettings s userID =
    bind_r (find_user s userID) (\<lambda>_.
      Inr (resolvePlanningSettingsProjectionTx s userID (planningSettingsTx s userID)))"

text \<open>The goal a settings change may fix: a newly chosen one must be active.\<close>

definition chosen_goal :: "store \<Rightarrow> id \<Rightarrow> planning_settings \<Rightarrow> id option \<Rightarrow> id option result" where
  "chosen_goal s userID current primaryGoalID =
    (case primaryGoalID of
       None \<Rightarrow> Inr None
     | Some raw \<Rightarrow>
         (let k = trim_space raw
          in if k = [] then Inr None
             else if ps_PrimaryGoalID current \<noteq> Some k \<and>
                 find (\<lambda>g. g_ID g = k \<and> active_goal userID g) (s_goals s) = None
             then Inl ErrNotFound
             else Inr (Some k)))"

definition UpdatePlanningSettings ::
    "env \<Rightarrow> id \<Rightarrow> int \<Rightarrow> id option \<Rightarrow> int \<Rightarrow> planning_settings tx" where
  "UpdatePlanningSettings en userID expected primaryGoalID budget =
    tx_bind (tx_check (\<not> (budget < 30 \<or> budget > 480)) ErrValidation) (\<lambda>_.
    tx_bind (tx_try (\<lambda>s. find_user s userID)) (\<lambda>_.
    tx_bind (tx_read (\<lambda>s. planningSettingsTx s userID)) (\<lambda>current.
    tx_bind (tx_check (ps_Revision current = expected) ErrRevision) (\<lambda>_.
    tx_bind (tx_try (\<lambda>s. chosen_goal s userID current primaryGoalID)) (\<lambda>configured.
    let settings = \<lparr>ps_UserID = userID, ps_PrimaryGoalID = configured,
          ps_ConfiguredPrimaryGoalID = None, ps_PrimaryGoalMode = [],
          ps_DailyBudgetMinutes = budget, ps_Revision = expected + 1,
          ps_CreatedAt = (if expected = 0 then env_now en else ps_CreatedAt current),
          ps_UpdatedAt = env_now en\<rparr>
    in tx_bind
      (if expected = 0
       then tx_bind (tx_read (\<lambda>s. find (\<lambda>p. ps_UserID p = userID) (s_settings s) = None)) (\<lambda>free.
            tx_bind (tx_check free ErrUnique) (\<lambda>_.
            tx_write (\<lambda>s. s\<lparr>s_settings := s_settings s @ [settings]\<rparr>)))
       else
         let P = (\<lambda>p. ps_UserID p = userID \<and> ps_Revision p = expected)
         in tx_bind (tx_read (\<lambda>s. rows_affected P (s_settings s) = 1)) (\<lambda>one.
            tx_bind (tx_check one ErrRevision) (\<lambda>_.
            tx_write (\<lambda>s. s\<lparr>s_settings := update_rows P (\<lambda>p. p\<lparr>ps_PrimaryGoalID := configured,
              ps_DailyBudgetMinutes := budget, ps_Revision := expected + 1,
              ps_UpdatedAt := env_now en\<rparr>) (s_settings s)\<rparr>)))) (\<lambda>_.
    tx_read (\<lambda>s. resolvePlanningSettingsProjectionTx s userID settings)))))))"

subsection \<open>Tasks that can be planned\<close>

definition executable :: "task \<Rightarrow> task_index \<Rightarrow> bool" where
  "executable t byID \<longleftrightarrow> executableTaskEligibility t byID = Some True"

text \<open>\<open>TRIM\<close> of SQL removes blanks only.\<close>

definition sql_blank :: "string \<Rightarrow> bool" where
  "sql_blank s \<longleftrightarrow> list_all (\<lambda>c. c = CHR '' '') s"

definition counts_as_child :: "task \<Rightarrow> bool" where
  "counts_as_child c \<longleftrightarrow>
    t_DeletedAt c = None \<and> t_Status c \<noteq> ''superseded'' \<and> t_Status c \<noteq> ''cancelled''"

definition plannable :: "store \<Rightarrow> id \<Rightarrow> id \<Rightarrow> id list \<Rightarrow> task \<Rightarrow> bool" where
  "plannable s userID goalID taskIDs t \<longleftrightarrow>
    t_UserID t = userID \<and> t_GoalID t = goalID \<and> t_DeletedAt t = None \<and>
    (t_Type t = ''task'' \<or> t_Type t = ''action'') \<and>
    (t_Status t = ''ready'' \<or> t_Status t = ''in_progress'') \<and> \<not> sql_blank (t_MinimumAction t) \<and>
    \<not> (\<exists>c \<in> set (s_tasks s). t_ParentID c = Some (t_ID t) \<and> counts_as_child c) \<and>
    (taskIDs \<noteq> [] \<longrightarrow> t_ID t \<in> set taskIDs)"

definition eligiblePlanningTasksTx ::
    "store \<Rightarrow> id \<Rightarrow> id list \<Rightarrow> task list \<times> planning_settings" where
  "eligiblePlanningTasksTx s userID taskIDs =
    (let settings = planningSettingsTx s userID;
         goalID = primaryGoalTx s userID settings
     in if goalID = [] then ([], settings\<lparr>ps_PrimaryGoalID := None\<rparr>)
        else
          let ts = sort_key (\<lambda>t. (Desc (t_Priority t), t_Position t, t_ID t))
                     (filter (plannable s userID goalID taskIDs) (s_tasks s));
              byID = index_tasks (goal_tasks s userID goalID)
          in (filter (\<lambda>t. executable t byID) ts, settings\<lparr>ps_PrimaryGoalID := Some goalID\<rparr>))"

subsection \<open>Items of a plan\<close>

definition current_items :: "store \<Rightarrow> daily_plan \<Rightarrow> plan_item list" where
  "current_items s plan = filter (\<lambda>i. i_PlanID i = p_ID plan \<and>
     i_PlanRevision i = p_CurrentRevision plan \<and> i_Status i \<noteq> ''superseded'') (s_items s)"

definition livePlanItemsTx :: "store \<Rightarrow> daily_plan \<Rightarrow> plan_item list" where
  "livePlanItemsTx s plan = sort_key (\<lambda>i. (i_Kind i, i_Position i, i_ID i)) (current_items s plan)"

definition historicalLogicalItemIDTx :: "store \<Rightarrow> id \<Rightarrow> id \<Rightarrow> id \<Rightarrow> id" where
  "historicalLogicalItemIDTx s userID planID taskID =
    (case sort_key (\<lambda>i. (i_PlanRevision i, i_CreatedAt i, i_ID i))
       (filter (\<lambda>i. i_UserID i = userID \<and> i_PlanID i = planID \<and> i_TaskID i = Some taskID) (s_items s)) of
       [] \<Rightarrow> []
     | i # _ \<Rightarrow> logicalItemID i)"

text \<open>The join of an evidence row with the plan's items, on the identifier it names.\<close>

definition joined_items :: "store \<Rightarrow> id \<Rightarrow> id \<Rightarrow> id option \<Rightarrow> plan_item list" where
  "joined_items s userID planID ref =
    filter (\<lambda>i. ref = Some (i_ID i) \<and> i_UserID i = userID \<and> i_PlanID i = planID) (s_items s)"

definition evidence_ids :: "store \<Rightarrow> id \<Rightarrow> daily_plan \<Rightarrow> id set" where
  "evidence_ids s userID plan =
    set (concat (map (\<lambda>w. map logicalItemID (joined_items s userID (p_ID plan) (w_DailyPlanItemID w)))
           (filter (\<lambda>w. w_UserID w = userID) (s_sessions s)))) \<union>
    set (concat (map (\<lambda>e. map logicalItemID (joined_items s userID (p_ID plan) (e_PlanItemID e)))
           (filter (\<lambda>e. e_UserID e = userID) (s_events s))))"

definition protectedPlanItemsTx ::
    "store \<Rightarrow> id \<Rightarrow> daily_plan \<Rightarrow> plan_item list \<Rightarrow> id set result" where
  "protectedPlanItemsTx s userID plan items =
    (if p_UserID plan \<noteq> userID then Inl ErrNotFound
     else if \<exists>i \<in> set items. i_UserID i \<noteq> userID \<or> i_PlanID i \<noteq> p_ID plan then Inl ErrNotFound
     else Inr (set (map i_ID (filter (\<lambda>i. i_Status i = ''satisfied'' \<or> i_Status i = ''in_progress'' \<or>
            logicalItemID i \<in> evidence_ids s userID plan) items))))"

definition retainProtectedItemForReplanTx :: "store \<Rightarrow> id \<Rightarrow> daily_plan \<Rightarrow> plan_item \<Rightarrow> bool" where
  "retainProtectedItemForReplanTx s userID plan item \<longleftrightarrow>
    (if i_Kind item \<noteq> ''core'' \<or> i_Status item \<noteq> ''skipped'' then True
     else \<exists>w \<in> set (s_sessions s). w_UserID w = userID \<and>
       (\<exists>i \<in> set (joined_items s userID (p_ID plan) (w_DailyPlanItemID w)).
          logicalItemID i = logicalItemID item))"

definition planningTaskIndexTx :: "store \<Rightarrow> id \<Rightarrow> task_index" where
  "planningTaskIndexTx s userID =
    index_tasks (filter (\<lambda>t. t_UserID t = userID \<and> t_DeletedAt t = None) (s_tasks s))"

end
