(* ===== verification/Plan_Source.thy ===== *)
theory Plan_Source
  imports Plan_Store
begin

text \<open>
  Where the words of a planned item come from (\<open>application/planning_task_edits.go\<close>,
  \<open>planning_selection_scope.go\<close>, \<open>planning.go\<close>): the walks over the plan's immutable revision
  snapshots, and the edits of an item that follow an edit of its task.
\<close>

definition planItemSourceGenerated :: string where
  "planItemSourceGenerated = ''generated''"

definition planItemSourceExplicit :: string where
  "planItemSourceExplicit = ''explicit''"

definition revisions_up_to :: "store \<Rightarrow> plan_item \<Rightarrow> plan_revision list" where
  "revisions_up_to s item =
    filter (\<lambda>r. r_PlanID r = i_PlanID item \<and> r_Revision r \<le> i_PlanRevision item) (s_revisions s)"

fun scope_source :: "plan_item \<Rightarrow> plan_revision list \<Rightarrow> string" where
  "scope_source item [] = planItemSourceExplicit"
| "scope_source item (r # history) =
    (case r_PlanSnapshot r of
       None \<Rightarrow> planItemSourceExplicit
     | Some snapshot \<Rightarrow>
         if \<not> (\<exists>recorded \<in> set snapshot. i_ID recorded = i_ID item) then scope_source item history
         else case r_InputSnapshot r of
           None \<Rightarrow> planItemSourceExplicit
         | Some inp \<Rightarrow>
             (case map_of (in_ItemSources inp) (i_ID item) of
                Some source \<Rightarrow>
                  if source = planItemSourceGenerated then source else planItemSourceExplicit
              | None \<Rightarrow>
                  if in_Source inp = ''agent_proposal'' then planItemSourceExplicit
                  else if r_Reason r = ''initial generation'' \<or> r_Reason r = ''same-day replanning''
                  then planItemSourceGenerated
                  else scope_source item history))"

definition planItemScopeSourceTx :: "store \<Rightarrow> plan_item \<Rightarrow> string" where
  "planItemScopeSourceTx s item =
    scope_source item (sort_key (\<lambda>r. Desc (r_Revision r)) (revisions_up_to s item))"

text \<open>A day of the schedule: the plan, its items, the reason of the next revision and the sources
  of the items the scheduler has just added.\<close>

record schedule_day =
  d_Plan :: daily_plan
  d_Items :: "plan_item list"
  d_Reason :: string
  d_ItemSources :: "(id, string) gomap"

definition scheduleItemSourcesTx :: "store \<Rightarrow> schedule_day \<Rightarrow> (id, string) gomap" where
  "scheduleItemSourcesTx s day =
    map (\<lambda>i. (i_ID i, case map_of (d_ItemSources day) (i_ID i) of
        Some source \<Rightarrow> source
      | None \<Rightarrow> planItemScopeSourceTx s i)) (rev (d_Items day))"

subsection \<open>The approved parents of an item\<close>

fun approved_scope :: "plan_item \<Rightarrow> task \<Rightarrow> id list \<Rightarrow> plan_revision list \<Rightarrow> bool" where
  "approved_scope item t chain [] = False"
| "approved_scope item t chain (r # revisions) =
    (case r_PlanSnapshot r of
       None \<Rightarrow> False
     | Some snapshot \<Rightarrow>
         (case find (\<lambda>recorded. i_ID recorded = i_ID item) snapshot of
            None \<Rightarrow> approved_scope item t chain revisions
          | Some recorded \<Rightarrow>
              if i_TaskID recorded \<noteq> Some (t_ID t) \<or> i_Kind recorded \<noteq> ''core'' then False
              else case r_InputSnapshot r of
                None \<Rightarrow> False
              | Some inp \<Rightarrow> map_of (in_Scopes inp) (t_ID t) = Some chain))"

definition approvedPlanItemParentScopeTx :: "store \<Rightarrow> id \<Rightarrow> plan_item \<Rightarrow> task \<Rightarrow> task_index \<Rightarrow> bool" where
  "approvedPlanItemParentScopeTx s userID item t byID =
    (if i_UserID item \<noteq> userID \<or> t_UserID t \<noteq> userID \<or> i_TaskID item \<noteq> Some (t_ID t) then False
     else case planningParentChain t byID of
       None \<Rightarrow> False
     | Some chain \<Rightarrow> approved_scope item t chain (sort_key r_Revision (revisions_up_to s item)))"

subsection \<open>Reserved items follow their task\<close>

text \<open>The UTF-8 bytes of the prefix \<open>advance:\<close> of the legacy wording.\<close>

definition advance_prefix :: string where
  "advance_prefix = [CHR 0xE6, CHR 0x8E, CHR 0xA8, CHR 0xE8, CHR 0xBF, CHR 0x9B, CHR 0xEF, CHR 0xBC, CHR 0x9A]"

definition item_history :: "store \<Rightarrow> daily_plan \<Rightarrow> task \<Rightarrow> plan_item list" where
  "item_history s plan t =
    sort_key (\<lambda>i. (Desc (i_PlanRevision i), Desc (i_CreatedAt i), Desc (i_ID i)))
      (filter (\<lambda>i. i_PlanID i = p_ID plan \<and> i_TaskID i = Some (t_ID t)) (s_items s))"

text \<open>
  The loop that looks for the generation an item stems from. \<open>Inr None\<close> is the early return
  for a row that no snapshot records, and the answer for an empty history.
\<close>

fun find_original ::
    "store \<Rightarrow> daily_plan \<Rightarrow> plan_item list \<Rightarrow> (plan_item \<times> plan_revision) option \<Rightarrow>
     (plan_item \<times> plan_revision) option result" where
  "find_original s plan [] acc = Inr acc"
| "find_original s plan (previous # history) acc =
    (case find (\<lambda>r. r_PlanID r = p_ID plan \<and> r_Revision r = i_PlanRevision previous) (s_revisions s) of
       None \<Rightarrow> Inl ErrRecordNotFound
     | Some r \<Rightarrow>
         (case r_PlanSnapshot r of
            None \<Rightarrow> Inl ErrJSON
          | Some snapshot \<Rightarrow>
              if \<not> (\<exists>recorded \<in> set snapshot. i_ID recorded = i_ID previous) then Inr None
              else if r_Reason r \<noteq> ''seven-day scheduling'' then Inr (Some (previous, r))
              else find_original s plan history (Some (previous, r))))"

definition agent_commitment :: "plan_candidate list \<Rightarrow> id \<Rightarrow> string \<Rightarrow> string" where
  "agent_commitment candidates taskID minimum =
    (case find (\<lambda>c. pc_TaskID c = taskID \<and> trim_space (pc_Commitment c) \<noteq> []) candidates of
       None \<Rightarrow> minimum
     | Some c \<Rightarrow> trim_space (pc_Commitment c))"

text \<open>The item with the words of its task, or of the proposal that approved it.\<close>

definition follow_task :: "plan_item \<Rightarrow> plan_item \<Rightarrow> plan_input \<Rightarrow> task \<Rightarrow> plan_item" where
  "follow_task item original inp t =
    (if in_Source inp = ''agent_proposal''
     then item\<lparr>i_Title := t_Title t, i_MinimumAction := i_MinimumAction original,
            i_Commitment := agent_commitment (in_Candidates inp) (t_ID t) (i_MinimumAction original)\<rparr>
     else item\<lparr>i_Title := t_Title t, i_MinimumAction := t_MinimumAction t,
            i_Commitment := dailyTaskCommitment t (i_TargetMinutes item)\<rparr>)"

definition refreshReservedTaskContentTx ::
    "store \<Rightarrow> daily_plan \<Rightarrow> plan_item \<Rightarrow> task \<Rightarrow> (plan_item \<times> bool) result" where
  "refreshReservedTaskContentTx s plan item t =
    (if i_Title item = t_Title t \<and> i_MinimumAction item = t_MinimumAction t \<and>
        (i_Commitment item = advance_prefix @ t_SuccessCriteria t \<or>
         i_Commitment item = t_MinimumAction t \<or>
         i_Commitment item = dailyTaskCommitment t (i_TargetMinutes item))
     then Inr (item, False)
     else case find_original s plan (item_history s plan t) None of
       Inl e \<Rightarrow> Inl e
     | Inr None \<Rightarrow> Inr (item, False)
     | Inr (Some (original, r)) \<Rightarrow>
         if i_ID original = [] then Inr (item, False)
         else case r_InputSnapshot r of
           None \<Rightarrow> Inl ErrJSON
         | Some inp \<Rightarrow>
             let updated = follow_task item original inp t
             in Inr (updated, i_Title updated \<noteq> i_Title item \<or>
                  i_MinimumAction updated \<noteq> i_MinimumAction item \<or>
                  i_Commitment updated \<noteq> i_Commitment item))"

subsection \<open>Today's items when the task tree changes\<close>

definition supersede_row :: "plan_item \<Rightarrow> id \<Rightarrow> time \<Rightarrow> plan_item \<Rightarrow> plan_item" where
  "supersede_row item userID now i =
    (if i_ID i = i_ID item \<and> i_UserID i = userID \<and> i_Revision i = i_Revision item \<and> i_Status i = ''planned''
     then i\<lparr>i_Status := ''superseded'', i_Revision := i_Revision item + 1, i_UpdatedAt := now\<rparr> else i)"

text \<open>Whether an item of today stays in place: the three tests of the loop that keep it.\<close>

definition structure_keeps ::
    "store \<Rightarrow> id \<Rightarrow> id set \<Rightarrow> id set \<Rightarrow> task_index \<Rightarrow> plan_item \<Rightarrow> bool" where
  "structure_keeps s userID protected protectedParents byID item \<longleftrightarrow>
    (if i_Kind item \<noteq> ''core'' \<or> i_TaskID item = None \<or> \<not> open_status item then True
     else case map_of byID (the (i_TaskID item)) of
       None \<Rightarrow> True
     | Some t \<Rightarrow>
         let leaf = (t_Type t = ''task'' \<or> t_Type t = ''action'') \<and> t_ID t \<notin> live_parents byID;
             below = taskDescendsFrom t protectedParents byID
         in leaf \<and> \<not> below \<or> i_ID item \<in> protected \<or>
            leaf \<and> below \<and> approvedPlanItemParentScopeTx s userID item t byID \<and> executable t byID)"

text \<open>The loop, with the items kept and whether a row was superseded.\<close>

fun structure_loop ::
    "env \<Rightarrow> id \<Rightarrow> id set \<Rightarrow> id set \<Rightarrow> task_index \<Rightarrow> plan_item list \<Rightarrow> (plan_item list \<times> bool) tx" where
  "structure_loop en userID protected protectedParents byID [] = tx_return ([], False)"
| "structure_loop en userID protected protectedParents byID (item # items) =
    tx_bind (tx_read (\<lambda>s. structure_keeps s userID protected protectedParents byID item)) (\<lambda>keep.
    if keep
    then tx_bind (structure_loop en userID protected protectedParents byID items) (\<lambda>(kept, changed).
         tx_return (item # kept, changed))
    else
      let P = (\<lambda>i. i_ID i = i_ID item \<and> i_UserID i = userID \<and> i_Revision i = i_Revision item \<and>
                 i_Status i = ''planned'')
      in tx_bind (tx_read (\<lambda>s. rows_affected P (s_items s) = 1)) (\<lambda>one.
         tx_bind (tx_write (\<lambda>s. s\<lparr>s_items := map (supersede_row item userID (env_now en)) (s_items s)\<rparr>)) (\<lambda>_.
         tx_bind (tx_check one ErrRevision) (\<lambda>_.
         tx_bind (structure_loop en userID protected protectedParents byID items) (\<lambda>(kept, changed).
         tx_return (kept, True))))))"

definition refreshTodayTaskStructureTx ::
    "env \<Rightarrow> id \<Rightarrow> plan_item list \<Rightarrow> id set \<Rightarrow> task_index \<Rightarrow> (plan_item list \<times> id set \<times> bool) tx" where
  "refreshTodayTaskStructureTx en userID items protected byID =
    (let protectedParents = protectedPlanParentIDs items protected byID
     in tx_bind (structure_loop en userID protected protectedParents byID items) (\<lambda>(kept, changed).
        tx_return (kept, protectedParents, changed)))"

end
