(* ===== verification/Plan_Availability.thy ===== *)
theory Plan_Availability
  imports Plan_Source
begin

text \<open>
  \<open>GetPlanningAvailability\<close> of \<open>application/planning_guard.go\<close>: the status of a day, the numbers
  of ready and waiting tasks, and whether an explicit replan can add work. The sentence shown
  with the status (\<open>Reason\<close>) is not modelled.
\<close>

record availability =
  av_Status :: string
  av_ReadyCount :: nat
  av_WaitingCount :: nat
  av_CanReplan :: bool

text \<open>The tasks of the primary goal, and those of them that are still open leaves.\<close>

definition open_leaf :: "task_index \<Rightarrow> task \<Rightarrow> bool" where
  "open_leaf byID t \<longleftrightarrow>
    \<not> (t_DeletedAt t \<noteq> None \<or>
       (\<exists>c \<in> set (gomap_values byID). t_ParentID c = Some (t_ID t) \<and> counts_as_child c) \<or>
       (t_Type t \<noteq> ''task'' \<and> t_Type t \<noteq> ''action'') \<or> t_Status t = ''completed'' \<or>
       t_Status t = ''cancelled'' \<or> t_Status t = ''superseded'')"

definition waiting_leaf :: "task_index \<Rightarrow> task \<Rightarrow> bool" where
  "waiting_leaf byID t \<longleftrightarrow>
    trim_space (t_MinimumAction t) \<noteq> [] \<and> planningStateReady t byID \<and> \<not> executable t byID"

definition withdrawn_core :: "plan_item \<Rightarrow> bool" where
  "withdrawn_core i \<longleftrightarrow> i_Status i = ''skipped'' \<or> i_Status i = ''not_completed''"

definition core_tasks :: "plan_item list \<Rightarrow> id set" where
  "core_tasks items =
    set (List.map_filter (\<lambda>i. if i_Kind i = ''core'' then i_TaskID i else None) items)"

text \<open>The protected items an explicit replan keeps.\<close>

definition kept_for_replan :: "store \<Rightarrow> id \<Rightarrow> daily_plan \<Rightarrow> id set \<Rightarrow> plan_item list \<Rightarrow> plan_item list" where
  "kept_for_replan s userID plan protected items =
    filter (\<lambda>i. i_ID i \<in> protected \<and> retainProtectedItemForReplanTx s userID plan i) items"

definition planningAvailabilityTx ::
    "store \<Rightarrow> id \<Rightarrow> daily_plan \<Rightarrow> plan_item list \<Rightarrow> availability result" where
  "planningAvailabilityTx s userID plan items =
    (if p_UserID plan \<noteq> userID then Inl ErrNotFound
     else
       let (ts, settings) = eligiblePlanningTasksTx s userID [];
           ready = length ts;
           rows = (case ps_PrimaryGoalID settings of None \<Rightarrow> [] | Some g \<Rightarrow> goal_tasks s userID g);
           byID = index_tasks rows;
           open_rows = filter (open_leaf byID) rows;
           waiting = length (filter (waiting_leaf byID) open_rows)
       in bind_r (protectedPlanItemsTx s userID plan items) (\<lambda>protected.
         let scopeTasks = planningTaskIndexTx s userID;
             protectedParents = protectedPlanParentIDs items protected scopeTasks;
             kept = kept_for_replan s userID plan protected items;
             protectedTask = set (List.map_filter i_TaskID kept);
             todayTask = core_tasks items;
             core = length (filter (\<lambda>i. i_Kind i = ''core'') items);
             activeCore = length (filter (\<lambda>i. i_Kind i = ''core'' \<and> \<not> withdrawn_core i) items);
             below = (\<lambda>t. taskDescendsFrom t protectedParents scopeTasks);
             deferredScope = length (filter (\<lambda>t. below t \<and> t_ID t \<notin> todayTask) ts);
             remainingReady = length (filter (\<lambda>t. \<not> below t \<and> t_ID t \<notin> todayTask) ts);
             (_, slots, _) = remainingPlanBudget kept (ps_DailyBudgetMinutes settings);
             canReplan = (\<exists>t \<in> set ts. \<not> below t \<and> t_ID t \<notin> protectedTask \<and> slots > 0 \<and>
               p_Status plan = ''active'');
             (status, can) =
               (if p_Status plan \<noteq> ''active'' then (''closed'', False)
                else if core > 0 \<and> activeCore = 0 then (''withdrawn'', canReplan)
                else if core > activeCore then (''withdrawn'', canReplan)
                else if core > 0 \<and> core < 3 then
                  (if remainingReady > 0 then ''ready''
                   else if deferredScope > 0 then ''ready''
                   else if waiting > 0 then ''waiting_dependencies''
                   else ''ready'', canReplan)
                else if protected \<noteq> {} then (''frozen'', canReplan)
                else if p_FrozenAt plan \<noteq> None \<and> activeCore > 0 then (''frozen'', canReplan)
                else if ready > 0 then (''ready'', canReplan)
                else if waiting > 0 then (''waiting_dependencies'', False)
                else if open_rows = [] then (''no_tasks'', False)
                else (''no_ready_tasks'', False))
         in Inr \<lparr>av_Status = (if p_Status plan = ''active'' \<and> p_ManualItemsRemoved plan
                  then ''withdrawn'' else status),
                 av_ReadyCount = ready, av_WaitingCount = waiting, av_CanReplan = can\<rparr>))"

definition GetPlanningAvailability :: "store \<Rightarrow> id \<Rightarrow> id \<Rightarrow> availability result" where
  "GetPlanningAvailability s userID planID =
    bind_r (find_plan s planID userID) (\<lambda>plan.
      planningAvailabilityTx s userID plan (livePlanItemsTx s plan))"

end
