(* ===== verification/Plan_Schedule.thy ===== *)
theory Plan_Schedule
  imports Plan_Availability
begin

text \<open>
  The seven-day schedule of \<open>application/planning.go\<close>: \<open>refreshScheduleTx\<close> with its loops,
  \<open>appendScheduleDayTx\<close>, \<open>saveScheduleDayTx\<close> and the entry points \<open>EnsureDailyPlan\<close>,
  \<open>RefreshSchedule\<close> and \<open>MaintainSchedules\<close>.
\<close>

record day_state = schedule_day +
  d_Changed :: bool
  d_Protected :: bool
  d_AppendOnly :: bool

subsection \<open>Rows\<close>

definition create_plan :: "daily_plan \<Rightarrow> unit tx" where
  "create_plan plan =
    tx_bind (tx_read (\<lambda>s. \<exists>p \<in> set (s_plans s). p_ID p = p_ID plan \<or>
      p_UserID p = p_UserID plan \<and> p_LocalDate p = p_LocalDate plan \<and> p_Timezone p = p_Timezone plan)) (\<lambda>taken.
    tx_bind (tx_check (\<not> taken) ErrUnique) (\<lambda>_.
    tx_write (\<lambda>s. s\<lparr>s_plans := s_plans s @ [plan]\<rparr>)))"

definition create_revision :: "plan_revision \<Rightarrow> unit tx" where
  "create_revision r =
    tx_bind (tx_read (\<lambda>s. \<exists>q \<in> set (s_revisions s). r_ID q = r_ID r \<or>
      r_PlanID q = r_PlanID r \<and> r_Revision q = r_Revision r)) (\<lambda>taken.
    tx_bind (tx_check (\<not> taken) ErrUnique) (\<lambda>_.
    tx_write (\<lambda>s. s\<lparr>s_revisions := s_revisions s @ [r]\<rparr>)))"

definition create_item :: "plan_item \<Rightarrow> unit tx" where
  "create_item i =
    tx_bind (tx_read (\<lambda>s. \<exists>j \<in> set (s_items s). i_ID j = i_ID i)) (\<lambda>taken.
    tx_bind (tx_check (\<not> taken) ErrUnique) (\<lambda>_.
    tx_write (\<lambda>s. s\<lparr>s_items := s_items s @ [i]\<rparr>)))"

text \<open>The \<open>UPDATE\<close> of one table row under its revision, and how many rows it met.\<close>

definition update_plan :: "id \<Rightarrow> int \<Rightarrow> (daily_plan \<Rightarrow> daily_plan) \<Rightarrow> bool tx" where
  "update_plan k revision f =
    (let P = (\<lambda>p. p_ID p = k \<and> p_Revision p = revision)
     in tx_bind (tx_read (\<lambda>s. rows_affected P (s_plans s) = 1)) (\<lambda>one.
        tx_bind (tx_write (\<lambda>s. s\<lparr>s_plans := update_rows P f (s_plans s)\<rparr>)) (\<lambda>_.
        tx_return one)))"

definition update_item :: "id \<Rightarrow> int \<Rightarrow> (plan_item \<Rightarrow> plan_item) \<Rightarrow> bool tx" where
  "update_item k revision f =
    (let P = (\<lambda>i. i_ID i = k \<and> i_Revision i = revision)
     in tx_bind (tx_read (\<lambda>s. rows_affected P (s_items s) = 1)) (\<lambda>one.
        tx_bind (tx_write (\<lambda>s. s\<lparr>s_items := update_rows P f (s_items s)\<rparr>)) (\<lambda>_.
        tx_return one)))"

subsection \<open>Closing past days\<close>

definition close_item :: "time \<Rightarrow> plan_item \<Rightarrow> plan_item" where
  "close_item now i = i\<lparr>i_Status := ''not_completed'', i_Revision := i_Revision i + 1, i_UpdatedAt := now\<rparr>"

definition close_items :: "time \<Rightarrow> daily_plan \<Rightarrow> store \<Rightarrow> store" where
  "close_items now plan s =
    s\<lparr>s_items := update_rows (\<lambda>i. i_PlanID i = p_ID plan \<and> i_PlanRevision i = p_CurrentRevision plan \<and>
        (i_Status i = ''planned'' \<or> i_Status i = ''in_progress'')) (close_item now) (s_items s)\<rparr>"

definition close_plan :: "time \<Rightarrow> daily_plan \<Rightarrow> store \<Rightarrow> store" where
  "close_plan now plan s =
    (close_items now plan s)\<lparr>s_plans := update_rows (\<lambda>p. p_ID p = p_ID plan)
       (\<lambda>p. p\<lparr>p_Status := ''closed'', p_Revision := p_Revision p + 1, p_UpdatedAt := now\<rparr>) (s_plans s)\<rparr>"

definition past_plans :: "store \<Rightarrow> id \<Rightarrow> string \<Rightarrow> string \<Rightarrow> daily_plan list" where
  "past_plans s userID zone date =
    filter (\<lambda>p. p_UserID p = userID \<and> p_Timezone p = zone \<and> p_LocalDate p < date \<and>
      p_Status p = ''active'') (s_plans s)"

definition close_past :: "id \<Rightarrow> string \<Rightarrow> string \<Rightarrow> time \<Rightarrow> store \<Rightarrow> store" where
  "close_past userID zone date now s = fold (close_plan now) (past_plans s userID zone date) s"

subsection \<open>What a day keeps\<close>

text \<open>
  The loop over the existing items of a day, with the number of core items kept, the tasks
  assigned so far and whether the day changed.
\<close>

fun keep_items ::
    "store \<Rightarrow> planning_settings \<Rightarrow> task_index \<Rightarrow> bool \<Rightarrow> bool \<Rightarrow> daily_plan \<Rightarrow> plan_item list \<Rightarrow>
     int \<Rightarrow> id set \<Rightarrow> bool \<Rightarrow> (plan_item list \<times> id set \<times> bool) result" where
  "keep_items s settings byTask frozen later plan [] core assigned changed = Inr ([], assigned, changed)"
| "keep_items s settings byTask frozen later plan (item # items) core assigned changed =
    (if i_Kind item \<noteq> ''core'' \<or> frozen then
       bind_r (keep_items s settings byTask frozen later plan items core
           (case i_TaskID item of
              Some k \<Rightarrow> if i_Kind item = ''core'' \<and> i_Status item \<noteq> ''skipped'' then insert k assigned else assigned
            | None \<Rightarrow> assigned) changed)
         (\<lambda>(kept, a, c). Inr (item # kept, a, c))
     else case i_TaskID item of
       None \<Rightarrow> keep_items s settings byTask frozen later plan items core assigned True
     | Some k \<Rightarrow>
         (case map_of byTask k of
            None \<Rightarrow> keep_items s settings byTask frozen later plan items core assigned True
          | Some t \<Rightarrow>
              if k \<in> assigned \<or> core \<ge> planningSlots (ps_DailyBudgetMinutes settings)
              then keep_items s settings byTask frozen later plan items core assigned True
              else if later then
                let target = planningTargetMinutes (ps_DailyBudgetMinutes settings);
                    resized = i_TargetMinutes item \<noteq> target
                in bind_r (refreshReservedTaskContentTx s plan (item\<lparr>i_TargetMinutes := target\<rparr>) t)
                  (\<lambda>(updated, contentChanged).
                   bind_r (keep_items s settings byTask frozen later plan items (core + 1) (insert k assigned)
                       (changed \<or> resized \<or> contentChanged))
                     (\<lambda>(kept, a, c). Inr (updated # kept, a, c)))
              else
                bind_r (keep_items s settings byTask frozen later plan items (core + 1) (insert k assigned) changed)
                  (\<lambda>(kept, a, c). Inr (item # kept, a, c))))"

definition new_plan :: "id \<Rightarrow> id \<Rightarrow> string \<Rightarrow> string \<Rightarrow> time \<Rightarrow> daily_plan" where
  "new_plan k userID localDate zone now =
    \<lparr>p_ID = k, p_UserID = userID, p_LocalDate = localDate, p_Timezone = zone, p_Status = ''active'',
     p_AlgorithmVersion = ''deterministic-v3'', p_CurrentRevision = 1, p_Revision = 1,
     p_FrozenAt = None, p_ManualItemsRemoved = False, p_CreatedAt = now, p_UpdatedAt = now\<rparr>"

text \<open>What the turn for one day works with: fixed by the call.\<close>

record schedule_call =
  sc_userID :: id
  sc_zone :: string
  sc_today :: string
  sc_settings :: planning_settings
  sc_byTask :: task_index
  sc_allByID :: task_index
  sc_byDate :: "(string, daily_plan) gomap"

text \<open>A day whose plan exists: its items, whether some are protected, and today's structure.\<close>

definition load_day ::
    "env \<Rightarrow> schedule_call \<Rightarrow> bool \<Rightarrow> daily_plan \<Rightarrow>
     (plan_item list \<times> id set \<times> bool \<times> bool) tx" where
  "load_day en sc first plan =
    tx_bind (tx_read (\<lambda>s. livePlanItemsTx s plan)) (\<lambda>existing.
    tx_bind (tx_try (\<lambda>s. protectedPlanItemsTx s (sc_userID sc) plan existing)) (\<lambda>protected.
    if first \<and> p_Status plan = ''active'' \<and> p_LocalDate plan = sc_today sc
    then tx_bind (refreshTodayTaskStructureTx en (sc_userID sc) existing protected (sc_allByID sc))
      (\<lambda>(kept, protectedParents, changed). tx_return (kept, protectedParents, protected \<noteq> {}, changed))
    else tx_return (existing, {}, protected \<noteq> {}, False)))"

text \<open>What stays on an active day; another day stays as it is.\<close>

definition keep_day ::
    "schedule_call \<Rightarrow> bool \<Rightarrow> id set \<Rightarrow> daily_plan \<Rightarrow> plan_item list \<Rightarrow> bool \<Rightarrow> bool \<Rightarrow> string \<Rightarrow>
     (day_state \<times> id set) tx" where
  "keep_day sc first assigned plan existing protected changed reason =
    (if p_Status plan \<noteq> ''active''
     then tx_return (\<lparr>d_Plan = plan, d_Items = existing, d_Reason = [], d_ItemSources = [],
            d_Changed = changed, d_Protected = protected, d_AppendOnly = False\<rparr>, assigned)
     else
       let frozen = (first \<and> p_FrozenAt plan \<noteq> None \<or> protected)
       in tx_bind (tx_try (\<lambda>s. keep_items s (sc_settings sc) (sc_byTask sc) frozen (\<not> first) plan
              existing 0 assigned changed)) (\<lambda>(kept, assigned', changed').
          tx_return (\<lparr>d_Plan = plan, d_Items = kept, d_Reason = reason, d_ItemSources = [],
            d_Changed = changed', d_Protected = protected, d_AppendOnly = frozen\<rparr>, assigned')))"

definition prepare_day ::
    "env \<Rightarrow> schedule_call \<Rightarrow> bool \<Rightarrow> string \<Rightarrow> id set \<Rightarrow> (day_state \<times> id set \<times> id set) tx" where
  "prepare_day en sc first localDate assigned =
    tx_bind
      (case map_of (sc_byDate sc) localDate of
         None \<Rightarrow> tx_bind (NewID en ''plan'') (\<lambda>k.
           tx_return (new_plan k (sc_userID sc) localDate (sc_zone sc) (env_now en), [], {}, False, True, []))
       | Some plan \<Rightarrow> tx_bind (load_day en sc first plan) (\<lambda>(existing, parents, protected, structural).
           tx_return (plan, existing, parents, protected, structural,
             if structural then ''task structure updated'' else [])))
      (\<lambda>(plan, existing, parents, protected, changed, reason).
        tx_bind (keep_day sc first assigned plan existing protected changed reason) (\<lambda>(day, assigned').
        tx_return (day, parents, assigned')))"

text \<open>The later days; the first one sets the protected parents of today.\<close>

fun prepare_later ::
    "env \<Rightarrow> schedule_call \<Rightarrow> string list \<Rightarrow> id set \<Rightarrow> (day_state list \<times> id set) tx" where
  "prepare_later en sc [] assigned = tx_return ([], assigned)"
| "prepare_later en sc (localDate # dates) assigned =
    tx_bind (prepare_day en sc False localDate assigned) (\<lambda>(day, _, assigned').
    tx_bind (prepare_later en sc dates assigned') (\<lambda>(days, assigned'').
    tx_return (day # days, assigned'')))"

fun prepare_days ::
    "env \<Rightarrow> schedule_call \<Rightarrow> string list \<Rightarrow> (day_state list \<times> id set \<times> id set) tx" where
  "prepare_days en sc [] = tx_return ([], {}, {})"
| "prepare_days en sc (localDate # dates) =
    tx_bind (prepare_day en sc True localDate {}) (\<lambda>(day, parents, assigned).
    tx_bind (prepare_later en sc dates assigned) (\<lambda>(days, assigned').
    tx_return (day # days, parents, assigned')))"

subsection \<open>The queue\<close>

definition attempt_type :: "string \<Rightarrow> bool" where
  "attempt_type ty \<longleftrightarrow> ty = ''result'' \<or> ty = ''step'' \<or> ty = ''time'' \<or> ty = ''minimum_action''"

definition reverses :: "progress_event \<Rightarrow> id \<Rightarrow> bool" where
  "reverses e k \<longleftrightarrow> e_Type e = ''daily_item_reopened'' \<and>
    (case e_EvidenceJSON e of ItemEvidence ev \<Rightarrow> ev_ReversesEventID ev = k \<and> k \<noteq> [] | _ \<Rightarrow> False)"

definition attempt_events :: "store \<Rightarrow> id \<Rightarrow> time \<Rightarrow> progress_event list" where
  "attempt_events s userID now =
    sort_key e_OccurredAt (filter (\<lambda>e. e_UserID e = userID \<and> e_OccurredAt e \<le> now \<and>
      attempt_type (e_Type e) \<and>
      \<not> (\<exists>r \<in> set (s_events s). e_UserID r = userID \<and> reverses r (e_ID e))) (s_events s))"

text \<open>The instant of the last attempt at each task; a task never tried has the zero time.\<close>

fun attempts_of_events :: "progress_event list \<Rightarrow> (id, time) gomap \<Rightarrow> (id, time) gomap" where
  "attempts_of_events [] m = m"
| "attempts_of_events (e # es) m =
    (case e_TaskID e of
       None \<Rightarrow> attempts_of_events es m
     | Some k \<Rightarrow> attempts_of_events es ((k, e_OccurredAt e) # m))"

fun attempts_of_sessions :: "work_session list \<Rightarrow> (id, time) gomap \<Rightarrow> (id, time) gomap" where
  "attempts_of_sessions [] m = m"
| "attempts_of_sessions (w # ws) m =
    (if w_StartedAt w > gomap_get 0 m (w_TaskID w)
     then attempts_of_sessions ws ((w_TaskID w, w_StartedAt w) # m)
     else attempts_of_sessions ws m)"

definition last_attempts :: "store \<Rightarrow> id \<Rightarrow> time \<Rightarrow> (id, time) gomap" where
  "last_attempts s userID now =
    attempts_of_sessions
      (filter (\<lambda>w. w_UserID w = userID \<and> w_StartedAt w \<le> now \<and> w_Status w \<noteq> ''invalidated'') (s_sessions s))
      (attempts_of_events (attempt_events s userID now) [])"

definition queue_before :: "(id, time) gomap \<Rightarrow> task \<Rightarrow> task \<Rightarrow> bool" where
  "queue_before attempts a b =
    (let aAt = gomap_get 0 attempts (t_ID a); bAt = gomap_get 0 attempts (t_ID b)
     in if aAt \<noteq> bAt then aAt < bAt
        else if t_Priority a \<noteq> t_Priority b then t_Priority a > t_Priority b
        else if t_Position a \<noteq> t_Position b then t_Position a < t_Position b
        else t_ID a < t_ID b)"

definition queue_key :: "(id, time) gomap \<Rightarrow> task \<Rightarrow> time \<times> int desc \<times> int \<times> string" where
  "queue_key attempts t =
    (gomap_get 0 attempts (t_ID t), Desc (t_Priority t), t_Position t, t_ID t)"

interpretation queue: key_comparator "queue_before attempts" "queue_key attempts" for attempts
  by unfold_locales (auto simp: queue_before_def queue_key_def Let_def)

definition planning_queue :: "(id, time) gomap \<Rightarrow> id set \<Rightarrow> task list \<Rightarrow> task list" where
  "planning_queue attempts assigned ts =
    slice_stable (queue_before attempts) (filter (\<lambda>t. t_ID t \<notin> assigned) ts)"

subsection \<open>Filling the vacancies\<close>

text \<open>The first element that satisfies a test, and the list without it.\<close>

fun pick :: "('a \<Rightarrow> bool) \<Rightarrow> 'a list \<Rightarrow> ('a \<times> 'a list) option" where
  "pick P [] = None"
| "pick P (x # xs) = (if P x then Some (x, xs) else map_option (\<lambda>(y, ys). (y, x # ys)) (pick P xs))"

definition reservation :: "id set \<Rightarrow> task_index \<Rightarrow> plan_item \<Rightarrow> bool" where
  "reservation protectedParents allByID i \<longleftrightarrow>
    i_Kind i = ''core'' \<and> i_Status i = ''planned'' \<and>
    (case i_TaskID i of
       None \<Rightarrow> False
     | Some k \<Rightarrow> \<not> taskDescendsFrom (gomap_get zero_task allByID k) protectedParents allByID)"

text \<open>The first reservation of the later days that may move forward, and those days without it.\<close>

fun take_reservation ::
    "id set \<Rightarrow> task_index \<Rightarrow> day_state list \<Rightarrow> (plan_item \<times> daily_plan \<times> day_state list) option" where
  "take_reservation protectedParents allByID [] = None"
| "take_reservation protectedParents allByID (day # days) =
    (if p_Status (d_Plan day) \<noteq> ''active'' \<or> d_Protected day
     then map_option (\<lambda>(i, p, ds). (i, p, day # ds)) (take_reservation protectedParents allByID days)
     else case pick (reservation protectedParents allByID) (d_Items day) of
       Some (i, rest) \<Rightarrow> Some (i, d_Plan day, day\<lparr>d_Items := rest, d_Changed := True\<rparr> # days)
     | None \<Rightarrow> map_option (\<lambda>(i, p, ds). (i, p, day # ds)) (take_reservation protectedParents allByID days))"

definition add_item :: "plan_item \<Rightarrow> string \<Rightarrow> day_state \<Rightarrow> day_state" where
  "add_item item source day =
    day\<lparr>d_Items := d_Items day @ [item], d_ItemSources := (i_ID item, source) # d_ItemSources day,
        d_Changed := True\<rparr>"

text \<open>
  The loop \<open>for remainingSlots > 0\<close> of one day; \<open>first\<close> is today, which respects the
  protected parents and may take reservations from the \<open>later\<close> days.
\<close>

fun fill_slots ::
    "env \<Rightarrow> schedule_call \<Rightarrow> id set \<Rightarrow> int \<Rightarrow> bool \<Rightarrow> nat \<Rightarrow> int \<Rightarrow> day_state \<Rightarrow> day_state list \<Rightarrow>
     task list \<Rightarrow> (day_state \<times> day_state list \<times> task list) tx" where
  "fill_slots en sc parents target first 0 position day later queue = tx_return (day, later, queue)"
| "fill_slots en sc parents target first (Suc n) position day later queue =
    (case pick (\<lambda>t. \<not> (first \<and> taskDescendsFrom t parents (sc_allByID sc))) queue of
       Some (t, rest) \<Rightarrow>
         tx_bind (newScheduledItem en (sc_userID sc) (p_ID (d_Plan day)) (p_CurrentRevision (d_Plan day))
             position (ps_DailyBudgetMinutes (sc_settings sc)) t) (\<lambda>item.
         fill_slots en sc parents target first n (position + 1)
           (add_item (item\<lparr>i_Commitment := dailyTaskCommitment t target, i_TargetMinutes := target\<rparr>)
              planItemSourceGenerated day) later rest)
     | None \<Rightarrow>
         if \<not> first then tx_return (day, later, queue)
         else case take_reservation parents (sc_allByID sc) later of
           None \<Rightarrow> tx_return (day, later, queue)
         | Some (reserved, plan, later') \<Rightarrow>
             tx_bind (tx_read (\<lambda>s. planItemScopeSourceTx s reserved)) (\<lambda>source.
             tx_bind (tx_try (\<lambda>s. refreshReservedTaskContentTx s plan (reserved\<lparr>i_TargetMinutes := target\<rparr>)
                 (gomap_get zero_task (sc_allByID sc) (the (i_TaskID reserved))))) (\<lambda>(promoted, _).
             tx_bind (NewID en ''dpi'') (\<lambda>k.
             fill_slots en sc parents target first n (position + 1)
               (add_item (promoted\<lparr>i_ID := k, i_LogicalID := k, i_PlanID := p_ID (d_Plan day),
                   i_PlanRevision := p_CurrentRevision (d_Plan day), i_Position := position,
                   i_Revision := 1, i_CreatedAt := env_now en, i_UpdatedAt := env_now en,
                   i_TargetMinutes := target\<rparr>) source day) later' queue))))"

definition next_position :: "plan_item list \<Rightarrow> int" where
  "next_position items =
    foldl (\<lambda>p i. if i_Kind i = ''core'' \<and> i_Position i \<ge> p then i_Position i + 1 else p) 1 items"

definition active_core :: "plan_item list \<Rightarrow> nat" where
  "active_core items = length (filter (\<lambda>i. i_Kind i = ''core'' \<and> \<not> withdrawn_core i) items)"

text \<open>The free slots of a day and the minutes of each.\<close>

definition day_slots :: "planning_settings \<Rightarrow> day_state \<Rightarrow> int \<times> int" where
  "day_slots settings day =
    (if d_AppendOnly day
     then (case remainingPlanBudget (d_Items day) (ps_DailyBudgetMinutes settings) of
             (_, slots, target) \<Rightarrow> (slots, target))
     else (planningSlots (ps_DailyBudgetMinutes settings) - int (core_count (d_Items day)),
           planningTargetMinutes (ps_DailyBudgetMinutes settings)))"

definition fill_skipped :: "bool \<Rightarrow> day_state \<Rightarrow> bool" where
  "fill_skipped first day \<longleftrightarrow>
    p_Status (d_Plan day) \<noteq> ''active'' \<or> first \<and> p_ManualItemsRemoved (d_Plan day) \<or>
    d_AppendOnly day \<and> core_count (d_Items day) > 0 \<and> active_core (d_Items day) = 0"

definition fill_day ::
    "env \<Rightarrow> schedule_call \<Rightarrow> id set \<Rightarrow> bool \<Rightarrow> day_state \<Rightarrow> day_state list \<Rightarrow> task list \<Rightarrow>
     (day_state \<times> day_state list \<times> task list) tx" where
  "fill_day en sc parents first day later queue =
    (if fill_skipped first day then tx_return (day, later, queue)
     else
       let (slots, target) = day_slots (sc_settings sc) day
       in tx_bind (fill_slots en sc parents target first (nat slots) (next_position (d_Items day)) day later queue)
         (\<lambda>(day', later', queue').
           tx_return
             (if first \<and> p_FrozenAt (d_Plan day') = None \<and> core_count (d_Items day') > 0
              then day'\<lparr>d_Plan := (d_Plan day')\<lparr>p_FrozenAt := Some (env_now en)\<rparr>, d_Changed := True\<rparr>
              else day', later', queue')))"

fun fill_later ::
    "env \<Rightarrow> schedule_call \<Rightarrow> day_state list \<Rightarrow> task list \<Rightarrow> day_state list tx" where
  "fill_later en sc [] queue = tx_return []"
| "fill_later en sc (day # days) queue =
    tx_bind (fill_day en sc {} False day [] queue) (\<lambda>(day', _, queue').
    tx_bind (fill_later en sc days queue') (\<lambda>days'. tx_return (day' # days')))"

fun fill_days ::
    "env \<Rightarrow> schedule_call \<Rightarrow> id set \<Rightarrow> day_state list \<Rightarrow> task list \<Rightarrow> day_state list tx" where
  "fill_days en sc parents [] queue = tx_return []"
| "fill_days en sc parents (day # days) queue =
    tx_bind (fill_day en sc parents True day days queue) (\<lambda>(day', days', queue').
    tx_bind (fill_later en sc days' queue') (\<lambda>days''. tx_return (day' # days'')))"

subsection \<open>Saving a day\<close>

definition schedule_input ::
    "planning_settings \<Rightarrow> daily_plan \<Rightarrow> bool \<Rightarrow> (id, string) gomap \<Rightarrow> plan_input" where
  "schedule_input settings plan appending sources =
    no_input\<lparr>in_Algorithm := ''deterministic-v3'', in_PrimaryGoalID := ps_PrimaryGoalID settings,
      in_BudgetMinutes := ps_DailyBudgetMinutes settings, in_LocalDate := p_LocalDate plan,
      in_AppendOnly := appending, in_ItemSources := sources\<rparr>"

definition record_schedule ::
    "env \<Rightarrow> daily_plan \<Rightarrow> plan_item list \<Rightarrow> plan_input \<Rightarrow> string \<Rightarrow> unit tx" where
  "record_schedule en plan items inp reason =
    tx_bind (NewID en ''planrev'') (\<lambda>k.
    tx_bind (create_revision \<lparr>r_ID = k, r_PlanID = p_ID plan, r_InputSnapshot = Some inp,
        r_InputHash = env_hash en inp, r_PlanSnapshot = Some (snapshot_items items),
        r_Reason = reason, r_Revision = p_CurrentRevision plan, r_CreatedAt = env_now en\<rparr>) (\<lambda>_.
    createOutbox en (p_UserID plan) ''daily_plan.scheduled''
      [(''plan_id'', PText (p_ID plan)), (''local_date'', PText (p_LocalDate plan))]))"

definition bump_plan :: "env \<Rightarrow> daily_plan \<Rightarrow> daily_plan" where
  "bump_plan en plan = plan\<lparr>p_CurrentRevision := p_CurrentRevision plan + 1,
     p_Revision := p_Revision plan + 1, p_UpdatedAt := env_now en\<rparr>"

text \<open>The columns both writes of a day update.\<close>

definition write_bumped :: "daily_plan \<Rightarrow> daily_plan \<Rightarrow> daily_plan" where
  "write_bumped plan p = p\<lparr>p_CurrentRevision := p_CurrentRevision plan, p_Revision := p_Revision plan,
     p_UpdatedAt := p_UpdatedAt plan, p_FrozenAt := p_FrozenAt plan\<rparr>"

text \<open>One item of an appended day: an existing row moves to the new revision, a new row is created.\<close>

definition append_item :: "daily_plan \<Rightarrow> int \<Rightarrow> plan_item \<Rightarrow> plan_item tx" where
  "append_item plan previous item =
    tx_bind (tx_read (\<lambda>s. rows_affected (\<lambda>i. i_ID i = i_ID item \<and> i_PlanID i = p_ID plan \<and>
      i_PlanRevision i = previous) (s_items s))) (\<lambda>count.
    let item' = item\<lparr>i_PlanRevision := p_CurrentRevision plan\<rparr>
    in if count = 1
       then tx_bind (update_item (i_ID item) (i_Revision item)
              (\<lambda>i. i\<lparr>i_PlanRevision := p_CurrentRevision plan\<rparr>)) (\<lambda>one.
            tx_bind (tx_check one ErrRevision) (\<lambda>_. tx_return item'))
       else tx_bind (create_item item') (\<lambda>_. tx_return item'))"

definition appendScheduleDayTx ::
    "env \<Rightarrow> planning_settings \<Rightarrow> day_state \<Rightarrow> day_state tx" where
  "appendScheduleDayTx en settings day =
    tx_bind (tx_read (\<lambda>s. scheduleItemSourcesTx s (schedule_day.truncate day))) (\<lambda>sources.
    let plan = bump_plan en (d_Plan day)
    in tx_bind (update_plan (p_ID plan) (p_Revision plan - 1) (write_bumped plan)) (\<lambda>one.
       tx_bind (tx_check one ErrRevision) (\<lambda>_.
       tx_bind (tx_map (append_item plan (p_CurrentRevision (d_Plan day))) (d_Items day)) (\<lambda>items.
       tx_bind (record_schedule en plan items (schedule_input settings plan True sources)
          (if d_Reason day = [] then ''fill daily vacancies'' else d_Reason day)) (\<lambda>_.
       tx_return (day\<lparr>d_Plan := plan, d_Items := items\<rparr>))))))"

text \<open>One item of a day written anew: its logical identity, and a fresh row when the day existed.\<close>

definition clone_item :: "env \<Rightarrow> daily_plan \<Rightarrow> bool \<Rightarrow> plan_item \<Rightarrow> plan_item tx" where
  "clone_item en plan exists_already item =
    tx_bind (tx_read (\<lambda>s. case i_TaskID item of
        None \<Rightarrow> logicalItemID item
      | Some k \<Rightarrow>
          let historical = historicalLogicalItemIDTx s (p_UserID plan) (p_ID plan) k
          in if historical \<noteq> [] then historical else logicalItemID item)) (\<lambda>logical.
    tx_bind (if exists_already then NewID en ''dpi'' else tx_return (i_ID item)) (\<lambda>k.
    tx_return (item\<lparr>i_ID := k, i_LogicalID := logical, i_PlanRevision := p_CurrentRevision plan,
      i_Revision := 1, i_CreatedAt := env_now en, i_UpdatedAt := env_now en\<rparr>)))"

definition supersede_open :: "env \<Rightarrow> daily_plan \<Rightarrow> store \<Rightarrow> store" where
  "supersede_open en plan s =
    s\<lparr>s_items := update_rows (\<lambda>i. i_PlanID i = p_ID plan \<and> i_PlanRevision i = p_CurrentRevision plan \<and>
        i_Status i \<noteq> ''satisfied'' \<and> i_Status i \<noteq> ''superseded'')
      (\<lambda>i. i\<lparr>i_Status := ''superseded'', i_Revision := i_Revision i + 1, i_UpdatedAt := env_now en\<rparr>) (s_items s)\<rparr>"

definition saveScheduleDayTx ::
    "env \<Rightarrow> planning_settings \<Rightarrow> bool \<Rightarrow> day_state \<Rightarrow> day_state tx" where
  "saveScheduleDayTx en settings exists_already day =
    tx_bind (tx_read (\<lambda>s. scheduleItemSourcesTx s (schedule_day.truncate day))) (\<lambda>sources.
    let plan = (if exists_already then bump_plan en (d_Plan day) else d_Plan day)
    in tx_bind
         (if exists_already
          then tx_bind (tx_write (supersede_open en (d_Plan day))) (\<lambda>_.
               tx_bind (update_plan (p_ID plan) (p_Revision plan - 1) (write_bumped plan)) (\<lambda>_. tx_return ()))
          else create_plan plan) (\<lambda>_.
       tx_bind (tx_map (clone_item en plan exists_already) (d_Items day)) (\<lambda>items.
       let cloned = rev (map (\<lambda>(old, i). (i_ID i, gomap_get [] sources (i_ID old))) (zip (d_Items day) items))
       in tx_bind (tx_each create_item items) (\<lambda>_.
          tx_bind (record_schedule en plan items (schedule_input settings plan False cloned)
             (if d_Reason day = [] then ''seven-day scheduling'' else d_Reason day)) (\<lambda>_.
          tx_return (day\<lparr>d_Plan := plan, d_Items := items\<rparr>))))))"

definition save_day :: "env \<Rightarrow> schedule_call \<Rightarrow> day_state \<Rightarrow> day_state tx" where
  "save_day en sc day =
    (if \<not> d_Changed day then tx_return day
     else
       let exists_already = (map_of (sc_byDate sc) (p_LocalDate (d_Plan day)) \<noteq> None)
       in if exists_already \<and> d_AppendOnly day
          then appendScheduleDayTx en (sc_settings sc) day
          else saveScheduleDayTx en (sc_settings sc) exists_already day)"

subsection \<open>The refresh\<close>

text \<open>The local dates of the seven days, as the code computes them from the first midnight.\<close>

definition schedule_dates :: "location \<Rightarrow> time \<Rightarrow> string list" where
  "schedule_dates loc st = map (\<lambda>d. format_local loc (add_date loc st (int d))) [0..<scheduleDays]"

definition plans_between :: "store \<Rightarrow> id \<Rightarrow> string \<Rightarrow> string \<Rightarrow> string \<Rightarrow> (string, daily_plan) gomap" where
  "plans_between s userID zone date last_date =
    rev (map (\<lambda>p. (p_LocalDate p, p)) (sort_key p_LocalDate (filter (\<lambda>p. p_UserID p = userID \<and>
      p_Timezone p = zone \<and> date \<le> p_LocalDate p \<and> p_LocalDate p \<le> last_date) (s_plans s))))"

definition refreshScheduleTx ::
    "env \<Rightarrow> user \<Rightarrow> string \<Rightarrow> location \<Rightarrow> string \<Rightarrow> (day_state \<times> availability) list tx" where
  "refreshScheduleTx en u date loc zone =
    (case parse_in_location date loc of
       None \<Rightarrow> tx_fail ErrValidation
     | Some st \<Rightarrow>
         tx_bind (tx_read (\<lambda>s. eligiblePlanningTasksTx s (u_ID u) [])) (\<lambda>(ts, settings).
         tx_bind (tx_write (close_past (u_ID u) zone date (env_now en))) (\<lambda>_.
         let dates = schedule_dates loc st in
         tx_bind (tx_read (\<lambda>s. \<lparr>sc_userID = u_ID u, sc_zone = zone,
             sc_today = format_local loc (env_now en), sc_settings = settings,
             sc_byTask = index_tasks ts, sc_allByID = planningTaskIndexTx s (u_ID u),
             sc_byDate = plans_between s (u_ID u) zone date (last dates)\<rparr>)) (\<lambda>sc.
         tx_bind (prepare_days en sc dates) (\<lambda>(days, parents, assigned).
         tx_bind (tx_read (\<lambda>s. planning_queue (last_attempts s (u_ID u) (env_now en)) assigned ts)) (\<lambda>queue.
         tx_bind (fill_days en sc parents days queue) (\<lambda>filled.
         tx_bind (tx_map (save_day en sc) filled) (\<lambda>saved.
         tx_map (\<lambda>day. tx_bind (tx_try (\<lambda>s. planningAvailabilityTx s (u_ID u) (d_Plan day) (d_Items day)))
           (\<lambda>a. tx_return (day, a))) saved))))))))"

definition EnsureDailyPlan ::
    "env \<Rightarrow> id \<Rightarrow> string \<Rightarrow> string \<Rightarrow> (daily_plan \<times> plan_item list) tx" where
  "EnsureDailyPlan en userID localDate timezone =
    tx_bind (tx_try (\<lambda>s. find_user s userID)) (\<lambda>u.
    let (loc, zone) = resolveZone (env_zones en) [timezone, u_Timezone u];
        date = (if localDate = [] then format_local loc (env_now en) else localDate)
    in tx_bind (tx_try (\<lambda>s. ParseDateInZone (env_zones en) date zone)) (\<lambda>_.
       tx_bind (refreshScheduleTx en u date loc zone) (\<lambda>days.
       tx_return (d_Plan (fst (hd days)), d_Items (fst (hd days))))))"

definition RefreshSchedule :: "env \<Rightarrow> id \<Rightarrow> (day_state \<times> availability) list tx" where
  "RefreshSchedule en userID =
    tx_bind (tx_try (\<lambda>s. find_user s userID)) (\<lambda>u.
    let (loc, zone) = resolveZone (env_zones en) [u_Timezone u]
    in refreshScheduleTx en u (format_local loc (env_now en)) loc zone)"

text \<open>
  \<open>MaintainSchedules\<close> refreshes each user in a transaction of its own and stops at the first
  error; what the earlier users' transactions wrote stays.
\<close>

definition maintained :: "store \<Rightarrow> user \<Rightarrow> bool" where
  "maintained s u \<longleftrightarrow> u_Status u = ''active'' \<and>
    ((\<exists>g \<in> set (s_goals s). g_UserID g = u_ID u \<and> g_Status g = ''active'' \<and> g_DeletedAt g = None) \<or>
     (\<exists>p \<in> set (s_plans s). p_UserID p = u_ID u \<and> p_Status p = ''active''))"

fun maintain_users :: "env \<Rightarrow> user list \<Rightarrow> store \<Rightarrow> app_error option \<times> store" where
  "maintain_users en [] s = (None, s)"
| "maintain_users en (u # us) s =
    (case RefreshSchedule en (u_ID u) s of
       Inl e \<Rightarrow> (Some e, s)
     | Inr (_, s') \<Rightarrow> maintain_users en us s')"

definition MaintainSchedules :: "env \<Rightarrow> store \<Rightarrow> app_error option \<times> store" where
  "MaintainSchedules en s = maintain_users en (filter (maintained s) (s_users s)) s"

end
