(* ===== verification/Sample_Data.thy ===== *)
theory Sample_Data
  imports Plan_Schedule
begin

text \<open>
  Small concrete rows, on which the witnesses of the properties evaluate the operations: a
  user, a goal, an action that can be done, a day, an item and an environment whose clock
  stands at second \<open>env_now\<close> and whose identifiers are \<open>u\<close> repeated.
\<close>

definition sample_env :: "time \<Rightarrow> env" where
  "sample_env now = \<lparr>env_now = now, env_uuid = (\<lambda>n. replicate (n + 1) CHR ''u''), env_hash = (\<lambda>_. ''h''),
     env_zones = (\<lambda>_. None)\<rparr>"

definition sample_user :: user where
  "sample_user = \<lparr>u_ID = ''usr'', u_Identifier = ''a'', u_PasswordHash = [], u_DisplayName = ''A'',
     u_Timezone = ''UTC'', u_Locale = ''en'', u_Role = ''user'', u_Status = ''active'', u_Revision = 1,
     u_CreatedAt = 0, u_UpdatedAt = 0\<rparr>"

definition sample_goal :: goal where
  "sample_goal = \<lparr>g_ID = ''goal'', g_UserID = ''usr'', g_Title = ''G'', g_Description = [],
     g_SuccessCriteria = ''done'', g_Status = ''active'', g_TargetDate = None, g_Revision = 1,
     g_CreatedAt = 0, g_UpdatedAt = 0, g_DeletedAt = None, g_DeletionID = []\<rparr>"

definition sample_task :: "id \<Rightarrow> task" where
  "sample_task k = zero_task\<lparr>t_ID := k, t_UserID := ''usr'', t_GoalID := ''goal'', t_Type := ''action'',
     t_Title := ''T'', t_Status := ''ready'', t_SuccessCriteria := ''done'', t_MinimumAction := ''start'',
     t_EstimateMinutes := 30, t_Revision := 1\<rparr>"

definition sample_plan :: daily_plan where
  "sample_plan = \<lparr>p_ID = ''plan'', p_UserID = ''usr'', p_LocalDate = ''2025-01-06'', p_Timezone = ''UTC'',
     p_Status = ''active'', p_AlgorithmVersion = ''deterministic-v3'', p_CurrentRevision = 1, p_Revision = 1,
     p_FrozenAt = None, p_ManualItemsRemoved = False, p_CreatedAt = 0, p_UpdatedAt = 0\<rparr>"

definition sample_item :: "id \<Rightarrow> id \<Rightarrow> plan_item" where
  "sample_item k t = \<lparr>i_ID = k, i_LogicalID = k, i_UserID = ''usr'', i_PlanID = ''plan'', i_TaskID = Some t,
     i_Kind = ''core'', i_Title = ''T'', i_Commitment = ''c'', i_MinimumAction = ''start'',
     i_AllowedTypes = [], i_Status = ''planned'', i_CompletionType = [], i_CompletionSummary = [],
     i_PlanRevision = 1, i_TargetMinutes = 30, i_Position = 1, i_Revision = 1, i_CreatedAt = 0,
     i_UpdatedAt = 0\<rparr>"

definition sample_settings :: planning_settings where
  "sample_settings = \<lparr>ps_UserID = ''usr'', ps_PrimaryGoalID = Some ''goal'',
     ps_ConfiguredPrimaryGoalID = None, ps_PrimaryGoalMode = ''auto'', ps_DailyBudgetMinutes = 120,
     ps_Revision = 1, ps_CreatedAt = 0, ps_UpdatedAt = 0\<rparr>"

definition sample_day :: day_state where
  "sample_day = \<lparr>d_Plan = sample_plan, d_Items = [], d_Reason = [], d_ItemSources = [],
     d_Changed = False, d_Protected = False, d_AppendOnly = False\<rparr>"

definition sample_call :: schedule_call where
  "sample_call = \<lparr>sc_userID = ''usr'', sc_zone = ''UTC'', sc_today = ''2025-01-06'',
     sc_settings = sample_settings, sc_byTask = [(''t1'', sample_task ''t1'')],
     sc_allByID = [(''t1'', sample_task ''t1'')], sc_byDate = []\<rparr>"

definition sample_store :: store where
  "sample_store = empty_store\<lparr>s_users := [sample_user], s_goals := [sample_goal],
     s_tasks := [sample_task ''t1'', sample_task ''t2''], s_settings := [sample_settings]\<rparr>"

lemmas sample_defs = sample_env_def sample_user_def sample_goal_def sample_task_def sample_plan_def
  sample_item_def sample_settings_def sample_day_def sample_call_def zero_task_def empty_store_def sample_store_def

end
