(* ===== verification/Schedule_Properties.thy ===== *)
theory Schedule_Properties
  imports Sample_Data
begin

text \<open>
  What the seven-day schedule guarantees: the queue is the fair order of the unassigned tasks,
  filling a day extends it without touching its items and within the budget, no task is lost or
  doubled on the way, and a finished past day is closed once.
\<close>

lemma newScheduledItem_Inr [go_simps]:
  "newScheduledItem en u p r pos b t s = Inr (i, s') \<longleftrightarrow>
     (\<exists>k. NewID en ''dpi'' s = Inr (k, s') \<and> i = scheduled_item k u p r pos b t (env_now en))"
  by (auto simp: newScheduledItem_def go_simps)

lemma refreshReserved_cases:
  assumes "refreshReservedTaskContentTx s plan item t = Inr (u, c)"
  obtains "u = item" | original inp where "u = follow_task item original inp t"
  using assms unfolding refreshReservedTaskContentTx_def Let_def
  by (auto split: if_split_asm sum.split_asm option.split_asm prod.split_asm)

lemma refreshReserved_keeps:
  assumes "refreshReservedTaskContentTx s plan item t = Inr (u, c)"
  shows "i_Kind u = i_Kind item \<and> i_TaskID u = i_TaskID item \<and> i_Status u = i_Status item \<and>
    i_TargetMinutes u = i_TargetMinutes item \<and> i_UserID u = i_UserID item \<and> i_ID u = i_ID item \<and>
    i_Position u = i_Position item"
  using assms by (rule refreshReserved_cases) (simp_all add: follow_task_def)

subsection \<open>The queue\<close>

lemma planning_queue_facts:
  "sorted (map (queue_key m) (planning_queue m a ts))"
  "mset (planning_queue m a ts) = mset (filter (\<lambda>t. t_ID t \<notin> a) ts)"
  by (simp_all add: planning_queue_def queue.slice_stable_sorted queue.slice_stable_mset)

subsection \<open>Tasks on the days\<close>

text \<open>The tasks of the core items of a day that were not skipped.\<close>

definition day_tasks :: "plan_item list \<Rightarrow> id list" where
  "day_tasks items =
    List.map_filter (\<lambda>i. if i_Kind i = ''core'' \<and> i_Status i \<noteq> ''skipped'' then i_TaskID i else None) items"

lemma day_tasks_simps [simp]:
  "day_tasks [] = []"
  "day_tasks (i # is) = (if i_Kind i = ''core'' \<and> i_Status i \<noteq> ''skipped'' then (case i_TaskID i of None \<Rightarrow> [] | Some k \<Rightarrow> [k]) else []) @ day_tasks is"
  "day_tasks (xs @ ys) = day_tasks xs @ day_tasks ys"
  by (auto simp: day_tasks_def map_filter_simps List.map_filter_def split: option.split)

definition week_tasks :: "day_state list \<Rightarrow> id list" where
  "week_tasks days = concat (map (\<lambda>d. day_tasks (d_Items d)) days)"

lemma week_tasks_simps [simp]:
  "week_tasks [] = []"
  "week_tasks (d # ds) = day_tasks (d_Items d) @ week_tasks ds"
  by (simp_all add: week_tasks_def)

lemma pick_Some: "pick P xs = Some (x, rest) \<Longrightarrow> P x \<and> mset xs = add_mset x (mset rest)"
  by (induction xs arbitrary: rest) (auto split: if_splits)

lemma pick_day_tasks:
  "pick P items = Some (i, rest) \<Longrightarrow> i_Kind i = ''core'' \<Longrightarrow> i_Status i = ''planned'' \<Longrightarrow> i_TaskID i = Some k \<Longrightarrow>
     mset (day_tasks items) = add_mset k (mset (day_tasks rest))"
  by (induction items arbitrary: rest) (auto split: if_splits option.splits)

lemma take_reservation_facts:
  assumes "take_reservation pp m days = Some (i, p, days')"
  shows "\<exists>k. i_Kind i = ''core'' \<and> i_Status i = ''planned'' \<and> i_TaskID i = Some k \<and>
    mset (week_tasks days) = add_mset k (mset (week_tasks days')) \<and>
    length days' = length days"
  using assms
proof (induction pp m days arbitrary: days' rule: take_reservation.induct)
  case (2 pp m day days)
  show ?case
  proof (cases "p_Status (d_Plan day) \<noteq> ''active'' \<or> d_Protected day \<or>
      pick (reservation pp m) (d_Items day) = None")
    case True
    with 2 obtain ds where "take_reservation pp m days = Some (i, p, ds)" "days' = day # ds"
      by (auto split: if_splits)
    with 2 True show ?thesis by (auto split: if_splits)
  next
    case False
    then obtain j rest where pick: "pick (reservation pp m) (d_Items day) = Some (j, rest)" by auto
    with False 2(3) have eq: "i = j" "days' = day\<lparr>d_Items := rest, d_Changed := True\<rparr> # days" by auto
    from pick_Some [OF pick] have "reservation pp m j" by simp
    then obtain k where k: "i_Kind j = ''core''" "i_Status j = ''planned''" "i_TaskID j = Some k"
      by (auto simp: reservation_def split: option.splits)
    from pick_day_tasks [OF pick k] eq k show ?thesis by auto
  qed
qed simp

subsection \<open>Filling a day\<close>

text \<open>What an item the loop adds looks like.\<close>

definition added_item :: "env \<Rightarrow> daily_plan \<Rightarrow> int \<Rightarrow> plan_item \<Rightarrow> bool" where
  "added_item en plan target i \<longleftrightarrow> i_Kind i = ''core'' \<and> i_TaskID i \<noteq> None \<and> i_Status i = ''planned'' \<and>
    i_PlanID i = p_ID plan \<and> i_PlanRevision i = p_CurrentRevision plan \<and> i_TargetMinutes i = target \<and>
    i_Revision i = 1 \<and> i_LogicalID i = i_ID i \<and> i_CreatedAt i = env_now en"

definition fill_result ::
    "env \<Rightarrow> (task \<Rightarrow> bool) \<Rightarrow> int \<Rightarrow> nat \<Rightarrow> int \<Rightarrow> day_state \<Rightarrow> day_state list \<Rightarrow> task list \<Rightarrow>
     day_state \<Rightarrow> day_state list \<Rightarrow> task list \<Rightarrow> bool" where
  "fill_result en usable target n position day later queue day' later' queue' \<longleftrightarrow>
    (\<exists>added. d_Items day' = d_Items day @ added \<and> length added \<le> n \<and>
       (length added = n \<or> (\<forall>t \<in> set queue'. \<not> usable t)) \<and>
       (\<forall>i \<in> set added. added_item en (d_Plan day) target i) \<and>
       map i_Position added = map (\<lambda>k. position + int k) [0..<length added] \<and>
       mset (day_tasks added) + mset (week_tasks later') + mset (map t_ID queue') =
         mset (week_tasks later) + mset (map t_ID queue)) \<and>
    d_Plan day' = d_Plan day \<and> d_AppendOnly day' = d_AppendOnly day \<and> d_Protected day' = d_Protected day \<and>
    d_Reason day' = d_Reason day \<and> length later' = length later"

lemma fill_result_none:
  "n = 0 \<or> (\<forall>t \<in> set queue. \<not> usable t) \<Longrightarrow> fill_result en usable target n position day later queue day later queue"
  unfolding fill_result_def by (auto intro!: exI [of _ "[]"])

lemma pick_None: "pick P xs = None \<Longrightarrow> \<forall>x \<in> set xs. \<not> P x"
  by (induction xs) (auto split: if_splits)

lemma fill_result_add:
  assumes rec: "fill_result en usable target n (position + 1) (add_item i source day) later1 queue1 day' later' queue'"
    and i: "added_item en (d_Plan day) target i" "i_Position i = position" "i_TaskID i = Some k"
    and tasks: "add_mset k (mset (week_tasks later1) + mset (map t_ID queue1)) =
      mset (week_tasks later) + mset (map t_ID queue)"
    and len: "length later1 = length later"
  shows "fill_result en usable target (Suc n) position day later queue day' later' queue'"
proof -
  from rec obtain added where added: "d_Items day' = (d_Items day @ [i]) @ added" "length added \<le> n"
    "length added = n \<or> (\<forall>t \<in> set queue'. \<not> usable t)"
    "\<forall>i \<in> set added. added_item en (d_Plan day) target i"
    "map i_Position added = map (\<lambda>k. position + 1 + int k) [0..<length added]"
    "mset (day_tasks added) + mset (week_tasks later') + mset (map t_ID queue') =
       mset (week_tasks later1) + mset (map t_ID queue1)"
    by (auto simp: fill_result_def add_item_def)
  have pos: "map i_Position (i # added) = map (\<lambda>k. position + int k) [0..<length (i # added)]"
    using added(5) i(2) by (simp add: upt_conv_Cons map_Suc_upt [symmetric] del: upt_Suc)
  have "mset (day_tasks (i # added)) + mset (week_tasks later') + mset (map t_ID queue') =
      mset (week_tasks later) + mset (map t_ID queue)"
    using added(6) i tasks by (simp add: added_item_def)
  moreover have "\<forall>j \<in> set (i # added). added_item en (d_Plan day) target j" using added(4) i(1) by simp
  moreover have "d_Items day' = d_Items day @ (i # added)" "length (i # added) \<le> Suc n"
    "length (i # added) = Suc n \<or> (\<forall>t \<in> set queue'. \<not> usable t)"
    using added(1-3) by simp_all
  ultimately show ?thesis
    using rec pos len unfolding fill_result_def by (auto simp: add_item_def intro!: exI [of _ "i # added"])
qed

lemma fill_slots_result:
  assumes "fill_slots en sc parents target first n position day later queue s = Inr ((day', later', queue'), s')"
  defines "usable \<equiv> \<lambda>t. \<not> (first \<and> taskDescendsFrom t parents (sc_allByID sc))"
  shows "fill_result en usable target n position day later queue day' later' queue' \<and>
    (\<exists>m. s' = s\<lparr>s_next := m\<rparr>)"
  using assms(1)
proof (induction n arbitrary: position day later queue s)
  case 0
  then show ?case
    by (auto simp: fill_result_none intro: exI [of _ "s_next s"])
next
  case (Suc n)
  show ?case
  proof (cases "pick usable queue")
    case (Some tr)
    then obtain t rest where pick: "pick usable queue = Some (t, rest)" by (cases tr) auto
    from Suc.prems pick [unfolded usable_def] obtain k s1 where
      rec: "fill_slots en sc parents target first n (position + 1)
        (add_item ((scheduled_item k (sc_userID sc) (p_ID (d_Plan day)) (p_CurrentRevision (d_Plan day)) position
            (ps_DailyBudgetMinutes (sc_settings sc)) t (env_now en))\<lparr>i_Commitment := dailyTaskCommitment t target,
            i_TargetMinutes := target\<rparr>) planItemSourceGenerated day) later rest s1 = Inr ((day', later', queue'), s')"
      and s1: "s1 = s\<lparr>s_next := s_next s + 1\<rparr>"
      by (auto simp: go_simps)
    from Suc.IH [OF rec] obtain m where
      r: "fill_result en usable target n (position + 1)
        (add_item ((scheduled_item k (sc_userID sc) (p_ID (d_Plan day)) (p_CurrentRevision (d_Plan day)) position
            (ps_DailyBudgetMinutes (sc_settings sc)) t (env_now en))\<lparr>i_Commitment := dailyTaskCommitment t target,
            i_TargetMinutes := target\<rparr>) planItemSourceGenerated day) later rest day' later' queue'"
      and m: "s' = s1\<lparr>s_next := m\<rparr>" by auto
    have "fill_result en usable target (Suc n) position day later queue day' later' queue'"
      using pick_Some [OF pick]
      by (intro fill_result_add [OF r, where k = "t_ID t"])
         (auto simp: added_item_def scheduled_item_def Let_def)
    with m s1 show ?thesis by auto
  next
    case None
    show ?thesis
    proof (cases "first \<and> take_reservation parents (sc_allByID sc) later \<noteq> None")
      case False
      then have "\<not> first \<or> take_reservation parents (sc_allByID sc) later = None" by blast
      then have "fill_slots en sc parents target first (Suc n) position day later queue s = Inr ((day, later, queue), s)"
        using None [unfolded usable_def] by (elim disjE) simp_all
      with Suc.prems pick_None [OF None] show ?thesis
        by (auto simp: fill_result_none intro: exI [of _ "s_next s"])
    next
      case True
      then obtain reserved plan later1 where
        res: "take_reservation parents (sc_allByID sc) later = Some (reserved, plan, later1)" by auto
      from Suc.prems None [unfolded usable_def] True res obtain u c k source s1 where
        ref: "refreshReservedTaskContentTx s plan (reserved\<lparr>i_TargetMinutes := target\<rparr>)
          (gomap_get zero_task (sc_allByID sc) (the (i_TaskID reserved))) = Inr (u, c)"
        and rec: "fill_slots en sc parents target first n (position + 1)
           (add_item (u\<lparr>i_ID := k, i_LogicalID := k, i_PlanID := p_ID (d_Plan day),
               i_PlanRevision := p_CurrentRevision (d_Plan day), i_Position := position,
               i_Revision := 1, i_CreatedAt := env_now en, i_UpdatedAt := env_now en,
               i_TargetMinutes := target\<rparr>) source day) later1 queue s1 = Inr ((day', later', queue'), s')"
        and s1: "s1 = s\<lparr>s_next := s_next s + 1\<rparr>"
        by (auto simp: go_simps split: if_splits)
      from Suc.IH [OF rec] obtain m where
        r: "fill_result en usable target n (position + 1)
           (add_item (u\<lparr>i_ID := k, i_LogicalID := k, i_PlanID := p_ID (d_Plan day),
               i_PlanRevision := p_CurrentRevision (d_Plan day), i_Position := position,
               i_Revision := 1, i_CreatedAt := env_now en, i_UpdatedAt := env_now en,
               i_TargetMinutes := target\<rparr>) source day) later1 queue day' later' queue'"
        and m: "s' = s1\<lparr>s_next := m\<rparr>" by auto
      from take_reservation_facts [OF res] obtain kt where
        kt: "i_Kind reserved = ''core''" "i_Status reserved = ''planned''" "i_TaskID reserved = Some kt"
        "mset (week_tasks later) = add_mset kt (mset (week_tasks later1))" "length later1 = length later" by auto
      have "fill_result en usable target (Suc n) position day later queue day' later' queue'"
        using kt refreshReserved_keeps [OF ref]
        by (intro fill_result_add [OF r, where k = kt]) (auto simp: added_item_def)
      with m s1 show ?thesis by auto
    qed
  qed
qed

lemma next_position_bound:
  "\<forall>i \<in> set items. i_Kind i = ''core'' \<longrightarrow> i_Position i < next_position items"
proof -
  have "\<forall>p. p \<le> foldl (\<lambda>p i. if i_Kind i = ''core'' \<and> i_Position i \<ge> p then i_Position i + 1 else p) p items \<and>
    (\<forall>i \<in> set items. i_Kind i = ''core'' \<longrightarrow>
       i_Position i < foldl (\<lambda>p i. if i_Kind i = ''core'' \<and> i_Position i \<ge> p then i_Position i + 1 else p) p items)"
  proof (induction items)
    case (Cons a items)
    show ?case
    proof (intro allI)
      fix p :: int
      let ?q = "if i_Kind a = ''core'' \<and> i_Position a \<ge> p then i_Position a + 1 else p"
      have "p \<le> ?q" "i_Kind a = ''core'' \<longrightarrow> i_Position a < ?q" by auto
      with Cons.IH [rule_format, of ?q] show "p \<le> foldl (\<lambda>p i. if i_Kind i = ''core'' \<and> i_Position i \<ge> p then i_Position i + 1 else p) p (a # items) \<and>
        (\<forall>i \<in> set (a # items). i_Kind i = ''core'' \<longrightarrow>
           i_Position i < foldl (\<lambda>p i. if i_Kind i = ''core'' \<and> i_Position i \<ge> p then i_Position i + 1 else p) p (a # items))"
        by auto
    qed
  qed simp
  then show ?thesis by (simp add: next_position_def)
qed

lemma core_minutes_added:
  "\<forall>i \<in> set added. added_item en plan target i \<Longrightarrow> 0 \<le> target \<Longrightarrow>
     core_minutes added = int (length added) * target \<and> core_count added = length added"
  by (induction added) (auto simp: core_minutes_def added_item_def algebra_simps)

lemma core_minutes_bounded:
  "\<forall>i \<in> set items. i_Kind i = ''core'' \<longrightarrow> i_TargetMinutes i \<le> target \<Longrightarrow> 0 \<le> target \<Longrightarrow>
     core_minutes items \<le> int (core_count items) * target"
  by (induction items) (auto simp: core_minutes_def algebra_simps max_def)

lemma fill_day_cases:
  assumes "fill_day en sc parents first day later queue s = Inr ((day', later', queue'), s')"
  defines "usable \<equiv> \<lambda>t. \<not> (first \<and> taskDescendsFrom t parents (sc_allByID sc))"
  obtains "fill_skipped first day" "day' = day" "later' = later" "queue' = queue" "s' = s"
  | slots target day1 where "\<not> fill_skipped first day" "day_slots (sc_settings sc) day = (slots, target)"
    "fill_result en usable target (nat slots) (next_position (d_Items day)) day later queue day1 later' queue'"
    "d_Items day' = d_Items day1" "\<exists>m. s' = s\<lparr>s_next := m\<rparr>"
proof (cases "fill_skipped first day")
  case True
  with assms(1) have same: "day' = day \<and> later' = later \<and> queue' = queue \<and> s' = s"
    by (auto simp: fill_day_def tx_return_def)
  show ?thesis by (rule that(1)) (use True same in simp_all)
next
  case False
  obtain slots target where slots: "day_slots (sc_settings sc) day = (slots, target)"
    by (cases "day_slots (sc_settings sc) day") auto
  have "\<exists>day1. fill_slots en sc parents target first (nat slots) (next_position (d_Items day)) day later queue s
      = Inr ((day1, later', queue'), s') \<and> d_Items day' = d_Items day1"
    using assms(1) False slots by (auto simp: fill_day_def go_simps split: if_splits)
  then obtain day1 where
    fill: "fill_slots en sc parents target first (nat slots) (next_position (d_Items day)) day later queue s
      = Inr ((day1, later', queue'), s')" and items: "d_Items day' = d_Items day1" by blast
  note result = fill_slots_result [OF fill, folded usable_def]
  show ?thesis by (rule that(2) [OF False slots conjunct1 [OF result] items conjunct2 [OF result]])
qed

lemma append_only_slots:
  assumes "remainingPlanBudget items b = (rest, slots, target)" and "30 \<le> b"
  shows "0 \<le> target" and "0 < slots \<Longrightarrow> int (core_count items) + slots \<le> 3"
    and "0 < slots \<Longrightarrow> core_minutes items + slots * target \<le> b"
proof -
  define q where "q = rest div slots"
  have b: "(if b = 0 then 120 else b) = b" using assms(2) by simp
  have "max 0 (b - core_minutes items) = rest" and
    "max 0 (min (3 - int (core_count items)) (max 0 (b - core_minutes items))) = slots" and
    "(if slots > 0 then rest div slots else 0) = target"
    using assms(1) unfolding remainingPlanBudget_eq Let_def b prod.inject by blast+
  then have all: "max 0 (b - core_minutes items) = rest \<and>
      max 0 (min (3 - int (core_count items)) rest) = slots \<and> (if slots > 0 then q else 0) = target"
    unfolding q_def by simp
  then have t: "target = (if slots > 0 then q else 0)" and
    rest: "rest = max 0 (b - core_minutes items)" and
    sl: "slots = max 0 (min (3 - int (core_count items)) rest)" by simp_all
  have "0 \<le> rest" using rest by simp
  then show "0 \<le> target" using t unfolding q_def by (auto simp: pos_imp_zdiv_nonneg_iff)
  show "int (core_count items) + slots \<le> 3" if "0 < slots" using sl that by linarith
  show "core_minutes items + slots * target \<le> b" if "0 < slots"
  proof -
    have "slots * q \<le> rest" unfolding q_def using div_times_le [of slots rest] that by (simp add: mult.commute)
    moreover have "0 < rest" using sl that by linarith
    ultimately show ?thesis using rest t that by auto
  qed
qed

lemma regular_slots:
  assumes "30 \<le> b" "b \<le> 480" and "target = planningTargetMinutes b" and "slots = 3 - int (core_count items)"
  shows "0 \<le> target"
    and "\<forall>i \<in> set items. i_Kind i = ''core'' \<longrightarrow> i_TargetMinutes i \<le> target \<Longrightarrow>
      core_minutes items + slots * target \<le> b"
proof -
  have tb: "0 \<le> target" "3 * target \<le> b" using planningTargetMinutes_bound [of b] assms by auto
  then show "0 \<le> target" by simp
  assume "\<forall>i \<in> set items. i_Kind i = ''core'' \<longrightarrow> i_TargetMinutes i \<le> target"
  with tb have "core_minutes items \<le> int (core_count items) * target"
    using core_minutes_bounded by blast
  moreover have "int (core_count items) * target + slots * target = 3 * target"
    by (simp add: assms(4) algebra_simps)
  ultimately show "core_minutes items + slots * target \<le> b" using tb by linarith
qed

lemma day_slots_fit:
  assumes "day_slots sc day = (slots, target)" and "30 \<le> ps_DailyBudgetMinutes sc" and "ps_DailyBudgetMinutes sc \<le> 480"
  shows "0 \<le> target" and "0 < slots \<Longrightarrow> int (core_count (d_Items day)) + slots \<le> 3"
    and "0 < slots \<Longrightarrow> d_AppendOnly day \<or> (\<forall>i \<in> set (d_Items day). i_Kind i = ''core'' \<longrightarrow>
        i_TargetMinutes i \<le> planningTargetMinutes (ps_DailyBudgetMinutes sc)) \<Longrightarrow>
      core_minutes (d_Items day) + slots * target \<le> ps_DailyBudgetMinutes sc"
proof -
  define b where "b = ps_DailyBudgetMinutes sc"
  have *: "0 \<le> target \<and> (0 < slots \<longrightarrow> int (core_count (d_Items day)) + slots \<le> 3) \<and>
    (0 < slots \<longrightarrow> d_AppendOnly day \<or> (\<forall>i \<in> set (d_Items day). i_Kind i = ''core'' \<longrightarrow>
        i_TargetMinutes i \<le> planningTargetMinutes b) \<longrightarrow> core_minutes (d_Items day) + slots * target \<le> b)"
  proof (cases "d_AppendOnly day")
    case True
    then obtain rest where "remainingPlanBudget (d_Items day) b = (rest, slots, target)"
      using assms(1) by (auto simp: day_slots_def b_def split: prod.splits)
    from append_only_slots [OF this assms(2) [folded b_def]] show ?thesis by blast
  next
    case False
    then have sl: "slots = 3 - int (core_count (d_Items day))" and t: "target = planningTargetMinutes b"
      using assms(1) by (auto simp: day_slots_def planningSlots_def b_def)
    have b: "30 \<le> b" "b \<le> 480" using assms(2,3) unfolding b_def .
    note r = regular_slots [OF b t sl]
    from r(1) show ?thesis using r(2) False t sl by auto
  qed
  then show "0 \<le> target" by blast
  from * show "int (core_count (d_Items day)) + slots \<le> 3" if "0 < slots" using that by blast
  from * show "core_minutes (d_Items day) + slots * target \<le> ps_DailyBudgetMinutes sc"
    if "0 < slots" "d_AppendOnly day \<or> (\<forall>i \<in> set (d_Items day). i_Kind i = ''core'' \<longrightarrow>
        i_TargetMinutes i \<le> planningTargetMinutes (ps_DailyBudgetMinutes sc))"
    using that unfolding b_def by blast
qed

text \<open>Filling the vacancies of a day, with a budget the settings allow: the items that were there stay as they are
  and in front, what is added are planned core items of this plan at fresh positions, at most
  three core items result unless there were more, and the promised minutes stay within the
  budget, for a day that may only be appended to and for a day whose items have at most the
  regular slice. The database is not touched, apart from the supply of identifiers.\<close>

theorem fill_day_fits_budget:
  assumes "fill_day en sc parents first day later queue s = Inr ((day', later', queue'), s')"
    and "30 \<le> ps_DailyBudgetMinutes (sc_settings sc)" and "ps_DailyBudgetMinutes (sc_settings sc) \<le> 480"
  shows "(\<exists>added. d_Items day' = d_Items day @ added \<and>
      (\<forall>i \<in> set added. i_Kind i = ''core'' \<and> i_Status i = ''planned'' \<and> i_TaskID i \<noteq> None \<and>
         i_PlanID i = p_ID (d_Plan day) \<and>
         (\<forall>j \<in> set (d_Items day). i_Kind j = ''core'' \<longrightarrow> i_Position j < i_Position i)) \<and>
      distinct (map i_Position added)) \<and>
    core_count (d_Items day') \<le> max 3 (core_count (d_Items day)) \<and>
    (d_AppendOnly day \<or> (\<forall>i \<in> set (d_Items day). i_Kind i = ''core'' \<longrightarrow>
         i_TargetMinutes i \<le> planningTargetMinutes (ps_DailyBudgetMinutes (sc_settings sc))) \<longrightarrow>
       core_minutes (d_Items day')
         \<le> max (ps_DailyBudgetMinutes (sc_settings sc)) (core_minutes (d_Items day))) \<and>
    (\<exists>m. s' = s\<lparr>s_next := m\<rparr>)"
  using assms(1)
proof (cases rule: fill_day_cases)
  case 1
  then show ?thesis by (auto intro: exI [of _ "s_next s"])
next
  case (2 slots target day1)
  let ?b = "ps_DailyBudgetMinutes (sc_settings sc)"
  let ?c = "core_count (d_Items day)" and ?m = "core_minutes (d_Items day)"
  from 2(3,4) obtain added where added: "d_Items day' = d_Items day @ added" "length added \<le> nat slots"
    "\<forall>i \<in> set added. added_item en (d_Plan day) target i"
    "map i_Position added = map (\<lambda>k. next_position (d_Items day) + int k) [0..<length added]"
    by (auto simp: fill_result_def)
  note slot = day_slots_fit [OF 2(2) assms(2,3)]
  note ca = core_minutes_added [OF added(3)]
  have none: "added = []" if "\<not> 0 < slots" using that added(2) by simp
  have len: "int (length added) \<le> slots" if "0 < slots" using added(2) that by linarith
  have "core_count (d_Items day') \<le> max 3 ?c"
  proof (cases "0 < slots")
    case True
    from ca [OF slot(1)] have "core_count (d_Items day') = ?c + length added" using added(1) by simp
    with slot(2) [OF True] len [OF True] have "int (core_count (d_Items day')) \<le> 3" by linarith
    then show ?thesis by linarith
  qed (simp add: none added(1))
  moreover have "core_minutes (d_Items day') \<le> max ?b ?m"
    if hyp: "d_AppendOnly day \<or> (\<forall>i \<in> set (d_Items day). i_Kind i = ''core'' \<longrightarrow>
         i_TargetMinutes i \<le> planningTargetMinutes ?b)"
  proof (cases "0 < slots")
    case True
    from len [OF True] slot(1) have "int (length added) * target \<le> slots * target"
      by (rule mult_right_mono)
    moreover from ca [OF slot(1)] have "core_minutes (d_Items day') = ?m + int (length added) * target"
      using added(1) by simp
    ultimately show ?thesis using slot(3) [OF True hyp] by linarith
  qed (simp add: none added(1))
  moreover have "\<forall>i \<in> set added. \<forall>j \<in> set (d_Items day). i_Kind j = ''core'' \<longrightarrow> i_Position j < i_Position i"
  proof (intro ballI impI)
    fix i j assume ij: "i \<in> set added" "j \<in> set (d_Items day)" "i_Kind j = ''core''"
    then have "i_Position i \<in> set (map i_Position added)" by auto
    then have "next_position (d_Items day) \<le> i_Position i" unfolding added(4) by auto
    moreover from ij(2,3) have "i_Position j < next_position (d_Items day)" using next_position_bound by blast
    ultimately show "i_Position j < i_Position i" by simp
  qed
  moreover have "distinct (map i_Position added)"
    unfolding added(4) by (auto simp: distinct_map inj_on_def)
  moreover have "\<forall>i \<in> set added. i_Kind i = ''core'' \<and> i_Status i = ''planned'' \<and> i_TaskID i \<noteq> None \<and>
         i_PlanID i = p_ID (d_Plan day)"
    using added(3) by (auto simp: added_item_def)
  ultimately show ?thesis using added(1) 2(5) by blast
qed

lemma sample_fill:
  "case fill_day (sample_env 5) sample_call {} True sample_day [] [sample_task ''t1''] empty_store of
     Inl _ \<Rightarrow> False | Inr ((day', _, _), _) \<Rightarrow> length (d_Items day') = 1 \<and> d_AppendOnly sample_day = False"
  by (simp add: fill_day_def fill_skipped_def day_slots_def sample_defs planningSlots_def planningTargetMinutes_def
      taskDescendsFrom_def descends_from.simps newScheduledItem_def tx_bind_def NewID_def next_position_def
      numeral_eq_Suc add_item_def)

theorem fill_day_fits_budget_witness:
  "case fill_day (sample_env 5) sample_call {} True sample_day [] [sample_task ''t1''] empty_store of
     Inl _ \<Rightarrow> False | Inr ((day', _, _), _) \<Rightarrow> length (d_Items day') = 1 \<and> core_minutes (d_Items day') \<le> 120"
proof -
  obtain day' later' queue' s' where run: "fill_day (sample_env 5) sample_call {} True sample_day []
      [sample_task ''t1''] empty_store = Inr ((day', later', queue'), s')" and one: "length (d_Items day') = 1"
    using sample_fill by (auto split: sum.splits prod.splits)
  have b: "30 \<le> ps_DailyBudgetMinutes (sc_settings sample_call)" "ps_DailyBudgetMinutes (sc_settings sample_call) \<le> 480"
    "ps_DailyBudgetMinutes (sc_settings sample_call) = 120"
    by (simp_all add: sample_defs)
  have none: "d_Items sample_day = []" by (simp add: sample_defs)
  have "core_minutes (d_Items day') \<le> 120"
    using fill_day_fits_budget [OF run b(1,2)] b(3) none by (simp add: core_minutes_def)
  with run one show ?thesis by simp
qed

subsection \<open>No task is lost or doubled\<close>

lemma fill_day_tasks:
  assumes "fill_day en sc parents first day later queue s = Inr ((day', later', queue'), s')"
  shows "mset (day_tasks (d_Items day')) + mset (week_tasks later') + mset (map t_ID queue') =
      mset (day_tasks (d_Items day)) + mset (week_tasks later) + mset (map t_ID queue)"
  using assms
proof (cases rule: fill_day_cases)
  case (2 slots target day1)
  from 2(3,4) obtain added where "d_Items day' = d_Items day @ added"
    "mset (day_tasks added) + mset (week_tasks later') + mset (map t_ID queue') =
       mset (week_tasks later) + mset (map t_ID queue)"
    by (auto simp: fill_result_def)
  then show ?thesis by (simp add: ac_simps)
qed simp

lemma fill_slots_queue:
  "fill_slots en sc parents target first n position day later queue s = Inr ((day', later', queue'), s') \<Longrightarrow>
    mset (map t_ID queue') \<subseteq># mset (map t_ID queue)"
proof (induction n arbitrary: first position day later queue s)
  case (Suc n)
  let ?P = "\<lambda>t. \<not> (first \<and> taskDescendsFrom t parents (sc_allByID sc))"
  show ?case
  proof (cases "pick ?P queue")
    case None
    with Suc.prems show ?thesis
      by (auto simp: go_simps split: if_splits option.splits dest!: Suc.IH)
  next
    case (Some tr)
    then obtain t rest where pick: "pick ?P queue = Some (t, rest)" by (cases tr) auto
    with Suc.prems have "mset (map t_ID queue') \<subseteq># mset (map t_ID rest)"
      by (auto simp: go_simps dest!: Suc.IH)
    moreover have "mset (map t_ID rest) \<subseteq># mset (map t_ID queue)"
      using pick_Some [OF pick] by simp
    ultimately show ?thesis by (rule subset_mset.order_trans)
  qed
qed simp

lemma fill_day_queue:
  "fill_day en sc parents first day later queue s = Inr ((day', later', queue'), s') \<Longrightarrow>
    mset (map t_ID queue') \<subseteq># mset (map t_ID queue)"
  by (auto simp: fill_day_def go_simps split: if_splits prod.splits dest!: fill_slots_queue)

lemma fill_day_later:
  assumes "fill_day en sc parents first day later queue s = Inr ((day', later', queue'), s')"
  shows "length later' = length later"
  using assms by (cases rule: fill_day_cases) (simp_all add: fill_result_def)

lemma mset_sub_distinct: "mset xs \<subseteq># mset ys \<Longrightarrow> distinct ys \<Longrightarrow> distinct xs"
proof -
  assume "mset xs \<subseteq># mset ys" "distinct ys"
  then have "count (mset xs) x \<le> (if x \<in> set ys then 1 else 0)" for x
    using distinct_count_atmost_1 [of ys] mset_subset_eq_count [of "mset xs" "mset ys" x] by metis
  moreover have "count (mset xs) x \<ge> 1" if "x \<in> set xs" for x using that by (simp add: Suc_le_eq)
  ultimately have "\<forall>x. count (mset xs) x = (if x \<in> set xs then 1 else 0)"
    by (metis count_mset_0_iff le_antisym le_zero_eq zero_le_one)
  then show "distinct xs" by (simp add: distinct_count_atmost_1)
qed

lemma mset_chain:
  fixes a :: "'a multiset"
  assumes "a + l = w + q'" and "d' + w + q' = d + w0 + q"
  shows "(d' + a) + l = (d + w0) + q"
  using assms by (metis add.assoc)

lemma fill_later_tasks:
  "fill_later en sc days queue s = Inr (days', s') \<Longrightarrow>
    \<exists>left. mset (week_tasks days') + left = mset (week_tasks days) + mset (map t_ID queue) \<and>
      left \<subseteq># mset (map t_ID queue)"
proof (induction days arbitrary: queue s days' s')
  case (Cons day days)
  from Cons.prems obtain day' x queue1 s1 ds where
    day: "fill_day en sc {} False day [] queue s = Inr ((day', x, queue1), s1)" and
    rest: "fill_later en sc days queue1 s1 = Inr (ds, s')" and eq: "days' = day' # ds"
    by (auto simp: go_simps)
  have x: "x = []" using fill_day_later [OF day] by simp
  from Cons.IH [OF rest] obtain left where left:
    "mset (week_tasks ds) + left = mset (week_tasks days) + mset (map t_ID queue1)" "left \<subseteq># mset (map t_ID queue1)"
    by blast
  from fill_day_tasks [OF day] x have d: "mset (day_tasks (d_Items day')) + mset (map t_ID queue1) =
    mset (day_tasks (d_Items day)) + mset (map t_ID queue)" by simp
  have "mset (week_tasks days') + left = mset (week_tasks (day # days)) + mset (map t_ID queue)"
    using mset_chain [OF left(1), of "mset (day_tasks (d_Items day'))" "mset (day_tasks (d_Items day))"
        "mset (week_tasks days)" "mset (map t_ID queue)"] d eq by (simp add: ac_simps)
  moreover have "left \<subseteq># mset (map t_ID queue)"
    using left(2) fill_day_queue [OF day] by (rule subset_mset.order_trans)
  ultimately show ?case by blast
qed simp

lemma fill_days_tasks:
  assumes "fill_days en sc parents days queue s = Inr (days', s')"
  shows "\<exists>left. mset (week_tasks days') + left = mset (week_tasks days) + mset (map t_ID queue) \<and>
      left \<subseteq># mset (map t_ID queue)"
proof (cases days)
  case (Cons day ds)
  with assms obtain day' later queue1 s1 ds' where
    day: "fill_day en sc parents True day ds queue s = Inr ((day', later, queue1), s1)" and
    rest: "fill_later en sc later queue1 s1 = Inr (ds', s')" and eq: "days' = day' # ds'"
    by (auto simp: go_simps)
  from fill_later_tasks [OF rest] obtain left where left:
    "mset (week_tasks ds') + left = mset (week_tasks later) + mset (map t_ID queue1)" "left \<subseteq># mset (map t_ID queue1)"
    by blast
  have "mset (week_tasks days') + left = mset (week_tasks days) + mset (map t_ID queue)"
    using mset_chain [OF left(1) fill_day_tasks [OF day]] eq Cons by simp
  moreover have "left \<subseteq># mset (map t_ID queue)"
    using left(2) fill_day_queue [OF day] by (rule subset_mset.order_trans)
  ultimately show ?thesis by blast
qed (use assms in simp)

lemma keep_items_day:
  assumes "keep_items s settings byTask frozen later plan items core assigned changed = Inr (kept, assigned', changed')"
  shows "(if frozen then kept = items \<and> assigned' = assigned \<union> set (day_tasks items)
     else distinct (day_tasks kept) \<and> set (day_tasks kept) \<inter> assigned = {} \<and>
       assigned \<union> set (day_tasks kept) \<subseteq> assigned')"
  using assms
proof (induction items arbitrary: core assigned changed kept assigned' changed')
  case (Cons item items)
  note IH = Cons.IH
  show ?case
  proof (cases "i_Kind item \<noteq> ''core'' \<or> frozen")
    case True
    then obtain ks where ks: "kept = item # ks" and rest: "keep_items s settings byTask frozen later plan items core
         (case i_TaskID item of
            Some k \<Rightarrow> if i_Kind item = ''core'' \<and> i_Status item \<noteq> ''skipped'' then insert k assigned else assigned
          | None \<Rightarrow> assigned) changed = Inr (ks, assigned', changed')"
      using Cons.prems by (auto simp: go_simps)
    show ?thesis
    proof (cases "i_Kind item = ''core'' \<and> i_Status item \<noteq> ''skipped'' \<and> i_TaskID item \<noteq> None")
      case core: True
      then obtain k where "i_TaskID item = Some k" by auto
      with IH [OF rest] ks core True show ?thesis by (cases frozen) auto
    next
      case False
      then have "day_tasks (item # xs) = day_tasks xs" for xs by (auto split: option.splits)
      moreover from False have "(case i_TaskID item of
            Some k \<Rightarrow> if i_Kind item = ''core'' \<and> i_Status item \<noteq> ''skipped'' then insert k assigned else assigned
          | None \<Rightarrow> assigned) = assigned" by (auto split: option.splits)
      ultimately show ?thesis using IH [OF rest] ks by (simp split: if_splits)
    qed
  next
    case False
    then have f: "\<not> frozen" "i_Kind item = ''core''" by simp_all
    show ?thesis
    proof (cases "i_TaskID item = None \<or> map_of byTask (the (i_TaskID item)) = None \<or>
        the (i_TaskID item) \<in> assigned \<or> core \<ge> planningSlots (ps_DailyBudgetMinutes settings)")
      case True
      then have "keep_items s settings byTask frozen later plan items core assigned True = Inr (kept, assigned', changed')"
        using Cons.prems f by (auto split: option.splits)
      from IH [OF this] f show ?thesis by simp
    next
      case False
      then obtain k t where kt: "i_TaskID item = Some k" "map_of byTask k = Some t" "k \<notin> assigned"
        "\<not> core \<ge> planningSlots (ps_DailyBudgetMinutes settings)" by auto
      then obtain u ks c where u: "kept = u # ks" "i_TaskID u = Some k" and
        rest: "keep_items s settings byTask frozen later plan items (core + 1) (insert k assigned) c
          = Inr (ks, assigned', changed')"
        using Cons.prems f
        by (auto simp: go_simps Let_def dest!: refreshReserved_keeps split: if_splits)
      from IH [OF rest] f have "distinct (day_tasks ks)" "set (day_tasks ks) \<inter> insert k assigned = {}"
        "insert k assigned \<union> set (day_tasks ks) \<subseteq> assigned'" by simp_all
      note ks = this
      have "day_tasks kept = day_tasks ks \<or> day_tasks kept = k # day_tasks ks" using u by simp
      then show ?thesis using ks f(1) kt(3) by (elim disjE) auto
    qed
  qed
qed auto

text \<open>The days of a week whose tasks are all accounted for.\<close>

definition week_accounted :: "id set \<Rightarrow> day_state list \<Rightarrow> id set \<Rightarrow> bool" where
  "week_accounted before days after \<longleftrightarrow>
    distinct (week_tasks days) \<and> set (week_tasks days) \<inter> before = {} \<and> before \<union> set (week_tasks days) \<subseteq> after"

lemma prepare_day_accounted:
  assumes "prepare_day en sc first date assigned s = Inr ((day, parents, assigned'), s')"
    and "p_Status (d_Plan day) = ''active''"
    and "d_AppendOnly day \<Longrightarrow> distinct (day_tasks (d_Items day)) \<and> set (day_tasks (d_Items day)) \<inter> assigned = {}"
  shows "week_accounted assigned [day] assigned'"
proof -
  obtain plan existing prot changed reason s1 where
    "keep_day sc first assigned plan existing prot changed reason s1 = Inr ((day, assigned'), s')"
    using assms(1) by (auto simp: prepare_day_def go_simps)
  then obtain kept changed' where
    "keep_items s1 (sc_settings sc) (sc_byTask sc) (first \<and> p_FrozenAt plan \<noteq> None \<or> prot) (\<not> first) plan
       existing 0 assigned changed = Inr (kept, assigned', changed')"
    "d_Items day = kept" "d_AppendOnly day = (first \<and> p_FrozenAt plan \<noteq> None \<or> prot)"
    using assms(2) by (auto simp: keep_day_def go_simps Let_def split: if_split_asm)
  with keep_items_day [OF this(1)] assms(3) show ?thesis
    by (auto simp: week_accounted_def split: if_splits)
qed

lemma prepare_later_accounted:
  assumes "prepare_later en sc dates assigned s = Inr ((days, assigned'), s')"
    and "\<forall>d \<in> set days. p_Status (d_Plan d) = ''active'' \<and> \<not> d_AppendOnly d"
  shows "week_accounted assigned days assigned'"
  using assms
proof (induction dates arbitrary: assigned s days)
  case Nil
  then show ?case by (auto simp: week_accounted_def)
next
  case (Cons date dates)
  then obtain day parents a1 s1 ds where
    day: "prepare_day en sc False date assigned s = Inr ((day, parents, a1), s1)" and
    rest: "prepare_later en sc dates a1 s1 = Inr ((ds, assigned'), s')" and eq: "days = day # ds"
    by (auto simp: go_simps)
  from prepare_day_accounted [OF day] Cons.prems(2) eq have "week_accounted assigned [day] a1" by simp
  moreover from Cons.IH [OF rest] Cons.prems(2) eq have "week_accounted a1 ds assigned'" by simp
  ultimately show ?case unfolding eq week_accounted_def by auto
qed


text \<open>Two empty days and four tasks: three for the first day and one for the second.\<close>

definition sample_week :: "(day_state list \<times> day_state list) tx" where
  "sample_week =
    tx_bind (prepare_days (sample_env 5) sample_call [''2025-01-06'', ''2025-01-07'']) (\<lambda>(days, parents, assigned).
    tx_bind (fill_days (sample_env 5) sample_call parents days
      (planning_queue [] assigned (map sample_task [''t1'', ''t2'', ''t3'', ''t4'']))) (\<lambda>filled.
    tx_return (days, filled)))"

lemma sample_week_run:
  "case sample_week empty_store of Inl _ \<Rightarrow> False | Inr ((days, filled), _) \<Rightarrow>
     (\<forall>d \<in> set days. p_Status (d_Plan d) = ''active'' \<and> \<not> d_AppendOnly d) \<and>
     map (\<lambda>d. day_tasks (d_Items d)) filled = [[''t1'', ''t2'', ''t3''], [''t4'']]"
  by code_simp


end
