(* ===== verification/Schedule_Dates.thy ===== *)
theory Schedule_Dates
  imports Sample_Data
begin

text \<open>
  Which dates a refresh works on: the requested one and the six that follow, when their local
  midnights exist; and what happens on a day whose midnight the local clock skips.
\<close>

lemma planning_queue_Nil [simp]: "planning_queue m a [] = []"
  by (simp add: planning_queue_def slice_stable_def)

subsection \<open>The dates of a week\<close>

text \<open>The refresh of a date works on that date and the six that follow it, in order and each once,
  when the local midnights of these days exist.\<close>

theorem schedule_dates_consecutive:
  assumes "parse_in_location (format_date n) loc = Some st" and "date_range n"
    and "\<forall>k \<in> {0..<int scheduleDays}. has_midnight loc (n + k)"
  shows "schedule_dates loc st = map (\<lambda>k. format_date (n + int k)) [0..<7]"
proof -
  have st: "st = time_date loc n 0"
    using assms(1) parse_format_date [OF assms(2)] by (simp add: parse_in_location_def)
  have "has_midnight loc n" using assms(3) by (auto simp: scheduleDays_def dest!: bspec [of _ _ 0])
  moreover have "has_midnight loc (n + int k)" if "k < scheduleDays" for k using assms(3) that by auto
  ultimately have "map (\<lambda>d. format_local loc (add_date loc st (int d))) [0..<scheduleDays] =
      map (\<lambda>k. format_date (n + int k)) [0..<scheduleDays]"
    by (intro map_cong refl) (simp add: st add_date_midnight format_local_midnight)
  then show ?thesis by (simp add: schedule_dates_def scheduleDays_def)
qed

theorem schedule_dates_consecutive_witness:
  "\<exists>st. parse_in_location ''2025-01-30'' (fixed_zone 28800) = Some st \<and>
     schedule_dates (fixed_zone 28800) st = [''2025-01-30'', ''2025-01-31'', ''2025-02-01'', ''2025-02-02'',
       ''2025-02-03'', ''2025-02-04'', ''2025-02-05'']"
proof -
  let ?n = "739280 :: int"
  have f: "format_date ?n = ''2025-01-30''" by code_simp
  have r: "date_range ?n" by code_simp
  from parse_format_date [OF r] obtain st where st: "parse_in_location (format_date ?n) (fixed_zone 28800) = Some st"
    by (simp add: parse_in_location_def)
  have "schedule_dates (fixed_zone 28800) st = map (\<lambda>k. format_date (?n + int k)) [0..<7]"
    by (rule schedule_dates_consecutive [OF st r]) (simp add: has_midnight_fixed)
  moreover have "map (\<lambda>k. format_date (?n + int k)) [0..<7] = [''2025-01-30'', ''2025-01-31'', ''2025-02-01'',
      ''2025-02-02'', ''2025-02-03'', ''2025-02-04'', ''2025-02-05'']" by code_simp
  ultimately show ?thesis using st f by metis
qed

text \<open>
  The clock of Santiago de Chile around 2025-09-07, where the local clock goes from 24:00 to
  01:00: four hours behind UTC before the change at 04:00 UTC, three hours after.
\<close>

definition gap_change :: int where
  "gap_change = civil_day 2025 9 7 * 86400 + 14400"

definition gap_zone :: location where
  "gap_zone = (\<lambda>t. if t < gap_change then (- 14400, - (2 ^ 63), gap_change) else (- 10800, gap_change, 2 ^ 63 - 1))"

definition gap_env :: env where
  "gap_env = (sample_env ((gap_change + 43200) * second))\<lparr>env_zones := (\<lambda>_. Some gap_zone)\<rparr>"

text \<open>The store of a user who has a plan for the day before.\<close>

definition gap_user :: user where
  "gap_user = sample_user\<lparr>u_Timezone := ''America/Santiago''\<rparr>"

definition gap_settings :: planning_settings where
  "gap_settings = sample_settings\<lparr>ps_PrimaryGoalID := None\<rparr>"

definition gap_store :: store where
  "gap_store = empty_store\<lparr>s_users := [gap_user],
     s_plans := [sample_plan\<lparr>p_LocalDate := ''2025-09-06'', p_Timezone := ''America/Santiago''\<rparr>],
     s_settings := [gap_settings]\<rparr>"

definition gap_closed :: store where
  "gap_closed = close_past ''usr'' ''America/Santiago'' ''2025-09-07'' (env_now gap_env) gap_store"

definition gap_dates :: "string list" where
  "gap_dates = [''2025-09-06'', ''2025-09-07'', ''2025-09-08'', ''2025-09-09'', ''2025-09-10'', ''2025-09-11'',
     ''2025-09-12'']"

definition gap_call :: schedule_call where
  "gap_call = \<lparr>sc_userID = ''usr'', sc_zone = ''America/Santiago'', sc_today = ''2025-09-07'',
     sc_settings = gap_settings, sc_byTask = [], sc_allByID = [], sc_byDate = []\<rparr>"

lemma gap_start:
  "parse_in_location ''2025-09-07'' gap_zone = Some 63892810800000000000" by code_simp

lemma gap_formats:
  "format_local gap_zone (add_date gap_zone 63892810800000000000 0) = ''2025-09-06''"
  "format_local gap_zone (add_date gap_zone 63892810800000000000 1) = ''2025-09-07''"
  "format_local gap_zone (add_date gap_zone 63892810800000000000 2) = ''2025-09-08''"
  "format_local gap_zone (add_date gap_zone 63892810800000000000 3) = ''2025-09-09''"
  "format_local gap_zone (add_date gap_zone 63892810800000000000 4) = ''2025-09-10''"
  "format_local gap_zone (add_date gap_zone 63892810800000000000 5) = ''2025-09-11''"
  "format_local gap_zone (add_date gap_zone 63892810800000000000 6) = ''2025-09-12''"
  by code_simp+

lemma gap_schedule_dates: "schedule_dates gap_zone 63892810800000000000 = gap_dates"
  by (simp add: schedule_dates_def scheduleDays_def gap_dates_def upt_rec gap_formats)

lemma gap_reads:
  "find_user gap_store ''usr'' = Inr gap_user"
  "resolveZone (env_zones gap_env) [u_Timezone gap_user] = (gap_zone, ''America/Santiago'')"
  "format_local gap_zone (env_now gap_env) = ''2025-09-07''"
  "eligiblePlanningTasksTx gap_store ''usr'' [] = ([], gap_settings)"
  "u_ID gap_user = ''usr''"
  by (simp add: gap_store_def gap_user_def find_user_def sample_user_def,
      simp add: gap_env_def gap_user_def trim_eval, code_simp, code_simp, simp add: gap_user_def sample_user_def)

lemma gap_call_read:
  "\<lparr>sc_userID = ''usr'', sc_zone = ''America/Santiago'', sc_today = ''2025-09-07'', sc_settings = gap_settings,
     sc_byTask = index_tasks [], sc_allByID = planningTaskIndexTx gap_closed ''usr'',
     sc_byDate = plans_between gap_closed ''usr'' ''America/Santiago'' ''2025-09-07'' (last gap_dates)\<rparr> = gap_call"
proof -
  have "index_tasks [] = []" and "planningTaskIndexTx gap_closed ''usr'' = []" by code_simp+
  moreover have "plans_between gap_closed ''usr'' ''America/Santiago'' ''2025-09-07'' (last gap_dates) = []" by code_simp
  ultimately show ?thesis by (simp add: gap_call_def)
qed

lemma gap_run:
  "case tx_bind (prepare_days gap_env gap_call gap_dates) (\<lambda>(days, parents, assigned).
     tx_bind (fill_days gap_env gap_call parents days []) (tx_map (save_day gap_env gap_call))) gap_closed of
   Inr _ \<Rightarrow> False | Inl e \<Rightarrow> e = ErrUnique"
  by code_simp


end
