(* ===== verification/Field_Rules.thy ===== *)
theory Field_Rules
  imports Task_Store Complex_Main
begin

text \<open>
  The checks on the fields of goals and tasks (\<open>application/lifecycle.go\<close>) and on lists of
  prerequisites (\<open>application/taskdependency_patch.go\<close>). A change set is a Go map to values of
  type \<open>any\<close>: the dynamic types the code distinguishes are the constructors of \<open>any_value\<close>; a
  finite \<open>float64\<close> is the rational it stands for.
\<close>

datatype any_value =
    AnyNil
  | AnyString string
  | AnyInt int
  | AnyInt64 int
  | AnyFloat rat
  | AnyNaN
  | AnyBool bool
  | AnyStrings "string list"
  | AnyList "any_value list"
  | AnyMap "(string \<times> any_value) list"

type_synonym changes = "(string, any_value) gomap"

subsection \<open>Counting runes\<close>

definition byte_value :: "char \<Rightarrow> nat" where
  "byte_value c = of_char c"

definition continuation :: "nat \<Rightarrow> nat \<Rightarrow> char \<Rightarrow> bool" where
  "continuation lo hi c \<longleftrightarrow> lo \<le> byte_value c \<and> byte_value c \<le> hi"

text \<open>
  The width of the rune at the head of a byte string, 1 for a byte that starts no valid encoding:
  the table of \<open>unicode/utf8\<close>.
\<close>

definition rune_width :: "char \<Rightarrow> string \<Rightarrow> nat" where
  "rune_width c cs =
    (let b = byte_value c;
         two = (case cs of x # _ \<Rightarrow> continuation 0x80 0xBF x | _ \<Rightarrow> False);
         three = (\<lambda>lo hi. case cs of x # y # _ \<Rightarrow> continuation lo hi x \<and> continuation 0x80 0xBF y | _ \<Rightarrow> False);
         four = (\<lambda>lo hi. case cs of x # y # z # _ \<Rightarrow>
           continuation lo hi x \<and> continuation 0x80 0xBF y \<and> continuation 0x80 0xBF z | _ \<Rightarrow> False)
     in if 0xC2 \<le> b \<and> b \<le> 0xDF then (if two then 2 else 1)
        else if b = 0xE0 then (if three 0xA0 0xBF then 3 else 1)
        else if b = 0xED then (if three 0x80 0x9F then 3 else 1)
        else if 0xE1 \<le> b \<and> b \<le> 0xEF then (if three 0x80 0xBF then 3 else 1)
        else if b = 0xF0 then (if four 0x90 0xBF then 4 else 1)
        else if 0xF1 \<le> b \<and> b \<le> 0xF3 then (if four 0x80 0xBF then 4 else 1)
        else if b = 0xF4 then (if four 0x80 0x8F then 4 else 1)
        else 1)"

function rune_count :: "string \<Rightarrow> nat" where
  "rune_count [] = 0"
| "rune_count (c # cs) = Suc (rune_count (drop (rune_width c cs - 1) cs))"
  by pat_completeness auto
termination
  by (relation "measure length") auto

text \<open>The first \<open>n\<close> runes as \<open>string([]rune)\<close> writes them: a byte that starts no valid encoding becomes U+FFFD.\<close>

function take_runes :: "nat \<Rightarrow> string \<Rightarrow> string" where
  "take_runes n s =
    (case s of
       [] \<Rightarrow> []
     | c # cs \<Rightarrow> (if n = 0 then []
         else (let w = rune_width c cs
               in (if w = 1 \<and> byte_value c \<ge> 0x80 then [CHR 0xEF, CHR 0xBF, CHR 0xBD] else c # take (w - 1) cs) @
                  take_runes (n - 1) (drop (w - 1) cs))))"
  by pat_completeness auto
termination
  by (relation "measure (\<lambda>(n, s). length s)") auto

declare take_runes.simps [simp del]

definition ellipsis :: string where
  "ellipsis = [CHR 0xE2, CHR 0x80, CHR 0xA6]"

lemma rune_count_le: "rune_count s \<le> length s"
proof (induction s rule: rune_count.induct)
  case (2 c cs)
  have "rune_count (drop (rune_width c cs - 1) cs) \<le> length cs"
    using 2 by simp
  then show ?case by simp
qed simp

text \<open>The cut at the limit, moved back to the start of a rune.\<close>

fun rune_boundary :: "string \<Rightarrow> nat \<Rightarrow> nat" where
  "rune_boundary s 0 = 0"
| "rune_boundary s (Suc n) = (if continuation 0x80 0xBF (s ! Suc n) then rune_boundary s n else Suc n)"

subsection \<open>Fields of goals and tasks\<close>

definition trim_goal :: "goal \<Rightarrow> goal" where
  "trim_goal g = g\<lparr>g_Title := trim_space (g_Title g), g_Description := trim_space (g_Description g),
     g_SuccessCriteria := trim_space (g_SuccessCriteria g)\<rparr>"

definition validateGoalFields :: "goal \<Rightarrow> goal result" where
  "validateGoalFields goal =
    (let g = trim_goal goal
     in if g_Title g = [] \<or> rune_count (g_Title g) > 200 \<or> g_SuccessCriteria g = [] \<or>
           rune_count (g_SuccessCriteria g) > 2000 \<or> rune_count (g_Description g) > 4000
        then Inl ErrValidation
        else case g_TargetDate g of
          None \<Rightarrow> Inr g
        | Some d \<Rightarrow>
            (let date = trim_space d
             in if parse_date date = None then Inl ErrValidation
                else Inr (g\<lparr>g_TargetDate := Some date\<rparr>)))"

definition trim_task :: "task \<Rightarrow> task" where
  "trim_task t = t\<lparr>t_Type := trim_space (t_Type t), t_Title := trim_space (t_Title t),
     t_Description := trim_space (t_Description t), t_SuccessCriteria := trim_space (t_SuccessCriteria t),
     t_MinimumAction := trim_space (t_MinimumAction t), t_BlockedReason := trim_space (t_BlockedReason t)\<rparr>"

definition validateTaskFields :: "task \<Rightarrow> task result" where
  "validateTaskFields task =
    (let t = trim_task task
     in if (t_Type t \<noteq> ''milestone'' \<and> t_Type t \<noteq> ''task'' \<and> t_Type t \<noteq> ''action'') \<or>
           t_Title t = [] \<or> rune_count (t_Title t) > 300 \<or> t_SuccessCriteria t = [] \<or>
           rune_count (t_SuccessCriteria t) > 2000 \<or> t_MinimumAction t = [] \<or>
           rune_count (t_MinimumAction t) > 2000 \<or> rune_count (t_Description t) > 8000 \<or>
           rune_count (t_BlockedReason t) > 2000 \<or> t_Priority t < 0 \<or> t_Priority t > 100 \<or>
           t_EstimateMinutes t < 1 \<or> t_EstimateMinutes t > 1440 \<or> t_Position t < 0
        then Inl ErrValidation else Inr t)"

subsection \<open>Change sets\<close>

definition changeText :: "changes \<Rightarrow> string \<Rightarrow> string \<Rightarrow> string result" where
  "changeText changes key destination =
    (case map_of changes key of
       None \<Rightarrow> Inr destination
     | Some (AnyString s) \<Rightarrow> Inr (trim_space s)
     | Some _ \<Rightarrow> Inl ErrValidation)"

definition changeInt :: "changes \<Rightarrow> string \<Rightarrow> int \<Rightarrow> int result" where
  "changeInt changes key destination =
    (case map_of changes key of
       None \<Rightarrow> Inr destination
     | Some (AnyInt n) \<Rightarrow> Inr n
     | Some (AnyInt64 n) \<Rightarrow> Inr n
     | Some (AnyFloat q) \<Rightarrow>
         if of_int \<lfloor>q\<rfloor> \<noteq> q \<or> q < 0 \<or> q > of_int (2 ^ 31 - 1) then Inl ErrValidation else Inr \<lfloor>q\<rfloor>
     | Some _ \<Rightarrow> Inl ErrValidation)"

definition keys_allowed :: "string list \<Rightarrow> changes \<Rightarrow> bool" where
  "keys_allowed allowed changes \<longleftrightarrow> list_all (\<lambda>(k, _). k \<in> set allowed) changes"

subsection \<open>Lists of prerequisites\<close>

fun any_strings :: "any_value list \<Rightarrow> string list result" where
  "any_strings [] = Inr []"
| "any_strings (v # vs) =
    (case v of
       AnyString s \<Rightarrow> bind_r (any_strings vs) (\<lambda>ss. Inr (s # ss))
     | _ \<Rightarrow> Inl ErrValidation)"

fun collect_ids :: "string list \<Rightarrow> id list \<Rightarrow> id list \<Rightarrow> id list result" where
  "collect_ids [] result seen = Inr result"
| "collect_ids (value # values) result seen =
    (let k = trim_space value
     in if k = [] \<or> length k > 200 then Inl ErrValidation
        else if k \<in> set seen then collect_ids values result seen
        else collect_ids values (result @ [k]) (k # seen))"

definition taskDependencyList :: "any_value \<Rightarrow> id list result" where
  "taskDependencyList raw =
    bind_r (case raw of
              AnyStrings values \<Rightarrow> Inr values
            | AnyList entries \<Rightarrow> any_strings entries
            | _ \<Rightarrow> Inl ErrValidation)
      (\<lambda>values. if length values > 40 then Inl ErrValidation else collect_ids values [] [])"

fun resolve_refs :: "(string, id) gomap \<Rightarrow> string list \<Rightarrow> id list result" where
  "resolve_refs refs [] = Inr []"
| "resolve_refs refs (name # names) =
    (case map_of refs name of
       None \<Rightarrow> Inl ErrValidation
     | Some k \<Rightarrow> bind_r (resolve_refs refs names) (\<lambda>ks. Inr (k # ks)))"

definition taskDependenciesFromPatch ::
    "changes \<Rightarrow> (string, id) gomap \<Rightarrow> (id list \<times> bool) result" where
  "taskDependenciesFromPatch patch refs =
    bind_r (case map_of patch ''depends_on'' of
              None \<Rightarrow> Inr ([], False)
            | Some raw \<Rightarrow> bind_r (taskDependencyList raw) (\<lambda>ids. Inr (ids, True))) (\<lambda>(ids, changed).
    bind_r (case map_of patch ''depends_on_refs'' of
              None \<Rightarrow> Inr (ids, changed)
            | Some raw \<Rightarrow> bind_r (taskDependencyList raw) (\<lambda>names.
                bind_r (resolve_refs refs names) (\<lambda>ks. Inr (ids @ ks, True)))) (\<lambda>(ids, changed).
    if \<not> changed then Inr (ids, False)
    else bind_r (taskDependencyList (AnyStrings ids)) (\<lambda>ids. Inr (ids, True))))"

end
