(* ===== verification/Plan_Commands.thy ===== *)
theory Plan_Commands
  imports Plan_Schedule
begin

text \<open>
  The explicit commands on a daily plan: \<open>CreateDailyPlan\<close>, \<open>ReplanDailyPlan\<close>,
  \<open>CloseDailyPlan\<close> and \<open>AddPlanItem\<close> of \<open>application/app.go\<close> and \<open>DeletePlanItems\<close> of
  \<open>application/plandelete.go\<close>, each with every guard and write of its transaction.
\<close>

definition record_revision ::
    "env \<Rightarrow> id \<Rightarrow> int \<Rightarrow> plan_input \<Rightarrow> plan_item list \<Rightarrow> string \<Rightarrow> unit tx" where
  "record_revision en planID revision inp items reason =
    tx_bind (NewID en ''planrev'') (\<lambda>k.
    create_revision \<lparr>r_ID = k, r_PlanID = planID, r_InputSnapshot = Some inp,
      r_InputHash = env_hash en inp, r_PlanSnapshot = Some (snapshot_items items),
      r_Reason = reason, r_Revision = revision, r_CreatedAt = env_now en\<rparr>)"

text \<open>A \<open>tx.Create\<close> of a plan whose violated uniqueness is reported as a conflict.\<close>

definition create_plan_or_conflict :: "daily_plan \<Rightarrow> unit tx" where
  "create_plan_or_conflict plan s =
    (case create_plan plan s of Inl ErrUnique \<Rightarrow> Inl ErrConflict | r \<Rightarrow> r)"

subsection \<open>Creating a plan\<close>

text \<open>The items of the selected candidates, at consecutive positions.\<close>

fun scheduled_items ::
    "env \<Rightarrow> id \<Rightarrow> id \<Rightarrow> int \<Rightarrow> int \<Rightarrow> int \<Rightarrow> task_index \<Rightarrow> candidate list \<Rightarrow> plan_item list tx" where
  "scheduled_items en userID planID revision position budget byID [] = tx_return []"
| "scheduled_items en userID planID revision position budget byID (c # cs) =
    tx_bind (newScheduledItem en userID planID revision position budget (gomap_get zero_task byID (c_ID c))) (\<lambda>item.
    tx_bind (scheduled_items en userID planID revision (position + 1) budget byID cs) (\<lambda>items.
    tx_return (item # items)))"

definition CreateDailyPlan ::
    "env \<Rightarrow> id \<Rightarrow> string \<Rightarrow> string \<Rightarrow> id list \<Rightarrow> int \<Rightarrow> (daily_plan \<times> plan_item list) tx" where
  "CreateDailyPlan en userID localDate timezone taskIDs available =
    tx_bind (tx_try (\<lambda>s. ParseDateInZone (env_zones en) localDate timezone)) (\<lambda>_.
    tx_bind (tx_read (\<lambda>s. eligiblePlanningTasksTx s userID taskIDs)) (\<lambda>(ts, settings).
    tx_bind (tx_check (\<not> (taskIDs \<noteq> [] \<and> ts = [])) ErrValidation) (\<lambda>_.
    tx_bind (tx_try (\<lambda>s. resolvePlanningBudget available settings)) (\<lambda>resolved.
    let selected = take (nat (planningSlots resolved)) (SelectDailyCandidates (candidatesForTasks ts) resolved)
    in tx_bind (NewID en ''plan'') (\<lambda>planID.
       let today = format_local (the (env_zones en timezone)) (env_now en);
           plan = (new_plan planID userID localDate timezone (env_now en))\<lparr>
             p_AlgorithmVersion := ''deterministic-v1'',
             p_FrozenAt := (if localDate \<le> today \<and> selected \<noteq> [] then Some (env_now en) else None)\<rparr>;
           inp = no_input\<lparr>in_TaskIDs := taskIDs, in_AvailableMinutes := resolved,
             in_Algorithm := ''deterministic-v1''\<rparr>
       in tx_bind (scheduled_items en userID planID 1 1 resolved (index_tasks ts) selected) (\<lambda>items.
          tx_bind (create_plan_or_conflict plan) (\<lambda>_.
          tx_bind (tx_each create_item items) (\<lambda>_.
          tx_bind (record_revision en planID 1 inp items ''initial generation'') (\<lambda>_.
          tx_bind (createOutbox en userID ''daily_plan.created'' [(''plan_id'', PText planID)]) (\<lambda>_.
          tx_return (plan, items)))))))))))"

subsection \<open>Replanning a day\<close>

definition plan_items_by_position :: "store \<Rightarrow> daily_plan \<Rightarrow> plan_item list" where
  "plan_items_by_position s plan = sort_key (\<lambda>i. (i_Position i, i_ID i)) (current_items s plan)"

text \<open>
  The loop over the old items: a protected item that is retained gets a copy in the new revision,
  a protected one that is not stays where it is, every other item is superseded.
\<close>

fun replan_items ::
    "env \<Rightarrow> id \<Rightarrow> daily_plan \<Rightarrow> int \<Rightarrow> id set \<Rightarrow> plan_item list \<Rightarrow> plan_item list tx" where
  "replan_items en userID plan newRevision protected [] = tx_return []"
| "replan_items en userID plan newRevision protected (item # items) =
    (if i_ID item \<in> protected then
       tx_bind (tx_read (\<lambda>s. retainProtectedItemForReplanTx s userID plan item)) (\<lambda>retained.
       if retained then
         tx_bind (NewID en ''dpi'') (\<lambda>k.
         tx_bind (replan_items en userID plan newRevision protected items) (\<lambda>kept.
         tx_return (item\<lparr>i_LogicalID := logicalItemID item, i_ID := k, i_PlanRevision := newRevision,
           i_Revision := 1, i_CreatedAt := env_now en, i_UpdatedAt := env_now en\<rparr> # kept)))
       else replan_items en userID plan newRevision protected items)
     else
       tx_bind (update_item (i_ID item) (i_Revision item)
         (\<lambda>i. i\<lparr>i_Status := ''superseded'', i_Revision := i_Revision item + 1, i_UpdatedAt := env_now en\<rparr>)) (\<lambda>_.
       replan_items en userID plan newRevision protected items))"

text \<open>The map \<open>logicalByTask\<close> that loop fills: a later item of a task replaces an earlier one.\<close>

definition logical_by_task :: "plan_item list \<Rightarrow> (id, id) gomap" where
  "logical_by_task items =
    rev (List.map_filter (\<lambda>i. map_option (\<lambda>k. (k, logicalItemID i)) (i_TaskID i)) items)"

fun replanned_items ::
    "env \<Rightarrow> id \<Rightarrow> id \<Rightarrow> int \<Rightarrow> int \<Rightarrow> int \<Rightarrow> int \<Rightarrow> (id, id) gomap \<Rightarrow> task_index \<Rightarrow> candidate list \<Rightarrow>
     plan_item list tx" where
  "replanned_items en userID planID newRevision position budget target logical byID [] = tx_return []"
| "replanned_items en userID planID newRevision position budget target logical byID (c # cs) =
    (let t = gomap_get zero_task byID (c_ID c)
     in tx_bind (newScheduledItem en userID planID newRevision position budget t) (\<lambda>item.
        tx_bind (tx_read (\<lambda>s.
          let known = gomap_get [] logical (t_ID t)
          in if known = [] then historicalLogicalItemIDTx s userID planID (t_ID t) else known)) (\<lambda>logicalID.
        tx_bind (replanned_items en userID planID newRevision (position + 1) budget target logical byID cs) (\<lambda>items.
        tx_return (item\<lparr>i_TargetMinutes := target, i_Commitment := dailyTaskCommitment t target,
          i_LogicalID := (if logicalID \<noteq> [] then logicalID else i_LogicalID item)\<rparr> # items)))))"

definition selected_scopes :: "task_index \<Rightarrow> task list \<Rightarrow> (id, id list) gomap" where
  "selected_scopes scopeTasks ts =
    rev (List.map_filter (\<lambda>t. map_option (\<lambda>chain. (t_ID t, chain)) (planningParentChain t scopeTasks)) ts)"

definition ReplanDailyPlan ::
    "env \<Rightarrow> id \<Rightarrow> string \<Rightarrow> string \<Rightarrow> id list \<Rightarrow> int \<Rightarrow> int \<Rightarrow> (daily_plan \<times> plan_item list) tx" where
  "ReplanDailyPlan en userID localDate timezone taskIDs available expected =
    tx_bind (tx_try (\<lambda>s. find_dated_plan s userID localDate timezone)) (\<lambda>plan.
    tx_bind (tx_check (p_Revision plan = expected) ErrRevision) (\<lambda>_.
    tx_bind (tx_check (p_Status plan = ''active'') ErrConflict) (\<lambda>_.
    tx_bind (tx_read (\<lambda>s. eligiblePlanningTasksTx s userID taskIDs)) (\<lambda>(ts, settings).
    tx_bind (tx_check (\<not> (taskIDs \<noteq> [] \<and> ts = [])) ErrValidation) (\<lambda>_.
    tx_bind (tx_try (\<lambda>s. resolvePlanningBudget available settings)) (\<lambda>resolved.
    tx_bind (tx_read (\<lambda>s. plan_items_by_position s plan)) (\<lambda>oldItems.
    tx_bind (tx_try (\<lambda>s. protectedPlanItemsTx s userID plan oldItems)) (\<lambda>protected.
    tx_bind (tx_read (\<lambda>s. planningTaskIndexTx s userID)) (\<lambda>scopeTasks.
    let protectedParents = protectedPlanParentIDs oldItems protected scopeTasks;
        newRevision = p_CurrentRevision plan + 1
    in tx_bind (replan_items en userID plan newRevision protected oldItems) (\<lambda>kept.
       let (_, coreSlots, target) = remainingPlanBudget kept resolved;
           satisfied = set (List.map_filter i_TaskID kept);
           usable = filter (\<lambda>t. t_ID t \<notin> satisfied \<and>
             \<not> (taskIDs = [] \<and> taskDescendsFrom t protectedParents scopeTasks)) ts;
           byID = index_tasks usable;
           selected = take (nat coreSlots) (SelectDailyCandidates (candidatesForTasks usable) resolved);
           scopes = (if taskIDs \<noteq> []
             then selected_scopes scopeTasks (map (\<lambda>c. gomap_get zero_task byID (c_ID c)) selected) else []);
           inp = no_input\<lparr>in_TaskIDs := taskIDs, in_AvailableMinutes := resolved,
             in_Algorithm := p_AlgorithmVersion plan, in_BaseRevision := expected, in_Scopes := scopes\<rparr>
       in tx_bind (replanned_items en userID (p_ID plan) newRevision (next_position kept) resolved target
             (logical_by_task oldItems) byID selected) (\<lambda>added.
          tx_bind (tx_each create_item (kept @ added)) (\<lambda>_.
          tx_bind (record_revision en (p_ID plan) newRevision inp (kept @ added) ''same-day replanning'') (\<lambda>_.
          let frozen = freezePlanWithCore en plan (hasCoreItem (kept @ added))
          in tx_bind (update_plan (p_ID plan) expected (\<lambda>p. p\<lparr>p_CurrentRevision := newRevision,
               p_Revision := expected + 1, p_Status := ''active'', p_UpdatedAt := env_now en,
               p_FrozenAt := p_FrozenAt frozen, p_ManualItemsRemoved := False\<rparr>)) (\<lambda>one.
             tx_bind (tx_check one ErrRevision) (\<lambda>_.
             tx_bind (createOutbox en userID ''daily_plan.replanned''
               [(''plan_id'', PText (p_ID plan)), (''revision'', PInt newRevision)]) (\<lambda>_.
             tx_bind (tx_try (\<lambda>s. find_plan s (p_ID plan) userID)) (\<lambda>saved.
             tx_return (saved, kept @ added))))))))))))))))))"

subsection \<open>Closing a plan\<close>

definition CloseDailyPlan :: "env \<Rightarrow> id \<Rightarrow> id \<Rightarrow> int \<Rightarrow> string \<Rightarrow> daily_plan tx" where
  "CloseDailyPlan en userID planID expected status =
    tx_bind (tx_try (\<lambda>s. find_plan s planID userID)) (\<lambda>plan.
    tx_bind (tx_check (p_Revision plan = expected) ErrRevision) (\<lambda>_.
    tx_bind (tx_check (status = ''active'' \<or> status = ''closed'' \<or> status = ''cancelled'') ErrValidation) (\<lambda>_.
    tx_bind (if status = ''closed'' then tx_write (close_items (env_now en) plan) else tx_return ()) (\<lambda>_.
    tx_bind (update_plan planID expected (\<lambda>p. p\<lparr>p_Status := status, p_Revision := expected + 1,
      p_UpdatedAt := env_now en\<rparr>)) (\<lambda>one.
    tx_bind (tx_check one ErrRevision) (\<lambda>_.
    tx_try (\<lambda>s. find_plan s planID userID)))))))"

subsection \<open>Adding an item\<close>

definition AddPlanItem :: "env \<Rightarrow> id \<Rightarrow> id \<Rightarrow> int \<Rightarrow> plan_item \<Rightarrow> plan_item tx" where
  "AddPlanItem en userID planID expectedPlan item =
    tx_bind (tx_try (\<lambda>s. find_plan s planID userID)) (\<lambda>plan.
    tx_bind (tx_check (p_Revision plan = expectedPlan) ErrRevision) (\<lambda>_.
    tx_bind (tx_check (p_Status plan = ''active'') ErrConflict) (\<lambda>_.
    tx_bind (tx_check (\<not> (i_Kind item = ''core'' \<and> i_TaskID item = None)) ErrValidation) (\<lambda>_.
    tx_bind
      (case i_TaskID item of
         None \<Rightarrow> tx_return ()
       | Some k \<Rightarrow>
           tx_bind (tx_try (\<lambda>s. RequireLiveTaskTx s userID k)) (\<lambda>_.
           tx_bind (tx_read (\<lambda>s. i_Kind item = ''core'' \<longrightarrow>
             length (fst (eligiblePlanningTasksTx s userID [k])) = 1)) (\<lambda>ok.
           tx_bind (tx_check ok ErrValidation) (\<lambda>_.
           tx_bind (tx_read (\<lambda>s. \<exists>i \<in> set (current_items s plan). i_TaskID i = Some k)) (\<lambda>taken.
           tx_check (\<not> taken) ErrConflict))))) (\<lambda>_.
    let item = item\<lparr>i_Title := trim_space (i_Title item), i_Commitment := trim_space (i_Commitment item),
          i_MinimumAction := trim_space (i_MinimumAction item)\<rparr>
    in tx_bind (tx_check (i_Kind item = ''core'' \<or> i_Kind item = ''support'' \<or> i_Kind item = ''input'') ErrValidation) (\<lambda>_.
       tx_bind (tx_check (\<not> (i_Title item = [] \<or> i_Commitment item = [] \<or> i_MinimumAction item = [] \<or>
          i_TargetMinutes item < 1 \<or> i_TargetMinutes item > 480)) ErrValidation) (\<lambda>_.
       tx_bind (tx_read (\<lambda>s. i_Kind item = ''core'' \<and>
          int (length (filter (\<lambda>i. i_Kind i = ''core'' \<and> i_Status i \<noteq> ''skipped'') (current_items s plan)))
            \<ge> planningSlots (ps_DailyBudgetMinutes (planningSettingsTx s userID)))) (\<lambda>full.
       tx_bind (tx_check (\<not> full) ErrCoreLimit) (\<lambda>_.
       tx_bind (NewID en ''dpi'') (\<lambda>k.
       tx_bind (tx_read (\<lambda>s. case i_TaskID item of
           None \<Rightarrow> k
         | Some t \<Rightarrow> let h = historicalLogicalItemIDTx s userID planID t in if h \<noteq> [] then h else k)) (\<lambda>logical.
       let item = item\<lparr>i_ID := k, i_UserID := userID, i_PlanID := planID,
             i_PlanRevision := p_CurrentRevision plan, i_LogicalID := logical, i_Status := ''planned'',
             i_Revision := 1, i_CreatedAt := env_now en, i_UpdatedAt := env_now en,
             i_AllowedTypes := (if i_AllowedTypes item = [] then ''result,step,time,minimum_action''
                                else i_AllowedTypes item)\<rparr>;
           frozen = freezePlanWithCore en plan (i_Kind item = ''core'')
       in tx_bind (create_item item) (\<lambda>_.
          tx_bind (update_plan planID expectedPlan (\<lambda>p. p\<lparr>p_Revision := expectedPlan + 1,
             p_UpdatedAt := env_now en, p_FrozenAt := p_FrozenAt frozen\<rparr>)) (\<lambda>one.
          tx_bind (tx_check one ErrRevision) (\<lambda>_. tx_return item))))))))))))))"

subsection \<open>Deleting items\<close>

record item_deletion =
  dl_ID :: id
  dl_Revision :: int

text \<open>The checks on the request, which build the map from items to expected revisions.\<close>

fun requested_items :: "item_deletion list \<Rightarrow> (id, int) gomap \<Rightarrow> (id, int) gomap result" where
  "requested_items [] requested = Inr requested"
| "requested_items (d # ds) requested =
    (if trim_space (dl_ID d) = [] \<or> dl_Revision d < 1 then Inl ErrValidation
     else if map_of requested (dl_ID d) \<noteq> None then Inl ErrValidation
     else requested_items ds ((dl_ID d, dl_Revision d) # requested))"

text \<open>The loop that separates the items to delete from the ones that stay.\<close>

fun split_items :: "id \<Rightarrow> (id, int) gomap \<Rightarrow> plan_item list \<Rightarrow> (plan_item list \<times> plan_item list) result" where
  "split_items userID requested [] = Inr ([], [])"
| "split_items userID requested (item # items) =
    (case map_of requested (i_ID item) of
       None \<Rightarrow> bind_r (split_items userID requested items) (\<lambda>(kept, removed). Inr (item # kept, removed))
     | Some revision \<Rightarrow>
         if i_UserID item \<noteq> userID \<or> i_Kind item \<noteq> ''core'' then Inl ErrValidation
         else if i_Revision item \<noteq> revision then Inl ErrRevision
         else bind_r (split_items userID requested items) (\<lambda>(kept, removed). Inr (kept, item # removed)))"

definition find_active_user :: "store \<Rightarrow> id \<Rightarrow> user result" where
  "find_active_user s userID =
    (case find (\<lambda>u. u_ID u = userID \<and> u_Status u = ''active'') (s_users s) of
       None \<Rightarrow> Inl ErrNotFound | Some u \<Rightarrow> Inr u)"

text \<open>Moving a kept row to the new revision without touching its own revision.\<close>

definition move_item :: "id \<Rightarrow> daily_plan \<Rightarrow> int \<Rightarrow> plan_item \<Rightarrow> plan_item tx" where
  "move_item userID plan newRevision item =
    (let P = (\<lambda>i. i_ID i = i_ID item \<and> i_UserID i = userID \<and> i_PlanID i = p_ID plan \<and>
                i_PlanRevision i = p_CurrentRevision plan \<and> i_Revision i = i_Revision item)
     in tx_bind (tx_read (\<lambda>s. rows_affected P (s_items s) = 1)) (\<lambda>one.
        tx_bind (tx_write (\<lambda>s. s\<lparr>s_items := update_rows P (\<lambda>i. i\<lparr>i_PlanRevision := newRevision\<rparr>) (s_items s)\<rparr>)) (\<lambda>_.
        tx_bind (tx_check one ErrRevision) (\<lambda>_.
        tx_return (item\<lparr>i_PlanRevision := newRevision\<rparr>)))))"

definition DeletePlanItems ::
    "env \<Rightarrow> id \<Rightarrow> id \<Rightarrow> int \<Rightarrow> item_deletion list \<Rightarrow> (daily_plan \<times> plan_item list \<times> id list) tx" where
  "DeletePlanItems en userID planID expected selected =
    tx_bind (tx_check (\<not> (length selected = 0 \<or> length selected > 3)) ErrValidation) (\<lambda>_.
    tx_bind (tx_try (\<lambda>_. requested_items selected [])) (\<lambda>requested.
    tx_bind (tx_try (\<lambda>s. find_active_user s userID)) (\<lambda>u.
    tx_bind (tx_try (\<lambda>s. find_plan s planID userID)) (\<lambda>plan.
    tx_bind (tx_check (p_Revision plan = expected) ErrRevision) (\<lambda>_.
    let (loc, zone) = resolveZone (env_zones en) [u_Timezone u]
    in tx_bind (tx_check (\<not> (p_Status plan \<noteq> ''active'' \<or> p_Timezone plan \<noteq> zone \<or>
          p_LocalDate plan \<noteq> format_local loc (env_now en))) ErrConflict) (\<lambda>_.
       tx_bind (tx_read (\<lambda>s. livePlanItemsTx s plan)) (\<lambda>items.
       tx_bind (tx_try (\<lambda>_. split_items userID requested items)) (\<lambda>(kept, removed).
       tx_bind (tx_check (length removed = length requested) ErrNotFound) (\<lambda>_.
       tx_bind (tx_read (\<lambda>s. scheduleItemSourcesTx s
         \<lparr>d_Plan = plan, d_Items = kept, d_Reason = [], d_ItemSources = []\<rparr>)) (\<lambda>sources.
       let deleted = sort (map i_ID removed);
           newRevision = p_CurrentRevision plan + 1;
           P = (\<lambda>p. p_ID p = p_ID plan \<and> p_UserID p = userID \<and> p_Revision p = expected);
           write = (\<lambda>p. p\<lparr>p_CurrentRevision := newRevision, p_Revision := p_Revision plan + 1,
             p_ManualItemsRemoved := True, p_UpdatedAt := env_now en\<rparr>)
       in tx_bind (tx_read (\<lambda>s. rows_affected P (s_plans s) = 1)) (\<lambda>one.
          tx_bind (tx_check one ErrRevision) (\<lambda>_.
          tx_bind (tx_write (\<lambda>s. s\<lparr>s_plans := update_rows P write (s_plans s)\<rparr>)) (\<lambda>_.
          tx_bind (tx_map (move_item userID plan newRevision) kept) (\<lambda>moved.
          tx_bind (record_revision en (p_ID plan) newRevision
             (no_input\<lparr>in_Source := ''manual_item_deletion'', in_BaseRevision := expected,
                in_DeletedItemIDs := deleted, in_ItemSources := sources\<rparr>) moved ''manual item deletion'') (\<lambda>_.
          tx_bind (createOutbox en userID ''daily_plan.items_deleted''
             [(''plan_id'', PText (p_ID plan)), (''revision'', PInt newRevision),
              (''deleted_item_ids'', PTexts deleted)]) (\<lambda>_.
          tx_return (write plan, moved, deleted)))))))))))))))))"

end
