(* ===== verification/Lifecycle.thy ===== *)
theory Lifecycle
  imports Field_Rules Plan_Commands
begin

text \<open>
  Creating, editing, deleting and restoring goals and tasks (\<open>application/lifecycle.go\<close>,
  \<open>createTaskWithPriorityTx\<close>, \<open>snapshotTaskTree\<close> and \<open>completeTaskTx\<close> of \<open>app.go\<close>,
  \<open>syncEditedTaskTodayItemsTx\<close> of \<open>planning_task_edits.go\<close>), with the effects on today's
  plan and on the schedule.
\<close>

text \<open>A computation that may not return, inside a transaction.\<close>

definition tx_total :: "(store \<Rightarrow> 'a result option) \<Rightarrow> 'a tx" where
  "tx_total f s = (case f s of None \<Rightarrow> Inl DoesNotReturn | Some (Inl e) \<Rightarrow> Inl e | Some (Inr a) \<Rightarrow> Inr (a, s))"

lemma tx_total_Some [simp]: "f s = Some (Inr a) \<Longrightarrow> tx_total f s = Inr (a, s)"
  "f s = Some (Inl e) \<Longrightarrow> tx_total f s = Inl e"
  by (simp_all add: tx_total_def)

lemma tx_total_Inr [go_simps]: "tx_total f s = Inr (a, s') \<longleftrightarrow> f s = Some (Inr a) \<and> s' = s"
  by (auto simp: tx_total_def split: option.split sum.split)

lemma tx_total_Inl [go_simps]: "tx_total f s = Inl e \<longleftrightarrow> f s = Some (Inl e) \<or> f s = None \<and> e = DoesNotReturn"
  by (auto simp: tx_total_def split: option.split sum.split)

lemma tx_keeps_total [tx_frame]: "tx_keeps g (tx_total f)"
  by (auto simp: tx_keeps_def go_simps)

definition touchPlanTx :: "env \<Rightarrow> id \<Rightarrow> unit tx" where
  "touchPlanTx en planID = tx_write (\<lambda>s. s\<lparr>s_plans := update_rows (\<lambda>p. p_ID p = planID)
     (\<lambda>p. p\<lparr>p_Revision := p_Revision p + 1, p_UpdatedAt := env_now en\<rparr>) (s_plans s)\<rparr>)"

definition snapshotTaskTree :: "env \<Rightarrow> id \<Rightarrow> id \<Rightarrow> string \<Rightarrow> string \<Rightarrow> unit tx" where
  "snapshotTaskTree en userID goalID reason source =
    tx_bind (NewID en ''treerev'') (\<lambda>k. tx_write (\<lambda>s.
      let revision = foldl max 0 (map tr_Revision (filter (\<lambda>r. tr_GoalID r = goalID) (s_trees s)))
      in s\<lparr>s_trees := s_trees s @ [\<lparr>tr_ID = k, tr_UserID = userID, tr_GoalID = goalID, tr_Reason = reason,
           tr_Source = source,
           tr_Snapshot = map (\<lambda>t. t\<lparr>t_UserID := []\<rparr>)
             (sort_key (\<lambda>t. (t_Position t, t_ID t)) (goal_tasks s userID goalID)),
           tr_Revision = revision + 1, tr_CreatedAt = env_now en\<rparr>]\<rparr>))"

subsection \<open>The tasks below a task\<close>

function subtree_walk :: "task list \<Rightarrow> task list \<Rightarrow> id list \<Rightarrow> task list" where
  "subtree_walk rows [] seen = []"
| "subtree_walk rows (t # pending) seen =
    (if t_ID t \<in> set seen then subtree_walk rows pending seen
     else t # subtree_walk rows (pending @ filter (\<lambda>c. t_ParentID c = Some (t_ID t)) rows) (t_ID t # seen))"
  by pat_completeness auto
termination
proof (relation "measures [\<lambda>(rows, pending, seen). card (t_ID ` (set rows \<union> set pending) - set seen),
    \<lambda>(rows, pending, seen). length pending]", goal_cases)
  case 1
  then show ?case by simp
next
  case (2 rows t pending seen)
  have "card (t_ID ` (set rows \<union> set pending) - set seen) \<le> card (t_ID ` (set rows \<union> set (t # pending)) - set seen)"
    by (rule card_mono) auto
  then show ?case by auto
next
  case (3 rows t pending seen)
  then have "t_ID ` (set rows \<union> set (pending @ filter (\<lambda>c. t_ParentID c = Some (t_ID t)) rows)) - set (t_ID t # seen)
      \<subset> t_ID ` (set rows \<union> set (t # pending)) - set seen" by auto
  then have "card (t_ID ` (set rows \<union> set (pending @ filter (\<lambda>c. t_ParentID c = Some (t_ID t)) rows)) - set (t_ID t # seen))
      < card (t_ID ` (set rows \<union> set (t # pending)) - set seen)" by (rule psubset_card_mono [rotated]) simp
  then show ?case by simp
qed

definition subtreeTasksTx :: "store \<Rightarrow> id \<Rightarrow> task \<Rightarrow> task list" where
  "subtreeTasksTx s userID top_task = subtree_walk (goal_tasks s userID (t_GoalID top_task)) [top_task] []"

definition goalTaskIDsTx :: "store \<Rightarrow> id \<Rightarrow> id \<Rightarrow> bool \<Rightarrow> id list" where
  "goalTaskIDsTx s userID goalID liveOnly =
    map t_ID (filter (\<lambda>t. liveOnly \<longrightarrow> t_DeletedAt t = None) (goal_tasks s userID goalID))"

definition noActiveTaskSessionsTx :: "store \<Rightarrow> id \<Rightarrow> id list \<Rightarrow> unit result" where
  "noActiveTaskSessionsTx s userID taskIDs =
    (if \<exists>w \<in> set (s_sessions s). w_UserID w = userID \<and> w_TaskID w \<in> set taskIDs \<and>
          (w_Status w = ''running'' \<or> w_Status w = ''paused'')
     then Inl ErrActiveSession else Inr ())"

subsection \<open>Today's commitments\<close>

definition dated_active_plans :: "store \<Rightarrow> id \<Rightarrow> string \<Rightarrow> string \<Rightarrow> daily_plan list" where
  "dated_active_plans s userID date zone = filter (\<lambda>p. p_UserID p = userID \<and> p_LocalDate p = date \<and>
     p_Timezone p = zone \<and> p_Status p = ''active'') (s_plans s)"

text \<open>One turn of the loop of \<open>releaseTodayItemsTx\<close>.\<close>

definition release_plan :: "env \<Rightarrow> id list \<Rightarrow> daily_plan \<Rightarrow> unit tx" where
  "release_plan en taskIDs plan =
    (let P = (\<lambda>i. i_PlanID i = p_ID plan \<and> i_PlanRevision i = p_CurrentRevision plan \<and>
           (case i_TaskID i of None \<Rightarrow> False | Some k \<Rightarrow> k \<in> set taskIDs) \<and>
           (i_Status i = ''planned'' \<or> i_Status i = ''in_progress''))
     in tx_bind (tx_read (\<lambda>s. rows_affected P (s_items s) > 0)) (\<lambda>any.
        tx_bind (tx_write (\<lambda>s. s\<lparr>s_items := update_rows P (\<lambda>i. i\<lparr>i_Status := ''skipped'',
          i_Revision := i_Revision i + 1, i_UpdatedAt := env_now en\<rparr>) (s_items s)\<rparr>)) (\<lambda>_.
        if any then touchPlanTx en (p_ID plan) else tx_return ())))"

definition releaseTodayItemsTx :: "env \<Rightarrow> id \<Rightarrow> id list \<Rightarrow> unit tx" where
  "releaseTodayItemsTx en userID taskIDs =
    (if taskIDs = [] then tx_return ()
     else tx_bind (tx_try (\<lambda>s. find_user s userID)) (\<lambda>u.
       let (loc, zone) = resolveZone (env_zones en) [u_Timezone u]
       in tx_bind (tx_read (\<lambda>s. dated_active_plans s userID (format_local loc (env_now en)) zone)) (\<lambda>plans.
          tx_each (release_plan en taskIDs) plans)))"

text \<open>The pending items of today whose task cannot be executed any more.\<close>

definition pending_today :: "store \<Rightarrow> id \<Rightarrow> string \<Rightarrow> string \<Rightarrow> plan_item list" where
  "pending_today s userID date zone =
    filter (\<lambda>i. (i_Status i = ''planned'' \<or> i_Status i = ''in_progress'') \<and> i_TaskID i \<noteq> None \<and>
      (\<exists>p \<in> set (dated_active_plans s userID date zone). p_ID p = i_PlanID i \<and>
         p_CurrentRevision p = i_PlanRevision i)) (s_items s)"

definition task_executable :: "store \<Rightarrow> id \<Rightarrow> id \<Rightarrow> bool result option" where
  "task_executable s userID k =
    (case taskExecutableTx s userID k of
       Some (Inl ErrNotFound) \<Rightarrow> Some (Inr False)
     | Some (Inl ErrConflict) \<Rightarrow> Some (Inr False)
     | r \<Rightarrow> r)"

fun withdrawn_tasks :: "id \<Rightarrow> plan_item list \<Rightarrow> id list tx" where
  "withdrawn_tasks userID [] = tx_return []"
| "withdrawn_tasks userID (item # items) =
    tx_bind (tx_total (\<lambda>s. task_executable s userID (the (i_TaskID item)))) (\<lambda>eligible.
    tx_bind (withdrawn_tasks userID items) (\<lambda>ks.
    tx_return (if eligible then ks else the (i_TaskID item) # ks)))"

text \<open>\<open>preserveEmptyToday\<close>: today is frozen as it is, or created empty and frozen.\<close>

definition preserve_today :: "env \<Rightarrow> user \<Rightarrow> string \<Rightarrow> string \<Rightarrow> unit tx" where
  "preserve_today en u date zone =
    tx_bind (tx_read (\<lambda>s. find_dated_plan s (u_ID u) date zone)) (\<lambda>today.
    (case today of
       Inr plan \<Rightarrow>
         if p_FrozenAt plan = None
         then tx_write (\<lambda>s. s\<lparr>s_plans := update_rows (\<lambda>p. p_ID p = p_ID plan)
                (\<lambda>p. p\<lparr>p_FrozenAt := Some (env_now en), p_Revision := p_Revision p + 1,
                   p_UpdatedAt := env_now en\<rparr>) (s_plans s)\<rparr>)
         else tx_return ()
     | Inl _ \<Rightarrow>
         tx_bind (NewID en ''plan'') (\<lambda>k.
         tx_bind (tx_read (\<lambda>s. planningSettingsTx s (u_ID u))) (\<lambda>settings.
         tx_bind (saveScheduleDayTx en settings False
           \<lparr>d_Plan = (new_plan k (u_ID u) date zone (env_now en))\<lparr>p_AlgorithmVersion := ''deterministic-v2'',
              p_FrozenAt := Some (env_now en)\<rparr>,
            d_Items = [], d_Reason = [], d_ItemSources = [], d_Changed = True, d_Protected = False,
            d_AppendOnly = False\<rparr>) (\<lambda>_. tx_return ())))))"

definition refreshLifecycleScheduleTx :: "env \<Rightarrow> id \<Rightarrow> bool \<Rightarrow> unit tx" where
  "refreshLifecycleScheduleTx en userID futureOnly =
    tx_bind (tx_try (\<lambda>s. find_user s userID)) (\<lambda>u.
    let (loc, zone) = resolveZone (env_zones en) [u_Timezone u];
        date = format_local loc (env_now en)
    in tx_bind (tx_read (\<lambda>s. pending_today s userID date zone)) (\<lambda>pending.
       tx_bind (withdrawn_tasks userID pending) (\<lambda>withdraw.
       tx_bind (releaseTodayItemsTx en userID withdraw) (\<lambda>_.
       tx_bind (if futureOnly then preserve_today en u date zone else tx_return ()) (\<lambda>_.
       tx_bind (refreshScheduleTx en u date loc zone) (\<lambda>_. tx_return ()))))))"

subsection \<open>An edited task and today's items\<close>

text \<open>The columns an edit changes in an unstarted item: its title, and its promise where the item
  still follows the task.\<close>

definition follow_edit :: "store \<Rightarrow> task \<Rightarrow> task \<Rightarrow> plan_item \<Rightarrow> plan_item" where
  "follow_edit s before after item =
    (let i = (if i_Title item = t_Title before \<and> i_Title item \<noteq> t_Title after
              then item\<lparr>i_Title := t_Title after\<rparr> else item)
     in if planItemScopeSourceTx s item = planItemSourceGenerated \<and>
           i_MinimumAction item = t_MinimumAction before
        then
          let i = i\<lparr>i_MinimumAction := t_MinimumAction after\<rparr>;
              commitment = dailyTaskCommitment after (i_TargetMinutes item)
          in if i_Commitment item = t_MinimumAction before \<or>
                i_Commitment item = trim_space (t_SuccessCriteria before) \<or>
                i_Commitment item = advance_prefix @ t_SuccessCriteria before
             then i\<lparr>i_Commitment := commitment\<rparr> else i
        else i)"

fun sync_items :: "env \<Rightarrow> id \<Rightarrow> task \<Rightarrow> task \<Rightarrow> id set \<Rightarrow> plan_item list \<Rightarrow> bool tx" where
  "sync_items en userID before after protected [] = tx_return False"
| "sync_items en userID before after protected (item # items) =
    tx_bind (tx_read (\<lambda>s. follow_edit s before after item)) (\<lambda>edited.
    if i_TaskID item \<noteq> Some (t_ID after) \<or> i_Status item \<noteq> ''planned'' \<or> i_ID item \<in> protected \<or> edited = item
    then sync_items en userID before after protected items
    else
      let P = (\<lambda>i. i_ID i = i_ID item \<and> i_UserID i = userID \<and> i_Revision i = i_Revision item \<and>
                 i_Status i = ''planned'')
      in tx_bind (tx_read (\<lambda>s. rows_affected P (s_items s) = 1)) (\<lambda>one.
         tx_bind (tx_write (\<lambda>s. s\<lparr>s_items := update_rows P (\<lambda>i. i\<lparr>i_Title := i_Title edited,
           i_MinimumAction := i_MinimumAction edited, i_Commitment := i_Commitment edited,
           i_Revision := i_Revision item + 1, i_UpdatedAt := env_now en\<rparr>) (s_items s)\<rparr>)) (\<lambda>_.
         tx_bind (tx_check one ErrRevision) (\<lambda>_.
         tx_bind (sync_items en userID before after protected items) (\<lambda>_. tx_return True)))))"

definition sync_plan :: "env \<Rightarrow> id \<Rightarrow> task \<Rightarrow> task \<Rightarrow> daily_plan \<Rightarrow> unit tx" where
  "sync_plan en userID before after plan =
    tx_bind (tx_read (\<lambda>s. livePlanItemsTx s plan)) (\<lambda>items.
    tx_bind (tx_try (\<lambda>s. protectedPlanItemsTx s userID plan items)) (\<lambda>protected.
    tx_bind (sync_items en userID before after protected items) (\<lambda>changed.
    if changed then touchPlanTx en (p_ID plan) else tx_return ())))"

definition syncEditedTaskTodayItemsTx :: "env \<Rightarrow> id \<Rightarrow> task \<Rightarrow> task \<Rightarrow> unit tx" where
  "syncEditedTaskTodayItemsTx en userID before after =
    (if t_Title before = t_Title after \<and> t_MinimumAction before = t_MinimumAction after \<and>
        t_SuccessCriteria before = t_SuccessCriteria after \<and>
        t_EstimateMinutes before = t_EstimateMinutes after
     then tx_return ()
     else tx_bind (tx_try (\<lambda>s. find_user s userID)) (\<lambda>u.
       let (loc, zone) = resolveZone (env_zones en) [u_Timezone u]
       in tx_bind (tx_read (\<lambda>s. dated_active_plans s userID (format_local loc (env_now en)) zone)) (\<lambda>plans.
          tx_each (sync_plan en userID before after) plans)))"

subsection \<open>Goals\<close>

definition createGoalTx :: "env \<Rightarrow> id \<Rightarrow> goal \<Rightarrow> goal tx" where
  "createGoalTx en userID goal =
    tx_bind (tx_try (\<lambda>_. validateGoalFields goal)) (\<lambda>g.
    tx_bind (NewID en ''goal'') (\<lambda>k.
    let g = g\<lparr>g_ID := k, g_UserID := userID, g_Status := ''active'', g_Revision := 1, g_DeletedAt := None,
          g_DeletionID := [], g_CreatedAt := env_now en, g_UpdatedAt := env_now en\<rparr>
    in tx_bind (tx_write (\<lambda>s. s\<lparr>s_goals := s_goals s @ [g]\<rparr>)) (\<lambda>_.
       tx_bind (createOutbox en userID ''goal.created'' [(''goal_id'', PText k)]) (\<lambda>_. tx_return g))))"

definition goal_edit :: "goal \<Rightarrow> changes \<Rightarrow> goal result" where
  "goal_edit goal changes =
    bind_r (guard_r (keys_allowed [''title'', ''description'', ''success_criteria'', ''status'', ''target_date''] changes) ErrValidation) (\<lambda>_.
    bind_r (changeText changes ''title'' (g_Title goal)) (\<lambda>title.
    bind_r (changeText changes ''description'' (g_Description goal)) (\<lambda>description.
    bind_r (changeText changes ''success_criteria'' (g_SuccessCriteria goal)) (\<lambda>criteria.
    bind_r (changeText changes ''status'' (g_Status goal)) (\<lambda>status.
    bind_r (guard_r (ValidateGoalTransition (g_Status goal) status = None) ErrConflict) (\<lambda>_.
    bind_r (case map_of changes ''target_date'' of
              None \<Rightarrow> Inr (g_TargetDate goal)
            | Some AnyNil \<Rightarrow> Inr None
            | Some (AnyString d) \<Rightarrow> Inr (Some d)
            | Some _ \<Rightarrow> Inl ErrValidation) (\<lambda>date.
    validateGoalFields (goal\<lparr>g_Title := title, g_Description := description, g_SuccessCriteria := criteria,
      g_Status := status, g_TargetDate := date\<rparr>))))))))"

definition updateGoalTx :: "env \<Rightarrow> id \<Rightarrow> id \<Rightarrow> int \<Rightarrow> changes \<Rightarrow> goal tx" where
  "updateGoalTx en userID k expected changes =
    tx_bind (tx_try (\<lambda>s. RequireLiveGoalTx s userID k)) (\<lambda>goal.
    tx_bind (tx_check (g_Revision goal = expected) ErrRevision) (\<lambda>_.
    tx_bind (tx_try (\<lambda>_. goal_edit goal changes)) (\<lambda>edited.
    let g = edited\<lparr>g_Revision := expected + 1, g_UpdatedAt := env_now en\<rparr>;
        P = (\<lambda>r. g_ID r = k \<and> g_UserID r = userID \<and> g_Revision r = expected \<and> g_DeletedAt r = None)
    in tx_bind (tx_read (\<lambda>s. rows_affected P (s_goals s) = 1)) (\<lambda>one.
       tx_bind (tx_write (\<lambda>s. s\<lparr>s_goals := update_rows P (\<lambda>r. r\<lparr>g_Title := g_Title g,
         g_Description := g_Description g, g_SuccessCriteria := g_SuccessCriteria g,
         g_TargetDate := g_TargetDate g, g_Status := g_Status g, g_Revision := g_Revision g,
         g_UpdatedAt := env_now en\<rparr>) (s_goals s)\<rparr>)) (\<lambda>_.
       tx_bind (tx_check one ErrRevision) (\<lambda>_.
       tx_bind
         (if g_Status goal \<noteq> g_Status g
          then tx_bind (tx_read (\<lambda>s. goalTaskIDsTx s userID k False)) (\<lambda>ids.
               tx_bind (if g_Status g \<noteq> ''active'' then releaseTodayItemsTx en userID ids else tx_return ()) (\<lambda>_.
               refreshLifecycleScheduleTx en userID False))
          else tx_return ()) (\<lambda>_.
       tx_bind (createOutbox en userID ''goal.updated'' [(''goal_id'', PText k)]) (\<lambda>_.
       tx_return g))))))))"

text \<open>The rows of a deletion: the goal or the tasks get the instant and the batch, a restoration
  takes them back.\<close>

definition delete_tasks :: "env \<Rightarrow> id \<Rightarrow> (task \<Rightarrow> bool) \<Rightarrow> store \<Rightarrow> store" where
  "delete_tasks en batch P s =
    s\<lparr>s_tasks := update_rows (\<lambda>t. P t \<and> t_DeletedAt t = None) (\<lambda>t. t\<lparr>t_DeletedAt := Some (env_now en),
       t_DeletionID := batch, t_Revision := t_Revision t + 1, t_UpdatedAt := env_now en\<rparr>) (s_tasks s)\<rparr>"

definition restore_tasks :: "env \<Rightarrow> id \<Rightarrow> (task \<Rightarrow> bool) \<Rightarrow> store \<Rightarrow> store" where
  "restore_tasks en batch P s =
    s\<lparr>s_tasks := update_rows (\<lambda>t. P t \<and> t_DeletionID t = batch) (\<lambda>t. t\<lparr>t_DeletedAt := None,
       t_DeletionID := [], t_Revision := t_Revision t + 1, t_UpdatedAt := env_now en\<rparr>) (s_tasks s)\<rparr>"

definition deleteGoalTx :: "env \<Rightarrow> id \<Rightarrow> id \<Rightarrow> int \<Rightarrow> goal tx" where
  "deleteGoalTx en userID k expected =
    tx_bind (tx_try (\<lambda>s. RequireLiveGoalTx s userID k)) (\<lambda>goal.
    tx_bind (tx_check (g_Revision goal = expected) ErrRevision) (\<lambda>_.
    tx_bind (tx_read (\<lambda>s. goalTaskIDsTx s userID k True)) (\<lambda>ids.
    tx_bind (tx_try (\<lambda>s. noActiveTaskSessionsTx s userID ids)) (\<lambda>_.
    tx_bind (NewID en ''deletion'') (\<lambda>batch.
    let gone = (\<lambda>g. g\<lparr>g_DeletedAt := Some (env_now en), g_DeletionID := batch,
          g_Revision := expected + 1, g_UpdatedAt := env_now en\<rparr>)
    in tx_bind (tx_write (\<lambda>s. s\<lparr>s_goals := update_rows (\<lambda>g. g_ID g = k \<and> g_Revision g = expected \<and>
         g_DeletedAt g = None) gone (s_goals s)\<rparr>)) (\<lambda>_.
       tx_bind (tx_write (delete_tasks en batch (\<lambda>t. t_ID t \<in> set ids))) (\<lambda>_.
       tx_bind (tx_write (\<lambda>s. s\<lparr>s_settings := update_rows (\<lambda>p. ps_UserID p = userID \<and>
         ps_PrimaryGoalID p = Some k) (\<lambda>p. p\<lparr>ps_PrimaryGoalID := None, ps_Revision := ps_Revision p + 1,
         ps_UpdatedAt := env_now en\<rparr>) (s_settings s)\<rparr>)) (\<lambda>_.
       tx_bind (snapshotTaskTree en userID k ''goal deleted'' ''user'') (\<lambda>_.
       tx_bind (releaseTodayItemsTx en userID ids) (\<lambda>_.
       tx_bind (refreshLifecycleScheduleTx en userID False) (\<lambda>_.
       tx_bind (createOutbox en userID ''goal.deleted'' [(''goal_id'', PText k), (''deletion_id'', PText batch)]) (\<lambda>_.
       tx_return (gone goal)))))))))))))"

definition find_goal :: "store \<Rightarrow> id \<Rightarrow> id \<Rightarrow> goal result" where
  "find_goal s k userID =
    (case find (\<lambda>g. g_ID g = k \<and> g_UserID g = userID) (s_goals s) of None \<Rightarrow> Inl ErrNotFound | Some g \<Rightarrow> Inr g)"

definition RestoreGoal :: "env \<Rightarrow> id \<Rightarrow> id \<Rightarrow> int \<Rightarrow> goal tx" where
  "RestoreGoal en userID k expected =
    tx_bind (tx_try (\<lambda>s. find_goal s k userID)) (\<lambda>goal.
    tx_bind (tx_check (g_Revision goal = expected) ErrRevision) (\<lambda>_.
    tx_bind (tx_check (\<not> (g_DeletedAt goal = None \<or> g_DeletionID goal = [])) ErrConflict) (\<lambda>_.
    let batch = g_DeletionID goal;
        back = (\<lambda>g. g\<lparr>g_DeletedAt := None, g_DeletionID := [], g_Revision := expected + 1,
          g_UpdatedAt := env_now en\<rparr>)
    in tx_bind (tx_write (\<lambda>s. s\<lparr>s_goals := update_rows (\<lambda>g. g_ID g = k \<and> g_Revision g = expected)
         back (s_goals s)\<rparr>)) (\<lambda>_.
       tx_bind (tx_write (restore_tasks en batch (\<lambda>t. t_UserID t = userID \<and> t_GoalID t = k))) (\<lambda>_.
       tx_bind (snapshotTaskTree en userID k ''goal restored'' ''user'') (\<lambda>_.
       tx_bind (refreshLifecycleScheduleTx en userID True) (\<lambda>_.
       tx_bind (createOutbox en userID ''goal.restored'' [(''goal_id'', PText k), (''deletion_id'', PText batch)]) (\<lambda>_.
       tx_return (back goal)))))))))"

subsection \<open>Tasks\<close>

definition closed_status :: "string \<Rightarrow> bool" where
  "closed_status st \<longleftrightarrow> st = ''completed'' \<or> st = ''cancelled'' \<or> st = ''superseded''"

text \<open>The parent a task may have: live, of the same goal and still open. Every failure is a
  validation error.\<close>

definition usable_parent :: "store \<Rightarrow> id \<Rightarrow> id \<Rightarrow> id \<Rightarrow> unit result" where
  "usable_parent s userID goalID parentID =
    (case RequireLiveTaskTx s userID parentID of
       Inl _ \<Rightarrow> Inl ErrValidation
     | Inr parent \<Rightarrow>
         if t_GoalID parent \<noteq> goalID \<or> closed_status (t_Status parent) then Inl ErrValidation else Inr ())"

definition createTaskWithPriorityTx ::
    "env \<Rightarrow> id \<Rightarrow> task \<Rightarrow> string \<Rightarrow> string \<Rightarrow> bool \<Rightarrow> task tx" where
  "createTaskWithPriorityTx en userID task reason source explicitPriority =
    tx_bind (tx_try (\<lambda>s. RequireLiveGoalTx s userID (t_GoalID task))) (\<lambda>goal.
    tx_bind (tx_check (\<not> (g_Status goal \<noteq> ''active'' \<and> g_Status goal \<noteq> ''paused'')) ErrConflict) (\<lambda>_.
    tx_bind (case t_ParentID task of
               None \<Rightarrow> tx_return ()
             | Some p \<Rightarrow> tx_try (\<lambda>s. usable_parent s userID (t_GoalID task) p)) (\<lambda>_.
    let ty = trim_space (t_Type task);
        task = task\<lparr>t_Type := (if ty = [] then ''task'' else ty), t_Title := trim_space (t_Title task),
          t_SuccessCriteria := trim_space (t_SuccessCriteria task),
          t_MinimumAction := trim_space (t_MinimumAction task),
          t_Priority := (if t_Priority task = 0 \<and> \<not> explicitPriority then 50 else t_Priority task),
          t_EstimateMinutes := (if t_EstimateMinutes task = 0 then 25 else t_EstimateMinutes task)\<rparr>
    in tx_bind (tx_try (\<lambda>_. validateTaskFields task)) (\<lambda>t.
       tx_bind (NewID en ''task'') (\<lambda>k.
       let t = t\<lparr>t_ID := k, t_UserID := userID, t_Status := ''ready'', t_Revision := 1,
             t_DeletedAt := None, t_DeletionID := [], t_CreatedAt := env_now en, t_UpdatedAt := env_now en\<rparr>
       in tx_bind (tx_total (\<lambda>s. validateTaskDependenciesTx s t)) (\<lambda>_.
          tx_bind (tx_write (\<lambda>s. s\<lparr>s_tasks := s_tasks s @ [t]\<rparr>)) (\<lambda>_.
          tx_bind (snapshotTaskTree en userID (t_GoalID t) reason source) (\<lambda>_.
          tx_return t))))))))"

definition createTaskTx :: "env \<Rightarrow> id \<Rightarrow> task \<Rightarrow> string \<Rightarrow> string \<Rightarrow> task tx" where
  "createTaskTx en userID task reason source = createTaskWithPriorityTx en userID task reason source False"

text \<open>The parent map of a goal's tasks, and the parent an edit asks for.\<close>

definition goal_parents :: "store \<Rightarrow> id \<Rightarrow> id \<Rightarrow> (id, id) gomap" where
  "goal_parents s userID goalID =
    rev (List.map_filter (\<lambda>t. map_option (\<lambda>p. (t_ID t, p)) (t_ParentID t)) (goal_tasks s userID goalID))"

definition edited_parent :: "store \<Rightarrow> id \<Rightarrow> task \<Rightarrow> changes \<Rightarrow> id option result option" where
  "edited_parent s userID t changes =
    (case map_of changes ''parent_id'' of
       None \<Rightarrow> Some (Inr (t_ParentID t))
     | Some AnyNil \<Rightarrow> Some (Inr None)
     | Some (AnyString raw) \<Rightarrow>
         (let p = trim_space raw
          in if p = [] then Some (Inl ErrValidation)
             else case usable_parent s userID (t_GoalID t) p of
               Inl e \<Rightarrow> Some (Inl e)
             | Inr _ \<Rightarrow>
                 map_option (\<lambda>cyclic. if cyclic then Inl ErrValidation else Inr (Some p))
                   (WouldCreateCycle (t_ID t) p (goal_parents s userID (t_GoalID t))))
     | Some _ \<Rightarrow> Some (Inl ErrValidation))"

text \<open>The field edits of \<open>updateTaskTx\<close> up to the new parent.\<close>

definition task_edit :: "task \<Rightarrow> changes \<Rightarrow> task result" where
  "task_edit t changes =
    bind_r (guard_r (keys_allowed [''type'', ''title'', ''description'', ''success_criteria'', ''minimum_action'',
      ''blocked_reason'', ''status'', ''priority'', ''estimate_minutes'', ''position'', ''parent_id'',
      ''depends_on''] changes) ErrValidation) (\<lambda>_.
    bind_r (changeText changes ''type'' (t_Type t)) (\<lambda>ty.
    bind_r (changeText changes ''title'' (t_Title t)) (\<lambda>title.
    bind_r (changeText changes ''description'' (t_Description t)) (\<lambda>description.
    bind_r (changeText changes ''success_criteria'' (t_SuccessCriteria t)) (\<lambda>criteria.
    bind_r (changeText changes ''minimum_action'' (t_MinimumAction t)) (\<lambda>minimum.
    bind_r (changeText changes ''blocked_reason'' (t_BlockedReason t)) (\<lambda>reason.
    bind_r (changeInt changes ''priority'' (t_Priority t)) (\<lambda>priority.
    bind_r (changeInt changes ''estimate_minutes'' (t_EstimateMinutes t)) (\<lambda>estimate.
    bind_r (changeInt changes ''position'' (t_Position t)) (\<lambda>position.
    bind_r (case map_of changes ''depends_on'' of
              None \<Rightarrow> Inr (t_DependsOn t)
            | Some raw \<Rightarrow> taskDependencyList raw) (\<lambda>deps.
    bind_r (changeText changes ''status'' (t_Status t)) (\<lambda>status.
    bind_r (if map_of changes ''status'' = None then Inr ()
            else if status = ''completed'' then Inl ErrValidation
            else guard_r (ValidateTaskTransition (t_Status t) status = None) ErrConflict) (\<lambda>_.
    Inr (t\<lparr>t_Type := ty, t_Title := title, t_Description := description, t_SuccessCriteria := criteria,
      t_MinimumAction := minimum, t_BlockedReason := reason, t_Priority := priority,
      t_EstimateMinutes := estimate, t_Position := position, t_DependsOn := deps,
      t_Status := status\<rparr>))))))))))))))"

definition updateTaskTx :: "env \<Rightarrow> id \<Rightarrow> id \<Rightarrow> int \<Rightarrow> changes \<Rightarrow> bool \<Rightarrow> task tx" where
  "updateTaskTx en userID k expected changes deferEffects =
    tx_bind (tx_try (\<lambda>s. RequireLiveTaskTx s userID k)) (\<lambda>before.
    tx_bind (tx_check (t_Revision before = expected) ErrRevision) (\<lambda>_.
    tx_bind (tx_try (\<lambda>_. task_edit before changes)) (\<lambda>edited.
    tx_bind (tx_total (\<lambda>s. edited_parent s userID edited changes)) (\<lambda>parent.
    tx_bind (tx_try (\<lambda>_. validateTaskFields (edited\<lparr>t_ParentID := parent\<rparr>))) (\<lambda>valid.
    tx_bind (if map_of changes ''parent_id'' \<noteq> None \<or> map_of changes ''depends_on'' \<noteq> None
             then tx_total (\<lambda>s. validateTaskDependenciesTx s valid) else tx_return ()) (\<lambda>_.
    let t = valid\<lparr>t_BlockedReason := (if t_Status valid \<noteq> ''blocked'' then [] else t_BlockedReason valid),
          t_Revision := expected + 1, t_UpdatedAt := env_now en\<rparr>;
        P = (\<lambda>r. t_ID r = k \<and> t_UserID r = userID \<and> t_Revision r = expected \<and> t_DeletedAt r = None)
    in tx_bind (tx_read (\<lambda>s. rows_affected P (s_tasks s) = 1)) (\<lambda>one.
       tx_bind (tx_write (\<lambda>s. s\<lparr>s_tasks := update_rows P (\<lambda>r. r\<lparr>t_Type := t_Type t, t_Title := t_Title t,
         t_Description := t_Description t, t_SuccessCriteria := t_SuccessCriteria t,
         t_MinimumAction := t_MinimumAction t, t_BlockedReason := t_BlockedReason t,
         t_Status := t_Status t, t_Priority := t_Priority t, t_EstimateMinutes := t_EstimateMinutes t,
         t_Position := t_Position t, t_ParentID := t_ParentID t, t_DependsOn := t_DependsOn t,
         t_Revision := t_Revision t, t_UpdatedAt := env_now en\<rparr>) (s_tasks s)\<rparr>)) (\<lambda>_.
       tx_bind (tx_check one ErrRevision) (\<lambda>_.
       tx_bind (syncEditedTaskTodayItemsTx en userID before t) (\<lambda>_.
       if deferEffects then tx_return t
       else
         tx_bind (snapshotTaskTree en userID (t_GoalID t) ''manual task update'' ''user'') (\<lambda>_.
         tx_bind
           (if t_Status before \<noteq> t_Status t \<and> t_Status t \<noteq> ''ready'' \<and> t_Status t \<noteq> ''in_progress''
            then tx_bind (tx_read (\<lambda>s. map t_ID (subtreeTasksTx s userID t))) (releaseTodayItemsTx en userID)
            else tx_return ()) (\<lambda>_.
         tx_bind (refreshLifecycleScheduleTx en userID False) (\<lambda>_.
         tx_bind (createOutbox en userID ''task.updated'' [(''task_id'', PText k)]) (\<lambda>_.
         tx_return t))))))))))))))"

definition deleteTaskTx :: "env \<Rightarrow> id \<Rightarrow> id \<Rightarrow> int \<Rightarrow> task tx" where
  "deleteTaskTx en userID k expected =
    tx_bind (tx_try (\<lambda>s. RequireLiveTaskTx s userID k)) (\<lambda>top_task.
    tx_bind (tx_check (t_Revision top_task = expected) ErrRevision) (\<lambda>_.
    tx_bind (tx_read (\<lambda>s. map t_ID (filter (\<lambda>t. t_DeletedAt t = None) (subtreeTasksTx s userID top_task)))) (\<lambda>ids.
    tx_bind (tx_try (\<lambda>s. noActiveTaskSessionsTx s userID ids)) (\<lambda>_.
    tx_bind (NewID en ''deletion'') (\<lambda>batch.
    tx_bind (tx_write (delete_tasks en batch (\<lambda>t. t_UserID t = userID \<and> t_ID t \<in> set ids))) (\<lambda>_.
    tx_bind (snapshotTaskTree en userID (t_GoalID top_task) ''task subtree deleted'' ''user'') (\<lambda>_.
    tx_bind (releaseTodayItemsTx en userID ids) (\<lambda>_.
    tx_bind (refreshLifecycleScheduleTx en userID False) (\<lambda>_.
    tx_bind (createOutbox en userID ''task.deleted'' [(''task_id'', PText k), (''deletion_id'', PText batch)]) (\<lambda>_.
    tx_return (top_task\<lparr>t_DeletedAt := Some (env_now en), t_DeletionID := batch,
      t_Revision := expected + 1, t_UpdatedAt := env_now en\<rparr>)))))))))))"

definition find_task :: "store \<Rightarrow> id \<Rightarrow> id \<Rightarrow> task result" where
  "find_task s k userID =
    (case find (\<lambda>t. t_ID t = k \<and> t_UserID t = userID) (s_tasks s) of None \<Rightarrow> Inl ErrNotFound | Some t \<Rightarrow> Inr t)"

definition restoreTaskTx :: "env \<Rightarrow> id \<Rightarrow> id \<Rightarrow> int \<Rightarrow> task tx" where
  "restoreTaskTx en userID k expected =
    tx_bind (tx_try (\<lambda>s. find_task s k userID)) (\<lambda>top_task.
    tx_bind (tx_check (t_Revision top_task = expected) ErrRevision) (\<lambda>_.
    tx_bind (tx_check (\<not> (t_DeletedAt top_task = None \<or> t_DeletionID top_task = [])) ErrConflict) (\<lambda>_.
    tx_bind (tx_read (\<lambda>s. RequireLiveGoalTx s userID (t_GoalID top_task))) (\<lambda>goal.
    tx_bind (tx_check (\<not> isl goal) ErrConflict) (\<lambda>_.
    tx_bind (tx_read (\<lambda>s. case t_ParentID top_task of
        None \<Rightarrow> True
      | Some p \<Rightarrow> (case RequireLiveTaskTx s userID p of
          Inl _ \<Rightarrow> False | Inr parent \<Rightarrow> t_GoalID parent = t_GoalID top_task))) (\<lambda>parent_ok.
    tx_bind (tx_check parent_ok ErrConflict) (\<lambda>_.
    let batch = t_DeletionID top_task
    in tx_bind (tx_read (\<lambda>s. map t_ID (filter (\<lambda>t. t_DeletionID t = batch) (subtreeTasksTx s userID top_task)))) (\<lambda>ids.
       tx_bind (tx_write (restore_tasks en batch (\<lambda>t. t_UserID t = userID \<and> t_ID t \<in> set ids))) (\<lambda>_.
       tx_bind (snapshotTaskTree en userID (t_GoalID top_task) ''task subtree restored'' ''user'') (\<lambda>_.
       tx_bind (refreshLifecycleScheduleTx en userID True) (\<lambda>_.
       tx_bind (createOutbox en userID ''task.restored'' [(''task_id'', PText k), (''deletion_id'', PText batch)]) (\<lambda>_.
       tx_return (top_task\<lparr>t_DeletedAt := None, t_DeletionID := [], t_Revision := expected + 1,
         t_UpdatedAt := env_now en\<rparr>)))))))))))))"

end
