(* ===== verification/Progress.thy ===== *)
theory Progress
  imports Lifecycle
begin

text \<open>
  Recording work: \<open>application/planprogress.go\<close> and the operations \<open>CompleteTask\<close>,
  \<open>CompletePlanItemWithTask\<close>, \<open>UpdatePlanItem\<close>, \<open>StartSession\<close> and \<open>TransitionSession\<close> of
  \<open>application/app.go\<close>. The clock is read once per call, so an instant given by the client is
  compared with the instant of the transaction.
\<close>

subsection \<open>Guards and evidence\<close>

definition tx_executable :: "id \<Rightarrow> id \<Rightarrow> bool tx" where
  "tx_executable userID k = tx_total (\<lambda>s. taskExecutableTx s userID k)"

definition completeTaskFromDailyEligibleTx :: "id \<Rightarrow> task \<Rightarrow> bool tx" where
  "completeTaskFromDailyEligibleTx userID t =
    (if t_UserID t \<noteq> userID \<or> (t_Type t \<noteq> ''action'' \<and> t_Type t \<noteq> ''task'') \<or>
        trim_space (t_SuccessCriteria t) = []
     then tx_return False
     else tx_bind (tx_read (\<lambda>s. \<exists>c \<in> set (s_tasks s). t_UserID c = userID \<and> t_ParentID c = Some (t_ID t) \<and>
            counts_as_child c)) (\<lambda>children.
          if children then tx_return False else tx_executable userID (t_ID t)))"

definition actionablePlanItem :: "env \<Rightarrow> id \<Rightarrow> plan_item \<Rightarrow> store \<Rightarrow> unit result" where
  "actionablePlanItem en userID item s =
    bind_r (case i_TaskID item of
              None \<Rightarrow> Inr ()
            | Some k \<Rightarrow> bind_r (RequireLiveTaskTx s userID k) (\<lambda>_. Inr ())) (\<lambda>_.
    bind_r (find_plan s (i_PlanID item) userID) (\<lambda>plan.
    bind_r (guard_r (\<not> (p_Status plan \<noteq> ''active'' \<or> i_PlanRevision item \<noteq> p_CurrentRevision plan)) ErrConflict) (\<lambda>_.
    bind_r (find_user s userID) (\<lambda>u.
    let (loc, _) = resolveZone (env_zones en) [u_Timezone u]
    in guard_r (\<not> p_LocalDate plan > format_local loc (env_now en)) ErrConflict))))"

definition find_item :: "store \<Rightarrow> id \<Rightarrow> id \<Rightarrow> plan_item result" where
  "find_item s k userID =
    (case find (\<lambda>i. i_ID i = k \<and> i_UserID i = userID) (s_items s) of None \<Rightarrow> Inl ErrNotFound | Some i \<Rightarrow> Inr i)"

definition find_plan_item :: "store \<Rightarrow> id \<Rightarrow> id \<Rightarrow> id \<Rightarrow> plan_item result" where
  "find_plan_item s k planID userID =
    (case find (\<lambda>i. i_ID i = k \<and> i_PlanID i = planID \<and> i_UserID i = userID) (s_items s) of
       None \<Rightarrow> Inl ErrNotFound | Some i \<Rightarrow> Inr i)"

text \<open>The finished sessions of a logical item.\<close>

definition session_of_item :: "store \<Rightarrow> id \<Rightarrow> plan_item \<Rightarrow> work_session \<Rightarrow> bool" where
  "session_of_item s userID item w \<longleftrightarrow> w_UserID w = userID \<and>
    (\<exists>i \<in> set (joined_items s userID (i_PlanID item) (w_DailyPlanItemID w)). logicalItemID i = logicalItemID item)"

definition itemSessionsQuery :: "store \<Rightarrow> id \<Rightarrow> plan_item \<Rightarrow> work_session list" where
  "itemSessionsQuery s userID item = filter (\<lambda>w. session_of_item s userID item w \<and>
     (w_Status w = ''completed'' \<or> w_Status w = ''stopped'')) (s_sessions s)"

definition completionSessions :: "store \<Rightarrow> id \<Rightarrow> plan_item \<Rightarrow> id list \<Rightarrow> (id list \<times> int) result" where
  "completionSessions s userID item ids =
    (if \<exists>k \<in> set ids. trim_space k = [] then Inl ErrValidation
     else
       let unique = sort (remdups ids)
       in if length unique = 0 \<or> length unique > 1000 then Inl ErrValidation
          else
            let sessions = filter (\<lambda>w. w_ID w \<in> set unique) (itemSessionsQuery s userID item)
            in if length sessions \<noteq> length unique then Inl ErrValidation
               else Inr (unique, sum_list (map w_DurationSeconds sessions)))"

definition lastItemCompletion :: "store \<Rightarrow> id \<Rightarrow> plan_item \<Rightarrow> progress_event option" where
  "lastItemCompletion s userID item =
    (case sort_key (\<lambda>e. (Desc (e_CreatedAt e), Desc (e_ID e))) (filter (\<lambda>e. e_UserID e = userID \<and>
         attempt_type (e_Type e) \<and>
         (\<exists>i \<in> set (s_items s). e_PlanItemID e = Some (i_ID i) \<and> i_PlanID i = i_PlanID item \<and>
            logicalItemID i = logicalItemID item)) (s_events s)) of
       [] \<Rightarrow> None
     | e # _ \<Rightarrow> Some e)"

definition create_event :: "progress_event \<Rightarrow> unit tx" where
  "create_event e = tx_write (\<lambda>s. s\<lparr>s_events := s_events s @ [e]\<rparr>)"

subsection \<open>Reopening a completed item\<close>

text \<open>A task in the recycle bin does not keep a correction from being recorded.\<close>

definition executable_or_gone :: "store \<Rightarrow> id \<Rightarrow> id \<Rightarrow> bool result option" where
  "executable_or_gone s userID k =
    (case taskExecutableTx s userID k of Some (Inl ErrNotFound) \<Rightarrow> Some (Inr False) | r \<Rightarrow> r)"

definition reopened_status :: "id \<Rightarrow> plan_item \<Rightarrow> daily_plan \<Rightarrow> string tx" where
  "reopened_status userID item plan =
    (if p_Status plan \<noteq> ''active'' then tx_return ''not_completed''
     else case i_TaskID item of
       None \<Rightarrow> tx_return ''planned''
     | Some k \<Rightarrow> tx_bind (tx_total (\<lambda>s. executable_or_gone s userID k)) (\<lambda>ok.
         tx_return (if ok then ''planned'' else ''skipped'')))"

definition find_plan_by_id :: "store \<Rightarrow> id \<Rightarrow> daily_plan result" where
  "find_plan_by_id s planID =
    (case find (\<lambda>p. p_ID p = planID) (s_plans s) of None \<Rightarrow> Inl ErrRecordNotFound | Some p \<Rightarrow> Inr p)"

definition reopenPlanItemTx :: "env \<Rightarrow> id \<Rightarrow> plan_item \<Rightarrow> string \<Rightarrow> unit tx" where
  "reopenPlanItemTx en userID item summary =
    tx_bind (tx_read (\<lambda>s. lastItemCompletion s userID item)) (\<lambda>event.
    let evidence = \<lparr>ev_LogicalID = logicalItemID item, ev_WorkSessionIDs = [],
          ev_ReversesEventID = (case event of None \<Rightarrow> [] | Some e \<Rightarrow> e_ID e)\<rparr>
    in tx_bind (tx_try (\<lambda>s. find_plan_by_id s (i_PlanID item))) (\<lambda>plan.
       tx_bind (reopened_status userID item plan) (\<lambda>status.
       tx_bind (update_item (i_ID item) (i_Revision item) (\<lambda>i. i\<lparr>i_Status := status, i_CompletionType := [],
         i_CompletionSummary := [], i_Revision := i_Revision item + 1, i_UpdatedAt := env_now en\<rparr>)) (\<lambda>one.
       tx_bind (tx_check one ErrRevision) (\<lambda>_.
       tx_bind (NewID en ''progress'') (\<lambda>k.
       tx_bind (create_event \<lparr>e_ID = k, e_UserID = userID, e_Type = ''daily_item_reopened'',
         e_Summary = trim_space summary, e_EvidenceJSON = ItemEvidence evidence, e_GoalID = None,
         e_TaskID = i_TaskID item, e_PlanItemID = Some (i_ID item), e_OccurredAt = env_now en,
         e_CreatedAt = env_now en\<rparr>) (\<lambda>_.
       tx_bind (touchPlanTx en (i_PlanID item)) (\<lambda>_.
       createOutbox en userID ''daily_item.reopened''
         [(''item_id'', PText (i_ID item)), (''logical_id'', PText (logicalItemID item))]))))))))"

definition ReopenPlanItem :: "env \<Rightarrow> id \<Rightarrow> id \<Rightarrow> id \<Rightarrow> int \<Rightarrow> string \<Rightarrow> plan_item tx" where
  "ReopenPlanItem en userID planID itemID expected summary =
    tx_bind (tx_check (trim_space summary \<noteq> []) ErrValidation) (\<lambda>_.
    tx_bind (tx_try (\<lambda>s. find_plan_item s itemID planID userID)) (\<lambda>item.
    tx_bind (tx_check (i_Revision item = expected) ErrRevision) (\<lambda>_.
    tx_bind (tx_try (actionablePlanItem en userID item)) (\<lambda>_.
    tx_bind (tx_check (i_Status item = ''satisfied'') ErrConflict) (\<lambda>_.
    tx_bind (reopenPlanItemTx en userID item summary) (\<lambda>_.
    tx_try (\<lambda>s. find_plan_item s itemID planID userID)))))))"

text \<open>The current row of a logical item that was satisfied by focused time.\<close>

definition satisfied_by_time :: "store \<Rightarrow> id \<Rightarrow> plan_item \<Rightarrow> plan_item option" where
  "satisfied_by_time s userID original =
    find (\<lambda>i. i_UserID i = userID \<and> i_PlanID i = i_PlanID original \<and>
      logicalItemID i = logicalItemID original \<and> i_Status i = ''satisfied'' \<and> i_CompletionType i = ''time'' \<and>
      (\<exists>p \<in> set (s_plans s). p_ID p = i_PlanID i \<and> i_PlanRevision i = p_CurrentRevision p))
      (sort_key i_ID (s_items s))"

definition cited_sessions :: "progress_event option \<Rightarrow> id list" where
  "cited_sessions event =
    (case event of None \<Rightarrow> [] | Some e \<Rightarrow>
       (case e_EvidenceJSON e of ItemEvidence ev \<Rightarrow> ev_WorkSessionIDs ev | _ \<Rightarrow> []))"

definition remaining_seconds :: "store \<Rightarrow> id \<Rightarrow> plan_item \<Rightarrow> int" where
  "remaining_seconds s userID current =
    (let cited = cited_sessions (lastItemCompletion s userID current)
     in sum_list (map w_DurationSeconds (filter (\<lambda>w. cited \<noteq> [] \<longrightarrow> w_ID w \<in> set cited)
          (itemSessionsQuery s userID current))))"

text \<open>The UTF-8 bytes of the sentence recorded with the correction.\<close>

definition invalidated_summary :: string where
  "invalidated_summary =
    [CHR 0xE4, CHR 0xB8, CHR 0x93, CHR 0xE6, CHR 0xB3, CHR 0xA8, CHR 0xE8, CHR 0xAE, CHR 0xB0, CHR 0xE5,
     CHR 0xBD, CHR 0x95, CHR 0xE5, CHR 0xB7, CHR 0xB2, CHR 0xE4, CHR 0xBD, CHR 0x9C, CHR 0xE5, CHR 0xBA,
     CHR 0x9F, CHR 0xEF, CHR 0xBC, CHR 0x8C, CHR 0xE6, CHR 0x9C, CHR 0x89, CHR 0xE6, CHR 0x95, CHR 0x88,
     CHR 0xE6, CHR 0x97, CHR 0xB6, CHR 0xE9, CHR 0x95, CHR 0xBF, CHR 0xE4, CHR 0xB8, CHR 0x8D, CHR 0xE8,
     CHR 0xB6, CHR 0xB3, CHR 0xEF, CHR 0xBC, CHR 0x8C, CHR 0xE6, CHR 0x92, CHR 0xA4, CHR 0xE9, CHR 0x94,
     CHR 0x80, CHR 0xE5, CHR 0xBD, CHR 0x93, CHR 0xE6, CHR 0x97, CHR 0xA5, CHR 0xE5, CHR 0xAE, CHR 0x8C,
     CHR 0xE6, CHR 0x88, CHR 0x90]"

definition invalidateSessionCompletionTx :: "env \<Rightarrow> id \<Rightarrow> work_session \<Rightarrow> unit tx" where
  "invalidateSessionCompletionTx en userID session =
    (case w_DailyPlanItemID session of
       None \<Rightarrow> tx_return ()
     | Some k \<Rightarrow>
         tx_bind (tx_try (\<lambda>s. case find_item s k userID of Inl _ \<Rightarrow> Inl ErrRecordNotFound | r \<Rightarrow> r)) (\<lambda>original.
         tx_bind (tx_read (\<lambda>s. satisfied_by_time s userID original)) (\<lambda>found.
         (case found of
            None \<Rightarrow> tx_return ()
          | Some current \<Rightarrow>
              tx_bind (tx_read (\<lambda>s. remaining_seconds s userID current)) (\<lambda>total.
              if total \<ge> i_TargetMinutes current * 60 then tx_return ()
              else reopenPlanItemTx en userID current invalidated_summary)))))"

subsection \<open>Completing a task\<close>

text \<open>The guards of \<open>completeTaskTx\<close> after the revision: the new status and the type of the event.\<close>

definition completion_guard ::
    "id \<Rightarrow> task \<Rightarrow> string \<Rightarrow> string \<Rightarrow> bool \<Rightarrow> (string \<times> string) tx" where
  "completion_guard userID t eventType summary reopen =
    (if reopen then
       tx_bind (tx_check (t_Status t = ''completed'') ErrConflict) (\<lambda>_.
       tx_return (''in_progress'', ''task_reopened''))
     else
       tx_bind (tx_check (\<not> (trim_space summary = [] \<or> t_SuccessCriteria t = [] \<or>
         (eventType \<noteq> ''result'' \<and> eventType \<noteq> ''step''))) ErrValidation) (\<lambda>_.
       tx_bind (tx_check (\<not> closed_status (t_Status t)) ErrConflict) (\<lambda>_.
       tx_bind (tx_executable userID (t_ID t)) (\<lambda>eligible.
       tx_bind (tx_check eligible ErrConflict) (\<lambda>_.
       tx_return (''completed'', eventType))))))"

definition completeTaskTx ::
    "env \<Rightarrow> id \<Rightarrow> id \<Rightarrow> int \<Rightarrow> string \<Rightarrow> string \<Rightarrow> bool \<Rightarrow> evidence_json \<Rightarrow> task tx" where
  "completeTaskTx en userID k expected eventType summary reopen evidence =
    tx_bind (tx_try (\<lambda>s. RequireLiveTaskTx s userID k)) (\<lambda>t.
    tx_bind (tx_check (t_Revision t = expected) ErrRevision) (\<lambda>_.
    tx_bind (completion_guard userID t eventType summary reopen) (\<lambda>(status, eventType).
    let P = (\<lambda>r. t_ID r = k \<and> t_Revision r = expected)
    in tx_bind (tx_read (\<lambda>s. rows_affected P (s_tasks s) = 1)) (\<lambda>one.
       tx_bind (tx_write (\<lambda>s. s\<lparr>s_tasks := update_rows P (\<lambda>r. r\<lparr>t_Status := status,
         t_Revision := expected + 1, t_UpdatedAt := env_now en\<rparr>) (s_tasks s)\<rparr>)) (\<lambda>_.
       tx_bind (tx_check one ErrRevision) (\<lambda>_.
       tx_bind (NewID en ''progress'') (\<lambda>ek.
       tx_bind (create_event \<lparr>e_ID = ek, e_UserID = userID, e_Type = eventType, e_Summary = summary,
         e_EvidenceJSON = evidence, e_GoalID = Some (t_GoalID t), e_TaskID = Some (t_ID t),
         e_PlanItemID = None, e_OccurredAt = env_now en, e_CreatedAt = env_now en\<rparr>) (\<lambda>_.
       tx_bind (snapshotTaskTree en userID (t_GoalID t) eventType ''user'') (\<lambda>_.
       tx_bind (if reopen then tx_return ()
                else tx_bind (tx_read (\<lambda>s. map t_ID (subtreeTasksTx s userID t)))
                  (releaseTodayItemsTx en userID)) (\<lambda>_.
       tx_bind (refreshLifecycleScheduleTx en userID False) (\<lambda>_.
       tx_bind (createOutbox en userID ''task.status_changed''
         [(''task_id'', PText k), (''status'', PText status)]) (\<lambda>_.
       tx_return t))))))))))))"

definition CompleteTask :: "env \<Rightarrow> id \<Rightarrow> id \<Rightarrow> int \<Rightarrow> string \<Rightarrow> string \<Rightarrow> bool \<Rightarrow> task tx" where
  "CompleteTask en userID k expected eventType summary reopen =
    tx_bind (completeTaskTx en userID k expected eventType summary reopen NoEvidence) (\<lambda>_.
    tx_try (\<lambda>s. case find_task s k userID of Inl _ \<Rightarrow> Inl ErrRecordNotFound | r \<Rightarrow> r))"

subsection \<open>Completing an item\<close>

record completion_command =
  cc_PlanID :: id
  cc_ItemID :: id
  cc_Expected :: int
  cc_Type :: string
  cc_Summary :: string
  cc_WorkSessionIDs :: "id list"
  cc_CompleteTask :: bool
  cc_ExpectedTask :: int

definition satisfyItemTx :: "env \<Rightarrow> id \<Rightarrow> int \<Rightarrow> string \<Rightarrow> string \<Rightarrow> unit tx" where
  "satisfyItemTx en itemID expected completionType summary =
    tx_bind (update_item itemID expected (\<lambda>i. i\<lparr>i_Status := ''satisfied'', i_CompletionType := completionType,
      i_CompletionSummary := summary, i_Revision := expected + 1, i_UpdatedAt := env_now en\<rparr>)) (\<lambda>one.
    tx_check one ErrRevision)"

text \<open>The checks on the claim: the sessions it cites (for focused time only).\<close>

definition completion_claim :: "id \<Rightarrow> plan_item \<Rightarrow> completion_command \<Rightarrow> id list tx" where
  "completion_claim userID item c =
    tx_bind (tx_check (ValidateCompletionType (cc_Type c) (i_AllowedTypes item)) ErrValidation) (\<lambda>_.
    tx_bind
      (if cc_Type c = ''time''
       then tx_bind (tx_try (\<lambda>s. completionSessions s userID item (cc_WorkSessionIDs c))) (\<lambda>(ids, total).
            tx_bind (tx_check (\<not> total < i_TargetMinutes item * 60) ErrValidation) (\<lambda>_. tx_return ids))
       else tx_return []) (\<lambda>ids.
    tx_bind (tx_check (trim_space (cc_Summary c) \<noteq> []) ErrValidation) (\<lambda>_. tx_return ids)))"

text \<open>The whole task that a result of the day also delivers.\<close>

definition entire_task :: "id \<Rightarrow> plan_item \<Rightarrow> completion_command \<Rightarrow> task option tx" where
  "entire_task userID item c =
    (if \<not> cc_CompleteTask c then tx_return None
     else
       tx_bind (tx_check (\<not> (cc_Type c \<noteq> ''result'' \<or> i_TaskID item = None)) ErrValidation) (\<lambda>_.
       tx_bind (tx_try (\<lambda>s. RequireLiveTaskTx s userID (the (i_TaskID item)))) (\<lambda>t.
       tx_bind (tx_check (\<not> cc_ExpectedTask c \<le> 0) ErrPrecondition) (\<lambda>_.
       tx_bind (tx_check (t_Revision t = cc_ExpectedTask c) ErrRevision) (\<lambda>_.
       tx_bind (completeTaskFromDailyEligibleTx userID t) (\<lambda>eligible.
       tx_bind (tx_check eligible ErrConflict) (\<lambda>_.
       tx_return (Some t))))))))"

definition CompletePlanItemWithTask :: "env \<Rightarrow> id \<Rightarrow> completion_command \<Rightarrow> plan_item tx" where
  "CompletePlanItemWithTask en userID c =
    tx_bind (tx_try (\<lambda>s. find_item s (cc_ItemID c) userID)) (\<lambda>item.
    tx_bind (tx_check (i_Revision item = cc_Expected c) ErrRevision) (\<lambda>_.
    tx_bind (tx_check (\<not> (cc_PlanID c \<noteq> [] \<and> i_PlanID item \<noteq> cc_PlanID c)) ErrNotFound) (\<lambda>_.
    tx_bind (tx_try (actionablePlanItem en userID item)) (\<lambda>_.
    if i_Status item = ''satisfied'' then
      tx_bind (tx_check (\<not> cc_CompleteTask c) ErrConflict) (\<lambda>_. tx_return item)
    else
      tx_bind (tx_check (\<not> (i_Status item \<noteq> ''planned'' \<and> i_Status item \<noteq> ''in_progress'')) ErrConflict) (\<lambda>_.
      tx_bind (case i_TaskID item of None \<Rightarrow> tx_return True | Some k \<Rightarrow> tx_executable userID k) (\<lambda>eligible.
      tx_bind (tx_check eligible ErrConflict) (\<lambda>_.
      tx_bind (completion_claim userID item c) (\<lambda>sessionIDs.
      tx_bind (entire_task userID item c) (\<lambda>entire.
      tx_bind (satisfyItemTx en (cc_ItemID c) (cc_Expected c) (cc_Type c) (cc_Summary c)) (\<lambda>_.
      tx_bind (NewID en ''progress'') (\<lambda>ek.
      tx_bind (create_event \<lparr>e_ID = ek, e_UserID = userID, e_Type = cc_Type c,
        e_Summary = trim_space (cc_Summary c),
        e_EvidenceJSON = ItemEvidence \<lparr>ev_LogicalID = logicalItemID item, ev_WorkSessionIDs = sessionIDs,
          ev_ReversesEventID = []\<rparr>,
        e_GoalID = None, e_TaskID = i_TaskID item, e_PlanItemID = Some (i_ID item),
        e_OccurredAt = env_now en, e_CreatedAt = env_now en\<rparr>) (\<lambda>_.
      tx_bind (touchPlanTx en (i_PlanID item)) (\<lambda>_.
      tx_bind
        (case entire of
           None \<Rightarrow> tx_return ()
         | Some t \<Rightarrow> tx_bind (completeTaskTx en userID (t_ID t) (cc_ExpectedTask c) ''result''
             (trim_space (cc_Summary c)) False (TaskEvidence (i_ID item) ek (logicalItemID item))) (\<lambda>_. tx_return ())) (\<lambda>_.
      tx_bind (createOutbox en userID ''daily_item.satisfied'' [(''item_id'', PText (i_ID item))]) (\<lambda>_.
      tx_try (\<lambda>s. find_item s (cc_ItemID c) userID))))))))))))))))"

subsection \<open>Editing an item\<close>

definition item_text :: "changes \<Rightarrow> string \<Rightarrow> string \<Rightarrow> string result" where
  "item_text changes key old =
    (if map_of changes key = None then Inr old
     else bind_r (changeText changes key []) (\<lambda>t. if t = [] then Inl ErrValidation else Inr t))"

definition item_edit :: "plan_item \<Rightarrow> changes \<Rightarrow> plan_item result" where
  "item_edit item changes =
    bind_r (item_text changes ''title'' (i_Title item)) (\<lambda>title.
    bind_r (item_text changes ''commitment'' (i_Commitment item)) (\<lambda>commitment.
    bind_r (item_text changes ''minimum_action'' (i_MinimumAction item)) (\<lambda>minimum.
    bind_r (changeInt changes ''position'' (i_Position item)) (\<lambda>position.
    if map_of changes ''position'' \<noteq> None \<and> position < 0 then Inl ErrValidation
    else Inr (item\<lparr>i_Title := title, i_Commitment := commitment, i_MinimumAction := minimum,
      i_Position := position\<rparr>)))))"

definition update_request :: "changes \<Rightarrow> (int option \<times> bool) result" where
  "update_request changes =
    bind_r (case map_of changes ''status'' of
              Some v \<Rightarrow> guard_r (v = AnyString ''skipped'') ErrValidation
            | None \<Rightarrow> Inr ()) (\<lambda>_.
    bind_r (guard_r (keys_allowed [''title'', ''commitment'', ''minimum_action'', ''target_minutes'', ''position'',
      ''status''] changes) ErrValidation) (\<lambda>_.
    if map_of changes ''target_minutes'' = None then Inr (None, map_of changes ''status'' \<noteq> None)
    else case changeInt changes ''target_minutes'' 0 of
      Inl e \<Rightarrow> Inl ErrValidation
    | Inr minutes \<Rightarrow>
        if minutes < 1 \<or> minutes > 480 then Inl ErrValidation
        else Inr (Some minutes, map_of changes ''status'' \<noteq> None)))"

definition UpdatePlanItem :: "env \<Rightarrow> id \<Rightarrow> id \<Rightarrow> id \<Rightarrow> int \<Rightarrow> changes \<Rightarrow> plan_item tx" where
  "UpdatePlanItem en userID planID itemID expected changes =
    tx_bind (tx_try (\<lambda>_. update_request changes)) (\<lambda>(minutes, skip).
    tx_bind (tx_try (\<lambda>s. find_plan_item s itemID planID userID)) (\<lambda>item.
    tx_bind (tx_check (i_Revision item = expected) ErrRevision) (\<lambda>_.
    tx_bind (tx_try (actionablePlanItem en userID item)) (\<lambda>_.
    tx_bind (tx_check (i_Status item \<noteq> ''satisfied'') ErrConflict) (\<lambda>_.
    tx_bind (tx_try (\<lambda>_. item_edit item changes)) (\<lambda>edited.
    tx_bind (update_item itemID expected (\<lambda>i. i\<lparr>i_Title := i_Title edited, i_Commitment := i_Commitment edited,
      i_MinimumAction := i_MinimumAction edited, i_Position := i_Position edited,
      i_TargetMinutes := (case minutes of None \<Rightarrow> i_TargetMinutes i | Some m \<Rightarrow> m),
      i_Status := (if skip then ''skipped'' else i_Status i),
      i_Revision := expected + 1, i_UpdatedAt := env_now en\<rparr>)) (\<lambda>one.
    tx_bind (tx_check one ErrRevision) (\<lambda>_.
    tx_bind (touchPlanTx en planID) (\<lambda>_.
    tx_try (\<lambda>s. case find (\<lambda>i. i_ID i = itemID) (s_items s) of None \<Rightarrow> Inl ErrRecordNotFound | Some i \<Rightarrow> Inr i))))))))))"

end
