(* ===== verification/Work_Sessions.thy ===== *)
theory Work_Sessions
  imports Progress
begin

text \<open>
  Focus sessions: \<open>StartSession\<close> and \<open>TransitionSession\<close> of \<open>application/app.go\<close>. The
  statuses form the machine running, paused, completed or stopped, invalidated. A difference of
  instants is cut to whole seconds as \<open>int(d.Seconds())\<close> does (exact for sessions shorter than
  48 days, where the seconds fit the mantissa with their nanoseconds).
\<close>

definition whole_seconds :: "int \<Rightarrow> int" where
  "whole_seconds d = (if 0 \<le> d then d div second else - (- d div second))"

definition create_session :: "work_session \<Rightarrow> unit tx" where
  "create_session w =
    tx_bind (tx_read (\<lambda>s. \<exists>v \<in> set (s_sessions s). w_ID v = w_ID w \<or>
      w_UserID v = w_UserID w \<and> (w_Status v = ''running'' \<or> w_Status v = ''paused''))) (\<lambda>taken.
    tx_bind (tx_check (\<not> taken) ErrActiveSession) (\<lambda>_.
    tx_write (\<lambda>s. s\<lparr>s_sessions := s_sessions s @ [w]\<rparr>)))"

text \<open>The check on the daily item a session is started for, with its logical identifier.\<close>

definition session_item :: "env \<Rightarrow> id \<Rightarrow> work_session \<Rightarrow> id tx" where
  "session_item en userID w =
    (case w_DailyPlanItemID w of
       None \<Rightarrow> tx_return (w_DailyPlanItemLogicalID w)
     | Some k \<Rightarrow>
         tx_bind (tx_try (\<lambda>s. find_item s k userID)) (\<lambda>item.
         tx_bind (tx_check (i_TaskID item = Some (w_TaskID w)) ErrValidation) (\<lambda>_.
         tx_bind (tx_try (actionablePlanItem en userID item)) (\<lambda>_.
         tx_bind (tx_check (i_Status item = ''planned'' \<or> i_Status item = ''in_progress'') ErrConflict) (\<lambda>_.
         tx_return (logicalItemID item))))))"

definition StartSession :: "env \<Rightarrow> id \<Rightarrow> work_session \<Rightarrow> work_session tx" where
  "StartSession en userID session =
    tx_bind (tx_executable userID (w_TaskID session)) (\<lambda>ok.
    tx_bind (tx_check ok ErrConflict) (\<lambda>_.
    tx_bind (session_item en userID session) (\<lambda>logical.
    let started = (if w_StartedAt session = 0 then env_now en else w_StartedAt session)
    in tx_bind (tx_check (\<not> started > env_now en + 5 * second) ErrValidation) (\<lambda>_.
       tx_bind (NewID en ''work'') (\<lambda>k.
       let w = session\<lparr>w_DailyPlanItemLogicalID := logical, w_StartedAt := started, w_ID := k,
             w_UserID := userID, w_Status := ''running'', w_Revision := 1,
             w_LastTransitionAt := Some started, w_CreatedAt := env_now en, w_UpdatedAt := env_now en,
             w_SessionType := (if w_SessionType session = [] then ''pomodoro'' else w_SessionType session),
             w_TargetMinutes := (if w_TargetMinutes session = 0 then 25 else w_TargetMinutes session)\<rparr>
       in tx_bind (tx_check (\<not> (w_TargetMinutes w < 1 \<or> w_TargetMinutes w > 480)) ErrValidation) (\<lambda>_.
          tx_bind (create_session w) (\<lambda>_. tx_return w)))))))"

text \<open>The instant a transition may carry.\<close>

definition transition_time_ok :: "env \<Rightarrow> work_session \<Rightarrow> time \<Rightarrow> bool" where
  "transition_time_ok en w at_t \<longleftrightarrow>
    \<not> (at_t > env_now en + 5 * second \<or> at_t < w_StartedAt w \<or>
       (case w_PausedAt w of None \<Rightarrow> False | Some p \<Rightarrow> at_t < p) \<or>
       (case w_LastTransitionAt w of None \<Rightarrow> False | Some l \<Rightarrow> at_t < l))"

definition session_duration :: "work_session \<Rightarrow> time \<Rightarrow> int" where
  "session_duration w at_t =
    (let d = whole_seconds (at_t - w_StartedAt w) - w_AccumulatedSeconds w;
         d = (case (w_Status w = ''paused'', w_PausedAt w) of
                (True, Some p) \<Rightarrow> d - whole_seconds (at_t - p) | _ \<Rightarrow> d)
     in if d < 0 then 0 else d)"

text \<open>The columns a transition writes, or its refusal.\<close>

definition session_step :: "work_session \<Rightarrow> string \<Rightarrow> string \<Rightarrow> string \<Rightarrow> time \<Rightarrow> work_session result" where
  "session_step w action outcome note at_t =
    (let w' = w\<lparr>w_LastTransitionAt := Some at_t\<rparr>
     in if action = ''pause'' then
          if w_Status w \<noteq> ''running'' then Inl ErrConflict
          else Inr (w'\<lparr>w_Status := ''paused'', w_PausedAt := Some at_t\<rparr>)
        else if action = ''resume'' then
          (case w_PausedAt w of
             None \<Rightarrow> Inl ErrConflict
           | Some p \<Rightarrow>
               if w_Status w \<noteq> ''paused'' then Inl ErrConflict
               else Inr (w'\<lparr>w_Status := ''running'',
                 w_AccumulatedSeconds := w_AccumulatedSeconds w + whole_seconds (at_t - p), w_PausedAt := None\<rparr>))
        else if action = ''complete'' \<or> action = ''stop'' then
          if w_Status w \<noteq> ''running'' \<and> w_Status w \<noteq> ''paused'' then Inl ErrConflict
          else Inr (w'\<lparr>w_Status := (if action = ''stop'' then ''stopped'' else ''completed''),
            w_EndedAt := Some at_t, w_DurationSeconds := session_duration w at_t,
            w_Outcome := outcome, w_Note := note\<rparr>)
        else if action = ''invalidate'' then
          if w_Status w \<noteq> ''completed'' \<and> w_Status w \<noteq> ''stopped'' then Inl ErrConflict
          else Inr (w'\<lparr>w_Status := ''invalidated''\<rparr>)
        else Inl ErrValidation)"

definition find_session :: "store \<Rightarrow> id \<Rightarrow> id \<Rightarrow> work_session result" where
  "find_session s k userID =
    (case find (\<lambda>w. w_ID w = k \<and> w_UserID w = userID) (s_sessions s) of None \<Rightarrow> Inl ErrNotFound | Some w \<Rightarrow> Inr w)"

definition TransitionSession ::
    "env \<Rightarrow> id \<Rightarrow> id \<Rightarrow> int \<Rightarrow> string \<Rightarrow> string \<Rightarrow> string \<Rightarrow> time \<Rightarrow> work_session tx" where
  "TransitionSession en userID k expected action outcome note at_time =
    tx_bind (tx_try (\<lambda>s. find_session s k userID)) (\<lambda>w.
    tx_bind (tx_check (w_Revision w = expected) ErrRevision) (\<lambda>_.
    let at_t = (if at_time = 0 then env_now en else at_time)
    in tx_bind (tx_check (transition_time_ok en w at_t) ErrValidation) (\<lambda>_.
       tx_bind (tx_try (\<lambda>_. session_step w action outcome note at_t)) (\<lambda>w'.
       let P = (\<lambda>v. w_ID v = k \<and> w_Revision v = expected)
       in tx_bind (tx_read (\<lambda>s. rows_affected P (s_sessions s) = 1)) (\<lambda>one.
          tx_bind (tx_write (\<lambda>s. s\<lparr>s_sessions := update_rows P (\<lambda>v. v\<lparr>
            w_Status := w_Status w', w_PausedAt := w_PausedAt w', w_AccumulatedSeconds := w_AccumulatedSeconds w',
            w_EndedAt := w_EndedAt w', w_DurationSeconds := w_DurationSeconds w', w_Outcome := w_Outcome w',
            w_Note := w_Note w', w_LastTransitionAt := w_LastTransitionAt w', w_Revision := expected + 1,
            w_UpdatedAt := env_now en\<rparr>) (s_sessions s)\<rparr>)) (\<lambda>_.
          tx_bind (tx_check one ErrRevision) (\<lambda>_.
          tx_bind (if action = ''invalidate'' then invalidateSessionCompletionTx en userID w else tx_return ()) (\<lambda>_.
          tx_try (\<lambda>s. case find (\<lambda>v. w_ID v = k) (s_sessions s) of
            None \<Rightarrow> Inl ErrRecordNotFound | Some v \<Rightarrow> Inr v)))))))))"

end
