(* ===== verification/Session_Properties.thy ===== *)
theory Session_Properties
  imports Work_Sessions Sample_Data
begin

text \<open>
  What a focus session records. The abstract machine keeps exact times: when the session began,
  how long it was paused, how long it was worked on. The code keeps whole seconds and computes the
  duration at the end. The simulation relates the two through every transition.
\<close>

subsection \<open>Exact times\<close>

datatype phase = Running | Paused | Finished | Void

record focus =
  f_Phase :: phase
  f_Start :: time
  f_Last :: time
  f_Paused :: int
  f_Since :: time
  f_Pauses :: nat
  f_Worked :: int

text \<open>The transitions of a session, with times to the nanosecond.\<close>

definition focus_step :: "focus \<Rightarrow> string \<Rightarrow> time \<Rightarrow> focus option" where
  "focus_step f action at_t =
    (let f' = f\<lparr>f_Last := at_t\<rparr>; pause = (if f_Phase f = Paused then at_t - f_Since f else 0);
         paused = f_Paused f + pause; pauses = f_Pauses f + (if f_Phase f = Paused then 1 else 0)
     in if action = ''pause'' then
          if f_Phase f = Running then Some (f'\<lparr>f_Phase := Paused, f_Since := at_t\<rparr>) else None
        else if action = ''resume'' then
          if f_Phase f = Paused then Some (f'\<lparr>f_Phase := Running, f_Paused := paused, f_Pauses := pauses\<rparr>) else None
        else if action = ''complete'' \<or> action = ''stop'' then
          if f_Phase f = Running \<or> f_Phase f = Paused
          then Some (f'\<lparr>f_Phase := Finished, f_Paused := paused, f_Pauses := pauses,
            f_Worked := at_t - f_Start f - paused\<rparr>) else None
        else if action = ''invalidate'' then
          if f_Phase f = Finished then Some (f'\<lparr>f_Phase := Void\<rparr>) else None
        else None)"

fun phase_of :: "string \<Rightarrow> phase option" where
  "phase_of st =
    (if st = ''running'' then Some Running else if st = ''paused'' then Some Paused
     else if st = ''completed'' \<or> st = ''stopped'' then Some Finished
     else if st = ''invalidated'' then Some Void else None)"

declare phase_of.simps [simp del]

lemma phase_of_iff [simp]:
  "phase_of st = Some Running \<longleftrightarrow> st = ''running''"
  "phase_of st = Some Paused \<longleftrightarrow> st = ''paused''"
  "phase_of st = Some Finished \<longleftrightarrow> st = ''completed'' \<or> st = ''stopped''"
  "phase_of st = Some Void \<longleftrightarrow> st = ''invalidated''"
  by (auto simp: phase_of.simps)

text \<open>How the row of a session stands for the exact times.\<close>

definition session_rel :: "work_session \<Rightarrow> focus \<Rightarrow> bool" where
  "session_rel w f \<longleftrightarrow>
    phase_of (w_Status w) = Some (f_Phase f) \<and> w_StartedAt w = f_Start f \<and>
    w_LastTransitionAt w = Some (f_Last f) \<and> f_Start f \<le> f_Last f \<and> 0 \<le> w_AccumulatedSeconds w \<and>
    (\<forall>p. w_PausedAt w = Some p \<longrightarrow> p \<le> f_Last f) \<and>
    (f_Phase f = Running \<or> f_Phase f = Paused \<longrightarrow>
       w_AccumulatedSeconds w * second \<le> f_Paused f \<and>
       f_Paused f \<le> w_AccumulatedSeconds w * second + int (f_Pauses f) * (second - 1) \<and>
       f_Paused f \<le> (if f_Phase f = Paused then f_Since f else f_Last f) - f_Start f) \<and>
    (f_Phase f = Running \<longrightarrow> w_PausedAt w = None) \<and>
    (f_Phase f = Paused \<longrightarrow> w_PausedAt w = Some (f_Since f) \<and> f_Since f = f_Last f) \<and>
    (f_Phase f = Finished \<or> f_Phase f = Void \<longrightarrow>
       0 \<le> f_Worked f \<and> 0 \<le> w_DurationSeconds w \<and> f_Worked f - second < w_DurationSeconds w * second \<and>
       w_DurationSeconds w * second \<le> f_Worked f + int (f_Pauses f) * (second - 1))"

lemma whole_seconds_bounds:
  "0 \<le> d \<Longrightarrow> 0 \<le> whole_seconds d \<and> whole_seconds d * 1000000000 \<le> d \<and> d < whole_seconds d * 1000000000 + 1000000000"
  unfolding whole_seconds_def second_def
  using div_times_le [of 1000000000 d] by (simp add: pos_imp_zdiv_nonneg_iff)

text \<open>The refusals: a transition the status does not allow, and an action there is not.\<close>

definition session_action :: "string \<Rightarrow> bool" where
  "session_action a \<longleftrightarrow> a \<in> {''pause'', ''resume'', ''complete'', ''stop'', ''invalidate''}"

lemma session_duration_running:
  assumes "w_Status w = ''running''" and "w_StartedAt w \<le> at_t" and "0 \<le> w_AccumulatedSeconds w"
    and "w_AccumulatedSeconds w * second \<le> p" and "p \<le> w_AccumulatedSeconds w * second + int n * (second - 1)"
    and "p \<le> at_t - w_StartedAt w"
  shows "0 \<le> session_duration w at_t \<and> at_t - w_StartedAt w - p - second < session_duration w at_t * second \<and>
    session_duration w at_t * second \<le> at_t - w_StartedAt w - p + int n * (second - 1)"
proof -
  define q where "q = whole_seconds (at_t - w_StartedAt w)"
  have q: "0 \<le> q" "q * 1000000000 \<le> at_t - w_StartedAt w" "at_t - w_StartedAt w < q * 1000000000 + 1000000000"
    using whole_seconds_bounds [of "at_t - w_StartedAt w"] assms(2) by (simp_all add: q_def)
  have d: "session_duration w at_t = (if q - w_AccumulatedSeconds w < 0 then 0 else q - w_AccumulatedSeconds w)"
    using assms(1) by (simp add: session_duration_def q_def Let_def)
  have "w_AccumulatedSeconds w < q + 1" using assms(4,6) q(3) unfolding second_def by linarith
  then have "session_duration w at_t = q - w_AccumulatedSeconds w" using d by simp
  then show ?thesis using assms q \<open>w_AccumulatedSeconds w < q + 1\<close> unfolding second_def by simp
qed

lemma session_duration_paused:
  assumes "w_Status w = ''paused''" and "w_PausedAt w = Some s0" and "s0 \<le> at_t" and "w_StartedAt w \<le> s0"
    and "0 \<le> w_AccumulatedSeconds w" and "w_AccumulatedSeconds w * second \<le> p"
    and "p \<le> w_AccumulatedSeconds w * second + int n * (second - 1)" and "p \<le> s0 - w_StartedAt w"
  shows "0 \<le> session_duration w at_t \<and>
    at_t - w_StartedAt w - (p + (at_t - s0)) - second < session_duration w at_t * second \<and>
    session_duration w at_t * second \<le> at_t - w_StartedAt w - (p + (at_t - s0)) + int (n + 1) * (second - 1)"
proof -
  define q where "q = whole_seconds (at_t - w_StartedAt w)"
  define r where "r = whole_seconds (at_t - s0)"
  have q: "0 \<le> q" "q * 1000000000 \<le> at_t - w_StartedAt w" "at_t - w_StartedAt w < q * 1000000000 + 1000000000"
    using whole_seconds_bounds [of "at_t - w_StartedAt w"] assms(3,4) by (simp_all add: q_def)
  have r: "0 \<le> r" "r * 1000000000 \<le> at_t - s0" "at_t - s0 < r * 1000000000 + 1000000000"
    using whole_seconds_bounds [of "at_t - s0"] assms(3) by (simp_all add: r_def)
  define d where "d = q - w_AccumulatedSeconds w - r"
  have "session_duration w at_t = (if d < 0 then 0 else d)"
    using assms(1,2) by (simp add: session_duration_def q_def r_def d_def Let_def)
  moreover have "0 \<le> d" using assms(6,8) q(3) r(2) unfolding second_def d_def by linarith
  ultimately have d: "session_duration w at_t = d" by simp
  have "int (n + 1) * (second - 1) = int n * (second - 1) + (second - 1)" by (simp add: algebra_simps)
  then show ?thesis unfolding d using \<open>0 \<le> d\<close> assms(6,7) q r unfolding second_def d_def by (simp add: algebra_simps)
qed

lemma session_resume:
  assumes "s0 \<le> at_t" and "0 \<le> acc" and "acc * second \<le> p" and "p \<le> acc * second + int n * (second - 1)"
  shows "0 \<le> acc + whole_seconds (at_t - s0) \<and> (acc + whole_seconds (at_t - s0)) * second \<le> p + (at_t - s0) \<and>
    p + (at_t - s0) \<le> (acc + whole_seconds (at_t - s0)) * second + int (n + 1) * (second - 1)"
proof -
  define r where "r = whole_seconds (at_t - s0)"
  have r: "0 \<le> r" "r * 1000000000 \<le> at_t - s0" "at_t - s0 < r * 1000000000 + 1000000000"
    using whole_seconds_bounds [of "at_t - s0"] assms(1) by (simp_all add: r_def)
  have "int (n + 1) * (second - 1) = int n * (second - 1) + (second - 1)" by (simp add: algebra_simps)
  then show ?thesis using assms r unfolding r_def [symmetric] second_def by (simp add: algebra_simps)
qed

subsection \<open>The simulation\<close>

definition step_simulated :: "work_session \<Rightarrow> focus \<Rightarrow> string \<Rightarrow> string \<Rightarrow> string \<Rightarrow> time \<Rightarrow> bool" where
  "step_simulated w f action outcome note at_t \<longleftrightarrow>
    (case focus_step f action at_t of
       None \<Rightarrow> session_step w action outcome note at_t
         = Inl (if session_action action then ErrConflict else ErrValidation)
     | Some f' \<Rightarrow> \<exists>w'. session_step w action outcome note at_t = Inr w' \<and> session_rel w' f')"

lemma session_rel_phase: "session_rel w f \<Longrightarrow>
    (f_Phase f = Running \<longleftrightarrow> w_Status w = ''running'') \<and> (f_Phase f = Paused \<longleftrightarrow> w_Status w = ''paused'') \<and>
    (f_Phase f = Finished \<longleftrightarrow> w_Status w = ''completed'' \<or> w_Status w = ''stopped'')"
proof -
  assume "session_rel w f"
  then have "phase_of (w_Status w) = Some (f_Phase f)" by (simp add: session_rel_def)
  then have "f_Phase f = ph \<longleftrightarrow> phase_of (w_Status w) = Some ph" for ph by auto
  then show ?thesis by (simp only: phase_of_iff)
qed

lemma step_pause:
  assumes "session_rel w f" and "f_Last f \<le> at_t"
  shows "step_simulated w f ''pause'' outcome note at_t"
proof (cases "f_Phase f = Running")
  case True
  with assms session_rel_phase [OF assms(1)] show ?thesis
    by (auto simp: step_simulated_def focus_step_def session_step_def session_rel_def Let_def)
next
  case False
  with session_rel_phase [OF assms(1)] show ?thesis
    by (simp add: step_simulated_def focus_step_def session_step_def session_action_def Let_def)
qed

lemma step_resume:
  assumes "session_rel w f" and "f_Last f \<le> at_t"
  shows "step_simulated w f ''resume'' outcome note at_t"
proof (cases "f_Phase f = Paused")
  case True
  with assms(1) have p: "w_PausedAt w = Some (f_Since f)" "f_Since f = f_Last f" "w_Status w = ''paused''"
    "0 \<le> w_AccumulatedSeconds w" "w_AccumulatedSeconds w * second \<le> f_Paused f"
    "f_Paused f \<le> w_AccumulatedSeconds w * second + int (f_Pauses f) * (second - 1)"
    "f_Paused f \<le> f_Since f - f_Start f" "f_Start f \<le> f_Last f" "w_StartedAt w = f_Start f"
    by (auto simp: session_rel_def)
  from session_resume [OF _ p(4-6), of "f_Since f" at_t] p(2) assms(2) True p show ?thesis
    by (simp add: step_simulated_def focus_step_def session_step_def session_rel_def Let_def add_ac)
next
  case False
  with session_rel_phase [OF assms(1)] show ?thesis
    by (simp add: step_simulated_def focus_step_def session_step_def session_action_def Let_def split: option.split)
qed

lemma step_finish_rel:
  assumes "session_rel w f" and "f_Last f \<le> at_t" and "status = ''stopped'' \<or> status = ''completed''"
    and "0 \<le> worked" "0 \<le> d" "worked - second < d * second" "d * second \<le> worked + int n * (second - 1)"
  shows "session_rel (w\<lparr>w_LastTransitionAt := Some at_t, w_Status := status, w_EndedAt := Some at_t,
      w_DurationSeconds := d, w_Outcome := outcome, w_Note := note\<rparr>)
    (f\<lparr>f_Last := at_t, f_Phase := Finished, f_Paused := paused, f_Pauses := n, f_Worked := worked\<rparr>)"
proof -
  have "phase_of status = Some Finished" using assms(3) by auto
  moreover have "f_Start f \<le> at_t" and "\<forall>p. w_PausedAt w = Some p \<longrightarrow> p \<le> at_t"
    using assms(1,2) by (auto simp: session_rel_def)
  ultimately show ?thesis using assms(1,4-7) by (simp add: session_rel_def)
qed

lemma step_finish:
  assumes "session_rel w f" and "f_Last f \<le> at_t" and "action = ''complete'' \<or> action = ''stop''"
  shows "step_simulated w f action outcome note at_t"
proof -
  let ?status = "if action = ''stop'' then ''stopped'' else ''completed''"
  let ?w = "\<lambda>d. w\<lparr>w_LastTransitionAt := Some at_t, w_Status := ?status, w_EndedAt := Some at_t,
      w_DurationSeconds := d, w_Outcome := outcome, w_Note := note\<rparr>"
  let ?f = "\<lambda>paused n worked. f\<lparr>f_Last := at_t, f_Phase := Finished, f_Paused := paused, f_Pauses := n,
      f_Worked := worked\<rparr>"
  have st: "?status = ''stopped'' \<or> ?status = ''completed''" by simp
  have step: "session_step w action outcome note at_t =
      (if w_Status w \<noteq> ''running'' \<and> w_Status w \<noteq> ''paused'' then Inl ErrConflict
       else Inr (?w (session_duration w at_t)))"
    using assms(3) by (auto simp: session_step_def Let_def)
  from assms(1) have base: "w_StartedAt w = f_Start f" "0 \<le> w_AccumulatedSeconds w" "f_Start f \<le> f_Last f"
    by (auto simp: session_rel_def)
  note status = session_rel_phase [OF assms(1)]
  consider "f_Phase f = Running" | "f_Phase f = Paused" | "f_Phase f \<noteq> Running" "f_Phase f \<noteq> Paused" by blast
  then show ?thesis
  proof cases
    case 1
    with assms(1) have p: "w_Status w = ''running''" "w_AccumulatedSeconds w * second \<le> f_Paused f"
      "f_Paused f \<le> w_AccumulatedSeconds w * second + int (f_Pauses f) * (second - 1)"
      "f_Paused f \<le> f_Last f - f_Start f" by (auto simp: session_rel_def)
    have le: "f_Paused f \<le> at_t - w_StartedAt w" "w_StartedAt w \<le> at_t" using p(4) assms(2) base by simp_all
    note d = session_duration_running [OF p(1) le(2) base(2) p(2,3) le(1), unfolded base(1)]
    have "focus_step f action at_t = Some (?f (f_Paused f) (f_Pauses f) (at_t - f_Start f - f_Paused f))"
      using 1 assms(3) by (auto simp: focus_step_def Let_def)
    moreover have "session_rel (?w (session_duration w at_t))
        (?f (f_Paused f) (f_Pauses f) (at_t - f_Start f - f_Paused f))"
      using le base(1) d by (intro step_finish_rel [OF assms(1,2) st]) auto
    ultimately show ?thesis using step p(1) by (simp add: step_simulated_def)
  next
    case 2
    with assms(1) have p: "w_PausedAt w = Some (f_Since f)" "f_Since f = f_Last f" "w_Status w = ''paused''"
      "w_AccumulatedSeconds w * second \<le> f_Paused f"
      "f_Paused f \<le> w_AccumulatedSeconds w * second + int (f_Pauses f) * (second - 1)"
      "f_Paused f \<le> f_Since f - f_Start f" by (auto simp: session_rel_def)
    have le: "f_Since f \<le> at_t" "w_StartedAt w \<le> f_Since f" "f_Paused f \<le> f_Since f - w_StartedAt w"
      using p assms(2) base by simp_all
    note d = session_duration_paused [OF p(3,1) le(1,2) base(2) p(4,5) le(3), unfolded base(1)]
    let ?p = "f_Paused f + (at_t - f_Since f)"
    have "focus_step f action at_t = Some (?f ?p (f_Pauses f + 1) (at_t - f_Start f - ?p))"
      using 2 assms(3) by (auto simp: focus_step_def Let_def)
    moreover have "session_rel (?w (session_duration w at_t)) (?f ?p (f_Pauses f + 1) (at_t - f_Start f - ?p))"
      using p(6) d by (intro step_finish_rel [OF assms(1,2) st]) auto
    ultimately show ?thesis using step p(3) by (simp add: step_simulated_def)
  next
    case 3
    then have "focus_step f action at_t = None" using assms(3) by (auto simp: focus_step_def Let_def)
    moreover have "session_action action" using assms(3) by (auto simp: session_action_def)
    ultimately show ?thesis using status 3 step by (simp add: step_simulated_def)
  qed
qed

lemma step_invalidate:
  assumes "session_rel w f" and "f_Last f \<le> at_t"
  shows "step_simulated w f ''invalidate'' outcome note at_t"
proof (cases "f_Phase f = Finished")
  case True
  with assms session_rel_phase [OF assms(1)] show ?thesis
    by (auto simp: step_simulated_def focus_step_def session_step_def session_rel_def Let_def)
next
  case False
  with session_rel_phase [OF assms(1)] show ?thesis
    by (simp add: step_simulated_def focus_step_def session_step_def session_action_def Let_def)
qed

lemma step_simulation:
  assumes "session_rel w f" and "f_Last f \<le> at_t"
  shows "step_simulated w f action outcome note at_t"
proof (cases "session_action action")
  case True
  then show ?thesis
    using step_pause [OF assms] step_resume [OF assms] step_finish [OF assms] step_invalidate [OF assms]
    by (auto simp: session_action_def)
next
  case False
  then show ?thesis
    by (simp add: step_simulated_def focus_step_def session_step_def session_action_def Let_def)
qed

subsection \<open>The table of sessions\<close>

lemma reopenPlanItemTx_sessions: "tx_keeps s_sessions (reopenPlanItemTx en u item summary)"
  unfolding reopenPlanItemTx_def reopened_status_def update_item_def create_event_def touchPlanTx_def Let_def
  by (intro tx_frame) simp_all

lemma invalidateSessionCompletionTx_sessions: "tx_keeps s_sessions (invalidateSessionCompletionTx en u w)"
  unfolding invalidateSessionCompletionTx_def by (intro tx_frame reopenPlanItemTx_sessions)

text \<open>The columns a transition copies to the stored row.\<close>

definition transitioned :: "env \<Rightarrow> int \<Rightarrow> work_session \<Rightarrow> work_session \<Rightarrow> work_session" where
  "transitioned en expected w' v = v\<lparr>
     w_Status := w_Status w', w_PausedAt := w_PausedAt w', w_AccumulatedSeconds := w_AccumulatedSeconds w',
     w_EndedAt := w_EndedAt w', w_DurationSeconds := w_DurationSeconds w', w_Outcome := w_Outcome w',
     w_Note := w_Note w', w_LastTransitionAt := w_LastTransitionAt w', w_Revision := expected + 1,
     w_UpdatedAt := env_now en\<rparr>"

lemma TransitionSession_eq:
  "TransitionSession en userID k expected action outcome note at_time =
    tx_bind (tx_try (\<lambda>s. find_session s k userID)) (\<lambda>w.
    tx_bind (tx_check (w_Revision w = expected) ErrRevision) (\<lambda>_.
    let at_t = (if at_time = 0 then env_now en else at_time)
    in tx_bind (tx_check (transition_time_ok en w at_t) ErrValidation) (\<lambda>_.
       tx_bind (tx_try (\<lambda>_. session_step w action outcome note at_t)) (\<lambda>w'.
       let P = (\<lambda>v. w_ID v = k \<and> w_Revision v = expected)
       in tx_bind (tx_read (\<lambda>s. rows_affected P (s_sessions s) = 1)) (\<lambda>one.
          tx_bind (tx_write (\<lambda>s. s\<lparr>s_sessions := update_rows P (transitioned en expected w') (s_sessions s)\<rparr>)) (\<lambda>_.
          tx_bind (tx_check one ErrRevision) (\<lambda>_.
          tx_bind (if action = ''invalidate'' then invalidateSessionCompletionTx en userID w else tx_return ()) (\<lambda>_.
          tx_try (\<lambda>s. case find (\<lambda>v. w_ID v = k) (s_sessions s) of
            None \<Rightarrow> Inl ErrRecordNotFound | Some v \<Rightarrow> Inr v)))))))))"
  unfolding TransitionSession_def transitioned_def [abs_def] ..

lemma TransitionSession_Inr:
  assumes "TransitionSession en u k expected action outcome note at_time s = Inr (v, s')"
  obtains w w' where "find_session s k u = Inr w" "w_Revision w = expected"
    "transition_time_ok en w (if at_time = 0 then env_now en else at_time)"
    "session_step w action outcome note (if at_time = 0 then env_now en else at_time) = Inr w'"
    "s_sessions s' = update_rows (\<lambda>v. w_ID v = k \<and> w_Revision v = expected) (transitioned en expected w') (s_sessions s)"
proof -
  define at_t where "at_t = (if at_time = 0 then env_now en else at_time)"
  define P where "P = (\<lambda>v :: work_session. w_ID v = k \<and> w_Revision v = expected)"
  from assms obtain w w' where base: "find_session s k u = Inr w" "w_Revision w = expected"
    "transition_time_ok en w at_t" "session_step w action outcome note at_t = Inr w'" and
    rest: "(if action = ''invalidate'' then invalidateSessionCompletionTx en u w else tx_return ())
      (s\<lparr>s_sessions := update_rows P (transitioned en expected w') (s_sessions s)\<rparr>) = Inr ((), s')"
    unfolding TransitionSession_eq Let_def at_t_def [symmetric] P_def [symmetric]
    by (auto simp: go_simps)
  have "s_sessions s' = update_rows P (transitioned en expected w') (s_sessions s)"
    using rest by (cases "action = ''invalidate''") (auto dest: tx_keepsD [OF invalidateSessionCompletionTx_sessions])
  with base that show thesis unfolding at_t_def P_def by blast
qed

lemma session_item_store: "session_item en u w s = Inr (k, s') \<Longrightarrow> s' = s"
  by (auto simp: session_item_def go_simps split: option.split_asm)

lemma StartSession_Inr:
  assumes "StartSession en u session s = Inr (w, s')"
  shows "s_sessions s' = s_sessions s @ [w] \<and> w_UserID w = u \<and> w_Status w = ''running'' \<and>
    w_AccumulatedSeconds w = w_AccumulatedSeconds session \<and> w_PausedAt w = w_PausedAt session \<and>
    w_LastTransitionAt w = Some (w_StartedAt w) \<and>
    (\<forall>v \<in> set (s_sessions s). w_ID v \<noteq> w_ID w \<and>
      (w_UserID v = u \<longrightarrow> w_Status v \<noteq> ''running'' \<and> w_Status v \<noteq> ''paused''))"
  using assms unfolding StartSession_def Let_def
  by (auto simp: go_simps tx_executable_def create_session_def dest!: session_item_store)

text \<open>A transition of one row, and of its exact times.\<close>

definition session_move :: "work_session \<Rightarrow> env \<times> string \<times> string \<times> string \<times> time \<Rightarrow> work_session" where
  "session_move w = (\<lambda>(en, action, outcome, note, at_t).
    if transition_time_ok en w at_t
    then (case session_step w action outcome note at_t of Inl _ \<Rightarrow> w | Inr w' \<Rightarrow> transitioned en (w_Revision w) w' w)
    else w)"

definition focus_move :: "focus \<Rightarrow> env \<times> string \<times> string \<times> string \<times> time \<Rightarrow> focus" where
  "focus_move f = (\<lambda>(en, action, outcome, note, at_t).
    if at_t \<le> env_now en + 5 * second \<and> f_Last f \<le> at_t
    then (case focus_step f action at_t of None \<Rightarrow> f | Some f' \<Rightarrow> f') else f)"

lemma transition_time_ok_rel:
  assumes "session_rel w f"
  shows "transition_time_ok en w at_t \<longleftrightarrow> at_t \<le> env_now en + 5 * second \<and> f_Last f \<le> at_t"
  using assms unfolding transition_time_ok_def session_rel_def
  by (cases "w_PausedAt w") (auto simp: not_less)

lemma session_step_start: "session_step w action outcome note at_t = Inr w' \<Longrightarrow> w_StartedAt w' = w_StartedAt w"
  by (auto simp: session_step_def Let_def split: if_split_asm option.split_asm)

lemma session_rel_transitioned:
  assumes "session_rel w' f" and "w_StartedAt w' = w_StartedAt w"
  shows "session_rel (transitioned en r w' w) f"
  using assms unfolding session_rel_def transitioned_def by auto

lemma session_move_rel:
  assumes "session_rel w f"
  shows "session_rel (session_move w e) (focus_move f e)"
proof -
  obtain en action outcome "note" at_t where e: "e = (en, action, outcome, note, at_t)" by (cases e) auto
  show ?thesis
  proof (cases "transition_time_ok en w at_t")
    case True
    with assms have t: "at_t \<le> env_now en + 5 * second" "f_Last f \<le> at_t" by (simp_all add: transition_time_ok_rel)
    from step_simulation [OF assms t(2), of action outcome "note"] show ?thesis
      using assms True t session_step_start [of w action outcome "note" at_t]
      by (auto simp: e session_move_def focus_move_def step_simulated_def
          intro: session_rel_transitioned split: option.split_asm)
  next
    case False
    with assms show ?thesis by (auto simp: e session_move_def focus_move_def transition_time_ok_rel)
  qed
qed

interpretation session: invariant_machine "\<lambda>(w, f) e. (session_move w e, focus_move f e)" "\<lambda>(w, f). session_rel w f"
  by unfold_locales (auto intro: session_move_rel)

lemma session_run_rel:
  "session_rel w f \<Longrightarrow> session_rel (foldl session_move w es) (foldl focus_move f es)"
proof -
  have "foldl (\<lambda>(w, f) e. (session_move w e, focus_move f e)) (w, f) es =
      (foldl session_move w es, foldl focus_move f es)" for w f
    by (induction es arbitrary: w f) auto
  then show "session_rel w f \<Longrightarrow> session_rel (foldl session_move w es) (foldl focus_move f es)"
    using session.run_inv [of "(w, f)" es] by simp
qed

text \<open>The session a client may ask for: the fields of the request, the others zero.\<close>

definition session_request :: "id \<Rightarrow> id option \<Rightarrow> string \<Rightarrow> int \<Rightarrow> time \<Rightarrow> work_session" where
  "session_request taskID itemID sessionType minutes startedAt =
    \<lparr>w_ID = [], w_UserID = [], w_TaskID = taskID, w_DailyPlanItemID = itemID, w_DailyPlanItemLogicalID = [],
     w_SessionType = sessionType, w_Status = [], w_Outcome = [], w_Note = [], w_TargetMinutes = minutes,
     w_AccumulatedSeconds = 0, w_DurationSeconds = 0, w_Revision = 0, w_StartedAt = startedAt,
     w_LastTransitionAt = None, w_PausedAt = None, w_EndedAt = None, w_CreatedAt = 0, w_UpdatedAt = 0\<rparr>"

definition begun :: "work_session \<Rightarrow> focus" where
  "begun w = \<lparr>f_Phase = Running, f_Start = w_StartedAt w, f_Last = w_StartedAt w, f_Paused = 0, f_Since = 0,
     f_Pauses = 0, f_Worked = 0\<rparr>"

lemma StartSession_rel:
  assumes "StartSession en u (session_request taskID itemID ty minutes startedAt) s = Inr (w, s')"
  shows "session_rel w (begun w)"
  using StartSession_Inr [OF assms] by (simp add: session_rel_def begun_def session_request_def)


text \<open>The invariant of the table: one row per identifier, each standing for exact times, and at
  most one running or paused session per user.\<close>

definition open_session :: "work_session \<Rightarrow> bool" where
  "open_session w \<longleftrightarrow> w_Status w = ''running'' \<or> w_Status w = ''paused''"

definition sessions_ok :: "store \<Rightarrow> bool" where
  "sessions_ok s \<longleftrightarrow> distinct (map w_ID (s_sessions s)) \<and> (\<forall>w \<in> set (s_sessions s). \<exists>f. session_rel w f) \<and>
    (\<forall>u. length (filter (\<lambda>w. w_UserID w = u \<and> open_session w) (s_sessions s)) \<le> 1)"

datatype session_call =
    StartCall env id id "id option" string int time
  | MoveCall env id id int string string string time

text \<open>A call as the database sees it: a call that fails leaves the store.\<close>

fun session_call_step :: "store \<Rightarrow> session_call \<Rightarrow> store" where
  "session_call_step s (StartCall en u taskID itemID ty minutes startedAt) =
    (case StartSession en u (session_request taskID itemID ty minutes startedAt) s of
       Inl _ \<Rightarrow> s | Inr (_, s') \<Rightarrow> s')"
| "session_call_step s (MoveCall en u k expected action outcome note at_t) =
    (case TransitionSession en u k expected action outcome note at_t s of Inl _ \<Rightarrow> s | Inr (_, s') \<Rightarrow> s')"

lemma start_keeps_ok:
  assumes ok: "sessions_ok s"
    and start: "StartSession en u (session_request taskID itemID ty minutes startedAt) s = Inr (w, s')"
  shows "sessions_ok s'"
proof -
  note w = StartSession_Inr [OF start]
  have "distinct (map w_ID (s_sessions s'))" using ok w by (auto simp: sessions_ok_def)
  moreover have "\<forall>v \<in> set (s_sessions s'). \<exists>f. session_rel v f"
    using ok w StartSession_rel [OF start] by (auto simp: sessions_ok_def)
  moreover have "length (filter (\<lambda>v. w_UserID v = x \<and> open_session v) (s_sessions s')) \<le> 1" for x
  proof (cases "x = u")
    case True
    with w have "filter (\<lambda>v. w_UserID v = x \<and> open_session v) (s_sessions s) = []"
      by (auto simp: open_session_def filter_empty_conv)
    with w True show ?thesis by simp
  next
    case False
    with ok w show ?thesis by (auto simp: sessions_ok_def)
  qed
  ultimately show ?thesis unfolding sessions_ok_def by blast
qed

lemma length_filter_map_le:
  "(\<And>x. x \<in> set xs \<Longrightarrow> P (g x) \<Longrightarrow> P x) \<Longrightarrow> length (filter P (map g xs)) \<le> length (filter P xs)"
  by (induction xs) (simp_all, (metis le_Suc_eq Suc_le_mono)?)

lemma move_keeps_ok:
  assumes ok: "sessions_ok s"
    and move: "TransitionSession en u k expected action outcome note at_time s = Inr (v, s')"
  shows "sessions_ok s'"
proof -
  define at_t where "at_t = (if at_time = 0 then env_now en else at_time)"
  from move obtain w w' where w: "find_session s k u = Inr w" "w_Revision w = expected"
    "transition_time_ok en w at_t" "session_step w action outcome note at_t = Inr w'" and
    s': "s_sessions s' = update_rows (\<lambda>v. w_ID v = k \<and> w_Revision v = expected) (transitioned en expected w') (s_sessions s)"
    unfolding at_t_def by (rule TransitionSession_Inr)
  from w(1) have mem: "w \<in> set (s_sessions s)" "w_ID w = k"
    by (auto simp: find_session_def find_Some_iff split: option.split_asm)
  have only: "x = w" if "x \<in> set (s_sessions s)" "w_ID x = k" for x
    using ok that mem by (auto simp: sessions_ok_def distinct_map inj_on_def)
  define g where "g = (\<lambda>x. if w_ID x = k \<and> w_Revision x = expected then transitioned en expected w' x else x)"
  have s'': "s_sessions s' = map g (s_sessions s)" unfolding s' update_rows_def g_def ..
  have ids: "w_ID (g x) = w_ID x" "w_UserID (g x) = w_UserID x" for x by (simp_all add: g_def transitioned_def)
  have "distinct (map w_ID (s_sessions s'))" using ok by (simp add: s'' sessions_ok_def comp_def ids)
  moreover have "\<exists>f. session_rel (g x) f" if x: "x \<in> set (s_sessions s)" for x
  proof (cases "w_ID x = k \<and> w_Revision x = expected")
    case True
    with only x have "x = w" by blast
    from ok mem(1) obtain f where f: "session_rel w f" unfolding sessions_ok_def by blast
    from w(3) transition_time_ok_rel [OF f] have "f_Last f \<le> at_t" by simp
    from step_simulation [OF f this, of action outcome "note"] w(4) obtain f' where "session_rel w' f'"
      by (auto simp: step_simulated_def split: option.split_asm)
    then have "session_rel (transitioned en expected w' w) f'"
      by (rule session_rel_transitioned) (rule session_step_start [OF w(4)])
    with \<open>x = w\<close> True show ?thesis by (auto simp: g_def)
  next
    case False
    with ok x show ?thesis by (auto simp: g_def sessions_ok_def)
  qed
  moreover have "open_session w" if "open_session w'"
    using w(4) that by (auto simp: session_step_def open_session_def Let_def split: if_split_asm option.split_asm)
  then have "open_session x" if "x \<in> set (s_sessions s)" "open_session (g x)" for x
    using only [OF that(1)] that(2) by (auto simp: g_def transitioned_def open_session_def split: if_split_asm)
  note opens = this
  have "length (filter (\<lambda>x. w_UserID x = a \<and> open_session x) (map g (s_sessions s))) \<le> 1" for a
  proof -
    have "length (filter (\<lambda>x. w_UserID x = a \<and> open_session x) (map g (s_sessions s)))
        \<le> length (filter (\<lambda>x. w_UserID x = a \<and> open_session x) (s_sessions s))"
      by (rule length_filter_map_le) (auto simp: ids intro: opens)
    also have "\<dots> \<le> 1" using ok by (simp add: sessions_ok_def)
    finally show ?thesis .
  qed
  ultimately show ?thesis unfolding sessions_ok_def s'' by auto
qed

interpretation sessions: invariant_machine session_call_step sessions_ok
proof
  fix s e
  assume "sessions_ok s"
  then show "sessions_ok (session_call_step s e)"
    by (cases e) (auto intro: start_keeps_ok move_keeps_ok split: sum.split)
qed

text \<open>C11. Whatever sequence of session calls the clients make, failing ones included, a table of
  sessions that is in order stays in order: no user has two sessions running or paused at once,
  and every row is one that exact times can produce (a paused session has the instant of its
  pause, its pauses fit into its span, a finished one has a non-negative duration).\<close>

theorem session_table_invariant:
  "sessions_ok s \<Longrightarrow> sessions_ok (foldl session_call_step s calls)"
  by (rule sessions.run_inv)

subsection \<open>What a transition call answers\<close>

text \<open>The actions a status admits.\<close>

definition session_allows :: "string \<Rightarrow> string \<Rightarrow> bool" where
  "session_allows status action \<longleftrightarrow>
    action = ''pause'' \<and> status = ''running'' \<or> action = ''resume'' \<and> status = ''paused'' \<or>
    (action = ''complete'' \<or> action = ''stop'') \<and> (status = ''running'' \<or> status = ''paused'') \<or>
    action = ''invalidate'' \<and> (status = ''completed'' \<or> status = ''stopped'')"

definition transition_refusal :: "env \<Rightarrow> work_session \<Rightarrow> int \<Rightarrow> string \<Rightarrow> time \<Rightarrow> app_error option" where
  "transition_refusal en w expected action at_t =
    (if w_Revision w \<noteq> expected then Some ErrRevision
     else if \<not> transition_time_ok en w at_t \<or> \<not> session_action action then Some ErrValidation
     else if \<not> session_allows (w_Status w) action then Some ErrConflict
     else None)"

lemma focus_step_None:
  assumes "session_rel w f" and "session_action action"
  shows "focus_step f action at_t = None \<longleftrightarrow> \<not> session_allows (w_Status w) action"
  using session_rel_phase [OF assms(1)] assms(2)
  by (auto simp: focus_step_def session_allows_def session_action_def Let_def)

lemma sessions_one:
  assumes "sessions_ok s" and "w \<in> set (s_sessions s)"
  shows "length (filter (\<lambda>x. w_ID x = w_ID w) (s_sessions s)) = 1"
proof -
  have d: "distinct (map w_ID (s_sessions s))" using assms(1) by (simp add: sessions_ok_def)
  have "length (filter (\<lambda>x. w_ID x = w_ID w) xs) = (if w_ID w \<in> w_ID ` set xs then 1 else 0)"
    if "distinct (map w_ID xs)" for xs using that by (induction xs) auto
  from this [OF d] assms(2) show ?thesis by simp
qed

lemma find_replaced:
  "w \<in> set xs \<Longrightarrow> w_ID w = k \<Longrightarrow> w_ID v = k \<Longrightarrow>
    find (\<lambda>v. w_ID v = k) (map (\<lambda>x. if w_ID x = k then v else x) xs) = Some v"
  by (induction xs) auto

lemma session_step_decided:
  assumes "session_rel w f" and "transition_time_ok en w at_t" and "w_Revision w = expected"
  shows "case transition_refusal en w expected action at_t of
     Some e \<Rightarrow> session_step w action outcome remark at_t = Inl e
   | None \<Rightarrow> \<exists>w'. session_step w action outcome remark at_t = Inr w'"
proof -
  have "f_Last f \<le> at_t" using assms by (simp add: transition_time_ok_rel)
  from step_simulation [OF assms(1) this, of action outcome remark] show ?thesis
    using assms(2,3) focus_step_None [OF assms(1), of action at_t]
    by (cases "session_action action")
       (auto simp: step_simulated_def transition_refusal_def focus_step_def session_action_def Let_def
         split: option.split_asm)
qed


subsection \<open>Concrete calls\<close>

definition sample_start :: session_call where
  "sample_start = StartCall (sample_env (100 * second)) ''usr'' ''t1'' None [] 0 0"

definition sample_moves :: "(env \<times> string \<times> string \<times> string \<times> time) list" where
  "sample_moves = [(sample_env (400 * second), ''pause'', [], [], 400 * second),
     (sample_env (460 * second), ''resume'', [], [], 460 * second + 500),
     (sample_env (900 * second), ''complete'', ''ok'', [], 900 * second)]"

lemma sample_start_run:
  "case StartSession (sample_env (100 * second)) ''usr'' (session_request ''t1'' None [] 0 0) sample_store of
     Inl _ \<Rightarrow> False
   | Inr (w, s') \<Rightarrow> f_Phase (foldl focus_move (begun w) sample_moves) = Finished \<and>
       w_DurationSeconds (foldl session_move w sample_moves) = 740"
  by code_simp


lemma sessions_ok_empty: "s_sessions s = [] \<Longrightarrow> sessions_ok s"
  by (simp add: sessions_ok_def)

lemma sample_started_session:
  "map (\<lambda>w. (w_ID w, w_Revision w, w_Status w)) (s_sessions (foldl session_call_step sample_store [sample_start, sample_start]))
     = [(''work_u'', 1, ''running'')]"
  by code_simp

theorem session_table_invariant_witness:
  "sessions_ok (foldl session_call_step sample_store [sample_start, sample_start]) \<and>
   map w_Status (s_sessions (foldl session_call_step sample_store [sample_start, sample_start])) = [''running'']"
proof
  show "sessions_ok (foldl session_call_step sample_store [sample_start, sample_start])"
    by (rule session_table_invariant [OF sessions_ok_empty]) (simp add: sample_defs)
  show "map w_Status (s_sessions (foldl session_call_step sample_store [sample_start, sample_start])) = [''running'']"
    using arg_cong [OF sample_started_session, of "map (snd \<circ> snd)"] by (simp add: comp_def)
qed


end
