(* ===== verification/Transport.thy ===== *)
theory Transport
  imports Json_Values
begin

text \<open>
  The wire protocol between the backend and the browser, package \<open>internal/agent/protocol\<close>:
  the chunks of \<open>chunk.go\<close> with their validation, the thread state of \<open>state.go\<close> with its
  encodings, the replay of \<open>replay.go\<close> that folds committed events into a snapshot, and the
  event-stream framing of \<open>stream.go\<close>. A slice is an \<open>option\<close> where the code or the encoder tells
  a \<open>nil\<close> slice from an empty one. The texts the server builds with \<open>fmt.Errorf\<close> are one
  constructor each. Strings are valid UTF-8, which \<open>json.Marshal\<close> would otherwise repair.
\<close>

datatype protocol_error =
    UnknownChunkType
  | PathRequired
  | NegativeSegment
  | OperationsRequired
  | UnknownOperation
  | OperationPathRequired
  | PartRequired
  | FinishReasonRequired
  | UnsafeSegment
  | TargetNotString
  | InvalidIndex
  | InvalidStatePath
  | MalformedJSON

type_synonym 'a wire = "protocol_error + 'a"

definition decoded :: "'a result \<Rightarrow> 'a wire" where
  "decoded r = (case r of Inl _ \<Rightarrow> Inl MalformedJSON | Inr a \<Rightarrow> Inr a)"

subsection \<open>Message parts\<close>

record approval =
  ap_Status :: string
  ap_Options :: "json list option"

record part =
  pt_Type :: string
  pt_Text :: string
  pt_ID :: string
  pt_Image :: string
  pt_ToolCallID :: string
  pt_ToolName :: string
  pt_Args :: "(string \<times> json) list option"
  pt_Result :: json
  pt_IsError :: bool
  pt_Approval :: "approval option"

definition zero_part :: part where
  "zero_part = \<lparr>pt_Type = [], pt_Text = [], pt_ID = [], pt_Image = [], pt_ToolCallID = [], pt_ToolName = [],
     pt_Args = None, pt_Result = JNull, pt_IsError = False, pt_Approval = None\<rparr>"

definition TextPart :: "string \<Rightarrow> part" where
  "TextPart s = zero_part\<lparr>pt_Type := ''text'', pt_Text := s\<rparr>"

definition ImagePart :: "string \<Rightarrow> part" where
  "ImagePart reference = zero_part\<lparr>pt_Type := ''image'', pt_Image := reference\<rparr>"

definition ReasoningPart :: "string \<Rightarrow> string \<Rightarrow> part" where
  "ReasoningPart k s = zero_part\<lparr>pt_Type := ''reasoning'', pt_ID := k, pt_Text := s\<rparr>"

definition ToolCallPart :: "string \<Rightarrow> string \<Rightarrow> (string \<times> json) list option \<Rightarrow> part" where
  "ToolCallPart callID name args = zero_part\<lparr>pt_Type := ''tool-call'', pt_ToolCallID := callID,
     pt_ToolName := name, pt_Args := (case args of None \<Rightarrow> Some [] | Some _ \<Rightarrow> args)\<rparr>"

text \<open>\<open>omitempty\<close> on a slice leaves out the empty one as well.\<close>

definition omit_slice :: "string \<Rightarrow> ('a \<Rightarrow> json) \<Rightarrow> 'a list option \<Rightarrow> (string \<times> json) list" where
  "omit_slice k f xs = (case xs of None \<Rightarrow> [] | Some [] \<Rightarrow> [] | Some ys \<Rightarrow> [(k, JArray (map f ys))])"

text \<open>\<open>omitempty\<close> on a pointer leaves out \<open>nil\<close> only.\<close>

definition omit_nil :: "string \<Rightarrow> ('a \<Rightarrow> json) \<Rightarrow> 'a option \<Rightarrow> (string \<times> json) list" where
  "omit_nil k f x = (case x of None \<Rightarrow> [] | Some y \<Rightarrow> [(k, f y)])"

definition approval_json :: "approval \<Rightarrow> json" where
  "approval_json a = JObject ((''status'', JString (ap_Status a)) # omit_slice ''options'' (\<lambda>x. x) (ap_Options a))"

definition approval_of_json :: "json \<Rightarrow> approval option result" where
  "approval_of_json v = (if v = JNull then Inr None else
     bind_r (dec_object v) (\<lambda>kvs.
     bind_r (dec_string (obj_get kvs ''status'')) (\<lambda>status.
     bind_r (dec_anys (obj_get kvs ''options'')) (\<lambda>options.
     Inr (Some \<lparr>ap_Status = status, ap_Options = options\<rparr>)))))"

definition part_json :: "part \<Rightarrow> json" where
  "part_json p =
    (let ty = (''type'', JString (pt_Type p))
     in if pt_Type p = ''text'' then JObject [ty, (''text'', JString (pt_Text p))]
        else if pt_Type p = ''reasoning'' then
          JObject (ty # omit_if (pt_ID p = []) ''id'' (JString (pt_ID p)) @ [(''text'', JString (pt_Text p))])
        else if pt_Type p = ''image'' then JObject [ty, (''image'', JString (pt_Image p))]
        else if pt_Type p = ''tool-call'' then
          JObject ([ty, (''toolCallId'', JString (pt_ToolCallID p)), (''toolName'', JString (pt_ToolName p)),
            (''args'', JObject (case pt_Args p of None \<Rightarrow> [] | Some kvs \<Rightarrow> kvs)), (''result'', pt_Result p),
            (''isError'', JBool (pt_IsError p))] @
            omit_nil ''approval'' approval_json (pt_Approval p))
        else JObject [ty])"

definition part_of_json :: "json \<Rightarrow> part result" where
  "part_of_json v =
    bind_r (dec_object v) (\<lambda>kvs.
    bind_r (dec_string (obj_get kvs ''type'')) (\<lambda>ty.
    if ty = ''tool-call'' then
      bind_r (dec_string (obj_get kvs ''toolCallId'')) (\<lambda>callID.
      bind_r (dec_string (obj_get kvs ''toolName'')) (\<lambda>name.
      bind_r (dec_map (obj_get kvs ''args'')) (\<lambda>args.
      bind_r (dec_bool (obj_get kvs ''isError'')) (\<lambda>isError.
      bind_r (approval_of_json (obj_get kvs ''approval'')) (\<lambda>approval.
      Inr (zero_part\<lparr>pt_Type := ty, pt_ToolCallID := callID, pt_ToolName := name, pt_Args := args,
        pt_Result := obj_get kvs ''result'', pt_IsError := isError, pt_Approval := approval\<rparr>))))))
    else if ty = ''reasoning'' then
      bind_r (dec_string (obj_get kvs ''id'')) (\<lambda>k.
      bind_r (dec_string (obj_get kvs ''text'')) (\<lambda>s.
      Inr (zero_part\<lparr>pt_Type := ty, pt_ID := k, pt_Text := s\<rparr>)))
    else if ty = ''image'' then
      bind_r (dec_string (obj_get kvs ''image'')) (\<lambda>image.
      Inr (zero_part\<lparr>pt_Type := ty, pt_Image := image\<rparr>))
    else
      bind_r (dec_string (obj_get kvs ''text'')) (\<lambda>s.
      Inr (zero_part\<lparr>pt_Type := ty, pt_Text := s\<rparr>))))"

text \<open>A slice of parts: \<open>null\<close> among its elements leaves the zero part.\<close>

definition part_elem :: "json \<Rightarrow> part result" where
  "part_elem v = (if v = JNull then Inr zero_part else part_of_json v)"

subsection \<open>Operations and chunks\<close>

record operation =
  op_Type :: string
  op_Path :: "string list"
  op_Value :: json

definition unsafePathSegments :: "string list" where
  "unsafePathSegments = [''__proto__'', ''constructor'', ''prototype'']"

definition validatePath :: "string list \<Rightarrow> unit wire" where
  "validatePath path = guard_r (\<not> (\<exists>seg \<in> set path. seg \<in> set unsafePathSegments)) UnsafeSegment"

definition Set_op :: "string list \<Rightarrow> json \<Rightarrow> operation wire" where
  "Set_op path v = bind_r (validatePath path) (\<lambda>_. Inr \<lparr>op_Type = ''set'', op_Path = path, op_Value = v\<rparr>)"

definition AppendText :: "string list \<Rightarrow> string \<Rightarrow> operation wire" where
  "AppendText path s =
    bind_r (validatePath path) (\<lambda>_. Inr \<lparr>op_Type = ''append-text'', op_Path = path, op_Value = JString s\<rparr>)"

text \<open>The path of a chunk is a pointer to a slice, and both may be \<open>nil\<close>.\<close>

record chunk =
  ch_Type :: string
  ch_Path :: "int list option option"
  ch_Operations :: "operation list option"
  ch_Part :: "part option"
  ch_Annotations :: "json list option"
  ch_Data :: "json list option"
  ch_FinishReason :: string
  ch_TextDelta :: string
  ch_IsError :: "bool option"

definition chunk_of :: "string \<Rightarrow> chunk" where
  "chunk_of ty = \<lparr>ch_Type = ty, ch_Path = None, ch_Operations = None, ch_Part = None, ch_Annotations = None,
     ch_Data = None, ch_FinishReason = [], ch_TextDelta = [], ch_IsError = None\<rparr>"

text \<open>
  A variadic call passes its slice, \<open>nil\<close> without arguments; \<open>append\<close> of nothing to \<open>nil\<close> is \<open>nil\<close>.
\<close>

definition slice_of :: "'a list \<Rightarrow> 'a list option" where
  "slice_of xs = (if xs = [] then None else Some xs)"

definition UpdateState :: "operation list option \<Rightarrow> chunk" where
  "UpdateState ops = (chunk_of ''update-state'')\<lparr>ch_Operations := ops\<rparr>"

definition StepStart :: chunk where "StepStart = chunk_of ''step-start''"

definition StepFinish :: "string \<Rightarrow> chunk" where
  "StepFinish reason = (chunk_of ''step-finish'')\<lparr>ch_FinishReason := reason\<rparr>"

definition MessageFinish :: "string \<Rightarrow> chunk" where
  "MessageFinish reason = (chunk_of ''message-finish'')\<lparr>ch_FinishReason := reason\<rparr>"

definition ErrorChunk :: chunk where "ErrorChunk = chunk_of ''error''"

definition PartStart :: "part \<Rightarrow> chunk" where
  "PartStart p = (chunk_of ''part-start'')\<lparr>ch_Part := Some p\<rparr>"

definition Annotations :: "json list option \<Rightarrow> chunk" where
  "Annotations vs = (chunk_of ''annotations'')\<lparr>ch_Annotations := vs\<rparr>"

definition Data :: "json list option \<Rightarrow> chunk" where
  "Data vs = (chunk_of ''data'')\<lparr>ch_Data := vs\<rparr>"

definition TextDelta :: "int list \<Rightarrow> string \<Rightarrow> chunk" where
  "TextDelta path delta = (chunk_of ''text-delta'')\<lparr>ch_Path := Some (slice_of path), ch_TextDelta := delta\<rparr>"

definition PartFinish :: "int list \<Rightarrow> chunk" where
  "PartFinish path = (chunk_of ''part-finish'')\<lparr>ch_Path := Some (slice_of path)\<rparr>"

definition ToolCallArgsTextFinish :: "int list \<Rightarrow> chunk" where
  "ToolCallArgsTextFinish path = (chunk_of ''tool-call-args-text-finish'')\<lparr>ch_Path := Some (slice_of path)\<rparr>"

definition Result_chunk :: "int list \<Rightarrow> bool \<Rightarrow> chunk" where
  "Result_chunk path isError =
    (chunk_of ''result'')\<lparr>ch_Path := Some (slice_of path), ch_IsError := Some isError\<rparr>"

definition pathRequired :: "string list" where
  "pathRequired = [''text-delta'', ''part-finish'', ''tool-call-args-text-finish'', ''result'']"

definition validChunkTypes :: "string list" where
  "validChunkTypes = [''update-state'', ''part-start'', ''annotations'', ''data'', ''step-start'', ''step-finish'',
     ''message-finish'', ''error'', ''text-delta'', ''part-finish'', ''tool-call-args-text-finish'', ''result'']"

fun validate_operations :: "operation list \<Rightarrow> unit wire" where
  "validate_operations [] = Inr ()"
| "validate_operations (op # ops) =
    bind_r (guard_r (op_Type op = ''set'' \<or> op_Type op = ''append-text'') UnknownOperation) (\<lambda>_.
    bind_r (guard_r (op_Path op \<noteq> []) OperationPathRequired) (\<lambda>_. validate_operations ops))"

definition path_segments :: "chunk \<Rightarrow> int list" where
  "path_segments c = (case ch_Path c of Some (Some xs) \<Rightarrow> xs | _ \<Rightarrow> [])"

definition Validate :: "chunk \<Rightarrow> unit wire" where
  "Validate c =
    bind_r (guard_r (ch_Type c \<in> set validChunkTypes) UnknownChunkType) (\<lambda>_.
    bind_r (guard_r (\<not> (ch_Type c \<in> set pathRequired \<and> ch_Path c = None)) PathRequired) (\<lambda>_.
    bind_r (guard_r (\<not> (\<exists>seg \<in> set (path_segments c). seg < 0)) NegativeSegment) (\<lambda>_.
    if ch_Type c = ''update-state'' then
      (case ch_Operations c of None \<Rightarrow> Inl OperationsRequired | Some ops \<Rightarrow> validate_operations ops)
    else if ch_Type c = ''part-start'' then guard_r (ch_Part c \<noteq> None) PartRequired
    else if ch_Type c = ''step-finish'' \<or> ch_Type c = ''message-finish'' then
      guard_r (ch_FinishReason c \<noteq> []) FinishReasonRequired
    else Inr ())))"

subsection \<open>The JSON of a chunk\<close>

definition operation_json :: "operation \<Rightarrow> json" where
  "operation_json op = JObject [(''type'', JString (op_Type op)),
     (''path'', JArray (map JString (op_Path op))), (''value'', op_Value op)]"

definition operation_of_json :: "json \<Rightarrow> operation result" where
  "operation_of_json v =
    bind_r (dec_object v) (\<lambda>kvs.
    bind_r (dec_string (obj_get kvs ''type'')) (\<lambda>ty.
    bind_r (dec_list dec_string (obj_get kvs ''path'')) (\<lambda>path.
    Inr \<lparr>op_Type = ty, op_Path = (case path of None \<Rightarrow> [] | Some xs \<Rightarrow> xs), op_Value = obj_get kvs ''value''\<rparr>)))"

definition path_json :: "int list option \<Rightarrow> json" where
  "path_json path = (case path of None \<Rightarrow> JNull | Some xs \<Rightarrow> JArray (map (\<lambda>n. JNumber (of_int n)) xs))"

definition chunk_json :: "chunk \<Rightarrow> json" where
  "chunk_json c = JObject ((''type'', JString (ch_Type c)) #
    omit_nil ''path'' path_json (ch_Path c) @
    omit_slice ''operations'' operation_json (ch_Operations c) @
    omit_nil ''part'' part_json (ch_Part c) @
    omit_slice ''annotations'' (\<lambda>v. v) (ch_Annotations c) @
    omit_slice ''data'' (\<lambda>v. v) (ch_Data c) @
    omit_if (ch_FinishReason c = []) ''finishReason'' (JString (ch_FinishReason c)) @
    omit_if (ch_TextDelta c = []) ''textDelta'' (JString (ch_TextDelta c)) @
    omit_nil ''isError'' JBool (ch_IsError c))"

text \<open>A \<open>null\<close> sets a pointer to \<open>nil\<close>.\<close>

definition dec_path :: "json \<Rightarrow> int list option option result" where
  "dec_path v = bind_r (dec_list dec_int v) (\<lambda>xs. Inr (case xs of None \<Rightarrow> None | Some ys \<Rightarrow> Some (Some ys)))"

definition chunk_of_json :: "json \<Rightarrow> chunk result" where
  "chunk_of_json v =
    bind_r (dec_object v) (\<lambda>kvs.
    bind_r (dec_string (obj_get kvs ''type'')) (\<lambda>ty.
    bind_r (dec_path (obj_get kvs ''path'')) (\<lambda>path.
    bind_r (dec_list operation_of_json (obj_get kvs ''operations'')) (\<lambda>ops.
    bind_r (if obj_get kvs ''part'' = JNull then Inr None
            else bind_r (part_of_json (obj_get kvs ''part'')) (\<lambda>p. Inr (Some p))) (\<lambda>part.
    bind_r (dec_anys (obj_get kvs ''annotations'')) (\<lambda>annotations.
    bind_r (dec_anys (obj_get kvs ''data'')) (\<lambda>data.
    bind_r (dec_string (obj_get kvs ''finishReason'')) (\<lambda>reason.
    bind_r (dec_string (obj_get kvs ''textDelta'')) (\<lambda>delta.
    bind_r (if obj_get kvs ''isError'' = JNull then Inr None
            else bind_r (dec_bool (obj_get kvs ''isError'')) (\<lambda>b. Inr (Some b))) (\<lambda>isError.
    Inr \<lparr>ch_Type = ty, ch_Path = path, ch_Operations = ops, ch_Part = part, ch_Annotations = annotations,
      ch_Data = data, ch_FinishReason = reason, ch_TextDelta = delta, ch_IsError = isError\<rparr>))))))))))"

subsection \<open>Replay\<close>

definition max_index :: int where "max_index = 100000"

fun apply_op :: "json \<Rightarrow> string list \<Rightarrow> operation \<Rightarrow> json wire" where
  "apply_op node [] op =
    (if op_Type op = ''set'' then Inr (op_Value op)
     else case (node, op_Value op) of
       (JString a, JString b) \<Rightarrow> Inr (JString (a @ b))
     | _ \<Rightarrow> Inl TargetNotString)"
| "apply_op node (seg # path) op =
    bind_r (validatePath (seg # path)) (\<lambda>_.
    case (if node = JNull then (if strconv_Atoi seg \<noteq> None then JArray [] else JObject []) else node) of
      JObject kvs \<Rightarrow>
        bind_r (apply_op (obj_get kvs seg) path op) (\<lambda>next_node. Inr (JObject (obj_set kvs seg next_node)))
    | JArray xs \<Rightarrow>
        (case strconv_Atoi seg of
           None \<Rightarrow> Inl InvalidIndex
         | Some i \<Rightarrow>
             if i < 0 \<or> i > max_index then Inl InvalidIndex
             else let ys = xs @ replicate (nat i + 1 - length xs) JNull
                  in bind_r (apply_op (ys ! nat i) path op) (\<lambda>next_node. Inr (JArray (ys[nat i := next_node]))))
    | _ \<Rightarrow> Inl InvalidStatePath)"

fun apply_ops :: "json \<Rightarrow> operation list \<Rightarrow> json wire" where
  "apply_ops tree [] = Inr tree"
| "apply_ops tree (op # ops) = bind_r (apply_op tree (op_Path op) op) (\<lambda>tree'. apply_ops tree' ops)"

definition empty_snapshot :: json where
  "empty_snapshot = JObject [(''messages'', JArray []), (''isRunning'', JBool False), (''fasttask'', JObject [])]"

text \<open>The value of a snapshot: \<open>None\<close> is the empty text, and the text \<open>{}\<close> is the empty object.\<close>

definition snapshot_root :: "json option \<Rightarrow> json" where
  "snapshot_root snapshot = (case snapshot of None \<Rightarrow> empty_snapshot
     | Some v \<Rightarrow> if v = JObject [] then empty_snapshot else v)"

definition ApplyStateJSON :: "json option \<Rightarrow> json \<Rightarrow> json wire" where
  "ApplyStateJSON snapshot event =
    bind_r (decoded (chunk_of_json event)) (\<lambda>c.
    bind_r (Validate c) (\<lambda>_.
    if ch_Type c = ''update-state''
    then apply_ops (snapshot_root snapshot) (case ch_Operations c of None \<Rightarrow> [] | Some ops \<Rightarrow> ops)
    else Inr (snapshot_root snapshot)))"

subsection \<open>Thread state\<close>

record message_status =
  ms_Type :: string
  ms_Reason :: string

record message =
  m_ID :: string
  m_Role :: string
  m_Parts :: "part list option"
  m_CreatedAt :: string
  m_Status :: message_status

record pending_proposal =
  pp_ID :: string
  pp_GoalID :: string
  pp_BaseRevision :: int
  pp_Summary :: string

record fasttask_state =
  ft_ThreadID :: string
  ft_ActiveGoalID :: string
  ft_HarnessMode :: string
  ft_RunID :: string
  ft_PendingProposals :: "pending_proposal list option"

record thread_state =
  ts_Messages :: "message list option"
  ts_IsRunning :: bool
  ts_FastTask :: fasttask_state

definition NewState :: thread_state where
  "NewState = \<lparr>ts_Messages = Some [], ts_IsRunning = False, ts_FastTask = \<lparr>ft_ThreadID = [], ft_ActiveGoalID = [],
     ft_HarnessMode = [], ft_RunID = [], ft_PendingProposals = Some []\<rparr>\<rparr>"

definition RunningStatus :: message_status where
  "RunningStatus = \<lparr>ms_Type = ''running'', ms_Reason = []\<rparr>"

definition CompleteStatus :: "string \<Rightarrow> message_status" where
  "CompleteStatus reason = \<lparr>ms_Type = ''complete'', ms_Reason = reason\<rparr>"

definition IncompleteStatus :: "string \<Rightarrow> message_status" where
  "IncompleteStatus reason = \<lparr>ms_Type = ''incomplete'', ms_Reason = reason\<rparr>"

definition RequiresActionStatus :: message_status where
  "RequiresActionStatus = \<lparr>ms_Type = ''requires-action'', ms_Reason = ''tool-calls''\<rparr>"

definition slice_elems :: "'a list option \<Rightarrow> 'a list" where
  "slice_elems xs = (case xs of None \<Rightarrow> [] | Some ys \<Rightarrow> ys)"

definition status_json :: "message_status \<Rightarrow> json" where
  "status_json st = JObject ((''type'', JString (ms_Type st)) # omit_if (ms_Reason st = []) ''reason'' (JString (ms_Reason st)))"

definition message_json :: "message \<Rightarrow> json" where
  "message_json m = JObject [(''id'', JString (m_ID m)), (''role'', JString (m_Role m)),
     (''parts'', JArray (map part_json (slice_elems (m_Parts m)))), (''createdAt'', JString (m_CreatedAt m)),
     (''status'', status_json (m_Status m))]"

definition proposal_json :: "pending_proposal \<Rightarrow> json" where
  "proposal_json p = JObject [(''id'', JString (pp_ID p)), (''goalId'', JString (pp_GoalID p)),
     (''baseRevision'', JNumber (of_int (pp_BaseRevision p))), (''summary'', JString (pp_Summary p))]"

definition fasttask_json :: "fasttask_state \<Rightarrow> json" where
  "fasttask_json f = JObject (omit_if (ft_ThreadID f = []) ''threadId'' (JString (ft_ThreadID f)) @
     omit_if (ft_ActiveGoalID f = []) ''activeGoalId'' (JString (ft_ActiveGoalID f)) @
     omit_if (ft_HarnessMode f = []) ''harnessMode'' (JString (ft_HarnessMode f)) @
     omit_if (ft_RunID f = []) ''runId'' (JString (ft_RunID f)) @
     [(''pendingProposals'', JArray (map proposal_json (slice_elems (ft_PendingProposals f))))])"

definition state_json :: "thread_state \<Rightarrow> json" where
  "state_json st = JObject [(''messages'', JArray (map message_json (slice_elems (ts_Messages st)))),
     (''isRunning'', JBool (ts_IsRunning st)), (''fasttask'', fasttask_json (ts_FastTask st))]"

definition status_of_json :: "json \<Rightarrow> message_status result" where
  "status_of_json v =
    bind_r (dec_object v) (\<lambda>kvs.
    bind_r (dec_string (obj_get kvs ''type'')) (\<lambda>ty.
    bind_r (dec_string (obj_get kvs ''reason'')) (\<lambda>reason.
    Inr \<lparr>ms_Type = ty, ms_Reason = reason\<rparr>)))"

definition message_of_json :: "json \<Rightarrow> message result" where
  "message_of_json v =
    bind_r (dec_object v) (\<lambda>kvs.
    bind_r (dec_string (obj_get kvs ''id'')) (\<lambda>k.
    bind_r (dec_string (obj_get kvs ''role'')) (\<lambda>role.
    bind_r (dec_list part_elem (obj_get kvs ''parts'')) (\<lambda>parts.
    bind_r (dec_string (obj_get kvs ''createdAt'')) (\<lambda>created.
    bind_r (status_of_json (obj_get kvs ''status'')) (\<lambda>status.
    Inr \<lparr>m_ID = k, m_Role = role, m_Parts = parts, m_CreatedAt = created, m_Status = status\<rparr>))))))"

definition proposal_of_json :: "json \<Rightarrow> pending_proposal result" where
  "proposal_of_json v =
    bind_r (dec_object v) (\<lambda>kvs.
    bind_r (dec_string (obj_get kvs ''id'')) (\<lambda>k.
    bind_r (dec_string (obj_get kvs ''goalId'')) (\<lambda>goal.
    bind_r (dec_int (obj_get kvs ''baseRevision'')) (\<lambda>base.
    bind_r (dec_string (obj_get kvs ''summary'')) (\<lambda>summary.
    Inr \<lparr>pp_ID = k, pp_GoalID = goal, pp_BaseRevision = base, pp_Summary = summary\<rparr>)))))"

definition fasttask_of_json :: "json \<Rightarrow> fasttask_state result" where
  "fasttask_of_json v =
    bind_r (dec_object v) (\<lambda>kvs.
    bind_r (dec_string (obj_get kvs ''threadId'')) (\<lambda>thread.
    bind_r (dec_string (obj_get kvs ''activeGoalId'')) (\<lambda>goal.
    bind_r (dec_string (obj_get kvs ''harnessMode'')) (\<lambda>mode.
    bind_r (dec_string (obj_get kvs ''runId'')) (\<lambda>run.
    bind_r (dec_list proposal_of_json (obj_get kvs ''pendingProposals'')) (\<lambda>proposals.
    Inr \<lparr>ft_ThreadID = thread, ft_ActiveGoalID = goal, ft_HarnessMode = mode, ft_RunID = run,
      ft_PendingProposals = proposals\<rparr>))))))"

definition state_of_json :: "json \<Rightarrow> thread_state result" where
  "state_of_json v =
    bind_r (dec_object v) (\<lambda>kvs.
    bind_r (dec_list message_of_json (obj_get kvs ''messages'')) (\<lambda>messages.
    bind_r (dec_bool (obj_get kvs ''isRunning'')) (\<lambda>running.
    bind_r (fasttask_of_json (obj_get kvs ''fasttask'')) (\<lambda>fasttask.
    Inr \<lparr>ts_Messages = messages, ts_IsRunning = running, ts_FastTask = fasttask\<rparr>))))"

subsection \<open>Paths\<close>

definition MessagePath :: "nat \<Rightarrow> string list" where
  "MessagePath n = [''messages'', strconv_Itoa (int n)]"

definition MessagePartsPath :: "nat \<Rightarrow> string list" where
  "MessagePartsPath n = [''messages'', strconv_Itoa (int n), ''parts'']"

definition PartPath :: "nat \<Rightarrow> nat \<Rightarrow> string list" where
  "PartPath n idx = [''messages'', strconv_Itoa (int n), ''parts'', strconv_Itoa (int idx)]"

definition PartTextPath :: "nat \<Rightarrow> nat \<Rightarrow> string list" where
  "PartTextPath n idx = [''messages'', strconv_Itoa (int n), ''parts'', strconv_Itoa (int idx), ''text'']"

definition MessageStatusPath :: "nat \<Rightarrow> string list" where
  "MessageStatusPath n = [''messages'', strconv_Itoa (int n), ''status'']"

definition IsRunningPath :: "string list" where "IsRunningPath = [''isRunning'']"

definition FastTaskPath :: "string list" where "FastTaskPath = [''fasttask'']"

definition FastTaskThreadIDPath :: "string list" where "FastTaskThreadIDPath = [''fasttask'', ''threadId'']"

definition FastTaskRunIDPath :: "string list" where "FastTaskRunIDPath = [''fasttask'', ''runId'']"

definition FastTaskHarnessModePath :: "string list" where
  "FastTaskHarnessModePath = [''fasttask'', ''harnessMode'']"

subsection \<open>The event stream\<close>

text \<open>What has been written so far is a text; a write to the connection that fails is not modelled.\<close>

definition data_lines :: "string \<Rightarrow> string" where
  "data_lines payload = concat (map (\<lambda>line. ''data: '' @ line @ [CHR 0x0A]) (split_char (CHR 0x0A) payload))"

definition writeData :: "string \<Rightarrow> string \<Rightarrow> string" where
  "writeData payload out = out @ data_lines payload @ [CHR 0x0A]"

definition Done :: string where "Done = ''[DONE]''"

definition WriteRaw :: "string \<Rightarrow> string \<Rightarrow> string" where
  "WriteRaw chunkJSON out = writeData chunkJSON out"

definition WriteDone :: "string \<Rightarrow> string" where
  "WriteDone out = writeData Done out"

definition WriteComment :: "string \<Rightarrow> string \<Rightarrow> string" where
  "WriteComment remark out =
    out @ '': '' @ map (\<lambda>c. if c = CHR 0x0A then CHR '' '' else c) remark @ [CHR 0x0A, CHR 0x0A]"

text \<open>\<open>WriteChunk\<close> with the text \<open>json.Marshal\<close> makes of a value as \<open>enc\<close>.\<close>

definition WriteChunk :: "(json \<Rightarrow> string) \<Rightarrow> chunk \<Rightarrow> string \<Rightarrow> string wire" where
  "WriteChunk enc c out = bind_r (Validate c) (\<lambda>_. Inr (writeData (enc (chunk_json c)) out))"

definition WriteState :: "(json \<Rightarrow> string) \<Rightarrow> operation list option \<Rightarrow> string \<Rightarrow> string wire" where
  "WriteState enc ops out = WriteChunk enc (UpdateState ops) out"

end
