(* ===== verification/Transport_Properties.thy ===== *)
theory Transport_Properties
  imports Transport
begin

text \<open>
  What the browser can rely on: a write reads back and touches nothing else, streaming a text by
  deltas is setting it at once, a replay that resumes from a snapshot ends in the same state as
  one from the beginning, a chunk survives its encoding, and the frames of a stream can be read
  back.
\<close>

subsection \<open>Reading a state\<close>

fun json_at :: "json \<Rightarrow> string list \<Rightarrow> json" where
  "json_at v [] = v"
| "json_at v (seg # path) =
    (case v of
       JObject kvs \<Rightarrow> json_at (obj_get kvs seg) path
     | JArray xs \<Rightarrow>
         (case strconv_Atoi seg of
            Some i \<Rightarrow> if 0 \<le> i \<and> nat i < length xs then json_at (xs ! nat i) path else JNull
          | None \<Rightarrow> JNull)
     | _ \<Rightarrow> JNull)"

lemma json_at_JNull [simp]: "json_at JNull path = JNull"
  by (cases path) simp_all

lemma json_at_append: "json_at v (p @ q) = json_at (json_at v p) q"
proof (induction p arbitrary: v)
  case (Cons seg p)
  then show ?case by (auto split: json.split option.split)
qed simp

text \<open>Segments that name different places, in an object and in an array.\<close>

definition other_segment :: "string \<Rightarrow> string \<Rightarrow> bool" where
  "other_segment a b \<longleftrightarrow> a \<noteq> b \<and> (strconv_Atoi a = None \<or> strconv_Atoi a \<noteq> strconv_Atoi b)"

fun diverge :: "string list \<Rightarrow> string list \<Rightarrow> bool" where
  "diverge (a # p) (b # q) \<longleftrightarrow> other_segment a b \<or> a = b \<and> diverge p q"
| "diverge p q \<longleftrightarrow> False"

lemma obj_set_twice [simp]: "obj_set (obj_set kvs k a) k b = obj_set kvs k b"
  unfolding obj_set_def by (induction kvs) auto

subsection \<open>One step of a write\<close>

text \<open>The element an operation goes into, and the node around a new element.\<close>

definition enter :: "json \<Rightarrow> string \<Rightarrow> (json \<times> (json \<Rightarrow> json)) wire" where
  "enter node seg =
    (case (if node = JNull then (if strconv_Atoi seg \<noteq> None then JArray [] else JObject []) else node) of
       JObject kvs \<Rightarrow> Inr (obj_get kvs seg, \<lambda>v. JObject (obj_set kvs seg v))
     | JArray xs \<Rightarrow>
         (case strconv_Atoi seg of
            None \<Rightarrow> Inl InvalidIndex
          | Some i \<Rightarrow>
              if i < 0 \<or> i > max_index then Inl InvalidIndex
              else let ys = xs @ replicate (nat i + 1 - length xs) JNull
                   in Inr (ys ! nat i, \<lambda>v. JArray (ys[nat i := v])))
     | _ \<Rightarrow> Inl InvalidStatePath)"

lemma apply_op_enter:
  "apply_op node (seg # path) op =
    bind_r (validatePath (seg # path)) (\<lambda>_.
    bind_r (enter node seg) (\<lambda>(child, put). bind_r (apply_op child path op) (\<lambda>v. Inr (put v))))"
  by (auto simp: enter_def Let_def bind_r_def split: json.split option.split sum.split)

declare apply_op.simps(2) [simp del]

lemma enter_laws:
  assumes "enter node seg = Inr (child, put)"
  shows "child = json_at node [seg]" and "json_at (put v) [seg] = v"
    and "other_segment seg b \<Longrightarrow> json_at (put v) [b] = json_at node [b]"
    and "enter (put v) seg = Inr (v, put)"
proof -
  let ?n = "if node = JNull then (if strconv_Atoi seg \<noteq> None then JArray [] else JObject []) else node"
  consider (obj) kvs where "?n = JObject kvs" "child = obj_get kvs seg" "put = (\<lambda>v. JObject (obj_set kvs seg v))"
    | (arr) xs i where "?n = JArray xs" "strconv_Atoi seg = Some i" "0 \<le> i" "i \<le> max_index"
        "child = (xs @ replicate (nat i + 1 - length xs) JNull) ! nat i"
        "put = (\<lambda>v. JArray ((xs @ replicate (nat i + 1 - length xs) JNull)[nat i := v]))"
    using assms unfolding enter_def Let_def
    by (auto split: json.split_asm option.split_asm if_split_asm)
  then have "child = json_at node [seg] \<and> json_at (put v) [seg] = v \<and>
    (other_segment seg b \<longrightarrow> json_at (put v) [b] = json_at node [b]) \<and> enter (put v) seg = Inr (v, put)"
  proof cases
    case obj
    have at_b: "json_at node [b] = obj_get kvs b" for b
      using obj(1) by (cases node) (auto simp: obj_get_def split: if_split_asm)
    have put_b: "json_at (put v) [b] = obj_get (obj_set kvs seg v) b" for v b by (simp add: obj(3))
    have "enter (put v) seg = Inr (v, put)" by (simp add: enter_def obj(3) fun_eq_iff)
    then show ?thesis unfolding at_b put_b using obj(2) by (simp add: other_segment_def)
  next
    case arr
    have at_b: "json_at node [b] = (case strconv_Atoi b of
        Some j \<Rightarrow> if 0 \<le> j \<and> nat j < length xs then xs ! nat j else JNull | None \<Rightarrow> JNull)" for b
      using arr(1) by (cases node) (auto split: if_split_asm option.split)
    let ?ys = "xs @ replicate (nat i + 1 - length xs) JNull"
    have len: "nat i < length ?ys" by simp
    have ys: "?ys ! k = (if k < length xs then xs ! k else JNull)" if "k < length ?ys" for k
      using that by (auto simp: nth_append)
    have "child = json_at node [seg]" using arr at_b ys [OF len] by simp
    moreover have "json_at (put v) [seg] = v" using arr len by simp
    moreover have "json_at (put v) [b] = json_at node [b]" if "other_segment seg b"
    proof (cases "strconv_Atoi b")
      case (Some j)
      with that arr(2) have "j \<noteq> i" by (auto simp: other_segment_def)
      then have "nat j \<noteq> nat i" if "0 \<le> j" using that arr(3) by auto
      then have put_b: "json_at (put v) [b] = (if 0 \<le> j \<and> nat j < length ?ys then ?ys ! nat j else JNull)"
        unfolding arr(6) using Some by (cases "0 \<le> j") (simp_all add: nth_list_update)
      have node_b: "json_at node [b] = (if 0 \<le> j \<and> nat j < length xs then xs ! nat j else JNull)"
        unfolding at_b Some by simp
      show ?thesis
      proof (cases "nat j < length ?ys")
        case True
        show ?thesis unfolding put_b node_b ys [OF True] using True by simp
      next
        case False
        then have "\<not> nat j < length xs" by simp
        with False show ?thesis unfolding put_b node_b by simp
      qed
    qed (use arr at_b in simp)
    moreover have "enter (put v) seg = Inr (v, put)"
      using arr len by (auto simp: enter_def Let_def fun_eq_iff)
    ultimately show ?thesis by blast
  qed
  then show "child = json_at node [seg]" "json_at (put v) [seg] = v"
    "other_segment seg b \<Longrightarrow> json_at (put v) [b] = json_at node [b]" "enter (put v) seg = Inr (v, put)" by blast+
qed

lemma apply_op_step:
  assumes "apply_op node (seg # path) op = Inr node'"
  obtains child put v where "validatePath (seg # path) = Inr ()" "enter node seg = Inr (child, put)"
    "apply_op child path op = Inr v" "node' = put v"
  using assms unfolding apply_op_enter by (auto simp: go_simps)

subsection \<open>Writes\<close>

lemma json_at_Cons: "json_at v (seg # path) = json_at (json_at v [seg]) path"
  using json_at_append [of v "[seg]" path] by simp

lemma apply_op_frame:
  "apply_op node p op = Inr node' \<Longrightarrow> diverge p q \<Longrightarrow> json_at node' q = json_at node q"
proof (induction p arbitrary: node node' q)
  case (Cons seg p)
  from Cons.prems(1) obtain child put v where st: "enter node seg = Inr (child, put)"
    "apply_op child p op = Inr v" "node' = put v" by (rule apply_op_step)
  note laws = enter_laws [OF st(1)]
  from Cons.prems(2) obtain b q' where q: "q = b # q'" by (cases q) auto
  have split: "json_at n q = json_at (json_at n [b]) q'" for n unfolding q by (rule json_at_Cons)
  show ?case
  proof (cases "other_segment seg b")
    case True
    then show ?thesis unfolding split st(3) by (simp only: laws(3))
  next
    case False
    with Cons.prems(2) q have b: "b = seg" and "diverge p q'" by auto
    with Cons.IH [OF st(2)] have "json_at v q' = json_at child q'" by blast
    then show ?thesis unfolding split st(3) b laws(2) laws(1) by simp
  qed
qed simp

lemma apply_op_at:
  "apply_op node p op = Inr node' \<Longrightarrow> apply_op (json_at node p) [] op = Inr (json_at node' p)"
proof (induction p arbitrary: node node')
  case (Cons seg p)
  from Cons.prems(1) obtain child put v where st: "enter node seg = Inr (child, put)"
    "apply_op child p op = Inr v" "node' = put v" by (rule apply_op_step)
  have "json_at node (seg # p) = json_at child p"
    by (subst json_at_Cons) (simp only: enter_laws(1) [OF st(1)])
  moreover have "json_at node' (seg # p) = json_at v p"
    unfolding st(3) by (subst json_at_Cons) (simp only: enter_laws(2) [OF st(1)])
  ultimately show ?case using Cons.IH [OF st(2)] by simp
qed simp

lemma validatePath_Inr [go_simps]: "validatePath p = Inr () \<longleftrightarrow> set p \<inter> set unsafePathSegments = {}"
  by (auto simp: validatePath_def go_simps)

text \<open>A write below a place that was just set is the place set to the result.\<close>

definition set_value :: "json \<Rightarrow> operation" where
  "set_value v = \<lparr>op_Type = ''set'', op_Path = [], op_Value = v\<rparr>"

lemma apply_op_set_value: "op_Type op = ''set'' \<Longrightarrow> apply_op node p op = apply_op node p (set_value (op_Value op))"
  by (induction p arbitrary: node) (simp_all add: set_value_def apply_op_enter)

lemma apply_after_set:
  assumes "apply_op node p (set_value x) = Inr node'" and "set q \<inter> set unsafePathSegments = {}"
  shows "apply_op node' (p @ q) op = bind_r (apply_op x q op) (\<lambda>y. apply_op node p (set_value y))"
  using assms
proof (induction p arbitrary: node node')
  case Nil
  then show ?case by (cases "apply_op x q op") (simp_all add: set_value_def)
next
  case (Cons seg p)
  from Cons.prems(1) obtain child put v where st: "validatePath (seg # p) = Inr ()" "enter node seg = Inr (child, put)"
    "apply_op child p (set_value x) = Inr v" "node' = put v" by (rule apply_op_step)
  have "validatePath (seg # p @ q) = Inr ()" using st(1) Cons.prems(2) by (auto simp: go_simps)
  then show ?case
    using Cons.IH [OF st(3) Cons.prems(2)] enter_laws(4) [OF st(2)] st(1,2)
    by (cases "apply_op x q op") (simp_all add: apply_op_enter st(4))
qed

text \<open>C14. A write that succeeds reads back: a set leaves its value at its path, an append leaves the old
  text with the new one behind it (both have to be texts), and every place whose path
  parts from the written one reads as before, whatever had to be created on the way.\<close>

theorem apply_op_writes:
  assumes "apply_op node p op = Inr node'"
  shows "(if op_Type op = ''set'' then json_at node' p = op_Value op
     else \<exists>a b. json_at node p = JString a \<and> op_Value op = JString b \<and> json_at node' p = JString (a @ b)) \<and>
    (\<forall>q. diverge p q \<longrightarrow> json_at node' q = json_at node q)"
proof -
  from apply_op_at [OF assms] have "if op_Type op = ''set'' then json_at node' p = op_Value op
     else \<exists>a b. json_at node p = JString a \<and> op_Value op = JString b \<and> json_at node' p = JString (a @ b)"
    by (auto split: if_split_asm json.split_asm)
  then show ?thesis using apply_op_frame [OF assms] by blast
qed

theorem apply_op_writes_witness:
  "\<exists>v. apply_op empty_snapshot [''messages'', ''1'', ''id''] (set_value (JString ''m'')) = Inr v \<and>
     json_at v [''messages'', ''1'', ''id''] = JString ''m'' \<and> json_at v [''isRunning''] = JBool False"
proof -
  have "(case apply_op empty_snapshot [''messages'', ''1'', ''id''] (set_value (JString ''m'')) of Inl _ \<Rightarrow> False | Inr _ \<Rightarrow> True)"
    by code_simp
  then obtain v where v: "apply_op empty_snapshot [''messages'', ''1'', ''id''] (set_value (JString ''m'')) = Inr v"
    by (auto split: sum.splits)
  have "diverge [''messages'', ''1'', ''id''] [''isRunning'']" by code_simp
  moreover have "json_at empty_snapshot [''isRunning''] = JBool False" by code_simp
  ultimately have "json_at v [''isRunning''] = JBool False" using apply_op_writes [OF v] by metis
  moreover have "json_at v [''messages'', ''1'', ''id''] = JString ''m''"
    using apply_op_writes [OF v] by (simp add: set_value_def del: json_at.simps)
  ultimately show ?thesis using v by blast
qed

subsection \<open>Streaming\<close>

lemma apply_set_error:
  "apply_op node p (set_value x) = Inl e \<Longrightarrow> apply_op node p (set_value y) = Inl e"
proof (induction p arbitrary: node)
  case (Cons seg p)
  then show ?case by (cases "enter node seg") (auto simp: apply_op_enter go_simps)
qed (simp add: set_value_def)

definition append_value :: "string \<Rightarrow> operation" where
  "append_value s = \<lparr>op_Type = ''append-text'', op_Path = [], op_Value = JString s\<rparr>"

lemma apply_op_append_value:
  "op_Type op = ''append-text'' \<Longrightarrow> op_Value op = JString s \<Longrightarrow> apply_op node p op = apply_op node p (append_value s)"
  by (induction p arbitrary: node) (simp_all add: append_value_def apply_op_enter)

lemma PartTextPath_eq: "PartTextPath n i = PartPath n i @ [''text'']"
  by (simp add: PartTextPath_def PartPath_def)

lemma append_to_text_part:
  "apply_op (part_json (TextPart a)) [''text''] (append_value d) = Inr (part_json (TextPart (a @ d)))"
  by (simp add: apply_op_enter enter_def part_json_def TextPart_def zero_part_def append_value_def obj_get_def
      obj_set_def validatePath_def unsafePathSegments_def)

lemma stream_text:
  assumes "apply_op node (PartPath n i) (set_value (part_json (TextPart a))) = Inr node'"
  shows "apply_ops node' (map (\<lambda>d. \<lparr>op_Type = ''append-text'', op_Path = PartTextPath n i, op_Value = JString d\<rparr>) ds)
    = apply_op node (PartPath n i) (set_value (part_json (TextPart (a @ concat ds))))"
  using assms
proof (induction ds arbitrary: a node')
  case (Cons d ds)
  let ?op = "\<lparr>op_Type = ''append-text'', op_Path = PartTextPath n i, op_Value = JString d\<rparr>"
  have "apply_op node' (PartTextPath n i) ?op = apply_op node' (PartPath n i @ [''text'']) (append_value d)"
    unfolding PartTextPath_eq by (rule apply_op_append_value) simp_all
  also have "\<dots> = apply_op node (PartPath n i) (set_value (part_json (TextPart (a @ d))))"
    using apply_after_set [OF Cons.prems, of "[''text'']" "append_value d"]
    by (simp add: append_to_text_part unsafePathSegments_def)
  finally have step: "apply_op node' (PartTextPath n i) ?op = \<dots>" .
  show ?case
  proof (cases "apply_op node (PartPath n i) (set_value (part_json (TextPart (a @ d))))")
    case (Inl e)
    with apply_set_error [OF Inl, of "part_json (TextPart a)"] Cons.prems show ?thesis by simp
  next
    case (Inr node1)
    with step Cons.IH [OF Inr] show ?thesis by simp
  qed
qed simp

text \<open>C15. Streaming a text is setting it: an empty text part followed by its deltas, in however many
  pieces, ends in exactly the state (or the error) of one set of the part with the whole text.\<close>

theorem streaming_equals_set:
  "Set_op (PartPath n i) (part_json (TextPart s)) =
     Inr \<lparr>op_Type = ''set'', op_Path = PartPath n i, op_Value = part_json (TextPart s)\<rparr> \<and>
   apply_ops node (\<lparr>op_Type = ''set'', op_Path = PartPath n i, op_Value = part_json (TextPart [])\<rparr> #
       map (\<lambda>d. \<lparr>op_Type = ''append-text'', op_Path = PartTextPath n i, op_Value = JString d\<rparr>) ds)
     = apply_ops node [\<lparr>op_Type = ''set'', op_Path = PartPath n i, op_Value = part_json (TextPart (concat ds))\<rparr>]"
proof
  have "seg \<notin> set unsafePathSegments" if "seg \<in> set (PartPath n i)" for seg
  proof -
    have "strconv_Itoa (int k) \<notin> set unsafePathSegments" for k
    proof
      assume "strconv_Itoa (int k) \<in> set unsafePathSegments"
      moreover have "list_all is_digit (strconv_Itoa (int k))"
        using itoa_nat_digits [of k] by (simp add: strconv_Itoa_nat)
      moreover have "\<forall>u \<in> set unsafePathSegments. \<not> list_all is_digit u"
        by (simp add: unsafePathSegments_def is_digit_def digit_value_def)
      ultimately show False by blast
    qed
    with that show ?thesis by (auto simp: PartPath_def unsafePathSegments_def)
  qed
  then show "Set_op (PartPath n i) (part_json (TextPart s)) =
     Inr \<lparr>op_Type = ''set'', op_Path = PartPath n i, op_Value = part_json (TextPart s)\<rparr>"
    by (auto simp: Set_op_def validatePath_def)
  let ?p = "PartPath n i"
  have set_op: "apply_op node ?p \<lparr>op_Type = ''set'', op_Path = ?p, op_Value = v\<rparr> = apply_op node ?p (set_value v)" for v
    using apply_op_set_value [of "\<lparr>op_Type = ''set'', op_Path = ?p, op_Value = v\<rparr>" node ?p] by simp
  show "apply_ops node (\<lparr>op_Type = ''set'', op_Path = PartPath n i, op_Value = part_json (TextPart [])\<rparr> #
       map (\<lambda>d. \<lparr>op_Type = ''append-text'', op_Path = PartTextPath n i, op_Value = JString d\<rparr>) ds)
     = apply_ops node [\<lparr>op_Type = ''set'', op_Path = PartPath n i, op_Value = part_json (TextPart (concat ds))\<rparr>]"
  proof (cases "apply_op node ?p (set_value (part_json (TextPart [])))")
    case (Inl e)
    with apply_set_error [OF Inl, of "part_json (TextPart (concat ds))"] show ?thesis by (simp add: set_op)
  next
    case (Inr node')
    from stream_text [OF Inr, of ds] Inr show ?thesis
      by (cases "apply_op node ?p (set_value (part_json (TextPart (concat ds))))") (simp_all add: set_op)
  qed
qed

subsection \<open>Replay\<close>

text \<open>The persisted snapshot after a list of committed events.\<close>

fun replay :: "json option \<Rightarrow> json list \<Rightarrow> json option wire" where
  "replay snapshot [] = Inr snapshot"
| "replay snapshot (event # events) =
    bind_r (ApplyStateJSON snapshot event) (\<lambda>v. replay (Some v) events)"

text \<open>The operations a list of events carries, in order.\<close>

definition event_operations :: "json \<Rightarrow> operation list wire" where
  "event_operations event =
    bind_r (decoded (chunk_of_json event)) (\<lambda>c. bind_r (Validate c) (\<lambda>_.
    Inr (if ch_Type c = ''update-state'' then slice_elems (ch_Operations c) else [])))"

lemma apply_ops_append: "apply_ops v (xs @ ys) = bind_r (apply_ops v xs) (\<lambda>v'. apply_ops v' ys)"
  by (induction xs arbitrary: v) (auto simp: bind_r_def split: sum.split)

lemma obj_set_nonempty: "obj_set kvs k v \<noteq> []"
  unfolding obj_set_def by (cases kvs) auto

lemma apply_op_not_empty: "apply_op node p op = Inr v \<Longrightarrow> p \<noteq> [] \<Longrightarrow> v \<noteq> JObject []"
  by (cases p) (auto simp: apply_op_enter enter_def go_simps Let_def obj_set_nonempty
      split: json.split_asm option.split_asm if_split_asm)

lemma validate_operations_paths: "validate_operations ops = Inr () \<Longrightarrow> \<forall>op \<in> set ops. op_Path op \<noteq> []"
  by (induction ops) (auto simp: go_simps)

lemma apply_ops_not_empty:
  "apply_ops node ops = Inr v \<Longrightarrow> \<forall>op \<in> set ops. op_Path op \<noteq> [] \<Longrightarrow> node \<noteq> JObject [] \<Longrightarrow> v \<noteq> JObject []"
proof (induction ops arbitrary: node)
  case (Cons op ops)
  then obtain node' where "apply_op node (op_Path op) op = Inr node'" "apply_ops node' ops = Inr v"
    by (auto simp: go_simps)
  with Cons apply_op_not_empty show ?case by simp
qed simp

lemma ApplyStateJSON_ops:
  assumes "event_operations event = Inr ops" and "snapshot_root snapshot \<noteq> JObject []"
  shows "ApplyStateJSON snapshot event = apply_ops (snapshot_root snapshot) ops"
    and "\<forall>op \<in> set ops. op_Path op \<noteq> []"
proof -
  from assms(1) obtain c where c: "decoded (chunk_of_json event) = Inr c" "Validate c = Inr ()"
    "ops = (if ch_Type c = ''update-state'' then slice_elems (ch_Operations c) else [])"
    by (auto simp: event_operations_def go_simps)
  then show "ApplyStateJSON snapshot event = apply_ops (snapshot_root snapshot) ops"
    by (simp add: ApplyStateJSON_def slice_elems_def)
  have "validate_operations (slice_elems (ch_Operations c)) = Inr ()" if "ch_Type c = ''update-state''"
    using c(2) that by (auto simp: Validate_def go_simps slice_elems_def split: option.split_asm)
  then show "\<forall>op \<in> set ops. op_Path op \<noteq> []" using c(3) validate_operations_paths by auto
qed

lemma replay_fold:
  assumes "map_r event_operations events = Inr opss" and "snapshot_root snapshot \<noteq> JObject []" and "events \<noteq> []"
  shows "replay snapshot events = bind_r (apply_ops (snapshot_root snapshot) (concat opss)) (\<lambda>v. Inr (Some v))"
  using assms
proof (induction events arbitrary: snapshot opss)
  case (Cons event events)
  then obtain ops rest where ops: "event_operations event = Inr ops" "map_r event_operations events = Inr rest"
    "opss = ops # rest" by (auto simp: go_simps)
  note step = ApplyStateJSON_ops [OF ops(1) Cons.prems(2)]
  show ?case
  proof (cases "apply_ops (snapshot_root snapshot) ops")
    case (Inl e)
    then show ?thesis by (simp add: step(1) ops(3) apply_ops_append)
  next
    case (Inr v)
    from apply_ops_not_empty [OF Inr step(2) Cons.prems(2)] have v: "snapshot_root (Some v) = v" "v \<noteq> JObject []"
      by (simp_all add: snapshot_root_def)
    show ?thesis
    proof (cases events)
      case Nil
      with Inr ops show ?thesis by (simp add: step(1))
    next
      case (Cons e es)
      then have "replay (Some v) events = bind_r (apply_ops v (concat rest)) (\<lambda>v. Inr (Some v))"
        using Cons.IH [OF ops(2), of "Some v"] v by simp
      with Inr ops show ?thesis by (simp add: step(1) apply_ops_append)
    qed
  qed
qed simp

text \<open>Resuming from a snapshot loses nothing: folding well-formed events one by one, through the
  snapshot stored after each, is applying the operations of all of them in order to the empty
  thread, with the same error if one of them cannot be applied; and the events can be cut at
  any point, the second part starting from the snapshot of the first.\<close>

theorem replay_is_one_fold:
  assumes "map_r event_operations (before @ after) = Inr opss" and "before \<noteq> []" and "after \<noteq> []"
  shows "replay None (before @ after) = bind_r (apply_ops empty_snapshot (concat opss)) (\<lambda>v. Inr (Some v)) \<and>
    replay None (before @ after) = bind_r (replay None before) (\<lambda>snapshot. replay snapshot after)"
proof
  have r: "snapshot_root None = empty_snapshot" "empty_snapshot \<noteq> JObject []"
    by (simp_all add: snapshot_root_def empty_snapshot_def)
  then show "replay None (before @ after) = bind_r (apply_ops empty_snapshot (concat opss)) (\<lambda>v. Inr (Some v))"
    using replay_fold [OF assms(1), of None] assms(2) by simp
  have "replay st (before @ after) = bind_r (replay st before) (\<lambda>snapshot. replay snapshot after)" for st
    by (induction before arbitrary: st) (auto simp: bind_r_def split: sum.split)
  then show "replay None (before @ after) = bind_r (replay None before) (\<lambda>snapshot. replay snapshot after)" .
qed

definition sample_event :: "string list \<Rightarrow> json \<Rightarrow> json" where
  "sample_event path v = chunk_json (UpdateState (Some [\<lparr>op_Type = ''set'', op_Path = path, op_Value = v\<rparr>]))"

theorem replay_is_one_fold_witness:
  "replay None ([sample_event [''isRunning''] (JBool True)] @ [sample_event [''fasttask'', ''runId''] (JString ''r'')]) =
     Inr (Some (JObject [(''messages'', JArray []), (''isRunning'', JBool True),
       (''fasttask'', JObject [(''runId'', JString ''r'')])]))"
proof -
  let ?b = "[sample_event [''isRunning''] (JBool True)]" and ?a = "[sample_event [''fasttask'', ''runId''] (JString ''r'')]"
  let ?opss = "[[\<lparr>op_Type = ''set'', op_Path = [''isRunning''], op_Value = JBool True\<rparr>],
     [\<lparr>op_Type = ''set'', op_Path = [''fasttask'', ''runId''], op_Value = JString ''r''\<rparr>]]"
  have "map_r event_operations (?b @ ?a) = Inr ?opss" by code_simp
  from replay_is_one_fold [OF this] have "replay None (?b @ ?a) =
    bind_r (apply_ops empty_snapshot (concat ?opss)) (\<lambda>v. Inr (Some v))" by simp
  also have "\<dots> = Inr (Some (JObject [(''messages'', JArray []), (''isRunning'', JBool True),
       (''fasttask'', JObject [(''runId'', JString ''r'')])]))" by code_simp
  finally show ?thesis .
qed

subsection \<open>The encoding of a chunk\<close>

lemma obj_get_append: "obj_get (xs @ ys) k = (if k \<in> fst ` set xs then obj_get xs k else obj_get ys k)"
  by (induction xs) (auto simp: obj_get_def)

lemma obj_get_Cons: "obj_get ((k', v) # xs) k = (if k = k' then v else obj_get xs k)"
  by (simp add: obj_get_def)

lemma obj_get_Nil: "obj_get [] k = JNull"
  by (simp add: obj_get_def)

lemmas obj_get_simps = obj_get_append obj_get_Cons obj_get_Nil

lemma keys_omit_slice [simp]:
  "fst ` set (omit_slice k f xs) = (if slice_elems xs = [] then {} else {k})"
proof (cases "slice_elems xs")
  case Nil
  then show ?thesis by (auto simp: omit_slice_def slice_elems_def split: option.split list.split)
next
  case (Cons y ys)
  then have "xs = Some (y # ys)" by (auto simp: slice_elems_def split: option.split_asm)
  then show ?thesis by (simp add: omit_slice_def slice_elems_def)
qed

lemma get_omit_slice [simp]:
  "obj_get (omit_slice k f xs) j = (if j = k \<and> slice_elems xs \<noteq> [] then JArray (map f (slice_elems xs)) else JNull)"
  by (auto simp: omit_slice_def slice_elems_def obj_get_def split: option.split list.split)

lemma keys_omit_if [simp]: "fst ` set (omit_if b k v) = (if b then {} else {k})"
  by (simp add: omit_if_def)

lemma get_omit_if [simp]: "obj_get (omit_if b k v) j = (if j = k \<and> \<not> b then v else JNull)"
  by (simp add: omit_if_def obj_get_def)

lemma keys_omit_nil [simp]: "fst ` set (omit_nil k f x) = (if x = None then {} else {k})"
  by (cases x) (simp_all add: omit_nil_def)

lemma get_omit_nil [simp]:
  "obj_get (omit_nil k f x) j = (if j = k then (case x of None \<Rightarrow> JNull | Some y \<Rightarrow> f y) else JNull)"
  by (cases x) (simp_all add: omit_nil_def obj_get_def)

text \<open>What a decoder cannot tell apart: an empty slice that was left out is \<open>nil\<close> again.\<close>

definition nil_if_empty :: "'a list option \<Rightarrow> 'a list option" where
  "nil_if_empty xs = slice_of (slice_elems xs)"

definition approval_norm :: "approval \<Rightarrow> approval" where
  "approval_norm a = a\<lparr>ap_Options := nil_if_empty (ap_Options a)\<rparr>"

text \<open>A part keeps the fields of its type.\<close>

definition part_norm :: "part \<Rightarrow> part" where
  "part_norm p =
    (if pt_Type p = ''text'' then TextPart (pt_Text p)
     else if pt_Type p = ''reasoning'' then ReasoningPart (pt_ID p) (pt_Text p)
     else if pt_Type p = ''image'' then ImagePart (pt_Image p)
     else if pt_Type p = ''tool-call'' then
       zero_part\<lparr>pt_Type := ''tool-call'', pt_ToolCallID := pt_ToolCallID p, pt_ToolName := pt_ToolName p,
         pt_Args := Some (slice_elems (pt_Args p)), pt_Result := pt_Result p, pt_IsError := pt_IsError p,
         pt_Approval := map_option approval_norm (pt_Approval p)\<rparr>
     else zero_part\<lparr>pt_Type := pt_Type p\<rparr>)"

lemma dec_simps [simp]:
  "dec_string (JString s) = Inr s" "dec_string JNull = Inr []"
  "dec_bool (JBool b) = Inr b" "dec_bool JNull = Inr False"
  "dec_object (JObject kvs) = Inr kvs"
  "dec_map (JObject kvs) = Inr (Some kvs)"
  "dec_anys JNull = Inr None" "dec_anys (JArray xs) = Inr (Some xs)"
  "dec_list f JNull = Inr None"
  by (simp_all add: dec_string_def dec_bool_def dec_object_def dec_map_def dec_anys_def dec_list_def)

lemma dec_int_of_int [simp]: "- (2 ^ 63) \<le> n \<Longrightarrow> n < 2 ^ 63 \<Longrightarrow> dec_int (JNumber (of_int n)) = Inr n"
  by (simp add: dec_int_def)

lemma approval_round_trip: "approval_of_json (approval_json a) = Inr (Some (approval_norm a))"
  by (auto simp: approval_of_json_def approval_json_def obj_get_simps approval_norm_def nil_if_empty_def slice_of_def
      slice_elems_def)

lemma part_round_trip: "part_of_json (part_json p) = Inr (part_norm p)"
proof -
  consider "pt_Type p = ''text''" | "pt_Type p = ''reasoning''" | "pt_Type p = ''image''"
    | "pt_Type p = ''tool-call''" | "pt_Type p \<notin> {''text'', ''reasoning'', ''image'', ''tool-call''}" by blast
  then show ?thesis
  proof cases
    case 4
    have a: "approval_of_json (case pt_Approval p of None \<Rightarrow> JNull | Some a \<Rightarrow> approval_json a) =
        Inr (map_option approval_norm (pt_Approval p))"
      by (cases "pt_Approval p") (simp_all add: approval_round_trip, simp add: approval_of_json_def)
    have args: "(case pt_Args p of None \<Rightarrow> [] | Some kvs \<Rightarrow> kvs) = slice_elems (pt_Args p)"
      by (simp add: slice_elems_def)
    show ?thesis using 4 a
      by (simp add: part_of_json_def part_json_def Let_def part_norm_def obj_get_simps args)
  qed (simp_all add: part_of_json_def part_json_def Let_def part_norm_def obj_get_simps TextPart_def ReasoningPart_def
      ImagePart_def zero_part_def)
qed

lemma part_json_object: "part_json p \<noteq> JNull"
  by (simp add: part_json_def Let_def)

definition chunk_norm :: "chunk \<Rightarrow> chunk" where
  "chunk_norm c = c\<lparr>ch_Operations := nil_if_empty (ch_Operations c), ch_Part := map_option part_norm (ch_Part c),
     ch_Annotations := nil_if_empty (ch_Annotations c), ch_Data := nil_if_empty (ch_Data c)\<rparr>"

lemma operation_round_trip: "operation_of_json (operation_json op) = Inr op"
proof -
  have "dec_list dec_string (JArray (map JString (op_Path op))) = Inr (Some (map (\<lambda>s. s) (op_Path op)))"
    by (rule dec_list_map) simp
  then show ?thesis by (simp add: operation_of_json_def operation_json_def obj_get_simps)
qed

lemma dec_slice:
  assumes "\<And>x. x \<in> set (slice_elems xs) \<Longrightarrow> f (g x) = Inr x"
  shows "dec_list f (if slice_elems xs \<noteq> [] then JArray (map g (slice_elems xs)) else JNull) = Inr (nil_if_empty xs)"
  using dec_list_map [of "slice_elems xs" f g "\<lambda>x. x"] assms by (simp add: nil_if_empty_def slice_of_def)

lemma dec_anys_slice:
  "dec_anys (if slice_elems xs \<noteq> [] then JArray (map (\<lambda>v. v) (slice_elems xs)) else JNull) = Inr (nil_if_empty xs)"
  by (simp add: nil_if_empty_def slice_of_def)

lemma dec_path_json:
  assumes "\<forall>seg \<in> set (path_segments c). - (2 ^ 63) \<le> seg \<and> seg < 2 ^ 63" and "ch_Path c \<noteq> Some None"
  shows "dec_path (case ch_Path c of None \<Rightarrow> JNull | Some path \<Rightarrow> path_json path) = Inr (ch_Path c)"
proof (cases "ch_Path c")
  case None
  then show ?thesis by (simp add: dec_path_def)
next
  case (Some path)
  with assms(2) obtain xs where xs: "path = Some xs" by (cases path) auto
  then have "\<forall>seg \<in> set xs. - (2 ^ 63) \<le> seg \<and> seg < 2 ^ 63" using assms(1) Some by (simp add: path_segments_def)
  then have "dec_list dec_int (JArray (map (\<lambda>n. JNumber (of_int n)) xs)) = Inr (Some (map (\<lambda>n. n) xs))"
    by (intro dec_list_map) auto
  then show ?thesis using Some xs by (simp add: dec_path_def path_json_def)
qed

lemma dec_omitted [simp]: "dec_string (if s = [] then JNull else JString s) = Inr s"
  by simp

lemma chunk_round_trip:
  assumes "\<forall>seg \<in> set (path_segments c). - (2 ^ 63) \<le> seg \<and> seg < 2 ^ 63" and "ch_Path c \<noteq> Some None"
  shows "chunk_of_json (chunk_json c) = Inr (chunk_norm c)"
proof -
  let ?kvs = "(''type'', JString (ch_Type c)) #
    omit_nil ''path'' path_json (ch_Path c) @
    omit_slice ''operations'' operation_json (ch_Operations c) @
    omit_nil ''part'' part_json (ch_Part c) @
    omit_slice ''annotations'' (\<lambda>v. v) (ch_Annotations c) @
    omit_slice ''data'' (\<lambda>v. v) (ch_Data c) @
    omit_if (ch_FinishReason c = []) ''finishReason'' (JString (ch_FinishReason c)) @
    omit_if (ch_TextDelta c = []) ''textDelta'' (JString (ch_TextDelta c)) @
    omit_nil ''isError'' JBool (ch_IsError c)"
  have get: "obj_get ?kvs ''type'' = JString (ch_Type c)"
    "obj_get ?kvs ''path'' = (case ch_Path c of None \<Rightarrow> JNull | Some path \<Rightarrow> path_json path)"
    "obj_get ?kvs ''operations'' = (if slice_elems (ch_Operations c) \<noteq> []
       then JArray (map operation_json (slice_elems (ch_Operations c))) else JNull)"
    "obj_get ?kvs ''part'' = (case ch_Part c of None \<Rightarrow> JNull | Some p \<Rightarrow> part_json p)"
    "obj_get ?kvs ''annotations'' = (if slice_elems (ch_Annotations c) \<noteq> []
       then JArray (map (\<lambda>v. v) (slice_elems (ch_Annotations c))) else JNull)"
    "obj_get ?kvs ''data'' = (if slice_elems (ch_Data c) \<noteq> []
       then JArray (map (\<lambda>v. v) (slice_elems (ch_Data c))) else JNull)"
    "dec_string (obj_get ?kvs ''finishReason'') = Inr (ch_FinishReason c)"
    "dec_string (obj_get ?kvs ''textDelta'') = Inr (ch_TextDelta c)"
    "obj_get ?kvs ''isError'' = (case ch_IsError c of None \<Rightarrow> JNull | Some b \<Rightarrow> JBool b)"
    by (simp_all add: obj_get_simps)
  have part: "(if (case ch_Part c of None \<Rightarrow> JNull | Some p \<Rightarrow> part_json p) = JNull then Inr None
      else bind_r (part_of_json (case ch_Part c of None \<Rightarrow> JNull | Some p \<Rightarrow> part_json p)) (\<lambda>p. Inr (Some p)))
      = (Inr (map_option part_norm (ch_Part c)) :: part option result)"
    by (cases "ch_Part c") (simp_all add: part_json_object part_round_trip)
  have err: "(if (case ch_IsError c of None \<Rightarrow> JNull | Some b \<Rightarrow> JBool b) = JNull then Inr None
      else bind_r (dec_bool (case ch_IsError c of None \<Rightarrow> JNull | Some b \<Rightarrow> JBool b)) (\<lambda>b. Inr (Some b)))
      = (Inr (ch_IsError c) :: bool option result)"
    by (cases "ch_IsError c") simp_all
  have ops: "dec_list operation_of_json (if slice_elems (ch_Operations c) \<noteq> []
       then JArray (map operation_json (slice_elems (ch_Operations c))) else JNull) = Inr (nil_if_empty (ch_Operations c))"
    by (rule dec_slice) (rule operation_round_trip)
  show ?thesis
    unfolding chunk_json_def chunk_of_json_def dec_simps bind_r_simps get dec_path_json [OF assms] part err ops dec_anys_slice
    by (simp add: chunk_norm_def)
qed

text \<open>A chunk the writer accepts survives the wire: what is decoded from its JSON is the chunk
  itself, up to empty slices that were left out and the fields a part of its type does not
  have, and it is accepted again. Two holes are excluded: a required path that points to a \<open>nil\<close>
  slice, and an update without operations.\<close>

theorem chunk_survives_the_wire:
  assumes "Validate c = Inr ()" and "\<forall>seg \<in> set (path_segments c). seg < 2 ^ 63"
    and "ch_Path c \<noteq> Some None" and "ch_Operations c \<noteq> Some []"
  shows "chunk_of_json (chunk_json c) = Inr (chunk_norm c) \<and> Validate (chunk_norm c) = Inr ()"
proof
  have "\<forall>seg \<in> set (path_segments c). \<not> seg < 0" using assms(1) by (auto simp: Validate_def go_simps)
  then have "\<forall>seg \<in> set (path_segments c). - (2 ^ 63) \<le> seg \<and> seg < 2 ^ 63"
    using assms(2) by force
  from chunk_round_trip [OF this assms(3)] show "chunk_of_json (chunk_json c) = Inr (chunk_norm c)" .
  have "nil_if_empty (ch_Operations c) = ch_Operations c"
    using assms(4) by (cases "ch_Operations c") (auto simp: nil_if_empty_def slice_of_def slice_elems_def)
  then have same: "ch_Operations (chunk_norm c) = ch_Operations c" "ch_Type (chunk_norm c) = ch_Type c"
    "ch_Path (chunk_norm c) = ch_Path c" "ch_FinishReason (chunk_norm c) = ch_FinishReason c"
    "path_segments (chunk_norm c) = path_segments c" "ch_Part (chunk_norm c) \<noteq> None \<longleftrightarrow> ch_Part c \<noteq> None"
    by (simp_all add: chunk_norm_def path_segments_def)
  have "Validate (chunk_norm c) = Validate c" unfolding Validate_def same ..
  with assms(1) show "Validate (chunk_norm c) = Inr ()" by simp
qed

theorem chunk_survives_the_wire_witness:
  "chunk_of_json (chunk_json (TextDelta [0, 1] ''hi'')) = Inr (TextDelta [0, 1] ''hi'')"
proof -
  have v: "Validate (TextDelta [0, 1] ''hi'') = Inr ()" by code_simp
  have "chunk_of_json (chunk_json (TextDelta [0, 1] ''hi'')) = Inr (chunk_norm (TextDelta [0, 1] ''hi''))"
    by (rule conjunct1 [OF chunk_survives_the_wire [OF v]])
      (simp_all add: path_segments_def TextDelta_def slice_of_def chunk_of_def)
  also have "chunk_norm (TextDelta [0, 1] ''hi'') = TextDelta [0, 1] ''hi''" by code_simp
  finally show ?thesis .
qed

text \<open>The constructors of the chunks that need a path do not keep an empty one: the chunk is
  accepted by the writer, but its path is written as \<open>null\<close>, and what is decoded from
  it is refused because the path is missing.\<close>

theorem empty_path_is_lost:
  "list_all (\<lambda>c. Validate c = Inr () \<and> (case chunk_json c of JObject kvs \<Rightarrow> obj_get kvs ''path'' = JNull \<and> ''path'' \<in> fst ` set kvs | _ \<Rightarrow> False) \<and>
     (\<exists>c'. chunk_of_json (chunk_json c) = Inr c' \<and> Validate c' = Inl PathRequired))
     [TextDelta [] delta, PartFinish [], ToolCallArgsTextFinish [], Result_chunk [] failed]"
  by (simp add: Validate_def go_simps TextDelta_def PartFinish_def ToolCallArgsTextFinish_def Result_chunk_def chunk_of_def
      slice_of_def validChunkTypes_def pathRequired_def path_segments_def chunk_json_def path_json_def obj_get_simps
      omit_slice_def omit_if_def omit_nil_def chunk_of_json_def dec_path_def guard_r_def)

subsection \<open>The encoding of a thread state\<close>

text \<open>The lists are written as arrays even when they are \<open>nil\<close>.\<close>

definition message_norm :: "message \<Rightarrow> message" where
  "message_norm m = m\<lparr>m_Parts := Some (map part_norm (slice_elems (m_Parts m)))\<rparr>"

definition state_norm :: "thread_state \<Rightarrow> thread_state" where
  "state_norm st = st\<lparr>ts_Messages := Some (map message_norm (slice_elems (ts_Messages st))),
     ts_FastTask := (ts_FastTask st)\<lparr>ft_PendingProposals := Some (slice_elems (ft_PendingProposals (ts_FastTask st)))\<rparr>\<rparr>"

lemma status_round_trip: "status_of_json (status_json st) = Inr st"
  by (simp add: status_of_json_def status_json_def obj_get_simps)

lemma message_round_trip: "message_of_json (message_json m) = Inr (message_norm m)"
proof -
  have "dec_list part_elem (JArray (map part_json (slice_elems (m_Parts m)))) =
      Inr (Some (map part_norm (slice_elems (m_Parts m))))"
    by (rule dec_list_map) (simp add: part_elem_def part_json_object part_round_trip)
  then show ?thesis
    by (simp add: message_of_json_def message_json_def obj_get_simps status_round_trip message_norm_def)
qed

lemma proposal_round_trip:
  "- (2 ^ 63) \<le> pp_BaseRevision p \<Longrightarrow> pp_BaseRevision p < 2 ^ 63 \<Longrightarrow> proposal_of_json (proposal_json p) = Inr p"
  by (simp add: proposal_of_json_def proposal_json_def obj_get_simps)

text \<open>A thread state written to its column is read back as it was, up to \<open>nil\<close> lists, which come
  back empty, and to the fields a part of its type does not have.\<close>

theorem thread_state_round_trip:
  assumes "\<forall>p \<in> set (slice_elems (ft_PendingProposals (ts_FastTask st))).
     - (2 ^ 63) \<le> pp_BaseRevision p \<and> pp_BaseRevision p < 2 ^ 63"
  shows "state_of_json (state_json st) = Inr (state_norm st)"
proof -
  let ?ps = "slice_elems (ft_PendingProposals (ts_FastTask st))"
  have "dec_list proposal_of_json (JArray (map proposal_json ?ps)) = Inr (Some (map (\<lambda>p. p) ?ps))"
    by (rule dec_list_map) (use assms proposal_round_trip in auto)
  then have "fasttask_of_json (fasttask_json (ts_FastTask st)) =
      Inr ((ts_FastTask st)\<lparr>ft_PendingProposals := Some ?ps\<rparr>)"
    by (simp add: fasttask_of_json_def fasttask_json_def obj_get_simps)
  moreover have "dec_list message_of_json (JArray (map message_json (slice_elems (ts_Messages st)))) =
      Inr (Some (map message_norm (slice_elems (ts_Messages st))))"
    by (rule dec_list_map) (rule message_round_trip)
  ultimately show ?thesis
    by (simp add: state_of_json_def state_json_def obj_get_simps state_norm_def)
qed

theorem thread_state_round_trip_witness: "state_of_json (state_json NewState) = Inr NewState"
proof -
  have "state_of_json (state_json NewState) = Inr (state_norm NewState)"
    by (rule thread_state_round_trip) (simp add: NewState_def slice_elems_def)
  also have "state_norm NewState = NewState" by (simp add: state_norm_def NewState_def slice_elems_def)
  finally show ?thesis .
qed

subsection \<open>Frames\<close>

text \<open>
  An event stream is read line by line: a line that begins with \<open>data:\<close> adds the rest, without one
  leading blank, to the data of the event, an empty line ends the event if it has
  data, other lines (a comment begins with a colon) add nothing. A line ends with LF, CR or both.
\<close>

fun unify_ends :: "string \<Rightarrow> string" where
  "unify_ends [] = []"
| "unify_ends (c # cs) =
    (if c = CHR 0x0D then CHR 0x0A # (case cs of d # ds \<Rightarrow> if d = CHR 0x0A then unify_ends ds else unify_ends cs | [] \<Rightarrow> [])
     else c # unify_ends cs)"

fun data_of_line :: "string \<Rightarrow> string option" where
  "data_of_line line = (case cut_prefix ''data:'' line of
     None \<Rightarrow> None | Some (CHR '' '' # rest) \<Rightarrow> Some rest | Some rest \<Rightarrow> Some rest)"

fun events_of_lines :: "string list \<Rightarrow> string list \<Rightarrow> string list" where
  "events_of_lines [] buffer = []"
| "events_of_lines (line # lines) buffer =
    (if line = [] then (if buffer = [] then [] else [join_char (CHR 0x0A) buffer]) @ events_of_lines lines []
     else events_of_lines lines (buffer @ (case data_of_line line of None \<Rightarrow> [] | Some d \<Rightarrow> [d])))"

definition stream_events :: "string \<Rightarrow> string list" where
  "stream_events out = events_of_lines (split_char (CHR 0x0A) (unify_ends out)) []"

datatype frame = Payload string | Remark string

fun write_frame :: "string \<Rightarrow> frame \<Rightarrow> string" where
  "write_frame out (Payload p) = WriteRaw p out"
| "write_frame out (Remark r) = WriteComment r out"

fun frame_text :: "frame \<Rightarrow> string" where
  "frame_text (Payload p) = p"
| "frame_text (Remark r) = r"

fun frame_lines :: "frame \<Rightarrow> string list" where
  "frame_lines (Payload p) = map (append ''data: '') (split_char (CHR 0x0A) p) @ [[]]"
| "frame_lines (Remark r) = ['': '' @ map (\<lambda>c. if c = CHR 0x0A then CHR '' '' else c) r, []]"

definition lines_text :: "string list \<Rightarrow> string" where
  "lines_text ls = concat (map (\<lambda>l. l @ [CHR 0x0A]) ls)"

lemma write_frame_lines: "write_frame out f = out @ lines_text (frame_lines f)"
  by (cases f) (simp_all add: WriteRaw_def writeData_def data_lines_def WriteComment_def lines_text_def comp_def)

lemma write_frames_lines: "foldl write_frame out fs = out @ lines_text (concat (map frame_lines fs))"
  by (induction fs arbitrary: out) (simp_all add: write_frame_lines lines_text_def)

lemma split_line: "CHR 0x0A \<notin> set l \<Longrightarrow> split_char (CHR 0x0A) (l @ CHR 0x0A # rest) = l # split_char (CHR 0x0A) rest"
  by (induction l) auto

lemma split_lines_text: "\<forall>l \<in> set ls. CHR 0x0A \<notin> set l \<Longrightarrow> split_char (CHR 0x0A) (lines_text ls) = ls @ [[]]"
  by (induction ls) (simp_all add: lines_text_def split_line)

lemma unify_ends_same: "CHR 0x0D \<notin> set s \<Longrightarrow> unify_ends s = s"
  by (induction s) auto

lemma frame_lines_no_end: "l \<in> set (frame_lines f) \<Longrightarrow> CHR 0x0A \<notin> set l"
  by (cases f) (auto dest: split_char_no_sep split: if_split_asm)

lemma split_char_set: "w \<in> set (split_char c s) \<Longrightarrow> x \<in> set w \<Longrightarrow> x \<in> set s"
proof (induction s arbitrary: w)
  case (Cons a s)
  then show ?case by (cases "split_char c s") (force split: if_split_asm)+
qed simp

lemma frame_lines_chars:
  assumes "CHR 0x0D \<notin> set (frame_text f)" and "l \<in> set (frame_lines f)"
  shows "CHR 0x0D \<notin> set l"
proof (cases f)
  case (Payload p)
  with assms(2) have "l = [] \<or> (\<exists>w \<in> set (split_char (CHR 0x0A) p). l = ''data: '' @ w)" by auto
  then show ?thesis using assms(1) Payload by (auto dest: split_char_set)
next
  case (Remark r)
  with assms show ?thesis by (auto split: if_split_asm)
qed

lemma events_of_data:
  "ws \<noteq> [] \<or> buffer \<noteq> [] \<Longrightarrow> events_of_lines (map (append ''data: '') ws @ [] # rest) buffer =
    join_char (CHR 0x0A) (buffer @ ws) # events_of_lines rest []"
  by (induction ws arbitrary: buffer) auto

lemma events_of_frames:
  "events_of_lines (concat (map frame_lines fs) @ [[]]) [] = concat (map (\<lambda>f. case f of Payload p \<Rightarrow> [p] | Remark _ \<Rightarrow> []) fs)"
proof (induction fs)
  case (Cons f fs)
  show ?case
  proof (cases f)
    case (Payload p)
    have "events_of_lines (map (append ''data: '') (split_char (CHR 0x0A) p) @ [] # concat (map frame_lines fs) @ [[]]) [] =
        p # events_of_lines (concat (map frame_lines fs) @ [[]]) []"
      by (subst events_of_data) (simp_all add: join_split_char)
    moreover have "concat (map frame_lines (f # fs)) @ [[]] =
        map (append ''data: '') (split_char (CHR 0x0A) p) @ [] # concat (map frame_lines fs) @ [[]]"
      unfolding Payload list.map concat.simps frame_lines.simps append_assoc append_Cons append_Nil ..
    ultimately show ?thesis using Cons Payload by (simp del: frame_lines.simps)
  next
    case (Remark r)
    with Cons show ?thesis by simp
  qed
qed simp

text \<open>C16. What the stream writer frames can be read back: whatever payloads (of any number of lines) and
  heartbeat comments are written in whatever order, an event-stream reader gets exactly the
  payloads, in order and each once, and no line names an event type. Payloads and comments hold no
  carriage return, which JSON text never does.\<close>

theorem frames_read_back:
  assumes "\<forall>f \<in> set fs. CHR 0x0D \<notin> set (frame_text f)"
  shows "stream_events (foldl write_frame [] fs) = concat (map (\<lambda>f. case f of Payload p \<Rightarrow> [p] | Remark _ \<Rightarrow> []) fs) \<and>
    stream_events (WriteDone (foldl write_frame [] fs)) =
      concat (map (\<lambda>f. case f of Payload p \<Rightarrow> [p] | Remark _ \<Rightarrow> []) fs) @ [''[DONE]''] \<and>
    (\<forall>line \<in> set (split_char (CHR 0x0A) (foldl write_frame [] fs)). cut_prefix ''event:'' line = None)"
proof -
  have events: "stream_events (foldl write_frame [] gs) = concat (map (\<lambda>f. case f of Payload p \<Rightarrow> [p] | Remark _ \<Rightarrow> []) gs)"
    and lines: "split_char (CHR 0x0A) (foldl write_frame [] gs) = concat (map frame_lines gs) @ [[]]"
    if "\<forall>f \<in> set gs. CHR 0x0D \<notin> set (frame_text f)" for gs
  proof -
    have "CHR 0x0D \<notin> set (foldl write_frame [] gs)"
      using that frame_lines_chars by (auto simp: write_frames_lines lines_text_def)
    then have u: "unify_ends (foldl write_frame [] gs) = foldl write_frame [] gs" by (rule unify_ends_same)
    show l: "split_char (CHR 0x0A) (foldl write_frame [] gs) = concat (map frame_lines gs) @ [[]]"
      unfolding write_frames_lines append_Nil by (rule split_lines_text) (auto dest: frame_lines_no_end)
    show "stream_events (foldl write_frame [] gs) = concat (map (\<lambda>f. case f of Payload p \<Rightarrow> [p] | Remark _ \<Rightarrow> []) gs)"
      unfolding stream_events_def u l by (rule events_of_frames)
  qed
  have finish: "WriteDone (foldl write_frame [] fs) = foldl write_frame [] (fs @ [Payload ''[DONE]''])"
    by (simp add: WriteDone_def WriteRaw_def Done_def)
  have "stream_events (WriteDone (foldl write_frame [] fs)) =
      concat (map (\<lambda>f. case f of Payload p \<Rightarrow> [p] | Remark _ \<Rightarrow> []) fs) @ [''[DONE]'']"
    unfolding finish using events [of "fs @ [Payload ''[DONE]'']"] assms by simp
  moreover have "cut_prefix ''event:'' line = None" if "line \<in> set (concat (map frame_lines fs) @ [[]])" for line
  proof -
    from that obtain f where "line = [] \<or> line \<in> set (frame_lines f)" by auto
    then show ?thesis by (cases f) auto
  qed
  ultimately show ?thesis using events [OF assms] lines [OF assms] by simp
qed

theorem frames_read_back_witness:
  "stream_events (WriteDone (foldl write_frame [] [Payload ''{}'', Remark ''ping'', Payload [CHR ''a'', CHR 0x0A, CHR ''b'']])) =
     [''{}'', [CHR ''a'', CHR 0x0A, CHR ''b''], ''[DONE]'']"
  using frames_read_back [of "[Payload ''{}'', Remark ''ping'', Payload [CHR ''a'', CHR 0x0A, CHR ''b'']]"] by simp

end
