(* ===== verification/Jobs.thy ===== *)
theory Jobs
  imports Plan_Schedule Json_Values
begin

text \<open>
  The queue of agent jobs: \<open>application/jobservice.go\<close> (enqueue, retry, cancel, the callback of an
  external worker), \<open>application/worker.go\<close> (claim, renewal of the lease, finish), the recovery of
  expired leases in \<open>scheduler/scheduler.go\<close>, the checks of support jobs in
  \<open>application/supportjobs.go\<close> and the registries of \<open>application/jobdispatch.go\<close>. What a service is
  built with is the record \<open>job_service\<close>: the digest of a token, the text of a JSON value and of an
  error, and the materializers registered per type. The handlers that run a job, the
  goroutine that renews a lease and the removal of an audio file are outside; a handler's result
  is an argument of \<open>finish\<close>.
\<close>

record job_service =
  js_hash :: "string \<Rightarrow> string"
  js_encode :: "json \<Rightarrow> string"
  js_error_text :: "app_error \<Rightarrow> string"
  js_materializers :: "(string, agent_job \<Rightarrow> json \<Rightarrow> time \<Rightarrow> unit tx) gomap"

text \<open>What a handler returns: an output, or an error (the application error it wraps, if any) and its text.\<close>

datatype run_outcome = Output json | RunError "app_error option" string

fun str_contains :: "string \<Rightarrow> string \<Rightarrow> bool" where
  "str_contains sub [] \<longleftrightarrow> sub = []"
| "str_contains sub (c # cs) \<longleftrightarrow> cut_prefix sub (c # cs) \<noteq> None \<or> str_contains sub cs"

subsection \<open>Support jobs\<close>

definition supportJobPlanTx :: "store \<Rightarrow> agent_job \<Rightarrow> daily_plan result" where
  "supportJobPlanTx s job =
    (if j_SubjectType job \<noteq> ''daily_plan'' then Inl ErrValidation
     else find_plan s (j_SubjectID job) (j_UserID job))"

definition supportPlanReadyTx :: "env \<Rightarrow> store \<Rightarrow> daily_plan \<Rightarrow> unit result" where
  "supportPlanReadyTx en s plan =
    bind_r (guard_r (p_Status plan = ''active'') ErrConflict) (\<lambda>_.
    bind_r (find_user s (p_UserID plan)) (\<lambda>u.
    let (loc, _) = resolveZone (env_zones en) [u_Timezone u]
    in guard_r (\<not> p_LocalDate plan > format_local loc (env_now en)) ErrConflict))"

definition captureSupportJobBaselineTx :: "env \<Rightarrow> store \<Rightarrow> agent_job \<Rightarrow> agent_job result" where
  "captureSupportJobBaselineTx en s job =
    bind_r (supportJobPlanTx s job) (\<lambda>plan.
    bind_r (guard_r (\<not> (j_BaseRevision job \<noteq> 0 \<and> j_BaseRevision job \<noteq> p_Revision plan)) ErrRevision) (\<lambda>_.
    bind_r (supportPlanReadyTx en s plan) (\<lambda>_.
    Inr (job\<lparr>j_BaseRevision := p_Revision plan\<rparr>))))"

definition validateSupportJobTx :: "env \<Rightarrow> store \<Rightarrow> agent_job \<Rightarrow> daily_plan result" where
  "validateSupportJobTx en s job =
    bind_r (supportJobPlanTx s job) (\<lambda>plan.
    bind_r (guard_r (\<not> (j_BaseRevision job \<le> 0 \<or> j_BaseRevision job \<noteq> p_Revision plan)) ErrRevision) (\<lambda>_.
    bind_r (supportPlanReadyTx en s plan) (\<lambda>_. Inr plan)))"

fun supportJobFailureCode :: "app_error \<Rightarrow> string option" where
  "supportJobFailureCode ErrRevision = Some ''REVISION_MISMATCH''"
| "supportJobFailureCode ErrSupportBeforeCoreDone = Some ''CORE_NOT_DONE''"
| "supportJobFailureCode ErrConflict = Some ''PLAN_NOT_ACTIONABLE''"
| "supportJobFailureCode ErrNotFound = Some ''PLAN_NOT_FOUND''"
| "supportJobFailureCode ErrRecordNotFound = Some ''PLAN_NOT_FOUND''"
| "supportJobFailureCode ErrValidation = Some ''SUPPORT_PLAN_INVALID''"
| "supportJobFailureCode _ = None"

subsection \<open>Enqueue, retry and cancel\<close>

definition MaxPendingJobsPerUser :: nat where
  "MaxPendingJobsPerUser = 10"

definition pending_job :: "id \<Rightarrow> agent_job \<Rightarrow> bool" where
  "pending_job u j \<longleftrightarrow> j_UserID j = u \<and> (j_Status j = ''queued'' \<or> j_Status j = ''running'')"

definition create_job :: "agent_job \<Rightarrow> unit tx" where
  "create_job job =
    tx_bind (tx_read (\<lambda>s. \<exists>j \<in> set (s_jobs s). j_ID j = j_ID job)) (\<lambda>taken.
    tx_bind (tx_check (\<not> taken) ErrUnique) (\<lambda>_.
    tx_write (\<lambda>s. s\<lparr>s_jobs := s_jobs s @ [job]\<rparr>)))"

definition enqueue :: "env \<Rightarrow> agent_job \<Rightarrow> agent_job tx" where
  "enqueue en job =
    tx_bind (if j_Type job = ''support_generation'' then tx_try (\<lambda>s. captureSupportJobBaselineTx en s job)
             else tx_return job) (\<lambda>job'.
    tx_bind (tx_read (\<lambda>s. length (filter (pending_job (j_UserID job')) (s_jobs s)))) (\<lambda>pending.
    tx_bind (tx_check (\<not> pending \<ge> MaxPendingJobsPerUser) ErrTooManyJobs) (\<lambda>_.
    tx_bind (create_job job') (\<lambda>_. tx_return job'))))"

definition new_job :: "id \<Rightarrow> id \<Rightarrow> string \<Rightarrow> string \<Rightarrow> id \<Rightarrow> int \<Rightarrow> string \<Rightarrow> time \<Rightarrow> agent_job" where
  "new_job k userID jobType subjectType subjectID baseRevision input now =
    \<lparr>j_ID = k, j_UserID = userID, j_Type = jobType, j_Status = ''queued'', j_RetryOfJobID = None,
     j_SubjectType = subjectType, j_SubjectID = subjectID, j_InputJSON = input, j_OutputJSON = [],
     j_ErrorCode = [], j_ErrorMessage = [], j_LockedBy = [], j_RunTokenHash = [],
     j_BaseRevision = baseRevision, j_AttemptCount = 0, j_MaxAttempts = 3, j_LeaseVersion = 0, j_Revision = 1,
     j_CancelRequested = False, j_RunAfter = now, j_CreatedAt = now, j_UpdatedAt = now, j_LockedUntil = None,
     j_StartedAt = None, j_FinishedAt = None\<rparr>"

definition CreateJob :: "job_service \<Rightarrow> env \<Rightarrow> id \<Rightarrow> string \<Rightarrow> string \<Rightarrow> id \<Rightarrow> int \<Rightarrow> json \<Rightarrow> agent_job tx" where
  "CreateJob js en userID jobType subjectType subjectID baseRevision input =
    tx_bind (NewID en ''job'') (\<lambda>k.
    enqueue en (new_job k userID jobType subjectType subjectID baseRevision (js_encode js input) (env_now en)))"

definition find_job :: "store \<Rightarrow> id \<Rightarrow> id \<Rightarrow> agent_job result" where
  "find_job s k userID =
    (case find (\<lambda>j. j_ID j = k \<and> j_UserID j = userID) (s_jobs s) of None \<Rightarrow> Inl ErrNotFound | Some j \<Rightarrow> Inr j)"

text \<open>The copy a retry enqueues.\<close>

definition retry_copy :: "id \<Rightarrow> time \<Rightarrow> agent_job \<Rightarrow> agent_job" where
  "retry_copy k now old = old\<lparr>j_ID := k, j_Status := ''queued'', j_RetryOfJobID := Some (j_ID old),
     j_AttemptCount := 0, j_LeaseVersion := 0, j_Revision := 1, j_ErrorCode := [], j_ErrorMessage := [],
     j_OutputJSON := [], j_LockedBy := [], j_RunTokenHash := [], j_LockedUntil := None, j_StartedAt := None,
     j_FinishedAt := None, j_RunAfter := now, j_CreatedAt := now, j_UpdatedAt := now\<rparr>"

definition RetryJob :: "env \<Rightarrow> id \<Rightarrow> id \<Rightarrow> int \<Rightarrow> agent_job tx" where
  "RetryJob en userID k expected =
    tx_bind (tx_try (\<lambda>s. find_job s k userID)) (\<lambda>old.
    tx_bind (tx_check (j_Revision old = expected) ErrRevision) (\<lambda>_.
    tx_bind (tx_check (j_Status old = ''failed'') ErrConflict) (\<lambda>_.
    tx_bind (tx_check (\<not> (j_Type old = ''support_generation'' \<and> j_BaseRevision old \<le> 0)) ErrRevision) (\<lambda>_.
    tx_bind (NewID en ''job'') (\<lambda>new_id.
    enqueue en (retry_copy new_id (env_now en) old))))))"

text \<open>
  A cancellation reads the job and then writes under the state it read; between the two another
  writer may come in, so the write is an operation of its own.
\<close>

definition cancel_write :: "env \<Rightarrow> id \<Rightarrow> int \<Rightarrow> agent_job \<Rightarrow> bool tx" where
  "cancel_write en userID expected job =
    (let P = (\<lambda>j. j_ID j = j_ID job \<and> j_UserID j = userID \<and> j_Status j = j_Status job \<and> j_Revision j = expected)
     in tx_bind (tx_read (\<lambda>s. rows_affected P (s_jobs s) = 1)) (\<lambda>one.
        tx_bind (tx_write (\<lambda>s. s\<lparr>s_jobs := update_rows P (\<lambda>j.
          (if j_Status job = ''queued'' then j\<lparr>j_Status := ''cancelled'', j_FinishedAt := Some (env_now en)\<rparr> else j)
            \<lparr>j_CancelRequested := True, j_Revision := expected + 1, j_UpdatedAt := env_now en\<rparr>) (s_jobs s)\<rparr>)) (\<lambda>_.
        tx_return one)))"

definition CancelJob :: "env \<Rightarrow> id \<Rightarrow> id \<Rightarrow> int \<Rightarrow> agent_job tx" where
  "CancelJob en userID k expected =
    tx_bind (tx_try (\<lambda>s. find_job s k userID)) (\<lambda>job.
    tx_bind (tx_check (j_Revision job = expected) ErrRevision) (\<lambda>_.
    tx_bind (tx_check (\<not> (j_Status job \<noteq> ''queued'' \<and> j_Status job \<noteq> ''running'')) ErrConflict) (\<lambda>_.
    tx_bind (cancel_write en userID expected job) (\<lambda>one.
    tx_bind (tx_check one ErrRevision) (\<lambda>_.
    tx_try (\<lambda>s. case find (\<lambda>j. j_ID j = k) (s_jobs s) of None \<Rightarrow> Inl ErrRecordNotFound | Some j \<Rightarrow> Inr j))))))"

subsection \<open>Materialization\<close>

definition MaterializeJobResult :: "job_service \<Rightarrow> agent_job \<Rightarrow> json \<Rightarrow> time \<Rightarrow> unit tx" where
  "MaterializeJobResult js job output now =
    (case map_of (js_materializers js) (j_Type job) of
       None \<Rightarrow> tx_return ()
     | Some materialize \<Rightarrow> materialize job output now)"

text \<open>The title and commitment of the input item a support job adds are the UTF-8 texts of the source.\<close>

definition support_item :: "id \<Rightarrow> string \<Rightarrow> string \<Rightarrow> string \<Rightarrow> agent_job \<Rightarrow> daily_plan \<Rightarrow> time \<Rightarrow> plan_item" where
  "support_item k title commitment minimum job plan now =
    \<lparr>i_ID = k, i_LogicalID = [], i_UserID = j_UserID job, i_PlanID = p_ID plan, i_TaskID = None, i_Kind = ''input'',
     i_Title = title, i_Commitment = commitment, i_MinimumAction = minimum,
     i_AllowedTypes = ''result,step,time,minimum_action'', i_Status = ''planned'', i_CompletionType = [],
     i_CompletionSummary = [], i_PlanRevision = p_CurrentRevision plan, i_TargetMinutes = 25, i_Position = 1,
     i_Revision = 1, i_CreatedAt = now, i_UpdatedAt = now\<rparr>"

definition support_materializer :: "string \<Rightarrow> string \<Rightarrow> string \<Rightarrow> env \<Rightarrow> agent_job \<Rightarrow> json \<Rightarrow> time \<Rightarrow> unit tx" where
  "support_materializer title commitment minimum en job output now =
    tx_bind (tx_try (\<lambda>s. validateSupportJobTx (en\<lparr>env_now := now\<rparr>) s job)) (\<lambda>plan.
    tx_bind (NewID en ''dpi'') (\<lambda>k.
    tx_bind (create_item (support_item k title commitment minimum job plan now)) (\<lambda>_.
    tx_bind (update_plan (p_ID plan) (p_Revision plan) (\<lambda>p. p\<lparr>p_Revision := p_Revision plan + 1, p_UpdatedAt := now\<rparr>)) (\<lambda>one.
    tx_check one ErrRevision))))"

definition task_tree_materializer :: "(json \<Rightarrow> string) \<Rightarrow> env \<Rightarrow> agent_job \<Rightarrow> json \<Rightarrow> time \<Rightarrow> unit tx" where
  "task_tree_materializer encode en job output now =
    (case output of
       JObject kvs \<Rightarrow>
         (case map_of kvs ''proposal'' of
            None \<Rightarrow> tx_fail ErrValidation
          | Some patch \<Rightarrow>
              tx_bind (NewID en ''proposal'') (\<lambda>k.
              tx_write (\<lambda>s. s\<lparr>s_proposals := s_proposals s @
                [\<lparr>pr_ID = k, pr_Kind = [], pr_UserID = j_UserID job, pr_GoalID = j_SubjectID job, pr_JobID = j_ID job,
                  pr_Status = ''pending'', pr_Instruction = ''agent proposal'', pr_PatchJSON = encode patch,
                  pr_BaseRevision = j_BaseRevision job, pr_Revision = 1, pr_CreatedAt = now, pr_UpdatedAt = now\<rparr>]\<rparr>)))
     | _ \<Rightarrow> tx_fail ErrValidation)"

text \<open>
  \<open>textValue\<close> of an entry that may be missing; \<open>sprint\<close> is \<open>fmt.Sprint\<close> of what is not a string.
\<close>

definition textValue :: "(json \<Rightarrow> string) \<Rightarrow> json option \<Rightarrow> string" where
  "textValue sprint value =
    (case value of
       None \<Rightarrow> []
     | Some JNull \<Rightarrow> []
     | Some v \<Rightarrow> (let t = trim_space (case v of JString s \<Rightarrow> s | _ \<Rightarrow> sprint v) in if t = ''<nil>'' then [] else t))"

fun object_fields :: "json option \<Rightarrow> (string \<times> json) list" where
  "object_fields (Some (JObject kvs)) = kvs"
| "object_fields _ = []"

definition conversation_materializer ::
    "(string \<Rightarrow> json option) \<Rightarrow> (json \<Rightarrow> string) \<Rightarrow> env \<Rightarrow> agent_job \<Rightarrow> json \<Rightarrow> time \<Rightarrow> unit tx" where
  "conversation_materializer decode sprint en job output now =
    (let conversationID = textValue sprint (map_of (object_fields (decode (j_InputJSON job))) ''conversation_id'');
         reply = textValue sprint (map_of (object_fields (Some output)) ''reply'')
     in tx_bind (tx_check (\<not> (conversationID = [] \<or> reply = [])) ErrValidation) (\<lambda>_.
        tx_bind (NewID en ''msg'') (\<lambda>k.
        tx_write (\<lambda>s. s\<lparr>s_messages := s_messages s @
          [\<lparr>cm_ID = k, cm_UserID = j_UserID job, cm_ConversationID = conversationID, cm_Role = ''assistant'',
            cm_Content = reply, cm_JobID = j_ID job, cm_TranscriptionJobID = [], cm_CreatedAt = now\<rparr>]\<rparr>))))"

text \<open>The tables by job type: of two registrations of one type the later one counts.\<close>

definition registered :: "(string list \<times> 'm) list \<Rightarrow> (string, 'm) gomap" where
  "registered ms = foldl (\<lambda>m (types, f). foldl (\<lambda>m t. (t, f) # m) m types) [] ms"

text \<open>
  The built-in materializers. The functions of the standard library they use and the three texts of
  a support item, which are not ASCII, are arguments.
\<close>

record job_library =
  jl_hash :: "string \<Rightarrow> string"
  jl_encode :: "json \<Rightarrow> string"
  jl_decode :: "string \<Rightarrow> json option"
  jl_sprint :: "json \<Rightarrow> string"
  jl_error_text :: "app_error \<Rightarrow> string"
  jl_support_texts :: "string \<times> string \<times> string"

definition BuiltinJobMaterializers :: "job_library \<Rightarrow> env \<Rightarrow> (string list \<times> (agent_job \<Rightarrow> json \<Rightarrow> time \<Rightarrow> unit tx)) list" where
  "BuiltinJobMaterializers lib en =
     [([''task_tree_generation'', ''task_tree_revision''], task_tree_materializer (jl_encode lib) en),
      ([''conversation''], conversation_materializer (jl_decode lib) (jl_sprint lib) en),
      ([''support_generation''], case jl_support_texts lib of (title, commitment, minimum) \<Rightarrow>
         support_materializer title commitment minimum en)]"

definition NewJobService :: "job_library \<Rightarrow> env \<Rightarrow> (string list \<times> (agent_job \<Rightarrow> json \<Rightarrow> time \<Rightarrow> unit tx)) list \<Rightarrow> job_service" where
  "NewJobService lib en materializers = \<lparr>js_hash = jl_hash lib, js_encode = jl_encode lib,
     js_error_text = jl_error_text lib,
     js_materializers = registered (case materializers of [] \<Rightarrow> BuiltinJobMaterializers lib en | _ \<Rightarrow> materializers)\<rparr>"

subsection \<open>The worker\<close>

text \<open>Instants are nanoseconds.\<close>

definition minute :: int where "minute = 60 * second"

definition jobRetryDelay :: "int \<Rightarrow> int" where
  "jobRetryDelay attempt =
    (let a = (if attempt < 1 then 1 else attempt) in min (2 * second * 2 ^ nat (min (a - 1) 5)) minute)"

definition jobLease :: int where "jobLease = 2 * minute"

definition due_jobs :: "store \<Rightarrow> time \<Rightarrow> agent_job list" where
  "due_jobs s now = sort_key (\<lambda>j. (j_CreatedAt j, j_ID j))
     (filter (\<lambda>j. j_Status j = ''queued'' \<and> j_RunAfter j \<le> now) (s_jobs s))"

definition claimed_row :: "string \<Rightarrow> string \<Rightarrow> time \<Rightarrow> agent_job \<Rightarrow> agent_job \<Rightarrow> agent_job" where
  "claimed_row worker token_hash now job j = j\<lparr>j_Status := ''running'', j_LockedBy := worker,
     j_LockedUntil := Some (now + jobLease), j_LeaseVersion := j_LeaseVersion job + 1, j_RunTokenHash := token_hash,
     j_AttemptCount := j_AttemptCount job + 1, j_StartedAt := Some now, j_Revision := j_Revision job + 1,
     j_UpdatedAt := now\<rparr>"

definition claim :: "job_service \<Rightarrow> env \<Rightarrow> string \<Rightarrow> (agent_job \<times> string) option tx" where
  "claim js en worker =
    tx_bind (tx_read (\<lambda>s. due_jobs s (env_now en))) (\<lambda>due.
    case due of
      [] \<Rightarrow> tx_return None
    | job # _ \<Rightarrow>
        tx_bind (NewID en ''run'') (\<lambda>token.
        let P = (\<lambda>j. j_ID j = j_ID job \<and> j_Status j = ''queued'')
        in tx_bind (tx_read (\<lambda>s. rows_affected P (s_jobs s) = 1)) (\<lambda>one.
           tx_bind (tx_write (\<lambda>s. s\<lparr>s_jobs := update_rows P (claimed_row worker (js_hash js token) (env_now en) job)
             (s_jobs s)\<rparr>)) (\<lambda>_.
           if \<not> one then tx_return None
           else tx_bind (tx_try (\<lambda>s. case find (\<lambda>j. j_ID j = j_ID job) (s_jobs s) of
               None \<Rightarrow> Inl ErrRecordNotFound | Some j \<Rightarrow> Inr j)) (\<lambda>j. tx_return (Some (j, token)))))))"

text \<open>One tick of the renewal: whether the claim is still there.\<close>

definition renew_lease :: "job_service \<Rightarrow> env \<Rightarrow> agent_job \<Rightarrow> string \<Rightarrow> bool tx" where
  "renew_lease js en job token =
    (let P = (\<lambda>j. j_ID j = j_ID job \<and> j_Status j = ''running'' \<and> j_LeaseVersion j = j_LeaseVersion job \<and>
           j_RunTokenHash j = js_hash js token)
     in tx_bind (tx_read (\<lambda>s. rows_affected P (s_jobs s) \<noteq> 0)) (\<lambda>held.
        tx_bind (tx_write (\<lambda>s. s\<lparr>s_jobs := update_rows P (\<lambda>j. j\<lparr>j_LockedUntil := Some (env_now en + jobLease)\<rparr>)
          (s_jobs s)\<rparr>)) (\<lambda>_. tx_return held)))"

text \<open>What the outcome of an attempt writes beside the columns every finish clears.\<close>

definition released :: "time \<Rightarrow> agent_job \<Rightarrow> agent_job" where
  "released now j = j\<lparr>j_FinishedAt := Some now, j_LockedUntil := None, j_LockedBy := [], j_RunTokenHash := [],
     j_Revision := j_Revision j + 1, j_UpdatedAt := now\<rparr>"

definition ended :: "string \<Rightarrow> string \<Rightarrow> string \<Rightarrow> time \<Rightarrow> agent_job \<Rightarrow> agent_job" where
  "ended status code message_text now j =
    (released now j)\<lparr>j_Status := status, j_ErrorCode := code, j_ErrorMessage := message_text\<rparr>"

definition attempt_failed :: "app_error option \<Rightarrow> string \<Rightarrow> time \<Rightarrow> agent_job \<Rightarrow> agent_job" where
  "attempt_failed e text_of_error now j =
    (if e = Some ErrRevision then ended ''failed'' ''REVISION_MISMATCH'' text_of_error now j
     else if j_AttemptCount j < j_MaxAttempts j \<and> \<not> str_contains ''unknown job'' text_of_error
     then (ended ''queued'' ''TEMPORARY'' text_of_error now j)
       \<lparr>j_RunAfter := now + jobRetryDelay (j_AttemptCount j), j_FinishedAt := None\<rparr>
     else ended ''failed'' ''PROVIDER_ERROR'' text_of_error now j)"

definition finish_write :: "job_service \<Rightarrow> agent_job \<Rightarrow> string \<Rightarrow> (agent_job \<Rightarrow> agent_job) \<Rightarrow> unit tx" where
  "finish_write js current token f =
    (let P = (\<lambda>j. j_ID j = j_ID current \<and> j_Status j = ''running'' \<and> j_LeaseVersion j = j_LeaseVersion current \<and>
           j_RunTokenHash j = js_hash js token)
     in tx_write (\<lambda>s. s\<lparr>s_jobs := update_rows P f (s_jobs s)\<rparr>))"

definition find_job_row :: "store \<Rightarrow> id \<Rightarrow> agent_job result" where
  "find_job_row s k = (case find (\<lambda>j. j_ID j = k) (s_jobs s) of None \<Rightarrow> Inl ErrRecordNotFound | Some j \<Rightarrow> Inr j)"

text \<open>The terminal code of a support job whose plan is no longer eligible, if it is not.\<close>

definition support_verdict :: "env \<Rightarrow> store \<Rightarrow> agent_job \<Rightarrow> (string \<times> app_error) option result" where
  "support_verdict en s job =
    (if j_Type job \<noteq> ''support_generation'' then Inr None
     else case validateSupportJobTx en s job of
       Inr _ \<Rightarrow> Inr None
     | Inl e \<Rightarrow> (case supportJobFailureCode e of None \<Rightarrow> Inl e | Some code \<Rightarrow> Inr (Some (code, e))))"

definition finish :: "job_service \<Rightarrow> env \<Rightarrow> agent_job \<Rightarrow> string \<Rightarrow> run_outcome \<Rightarrow> unit tx" where
  "finish js en claimed token outcome =
    tx_bind (tx_try (\<lambda>s. find_job_row s (j_ID claimed))) (\<lambda>current.
    tx_bind (tx_check (\<not> (j_Status current \<noteq> ''running'' \<or> j_LeaseVersion current \<noteq> j_LeaseVersion claimed \<or>
      j_AttemptCount current \<noteq> j_AttemptCount claimed \<or> j_RunTokenHash current \<noteq> js_hash js token))
      ErrStaleAgentAttempt) (\<lambda>_.
    if j_CancelRequested current
    then finish_write js current token (ended ''cancelled'' ''CANCELLED'' ''cancelled by user'' (env_now en))
    else
      tx_bind (tx_try (\<lambda>s. support_verdict en s current)) (\<lambda>verdict.
      case verdict of
        Some (code, e) \<Rightarrow> finish_write js current token (ended ''failed'' code (js_error_text js e) (env_now en))
      | None \<Rightarrow>
          (case outcome of
             RunError e text_of_error \<Rightarrow> finish_write js current token (attempt_failed e text_of_error (env_now en))
           | Output v \<Rightarrow>
               tx_bind (MaterializeJobResult js current v (env_now en)) (\<lambda>_.
               finish_write js current token (\<lambda>j. (released (env_now en) j)
                 \<lparr>j_Status := ''succeeded'', j_OutputJSON := js_encode js v\<rparr>))))))"

text \<open>
  Dispatch by type, on the registered handlers. \<open>quote\<close> is the verb \<open>%q\<close> and \<open>resolved\<close> the text of
  the error of the provider resolver, if it has one; the handlers are given for the provider
  it resolved.
\<close>

definition execute ::
    "(string \<Rightarrow> string) \<Rightarrow> string option \<Rightarrow> (string, agent_job \<Rightarrow> run_outcome) gomap \<Rightarrow> agent_job \<Rightarrow> run_outcome" where
  "execute quote resolved handlers job =
    (if j_CancelRequested job then RunError None ''cancelled''
     else case resolved of
       Some e \<Rightarrow> RunError None e
     | None \<Rightarrow>
         (case map_of handlers (j_Type job) of
            None \<Rightarrow> RunError None (''unknown job type '' @ quote (j_Type job))
          | Some handler \<Rightarrow> handler job))"

text \<open>
  One pass of the worker when nothing comes between its two transactions: \<open>en\<close> is read by the
  claim and \<open>en'\<close> by the finish. A claim stays when the finish fails.
\<close>

definition RunOnce :: "job_service \<Rightarrow> (string \<Rightarrow> string) \<Rightarrow> string option \<Rightarrow>
    (string, agent_job \<Rightarrow> run_outcome) gomap \<Rightarrow> env \<Rightarrow> env \<Rightarrow> string \<Rightarrow> store \<Rightarrow> store \<times> app_error option" where
  "RunOnce js quote resolved handlers en en' worker s =
    (case claim js en worker s of
       Inl e \<Rightarrow> (s, Some e)
     | Inr (None, s1) \<Rightarrow> (s1, None)
     | Inr (Some (job, token), s1) \<Rightarrow>
         (case finish js en' job token (execute quote resolved handlers job) s1 of
            Inl e \<Rightarrow> (s1, Some e)
          | Inr (_, s2) \<Rightarrow> (s2, None)))"

subsection \<open>The callback of an external worker\<close>

definition callback_row :: "string \<Rightarrow> string \<Rightarrow> string \<Rightarrow> string \<Rightarrow> time \<Rightarrow> agent_job \<Rightarrow> agent_job \<Rightarrow> agent_job" where
  "callback_row status output code message_text now job j = j\<lparr>j_Status := status, j_OutputJSON := output,
     j_ErrorCode := code, j_ErrorMessage := message_text, j_FinishedAt := Some now, j_LockedBy := [],
     j_LockedUntil := None, j_RunTokenHash := [], j_Revision := j_Revision job + 1, j_UpdatedAt := now\<rparr>"

definition callback_write ::
    "job_service \<Rightarrow> env \<Rightarrow> agent_job \<Rightarrow> string \<Rightarrow> string \<Rightarrow> json \<Rightarrow> string \<Rightarrow> string \<Rightarrow> agent_job tx" where
  "callback_write js en job token status output code message_text =
    tx_bind (if status = ''succeeded'' then MaterializeJobResult js job output (env_now en) else tx_return ()) (\<lambda>_.
    let P = (\<lambda>j. j_ID j = j_ID job \<and> j_UserID j = j_UserID job \<and> j_Status j = ''running'' \<and>
          j_AttemptCount j = j_AttemptCount job \<and> j_LeaseVersion j = j_LeaseVersion job \<and> j_RunTokenHash j = js_hash js token)
    in tx_bind (tx_read (\<lambda>s. rows_affected P (s_jobs s) = 1)) (\<lambda>one.
       tx_bind (tx_write (\<lambda>s. s\<lparr>s_jobs := update_rows P
         (callback_row status (js_encode js output) code message_text (env_now en) job) (s_jobs s)\<rparr>)) (\<lambda>_.
       tx_bind (tx_check one ErrStaleAgentAttempt) (\<lambda>_.
       tx_try (\<lambda>s. case find_job s (j_ID job) (j_UserID job) of Inl _ \<Rightarrow> Inl ErrRecordNotFound | r \<Rightarrow> r)))))"

text \<open>
  The key, the attempt and the lease of the call are those of the row that was read when the
  check has passed, so the write below it takes them from the row.
\<close>

definition AgentCallback ::
    "job_service \<Rightarrow> env \<Rightarrow> id \<Rightarrow> id \<Rightarrow> int \<Rightarrow> int \<Rightarrow> string \<Rightarrow> string \<Rightarrow> json \<Rightarrow> string \<Rightarrow> string \<Rightarrow> agent_job tx" where
  "AgentCallback js en userID k attempt lease token status output code message_text =
    tx_bind (tx_try (\<lambda>s. find_job s k userID)) (\<lambda>job.
    tx_bind (tx_check (\<not> (j_Status job \<noteq> ''running'' \<or> j_AttemptCount job \<noteq> attempt \<or> j_LeaseVersion job \<noteq> lease \<or>
      j_RunTokenHash job \<noteq> js_hash js token)) ErrStaleAgentAttempt) (\<lambda>_.
    let status = (if j_CancelRequested job then ''cancelled'' else status)
    in tx_bind (tx_check (status = ''succeeded'' \<or> status = ''failed'' \<or> status = ''cancelled'') ErrValidation) (\<lambda>_.
       tx_bind (tx_try (\<lambda>s. if status = ''succeeded'' then support_verdict en s job else Inr None)) (\<lambda>verdict.
       case verdict of
         None \<Rightarrow> callback_write js en job token status output code message_text
       | Some (c, e) \<Rightarrow> callback_write js en job token ''failed'' output c (js_error_text js e)))))"

subsection \<open>Recovery\<close>

definition lease_expired :: "time \<Rightarrow> agent_job \<Rightarrow> bool" where
  "lease_expired now j \<longleftrightarrow> j_Status j = ''running'' \<and>
    (case j_LockedUntil j of None \<Rightarrow> False | Some l \<Rightarrow> l < now)"

text \<open>
  The two updates of \<open>maintain\<close>, in their order, with one reading of the clock. The pending outbox
  events are marked processed in the same pass; the idempotency records it deletes are not modelled.
\<close>

definition lapsed_failed :: "time \<Rightarrow> agent_job \<Rightarrow> agent_job" where
  "lapsed_failed now j = j\<lparr>j_Status := ''failed'', j_ErrorCode := ''LEASE_EXPIRED'',
     j_ErrorMessage := ''the worker stopped responding on the final attempt'', j_LockedBy := [],
     j_LockedUntil := None, j_RunTokenHash := [], j_FinishedAt := Some now, j_Revision := j_Revision j + 1,
     j_UpdatedAt := now\<rparr>"

definition lapsed_queued :: "time \<Rightarrow> agent_job \<Rightarrow> agent_job" where
  "lapsed_queued now j = j\<lparr>j_Status := ''queued'', j_LockedBy := [], j_LockedUntil := None, j_RunTokenHash := [],
     j_RunAfter := now, j_Revision := j_Revision j + 1, j_UpdatedAt := now\<rparr>"

definition fail_exhausted :: "time \<Rightarrow> agent_job list \<Rightarrow> agent_job list" where
  "fail_exhausted now = update_rows (\<lambda>j. lease_expired now j \<and> j_AttemptCount j \<ge> j_MaxAttempts j) (lapsed_failed now)"

definition requeue_expired :: "time \<Rightarrow> agent_job list \<Rightarrow> agent_job list" where
  "requeue_expired now = update_rows (lease_expired now) (lapsed_queued now)"

definition maintain_jobs :: "time \<Rightarrow> store \<Rightarrow> store" where
  "maintain_jobs now s = s\<lparr>s_jobs := requeue_expired now (fail_exhausted now (s_jobs s)),
     s_outbox := update_rows (\<lambda>e. o_Status e = ''pending'')
       (\<lambda>e. e\<lparr>o_Status := ''processed'', o_ProcessedAt := Some now\<rparr>) (s_outbox s)\<rparr>"

end
