(* ===== verification/Job_Properties.thy ===== *)
theory Job_Properties
  imports Jobs Sample_Data
begin

text \<open>
  What the queue guarantees whatever workers, clients and the recovery do, in whatever order: the
  rows stay within their bounds, a finished job stays finished, and an attempt that lost its
  claim cannot report any more. The materializers are an interface: all the queue needs of
  them is that they leave the jobs alone, which the built-in ones do.
\<close>

subsection \<open>Calls on the queue\<close>

datatype job_call =
    JCreate env id string string id int json
  | JRetry env id id int
  | JCancel env id int agent_job
  | JClaim env string
  | JRenew env agent_job string
  | JFinish env agent_job string run_outcome
  | JCallback env id id int int string string json string string
  | JMaintain time

definition keep_store :: "store \<Rightarrow> ('a \<times> store) result \<Rightarrow> store" where
  "keep_store s r = (case r of Inl _ \<Rightarrow> s | Inr (_, s') \<Rightarrow> s')"

text \<open>The write of a cancellation follows the check of the state that was read, at any later time.\<close>

fun job_step :: "job_service \<Rightarrow> store \<Rightarrow> job_call \<Rightarrow> store" where
  "job_step js s (JCreate en u ty sty sk base input) = keep_store s (CreateJob js en u ty sty sk base input s)"
| "job_step js s (JRetry en u k expected) = keep_store s (RetryJob en u k expected s)"
| "job_step js s (JCancel en u expected job) =
    (if j_Status job = ''queued'' \<or> j_Status job = ''running'' then keep_store s (cancel_write en u expected job s) else s)"
| "job_step js s (JClaim en worker) = keep_store s (claim js en worker s)"
| "job_step js s (JRenew en job token) = keep_store s (renew_lease js en job token s)"
| "job_step js s (JFinish en job token outcome) = keep_store s (finish js en job token outcome s)"
| "job_step js s (JCallback en u k attempt lease token status output code message_text) =
    keep_store s (AgentCallback js en u k attempt lease token status output code message_text s)"
| "job_step js s (JMaintain now) = maintain_jobs now s"

subsection \<open>Changes of a row\<close>

definition finished_status :: "string \<Rightarrow> bool" where
  "finished_status st \<longleftrightarrow> st = ''succeeded'' \<or> st = ''failed'' \<or> st = ''cancelled''"

definition same_job :: "agent_job \<Rightarrow> agent_job \<Rightarrow> bool" where
  "same_job j j' \<longleftrightarrow> j_ID j' = j_ID j \<and> j_UserID j' = j_UserID j \<and> j_Type j' = j_Type j \<and> j_MaxAttempts j' = j_MaxAttempts j"

definition row_step :: "agent_job \<Rightarrow> agent_job \<Rightarrow> bool" where
  "row_step j j' \<longleftrightarrow> j' = j \<or> same_job j j' \<and>
    (j_Status j = ''queued'' \<and> j_Status j' = ''running'' \<and> j_LockedUntil j' \<noteq> None \<and>
       j_AttemptCount j' = j_AttemptCount j + 1 \<and> j_LeaseVersion j' = j_LeaseVersion j + 1 \<or>
     j_AttemptCount j' = j_AttemptCount j \<and> j_LeaseVersion j' = j_LeaseVersion j \<and>
       (j_Status j = ''queued'' \<and> j_Status j' = ''cancelled'' \<or>
        j_Status j = ''running'' \<and>
          (j_Status j' = ''running'' \<and> (j_LockedUntil j \<noteq> None \<longrightarrow> j_LockedUntil j' \<noteq> None) \<or> j_Status j' = ''queued'' \<and> j_AttemptCount j < j_MaxAttempts j \<or>
           finished_status (j_Status j'))))"

text \<open>A row in order: its status is known, and the attempts made stay within the allowed ones.\<close>

definition row_ok :: "agent_job \<Rightarrow> bool" where
  "row_ok j \<longleftrightarrow> (j_Status j = ''queued'' \<or> j_Status j = ''running'' \<or> finished_status (j_Status j)) \<and>
    0 \<le> j_AttemptCount j \<and> j_AttemptCount j \<le> j_MaxAttempts j \<and> j_LeaseVersion j = j_AttemptCount j \<and>
    (j_Status j = ''queued'' \<longrightarrow> j_AttemptCount j < j_MaxAttempts j) \<and>
    (j_Status j = ''running'' \<longrightarrow> 1 \<le> j_AttemptCount j \<and> j_LockedUntil j \<noteq> None)"

lemma row_step_ok: "row_ok j \<Longrightarrow> row_step j j' \<Longrightarrow> row_ok j'"
  unfolding row_ok_def row_step_def same_job_def finished_status_def by (elim disjE conjE) auto

lemma row_step_finished: "row_step j j' \<Longrightarrow> finished_status (j_Status j) \<Longrightarrow> j' = j"
  by (auto simp: row_step_def finished_status_def)

lemma row_step_lease: "row_step j j' \<Longrightarrow> j_LeaseVersion j \<le> j_LeaseVersion j' \<and> j_ID j' = j_ID j"
  by (auto simp: row_step_def same_job_def)

lemma row_step_pending: "row_step j j' \<Longrightarrow> pending_job u j' \<Longrightarrow> pending_job u j"
  by (auto simp: row_step_def same_job_def pending_job_def finished_status_def)

lemma row_step_refl [simp]: "row_step j j" by (simp add: row_step_def)

text \<open>A table after a call: every old row changed as a row may, and at most one new row at the end.\<close>

definition new_row :: "agent_job list \<Rightarrow> agent_job \<Rightarrow> bool" where
  "new_row js j \<longleftrightarrow> j_ID j \<notin> j_ID ` set js \<and> j_Status j = ''queued'' \<and> j_AttemptCount j = 0 \<and>
     j_LeaseVersion j = 0 \<and> (j_MaxAttempts j = 3 \<or> (\<exists>old \<in> set js. j_MaxAttempts j = j_MaxAttempts old)) \<and>
     length (filter (pending_job (j_UserID j)) js) < MaxPendingJobsPerUser"

definition table_step :: "agent_job list \<Rightarrow> agent_job list \<Rightarrow> bool" where
  "table_step js js' \<longleftrightarrow> (\<exists>f new. js' = map f js @ new \<and> (\<forall>j \<in> set js. row_step j (f j)) \<and>
    (new = [] \<or> (\<exists>j. new = [j] \<and> new_row js j)))"

definition jobs_ok :: "store \<Rightarrow> bool" where
  "jobs_ok s \<longleftrightarrow> distinct (map j_ID (s_jobs s)) \<and> (\<forall>j \<in> set (s_jobs s). row_ok j \<and> 0 < j_MaxAttempts j) \<and>
    (\<forall>u. length (filter (pending_job u) (s_jobs s)) \<le> MaxPendingJobsPerUser)"

lemma table_step_refl: "table_step js js"
  unfolding table_step_def by (intro exI [of _ "\<lambda>j. j"] exI [of _ "[]"]) simp

lemma table_step_update:
  "(\<And>j. j \<in> set js \<Longrightarrow> P j \<Longrightarrow> row_step j (f j)) \<Longrightarrow> table_step js (update_rows P f js)"
  unfolding table_step_def update_rows_def
  by (intro exI [of _ "\<lambda>j. if P j then f j else j"] exI [of _ "[]"]) simp

lemma length_filter_pending:
  "\<forall>j \<in> set js. row_step j (f j) \<Longrightarrow> length (filter (pending_job u) (map f js)) \<le> length (filter (pending_job u) js)"
proof (induction js)
  case (Cons j js)
  then have "pending_job u (f j) \<Longrightarrow> pending_job u j" by (auto dest: row_step_pending)
  with Cons show ?case by auto
qed simp

lemma table_step_ok:
  assumes ok: "jobs_ok s" and step: "table_step (s_jobs s) (s_jobs s')"
  shows "jobs_ok s'"
proof -
  from step obtain f new where f: "s_jobs s' = map f (s_jobs s) @ new" "\<forall>j \<in> set (s_jobs s). row_step j (f j)" and
    new: "new = [] \<or> (\<exists>j. new = [j] \<and> new_row (s_jobs s) j)"
    unfolding table_step_def by blast
  have ids: "map j_ID (map f (s_jobs s)) = map j_ID (s_jobs s)"
    using f(2) row_step_lease by (auto simp: comp_def)
  have mid: "distinct (map j_ID (map f (s_jobs s)))" "\<forall>j \<in> set (map f (s_jobs s)). row_ok j \<and> 0 < j_MaxAttempts j"
    using ok f(2) row_step_ok unfolding ids jobs_ok_def by (auto simp: row_step_def same_job_def)
  have pend: "length (filter (pending_job u) (map f (s_jobs s))) \<le> length (filter (pending_job u) (s_jobs s))" for u
    by (rule length_filter_pending [OF f(2)])
  have old: "length (filter (pending_job u) (map f (s_jobs s))) \<le> MaxPendingJobsPerUser" for u
    using pend [of u] ok by (auto simp: jobs_ok_def intro: order_trans)
  from new show ?thesis
  proof
    assume "new = []"
    with mid old f(1) show ?thesis by (simp add: jobs_ok_def)
  next
    assume "\<exists>j. new = [j] \<and> new_row (s_jobs s) j"
    then obtain j where j: "new = [j]" "new_row (s_jobs s) j" by blast
    then have pos: "0 < j_MaxAttempts j" using ok by (auto simp: jobs_ok_def new_row_def)
    have "j_ID j \<notin> set (map j_ID (map f (s_jobs s)))" using j(2) unfolding ids by (simp add: new_row_def)
    then have ids': "distinct (map j_ID (s_jobs s'))" using mid(1) f(1) j(1) by simp
    have row: "row_ok j" using j pos by (simp add: row_ok_def finished_status_def new_row_def)
    have "length (filter (pending_job u) (s_jobs s')) \<le> MaxPendingJobsPerUser" for u
    proof (cases "pending_job u j")
      case True
      then have "u = j_UserID j" by (simp add: pending_job_def)
      with pend [of u] j f(1) True show ?thesis by (simp add: new_row_def)
    next
      case False
      with old [of u] j(1) f(1) show ?thesis by simp
    qed
    with ids' row mid(2) f(1) j(1) pos show ?thesis by (simp add: jobs_ok_def)
  qed
qed

subsection \<open>Each call changes the table as a table may\<close>

lemma table_step_add: "new_row js j \<Longrightarrow> table_step js (js @ [j])"
  unfolding table_step_def by (intro exI [of _ "\<lambda>j. j"] exI [of _ "[j]"]) simp

lemma enqueue_table:
  assumes "enqueue en job s = Inr (a, s')"
    and "j_Status job = ''queued''" "j_AttemptCount job = 0" "j_LeaseVersion job = 0"
    and "j_MaxAttempts job = 3 \<or> (\<exists>old \<in> set (s_jobs s). j_MaxAttempts job = j_MaxAttempts old)"
  shows "table_step (s_jobs s) (s_jobs s')"
proof -
  have base: "captureSupportJobBaselineTx en s job = Inr job' \<Longrightarrow> \<exists>r. job' = job\<lparr>j_BaseRevision := r\<rparr>" for job'
    by (auto simp: captureSupportJobBaselineTx_def go_simps)
  from assms(1) obtain r where r: "a = job\<lparr>j_BaseRevision := r\<rparr>" "s_jobs s' = s_jobs s @ [a]"
      "j_ID a \<notin> j_ID ` set (s_jobs s)" "length (filter (pending_job (j_UserID a)) (s_jobs s)) < MaxPendingJobsPerUser"
  proof (cases "j_Type job = ''support_generation''")
    case True
    with assms(1) show ?thesis
      by (auto simp: enqueue_def create_job_def go_simps dest!: base intro!: that)
  next
    case False
    with assms(1) have "a = job" by (auto simp: enqueue_def create_job_def go_simps)
    moreover have "job = job\<lparr>j_BaseRevision := j_BaseRevision job\<rparr>" by simp
    ultimately show ?thesis using assms(1) False
      by (intro that [of "j_BaseRevision job"]) (auto simp: enqueue_def create_job_def go_simps)
  qed
  show ?thesis unfolding r(2)
    using r assms(2-) by (intro table_step_add) (auto simp: new_row_def)
qed

lemma CreateJob_table: "CreateJob js en u ty sty sk base input s = Inr (a, s') \<Longrightarrow> table_step (s_jobs s) (s_jobs s')"
  by (auto simp: CreateJob_def go_simps new_job_def dest: enqueue_table)

lemma find_job_Inr: "find_job s k u = Inr j \<Longrightarrow> j \<in> set (s_jobs s) \<and> j_ID j = k \<and> j_UserID j = u"
  by (auto simp: find_job_def find_Some_iff split: option.splits)

lemma RetryJob_table: "RetryJob en u k expected s = Inr (a, s') \<Longrightarrow> table_step (s_jobs s) (s_jobs s')"
  by (auto simp: RetryJob_def go_simps retry_copy_def dest!: find_job_Inr enqueue_table)

lemma cancel_write_table:
  "cancel_write en u expected job s = Inr (a, s') \<Longrightarrow> j_Status job = ''queued'' \<or> j_Status job = ''running'' \<Longrightarrow>
    table_step (s_jobs s) (s_jobs s')"
  by (auto simp: cancel_write_def go_simps Let_def row_step_def same_job_def intro!: table_step_update)

lemma due_jobs_in: "due_jobs s now = job # rest \<Longrightarrow> job \<in> set (s_jobs s)"
proof -
  assume "due_jobs s now = job # rest"
  then have "job \<in> set (due_jobs s now)" by simp
  then show ?thesis by (simp add: due_jobs_def)
qed

lemma claim_table:
  assumes "claim js en worker s = Inr (a, s')" and "distinct (map j_ID (s_jobs s))"
  shows "table_step (s_jobs s) (s_jobs s')"
proof (cases "due_jobs s (env_now en)")
  case Nil
  with assms(1) show ?thesis by (auto simp: claim_def go_simps table_step_refl)
next
  case (Cons job rest)
  have "j = job" if "j \<in> set (s_jobs s)" "j_ID j = j_ID job" for j
    using assms(2) that due_jobs_in [OF Cons] by (auto simp: distinct_map dest: inj_onD)
  then have "table_step (s_jobs s) (update_rows (\<lambda>j. j_ID j = j_ID job \<and> j_Status j = ''queued'')
      (claimed_row worker h (env_now en) job) (s_jobs s))" for h
    by (intro table_step_update) (auto simp: row_step_def same_job_def claimed_row_def)
  with assms(1) Cons show ?thesis by (auto simp: claim_def go_simps Let_def split: if_splits)
qed

lemma renew_lease_table: "renew_lease js en job token s = Inr (a, s') \<Longrightarrow> table_step (s_jobs s) (s_jobs s')"
  by (auto simp: renew_lease_def go_simps Let_def row_step_def same_job_def intro!: table_step_update)

definition ends_row :: "(agent_job \<Rightarrow> agent_job) \<Rightarrow> bool" where
  "ends_row f \<longleftrightarrow> (\<forall>j. j_Status j = ''running'' \<longrightarrow> row_step j (f j))"

lemma finish_write_table:
  "finish_write js current token f s = Inr (a, s') \<Longrightarrow> ends_row f \<Longrightarrow> table_step (s_jobs s) (s_jobs s')"
  by (auto simp: finish_write_def Let_def ends_row_def intro!: table_step_update)

lemma ends_rows:
  "finished_status status \<Longrightarrow> ends_row (ended status code m now)"
  "ends_row (attempt_failed e t now)"
  "ends_row (\<lambda>j. (released now j)\<lparr>j_Status := ''succeeded'', j_OutputJSON := out\<rparr>)"
  by (auto simp: ends_row_def ended_def released_def attempt_failed_def row_step_def same_job_def finished_status_def)

lemma maintain_table: "table_step (s_jobs s) (s_jobs (maintain_jobs now s))"
proof -
  let ?f = "\<lambda>j. if j_AttemptCount j \<ge> j_MaxAttempts j then lapsed_failed now j else lapsed_queued now j"
  have "\<not> lease_expired now (lapsed_failed now j)" for j by (simp add: lease_expired_def lapsed_failed_def)
  then have rows: "s_jobs (maintain_jobs now s) = update_rows (lease_expired now) ?f (s_jobs s)"
    by (simp add: maintain_jobs_def requeue_expired_def fail_exhausted_def update_rows_def)
  have "row_step j (?f j)" if "lease_expired now j" for j
    using that
    by (auto simp: lease_expired_def row_step_def same_job_def finished_status_def lapsed_failed_def lapsed_queued_def)
  then show ?thesis unfolding rows by (rule table_step_update)
qed

locale job_queue =
  fixes js :: job_service
  assumes materializers_keep: "map_of (js_materializers js) t = Some f \<Longrightarrow> tx_keeps s_jobs (f job output now)"
begin

lemma materialize_keeps: "MaterializeJobResult js job v now s = Inr (a, s') \<Longrightarrow> s_jobs s' = s_jobs s"
  by (auto simp: MaterializeJobResult_def split: option.splits dest: tx_keepsD [OF materializers_keep])

lemma finish_table:
  assumes "finish js en job token outcome s = Inr (a, s')"
  shows "table_step (s_jobs s) (s_jobs s')"
proof -
  from assms obtain current f s1 where "finish_write js current token f s1 = Inr (a, s')" "ends_row f" "s_jobs s1 = s_jobs s"
    by (auto simp: finish_def go_simps ends_rows finished_status_def dest!: materialize_keeps
        split: if_splits option.splits prod.splits run_outcome.splits)
  then show ?thesis using finish_write_table by metis
qed

lemma callback_row_step:
  "j_Status j = ''running'' \<Longrightarrow> finished_status st \<Longrightarrow> row_step j (callback_row st out c m now job j)"
  by (auto simp: callback_row_def row_step_def same_job_def finished_status_def)

lemma callback_write_table:
  "callback_write js en job token status output code m s = Inr (a, s') \<Longrightarrow> finished_status status \<Longrightarrow>
    table_step (s_jobs s) (s_jobs s')"
  by (cases "status = ''succeeded''")
    (auto simp: callback_write_def go_simps Let_def dest!: materialize_keeps intro!: table_step_update callback_row_step)

lemma callback_table:
  "AgentCallback js en u k attempt lease token status output code m s = Inr (a, s') \<Longrightarrow>
    table_step (s_jobs s) (s_jobs s')"
  unfolding AgentCallback_def tx_bind_Inr tx_try_Inr tx_check_Inr Let_def
  by (elim exE conjE) (auto simp: finished_status_def split: option.splits prod.splits elim!: callback_write_table)

lemma job_step_table: "jobs_ok s \<Longrightarrow> table_step (s_jobs s) (s_jobs (job_step js s e))"
  by (cases e) (auto simp: keep_store_def table_step_refl maintain_table jobs_ok_def finish_table callback_table claim_table
      CreateJob_table RetryJob_table cancel_write_table renew_lease_table split: sum.split)

end

subsection \<open>The built-in materializers\<close>

lemma task_tree_keeps [tx_frame]: "tx_keeps s_jobs (task_tree_materializer encode en job v now)"
  unfolding task_tree_materializer_def by (cases v) (auto intro!: tx_frame)

lemma conversation_keeps [tx_frame]: "tx_keeps s_jobs (conversation_materializer decode sprint en job output now)"
  unfolding conversation_materializer_def Let_def by (intro tx_frame) simp_all

lemma support_keeps [tx_frame]: "tx_keeps s_jobs (support_materializer title commitment minimum en job output now)"
  unfolding support_materializer_def create_item_def update_plan_def Let_def by (intro tx_frame) simp_all

interpretation builtin: job_queue "NewJobService lib en []" for lib en
  by unfold_locales
    (auto simp: NewJobService_def BuiltinJobMaterializers_def registered_def intro: tx_frame split: if_splits prod.splits)

interpretation queue: invariant_machine "job_step (NewJobService lib en [])" jobs_ok for lib en
  by unfold_locales (auto intro: table_step_ok builtin.job_step_table)

subsection \<open>A row through a run\<close>

definition job_row :: "store \<Rightarrow> id \<Rightarrow> agent_job option" where
  "job_row s k = find (\<lambda>j. j_ID j = k) (s_jobs s)"

lemma find_key: "distinct (map g xs) \<Longrightarrow> find (\<lambda>x. g x = k) xs = Some x \<longleftrightarrow> x \<in> set xs \<and> g x = k"
  by (induction xs) auto

lemma job_row_Some: "jobs_ok s \<Longrightarrow> job_row s k = Some j \<longleftrightarrow> j \<in> set (s_jobs s) \<and> j_ID j = k"
  unfolding job_row_def by (rule find_key) (simp add: jobs_ok_def)

lemma table_step_row:
  assumes "table_step (s_jobs s) (s_jobs s')" and "job_row s k = Some j"
  shows "\<exists>j'. job_row s' k = Some j' \<and> row_step j j'"
proof -
  from assms(1) obtain f new where f: "s_jobs s' = map f (s_jobs s) @ new" "\<forall>j \<in> set (s_jobs s). row_step j (f j)"
    unfolding table_step_def by blast
  have "find (\<lambda>j. j_ID j = k) (map f js @ new) = Some (f j)"
    if "find (\<lambda>j. j_ID j = k) js = Some j" "\<forall>j \<in> set js. row_step j (f j)" for js
    using that by (induction js) (auto dest: row_step_lease split: if_splits)
  moreover have "j \<in> set (s_jobs s)" using assms(2) by (auto simp: job_row_def find_Some_iff)
  ultimately show ?thesis using assms(2) f by (auto simp: job_row_def)
qed

text \<open>What the calls may do to a row in the long run.\<close>

definition row_run :: "agent_job \<Rightarrow> agent_job \<Rightarrow> bool" where
  "row_run = row_step\<^sup>*\<^sup>*"

lemma row_run_lease: "row_run j j' \<Longrightarrow> j_LeaseVersion j \<le> j_LeaseVersion j' \<and> j_ID j' = j_ID j"
  unfolding row_run_def by (induction rule: rtranclp_induct) (auto dest: row_step_lease)

lemma row_run_finished: "row_run j j' \<Longrightarrow> finished_status (j_Status j) \<Longrightarrow> j' = j"
  unfolding row_run_def by (induction rule: rtranclp_induct) (auto dest: row_step_finished)

lemma row_run_same: "row_run j j' \<Longrightarrow> same_job j j'"
  unfolding row_run_def by (induction rule: rtranclp_induct) (auto simp: row_step_def same_job_def)

context job_queue
begin

lemma run_ok: "jobs_ok s \<Longrightarrow> jobs_ok (foldl (job_step js) s calls)"
  by (induction calls arbitrary: s) (auto intro: table_step_ok job_step_table)

lemma run_row:
  "jobs_ok s \<Longrightarrow> job_row s k = Some j \<Longrightarrow>
    \<exists>j'. job_row (foldl (job_step js) s calls) k = Some j' \<and> row_run j j'"
proof (induction calls arbitrary: s j)
  case (Cons e calls)
  let ?s = "job_step js s e"
  have "table_step (s_jobs s) (s_jobs ?s)" using Cons.prems(1) by (rule job_step_table)
  then obtain j1 where "job_row ?s k = Some j1" "row_step j j1" "jobs_ok ?s"
    using table_step_row Cons.prems table_step_ok by metis
  with Cons.IH [of ?s j1] show ?case
    by (auto simp: row_run_def intro: converse_rtranclp_into_rtranclp)
qed (auto simp: row_run_def)

lemma claim_cases:
  "claim js en worker s = Inr (Some (job, token), s') \<Longrightarrow> due_jobs s (env_now en) = old # rest \<Longrightarrow>
    s_jobs s' = update_rows (\<lambda>j. j_ID j = j_ID old \<and> j_Status j = ''queued'')
      (claimed_row worker (js_hash js token) (env_now en) old) (s_jobs s) \<and>
    find (\<lambda>j. j_ID j = j_ID old) (s_jobs s') = Some job"
  unfolding claim_def Let_def tx_bind_Inr tx_simps
  apply (clarsimp simp: tx_bind_Inr NewID_Inr tx_try_Inr split: if_split_asm option.splits)
  done

text \<open>What a successful claim hands out is the row it wrote.\<close>

lemma claim_row:
  assumes ok: "jobs_ok s" and "claim js en worker s = Inr (Some (job, token), s')"
  shows "\<exists>old. job_row s (j_ID job) = Some old \<and> j_Status old = ''queued'' \<and>
    job = claimed_row worker (js_hash js token) (env_now en) old old \<and> job_row s' (j_ID job) = Some job \<and> jobs_ok s'"
proof -
  have "table_step (s_jobs s) (s_jobs s')"
    using assms(2) ok unfolding jobs_ok_def by (intro claim_table) blast+
  with ok have ok': "jobs_ok s'" by (rule table_step_ok)
  have "due_jobs s (env_now en) \<noteq> []" using assms(2) by (cases "due_jobs s (env_now en)") (simp_all add: claim_def tx_bind_def)
  then obtain old rest where due: "due_jobs s (env_now en) = old # rest" unfolding neq_Nil_conv by blast
  then have "old \<in> set (due_jobs s (env_now en))" by simp
  then have old: "old \<in> set (s_jobs s)" "j_Status old = ''queued''" by (auto simp: due_jobs_def)
  let ?P = "\<lambda>j. j_ID j = j_ID old \<and> j_Status j = ''queued''"
  let ?new = "claimed_row worker (js_hash js token) (env_now en) old"
  have s': "s_jobs s' = update_rows ?P ?new (s_jobs s)"
    and job: "find (\<lambda>j. j_ID j = j_ID old) (s_jobs s') = Some job"
    by (rule claim_cases [OF assms(2) due, THEN conjunct1] claim_cases [OF assms(2) due, THEN conjunct2])+
  have "?new old \<in> set (s_jobs s')" using old unfolding s' update_rows_def set_map
    by (intro image_eqI [of _ _ old]) simp_all
  then have "job_row s' (j_ID old) = Some (?new old)"
    using ok' by (simp add: job_row_Some claimed_row_def)
  with job have "job = ?new old" by (simp add: job_row_def)
  then show ?thesis using old ok ok' \<open>job_row s' (j_ID old) = Some (?new old)\<close>
    by (intro exI [of _ old]) (simp add: job_row_Some claimed_row_def)
qed

lemma reclaimed_row:
  assumes ok: "jobs_ok s" and first: "claim js en worker s = Inr (Some (job, token), s1)"
    and second: "claim js en' worker' (foldl (job_step js) s1 calls) = Inr (Some (job', token'), s2)"
    and same: "j_ID job' = j_ID job"
  shows "\<exists>j. job_row (foldl (job_step js) s2 calls') (j_ID job) = Some j \<and> j_LeaseVersion job < j_LeaseVersion j \<and>
    j_UserID j = j_UserID job"
proof -
  from claim_row [OF ok first] have s1: "job_row s1 (j_ID job) = Some job" "jobs_ok s1" by blast+
  let ?s = "foldl (job_step js) s1 calls"
  have ok': "jobs_ok ?s" using s1(2) by (rule run_ok)
  from run_row [OF s1(2,1)] obtain j1 where j1: "job_row ?s (j_ID job) = Some j1" "row_run job j1" by blast
  from claim_row [OF ok' second] same j1(1)
  have s2: "job' = claimed_row worker' (js_hash js token') (env_now en') j1 j1" "job_row s2 (j_ID job) = Some job'" "jobs_ok s2"
    by auto
  from run_row [OF s2(3,2)] obtain j where
    j: "job_row (foldl (job_step js) s2 calls') (j_ID job) = Some j" "row_run job' j" by blast
  have "j_LeaseVersion job < j_LeaseVersion job'" using row_run_lease [OF j1(2)] s2(1) by (simp add: claimed_row_def)
  moreover have "j_LeaseVersion job' \<le> j_LeaseVersion j" using row_run_lease [OF j(2)] by blast
  moreover have "j_UserID j = j_UserID job"
    using row_run_same [OF j(2)] row_run_same [OF j1(2)] s2(1) by (simp add: same_job_def claimed_row_def)
  ultimately show ?thesis using j(1) by auto
qed

lemma stale_attempt:
  assumes "jobs_ok s" and "job_row s (j_ID job) = Some j" and "j_LeaseVersion j \<noteq> j_LeaseVersion job"
  shows "finish js en job token v s = Inl ErrStaleAgentAttempt"
    and "j_UserID j = j_UserID job \<Longrightarrow>
      AgentCallback js en (j_UserID job) (j_ID job) attempt (j_LeaseVersion job) token st out c m s = Inl ErrStaleAgentAttempt"
proof -
  from assms have j: "find (\<lambda>j. j_ID j = j_ID job) (s_jobs s) = Some j" by (simp add: job_row_def)
  then show "finish js en job token v s = Inl ErrStaleAgentAttempt"
    using assms(3) by (simp add: finish_def find_job_row_def tx_bind_def tx_try_def tx_check_def)
  show "AgentCallback js en (j_UserID job) (j_ID job) attempt (j_LeaseVersion job) token st out c m s = Inl ErrStaleAgentAttempt"
    if "j_UserID j = j_UserID job"
  proof -
    have "find (\<lambda>j. j_ID j = j_ID job \<and> j_UserID j = j_UserID job) js' = Some j"
      if "find (\<lambda>j. j_ID j = j_ID job) js' = Some j" "distinct (map j_ID js')" "j_UserID j = j_UserID job" for js'
      using that by (induction js') (auto split: if_splits)
    with j that assms(1,3) show ?thesis
      by (simp add: AgentCallback_def find_job_def tx_bind_def tx_try_def tx_check_def jobs_ok_def)
  qed
qed

end

subsection \<open>A failed attempt\<close>

lemma jobRetryDelay_value:
  assumes "1 \<le> a"
  shows "jobRetryDelay a = min (2 * second * 2 ^ nat (a - 1)) (60 * second)"
proof (cases "a - 1 \<le> 5")
  case True
  with assms show ?thesis by (simp add: jobRetryDelay_def minute_def)
next
  case False
  then have "(2::int) ^ 5 \<le> 2 ^ nat (a - 1)" by (intro power_increasing) auto
  then have "60 * second \<le> 2 * second * 2 ^ nat (a - 1)" by (simp add: second_def)
  with False assms show ?thesis by (simp add: jobRetryDelay_def minute_def second_def)
qed

lemma finish_of_claimed:
  assumes "jobs_ok s" and "job_row s (j_ID job) = Some job" and "j_Status job = ''running''"
    and "j_RunTokenHash job = js_hash js token" and "\<not> j_CancelRequested job" and "j_Type job \<noteq> ''support_generation''"
  shows "\<exists>s'. finish js en job token (RunError e t) s = Inr ((), s') \<and>
    job_row s' (j_ID job) = Some (attempt_failed e t (env_now en) job) \<and>
    (\<forall>k. k \<noteq> j_ID job \<longrightarrow> job_row s' k = job_row s k)"
proof -
  let ?P = "\<lambda>j. j_ID j = j_ID job \<and> j_Status j = ''running'' \<and> j_LeaseVersion j = j_LeaseVersion job \<and>
    j_RunTokenHash j = js_hash js token"
  let ?f = "attempt_failed e t (env_now en)"
  have keep: "j_ID (?f j) = j_ID j" for j by (simp add: attempt_failed_def ended_def released_def)
  have row: "find (\<lambda>j. j_ID j = k) (update_rows ?P ?f js') =
      map_option (\<lambda>j. if ?P j then ?f j else j) (find (\<lambda>j. j_ID j = k) js')" for k js'
    by (induction js') (auto simp: update_rows_def keep)
  let ?s = "s\<lparr>s_jobs := update_rows ?P ?f (s_jobs s)\<rparr>"
  have "finish js en job token (RunError e t) s = Inr ((), ?s)"
    using assms by (simp add: finish_def find_job_row_def job_row_def tx_bind_def tx_try_def tx_check_def support_verdict_def
        finish_write_def)
  moreover have "job_row ?s (j_ID job) = Some (?f job)"
    using assms(2,3,4) by (simp add: job_row_def row)
  moreover have "job_row ?s k = job_row s k" if "k \<noteq> j_ID job" for k
  proof (cases "job_row s k")
    case (Some j)
    then have "j_ID j = k" using assms(1) by (simp add: job_row_Some)
    with Some that show ?thesis by (simp add: job_row_def row)
  qed (simp add: job_row_def row)
  ultimately show ?thesis by blast
qed

subsection \<open>A queue to evaluate\<close>

definition sample_library :: job_library where
  "sample_library = \<lparr>jl_hash = (\<lambda>t. t), jl_encode = (\<lambda>_. ''e''), jl_decode = (\<lambda>_. None), jl_sprint = (\<lambda>_. []),
     jl_error_text = (\<lambda>_. ''error''), jl_support_texts = (''read'', ''note'', ''open'')\<rparr>"

definition sample_service :: job_service where
  "sample_service = NewJobService sample_library (sample_env 0) []"

definition sample_job :: agent_job where
  "sample_job = new_job ''job_1'' ''usr'' ''task_tree_generation'' ''goal'' ''goal'' 0 ''e'' 0"

definition sample_queue :: store where
  "sample_queue = empty_store\<lparr>s_jobs := [sample_job]\<rparr>"

definition sample_claim :: "time \<Rightarrow> job_call" where
  "sample_claim now = JClaim (sample_env now) ''w''"

lemma sample_queue_ok: "jobs_ok sample_queue"
  by (simp add: sample_queue_def empty_store_def sample_job_def new_job_def jobs_ok_def row_ok_def finished_status_def
      MaxPendingJobsPerUser_def)

text \<open>Two claims of the job, the second after the lease of the first has lapsed.\<close>

definition sample_job1 :: agent_job where
  "sample_job1 = claimed_row ''w'' ''run_u'' 1 sample_job sample_job"

definition sample_queue1 :: store where
  "sample_queue1 = sample_queue\<lparr>s_jobs := [sample_job1], s_next := 1\<rparr>"

lemma sample_claim1: "claim sample_service (sample_env 1) ''w'' sample_queue = Inr (Some (sample_job1, ''run_u''), sample_queue1)"
  by code_simp

lemma sample_claim2:
  "(case claim sample_service (sample_env (1000 * second)) ''v'' (foldl (job_step sample_service) sample_queue1 [JMaintain (1000 * second)]) of
      Inr (Some (job, token), s) \<Rightarrow> token = ''run_uu'' \<and> j_ID job = ''job_1'' \<and> j_AttemptCount job = 2 | _ \<Rightarrow> False)"
  by code_simp

text \<open>A job whose worker stops three times, cancelled while the third attempt runs.\<close>

definition abandoned_calls :: "job_call list" where
  "abandoned_calls =
    [sample_claim 1, JMaintain (1000 * second), sample_claim (1000 * second), JMaintain (2000 * second),
     sample_claim (2000 * second),
     JCancel (sample_env (2001 * second)) ''usr'' 6 (sample_job\<lparr>j_Status := ''running'', j_Revision := 6\<rparr>),
     JMaintain (3000 * second), JRetry (sample_env (3001 * second)) ''usr'' ''job_1'' 8]"

definition tree_handler :: "(string, agent_job \<Rightarrow> run_outcome) gomap" where
  "tree_handler = [(''task_tree_generation'', \<lambda>_. Output (JObject [(''proposal'', JArray [])]))]"

definition one_pass :: "time \<Rightarrow> store \<Rightarrow> store" where
  "one_pass now s = fst (RunOnce sample_service (\<lambda>t. t) None tree_handler (sample_env now) (sample_env now) ''w'' s)"

subsection \<open>The properties\<close>





text \<open>
  C19. Fencing: a worker claims a job, loses it (its lease lapses and the job is requeued) and another
  claim of the same job succeeds. However the calls interleave after that, the first worker can
  neither finish nor report by callback, and its renewal finds the claim gone.
\<close>

theorem second_claim_fences_first:
  assumes "jobs_ok s"
    and "claim (NewJobService lib en0 []) en worker s = Inr (Some (job, token), s1)"
    and "claim (NewJobService lib en0 []) en' worker' (foldl (job_step (NewJobService lib en0 [])) s1 calls) =
      Inr (Some (job', token'), s2)"
    and "j_ID job' = j_ID job"
  shows "finish (NewJobService lib en0 []) en'' job token v (foldl (job_step (NewJobService lib en0 [])) s2 calls') =
      Inl ErrStaleAgentAttempt \<and>
    AgentCallback (NewJobService lib en0 []) en'' (j_UserID job) (j_ID job) attempt (j_LeaseVersion job) token st out c m
      (foldl (job_step (NewJobService lib en0 [])) s2 calls') = Inl ErrStaleAgentAttempt"
proof -
  from builtin.reclaimed_row [OF assms] obtain j where
    "job_row (foldl (job_step (NewJobService lib en0 [])) s2 calls') (j_ID job) = Some j"
    "j_LeaseVersion j \<noteq> j_LeaseVersion job" "j_UserID j = j_UserID job" by fastforce
  moreover have "jobs_ok s2"
    using builtin.claim_row [OF builtin.run_ok assms(3)] builtin.claim_row [OF assms(1,2)] by blast
  then have "jobs_ok (foldl (job_step (NewJobService lib en0 [])) s2 calls')" by (rule builtin.run_ok)
  ultimately show ?thesis using builtin.stale_attempt by simp
qed

theorem second_claim_fences_first_witness:
  "\<exists>job' token' s2. job' \<noteq> sample_job1 \<and>
     finish sample_service (sample_env 9) sample_job1 ''run_u'' (Output JNull) (foldl (job_step sample_service) s2 []) =
       Inl ErrStaleAgentAttempt \<and> claim sample_service (sample_env (1000 * second)) ''v''
       (foldl (job_step sample_service) sample_queue1 [JMaintain (1000 * second)]) = Inr (Some (job', token'), s2)"
proof -
  obtain job' token' s2 where second: "claim sample_service (sample_env (1000 * second)) ''v''
      (foldl (job_step sample_service) sample_queue1 [JMaintain (1000 * second)]) = Inr (Some (job', token'), s2)"
      and k: "token' = ''run_uu''" "j_ID job' = ''job_1''" "j_AttemptCount job' = 2"
    using sample_claim2 by (auto split: sum.splits option.splits)
  have "j_ID job' = j_ID sample_job1" "job' \<noteq> sample_job1"
    using k by (auto simp: sample_job1_def sample_job_def claimed_row_def new_job_def)
  with second_claim_fences_first [OF sample_queue_ok sample_claim1 [unfolded sample_service_def]
      second [unfolded sample_service_def], of "sample_env 9" "Output JNull" "[]"] second
  show ?thesis unfolding sample_service_def by blast
qed

text \<open>
  When the attempt a worker has claimed ends with an error, and neither a cancellation nor a
  support job is involved, the job goes back to the queue as long as attempts are left, to run
  again after two seconds doubled with each attempt and at most a minute; it fails at once
  when the attempts are used up, the input's revision is stale or no handler knows the
  type. Either way the lease is given up, and no other job changes.
\<close>

theorem failed_attempt_outcome:
  assumes "jobs_ok s" and "claim (NewJobService lib en0 []) en worker s = Inr (Some (job, token), s1)"
    and "\<not> j_CancelRequested job" and "j_Type job \<noteq> ''support_generation''"
  shows "\<exists>s2 row. finish (NewJobService lib en0 []) en' job token (RunError e t) s1 = Inr ((), s2) \<and>
    job_row s2 (j_ID job) = Some row \<and> (\<forall>k. k \<noteq> j_ID job \<longrightarrow> job_row s2 k = job_row s1 k) \<and>
    j_AttemptCount row = j_AttemptCount job \<and> j_LockedUntil row = None \<and> j_RunTokenHash row = [] \<and>
    (if e \<noteq> Some ErrRevision \<and> j_AttemptCount job < j_MaxAttempts job \<and> \<not> str_contains ''unknown job'' t
     then j_Status row = ''queued'' \<and>
       j_RunAfter row = env_now en' + min (2 * second * 2 ^ nat (j_AttemptCount job - 1)) (60 * second)
     else j_Status row = ''failed'' \<and> j_FinishedAt row = Some (env_now en'))"
proof -
  from builtin.claim_row [OF assms(1,2)] obtain old where old: "jobs_ok s1" "job_row s1 (j_ID job) = Some job"
    "job = claimed_row worker (js_hash (NewJobService lib en0 []) token) (env_now en) old old" by blast
  then have "row_ok job" by (auto simp: job_row_Some jobs_ok_def)
  moreover from old(3) have run: "j_Status job = ''running''" "j_RunTokenHash job = js_hash (NewJobService lib en0 []) token"
    by (simp_all add: claimed_row_def)
  ultimately have "1 \<le> j_AttemptCount job" by (simp add: row_ok_def)
  with finish_of_claimed [OF old(1,2) run assms(3,4), of en' e t] show ?thesis
    by (fastforce simp: attempt_failed_def ended_def released_def jobRetryDelay_value)
qed

theorem failed_attempt_outcome_witness:
  "\<exists>s2 row. finish sample_service (sample_env 7) sample_job1 ''run_u'' (RunError None ''429'') sample_queue1 = Inr ((), s2) \<and>
    job_row s2 ''job_1'' = Some row \<and> j_Status row = ''queued'' \<and> j_RunAfter row = 7 + 2 * second"
proof -
  have "j_ID sample_job1 = ''job_1'' \<and> j_AttemptCount sample_job1 = 1 \<and> j_MaxAttempts sample_job1 = 3 \<and>
      \<not> j_CancelRequested sample_job1 \<and> j_Type sample_job1 = ''task_tree_generation''"
    by (simp add: sample_job1_def sample_job_def claimed_row_def new_job_def)
  moreover have "\<not> str_contains ''unknown job'' ''429''" "min (2 * second) (60 * second) = 2 * second"
    "env_now (sample_env 7) = 7" by (simp_all add: second_def sample_env_def)
  ultimately show ?thesis
    using failed_attempt_outcome [OF sample_queue_ok sample_claim1 [unfolded sample_service_def],
      where e = None and t = "''429''" and en' = "sample_env 7"]
    unfolding sample_service_def by (simp, blast)
qed

text \<open>
  A retry keeps the request to cancel. A job cancelled while its last attempt was running, whose worker
  then stopped, ends failed; its retry is queued with the request still set, so the next pass ends
  it as cancelled without calling the handler, and the same handler completes a fresh job.
\<close>

theorem retry_keeps_cancel_request:
  "let s = foldl (job_step sample_service) sample_queue abandoned_calls; s' = one_pass (3002 * second) s in
     map j_Status (s_jobs s) = [''failed'', ''queued''] \<and>
     map j_Status (s_jobs s') = [''failed'', ''cancelled''] \<and> s_proposals s' = [] \<and>
     map j_Status (s_jobs (one_pass 1 sample_queue)) = [''succeeded''] \<and> length (s_proposals (one_pass 1 sample_queue)) = 1"
  by code_simp

text \<open>
  A support job adds its input item although the core item of the day has not been done: the
  checks ask for an active plan that is not in the future and for the revision it was requested for.
\<close>

definition support_store :: store where
  "support_store = empty_store\<lparr>s_users := [sample_user], s_plans := [sample_plan], s_items := [sample_item ''i1'' ''t1'']\<rparr>"

definition support_handler :: "(string, agent_job \<Rightarrow> run_outcome) gomap" where
  "support_handler = [(''support_generation'', \<lambda>_. Output JNull)]"

theorem support_item_before_core_done:
  "let now = 739630 * 86400 * second;
       s = foldl (job_step sample_service) support_store
         [JCreate (sample_env now) ''usr'' ''support_generation'' ''daily_plan'' ''plan'' 0 JNull];
       s' = fst (RunOnce sample_service (\<lambda>t. t) None support_handler (sample_env now) (sample_env now) ''w'' s)
   in map j_Status (s_jobs s') = [''succeeded''] \<and>
      map (\<lambda>i. (i_Kind i, i_Status i)) (s_items s') = [(''core'', ''planned''), (''input'', ''planned'')]"
  by code_simp

end
