(* ===== verification/Agent_Tools.thy ===== *)
theory Agent_Tools
  imports Json_Values
begin

text \<open>
  The registry of the agent's tools and the check of the arguments a model supplies:
  \<open>application/agenttool.go\<close>. A schema is a JSON value, as \<open>map[string]any\<close>; \<open>None\<close> is the \<open>nil\<close>
  map. A problem the check reports is a value here, and its text the function
  \<open>tl_render\<close>; the other functions of the standard library are \<open>strings.ToLower\<close>,
  \<open>fmt.Sprint\<close> of what is not a string and the conversion of a \<open>float64\<close> to \<open>int64\<close>, which Go leaves
  to the machine outside its range. The order of a Go map is the one of the list.
\<close>

datatype tool_level = ToolReadonly | ToolWrite | ToolProposal

type_synonym schema = "(string \<times> json) list"

record tool =
  to_Name :: string
  to_Level :: tool_level
  to_Parameters :: "schema option"

datatype problem =
    UnknownTool string
  | ForbiddenArgument string
  | MissingArgument string
  | UnexpectedArgument string
  | WrongType string string
  | NotOneOf string "json list"
  | BelowMinimum string json
  | AboveMaximum string json
  | WrongElement string nat string

record tool_library =
  tl_lower :: "string \<Rightarrow> string"
  tl_sprint :: "json \<Rightarrow> string"
  tl_render :: "problem \<Rightarrow> string"
  tl_int64 :: "rat \<Rightarrow> int"

datatype registry_error = EmptyToolName | DuplicateTool string | IdentityField string string

record tool_registry =
  tr_tools :: "(string, tool) gomap"
  tr_order :: "string list"

definition identityArgNames :: "string list" where
  "identityArgNames = [''user_id'', ''userid'', ''user'', ''workspace_id'', ''workspaceid'', ''workspace'',
     ''account_id'', ''actor'', ''actor_id'', ''principal'', ''identity'', ''tenant'', ''tenant_id'', ''owner_id'',
     ''on_behalf_of'']"

definition identity_key :: "tool_library \<Rightarrow> string \<Rightarrow> bool" where
  "identity_key lib key \<longleftrightarrow> tl_lower lib (trim_space key) \<in> set identityArgNames"

subsection \<open>Reading a schema\<close>

fun as_object :: "json option \<Rightarrow> schema option" where
  "as_object (Some (JObject kvs)) = Some kvs"
| "as_object _ = None"

fun as_array :: "json option \<Rightarrow> json list option" where
  "as_array (Some (JArray xs)) = Some xs"
| "as_array _ = None"

fun as_string :: "json option \<Rightarrow> string option" where
  "as_string (Some (JString s)) = Some s"
| "as_string _ = None"

text \<open>The values of a JSON decoder and of \<open>integerProp\<close> are \<open>float64\<close>; the other cases of the switch do not arise.\<close>

fun numberFrom :: "json option \<Rightarrow> rat option" where
  "numberFrom (Some (JNumber r)) = Some r"
| "numberFrom _ = None"

definition properties :: "schema \<Rightarrow> schema" where
  "properties schema = (case as_object (map_of schema ''properties'') of None \<Rightarrow> [] | Some props \<Rightarrow> props)"

definition schemaTypeOf :: "schema \<Rightarrow> string" where
  "schemaTypeOf schema = (case as_string (map_of schema ''type'') of None \<Rightarrow> [] | Some t \<Rightarrow> t)"

definition additionalAllowed :: "schema \<Rightarrow> bool" where
  "additionalAllowed schema = (case map_of schema ''additionalProperties'' of Some (JBool b) \<Rightarrow> b | _ \<Rightarrow> True)"

lemma field_size: "(k, v) \<in> set kvs \<Longrightarrow> size v < size (JObject kvs)"
  by (induction kvs) (auto simp: less_Suc_eq)

lemma lookup_size: "map_of kvs k = Some v \<Longrightarrow> size v < size (JObject kvs)"
  by (rule field_size [OF map_of_SomeD])

lemma element_size: "v \<in> set xs \<Longrightarrow> size v < size (JArray xs)"
  by (induction xs) auto

lemma as_object_Some: "as_object x = Some kvs \<longleftrightarrow> x = Some (JObject kvs)"
  by (cases x rule: as_object.cases) auto

lemma as_array_Some: "as_array x = Some xs \<longleftrightarrow> x = Some (JArray xs)"
  by (cases x rule: as_array.cases) auto

lemma as_string_Some: "as_string x = Some s \<longleftrightarrow> x = Some (JString s)"
  by (cases x rule: as_string.cases) auto

lemma property_size:
  assumes "(k, v) \<in> set (properties schema)"
  shows "size v < size (JObject schema)"
proof -
  from assms obtain props where props: "map_of schema ''properties'' = Some (JObject props)" "(k, v) \<in> set props"
    unfolding properties_def by (cases "as_object (map_of schema ''properties'')") (auto simp: as_object_Some)
  have "size v < size (JObject props)" using props(2) by (rule field_size)
  also have "size (JObject props) < size (JObject schema)" using props(1) by (rule lookup_size)
  finally show ?thesis .
qed

subsection \<open>The guard at construction\<close>

fun first_some :: "('a \<Rightarrow> 'b option) \<Rightarrow> 'a list \<Rightarrow> 'b option" where
  "first_some f [] = None"
| "first_some f (x # xs) = (case f x of None \<Rightarrow> first_some f xs | Some y \<Rightarrow> Some y)"

lemma first_some_cong [fundef_cong]:
  "xs = ys \<Longrightarrow> (\<And>x. x \<in> set ys \<Longrightarrow> f x = g x) \<Longrightarrow> first_some f xs = first_some g ys"
  by (induction ys arbitrary: xs) (auto split: option.splits)

lemma first_some_None: "first_some f xs = None \<longleftrightarrow> (\<forall>x \<in> set xs. f x = None)"
  by (induction xs) (auto split: option.splits)

text \<open>The identity field \<open>assertNoIdentityFields\<close> stops at, if there is one.\<close>

function assertNoIdentityFields :: "tool_library \<Rightarrow> schema \<Rightarrow> string option" where
  "assertNoIdentityFields lib schema =
    (case first_some (\<lambda>(key, prop).
        if identity_key lib key then Some key
        else case prop of JObject nested \<Rightarrow> assertNoIdentityFields lib nested | _ \<Rightarrow> None) (properties schema) of
       Some key \<Rightarrow> Some key
     | None \<Rightarrow>
         (case map_of schema ''items'' of
            Some (JObject items) \<Rightarrow> assertNoIdentityFields lib items
          | _ \<Rightarrow> None))"
  by pat_completeness auto
termination
  by (relation "measure (\<lambda>(lib, schema). size (JObject schema))") (auto dest!: property_size lookup_size)

declare assertNoIdentityFields.simps [simp del]

definition add_tool :: "tool_library \<Rightarrow> tool_registry \<Rightarrow> tool \<Rightarrow> registry_error + tool_registry" where
  "add_tool lib reg t =
    (let name = trim_space (to_Name t)
     in if name = [] then Inl EmptyToolName
        else if map_of (tr_tools reg) name \<noteq> None then Inl (DuplicateTool name)
        else case assertNoIdentityFields lib (case to_Parameters t of None \<Rightarrow> [] | Some p \<Rightarrow> p) of
          Some key \<Rightarrow> Inl (IdentityField name key)
        | None \<Rightarrow> Inr \<lparr>tr_tools = (name, t) # tr_tools reg, tr_order = tr_order reg @ [name]\<rparr>)"

fun add_tools :: "tool_library \<Rightarrow> tool_registry \<Rightarrow> tool list \<Rightarrow> registry_error + tool_registry" where
  "add_tools lib reg [] = Inr reg"
| "add_tools lib reg (t # ts) = bind_r (add_tool lib reg t) (\<lambda>reg'. add_tools lib reg' ts)"

definition NewToolRegistry :: "tool_library \<Rightarrow> tool list \<Rightarrow> registry_error + tool_registry" where
  "NewToolRegistry lib tools =
    bind_r (add_tools lib \<lparr>tr_tools = [], tr_order = []\<rparr> tools) (\<lambda>reg.
    Inr (reg\<lparr>tr_order := sort (tr_order reg)\<rparr>))"

definition Names :: "tool_registry option \<Rightarrow> string list" where
  "Names reg = (case reg of None \<Rightarrow> [] | Some r \<Rightarrow> tr_order r)"

definition Get :: "tool_registry option \<Rightarrow> string \<Rightarrow> tool option" where
  "Get reg name = (case reg of None \<Rightarrow> None | Some r \<Rightarrow> map_of (tr_tools r) name)"

text \<open>The advertised tools, by name; no level at all asks for every one.\<close>

definition Definitions :: "tool_registry option \<Rightarrow> tool_level list \<Rightarrow> tool list" where
  "Definitions reg levels =
    (case reg of
       None \<Rightarrow> []
     | Some r \<Rightarrow> filter (\<lambda>t. levels = [] \<or> to_Level t \<in> set levels) (List.map_filter (map_of (tr_tools r)) (tr_order r)))"

subsection \<open>The check of arguments\<close>

definition typeMatches :: "tool_library \<Rightarrow> string \<Rightarrow> json \<Rightarrow> bool" where
  "typeMatches lib expected v =
    (if expected = ''string'' then (case v of JString _ \<Rightarrow> True | _ \<Rightarrow> False)
     else if expected = ''integer'' then (case v of JNumber r \<Rightarrow> r = of_int (tl_int64 lib r) | _ \<Rightarrow> False)
     else if expected = ''number'' then (case v of JNumber _ \<Rightarrow> True | _ \<Rightarrow> False)
     else if expected = ''boolean'' then (case v of JBool _ \<Rightarrow> True | _ \<Rightarrow> False)
     else if expected = ''object'' then (case v of JObject _ \<Rightarrow> True | _ \<Rightarrow> False)
     else if expected = ''array'' then (case v of JArray _ \<Rightarrow> True | _ \<Rightarrow> False)
     else True)"

definition Sprint :: "tool_library \<Rightarrow> json \<Rightarrow> string" where
  "Sprint lib v = (case v of JString s \<Rightarrow> s | _ \<Rightarrow> tl_sprint lib v)"

definition containsValue :: "tool_library \<Rightarrow> json list \<Rightarrow> json \<Rightarrow> bool" where
  "containsValue lib enum v \<longleftrightarrow> (\<exists>item \<in> set enum. Sprint lib item = Sprint lib v)"

definition required_keys :: "schema \<Rightarrow> string list" where
  "required_keys schema =
    filter (\<lambda>k. k \<noteq> []) (List.map_filter (\<lambda>v. as_string (Some v))
      (case as_array (map_of schema ''required'') of None \<Rightarrow> [] | Some xs \<Rightarrow> xs))"

definition enum_problems :: "tool_library \<Rightarrow> string \<Rightarrow> schema \<Rightarrow> json \<Rightarrow> problem list" where
  "enum_problems lib path schema v =
    (case as_array (map_of schema ''enum'') of
       None \<Rightarrow> []
     | Some enum \<Rightarrow> if containsValue lib enum v then [] else [NotOneOf path enum])"

definition bound_problems :: "string \<Rightarrow> schema \<Rightarrow> rat \<Rightarrow> problem list" where
  "bound_problems path schema r =
    (case numberFrom (map_of schema ''minimum'') of
       Some lo \<Rightarrow> if r < lo then [BelowMinimum path (JNumber lo)] else []
     | None \<Rightarrow> []) @
    (case numberFrom (map_of schema ''maximum'') of
       Some hi \<Rightarrow> if r > hi then [AboveMaximum path (JNumber hi)] else []
     | None \<Rightarrow> [])"

definition element_path :: "string \<Rightarrow> nat \<Rightarrow> string" where
  "element_path path i = path @ ''['' @ strconv_Itoa (int i) @ '']''"

definition type_problem :: "tool_library \<Rightarrow> string \<Rightarrow> schema \<Rightarrow> json \<Rightarrow> problem option" where
  "type_problem lib path schema v =
    (case as_string (map_of schema ''type'') of
       None \<Rightarrow> None
     | Some expected \<Rightarrow> if typeMatches lib expected v then None else Some (WrongType path expected))"

text \<open>The elements of an array: an object is checked against the schema of the items, another value only for its type.\<close>

definition element_problems :: "tool_library \<Rightarrow> (string \<Rightarrow> json \<Rightarrow> problem list) \<Rightarrow> string \<Rightarrow> schema \<Rightarrow> nat \<Rightarrow> json \<Rightarrow> problem list" where
  "element_problems lib check path items i x =
    (case x of
       JObject _ \<Rightarrow> check (element_path path i) x
     | _ \<Rightarrow> if \<not> typeMatches lib (schemaTypeOf items) x \<and> schemaTypeOf items \<noteq> []
         then [WrongElement path i (schemaTypeOf items)] else [])"

lemma element_problems_cong [fundef_cong]:
  "x = y \<Longrightarrow> (\<And>p kvs. y = JObject kvs \<Longrightarrow> check p y = check' p y) \<Longrightarrow>
    element_problems lib check path items i x = element_problems lib check' path items i y"
  by (cases y) (simp_all add: element_problems_def)

lemma enumerate_element: "(i, x) \<in> set (enumerate n xs) \<Longrightarrow> x \<in> set xs"
  by (auto simp: in_set_enumerate_eq)

function (sequential) validateAgainstSchema :: "tool_library \<Rightarrow> schema option \<Rightarrow> schema \<Rightarrow> problem list"
  and validateValue :: "tool_library \<Rightarrow> string \<Rightarrow> schema option \<Rightarrow> json \<Rightarrow> problem list" where
  "validateAgainstSchema lib None args = []"
| "validateAgainstSchema lib (Some schema) args =
    sort_key (tl_render lib)
      (map MissingArgument (filter (\<lambda>k. map_of args k = None) (required_keys schema)) @
       concat (map (\<lambda>(key, v).
         case map_of (properties schema) key of
           None \<Rightarrow> if additionalAllowed schema then [] else [UnexpectedArgument key]
         | Some prop \<Rightarrow> validateValue lib key (as_object (Some prop)) v) args))"
| "validateValue lib path None v = []"
| "validateValue lib path (Some schema) v =
    (if v = JNull then []
     else case type_problem lib path schema v of
       Some p \<Rightarrow> [p]
     | None \<Rightarrow> enum_problems lib path schema v @
         (case v of
            JNumber r \<Rightarrow> bound_problems path schema r
          | JObject kvs \<Rightarrow> validateAgainstSchema lib (Some schema) kvs
          | JArray xs \<Rightarrow>
              (case as_object (map_of schema ''items'') of
                 None \<Rightarrow> []
               | Some items \<Rightarrow> concat (map (\<lambda>(i, x).
                   element_problems lib (\<lambda>p y. validateValue lib p (Some items) y) path items i x) (enumerate 0 xs)))
          | _ \<Rightarrow> []))"
  by pat_completeness auto
termination
  apply (relation "measure (\<lambda>x. case x of Inl (lib, schema, args) \<Rightarrow> 2 * size (JObject args)
    | Inr (lib, path, schema, v) \<Rightarrow> 2 * size v + 1)")
  subgoal by simp
  subgoal by (auto dest!: field_size)
  subgoal by (auto dest!: enumerate_element element_size)
  subgoal by auto
  done

declare validateValue.simps(2) [simp del]

text \<open>What \<open>ValidateArgs\<close> returns for the arguments of a call.\<close>

definition ValidateArgs :: "tool_library \<Rightarrow> tool_registry option \<Rightarrow> string \<Rightarrow> schema \<Rightarrow> problem list" where
  "ValidateArgs lib reg name args =
    (case Get reg name of
       None \<Rightarrow> [UnknownTool name]
     | Some t \<Rightarrow> sort_key (tl_render lib)
         (map ForbiddenArgument (filter (identity_key lib) (map fst args)) @
          validateAgainstSchema lib (to_Parameters t) args))"

subsection \<open>Builders\<close>

definition objectSchema :: "schema \<Rightarrow> string list \<Rightarrow> schema" where
  "objectSchema props required =
    [(''type'', JString ''object''), (''additionalProperties'', JBool False), (''properties'', JObject props)] @
    (if required = [] then [] else [(''required'', JArray (map JString required))])"

definition stringProp :: "string \<Rightarrow> string list \<Rightarrow> schema" where
  "stringProp description enum =
    [(''type'', JString ''string''), (''description'', JString description)] @
    (if enum = [] then [] else [(''enum'', JArray (map JString enum))])"

definition integerProp :: "string \<Rightarrow> int \<Rightarrow> int \<Rightarrow> schema" where
  "integerProp description lo hi =
    [(''type'', JString ''integer''), (''description'', JString description)] @
    (if lo \<noteq> 0 \<or> hi \<noteq> 0 then [(''minimum'', JNumber (of_int lo)), (''maximum'', JNumber (of_int hi))] else [])"

end
