(* ===== verification/Agent_Tools_Properties.thy ===== *)
theory Agent_Tools_Properties
  imports Agent_Tools
begin

text \<open>
  What the argument check of the agent's tools buys the tools: arguments of the declared types, and
  no identity, at any depth, that a model could have put there.
\<close>

subsection \<open>Accepted values\<close>

lemma sort_key_Nil: "sort_key f xs = [] \<longleftrightarrow> xs = []"
  by (metis length_0_conv length_sort)

lemma schema_accepts:
  "validateAgainstSchema lib (Some schema) args = [] \<longleftrightarrow>
    (\<forall>k \<in> set (required_keys schema). map_of args k \<noteq> None) \<and>
    (\<forall>(key, v) \<in> set args. case map_of (properties schema) key of
        None \<Rightarrow> additionalAllowed schema
      | Some prop \<Rightarrow> validateValue lib key (as_object (Some prop)) v = [])"
  by (auto simp: sort_key_Nil filter_empty_conv split: option.splits if_splits)

lemma value_accepts:
  "v \<noteq> JNull \<Longrightarrow> validateValue lib path (Some schema) v = [] \<Longrightarrow>
    type_problem lib path schema v = None \<and> enum_problems lib path schema v = []"
  by (simp add: validateValue.simps(2) split: option.splits)

lemma object_accepts:
  "validateValue lib path (Some schema) (JObject kvs) = [] \<Longrightarrow> validateAgainstSchema lib (Some schema) kvs = []"
  by (simp add: validateValue.simps(2) del: validateAgainstSchema.simps split: option.splits)

lemma array_accepts:
  assumes "validateValue lib path (Some schema) (JArray xs) = []" and "map_of schema ''items'' = Some (JObject items)"
    and "x \<in> set xs"
  shows "(case x of JObject _ \<Rightarrow> \<exists>p. validateValue lib p (Some items) x = []
    | _ \<Rightarrow> typeMatches lib (schemaTypeOf items) x \<or> schemaTypeOf items = [])"
proof -
  from assms(3) obtain i where i: "(i, x) \<in> set (enumerate 0 xs)"
    by (metis in_set_conv_nth in_set_enumerate_eq fst_conv snd_conv add.commute add.right_neutral le0 diff_zero)
  from assms(1) [unfolded validateValue.simps(2) [of lib path schema "JArray xs"]] assms(2) have "concat (map (\<lambda>(i, x). element_problems lib (\<lambda>p y. validateValue lib p (Some items) y) path items i x)
      (enumerate 0 xs)) = []"
    by (simp split: option.splits)
  with i have "element_problems lib (\<lambda>p y. validateValue lib p (Some items) y) path items i x = []" by fastforce
  then show ?thesis by (auto simp: element_problems_def split: json.splits if_splits)
qed

subsection \<open>Types\<close>

lemma objectSchema_reads:
  "properties (objectSchema props required) = props"
  "\<not> additionalAllowed (objectSchema props required)"
  "required_keys (objectSchema props required) = filter (\<lambda>k. k \<noteq> []) required"
proof -
  have "List.map_filter (\<lambda>v. as_string (Some v)) (map JString ks) = ks" for ks
    by (induction ks) (simp_all add: List.map_filter_simps)
  then show "required_keys (objectSchema props required) = filter (\<lambda>k. k \<noteq> []) required"
    by (auto simp: required_keys_def objectSchema_def List.map_filter_simps)
qed (simp_all add: properties_def additionalAllowed_def objectSchema_def)

lemma integerProp_accepts:
  assumes "validateValue lib path (Some (integerProp d lo hi)) v = []"
  shows "v = JNull \<or> (\<exists>n. v = JNumber (of_int n) \<and> (lo \<noteq> 0 \<or> hi \<noteq> 0 \<longrightarrow> lo \<le> n \<and> n \<le> hi))"
proof (cases "v = JNull")
  case False
  from value_accepts [OF False assms] obtain n where v: "v = JNumber (of_int n)"
    by (auto simp: type_problem_def integerProp_def typeMatches_def split: json.splits if_splits)
  have "bound_problems path (integerProp d lo hi) (of_int n) = []"
    using assms v by (simp add: validateValue.simps(2) split: option.splits)
  then have "lo \<noteq> 0 \<or> hi \<noteq> 0 \<longrightarrow> lo \<le> n \<and> n \<le> hi"
    by (auto simp: bound_problems_def integerProp_def split: if_splits)
  with v show ?thesis by blast
qed simp

lemma stringProp_accepts:
  assumes "validateValue lib path (Some (stringProp d enum)) v = []"
  shows "v = JNull \<or> (\<exists>s. v = JString s \<and> (enum \<noteq> [] \<longrightarrow> s \<in> set enum))"
proof (cases "v = JNull")
  case False
  from value_accepts [OF False assms] obtain s where "v = JString s"
    by (auto simp: type_problem_def stringProp_def typeMatches_def split: json.splits if_splits)
  with value_accepts [OF False assms] show ?thesis
    by (auto simp: enum_problems_def stringProp_def containsValue_def Sprint_def split: if_splits)
qed simp

text \<open>Two of the built-in tools, of \<open>agenttools_readonly.go\<close>, on which the properties are evaluated.\<close>

definition sample_tool_library :: tool_library where
  "sample_tool_library = \<lparr>tl_lower = (\<lambda>s. s), tl_sprint = (\<lambda>_. []), tl_render = (\<lambda>_. []), tl_int64 = floor\<rparr>"

definition list_goals :: tool where
  "list_goals = \<lparr>to_Name = ''list_goals'', to_Level = ToolReadonly, to_Parameters = Some (objectSchema
     [(''status'', JObject (stringProp ''Goal status filter.''
        [''draft'', ''active'', ''paused'', ''completed'', ''abandoned'', ''archived''])),
      (''limit'', JObject (integerProp ''Maximum goals to return (1-50).'' 1 50))] [])\<rparr>"

definition get_task_tree :: tool where
  "get_task_tree = \<lparr>to_Name = ''get_task_tree'', to_Level = ToolReadonly, to_Parameters = Some (objectSchema
     [(''goal_id'', JObject (stringProp ''The goal whose task tree to read.'' [])),
      (''limit'', JObject (integerProp ''Maximum tasks per page; default 200.'' 1 200))] [''goal_id''])\<rparr>"

definition sample_registry :: tool_registry where
  "sample_registry = \<lparr>tr_tools = [(''get_task_tree'', get_task_tree), (''list_goals'', list_goals)],
     tr_order = [''get_task_tree'', ''list_goals'']\<rparr>"

definition goal_args :: schema where
  "goal_args = [(''status'', JString ''active''), (''limit'', JNumber 10)]"

lemma sample_registered: "NewToolRegistry sample_tool_library [list_goals, get_task_tree] = Inr sample_registry"
  by code_simp

lemma goal_args_accepted: "ValidateArgs sample_tool_library (Some sample_registry) ''list_goals'' goal_args = []"
  by code_simp

text \<open>A required argument may be null: only its key has to be there.\<close>

lemma required_null_accepted:
  "ValidateArgs sample_tool_library (Some sample_registry) ''get_task_tree'' [(''goal_id'', JNull)] = [] \<and>
   ValidateArgs sample_tool_library (Some sample_registry) ''get_task_tree'' [] = [MissingArgument ''goal_id'']"
  by code_simp



subsection \<open>Identity\<close>

function mentions_identity :: "tool_library \<Rightarrow> json \<Rightarrow> bool" where
  "mentions_identity lib v \<longleftrightarrow>
    (case v of
       JObject kvs \<Rightarrow> (\<exists>kv \<in> set kvs. identity_key lib (fst kv) \<or> mentions_identity lib (snd kv))
     | JArray xs \<Rightarrow> (\<exists>x \<in> set xs. mentions_identity lib x)
     | _ \<Rightarrow> False)"
  by pat_completeness auto
termination
  by (relation "measure (\<lambda>(lib, v). size v)") (auto dest: field_size element_size)

declare mentions_identity.simps [simp del]

text \<open>
  A schema that leaves no room: scalars, objects whose properties are all declared and closed, and
  arrays of scalars or of closed objects. The schemas of the built-in tools are of this form.
\<close>

definition scalar_type :: "string \<Rightarrow> bool" where
  "scalar_type t \<longleftrightarrow> t \<in> {''string'', ''integer'', ''number'', ''boolean''}"

function closed_schema :: "schema \<Rightarrow> bool" where
  "closed_schema schema \<longleftrightarrow>
    scalar_type (schemaTypeOf schema) \<or>
    schemaTypeOf schema = ''object'' \<and> \<not> additionalAllowed schema \<and>
      (\<forall>kv \<in> set (properties schema). case snd kv of JObject p \<Rightarrow> closed_schema p | _ \<Rightarrow> False) \<or>
    schemaTypeOf schema = ''array'' \<and>
      (case map_of schema ''items'' of
         Some (JObject items) \<Rightarrow> schemaTypeOf items \<noteq> ''array'' \<and> closed_schema items
       | _ \<Rightarrow> False)"
  by pat_completeness auto
termination
  by (relation "measure (\<lambda>schema. size (JObject schema))") (auto dest!: property_size lookup_size)

declare closed_schema.simps [simp del]

lemma type_problem_None:
  "type_problem lib path schema v = None \<Longrightarrow> schemaTypeOf schema \<noteq> [] \<Longrightarrow> typeMatches lib (schemaTypeOf schema) v"
  by (auto simp: type_problem_def schemaTypeOf_def split: option.splits if_splits)

lemma guarded_property:
  assumes "assertNoIdentityFields lib schema = None" and "(k, p) \<in> set (properties schema)"
  shows "\<not> identity_key lib k" and "p = JObject q \<Longrightarrow> assertNoIdentityFields lib q = None"
  using assms by (subst (asm) assertNoIdentityFields.simps,
      fastforce simp: first_some_None split: option.splits if_splits json.splits)+

lemma guarded_items:
  "assertNoIdentityFields lib schema = None \<Longrightarrow> map_of schema ''items'' = Some (JObject items) \<Longrightarrow>
    assertNoIdentityFields lib items = None"
  by (subst (asm) assertNoIdentityFields.simps) (simp split: option.splits)

lemma accepted_object_clean:
  assumes "schemaTypeOf schema = ''object''" and closed: "closed_schema schema"
    and guarded: "assertNoIdentityFields lib schema = None"
    and ok: "validateAgainstSchema lib (Some schema) kvs = []"
    and IH: "\<And>k v path p. (k, v) \<in> set kvs \<Longrightarrow> closed_schema p \<Longrightarrow> assertNoIdentityFields lib p = None \<Longrightarrow>
      validateValue lib path (Some p) v = [] \<Longrightarrow> \<not> mentions_identity lib v"
  shows "\<not> mentions_identity lib (JObject kvs)"
proof -
  from closed assms(1) have open_not: "\<not> additionalAllowed schema"
    and props: "\<forall>kv \<in> set (properties schema). case snd kv of JObject p \<Rightarrow> closed_schema p | _ \<Rightarrow> False"
    by (subst (asm) closed_schema.simps, simp add: scalar_type_def)+
  have "\<not> identity_key lib k \<and> \<not> mentions_identity lib v" if kv: "(k, v) \<in> set kvs" for k v
  proof -
    from ok kv open_not obtain sub where sub: "map_of (properties schema) k = Some sub"
      "validateValue lib k (as_object (Some sub)) v = []"
      unfolding schema_accepts by (fastforce split: option.splits)
    then have mem: "(k, sub) \<in> set (properties schema)" by (simp add: map_of_SomeD)
    with props obtain q where q: "sub = JObject q" "closed_schema q" by (fastforce split: json.splits)
    have "\<not> mentions_identity lib v"
      using IH [OF kv q(2)] guarded_property(2) [OF guarded mem q(1)] sub(2) q(1) by simp
    with guarded_property(1) [OF guarded mem] show ?thesis by simp
  qed
  then show ?thesis by (subst mentions_identity.simps) fastforce
qed

lemma accepted_value_clean:
  "closed_schema schema \<Longrightarrow> assertNoIdentityFields lib schema = None \<Longrightarrow>
    validateValue lib path (Some schema) v = [] \<Longrightarrow> \<not> mentions_identity lib v"
proof (induction v arbitrary: schema path rule: measure_induct_rule [of size])
  case (less v)
  show ?case
  proof (cases v)
    case (JObject kvs)
    have "schemaTypeOf schema \<noteq> []" using less.prems(1)
      by (subst (asm) closed_schema.simps) (auto simp: scalar_type_def)
    then have "typeMatches lib (schemaTypeOf schema) v"
      using value_accepts [OF _ less.prems(3)] JObject type_problem_None by blast
    with less.prems(1) JObject have "schemaTypeOf schema = ''object''"
      by (subst (asm) closed_schema.simps) (auto simp: scalar_type_def typeMatches_def)
    then show ?thesis unfolding JObject
      by (rule accepted_object_clean [OF _ less.prems(1,2)])
        (use less JObject object_accepts field_size in blast)+
  next
    case (JArray xs)
    have "schemaTypeOf schema \<noteq> []" using less.prems(1)
      by (subst (asm) closed_schema.simps) (auto simp: scalar_type_def)
    then have "typeMatches lib (schemaTypeOf schema) v"
      using value_accepts [OF _ less.prems(3)] JArray type_problem_None by blast
    with less.prems(1) JArray obtain items where items: "map_of schema ''items'' = Some (JObject items)"
      "schemaTypeOf items \<noteq> ''array''" "closed_schema items"
      by (subst (asm) closed_schema.simps) (auto simp: scalar_type_def typeMatches_def split: option.splits json.splits)
    have "\<not> mentions_identity lib x" if x: "x \<in> set xs" for x
    proof (cases x)
      case (JObject kvs)
      with array_accepts [OF _ items(1) x] less.prems(3) JArray obtain p where "validateValue lib p (Some items) x = []"
        by auto
      then show ?thesis
        using less.IH [of x items] element_size [OF x] items(3) guarded_items [OF less.prems(2) items(1)] \<open>v = JArray xs\<close>
        by blast
    next
      case (JArray ys)
      have "schemaTypeOf items \<noteq> []" using items(3) by (subst (asm) closed_schema.simps) (auto simp: scalar_type_def)
      with array_accepts [OF _ items(1) x] less.prems(3) \<open>v = JArray xs\<close> JArray
      have "typeMatches lib (schemaTypeOf items) x" by auto
      with items(2,3) JArray show ?thesis
        by (subst (asm) closed_schema.simps) (auto simp: scalar_type_def typeMatches_def)
    qed (simp_all add: mentions_identity.simps)
    then show ?thesis unfolding JArray by (subst mentions_identity.simps) simp
  qed (simp_all add: mentions_identity.simps)
qed

lemma add_tools_guarded:
  assumes "add_tools lib reg tools = Inr reg'"
    and "\<And>name t. map_of (tr_tools reg) name = Some t \<Longrightarrow> t \<in> T \<and> P t"
    and "set tools \<subseteq> T"
    and "\<And>t. t \<in> set tools \<Longrightarrow> assertNoIdentityFields lib (case to_Parameters t of None \<Rightarrow> [] | Some p \<Rightarrow> p) = None \<Longrightarrow> P t"
    and "map_of (tr_tools reg') name = Some t"
  shows "t \<in> T \<and> P t"
  using assms
proof (induction tools arbitrary: reg)
  case (Cons u us)
  from Cons.prems(1) obtain reg1 where step: "add_tool lib reg u = Inr reg1" "add_tools lib reg1 us = Inr reg'"
    by (auto simp: go_simps)
  then have "P u" and tools: "tr_tools reg1 = (trim_space (to_Name u), u) # tr_tools reg"
    using Cons.prems(4) [of u] by (auto simp: add_tool_def Let_def split: if_splits option.splits)
  show ?case
    by (rule Cons.IH [OF step(2)]) (use Cons.prems \<open>P u\<close> in \<open>auto simp: tools split: if_splits\<close>)
qed simp

text \<open>
  C21. No argument that reaches a tool names an identity: when a registry could be built from tools whose
  schemas are closed, accepted arguments have no key \<open>user_id\<close>, \<open>owner_id\<close> and so on, whatever its case
  and blanks, in the call itself or in any object or array inside it.
\<close>

theorem accepted_arguments_name_no_identity:
  assumes "NewToolRegistry lib tools = Inr reg"
    and "\<forall>t \<in> set tools. case to_Parameters t of
      None \<Rightarrow> False | Some schema \<Rightarrow> schemaTypeOf schema = ''object'' \<and> closed_schema schema"
    and "ValidateArgs lib (Some reg) name args = []"
  shows "\<not> mentions_identity lib (JObject args)"
proof -
  from assms(3) obtain t where t: "map_of (tr_tools reg) name = Some t"
    "validateAgainstSchema lib (to_Parameters t) args = []"
    by (auto simp: ValidateArgs_def Get_def sort_key_Nil split: option.splits simp del: validateAgainstSchema.simps)
  from assms(1) obtain reg0 where reg0: "add_tools lib \<lparr>tr_tools = [], tr_order = []\<rparr> tools = Inr reg0"
    "tr_tools reg0 = tr_tools reg"
    by (auto simp: NewToolRegistry_def go_simps)
  have "t \<in> set tools \<and> assertNoIdentityFields lib (case to_Parameters t of None \<Rightarrow> [] | Some p \<Rightarrow> p) = None"
    by (rule add_tools_guarded [OF reg0(1)]) (use t(1) reg0(2) in auto)
  with assms(2) obtain schema where "to_Parameters t = Some schema" "schemaTypeOf schema = ''object''" "closed_schema schema"
    "assertNoIdentityFields lib schema = None" by (fastforce split: option.splits)
  then show ?thesis
    using t(2) accepted_object_clean accepted_value_clean by metis
qed

theorem accepted_arguments_name_no_identity_witness:
  "\<not> mentions_identity sample_tool_library (JObject goal_args)"
proof (rule accepted_arguments_name_no_identity [OF sample_registered _ goal_args_accepted])
  show "\<forall>t \<in> set [list_goals, get_task_tree]. case to_Parameters t of
      None \<Rightarrow> False | Some schema \<Rightarrow> schemaTypeOf schema = ''object'' \<and> closed_schema schema"
    by code_simp
qed

end
