(* ===== verification/Notifications.thy ===== *)
theory Notifications
  imports Jobs Field_Rules "HOL-Library.AList"
begin

text \<open>
  Notifications: the addresses and error text of \<open>notify/notify.go\<close>, the channels, the queue and the
  dispatcher of \<open>application/notification.go\<close> and the targets of \<open>application/notificationtarget.go\<close>.
  What lies outside is the record \<open>notify_library\<close>: the encryption of secrets, the digest of an
  address, \<open>strings.ToLower\<close>, the text of a payload, the adapters of the providers (whether one can be
  built, whether its credentials verify, what a send answers) and the texts that are not ASCII. The
  cache of adapters is not modelled: it is keyed by the revision of the channel, which every change
  of its configuration moves. Strings are bytes.
\<close>

record notify_message =
  msg_Topic :: string
  msg_Title :: string
  msg_Body :: string
  msg_URL :: string
  msg_Payload :: string

text \<open>The adapter's configuration: provider, endpoint, settings and secret.\<close>

record sender_spec =
  sp_Kind :: string
  sp_Endpoint :: string
  sp_Settings :: "(string \<times> string) list"
  sp_Secret :: string

text \<open>A send is accepted with the provider's id, or fails for good (the address, the message) or for now.\<close>

datatype send_result = Accepted string | InvalidTarget string | Undeliverable string | SendFailed string

record notify_library =
  nl_lower :: "string \<Rightarrow> string"
  nl_encrypt :: "string \<Rightarrow> string result"
  nl_decrypt :: "string \<Rightarrow> string + string"
  nl_hash :: "string \<Rightarrow> string"
  nl_payload :: "(string \<times> string) list \<Rightarrow> string \<Rightarrow> string"
  nl_new_sender :: "sender_spec \<Rightarrow> string option"
  nl_verify :: "sender_spec \<Rightarrow> string option"
  nl_send :: "sender_spec \<Rightarrow> string \<Rightarrow> notify_message \<Rightarrow> send_result"
  nl_test_title :: string
  nl_test_body :: string
  nl_target_test_body :: string
  nl_target_disabled :: string

subsection \<open>Addresses\<close>

definition in_range :: "char \<Rightarrow> char \<Rightarrow> char \<Rightarrow> bool" where
  "in_range lo hi c \<longleftrightarrow> byte_value lo \<le> byte_value c \<and> byte_value c \<le> byte_value hi"

definition isDigits :: "string \<Rightarrow> bool" where
  "isDigits s \<longleftrightarrow> list_all (in_range CHR ''0'' CHR ''9'') s"

definition word_char :: "char \<Rightarrow> bool" where
  "word_char c \<longleftrightarrow> in_range CHR ''a'' CHR ''z'' c \<or> in_range CHR ''A'' CHR ''Z'' c \<or> in_range CHR ''0'' CHR ''9'' c \<or> c = CHR ''_''"

definition isUsernameBody :: "string \<Rightarrow> bool" where
  "isUsernameBody s \<longleftrightarrow> list_all word_char s"

definition isTokenBody :: "string \<Rightarrow> bool" where
  "isTokenBody s \<longleftrightarrow> list_all (\<lambda>c. word_char c \<or> c \<in> set ''-:.%'') s"

definition telegram_address :: "string \<Rightarrow> bool" where
  "telegram_address s =
    (case s of
       [] \<Rightarrow> False
     | c # cs \<Rightarrow>
         if c = CHR ''@'' then length s \<ge> 5 \<and> length s \<le> 36 \<and> isUsernameBody cs
         else let v = (if c = CHR ''-'' then cs else s) in v \<noteq> [] \<and> length v \<le> 32 \<and> isDigits v)"

definition addressShapes :: "(string \<times> (string \<Rightarrow> bool)) list" where
  "addressShapes =
    [(''telegram'', telegram_address),
     (''bark'', \<lambda>s. length s \<ge> 8 \<and> length s \<le> 128 \<and> isTokenBody s),
     (''fcm'', \<lambda>s. length s \<ge> 20 \<and> length s \<le> 4096 \<and> isTokenBody s),
     (''apns'', \<lambda>s. \<not> (length s < 32 \<or> length s > 512 \<or> length s mod 2 \<noteq> 0) \<and>
        list_all (\<lambda>c. c \<in> set ''0123456789abcdefABCDEF'') s)]"

text \<open>Whether \<open>ValidateAddress\<close> returns no error; its callers report any of its errors as a validation error.\<close>

definition ValidateAddress :: "notify_library \<Rightarrow> string \<Rightarrow> string \<Rightarrow> bool" where
  "ValidateAddress lib kind address =
    (let a = trim_space address
     in a \<noteq> [] \<and> (case map_of addressShapes (nl_lower lib (trim_space kind)) of
          None \<Rightarrow> False | Some shape \<Rightarrow> shape a))"

subsection \<open>Text\<close>

definition clampRunes :: "string \<Rightarrow> int \<Rightarrow> string" where
  "clampRunes value limit =
    (let v = trim_space value
     in if limit \<le> 0 then v
        else if int (rune_count v) \<le> limit then v
        else if limit \<le> 1 then take_runes (nat limit) v
        else take_runes (nat (limit - 1)) v @ ellipsis)"

text \<open>\<open>strings.Index\<close>: what stands before the first occurrence, if there is one.\<close>

fun before :: "string \<Rightarrow> string \<Rightarrow> string option" where
  "before sub s =
    (if cut_prefix sub s \<noteq> None then Some []
     else case s of [] \<Rightarrow> None | c # cs \<Rightarrow> map_option (Cons c) (before sub cs))"

definition truncateError :: "string \<Rightarrow> string" where
  "truncateError e =
    (let t = trim_space e
     in clampRunes (case before ''PRIVATE KEY'' t of None \<Rightarrow> t | Some p \<Rightarrow> p @ ''PRIVATE KEY=<redacted>'') 400)"

fun trim_right_slashes :: "string \<Rightarrow> string" where
  "trim_right_slashes [] = []"
| "trim_right_slashes (c # cs) =
    (let r = trim_right_slashes cs in if r = [] \<and> c = CHR ''/'' then [] else c # r)"

definition last_bytes :: "nat \<Rightarrow> string \<Rightarrow> string" where
  "last_bytes n s = drop (length s - n) s"

definition secretHint :: "string \<Rightarrow> string" where
  "secretHint value =
    (let v = trim_space value
     in if v = [] then [] else if length v \<le> 8 then take 1 v @ ''...'' else take 4 v @ ''...'' @ last_bytes 4 v)"

definition addressHint :: "string \<Rightarrow> string" where
  "addressHint address =
    (let a = trim_space address; dot = [CHR 0xE2, CHR 0x80, CHR 0xA2]
     in if length a \<le> 8 then dot @ dot @ dot @ dot else ellipsis @ last_bytes 4 a)"

text \<open>A map of settings, and the column that holds it: its pairs in the order of the keys.\<close>

definition normalizeSettings :: "(string \<times> string) list \<Rightarrow> (string \<times> string) list" where
  "normalizeSettings settings =
    foldl (\<lambda>m (k, v). let key = trim_space k; w = trim_space v
      in if key = [] \<or> w = [] then m else AList.update key w m) [] settings"

definition encodeSettings :: "(string \<times> string) list \<Rightarrow> (string \<times> string) list" where
  "encodeSettings settings = sort_key fst (normalizeSettings settings)"

subsection \<open>Events\<close>

record event =
  ev_Topic :: string
  ev_Title :: string
  ev_Body :: string
  ev_URL :: string
  ev_Data :: "(string \<times> string) list"
  ev_CollapseID :: string
  ev_ChannelID :: id

definition normalizeEvent :: "event \<Rightarrow> event" where
  "normalizeEvent e =
    (let topic = trim_space (ev_Topic e); title = clampRunes (ev_Title e) 160
     in e\<lparr>ev_Topic := topic, ev_Title := (if title = [] then topic else title),
          ev_Body := clampRunes (ev_Body e) 1000, ev_URL := trim_space (ev_URL e),
          ev_CollapseID := trim_space (ev_CollapseID e), ev_ChannelID := trim_space (ev_ChannelID e),
          ev_Data := foldl (\<lambda>m (k, v). let key = trim_space k
            in if key = [] then m else AList.update key (clampRunes v 200) m) [] (ev_Data e)\<rparr>)"

definition defaultMaxAttempts :: int where "defaultMaxAttempts = 3"

definition new_notice :: "notify_library \<Rightarrow> id \<Rightarrow> id \<Rightarrow> id \<Rightarrow> id \<Rightarrow> event \<Rightarrow> time \<Rightarrow> notification_message" where
  "new_notice lib k userID targetID channelID e now =
    \<lparr>nm_ID = k, nm_UserID = userID, nm_ChannelID = channelID, nm_TargetID = targetID, nm_Topic = ev_Topic e,
     nm_Title = ev_Title e, nm_Body = ev_Body e, nm_URL = ev_URL e,
     nm_PayloadJSON = nl_payload lib (ev_Data e) (ev_CollapseID e), nm_Status = ''queued'', nm_Attempts = 0,
     nm_MaxAttempts = defaultMaxAttempts, nm_ProviderMessageID = [], nm_LastError = [], nm_RunAfter = now,
     nm_CreatedAt = now, nm_UpdatedAt = now, nm_SentAt = None\<rparr>"

definition newMessage :: "notify_library \<Rightarrow> env \<Rightarrow> notification_target \<Rightarrow> event \<Rightarrow> notification_message tx" where
  "newMessage lib en t e =
    tx_bind (NewID en ''notify_msg'') (\<lambda>k.
    tx_return (new_notice lib k (nt_UserID t) (nt_ID t) (nt_ChannelID t) e (env_now en)))"

definition notifyMessageFor :: "notification_message \<Rightarrow> notify_message" where
  "notifyMessageFor m = \<lparr>msg_Topic = nm_Topic m, msg_Title = nm_Title m, msg_Body = nm_Body m,
     msg_URL = nm_URL m, msg_Payload = nm_PayloadJSON m\<rparr>"

subsection \<open>Audit\<close>

definition auditAdmin :: "env \<Rightarrow> user \<Rightarrow> id \<Rightarrow> string \<Rightarrow> (string \<times> payload_value) list \<Rightarrow> unit tx" where
  "auditAdmin en actor target action detail =
    tx_bind (NewID en ''audit'') (\<lambda>k.
    tx_write (\<lambda>s. s\<lparr>s_audits := s_audits s @ [\<lparr>aa_ID = k, aa_ActorUserID = u_ID actor,
      aa_TargetUserID = (if target = [] then None else Some target), aa_Action = action, aa_DetailJSON = detail,
      aa_CreatedAt = env_now en\<rparr>]\<rparr>))"

definition auditTarget :: "env \<Rightarrow> user option \<Rightarrow> notification_target \<Rightarrow> string \<Rightarrow> string \<Rightarrow> unit tx" where
  "auditTarget en actor t provider action =
    (case actor of
       None \<Rightarrow> tx_return ()
     | Some a \<Rightarrow> auditAdmin en a (nt_UserID t) action
         [(''target_id'', PText (nt_ID t)), (''channel_id'', PText (nt_ChannelID t)), (''provider'', PText provider),
          (''status'', PText (nt_Status t)), (''address_hint'', PText (nt_AddressHint t))])"

subsection \<open>Channels\<close>

record notification_settings =
  set_Enabled :: bool
  set_Timeout :: int
  set_Batch :: int
  set_Retention :: int

definition DefaultNotificationSettings :: notification_settings where
  "DefaultNotificationSettings =
    \<lparr>set_Enabled = True, set_Timeout = 10 * second, set_Batch = 20, set_Retention = 14 * 24 * 60 * minute\<rparr>"

definition maxNotificationBatch :: int where "maxNotificationBatch = 100"

definition WithSettings :: "notification_settings \<Rightarrow> notification_settings" where
  "WithSettings st =
    (let st = (if set_Timeout st \<le> 0 then st\<lparr>set_Timeout := set_Timeout DefaultNotificationSettings\<rparr> else st);
         st = (if set_Batch st \<le> 0 then st\<lparr>set_Batch := set_Batch DefaultNotificationSettings\<rparr> else st);
         st = (if set_Batch st > maxNotificationBatch then st\<lparr>set_Batch := maxNotificationBatch\<rparr> else st)
     in if set_Retention st \<le> 0 then st\<lparr>set_Retention := set_Retention DefaultNotificationSettings\<rparr> else st)"

definition specFor :: "notify_library \<Rightarrow> string \<Rightarrow> string \<Rightarrow> (string \<times> string) list \<Rightarrow> string \<Rightarrow> sender_spec" where
  "specFor lib provider endpoint settings secret =
    \<lparr>sp_Kind = nl_lower lib (trim_space provider), sp_Endpoint = trim_right_slashes (trim_space endpoint),
     sp_Settings = normalizeSettings settings, sp_Secret = secret\<rparr>"

text \<open>The adapter of a stored channel, as the spec it is built from, or the text of the error.\<close>

definition senderFor :: "notify_library \<Rightarrow> notification_channel \<Rightarrow> string + sender_spec" where
  "senderFor lib c =
    bind_r (nl_decrypt lib (nc_SecretCiphertext c)) (\<lambda>secret.
    let spec = specFor lib (nc_Provider c) (nc_Endpoint c) (nc_SettingsJSON c) secret
    in case nl_new_sender lib spec of Some e \<Rightarrow> Inl e | None \<Rightarrow> Inr spec)"

definition find_channel :: "store \<Rightarrow> id \<Rightarrow> notification_channel result" where
  "find_channel s k = (case find (\<lambda>c. nc_ID c = k) (s_channels s) of None \<Rightarrow> Inl ErrNotFound | Some c \<Rightarrow> Inr c)"

text \<open>The checks of the table: one of the four providers, and a name no other channel has.\<close>

definition create_channel :: "notification_channel \<Rightarrow> unit tx" where
  "create_channel c =
    tx_bind (tx_check (nc_Provider c \<in> {''telegram'', ''bark'', ''fcm'', ''apns''}) ErrOther) (\<lambda>_.
    tx_bind (tx_read (\<lambda>s. \<exists>d \<in> set (s_channels s). nc_ID d = nc_ID c \<or> nc_Name d = nc_Name c)) (\<lambda>taken.
    tx_bind (tx_check (\<not> taken) ErrConflict) (\<lambda>_.
    tx_write (\<lambda>s. s\<lparr>s_channels := s_channels s @ [c]\<rparr>))))"

record channel_command =
  cc_Name :: string
  cc_Provider :: string
  cc_Endpoint :: string
  cc_Settings :: "(string \<times> string) list"
  cc_Secret :: string
  cc_Status :: string

definition CreateChannel :: "notify_library \<Rightarrow> env \<Rightarrow> user \<Rightarrow> channel_command \<Rightarrow> notification_channel tx" where
  "CreateChannel lib en actor cmd =
    (let name = trim_space (cc_Name cmd); provider = nl_lower lib (trim_space (cc_Provider cmd));
         endpoint = trim_space (cc_Endpoint cmd);
         status = (if cc_Status cmd = [] then ''active'' else cc_Status cmd)
     in tx_bind (tx_check (\<not> (status \<noteq> ''active'' \<and> status \<noteq> ''disabled'')) ErrValidation) (\<lambda>_.
        tx_bind (tx_check (\<not> (name = [] \<or> length name > 120)) ErrValidation) (\<lambda>_.
        tx_bind (tx_check (nl_new_sender lib (specFor lib provider endpoint (cc_Settings cmd) (cc_Secret cmd)) = None)
          ErrValidation) (\<lambda>_.
        tx_bind (tx_try (\<lambda>_. nl_encrypt lib (trim_space (cc_Secret cmd)))) (\<lambda>ciphertext.
        tx_bind (NewID en ''notify_channel'') (\<lambda>k.
        let c = \<lparr>nc_ID = k, nc_Name = name, nc_Provider = provider, nc_Endpoint = trim_right_slashes endpoint,
              nc_SettingsJSON = encodeSettings (cc_Settings cmd), nc_SecretCiphertext = ciphertext,
              nc_SecretHint = secretHint (cc_Secret cmd), nc_Status = status, nc_LastCheckAt = None,
              nc_LastCheckStatus = [], nc_LastError = [], nc_Revision = 1, nc_CreatedAt = env_now en,
              nc_UpdatedAt = env_now en\<rparr>
        in tx_bind (create_channel c) (\<lambda>_.
           tx_bind (auditAdmin en actor [] ''notification_channel.created''
             [(''channel_id'', PText k), (''provider'', PText provider), (''status'', PText status)]) (\<lambda>_.
           tx_return c))))))))"

record update_channel_command =
  uc_Name :: "string option"
  uc_Endpoint :: "string option"
  uc_Settings :: "(string \<times> string) list option"
  uc_Secret :: "string option"
  uc_Status :: "string option"

text \<open>
  The effective configuration of an edited channel: each field given replaces the stored one. The
  secret comes with its new ciphertext, if it is replaced.
\<close>

definition edited_channel ::
    "notify_library \<Rightarrow> update_channel_command \<Rightarrow> notification_channel \<Rightarrow> string \<Rightarrow> (notification_channel \<times> string \<times> bool) result" where
  "edited_channel lib cmd c stored =
    bind_r (case uc_Name cmd of
        None \<Rightarrow> Inr c
      | Some n \<Rightarrow> let name = trim_space n
          in if name = [] \<or> length name > 120 then Inl ErrValidation else Inr (c\<lparr>nc_Name := name\<rparr>)) (\<lambda>c.
    let c = (case uc_Endpoint cmd of None \<Rightarrow> c | Some e \<Rightarrow> c\<lparr>nc_Endpoint := trim_right_slashes (trim_space e)\<rparr>);
        c = (case uc_Settings cmd of None \<Rightarrow> c | Some m \<Rightarrow> c\<lparr>nc_SettingsJSON := encodeSettings (normalizeSettings m)\<rparr>)
    in bind_r (case uc_Secret cmd of
        None \<Rightarrow> Inr (c, stored, False)
      | Some v \<Rightarrow> let secret = trim_space v
          in if secret = [] then Inr (c, stored, False)
             else bind_r (nl_encrypt lib secret) (\<lambda>ciphertext.
               Inr (c\<lparr>nc_SecretCiphertext := ciphertext, nc_SecretHint := secretHint secret\<rparr>, secret, True))) (\<lambda>(c, secret, replaced).
    case uc_Status cmd of
      None \<Rightarrow> Inr (c, secret, replaced)
    | Some st \<Rightarrow> if st \<noteq> ''active'' \<and> st \<noteq> ''disabled'' then Inl ErrValidation
        else Inr (c\<lparr>nc_Status := st\<rparr>, secret, replaced)))"

definition channel_detail :: "update_channel_command \<Rightarrow> notification_channel \<Rightarrow> bool \<Rightarrow> (string \<times> payload_value) list" where
  "channel_detail cmd c replaced =
    [(''channel_id'', PText (nc_ID c)), (''status'', PText (nc_Status c))] @
    (if uc_Name cmd = None then [] else [(''name'', PText (nc_Name c))]) @
    (if uc_Endpoint cmd = None then [] else [(''endpoint'', PText (nc_Endpoint c))]) @
    (if uc_Settings cmd = None then [] else [(''settings'', PFields (nc_SettingsJSON c))]) @
    [(''secret_replaced'', PBool replaced)]"

definition UpdateChannel ::
    "notify_library \<Rightarrow> env \<Rightarrow> user \<Rightarrow> id \<Rightarrow> int \<Rightarrow> update_channel_command \<Rightarrow> notification_channel tx" where
  "UpdateChannel lib en actor k expected cmd =
    tx_bind (tx_try (\<lambda>s. find_channel s k)) (\<lambda>c.
    tx_bind (tx_check (nc_Revision c = expected) ErrRevision) (\<lambda>_.
    tx_bind (tx_try (\<lambda>_. case nl_decrypt lib (nc_SecretCiphertext c) of Inl _ \<Rightarrow> Inl ErrOther | Inr v \<Rightarrow> Inr v)) (\<lambda>stored.
    tx_bind (tx_try (\<lambda>_. edited_channel lib cmd c stored)) (\<lambda>(c', secret, replaced).
    tx_bind (tx_check (nl_new_sender lib (specFor lib (nc_Provider c') (nc_Endpoint c') (nc_SettingsJSON c') secret) = None)
      ErrValidation) (\<lambda>_.
    tx_bind (tx_read (\<lambda>s. \<exists>d \<in> set (s_channels s). nc_ID d \<noteq> k \<and> nc_Name d = nc_Name c')) (\<lambda>taken.
    tx_bind (tx_check (\<not> taken) ErrConflict) (\<lambda>_.
    let c'' = c'\<lparr>nc_Revision := expected + 1, nc_UpdatedAt := env_now en\<rparr>
    in tx_bind (tx_write (\<lambda>s. s\<lparr>s_channels := update_rows (\<lambda>d. nc_ID d = k \<and> nc_Revision d = expected) (\<lambda>_. c'')
         (s_channels s)\<rparr>)) (\<lambda>_.
       tx_bind (auditAdmin en actor [] ''notification_channel.updated'' (channel_detail cmd c' replaced)) (\<lambda>_.
       tx_return c'')))))))))"

text \<open>The foreign keys cascade: the targets of a channel and their messages go with it.\<close>

definition DeleteChannel :: "env \<Rightarrow> user \<Rightarrow> id \<Rightarrow> unit tx" where
  "DeleteChannel en actor k =
    tx_bind (tx_try (\<lambda>s. find_channel s k)) (\<lambda>c.
    tx_bind (tx_write (\<lambda>s. s\<lparr>s_channels := filter (\<lambda>d. nc_ID d \<noteq> k) (s_channels s),
      s_targets := filter (\<lambda>t. nt_ChannelID t \<noteq> k) (s_targets s),
      s_notices := filter (\<lambda>m. nm_ChannelID m \<noteq> k \<and>
        \<not> (\<exists>t \<in> set (s_targets s). nt_ChannelID t = k \<and> nm_TargetID m = nt_ID t)) (s_notices s)\<rparr>)) (\<lambda>_.
    auditAdmin en actor [] ''notification_channel.deleted''
      [(''channel_id'', PText k), (''provider'', PText (nc_Provider c)), (''name'', PText (nc_Name c))]))"

text \<open>The verdict of a credential check and its text.\<close>

definition VerifyChannel :: "notify_library \<Rightarrow> env \<Rightarrow> user \<Rightarrow> id \<Rightarrow> (bool \<times> string) tx" where
  "VerifyChannel lib en actor k =
    tx_bind (tx_try (\<lambda>s. find_channel s k)) (\<lambda>c.
    let failure = (case senderFor lib c of Inl e \<Rightarrow> Some e | Inr spec \<Rightarrow> nl_verify lib spec);
        verified = (failure = None); detail = (case failure of None \<Rightarrow> [] | Some e \<Rightarrow> truncateError e)
    in tx_bind (tx_write (\<lambda>s. s\<lparr>s_channels := update_rows (\<lambda>d. nc_ID d = k)
         (\<lambda>d. d\<lparr>nc_LastCheckAt := Some (env_now en), nc_LastCheckStatus := (if verified then ''ok'' else ''failed''),
            nc_LastError := detail, nc_UpdatedAt := env_now en\<rparr>) (s_channels s)\<rparr>)) (\<lambda>_.
       tx_bind (auditAdmin en actor [] ''notification_channel.verified''
         [(''channel_id'', PText k), (''verified'', PBool verified)]) (\<lambda>_.
       tx_return (verified, detail))))"

record delivery_result =
  dr_Delivered :: bool
  dr_ProviderMessageID :: string
  dr_Detail :: string
  dr_InvalidTarget :: bool

definition SendTest :: "notify_library \<Rightarrow> env \<Rightarrow> user \<Rightarrow> id \<Rightarrow> string \<Rightarrow> delivery_result tx" where
  "SendTest lib en actor channelID address =
    tx_bind (tx_try (\<lambda>s. find_channel s channelID)) (\<lambda>c.
    let address = trim_space address; none = \<lparr>dr_Delivered = False, dr_ProviderMessageID = [], dr_Detail = [], dr_InvalidTarget = False\<rparr>
    in tx_bind (tx_check (ValidateAddress lib (nc_Provider c) address) ErrValidation) (\<lambda>_.
       case senderFor lib c of
         Inl e \<Rightarrow> tx_return (none\<lparr>dr_Detail := truncateError e\<rparr>)
       | Inr spec \<Rightarrow>
           let r = (case nl_send lib spec address \<lparr>msg_Topic = ''notification.test'', msg_Title = nl_test_title lib,
                  msg_Body = nl_test_body lib, msg_URL = [], msg_Payload = nl_payload lib [] []\<rparr> of
                Accepted p \<Rightarrow> none\<lparr>dr_Delivered := True, dr_ProviderMessageID := p\<rparr>
              | InvalidTarget e \<Rightarrow> none\<lparr>dr_Detail := truncateError e, dr_InvalidTarget := True\<rparr>
              | Undeliverable e \<Rightarrow> none\<lparr>dr_Detail := truncateError e\<rparr>
              | SendFailed e \<Rightarrow> none\<lparr>dr_Detail := truncateError e\<rparr>)
           in tx_bind (auditAdmin en actor [] ''notification_channel.test''
                [(''channel_id'', PText channelID), (''delivered'', PBool (dr_Delivered r))]) (\<lambda>_. tx_return r)))"

subsection \<open>Targets\<close>

record target_command =
  tc_ChannelID :: id
  tc_Address :: string
  tc_Label :: string
  tc_Status :: string

definition maxTargetLabel :: int where "maxTargetLabel = 60"

text \<open>
  The registration of an address: the one the user already has on the channel is revived under its
  identifier, and otherwise a row is added. The reads before the transaction and the transaction
  are one step here.
\<close>

definition CreateTarget :: "notify_library \<Rightarrow> env \<Rightarrow> user option \<Rightarrow> id \<Rightarrow> target_command \<Rightarrow> notification_target tx" where
  "CreateTarget lib en actor owner cmd =
    (let owner = trim_space owner; address = trim_space (tc_Address cmd); label = clampRunes (tc_Label cmd) maxTargetLabel;
         given = trim_space (tc_Status cmd); status = (if given = [] then ''active'' else given)
     in tx_bind (tx_check (owner \<noteq> []) ErrValidation) (\<lambda>_.
        tx_bind (tx_read (\<lambda>s. \<exists>u \<in> set (s_users s). u_ID u = owner)) (\<lambda>known.
        tx_bind (tx_check known ErrValidation) (\<lambda>_.
        tx_bind (tx_check (\<not> (status \<noteq> ''active'' \<and> status \<noteq> ''disabled'')) ErrValidation) (\<lambda>_.
        tx_bind (tx_try (\<lambda>s. find_channel s (trim_space (tc_ChannelID cmd)))) (\<lambda>c.
        tx_bind (tx_check (nc_Status c = ''active'') ErrConflict) (\<lambda>_.
        tx_bind (tx_check (ValidateAddress lib (nc_Provider c) address) ErrValidation) (\<lambda>_.
        tx_bind (tx_try (\<lambda>_. nl_encrypt lib address)) (\<lambda>ciphertext.
        tx_bind (NewID en ''notify_target'') (\<lambda>k.
        tx_bind (tx_read (\<lambda>s. find (\<lambda>t. nt_UserID t = owner \<and> nt_ChannelID t = nc_ID c \<and> nt_AddressHash t = nl_hash lib address)
          (s_targets s))) (\<lambda>existing.
        case existing of
          Some t \<Rightarrow>
            let revive = (\<lambda>t. t\<lparr>nt_Status := status, nt_Label := label, nt_FailureCount := 0, nt_LastError := [],
                  nt_Revision := nt_Revision t + 1, nt_UpdatedAt := env_now en\<rparr>)
            in tx_bind (tx_write (\<lambda>s. s\<lparr>s_targets := update_rows (\<lambda>u. nt_ID u = nt_ID t)
                 (\<lambda>u. (revive u)\<lparr>nt_AddressCiphertext := ciphertext\<rparr>) (s_targets s)\<rparr>)) (\<lambda>_.
               tx_bind (auditTarget en actor (revive t) (nc_Provider c) ''notification_target.registered'') (\<lambda>_.
               tx_return (revive t)))
        | None \<Rightarrow>
            let t = \<lparr>nt_ID = k, nt_UserID = owner, nt_ChannelID = nc_ID c, nt_Label = label,
                  nt_AddressCiphertext = ciphertext, nt_AddressHash = nl_hash lib address,
                  nt_AddressHint = addressHint address, nt_Status = status, nt_FailureCount = 0, nt_LastError = [],
                  nt_LastSentAt = None, nt_Revision = 1, nt_CreatedAt = env_now en, nt_UpdatedAt = env_now en\<rparr>
            in tx_bind (tx_read (\<lambda>s. \<exists>u \<in> set (s_targets s). nt_ID u = k)) (\<lambda>taken.
               tx_bind (tx_check (\<not> taken) ErrConflict) (\<lambda>_.
               tx_bind (tx_write (\<lambda>s. s\<lparr>s_targets := s_targets s @ [t]\<rparr>)) (\<lambda>_.
               tx_bind (auditTarget en actor t (nc_Provider c) ''notification_target.created'') (\<lambda>_.
               tx_return t)))))))))))))))"

record update_target_command =
  ut_Label :: "string option"
  ut_Status :: "string option"
  ut_Address :: "string option"

text \<open>The changes of a target, in the order of the code.\<close>

definition edited_target ::
    "notify_library \<Rightarrow> string \<Rightarrow> update_target_command \<Rightarrow> notification_target \<Rightarrow> notification_target result" where
  "edited_target lib provider cmd t =
    (let t = (case ut_Label cmd of None \<Rightarrow> t | Some l \<Rightarrow> t\<lparr>nt_Label := clampRunes l maxTargetLabel\<rparr>)
     in bind_r (case ut_Status cmd of
          None \<Rightarrow> Inr t
        | Some v \<Rightarrow> let status = trim_space v
            in if status \<noteq> ''active'' \<and> status \<noteq> ''disabled'' then Inl ErrValidation
               else Inr ((if status = ''active'' then t\<lparr>nt_FailureCount := 0, nt_LastError := []\<rparr> else t)\<lparr>nt_Status := status\<rparr>)) (\<lambda>t.
        case ut_Address cmd of
          None \<Rightarrow> Inr t
        | Some a \<Rightarrow> let address = trim_space a
            in bind_r (guard_r (ValidateAddress lib provider address) ErrValidation) (\<lambda>_.
               bind_r (nl_encrypt lib address) (\<lambda>ciphertext.
               Inr (t\<lparr>nt_AddressCiphertext := ciphertext, nt_AddressHash := nl_hash lib address,
                 nt_AddressHint := addressHint address, nt_FailureCount := 0, nt_LastError := []\<rparr>)))))"

definition scoped_target :: "store \<Rightarrow> id \<Rightarrow> id \<Rightarrow> notification_target result" where
  "scoped_target s scope k =
    (case find (\<lambda>t. nt_ID t = k \<and> (scope \<noteq> [] \<longrightarrow> nt_UserID t = scope)) (s_targets s) of
       None \<Rightarrow> Inl ErrNotFound | Some t \<Rightarrow> Inr t)"

definition UpdateTarget ::
    "notify_library \<Rightarrow> env \<Rightarrow> id \<Rightarrow> user option \<Rightarrow> id \<Rightarrow> int \<Rightarrow> update_target_command \<Rightarrow> notification_target tx" where
  "UpdateTarget lib en scope actor k expected cmd =
    tx_bind (tx_try (\<lambda>s. scoped_target s scope k)) (\<lambda>t.
    tx_bind (tx_check (nt_Revision t = expected) ErrRevision) (\<lambda>_.
    tx_bind (tx_try (\<lambda>s. find_channel s (nt_ChannelID t))) (\<lambda>c.
    tx_bind (tx_try (\<lambda>_. edited_target lib (nc_Provider c) cmd t)) (\<lambda>t'.
    tx_bind (tx_read (\<lambda>s. \<exists>u \<in> set (s_targets s). nt_ID u \<noteq> k \<and> nt_UserID u = nt_UserID t' \<and>
      nt_ChannelID u = nt_ChannelID t' \<and> nt_AddressHash u = nt_AddressHash t')) (\<lambda>taken.
    tx_bind (tx_check (\<not> taken) ErrConflict) (\<lambda>_.
    let t'' = t'\<lparr>nt_Revision := expected + 1, nt_UpdatedAt := env_now en\<rparr>
    in tx_bind (tx_write (\<lambda>s. s\<lparr>s_targets := update_rows (\<lambda>u. nt_ID u = k \<and> nt_Revision u = expected) (\<lambda>_. t'')
         (s_targets s)\<rparr>)) (\<lambda>_.
       tx_bind (auditTarget en actor t'' (nc_Provider c) (if ut_Address cmd \<noteq> None
         then ''notification_target.reregistered'' else ''notification_target.updated'')) (\<lambda>_.
       tx_return t''))))))))"

definition DeleteTarget :: "env \<Rightarrow> id \<Rightarrow> user option \<Rightarrow> id \<Rightarrow> unit tx" where
  "DeleteTarget en scope actor k =
    tx_bind (tx_try (\<lambda>s. scoped_target s scope k)) (\<lambda>t.
    tx_bind (tx_write (\<lambda>s. s\<lparr>s_targets := filter (\<lambda>u. nt_ID u \<noteq> k) (s_targets s),
      s_notices := filter (\<lambda>m. nm_TargetID m \<noteq> k) (s_notices s)\<rparr>)) (\<lambda>_.
    tx_bind (tx_read (\<lambda>s. case find_channel s (nt_ChannelID t) of Inl _ \<Rightarrow> [] | Inr c \<Rightarrow> nc_Provider c)) (\<lambda>provider.
    auditTarget en actor t provider ''notification_target.deleted'')))"

subsection \<open>Publishing\<close>

definition active_channel :: "store \<Rightarrow> id \<Rightarrow> bool" where
  "active_channel s k \<longleftrightarrow> (\<exists>c \<in> set (s_channels s). nc_ID c = k \<and> nc_Status c = ''active'')"

definition reachable_target :: "store \<Rightarrow> id \<Rightarrow> notification_target \<Rightarrow> bool" where
  "reachable_target s channelID t \<longleftrightarrow> nt_Status t = ''active'' \<and> active_channel s (nt_ChannelID t) \<and>
    (channelID \<noteq> [] \<longrightarrow> nt_ChannelID t = channelID)"

definition maxTargetsPerUser :: nat where "maxTargetsPerUser = 40"

definition activeTargets :: "store \<Rightarrow> id \<Rightarrow> id \<Rightarrow> notification_target list" where
  "activeTargets s userID channelID =
    take maxTargetsPerUser (filter (\<lambda>t. nt_UserID t = userID \<and> reachable_target s channelID t) (s_targets s))"

definition create_notices :: "notification_message list \<Rightarrow> unit tx" where
  "create_notices rows =
    tx_bind (tx_read (\<lambda>s. distinct (map nm_ID (s_notices s @ rows)))) (\<lambda>fresh.
    tx_bind (tx_check fresh ErrUnique) (\<lambda>_.
    tx_write (\<lambda>s. s\<lparr>s_notices := s_notices s @ rows\<rparr>)))"

definition Publish :: "notify_library \<Rightarrow> notification_settings \<Rightarrow> env \<Rightarrow> id \<Rightarrow> event \<Rightarrow> nat tx" where
  "Publish lib st en userID e =
    (if \<not> set_Enabled st \<or> trim_space userID = [] then tx_return 0
     else let e = normalizeEvent e
       in tx_bind (tx_check (ev_Topic e \<noteq> []) ErrValidation) (\<lambda>_.
          tx_bind (tx_read (\<lambda>s. activeTargets s userID (ev_ChannelID e))) (\<lambda>targets.
          if targets = [] then tx_return 0
          else tx_bind (tx_map (\<lambda>t. newMessage lib en t e) targets) (\<lambda>rows.
            tx_bind (create_notices rows) (\<lambda>_. tx_return (length rows))))))"

definition maxBroadcastTargets :: nat where "maxBroadcastTargets = 5000"

record broadcast_command =
  bc_Topic :: string
  bc_Title :: string
  bc_Body :: string
  bc_URL :: string
  bc_ChannelID :: id

function batches :: "'a list \<Rightarrow> 'a list list" where
  "batches xs = (if xs = [] then [] else take 50 xs # batches (drop 50 xs))"
  by pat_completeness auto
termination
  by (relation "measure length") auto

declare batches.simps [simp del]

text \<open>
  Each batch is a transaction of its own, and what earlier batches queued stays when one fails: the
  answer is the number queued, with the error if there was one.
\<close>

fun queue_batches ::
    "notify_library \<Rightarrow> env \<Rightarrow> event \<Rightarrow> notification_target list list \<Rightarrow> nat \<Rightarrow> store \<Rightarrow> nat \<times> app_error option \<times> store" where
  "queue_batches lib en e [] queued s = (queued, None, s)"
| "queue_batches lib en e (b # bs) queued s =
    (case tx_bind (tx_map (\<lambda>t. newMessage lib en t e) b) (\<lambda>rows. tx_bind (create_notices rows) (\<lambda>_. tx_return (length rows))) s of
       Inl err \<Rightarrow> (queued, Some err, s)
     | Inr (n, s') \<Rightarrow> queue_batches lib en e bs (queued + n) s')"

definition Broadcast :: "notify_library \<Rightarrow> env \<Rightarrow> user \<Rightarrow> broadcast_command \<Rightarrow> store \<Rightarrow> nat \<times> app_error option \<times> store" where
  "Broadcast lib en actor cmd s =
    (let e = normalizeEvent \<lparr>ev_Topic = bc_Topic cmd, ev_Title = bc_Title cmd, ev_Body = bc_Body cmd, ev_URL = bc_URL cmd,
               ev_Data = [], ev_CollapseID = [], ev_ChannelID = trim_space (bc_ChannelID cmd)\<rparr>;
         e = (if ev_Topic e = [] then e\<lparr>ev_Topic := ''notification.broadcast''\<rparr> else e)
     in if ev_Title e = [] then (0, Some ErrValidation, s)
        else let targets = take maxBroadcastTargets (filter (reachable_target s (ev_ChannelID e)) (s_targets s))
          in case queue_batches lib en e (batches targets) 0 s of
               (queued, Some err, s') \<Rightarrow> (queued, Some err, s')
             | (queued, None, s') \<Rightarrow>
                 (case auditAdmin en actor [] ''notification.broadcast''
                    [(''topic'', PText (ev_Topic e)), (''channel_id'', PText (ev_ChannelID e)), (''queued'', PInt (int queued))] s' of
                    Inl err \<Rightarrow> (queued, Some err, s')
                  | Inr (_, s'') \<Rightarrow> (queued, None, s'')))"

subsection \<open>Delivery\<close>

definition sendLease :: int where "sendLease = 5 * minute"

definition notificationBackoffBase :: int where "notificationBackoffBase = 30 * second"

definition notificationBackoffMax :: int where "notificationBackoffMax = 15 * minute"

fun backoff_loop :: "nat \<Rightarrow> int \<Rightarrow> int" where
  "backoff_loop 0 delay = delay"
| "backoff_loop (Suc n) delay =
    (if 2 * delay \<ge> notificationBackoffMax then notificationBackoffMax else backoff_loop n (2 * delay))"

definition notificationBackoff :: "int \<Rightarrow> int" where
  "notificationBackoff attempt =
    (let a = (if attempt < 1 then 1 else attempt) in backoff_loop (nat (a - 1)) notificationBackoffBase)"

definition due_notice :: "time \<Rightarrow> notification_message \<Rightarrow> bool" where
  "due_notice now m \<longleftrightarrow> (nm_Status m = ''queued'' \<or> nm_Status m = ''sending'') \<and> nm_RunAfter m \<le> now"

definition claimed_notice :: "time \<Rightarrow> notification_message \<Rightarrow> notification_message" where
  "claimed_notice now m = m\<lparr>nm_Status := ''sending'', nm_Attempts := nm_Attempts m + 1, nm_RunAfter := now + sendLease,
     nm_UpdatedAt := now\<rparr>"

definition claimNextMessage :: "env \<Rightarrow> notification_message option tx" where
  "claimNextMessage en =
    tx_bind (tx_read (\<lambda>s. sort_key (\<lambda>m. (nm_RunAfter m, nm_CreatedAt m, nm_ID m))
      (filter (due_notice (env_now en)) (s_notices s)))) (\<lambda>due.
    case due of
      [] \<Rightarrow> tx_return None
    | m # _ \<Rightarrow>
        let P = (\<lambda>x. nm_ID x = nm_ID m \<and> nm_Status x = nm_Status m \<and> nm_Attempts x = nm_Attempts m);
            claimed = claimed_notice (env_now en) m
        in tx_bind (tx_read (\<lambda>s. rows_affected P (s_notices s) = 1)) (\<lambda>one.
           tx_bind (tx_write (\<lambda>s. s\<lparr>s_notices := update_rows P (\<lambda>x. x\<lparr>nm_Status := nm_Status claimed,
             nm_Attempts := nm_Attempts claimed, nm_RunAfter := nm_RunAfter claimed, nm_UpdatedAt := nm_UpdatedAt claimed\<rparr>)
             (s_notices s)\<rparr>)) (\<lambda>_.
           tx_return (if one then Some claimed else None))))"

record delivery_outcome =
  do_Sent :: bool
  do_Retried :: bool
  do_RetireTarget :: bool
  do_Detail :: string

definition failed_outcome :: "string \<Rightarrow> delivery_outcome" where
  "failed_outcome detail = \<lparr>do_Sent = False, do_Retried = False, do_RetireTarget = False, do_Detail = detail\<rparr>"

text \<open>
  What one attempt produces, from the rows as they are when the attempt starts: the outcome, and the
  target if its counters are to be written.
\<close>

definition attempt_delivery ::
    "notify_library \<Rightarrow> store \<Rightarrow> notification_message \<Rightarrow> delivery_outcome \<times> notification_target option" where
  "attempt_delivery lib s m =
    (case (find_channel s (nm_ChannelID m), find (\<lambda>t. nt_ID t = nm_TargetID m) (s_targets s)) of
       (Inr c, Some t) \<Rightarrow>
         if nc_Status c \<noteq> ''active'' then (failed_outcome ''the channel is disabled'', None)
         else if nt_Status t \<noteq> ''active'' then (failed_outcome (''the target is '' @ nt_Status t), None)
         else (case nl_decrypt lib (nt_AddressCiphertext t) of
             Inl e \<Rightarrow> ((failed_outcome (truncateError e))\<lparr>do_RetireTarget := True\<rparr>, Some t)
           | Inr address \<Rightarrow>
               (case senderFor lib c of
                  Inl e \<Rightarrow> (failed_outcome (truncateError e), Some t)
                | Inr spec \<Rightarrow>
                    (case nl_send lib spec address (notifyMessageFor m) of
                       Accepted p \<Rightarrow> ((failed_outcome p)\<lparr>do_Sent := True\<rparr>, Some t)
                     | InvalidTarget e \<Rightarrow> ((failed_outcome (truncateError e))\<lparr>do_RetireTarget := True\<rparr>, Some t)
                     | Undeliverable e \<Rightarrow> (failed_outcome (truncateError e), Some t)
                     | SendFailed e \<Rightarrow>
                         ((failed_outcome (truncateError e))\<lparr>do_Retried := nm_Attempts m < nm_MaxAttempts m\<rparr>, Some t))))
     | _ \<Rightarrow> (failed_outcome ''the channel or target no longer exists'', None))"

definition recorded_notice :: "time \<Rightarrow> notification_message \<Rightarrow> delivery_outcome \<Rightarrow> notification_message \<Rightarrow> notification_message" where
  "recorded_notice now m out x =
    (if do_Sent out
     then x\<lparr>nm_Status := ''sent'', nm_SentAt := Some now, nm_ProviderMessageID := do_Detail out, nm_LastError := []\<rparr>
     else if do_Retried out
     then x\<lparr>nm_Status := ''queued'', nm_RunAfter := now + notificationBackoff (nm_Attempts m), nm_LastError := do_Detail out\<rparr>
     else x\<lparr>nm_Status := ''failed'', nm_LastError := do_Detail out\<rparr>)\<lparr>nm_UpdatedAt := now\<rparr>"

definition counted_target :: "time \<Rightarrow> notification_target \<Rightarrow> delivery_outcome \<Rightarrow> notification_target \<Rightarrow> notification_target" where
  "counted_target now t out u =
    (let u = u\<lparr>nt_UpdatedAt := now, nt_Revision := nt_Revision u + 1\<rparr>
     in if do_Sent out
        then (if nt_Status t = ''invalid'' then u\<lparr>nt_Status := ''active''\<rparr> else u)
               \<lparr>nt_FailureCount := 0, nt_LastError := [], nt_LastSentAt := Some now\<rparr>
        else if do_RetireTarget out
        then u\<lparr>nt_Status := ''invalid'', nt_LastError := do_Detail out, nt_FailureCount := nt_FailureCount t + 1\<rparr>
        else u\<lparr>nt_FailureCount := nt_FailureCount t + 1, nt_LastError := do_Detail out\<rparr>)"

definition finishDelivery ::
    "env \<Rightarrow> notification_message \<Rightarrow> delivery_outcome \<Rightarrow> notification_target option \<Rightarrow> unit tx" where
  "finishDelivery en m out target =
    (let P = (\<lambda>x. nm_ID x = nm_ID m \<and> nm_Status x = ''sending'' \<and> nm_Attempts x = nm_Attempts m)
     in tx_bind (tx_read (\<lambda>s. rows_affected P (s_notices s) = 1)) (\<lambda>one.
        tx_bind (tx_write (\<lambda>s. s\<lparr>s_notices := update_rows P (recorded_notice (env_now en) m out) (s_notices s)\<rparr>)) (\<lambda>_.
        if \<not> one then tx_return ()
        else case target of
          None \<Rightarrow> tx_return ()
        | Some t \<Rightarrow>
            if do_Sent out \<or> do_RetireTarget out \<or> do_Retried out
            then tx_write (\<lambda>s. s\<lparr>s_targets := update_rows (\<lambda>u. nt_ID u = nt_ID t) (counted_target (env_now en) t out)
              (s_targets s)\<rparr>)
            else tx_return ())))"

text \<open>The attempt and its record when nothing comes between them; an error of the record is dropped.\<close>

definition sendClaimed :: "notify_library \<Rightarrow> env \<Rightarrow> notification_message \<Rightarrow> store \<Rightarrow> delivery_outcome \<times> store" where
  "sendClaimed lib en m s =
    (let (out, target) = attempt_delivery lib s m
     in (out, case finishDelivery en m out target s of Inl _ \<Rightarrow> s | Inr (_, s') \<Rightarrow> s'))"

record dispatch_report =
  rep_Claimed :: nat
  rep_Sent :: nat
  rep_Retried :: nat
  rep_Failed :: nat
  rep_Retired :: nat

definition count_outcome :: "delivery_outcome \<Rightarrow> dispatch_report \<Rightarrow> dispatch_report" where
  "count_outcome out r =
    (let r = r\<lparr>rep_Claimed := rep_Claimed r + 1\<rparr>;
         r = (if do_Sent out then r\<lparr>rep_Sent := rep_Sent r + 1\<rparr>
              else if do_Retried out then r\<lparr>rep_Retried := rep_Retried r + 1\<rparr>
              else r\<lparr>rep_Failed := rep_Failed r + 1\<rparr>)
     in if do_RetireTarget out then r\<lparr>rep_Retired := rep_Retired r + 1\<rparr> else r)"

text \<open>A pass with one reading of the clock, at most \<open>n\<close> claims.\<close>

fun dispatch_loop ::
    "notify_library \<Rightarrow> env \<Rightarrow> nat \<Rightarrow> dispatch_report \<Rightarrow> store \<Rightarrow> dispatch_report \<times> app_error option \<times> store" where
  "dispatch_loop lib en 0 r s = (r, None, s)"
| "dispatch_loop lib en (Suc n) r s =
    (case claimNextMessage en s of
       Inl e \<Rightarrow> (r, Some e, s)
     | Inr (None, s1) \<Rightarrow> (r, None, s1)
     | Inr (Some m, s1) \<Rightarrow>
         (case sendClaimed lib en m s1 of (out, s2) \<Rightarrow> dispatch_loop lib en n (count_outcome out r) s2))"

definition empty_report :: dispatch_report where
  "empty_report = \<lparr>rep_Claimed = 0, rep_Sent = 0, rep_Retried = 0, rep_Failed = 0, rep_Retired = 0\<rparr>"

definition dispatch_limit :: "notification_settings \<Rightarrow> int \<Rightarrow> int" where
  "dispatch_limit st limit =
    (let l = (if limit \<le> 0 then set_Batch st else limit)
     in if l > maxNotificationBatch then maxNotificationBatch else l)"

definition DispatchDue ::
    "notify_library \<Rightarrow> notification_settings \<Rightarrow> env \<Rightarrow> int \<Rightarrow> store \<Rightarrow> dispatch_report \<times> app_error option \<times> store" where
  "DispatchDue lib st en limit s =
    (if \<not> set_Enabled st then (empty_report, None, s)
     else dispatch_loop lib en (nat (dispatch_limit st limit)) empty_report s)"

definition pruneInterval :: int where "pruneInterval = 60 * minute"

text \<open>The pruning of the log: the rows it deletes, and the time of the last one (\<open>None\<close> before the first).\<close>

definition Prune :: "notification_settings \<Rightarrow> env \<Rightarrow> time option \<Rightarrow> store \<Rightarrow> nat \<times> time option \<times> store" where
  "Prune st en lastPrune s =
    (if \<not> set_Enabled st then (0, lastPrune, s)
     else if (case lastPrune of None \<Rightarrow> False | Some l \<Rightarrow> env_now en - l < pruneInterval) then (0, lastPrune, s)
     else let P = (\<lambda>m. (nm_Status m = ''sent'' \<or> nm_Status m = ''failed'') \<and> nm_CreatedAt m < env_now en - set_Retention st)
       in (rows_affected P (s_notices s), Some (env_now en), s\<lparr>s_notices := filter (\<lambda>m. \<not> P m) (s_notices s)\<rparr>))"

text \<open>
  A test of a stored target: its message is created as claimed, with one attempt, and delivered at once.
  The steps are the ones of the code with nothing in between.
\<close>

definition test_notice :: "notify_library \<Rightarrow> env \<Rightarrow> notification_target \<Rightarrow> notification_message tx" where
  "test_notice lib en t =
    tx_bind (newMessage lib en t (normalizeEvent \<lparr>ev_Topic = ''notification.test'', ev_Title = nl_test_title lib,
      ev_Body = nl_target_test_body lib, ev_URL = [], ev_Data = [], ev_CollapseID = [], ev_ChannelID = []\<rparr>)) (\<lambda>m.
    let m = m\<lparr>nm_Status := ''sending'', nm_Attempts := 1, nm_MaxAttempts := 1, nm_RunAfter := env_now en + sendLease\<rparr>
    in tx_bind (create_notices [m]) (\<lambda>_. tx_return m))"

definition TestTarget :: "notify_library \<Rightarrow> env \<Rightarrow> user option \<Rightarrow> id \<Rightarrow> id \<Rightarrow> delivery_result tx" where
  "TestTarget lib en actor scope k =
    tx_bind (tx_try (\<lambda>s. scoped_target s scope k)) (\<lambda>t.
    tx_bind (tx_try (\<lambda>s. find_channel s (nt_ChannelID t))) (\<lambda>c.
    let none = \<lparr>dr_Delivered = False, dr_ProviderMessageID = [], dr_Detail = [], dr_InvalidTarget = False\<rparr>
    in if nt_Status t \<noteq> ''active'' then tx_return (none\<lparr>dr_Detail := nl_target_disabled lib\<rparr>)
       else tx_bind (test_notice lib en t) (\<lambda>m.
         tx_bind (\<lambda>s. Inr (sendClaimed lib en m s)) (\<lambda>out.
         tx_bind (tx_try (\<lambda>s. case find (\<lambda>x. nm_ID x = nm_ID m) (s_notices s) of
           None \<Rightarrow> Inl ErrRecordNotFound | Some x \<Rightarrow> Inr x)) (\<lambda>stored.
         let delivered = (nm_Status stored = ''sent'');
             r = \<lparr>dr_Delivered = delivered, dr_ProviderMessageID = nm_ProviderMessageID stored,
                  dr_Detail = (if delivered then do_Detail out else nm_LastError stored), dr_InvalidTarget = do_RetireTarget out\<rparr>
         in tx_bind (case actor of
              None \<Rightarrow> tx_return ()
            | Some a \<Rightarrow> auditAdmin en a (nt_UserID t) ''notification_target.test''
                [(''target_id'', PText (nt_ID t)), (''channel_id'', PText (nc_ID c)), (''delivered'', PBool delivered)]) (\<lambda>_.
            tx_return r))))))"

end
