(* ===== verification/Notification_Properties.thy ===== *)
theory Notification_Properties
  imports Notifications Sample_Data
begin

text \<open>
  What the delivery of notifications guarantees: a pass of the dispatcher claims what is due, each
  message once and the oldest first, and a report that comes after another claim is dropped; and
  two things it does not guarantee.
\<close>

subsection \<open>A pass of the dispatcher\<close>

definition due_count :: "time \<Rightarrow> store \<Rightarrow> nat" where
  "due_count now s = length (filter (due_notice now) (s_notices s))"

definition notices_ok :: "store \<Rightarrow> bool" where
  "notices_ok s \<longleftrightarrow> distinct (map nm_ID (s_notices s))"

text \<open>What one pass at an instant may do to a row: nothing, or one attempt, after which it is not due.\<close>

definition attempted :: "time \<Rightarrow> notification_message \<Rightarrow> notification_message \<Rightarrow> bool" where
  "attempted now x y \<longleftrightarrow> y = x \<or>
    due_notice now x \<and> \<not> due_notice now y \<and> nm_ID y = nm_ID x \<and> nm_Attempts y = nm_Attempts x + 1 \<and>
    nm_Status y \<noteq> ''sending''"

lemma backoff_loop_pos: "0 < d \<Longrightarrow> 0 < backoff_loop n d"
  by (induction n arbitrary: d) (simp_all add: notificationBackoffMax_def minute_def)

lemma notificationBackoff_pos: "0 < notificationBackoff a"
  by (simp add: notificationBackoff_def backoff_loop_pos notificationBackoffBase_def)

lemma claimed_fields:
  "nm_ID (claimed_notice now m) = nm_ID m" "nm_Attempts (claimed_notice now m) = nm_Attempts m + 1"
  "nm_Status (claimed_notice now m) = ''sending''"
  by (simp_all add: claimed_notice_def)

lemma recorded_fields:
  "nm_ID (recorded_notice now m out x) = nm_ID x" "nm_Attempts (recorded_notice now m out x) = nm_Attempts x"
  "nm_Status (recorded_notice now m out x) = (if do_Sent out then ''sent'' else if do_Retried out then ''queued'' else ''failed'')"
  "nm_Status (recorded_notice now m out x) = ''queued'' \<Longrightarrow> nm_RunAfter (recorded_notice now m out x) = now + notificationBackoff (nm_Attempts m)"
  by (simp_all add: recorded_notice_def split: if_splits)

lemma recorded_not_due: "\<not> due_notice now (recorded_notice now (claimed_notice now m) out (claimed_notice now m))"
  using recorded_fields(4) [of now "claimed_notice now m" out] notificationBackoff_pos [of "nm_Attempts m + 1"]
  by (cases "do_Sent out"; cases "do_Retried out") (simp_all add: due_notice_def recorded_fields(3) claimed_fields)

lemma recorded_attempted:
  "due_notice now m \<Longrightarrow> attempted now m (recorded_notice now (claimed_notice now m) out (claimed_notice now m))"
  by (simp add: attempted_def recorded_not_due recorded_fields(1-3) claimed_fields)

lemma update_key:
  fixes xs :: "'a list"
  assumes "distinct (map g xs)" and "m \<in> set xs" and "\<And>x. P x \<Longrightarrow> g x = g m" and "P m"
  shows "update_rows P f xs = map (\<lambda>x. if g x = g m then f m else x) xs" and "rows_affected P xs = 1"
proof -
  have inj: "inj_on g (set xs)" using assms(1) by (simp add: distinct_map)
  have same: "x = m" if "x \<in> set xs" "g x = g m" for x using inj_onD [OF inj that(2) that(1) assms(2)] .
  have eq: "P x \<longleftrightarrow> g x = g m" if "x \<in> set xs" for x
    using assms(3) [of x] assms(4) same [OF that] by metis
  show "update_rows P f xs = map (\<lambda>x. if g x = g m then f m else x) xs"
    unfolding update_rows_def using eq same by (intro map_cong) (metis (no_types))+
  have "filter P xs = filter (\<lambda>x. x = m) xs" by (rule filter_cong) (use eq same in blast)+
  moreover have "filter (\<lambda>x. x = m) xs = [m]" if "distinct xs" "m \<in> set xs" for xs :: "'a list"
    using that by (induction xs) (auto simp: filter_empty_conv)
  ultimately have "filter P xs = [m]" using assms(1,2) by (simp add: distinct_map)
  then show "rows_affected P xs = 1" by (simp add: rows_affected_def)
qed

lemma claim_nothing: "due_count (env_now en) s = 0 \<Longrightarrow> claimNextMessage en s = Inr (None, s)"
  by (simp add: claimNextMessage_def due_count_def tx_bind_def)

definition put_notice :: "notification_message \<Rightarrow> store \<Rightarrow> store" where
  "put_notice m s = s\<lparr>s_notices := map (\<lambda>x. if nm_ID x = nm_ID m then m else x) (s_notices s)\<rparr>"

lemma claim_due:
  assumes "notices_ok s" and "due_count (env_now en) s \<noteq> 0"
  shows "\<exists>m \<in> set (s_notices s). due_notice (env_now en) m \<and>
    (\<forall>x \<in> set (s_notices s). due_notice (env_now en) x \<longrightarrow> nm_RunAfter m \<le> nm_RunAfter x) \<and>
    claimNextMessage en s = Inr (Some (claimed_notice (env_now en) m), put_notice (claimed_notice (env_now en) m) s)"
proof -
  let ?key = "\<lambda>m. (nm_RunAfter m, nm_CreatedAt m, nm_ID m)"
  let ?due = "filter (due_notice (env_now en)) (s_notices s)"
  have "sort_key ?key ?due \<noteq> []" using assms(2) by (metis due_count_def length_sort list.size(3))
  then obtain m rest where m: "sort_key ?key ?due = m # rest" by (cases "sort_key ?key ?due") blast+
  then have set: "set (m # rest) = set ?due" and "sorted (map ?key (m # rest))"
    by (metis set_sort, metis sorted_sort_key)
  then have first: "\<forall>x \<in> set ?due. nm_RunAfter m \<le> nm_RunAfter x" by fastforce
  have mem: "m \<in> set (s_notices s)" "due_notice (env_now en) m" using set by auto
  let ?P = "\<lambda>x. nm_ID x = nm_ID m \<and> nm_Status x = nm_Status m \<and> nm_Attempts x = nm_Attempts m"
  let ?c = "claimed_notice (env_now en) m"
  let ?f = "\<lambda>x. x\<lparr>nm_Status := nm_Status ?c, nm_Attempts := nm_Attempts ?c, nm_RunAfter := nm_RunAfter ?c,
    nm_UpdatedAt := nm_UpdatedAt ?c\<rparr>"
  have ids: "distinct (map nm_ID (s_notices s))" using assms(1) by (simp add: notices_ok_def)
  have upd: "update_rows ?P ?f (s_notices s) = map (\<lambda>x. if nm_ID x = nm_ID m then ?f m else x) (s_notices s)"
    by (rule update_key(1) [OF ids mem(1)]) simp_all
  have one: "rows_affected ?P (s_notices s) = 1" by (rule update_key(2) [OF ids mem(1)]) simp_all
  have "?f m = ?c" by (simp add: claimed_notice_def)
  with upd one m have "claimNextMessage en s = Inr (Some ?c, put_notice ?c s)"
    by (simp add: claimNextMessage_def tx_bind_def Let_def put_notice_def claimed_fields)
  with mem first show ?thesis by auto
qed

lemma finish_current:
  assumes "notices_ok s" and "m \<in> set (s_notices s)" and "nm_Status m = ''sending''"
  shows "\<exists>s'. finishDelivery en m out target s = Inr ((), s') \<and>
    s_notices s' = s_notices (put_notice (recorded_notice (env_now en) m out m) s)"
proof -
  let ?P = "\<lambda>x. nm_ID x = nm_ID m \<and> nm_Status x = ''sending'' \<and> nm_Attempts x = nm_Attempts m"
  have "update_rows ?P (recorded_notice (env_now en) m out) (s_notices s) =
      map (\<lambda>x. if nm_ID x = nm_ID m then recorded_notice (env_now en) m out m else x) (s_notices s)" (is "?upd")
    by (rule update_key(1)) (use assms in \<open>simp_all add: notices_ok_def\<close>)
  moreover have "rows_affected ?P (s_notices s) = 1"
    by (rule update_key(2) [where g = nm_ID and m = m]) (use assms in \<open>simp_all add: notices_ok_def\<close>)
  ultimately show ?thesis
    by (auto simp: finishDelivery_def tx_bind_def Let_def put_notice_def recorded_fields(1) split: option.splits)
qed

lemma put_notice_ids: "m \<in> set (s_notices s) \<Longrightarrow> nm_ID x = nm_ID m \<Longrightarrow> map nm_ID (s_notices (put_notice x s)) = map nm_ID (s_notices s)"
  by (auto simp: put_notice_def)

lemma filter_replaced:
  assumes "distinct (map g xs)" and "m \<in> set xs" and "P m" and "\<not> P r"
  shows "length (filter P (map (\<lambda>x. if g x = g m then r else x) xs)) = length (filter P xs) - 1"
  using assms(1,2)
proof (induction xs)
  case (Cons x xs)
  show ?case
  proof (cases "x = m")
    case True
    have "g m \<notin> g ` set xs" using Cons.prems(1) True by simp
    then have "map (\<lambda>x. if g x = g m then r else x) xs = xs" by (intro map_idI) (auto simp: image_iff)
    with True assms(3,4) show ?thesis by simp
  next
    case False
    with Cons.prems have "g x \<noteq> g m" "m \<in> set xs" by auto
    moreover have "filter P xs \<noteq> []" using \<open>m \<in> set xs\<close> assms(3) by (auto simp: filter_empty_conv)
    moreover have "distinct (map g xs)" using Cons.prems(1) by simp
    ultimately show ?thesis using Cons.IH by (simp add: length_greater_0_conv [symmetric] del: length_greater_0_conv)
  qed
qed simp

text \<open>One claim and its delivery: one due row less, and every row changed as an attempt may.\<close>

lemma deliver_one:
  assumes "notices_ok s" and "due_count (env_now en) s = Suc n"
  shows "\<exists>m s1 out s2. claimNextMessage en s = Inr (Some m, s1) \<and> sendClaimed lib en m s1 = (out, s2) \<and>
    notices_ok s2 \<and> due_count (env_now en) s2 = n \<and> list_all2 (attempted (env_now en)) (s_notices s) (s_notices s2)"
proof -
  let ?now = "env_now en"
  from claim_due [OF assms(1), of en] assms(2) obtain m where m: "m \<in> set (s_notices s)" "due_notice ?now m"
    "claimNextMessage en s = Inr (Some (claimed_notice ?now m), put_notice (claimed_notice ?now m) s)" by auto
  let ?c = "claimed_notice ?now m" and ?s1 = "put_notice (claimed_notice ?now m) s"
  have ids: "map nm_ID (s_notices ?s1) = map nm_ID (s_notices s)" using m(1) by (rule put_notice_ids) (simp add: claimed_fields)
  then have ok1: "notices_ok ?s1" using assms(1) by (simp add: notices_ok_def)
  have c: "?c \<in> set (s_notices ?s1)" using m(1) by (auto simp: put_notice_def claimed_fields intro!: image_eqI [of _ _ m])
  obtain out target where out: "attempt_delivery lib ?s1 ?c = (out, target)" by fastforce
  let ?r = "recorded_notice ?now ?c out ?c"
  from finish_current [OF ok1 c, of en out target] obtain s2 where s2: "finishDelivery en ?c out target ?s1 = Inr ((), s2)"
    "s_notices s2 = s_notices (put_notice ?r ?s1)" by (auto simp: claimed_fields)
  have rows: "s_notices s2 = map (\<lambda>x. if nm_ID x = nm_ID m then ?r else x) (s_notices s)"
    unfolding s2(2) by (auto simp: put_notice_def claimed_fields recorded_fields)
  have same: "x = m" if "x \<in> set (s_notices s)" "nm_ID x = nm_ID m" for x
    using assms(1) that m(1) by (auto simp: notices_ok_def distinct_map dest: inj_onD)
  have "map nm_ID (s_notices s2) = map nm_ID (s_notices s)" unfolding rows by (auto simp: claimed_fields recorded_fields)
  then have ok2: "notices_ok s2" using assms(1) by (simp add: notices_ok_def)
  have att: "attempted ?now m ?r" using m(2) by (rule recorded_attempted)
  have not_due: "\<not> due_notice ?now ?r" by (rule recorded_not_due)
  have all2: "list_all2 (attempted ?now) (s_notices s) (s_notices s2)"
    unfolding rows list_all2_map2 using att same by (auto simp: attempted_def intro!: list_all2_refl list.rel_refl_strong)
  have "length (filter (due_notice ?now) (map (\<lambda>x. if nm_ID x = nm_ID m then ?r else x) (s_notices s))) =
      length (filter (due_notice ?now) (s_notices s)) - 1"
    by (rule filter_replaced) (use assms(1) m(1,2) not_due in \<open>simp_all add: notices_ok_def\<close>)
  then have "due_count ?now s2 = n" using assms m(1) by (simp add: due_count_def rows notices_ok_def)
  then show ?thesis using m(3) out s2(1) ok2 all2 by (auto simp: sendClaimed_def)
qed

lemma attempted_trans: "attempted now x y \<Longrightarrow> attempted now y z \<Longrightarrow> attempted now x z"
  by (auto simp: attempted_def)

lemma dispatch_loop_pass:
  assumes "notices_ok s" and "dispatch_loop lib en n r s = (r', e, s')"
  shows "e = None \<and> rep_Claimed r' = rep_Claimed r + min n (due_count (env_now en) s) \<and>
    rep_Sent r' + rep_Retried r' + rep_Failed r' + rep_Claimed r = rep_Sent r + rep_Retried r + rep_Failed r + rep_Claimed r' \<and>
    due_count (env_now en) s' = due_count (env_now en) s - n \<and>
    list_all2 (attempted (env_now en)) (s_notices s) (s_notices s')"
  using assms
proof (induction n arbitrary: r s)
  case 0
  then show ?case by (auto simp: attempted_def intro: list_all2_refl)
next
  case (Suc n)
  show ?case
  proof (cases "due_count (env_now en) s")
    case 0
    with Suc.prems show ?thesis by (auto simp: claim_nothing attempted_def intro: list_all2_refl)
  next
    case (Suc k)
    from deliver_one [OF Suc.prems(1) this, of lib] obtain m s1 out s2 where step:
      "claimNextMessage en s = Inr (Some m, s1)" "sendClaimed lib en m s1 = (out, s2)" "notices_ok s2"
      "due_count (env_now en) s2 = k" "list_all2 (attempted (env_now en)) (s_notices s) (s_notices s2)" by blast
    have "dispatch_loop lib en n (count_outcome out r) s2 = (r', e, s')" using Suc.prems(2) step(1,2) by simp
    from Suc.IH [OF step(3) this] step(4,5) Suc show ?thesis
      by (auto simp: count_outcome_def Let_def split: if_splits intro: list_all2_trans [OF attempted_trans])
  qed
qed



subsection \<open>Sample rows\<close>

text \<open>Adapters that reject the address \<open>old00000\<close> for good, answer \<open>busy0000\<close> with a failure of the moment, and accept the rest.\<close>

definition sample_library :: notify_library where
  "sample_library = \<lparr>nl_lower = (\<lambda>x. x), nl_encrypt = Inr, nl_decrypt = Inr, nl_hash = (\<lambda>x. x), nl_payload = (\<lambda>_ _. ''{}''),
     nl_new_sender = (\<lambda>_. None), nl_verify = (\<lambda>_. None),
     nl_send = (\<lambda>_ a _. if a = ''old00000'' then InvalidTarget ''gone'' else if a = ''busy0000'' then SendFailed ''busy'' else Accepted ''p''),
     nl_test_title = ''test'', nl_test_body = [], nl_target_test_body = [], nl_target_disabled = []\<rparr>"

definition sample_channel :: notification_channel where
  "sample_channel = \<lparr>nc_ID = ''ch'', nc_Name = ''push'', nc_Provider = ''bark'', nc_Endpoint = [], nc_SettingsJSON = [],
     nc_SecretCiphertext = [], nc_SecretHint = [], nc_Status = ''active'', nc_LastCheckAt = None, nc_LastCheckStatus = [],
     nc_LastError = [], nc_Revision = 1, nc_CreatedAt = 0, nc_UpdatedAt = 0\<rparr>"

definition sample_target :: "id \<Rightarrow> string \<Rightarrow> notification_target" where
  "sample_target k a = \<lparr>nt_ID = k, nt_UserID = ''usr'', nt_ChannelID = ''ch'', nt_Label = [], nt_AddressCiphertext = a,
     nt_AddressHash = a, nt_AddressHint = [], nt_Status = ''active'', nt_FailureCount = 0, nt_LastError = [],
     nt_LastSentAt = None, nt_Revision = 1, nt_CreatedAt = 0, nt_UpdatedAt = 0\<rparr>"

definition sample_notice :: "id \<Rightarrow> id \<Rightarrow> notification_message" where
  "sample_notice k t = \<lparr>nm_ID = k, nm_UserID = ''usr'', nm_ChannelID = ''ch'', nm_TargetID = t, nm_Topic = ''x'', nm_Title = ''x'',
     nm_Body = [], nm_URL = [], nm_PayloadJSON = ''{}'', nm_Status = ''queued'', nm_Attempts = 0, nm_MaxAttempts = 3,
     nm_ProviderMessageID = [], nm_LastError = [], nm_RunAfter = 0, nm_CreatedAt = 0, nm_UpdatedAt = 0, nm_SentAt = None\<rparr>"

definition sample_queue :: store where
  "sample_queue = sample_store\<lparr>s_channels := [sample_channel],
     s_targets := [sample_target ''t1'' ''old00000'', sample_target ''t2'' ''busy0000'', sample_target ''t3'' ''good0000''],
     s_notices := [sample_notice ''m1'' ''t1'', sample_notice ''m2'' ''t2'', sample_notice ''m3'' ''t3'']\<rparr>"


subsection \<open>Abandoned claims\<close>

text \<open>\<open>n\<close> dispatchers in a row claim and die before they record anything: each lease runs out, and the next one claims.\<close>

fun abandon :: "env \<Rightarrow> time \<Rightarrow> nat \<Rightarrow> store \<Rightarrow> store" where
  "abandon en t 0 s = s"
| "abandon en t (Suc n) s =
    (case claimNextMessage (en\<lparr>env_now := t\<rparr>) s of
       Inl e \<Rightarrow> s
     | Inr (m, s') \<Rightarrow> abandon en (t + sendLease) n s')"

lemma claim_single:
  assumes "s_notices s = [m]" and "due_notice (env_now en) m"
  shows "\<exists>s'. claimNextMessage en s = Inr (Some (claimed_notice (env_now en) m), s') \<and>
    s_notices s' = [claimed_notice (env_now en) m]"
proof -
  have "notices_ok s" "due_count (env_now en) s \<noteq> 0" using assms by (simp_all add: notices_ok_def due_count_def)
  from claim_due [OF this] assms(1) show ?thesis by (auto simp: put_notice_def claimed_fields)
qed

text \<open>
  The allowed attempts bound no claim: a message whose dispatchers die before they record an
  outcome is claimed at every expiry of the lease, however many attempts it was given.
\<close>

theorem abandoned_claims_unbounded:
  assumes "s_notices s = [m]" and "due_notice t m"
  shows "map nm_Attempts (s_notices (abandon en t n s)) = [nm_Attempts m + int n]"
  using assms
proof (induction n arbitrary: s m t)
  case (Suc n)
  let ?en = "en\<lparr>env_now := t\<rparr>"
  have "due_notice (env_now ?en) m" using Suc.prems(2) by simp
  from claim_single [OF Suc.prems(1) this] obtain s' where s': "claimNextMessage ?en s = Inr (Some (claimed_notice t m), s')"
    "s_notices s' = [claimed_notice t m]" by auto
  have "due_notice (t + sendLease) (claimed_notice t m)" by (simp add: due_notice_def claimed_notice_def)
  from Suc.IH [OF s'(2) this] s'(1) show ?case by (simp add: claimed_fields)
qed simp

lemma abandoned_claims_unbounded_witness:
  "map nm_Attempts (s_notices (abandon (sample_env 0) 10 7 (sample_queue\<lparr>s_notices := [sample_notice ''m1'' ''t1'']\<rparr>))) = [7] \<and>
    nm_MaxAttempts (sample_notice ''m1'' ''t1'') = 3"
  using abandoned_claims_unbounded [of "sample_queue\<lparr>s_notices := [sample_notice ''m1'' ''t1'']\<rparr>" "sample_notice ''m1'' ''t1''" 10 "sample_env 0" 7]
  by (simp add: sample_notice_def due_notice_def)

subsection \<open>A late verdict\<close>

text \<open>
  The dispatcher claims the message of \<open>t1\<close> and reads its target; the provider rejects the address while
  the user replaces it; the outcome is recorded. The address of the target in between and the
  target at the end.
\<close>

definition late_verdict :: "notification_target result" where
  "late_verdict =
    bind_r (claimNextMessage (sample_env 10) (sample_queue\<lparr>s_notices := [sample_notice ''m1'' ''t1'']\<rparr>)) (\<lambda>(claimed, s1).
    case claimed of
      None \<Rightarrow> Inl ErrOther
    | Some m \<Rightarrow> (case attempt_delivery sample_library s1 m of (out, target) \<Rightarrow>
        bind_r (UpdateTarget sample_library (sample_env 11) ''usr'' None ''t1'' 1
          \<lparr>ut_Label = None, ut_Status = Some ''active'', ut_Address = Some ''fresh000''\<rparr> s1) (\<lambda>(_, s2).
        bind_r (finishDelivery (sample_env 12) m out target s2) (\<lambda>(_, s3).
        scoped_target s3 ''usr'' ''t1''))))"


subsection \<open>The delay between attempts\<close>

lemma backoff_loop_closed:
  "0 < d \<Longrightarrow> d < notificationBackoffMax \<Longrightarrow> backoff_loop n d = min notificationBackoffMax (d * 2 ^ n)"
proof (induction n arbitrary: d)
  case (Suc n)
  show ?case
  proof (cases "2 * d \<ge> notificationBackoffMax")
    case True
    have "d * 2 \<le> d * 2 ^ Suc n" using Suc.prems(1) by (simp add: self_le_power)
    with True show ?thesis by (simp add: min_def)
  next
    case False
    with Suc.IH [of "2 * d"] Suc.prems(1) show ?thesis by (simp add: mult.assoc mult.left_commute)
  qed
qed simp

text \<open>The delay before a retry doubles with the attempts from half a minute, up to a quarter of an hour.\<close>

theorem notificationBackoff_closed:
  "notificationBackoff a = min (15 * minute) (30 * second * 2 ^ nat (max 1 a - 1))"
  by (simp add: notificationBackoff_def backoff_loop_closed notificationBackoffBase_def notificationBackoffMax_def
    minute_def second_def max_def)

end
