(* ===== verification/Notification_Views.thy ===== *)
theory Notification_Views
  imports Notifications
begin

text \<open>
  The lists of channels, targets and deliveries that \<open>application/notification.go\<close> and
  \<open>application/notificationtarget.go\<close> answer with, the plain text of a message (\<open>notify/notify.go\<close>) and the
  events the agent publishes (\<open>application/notificationhooks.go\<close>). A list ordered by the creation time
  alone keeps the order of the rows among equals.
\<close>

subsection \<open>Channels\<close>

record channel_view =
  cv_ID :: id
  cv_Name :: string
  cv_Provider :: string
  cv_Endpoint :: string
  cv_Settings :: "(string \<times> string) list"
  cv_SecretHint :: string
  cv_SecretSet :: bool
  cv_Status :: string
  cv_LastCheckAt :: "time option"
  cv_LastCheckStatus :: string
  cv_LastError :: string
  cv_TargetCount :: nat
  cv_ActiveTargetCount :: nat
  cv_Revision :: int
  cv_CreatedAt :: time
  cv_UpdatedAt :: time

definition channelView :: "notification_channel \<Rightarrow> nat \<times> nat \<Rightarrow> channel_view" where
  "channelView c counts =
    \<lparr>cv_ID = nc_ID c, cv_Name = nc_Name c, cv_Provider = nc_Provider c, cv_Endpoint = nc_Endpoint c,
     cv_Settings = nc_SettingsJSON c, cv_SecretHint = nc_SecretHint c, cv_SecretSet = (nc_SecretCiphertext c \<noteq> []),
     cv_Status = nc_Status c, cv_LastCheckAt = nc_LastCheckAt c, cv_LastCheckStatus = nc_LastCheckStatus c,
     cv_LastError = nc_LastError c, cv_TargetCount = fst counts, cv_ActiveTargetCount = snd counts,
     cv_Revision = nc_Revision c, cv_CreatedAt = nc_CreatedAt c, cv_UpdatedAt = nc_UpdatedAt c\<rparr>"

definition targetCounts :: "store \<Rightarrow> id \<Rightarrow> nat \<times> nat" where
  "targetCounts s k =
    (let rows = filter (\<lambda>t. nt_ChannelID t = k) (s_targets s)
     in (length rows, length (filter (\<lambda>t. nt_Status t = ''active'') rows)))"

definition channelViewFor :: "store \<Rightarrow> notification_channel \<Rightarrow> channel_view" where
  "channelViewFor s c = channelView c (targetCounts s (nc_ID c))"

definition ListChannels :: "store \<Rightarrow> channel_view list" where
  "ListChannels s = map (\<lambda>c. channelView c (targetCounts s (nc_ID c)))
    (sort_key (\<lambda>c. (nc_Provider c, nc_Name c)) (s_channels s))"

subsection \<open>Targets\<close>

record target_view =
  tv_ID :: id
  tv_UserID :: id
  tv_UserIdentifier :: string
  tv_UserDisplayName :: string
  tv_ChannelID :: id
  tv_ChannelName :: string
  tv_Provider :: string
  tv_Label :: string
  tv_AddressHint :: string
  tv_Status :: string
  tv_FailureCount :: int
  tv_LastError :: string
  tv_LastSentAt :: "time option"
  tv_Revision :: int
  tv_CreatedAt :: time
  tv_UpdatedAt :: time

definition targetView :: "notification_target \<Rightarrow> user option \<Rightarrow> notification_channel option \<Rightarrow> target_view" where
  "targetView t u c =
    \<lparr>tv_ID = nt_ID t, tv_UserID = nt_UserID t,
     tv_UserIdentifier = (case u of None \<Rightarrow> [] | Some x \<Rightarrow> u_Identifier x),
     tv_UserDisplayName = (case u of None \<Rightarrow> [] | Some x \<Rightarrow> u_DisplayName x), tv_ChannelID = nt_ChannelID t,
     tv_ChannelName = (case c of None \<Rightarrow> [] | Some x \<Rightarrow> nc_Name x),
     tv_Provider = (case c of None \<Rightarrow> [] | Some x \<Rightarrow> nc_Provider x), tv_Label = nt_Label t,
     tv_AddressHint = nt_AddressHint t, tv_Status = nt_Status t, tv_FailureCount = nt_FailureCount t,
     tv_LastError = nt_LastError t, tv_LastSentAt = nt_LastSentAt t, tv_Revision = nt_Revision t,
     tv_CreatedAt = nt_CreatedAt t, tv_UpdatedAt = nt_UpdatedAt t\<rparr>"

record target_filter =
  tf_UserID :: id
  tf_ChannelID :: id
  tf_Status :: string
  tf_Limit :: int

definition matches_filter :: "string \<Rightarrow> string \<Rightarrow> bool" where
  "matches_filter wanted actual \<longleftrightarrow> wanted = [] \<or> actual = wanted"

definition page_limit :: "int \<Rightarrow> int \<Rightarrow> int \<Rightarrow> nat" where
  "page_limit limit most otherwise = nat (if limit < 1 \<or> limit > most then otherwise else limit)"

definition user_row :: "store \<Rightarrow> id \<Rightarrow> user option" where
  "user_row s k = find (\<lambda>u. u_ID u = k) (s_users s)"

definition ListTargets :: "target_filter \<Rightarrow> store \<Rightarrow> target_view list" where
  "ListTargets f s =
    map (\<lambda>t. targetView t (user_row s (nt_UserID t)) (find (\<lambda>c. nc_ID c = nt_ChannelID t) (s_channels s)))
      (take (page_limit (tf_Limit f) 500 200) (sort_key (\<lambda>t. - nt_CreatedAt t)
        (filter (\<lambda>t. matches_filter (tf_UserID f) (nt_UserID t) \<and> matches_filter (tf_ChannelID f) (nt_ChannelID t) \<and>
           matches_filter (tf_Status f) (nt_Status t)) (s_targets s))))"

subsection \<open>Deliveries\<close>

record message_filter =
  mf_UserID :: id
  mf_ChannelID :: id
  mf_TargetID :: id
  mf_Status :: string
  mf_Topic :: string
  mf_Limit :: int

text \<open>The view of a delivery is its row with the names a list shows.\<close>

record message_view =
  mv_Row :: notification_message
  mv_UserIdentifier :: string
  mv_UserDisplayName :: string
  mv_ChannelName :: string
  mv_Provider :: string
  mv_TargetHint :: string

definition message_view_of :: "store \<Rightarrow> notification_message \<Rightarrow> message_view" where
  "message_view_of s m =
    (let u = user_row s (nm_UserID m); c = find (\<lambda>c. nc_ID c = nm_ChannelID m) (s_channels s);
         t = find (\<lambda>t. nt_ID t = nm_TargetID m) (s_targets s)
     in \<lparr>mv_Row = m, mv_UserIdentifier = (case u of None \<Rightarrow> [] | Some x \<Rightarrow> u_Identifier x),
         mv_UserDisplayName = (case u of None \<Rightarrow> [] | Some x \<Rightarrow> u_DisplayName x),
         mv_ChannelName = (case c of None \<Rightarrow> [] | Some x \<Rightarrow> nc_Name x),
         mv_Provider = (case c of None \<Rightarrow> [] | Some x \<Rightarrow> nc_Provider x),
         mv_TargetHint = (case t of None \<Rightarrow> [] | Some x \<Rightarrow> nt_AddressHint x)\<rparr>)"

definition ListMessages :: "message_filter \<Rightarrow> store \<Rightarrow> message_view list" where
  "ListMessages f s =
    map (message_view_of s)
      (take (page_limit (mf_Limit f) 200 50) (sort_key (\<lambda>m. - nm_CreatedAt m)
        (filter (\<lambda>m. matches_filter (mf_UserID f) (nm_UserID m) \<and> matches_filter (mf_ChannelID f) (nm_ChannelID m) \<and>
           matches_filter (mf_TargetID f) (nm_TargetID m) \<and> matches_filter (mf_Status f) (nm_Status m) \<and>
           matches_filter (mf_Topic f) (nm_Topic m)) (s_notices s))))"

subsection \<open>The text of a message\<close>

fun join_lines :: "string list \<Rightarrow> string" where
  "join_lines [] = []"
| "join_lines [p] = p"
| "join_lines (p # q # ps) = p @ CHR 0x0A # join_lines (q # ps)"

definition message_text :: "notify_message \<Rightarrow> string" where
  "message_text m = join_lines (filter (\<lambda>p. p \<noteq> []) (map trim_space [msg_Title m, msg_Body m, msg_URL m]))"

definition Kinds :: "string list" where
  "Kinds = sort [''telegram'', ''bark'', ''fcm'', ''apns'']"

definition maskAddress :: "string \<Rightarrow> string" where
  "maskAddress address = (if length address \<le> 8 then ''the address'' else take 4 address @ ''...'' @ last_bytes 4 address)"

subsection \<open>What the agent announces\<close>

text \<open>The Chinese texts of the banners are arguments: what a banner says is not what the code decides.\<close>

record hook_texts =
  ht_pending_title :: string
  ht_pending_body :: string
  ht_failed_title :: string
  ht_failed_code :: string
  ht_failed_retry :: string
  ht_failed_colon :: string

record proposal_ref =
  ref_ProposalID :: id
  ref_GoalID :: id
  ref_Summary :: string

text \<open>What a hook reads of a run: its identifier, its thread and its user.\<close>

record run_ref =
  rr_ID :: id
  rr_ThreadID :: id
  rr_UserID :: id

text \<open>A hook drops the error of its publication, and with it everything the publication did.\<close>

definition fire_and_forget :: "'a tx \<Rightarrow> store \<Rightarrow> store" where
  "fire_and_forget action s = (case action s of Inl _ \<Rightarrow> s | Inr (_, s') \<Rightarrow> s')"

definition notifyProposalPending ::
    "hook_texts \<Rightarrow> notify_library \<Rightarrow> notification_settings \<Rightarrow> env \<Rightarrow> run_ref \<Rightarrow> proposal_ref \<Rightarrow> store \<Rightarrow> store" where
  "notifyProposalPending tx lib st en run p =
    fire_and_forget (Publish lib st en (rr_UserID run)
      \<lparr>ev_Topic = ''proposal.pending'', ev_Title = ht_pending_title tx,
       ev_Body = (if ref_Summary p = [] then ht_pending_body tx else ref_Summary p), ev_URL = [],
       ev_Data = [(''proposal_id'', ref_ProposalID p), (''goal_id'', ref_GoalID p), (''run_id'', rr_ID run),
         (''thread_id'', rr_ThreadID run)],
       ev_CollapseID = ''proposal-'' @ ref_ProposalID p, ev_ChannelID = []\<rparr>)"

definition runFailureText :: "hook_texts \<Rightarrow> string \<Rightarrow> string \<Rightarrow> string" where
  "runFailureText tx code detail =
    (if detail = [] then ht_failed_code tx @ code @ ht_failed_retry tx
     else ht_failed_code tx @ code @ ht_failed_colon tx @ detail)"

definition notifyRunFailed ::
    "hook_texts \<Rightarrow> notify_library \<Rightarrow> notification_settings \<Rightarrow> env \<Rightarrow> run_ref \<Rightarrow> string \<Rightarrow> string \<Rightarrow> store \<Rightarrow> store" where
  "notifyRunFailed tx lib st en run code detail =
    fire_and_forget (Publish lib st en (rr_UserID run)
      \<lparr>ev_Topic = ''agent.run_failed'', ev_Title = ht_failed_title tx, ev_Body = runFailureText tx code detail, ev_URL = [],
       ev_Data = [(''run_id'', rr_ID run), (''thread_id'', rr_ThreadID run), (''code'', code)],
       ev_CollapseID = ''run-'' @ rr_ID run, ev_ChannelID = []\<rparr>)"

end
