(* ===== verification/Agent_Store.thy ===== *)
theory Agent_Store
  imports Store Transport
begin

text \<open>
  The queries of the agent runtime: \<open>persistence/agent.go\<close>, \<open>persistence/threads.go\<close>,
  \<open>persistence/harness.go\<close>, \<open>persistence/harnessexecution.go\<close> and \<open>persistence/attachments.go\<close>. Each is one transaction or a part of
  one. An \<open>Updates\<close> with a map of fields is the function that sets them, and it stamps
  \<open>updated_at\<close> where the row has one; \<open>First\<close> orders by the given
  key and then by the primary key. The unique indexes are checked on insertion, the foreign keys are
  not: no call violates one. Failures of the protocol in the log of a run are \<open>ErrOther\<close>.
\<close>

subsection \<open>Tables\<close>

definition put_threads :: "agent_thread list \<Rightarrow> store \<Rightarrow> store" where
  "put_threads rows s = s\<lparr>s_threads := rows\<rparr>"

definition put_runs :: "agent_run list \<Rightarrow> store \<Rightarrow> store" where
  "put_runs rows s = s\<lparr>s_runs := rows\<rparr>"

definition put_tokens :: "harness_token list \<Rightarrow> store \<Rightarrow> store" where
  "put_tokens rows s = s\<lparr>s_tokens := rows\<rparr>"

definition put_messages :: "agent_message list \<Rightarrow> store \<Rightarrow> store" where
  "put_messages rows s = s\<lparr>s_thread_messages := rows\<rparr>"

definition put_parts :: "message_part list \<Rightarrow> store \<Rightarrow> store" where
  "put_parts rows s = s\<lparr>s_parts := rows\<rparr>"

definition put_chunks :: "run_chunk list \<Rightarrow> store \<Rightarrow> store" where
  "put_chunks rows s = s\<lparr>s_chunks := rows\<rparr>"

lemmas put_defs = put_threads_def put_runs_def put_tokens_def put_messages_def put_parts_def put_chunks_def

text \<open>The rows a call may not name because they are another user's read as missing.\<close>

definition owned_run :: "id \<Rightarrow> id \<Rightarrow> agent_run \<Rightarrow> bool" where
  "owned_run userID runID r \<longleftrightarrow> ar_ID r = runID \<and> ar_UserID r = userID"

definition owned_thread :: "id \<Rightarrow> id \<Rightarrow> agent_thread \<Rightarrow> bool" where
  "owned_thread userID threadID t \<longleftrightarrow> th_ID t = threadID \<and> th_UserID t = userID"

definition owned_part :: "id \<Rightarrow> id \<Rightarrow> message_part \<Rightarrow> bool" where
  "owned_part userID partID p \<longleftrightarrow> mp_ID p = partID \<and> mp_UserID p = userID"

subsection \<open>Statuses\<close>

definition activeRunStatuses :: "string list" where
  "activeRunStatuses = [''queued'', ''running'', ''awaiting_approval'', ''cancelling'']"

definition containsActiveStatus :: "string \<Rightarrow> bool" where
  "containsActiveStatus status \<longleftrightarrow> status \<in> set activeRunStatuses"

definition active_run :: "agent_run \<Rightarrow> bool" where
  "active_run r \<longleftrightarrow> containsActiveStatus (ar_Status r)"

text \<open>A browser turn its owner ended explicitly while settling an approval.\<close>

definition host_detached :: "agent_run \<Rightarrow> bool" where
  "host_detached r \<longleftrightarrow> ar_Status r = ''interrupted'' \<and> ar_ErrorCode r = ''HOST_DETACHED''"

subsection \<open>Threads\<close>

definition CreateThread :: "env \<Rightarrow> id \<Rightarrow> id option \<Rightarrow> string \<Rightarrow> agent_thread tx" where
  "CreateThread en userID goalID title =
    tx_bind (NewID en ''thr'') (\<lambda>k.
    let t = \<lparr>th_ID = k, th_UserID = userID, th_GoalID = goalID, th_Title = trim_space title, th_Status = ''regular'',
          th_Custom = [], th_Checkpoint = [], th_LibfxVersion = [], th_LastMessageAt = None,
          th_CreatedAt = env_now en, th_UpdatedAt = env_now en\<rparr>
    in tx_bind (tx_create s_threads put_threads th_ID t) (\<lambda>_. tx_return t))"

definition GetThread :: "id \<Rightarrow> id \<Rightarrow> store \<Rightarrow> agent_thread result" where
  "GetThread userID threadID s = first_row (filter (owned_thread userID threadID) (s_threads s))"

definition TouchThread :: "env \<Rightarrow> id \<Rightarrow> id \<Rightarrow> unit tx" where
  "TouchThread en userID threadID =
    tx_bind (tx_update s_threads put_threads (owned_thread userID threadID)
      (\<lambda>t. t\<lparr>th_UpdatedAt := env_now en, th_LastMessageAt := Some (env_now en)\<rparr>)) (\<lambda>_. tx_return ())"

text \<open>Whether a run may still write the checkpoint of its thread: it is not detached and no run of the thread is newer.\<close>

definition checkpoint_owner :: "store \<Rightarrow> id \<Rightarrow> id \<Rightarrow> id \<Rightarrow> bool" where
  "checkpoint_owner s userID threadID runID \<longleftrightarrow>
    (\<exists>r \<in> set (s_runs s). ar_ID r = runID \<and> ar_UserID r = userID \<and> ar_ThreadID r = threadID \<and> \<not> host_detached r \<and>
      \<not> (\<exists>n \<in> set (s_runs s). ar_UserID n = userID \<and> ar_ThreadID n = threadID \<and> ar_CreatedAt n > ar_CreatedAt r))"

definition SaveThreadCheckpoint :: "env \<Rightarrow> id \<Rightarrow> id \<Rightarrow> string \<Rightarrow> string \<Rightarrow> id option \<Rightarrow> unit tx" where
  "SaveThreadCheckpoint en userID threadID checkpoint libfxVersion run =
    tx_bind (tx_read (\<lambda>s. case run of None \<Rightarrow> True | Some k \<Rightarrow> checkpoint_owner s userID threadID k)) (\<lambda>owner.
    must_affect (tx_update s_threads put_threads (\<lambda>t. owned_thread userID threadID t \<and> owner)
      (\<lambda>t. t\<lparr>th_Checkpoint := checkpoint, th_LibfxVersion := libfxVersion, th_UpdatedAt := env_now en\<rparr>)))"

subsection \<open>Runs\<close>

text \<open>Two unique indexes: the key, and one queued or running run in a thread.\<close>

definition CreateRun :: "env \<Rightarrow> agent_run \<Rightarrow> agent_run tx" where
  "CreateRun en run =
    tx_bind (if ar_ID run = [] then NewID en ''run'' else tx_return (ar_ID run)) (\<lambda>k.
    let r = run\<lparr>ar_ID := k, ar_Status := (if ar_Status run = [] then ''queued'' else ar_Status run),
          ar_StateJSON := (if ar_StateJSON run = None then Some (JObject []) else ar_StateJSON run),
          ar_Revision := (if ar_Revision run = 0 then 1 else ar_Revision run),
          ar_CreatedAt := env_now en, ar_UpdatedAt := env_now en\<rparr>
    in tx_bind (tx_read (\<lambda>s. (ar_Status r = ''queued'' \<or> ar_Status r = ''running'') \<and>
         (\<exists>x \<in> set (s_runs s). ar_ThreadID x = ar_ThreadID r \<and> (ar_Status x = ''queued'' \<or> ar_Status x = ''running'')))) (\<lambda>busy.
       tx_bind (tx_check (\<not> busy) ErrUnique) (\<lambda>_.
       tx_bind (tx_create s_runs put_runs ar_ID r) (\<lambda>_. tx_return r))))"

text \<open>A violation of a unique index becomes the error for a busy thread.\<close>

definition unique_as :: "app_error \<Rightarrow> 'a tx \<Rightarrow> 'a tx" where
  "unique_as e m s = (case m s of Inl f \<Rightarrow> Inl (if f = ErrUnique then e else f) | Inr r \<Rightarrow> Inr r)"

definition CreateRunExclusive :: "env \<Rightarrow> agent_run \<Rightarrow> agent_run tx" where
  "CreateRunExclusive en run =
    tx_bind (tx_read (\<lambda>s. \<exists>r \<in> set (s_runs s). ar_ThreadID r = ar_ThreadID run \<and> ar_UserID r = ar_UserID run \<and> active_run r)) (\<lambda>busy.
    tx_bind (tx_check (\<not> busy) ErrActiveRunExists) (\<lambda>_.
    unique_as ErrActiveRunExists (CreateRun en run)))"

definition GetRun :: "id \<Rightarrow> id \<Rightarrow> store \<Rightarrow> agent_run result" where
  "GetRun userID runID s = first_row (filter (owned_run userID runID) (s_runs s))"

definition GetActiveRunByThread :: "id \<Rightarrow> id \<Rightarrow> store \<Rightarrow> agent_run result" where
  "GetActiveRunByThread userID threadID s =
    first_row (sort_key (\<lambda>r. (- ar_CreatedAt r, ar_ID r))
      (filter (\<lambda>r. ar_ThreadID r = threadID \<and> ar_UserID r = userID \<and> active_run r) (s_runs s)))"

definition LatestRun :: "id \<Rightarrow> store \<Rightarrow> agent_run result" where
  "LatestRun userID s =
    first_row (sort_key (\<lambda>r. (- ar_UpdatedAt r, ar_ID r)) (filter (\<lambda>r. ar_UserID r = userID) (s_runs s)))"

definition GetActiveRunForUser :: "id \<Rightarrow> store \<Rightarrow> agent_run result" where
  "GetActiveRunForUser userID s =
    first_row (sort_key (\<lambda>r. (- ar_UpdatedAt r, ar_ID r)) (filter (\<lambda>r. ar_UserID r = userID \<and> active_run r) (s_runs s)))"

definition GetRunByJobID :: "id \<Rightarrow> id \<Rightarrow> store \<Rightarrow> agent_run result" where
  "GetRunByJobID userID jobID s = first_row (sort_key ar_ID (filter (\<lambda>r. ar_JobID r = jobID \<and> ar_UserID r = userID) (s_runs s)))"

definition updateRun :: "env \<Rightarrow> id \<Rightarrow> id \<Rightarrow> (agent_run \<Rightarrow> agent_run) \<Rightarrow> bool \<Rightarrow> unit tx" where
  "updateRun en userID runID change allowDetached =
    must_affect (tx_update s_runs put_runs (\<lambda>r. owned_run userID runID r \<and> (allowDetached \<or> \<not> host_detached r))
      (\<lambda>r. (change r)\<lparr>ar_UpdatedAt := env_now en, ar_Revision := ar_Revision r + 1\<rparr>))"

definition UpdateRun :: "env \<Rightarrow> id \<Rightarrow> id \<Rightarrow> (agent_run \<Rightarrow> agent_run) \<Rightarrow> unit tx" where
  "UpdateRun en userID runID change = updateRun en userID runID change False"

definition SetRunStatus :: "env \<Rightarrow> id \<Rightarrow> id \<Rightarrow> string \<Rightarrow> string \<Rightarrow> string \<Rightarrow> unit tx" where
  "SetRunStatus en userID runID status errorCode errorMessage =
    must_affect (tx_update s_runs put_runs
      (\<lambda>r. owned_run userID runID r \<and> active_run r \<and>
        (status = ''succeeded'' \<or> status = ''running'' \<longrightarrow> \<not> ar_CancelRequested r \<and> ar_Status r \<noteq> ''cancelling''))
      (\<lambda>r. r\<lparr>ar_Status := status, ar_ErrorCode := errorCode, ar_ErrorMessage := errorMessage, ar_UpdatedAt := env_now en,
         ar_Revision := ar_Revision r + 1,
         ar_FinishedAt := (if containsActiveStatus status then ar_FinishedAt r else Some (env_now en))\<rparr>))"

subsection \<open>Messages and parts\<close>

definition max_of :: "int list \<Rightarrow> int option" where
  "max_of xs = (case xs of [] \<Rightarrow> None | y # ys \<Rightarrow> Some (fold max ys y))"

definition nextMessageSeq :: "id \<Rightarrow> id \<Rightarrow> store \<Rightarrow> int" where
  "nextMessageSeq userID threadID s =
    (case max_of (map am_Seq (filter (\<lambda>m. am_ThreadID m = threadID \<and> am_UserID m = userID) (s_thread_messages s))) of
       None \<Rightarrow> 1 | Some n \<Rightarrow> n + 1)"

definition CreateMessage :: "env \<Rightarrow> agent_message \<Rightarrow> agent_message tx" where
  "CreateMessage en msg =
    tx_bind (if am_ID msg = [] then NewID en ''amsg'' else tx_return (am_ID msg)) (\<lambda>k.
    tx_bind (if am_Seq msg = 0 then tx_read (nextMessageSeq (am_UserID msg) (am_ThreadID msg)) else tx_return (am_Seq msg)) (\<lambda>n.
    let m = msg\<lparr>am_ID := k, am_Seq := n, am_CreatedAt := env_now en\<rparr>
    in tx_bind (tx_create s_thread_messages put_messages am_ID m) (\<lambda>_. tx_return m)))"

definition GetMessage :: "id \<Rightarrow> id \<Rightarrow> store \<Rightarrow> agent_message result" where
  "GetMessage userID messageID s = first_row (filter (\<lambda>m. am_ID m = messageID \<and> am_UserID m = userID) (s_thread_messages s))"

definition ListThreadMessages :: "id \<Rightarrow> id \<Rightarrow> store \<Rightarrow> agent_message list" where
  "ListThreadMessages userID threadID s =
    sort_key am_Seq (filter (\<lambda>m. am_ThreadID m = threadID \<and> am_UserID m = userID) (s_thread_messages s))"

definition ListRunMessages :: "id \<Rightarrow> id \<Rightarrow> store \<Rightarrow> agent_message list" where
  "ListRunMessages userID runID s =
    sort_key am_Seq (filter (\<lambda>m. am_RunID m = runID \<and> am_UserID m = userID) (s_thread_messages s))"

text \<open>A part: its key, and the unique index on the identifier of a tool call where there is one.\<close>

definition CreatePart :: "env \<Rightarrow> message_part \<Rightarrow> message_part tx" where
  "CreatePart en part =
    tx_bind (if mp_ID part = [] then NewID en ''apart'' else tx_return (mp_ID part)) (\<lambda>k.
    let p = part\<lparr>mp_ID := k, mp_ArgsJSON := (if mp_ArgsJSON part = [] then ''{}'' else mp_ArgsJSON part),
          mp_CreatedAt := env_now en, mp_UpdatedAt := env_now en\<rparr>
    in tx_bind (tx_read (\<lambda>s. mp_ToolCallID p \<noteq> None \<and> (\<exists>x \<in> set (s_parts s). mp_ToolCallID x = mp_ToolCallID p))) (\<lambda>taken.
       tx_bind (tx_check (\<not> taken) ErrUnique) (\<lambda>_.
       tx_bind (tx_create s_parts put_parts mp_ID p) (\<lambda>_. tx_return p))))"

definition ListMessageParts :: "id \<Rightarrow> id \<Rightarrow> store \<Rightarrow> message_part list" where
  "ListMessageParts userID messageID s =
    sort_key mp_Idx (filter (\<lambda>p. mp_MessageID p = messageID \<and> mp_UserID p = userID) (s_parts s))"

definition GetPartByToolCallID :: "id \<Rightarrow> string \<Rightarrow> store \<Rightarrow> message_part result" where
  "GetPartByToolCallID userID toolCallID s =
    first_row (sort_key mp_ID (filter (\<lambda>p. mp_ToolCallID p = Some toolCallID \<and> mp_UserID p = userID) (s_parts s)))"

definition GetPart :: "id \<Rightarrow> id \<Rightarrow> store \<Rightarrow> message_part result" where
  "GetPart userID partID s = first_row (filter (owned_part userID partID) (s_parts s))"

definition GetPartByProposalID :: "id \<Rightarrow> id \<Rightarrow> store \<Rightarrow> message_part result" where
  "GetPartByProposalID userID proposalID s =
    first_row (sort_key mp_ID (filter (\<lambda>p. mp_ProposalID p = Some proposalID \<and> mp_UserID p = userID) (s_parts s)))"

definition update_part :: "env \<Rightarrow> (message_part \<Rightarrow> bool) \<Rightarrow> (message_part \<Rightarrow> message_part) \<Rightarrow> unit tx" where
  "update_part en P f = must_affect (tx_update s_parts put_parts P (\<lambda>p. (f p)\<lparr>mp_UpdatedAt := env_now en\<rparr>))"

definition UpdatePartResult :: "env \<Rightarrow> id \<Rightarrow> id \<Rightarrow> string \<Rightarrow> bool \<Rightarrow> unit tx" where
  "UpdatePartResult en userID partID resultJSON isError =
    update_part en (owned_part userID partID) (\<lambda>p. p\<lparr>mp_ResultJSON := resultJSON, mp_IsError := isError\<rparr>)"

definition NextPartIdx :: "id \<Rightarrow> id \<Rightarrow> store \<Rightarrow> int" where
  "NextPartIdx userID messageID s =
    (case max_of (map mp_Idx (filter (\<lambda>p. mp_MessageID p = messageID \<and> mp_UserID p = userID) (s_parts s))) of
       None \<Rightarrow> 0 | Some n \<Rightarrow> n + 1)"

definition CreatePartAtIdx :: "env \<Rightarrow> message_part \<Rightarrow> message_part tx" where
  "CreatePartAtIdx en part = CreatePart en part"

definition UpdatePartText :: "env \<Rightarrow> id \<Rightarrow> id \<Rightarrow> string \<Rightarrow> unit tx" where
  "UpdatePartText en userID partID content = update_part en (owned_part userID partID) (\<lambda>p. p\<lparr>mp_Text := content\<rparr>)"

definition UpdatePartArgs :: "env \<Rightarrow> id \<Rightarrow> id \<Rightarrow> string \<Rightarrow> unit tx" where
  "UpdatePartArgs en userID partID argsJSON =
    update_part en (\<lambda>p. owned_part userID partID p \<and> mp_Type p = ''tool-call'' \<and> \<not> mp_ToolArgsReady p \<and> \<not> mp_ToolExecutionClaimed p)
      (\<lambda>p. p\<lparr>mp_ArgsJSON := argsJSON\<rparr>)"

definition UpdatePartApproval :: "env \<Rightarrow> id \<Rightarrow> id \<Rightarrow> string \<Rightarrow> id option \<Rightarrow> unit tx" where
  "UpdatePartApproval en userID partID status proposalID =
    update_part en (owned_part userID partID)
      (\<lambda>p. p\<lparr>mp_ApprovalStatus := status, mp_ProposalID := (if proposalID = None then mp_ProposalID p else proposalID)\<rparr>)"

subsection \<open>The log of chunks\<close>

definition run_chunks :: "id \<Rightarrow> id \<Rightarrow> store \<Rightarrow> run_chunk list" where
  "run_chunks userID runID s = filter (\<lambda>c. rc_RunID c = runID \<and> rc_UserID c = userID) (s_chunks s)"

definition NextChunkSeq :: "id \<Rightarrow> id \<Rightarrow> store \<Rightarrow> int" where
  "NextChunkSeq userID runID s = (case max_of (map rc_Seq (run_chunks userID runID s)) of None \<Rightarrow> 0 | Some n \<Rightarrow> n + 1)"

definition CountChunks :: "id \<Rightarrow> id \<Rightarrow> store \<Rightarrow> int" where
  "CountChunks userID runID s = int (length (run_chunks userID runID s))"

definition ListChunksFrom :: "id \<Rightarrow> id \<Rightarrow> int \<Rightarrow> store \<Rightarrow> run_chunk list" where
  "ListChunksFrom userID runID afterSeq s = sort_key rc_Seq (filter (\<lambda>c. afterSeq \<le> rc_Seq c) (run_chunks userID runID s))"

definition AppendChunk :: "env \<Rightarrow> id \<Rightarrow> id \<Rightarrow> json \<Rightarrow> int tx" where
  "AppendChunk en userID runID chunk =
    tx_bind (tx_try (GetRun userID runID)) (\<lambda>run.
    tx_bind (tx_read (NextChunkSeq userID runID)) (\<lambda>n.
    tx_bind (tx_try (\<lambda>_. case ApplyStateJSON (ar_StateJSON run) chunk of Inl _ \<Rightarrow> Inl ErrOther | Inr v \<Rightarrow> Inr v)) (\<lambda>state.
    tx_bind (tx_create s_chunks put_chunks (\<lambda>c. (rc_RunID c, rc_Seq c))
      \<lparr>rc_RunID = runID, rc_Seq = n, rc_UserID = userID, rc_ChunkJSON = chunk, rc_CreatedAt = env_now en\<rparr>) (\<lambda>_.
    tx_bind (tx_update s_runs put_runs (owned_run userID runID)
      (\<lambda>r. r\<lparr>ar_StateJSON := Some state, ar_CheckpointSeq := n + 1, ar_UpdatedAt := env_now en\<rparr>)) (\<lambda>_.
    tx_return n)))))"

text \<open>A snapshot is only stored while the log is empty: afterwards every chunk folds itself into it.\<close>

definition SaveRunState :: "env \<Rightarrow> id \<Rightarrow> id \<Rightarrow> json \<Rightarrow> int \<Rightarrow> bool \<Rightarrow> unit tx" where
  "SaveRunState en userID runID state checkpointSeq allowDetached =
    tx_bind (tx_read (CountChunks userID runID)) (\<lambda>count.
    if count > 0 then tx_return ()
    else updateRun en userID runID (\<lambda>r. r\<lparr>ar_StateJSON := Some state, ar_CheckpointSeq := checkpointSeq\<rparr>) allowDetached)"

definition interrupted_run :: "env \<Rightarrow> string \<Rightarrow> string \<Rightarrow> agent_run \<Rightarrow> agent_run" where
  "interrupted_run en code message r = r\<lparr>ar_Status := ''interrupted'', ar_ErrorCode := code, ar_ErrorMessage := message,
     ar_FinishedAt := Some (env_now en), ar_UpdatedAt := env_now en, ar_Revision := ar_Revision r + 1\<rparr>"

definition MarkInterruptedRuns :: "env \<Rightarrow> string \<Rightarrow> nat tx" where
  "MarkInterruptedRuns en code =
    tx_update s_runs put_runs (\<lambda>r. ar_Status r = ''queued'' \<or> ar_Status r = ''running'')
      (interrupted_run en code ''run interrupted by process restart'')"

subsection \<open>The catalogue of threads\<close>

definition thread_activity :: "agent_thread \<Rightarrow> time" where
  "thread_activity t = (case th_LastMessageAt t of None \<Rightarrow> th_CreatedAt t | Some x \<Rightarrow> x)"

text \<open>The rows after a cursor, which is the activity and the identifier of a thread.\<close>

definition after_cursor :: "(time \<times> id) option \<Rightarrow> agent_thread \<Rightarrow> bool" where
  "after_cursor cursor t =
    (case cursor of
       None \<Rightarrow> True
     | Some (instant, k) \<Rightarrow> thread_activity t < instant \<or> thread_activity t = instant \<and> th_ID t < k)"

definition thread_order :: "agent_thread \<Rightarrow> time desc \<times> id desc" where
  "thread_order t = (Desc (thread_activity t), Desc (th_ID t))"

definition ListThreads :: "id \<Rightarrow> string \<Rightarrow> (time \<times> id) option \<Rightarrow> int \<Rightarrow> store \<Rightarrow> agent_thread list result" where
  "ListThreads userID status cursor limit s =
    (let limit = (if limit \<le> 0 then 20 else limit)
     in if status \<noteq> ''regular'' \<and> status \<noteq> ''archived'' \<and> status \<noteq> [] then Inl ErrUnknownThreadStatus
        else Inr (take (nat limit) (sort_key thread_order
          (filter (\<lambda>t. th_UserID t = userID \<and> (status = [] \<or> th_Status t = status) \<and> after_cursor cursor t) (s_threads s)))))"

definition UpdateThread :: "env \<Rightarrow> id \<Rightarrow> id \<Rightarrow> (agent_thread \<Rightarrow> agent_thread) \<Rightarrow> unit tx" where
  "UpdateThread en userID threadID change =
    must_affect (tx_update s_threads put_threads (owned_thread userID threadID) (\<lambda>t. (change t)\<lparr>th_UpdatedAt := env_now en\<rparr>))"

text \<open>The first text of the user in a thread that is not blank.\<close>

definition user_texts :: "store \<Rightarrow> id \<Rightarrow> id \<Rightarrow> string list" where
  "user_texts s userID threadID =
    concat (map (\<lambda>m. map mp_Text (filter (\<lambda>p. mp_Type p = ''text'' \<and> trim_space (mp_Text p) \<noteq> []) (ListMessageParts userID (am_ID m) s)))
      (filter (\<lambda>m. am_Role m = ''user'') (ListThreadMessages userID threadID s)))"

definition FirstThreadMessageTexts :: "id \<Rightarrow> id list \<Rightarrow> store \<Rightarrow> (id \<times> string) list" where
  "FirstThreadMessageTexts userID threadIDs s =
    map (\<lambda>t. (th_ID t, case user_texts s userID (th_ID t) of [] \<Rightarrow> [] | x # _ \<Rightarrow> x))
      (filter (\<lambda>t. th_UserID t = userID \<and> th_ID t \<in> set threadIDs) (s_threads s))"

definition FirstThreadMessageText :: "id \<Rightarrow> id \<Rightarrow> store \<Rightarrow> string" where
  "FirstThreadMessageText userID threadID s =
    (case map_of (FirstThreadMessageTexts userID [threadID] s) threadID of None \<Rightarrow> [] | Some x \<Rightarrow> x)"

definition DeleteThread :: "id \<Rightarrow> id \<Rightarrow> unit tx" where
  "DeleteThread userID threadID =
    tx_bind (tx_read (\<lambda>s. (map ar_ID (filter (\<lambda>r. ar_ThreadID r = threadID \<and> ar_UserID r = userID) (s_runs s)),
      map am_ID (filter (\<lambda>m. am_ThreadID m = threadID \<and> am_UserID m = userID) (s_thread_messages s))))) (\<lambda>(runIDs, messageIDs).
    tx_bind (tx_write (\<lambda>s. s\<lparr>
      s_attachments := filter (\<lambda>a. \<not> (at_ThreadID a = Some threadID \<and> at_UserID a = userID)) (s_attachments s),
      s_chunks := filter (\<lambda>c. rc_RunID c \<notin> set runIDs) (s_chunks s),
      s_tokens := filter (\<lambda>t. ht_RunID t \<notin> set runIDs) (s_tokens s),
      s_parts := filter (\<lambda>p. mp_MessageID p \<notin> set messageIDs) (s_parts s),
      s_thread_messages := filter (\<lambda>m. am_ID m \<notin> set messageIDs) (s_thread_messages s),
      s_runs := filter (\<lambda>r. ar_ID r \<notin> set runIDs) (s_runs s)\<rparr>)) (\<lambda>_.
    tx_bind (tx_read (\<lambda>s. rows_affected (owned_thread userID threadID) (s_threads s))) (\<lambda>n.
    tx_bind (tx_write (\<lambda>s. s\<lparr>s_threads := filter (\<lambda>t. \<not> owned_thread userID threadID t) (s_threads s)\<rparr>)) (\<lambda>_.
    tx_check (n \<noteq> 0) ErrRecordNotFound))))"

subsection \<open>Harness tokens\<close>

definition CreateHarnessToken :: "env \<Rightarrow> harness_token \<Rightarrow> harness_token tx" where
  "CreateHarnessToken en token =
    tx_bind (if ht_ID token = [] then NewID en ''htok'' else tx_return (ht_ID token)) (\<lambda>k.
    let t = token\<lparr>ht_ID := k, ht_Generation := (if ht_Generation token = [] then k else ht_Generation token)\<rparr>
    in tx_bind (tx_read (\<lambda>s. \<exists>x \<in> set (s_tokens s). ht_TokenHash x = ht_TokenHash t)) (\<lambda>taken.
       tx_bind (tx_check (\<not> taken) ErrUnique) (\<lambda>_.
       tx_bind (tx_create s_tokens put_tokens ht_ID t) (\<lambda>_. tx_return t))))"

definition GetHarnessTokenByHash :: "string \<Rightarrow> store \<Rightarrow> harness_token result" where
  "GetHarnessTokenByHash hash s = first_row (sort_key ht_ID (filter (\<lambda>t. ht_TokenHash t = hash) (s_tokens s)))"

definition live_token :: "time \<Rightarrow> harness_token \<Rightarrow> bool" where
  "live_token now t \<longleftrightarrow> ht_RevokedAt t = None \<and> ht_ExpiresAt t > now"

definition ActiveHarnessTokenForRun :: "env \<Rightarrow> id \<Rightarrow> store \<Rightarrow> harness_token result" where
  "ActiveHarnessTokenForRun en runID s =
    first_row (sort_key (\<lambda>t. (- ht_CreatedAt t, ht_ID t)) (filter (\<lambda>t. ht_RunID t = runID \<and> live_token (env_now en) t) (s_tokens s)))"

definition GetHarnessToken :: "id \<Rightarrow> store \<Rightarrow> harness_token result" where
  "GetHarnessToken tokenID s = first_row (filter (\<lambda>t. ht_ID t = tokenID) (s_tokens s))"

definition BeatHarnessToken :: "id \<Rightarrow> time \<Rightarrow> bool tx" where
  "BeatHarnessToken tokenID now =
    tx_bind (tx_update s_tokens put_tokens (\<lambda>t. ht_ID t = tokenID \<and> live_token now t) (\<lambda>t. t\<lparr>ht_LastHeartbeatAt := Some now\<rparr>))
      (\<lambda>n. tx_return (n > 0))"

definition RevokeHarnessToken :: "id \<Rightarrow> time \<Rightarrow> unit tx" where
  "RevokeHarnessToken tokenID now =
    tx_bind (tx_update s_tokens put_tokens (\<lambda>t. ht_ID t = tokenID \<and> ht_RevokedAt t = None) (\<lambda>t. t\<lparr>ht_RevokedAt := Some now\<rparr>))
      (\<lambda>_. tx_return ())"

definition revoked_token :: "time \<Rightarrow> harness_token \<Rightarrow> harness_token" where
  "revoked_token now t = t\<lparr>ht_RevokedAt := Some now, ht_RotationUntil := None, ht_NextTokenCipher := []\<rparr>"

definition RevokeHarnessTokensForRun :: "env \<Rightarrow> id \<Rightarrow> nat tx" where
  "RevokeHarnessTokensForRun en runID = tx_update s_tokens put_tokens (\<lambda>t. ht_RunID t = runID) (revoked_token (env_now en))"

definition DeleteExpiredHarnessTokens :: "time \<Rightarrow> nat tx" where
  "DeleteExpiredHarnessTokens cutoff =
    (let P = (\<lambda>t. ht_ExpiresAt t < cutoff \<or> (case ht_RevokedAt t of None \<Rightarrow> False | Some x \<Rightarrow> x < cutoff))
     in tx_bind (tx_read (\<lambda>s. rows_affected P (s_tokens s))) (\<lambda>n.
        tx_bind (tx_write (\<lambda>s. put_tokens (filter (\<lambda>t. \<not> P t) (s_tokens s)) s)) (\<lambda>_. tx_return n)))"

subsection \<open>Lost hosts\<close>

record stale_run =
  sr_RunID :: id
  sr_UserID :: id
  sr_ThreadID :: id
  sr_Status :: string
  sr_Reason :: string
  sr_LastBeat :: time

definition last_beat :: "harness_token \<Rightarrow> time" where
  "last_beat t = (case ht_LastHeartbeatAt t of None \<Rightarrow> ht_CreatedAt t | Some x \<Rightarrow> x)"

definition stale_of :: "agent_run \<Rightarrow> string \<Rightarrow> time \<Rightarrow> stale_run" where
  "stale_of r reason beat = \<lparr>sr_RunID = ar_ID r, sr_UserID = ar_UserID r, sr_ThreadID = ar_ThreadID r, sr_Status = ar_Status r,
     sr_Reason = reason, sr_LastBeat = beat\<rparr>"

definition ListStaleHarnessRuns :: "time \<Rightarrow> time \<Rightarrow> store \<Rightarrow> stale_run list" where
  "ListStaleHarnessRuns heartbeatCutoff pickupCutoff s =
    concat (map (\<lambda>r. map (\<lambda>t. stale_of r ''HEARTBEAT_LOST'' (last_beat t))
        (filter (\<lambda>t. ht_RunID t = ar_ID r \<and> ht_RevokedAt t = None \<and> last_beat t < heartbeatCutoff) (s_tokens s)))
      (filter (\<lambda>r. ar_HarnessMode r \<noteq> [] \<and> active_run r) (s_runs s))) @
    map (\<lambda>r. stale_of r ''HARNESS_NEVER_STARTED'' (ar_CreatedAt r))
      (filter (\<lambda>r. ar_HarnessMode r \<noteq> [] \<and> (ar_Status r = ''queued'' \<or> ar_Status r = ''running'') \<and> ar_CreatedAt r < pickupCutoff \<and>
         \<not> (\<exists>t \<in> set (s_tokens s). ht_RunID t = ar_ID r)) (s_runs s))"

definition InterruptRuns :: "env \<Rightarrow> id list \<Rightarrow> string \<Rightarrow> string \<Rightarrow> nat tx" where
  "InterruptRuns en runIDs code message =
    (if runIDs = [] then tx_return 0
     else tx_update s_runs put_runs (\<lambda>r. ar_ID r \<in> set runIDs \<and> active_run r) (interrupted_run en code message))"

definition ListCancellingRunsSince :: "time \<Rightarrow> store \<Rightarrow> agent_run list" where
  "ListCancellingRunsSince cutoff s = filter (\<lambda>r. ar_Status r = ''cancelling'' \<and> ar_UpdatedAt r < cutoff) (s_runs s)"

definition CountModelCall :: "env \<Rightarrow> id \<Rightarrow> id \<Rightarrow> int tx" where
  "CountModelCall en userID runID =
    tx_bind (must_affect (tx_update s_runs put_runs (owned_run userID runID)
      (\<lambda>r. r\<lparr>ar_ModelCalls := ar_ModelCalls r + 1, ar_UpdatedAt := env_now en\<rparr>))) (\<lambda>_.
    tx_bind (tx_try (GetRun userID runID)) (\<lambda>r. tx_return (ar_ModelCalls r)))"

definition RequestRunCancellation :: "env \<Rightarrow> id \<Rightarrow> id \<Rightarrow> bool tx" where
  "RequestRunCancellation en userID runID =
    tx_bind (tx_update s_runs put_runs (\<lambda>r. owned_run userID runID r \<and> ar_Status r \<in> {''queued'', ''running'', ''awaiting_approval''})
      (\<lambda>r. r\<lparr>ar_CancelRequested := True, ar_Status := ''cancelling'', ar_UpdatedAt := env_now en, ar_Revision := ar_Revision r + 1\<rparr>))
      (\<lambda>n. tx_return (n > 0))"

definition milliseconds :: "int \<Rightarrow> int" where
  "milliseconds d = (if d < 0 then - (- d div 1000000) else d div 1000000)"

definition AddApprovalWait :: "env \<Rightarrow> id \<Rightarrow> id \<Rightarrow> int \<Rightarrow> unit tx" where
  "AddApprovalWait en userID runID waited =
    must_affect (tx_update s_runs put_runs (owned_run userID runID)
      (\<lambda>r. r\<lparr>ar_ApprovalWaitMs := ar_ApprovalWaitMs r + milliseconds waited, ar_UpdatedAt := env_now en\<rparr>))"

subsection \<open>Attempts on the model and the wait for approvals\<close>

text \<open>The lease of a host token: still live, or in the grace of its rotation.\<close>

definition usable_token :: "time \<Rightarrow> harness_token \<Rightarrow> bool" where
  "usable_token now t \<longleftrightarrow> ht_ExpiresAt t > now \<and>
    (ht_RevokedAt t = None \<or> (case ht_RotationUntil t of None \<Rightarrow> False | Some x \<Rightarrow> x > now))"

definition AcquireModelAttempt :: "env \<Rightarrow> id \<Rightarrow> id \<Rightarrow> int \<Rightarrow> int \<Rightarrow> id \<Rightarrow> id tx" where
  "AcquireModelAttempt en userID runID maxAttempts maxTurns token =
    tx_bind (NewID en ''attempt'') (\<lambda>k.
    tx_bind (tx_read (\<lambda>s. token = [] \<or> (\<exists>t \<in> set (s_tokens s). ht_ID t = token \<and> ht_RunID t = runID \<and> usable_token (env_now en) t))) (\<lambda>held.
    tx_bind (tx_update s_runs put_runs (\<lambda>r. owned_run userID runID r \<and> ar_Status r = ''running'' \<and> \<not> ar_CancelRequested r \<and>
        ar_ModelInflight r = [] \<and> held \<and> (maxAttempts > 0 \<longrightarrow> ar_ModelAttempts r < maxAttempts) \<and>
        (maxTurns > 0 \<longrightarrow> ar_ModelCalls r < maxTurns))
      (\<lambda>r. r\<lparr>ar_ModelVerifiedStop := [], ar_ModelInflight := k, ar_ModelAttempts := ar_ModelAttempts r + 1,
         ar_StartedAt := (if ar_StartedAt r = None then Some (env_now en) else ar_StartedAt r), ar_UpdatedAt := env_now en\<rparr>)) (\<lambda>n.
    tx_bind (tx_check (n = 1) ErrModelBusy) (\<lambda>_. tx_return k))))"

definition ReleaseModelAttempt :: "env \<Rightarrow> id \<Rightarrow> id \<Rightarrow> id \<Rightarrow> unit tx" where
  "ReleaseModelAttempt en userID runID attempt =
    tx_bind (tx_update s_runs put_runs (\<lambda>r. owned_run userID runID r \<and> ar_ModelInflight r = attempt) (\<lambda>r. r\<lparr>ar_ModelInflight := [], ar_UpdatedAt := env_now en\<rparr>))
      (\<lambda>_. tx_return ())"

text \<open>The wait for approvals is measured from the first pending one to the moment none is pending.\<close>

definition approval_row :: "string \<Rightarrow> time \<Rightarrow> agent_run \<Rightarrow> agent_run" where
  "approval_row status now run =
    (let r = run\<lparr>ar_Status := status, ar_UpdatedAt := now, ar_Revision := ar_Revision run + 1\<rparr>
     in if status = ''awaiting_approval'' then
          (if ar_ApprovalStartedAt run = None then r\<lparr>ar_ApprovalStartedAt := Some now\<rparr> else r)
        else (case ar_ApprovalStartedAt run of
            None \<Rightarrow> r
          | Some began \<Rightarrow> r\<lparr>ar_ApprovalWaitMs := ar_ApprovalWaitMs run + max 0 (milliseconds (now - began)),
              ar_ApprovalStartedAt := None\<rparr>))"

definition SetApprovalStatus :: "id \<Rightarrow> id \<Rightarrow> string \<Rightarrow> time \<Rightarrow> unit tx" where
  "SetApprovalStatus userID runID status now =
    tx_bind (tx_try (GetRun userID runID)) (\<lambda>run.
    if ar_CancelRequested run \<or> \<not> active_run run then tx_return ()
    else tx_bind (tx_update s_runs put_runs (\<lambda>r. owned_run userID runID r \<and> ar_Revision r = ar_Revision run) (approval_row status now))
      (\<lambda>_. tx_return ()))"

subsection \<open>Attachments\<close>

definition put_attachments :: "agent_attachment list \<Rightarrow> store \<Rightarrow> store" where
  "put_attachments rows s = s\<lparr>s_attachments := rows\<rparr>"

definition owned_attachment :: "id \<Rightarrow> id \<Rightarrow> agent_attachment \<Rightarrow> bool" where
  "owned_attachment userID k a \<longleftrightarrow> at_ID a = k \<and> at_UserID a = userID"

definition CreateAttachment :: "env \<Rightarrow> agent_attachment \<Rightarrow> agent_attachment tx" where
  "CreateAttachment en a =
    tx_bind (if at_ID a = [] then NewID en ''att'' else tx_return (at_ID a)) (\<lambda>k.
    let a = a\<lparr>at_ID := k, at_CreatedAt := (if at_CreatedAt a = 0 then env_now en else at_CreatedAt a)\<rparr>
    in tx_bind (tx_create s_attachments put_attachments at_ID a) (\<lambda>_. tx_return a))"

definition GetAttachment :: "id \<Rightarrow> id \<Rightarrow> store \<Rightarrow> agent_attachment result" where
  "GetAttachment userID k s = first_row (filter (owned_attachment userID k) (s_attachments s))"

definition AttachAttachment :: "id \<Rightarrow> id \<Rightarrow> id \<Rightarrow> id \<Rightarrow> unit tx" where
  "AttachAttachment userID k threadID messageID =
    must_affect (tx_update s_attachments put_attachments (owned_attachment userID k)
      (\<lambda>a. a\<lparr>at_ThreadID := (if threadID = [] then None else Some threadID),
         at_MessageID := (if messageID = [] then None else Some messageID)\<rparr>))"

definition DeleteAttachment :: "id \<Rightarrow> id \<Rightarrow> agent_attachment op" where
  "DeleteAttachment userID k =
    op_bind (op_tx (tx_try (GetAttachment userID k))) (\<lambda>a.
    op_bind (op_tx (tx_write (\<lambda>s. put_attachments (filter (\<lambda>a. \<not> owned_attachment userID k a) (s_attachments s)) s))) (\<lambda>_.
    op_return a))"

definition ThreadAttachments :: "id \<Rightarrow> id \<Rightarrow> store \<Rightarrow> agent_attachment list" where
  "ThreadAttachments userID threadID s = filter (\<lambda>a. at_UserID a = userID \<and> at_ThreadID a = Some threadID) (s_attachments s)"

definition AttachmentTotals :: "id \<Rightarrow> id \<Rightarrow> store \<Rightarrow> nat \<times> int" where
  "AttachmentTotals userID threadID s =
    (let rows = ThreadAttachments userID threadID s in (length rows, sum_list (map at_Bytes rows)))"

definition OrphanAttachments :: "time \<Rightarrow> store \<Rightarrow> agent_attachment list" where
  "OrphanAttachments cutoff s = filter (\<lambda>a. at_ThreadID a = None \<and> at_CreatedAt a < cutoff) (s_attachments s)"

definition DeleteAttachments :: "id list \<Rightarrow> nat tx" where
  "DeleteAttachments ids =
    (if ids = [] then tx_return 0
     else tx_bind (tx_read (\<lambda>s. rows_affected (\<lambda>a. at_ID a \<in> set ids) (s_attachments s))) (\<lambda>n.
       tx_bind (tx_write (\<lambda>s. put_attachments (filter (\<lambda>a. at_ID a \<notin> set ids) (s_attachments s)) s)) (\<lambda>_. tx_return n)))"

end
