(* ===== verification/Thread_Cursor.thy ===== *)
theory Thread_Cursor
  imports Json_Values
begin

text \<open>
  The cursor of a page of threads (\<open>application/agentthreads.go\<close>): an instant and an identifier, written
  as \<open>RFC3339Nano|id\<close> in unpadded URL-safe base64. The two encodings are the standard library's, with what
  its parsers accept: a line break inside base64, an hour of one digit, a fraction of any length, an
  offset instead of \<open>Z\<close>. The round trip needs the instant to lie in the years that have four digits.
\<close>

subsection \<open>Base64\<close>

definition b64_alphabet :: string where
  "b64_alphabet = ''ABCDEFGHIJKLMNOPQRSTUVWXYZabcdefghijklmnopqrstuvwxyz0123456789-_''"

fun b64_sextets :: "nat list \<Rightarrow> nat list" where
  "b64_sextets [] = []"
| "b64_sextets [a] = [a div 4, a mod 4 * 16]"
| "b64_sextets [a, b] = [a div 4, a mod 4 * 16 + b div 16, b mod 16 * 4]"
| "b64_sextets (a # b # c # r) = a div 4 # (a mod 4 * 16 + b div 16) # (b mod 16 * 4 + c div 64) # c mod 64 # b64_sextets r"

fun b64_bytes :: "nat list \<Rightarrow> nat list option" where
  "b64_bytes [] = Some []"
| "b64_bytes [p] = None"
| "b64_bytes [p, q] = Some [p * 4 + q div 16]"
| "b64_bytes [p, q, r] = Some [p * 4 + q div 16, q mod 16 * 16 + r div 4]"
| "b64_bytes (p # q # r # t # u) =
    map_option (\<lambda>bs. (p * 4 + q div 16) # (q mod 16 * 16 + r div 4) # (r mod 4 * 64 + t) # bs) (b64_bytes u)"

definition bytes_of :: "string \<Rightarrow> nat list" where
  "bytes_of s = map of_char s"

definition string_of_bytes :: "nat list \<Rightarrow> string" where
  "string_of_bytes bs = map char_of bs"

fun index_of :: "'a \<Rightarrow> 'a list \<Rightarrow> nat option" where
  "index_of x [] = None"
| "index_of x (y # ys) = (if x = y then Some 0 else map_option Suc (index_of x ys))"

fun sequence_options :: "'a option list \<Rightarrow> 'a list option" where
  "sequence_options [] = Some []"
| "sequence_options (x # xs) = (case x of None \<Rightarrow> None | Some v \<Rightarrow> map_option (Cons v) (sequence_options xs))"

definition base64_encode :: "string \<Rightarrow> string" where
  "base64_encode s = map (\<lambda>n. b64_alphabet ! n) (b64_sextets (bytes_of s))"

definition base64_decode :: "string \<Rightarrow> string option" where
  "base64_decode s =
    (case sequence_options (map (\<lambda>c. index_of c b64_alphabet) (filter (\<lambda>c. c \<noteq> CHR 0x0A \<and> c \<noteq> CHR 0x0D) s)) of
       None \<Rightarrow> None | Some ns \<Rightarrow> map_option string_of_bytes (b64_bytes ns))"

lemma b64_sextets_range: "\<forall>a \<in> set bs. a < 256 \<Longrightarrow> \<forall>n \<in> set (b64_sextets bs). n < 64"
  by (induction bs rule: b64_sextets.induct) auto

lemma b64_bytes_sextets: "\<forall>a \<in> set bs. a < 256 \<Longrightarrow> b64_bytes (b64_sextets bs) = Some bs"
proof (induction bs rule: b64_sextets.induct)
  case (4 a b c r)
  have "(a mod 4 * 16 + b div 16) div 16 = a mod 4" "(a mod 4 * 16 + b div 16) mod 16 = b div 16"
    "(b mod 16 * 4 + c div 64) div 4 = b mod 16" "(b mod 16 * 4 + c div 64) mod 4 = c div 64"
    using 4 by auto
  moreover have "a div 4 * 4 + a mod 4 = a" "b div 16 * 16 + b mod 16 = b" "c div 64 * 64 + c mod 64 = c" by auto
  ultimately show ?case using 4 by (simp add: mult.commute)
next
  case (3 a b)
  have "(a mod 4 * 16 + b div 16) div 16 = a mod 4" "(a mod 4 * 16 + b div 16) mod 16 = b div 16" using 3 by auto
  moreover have "a div 4 * 4 + a mod 4 = a" "b div 16 * 16 + b mod 16 = b" by auto
  ultimately show ?case by simp
qed auto

lemma index_of_nth: "distinct xs \<Longrightarrow> n < length xs \<Longrightarrow> index_of (xs ! n) xs = Some n"
  by (induction xs arbitrary: n) (auto simp: nth_Cons split: nat.splits)

lemma sequence_options_Some: "sequence_options (map Some xs) = Some xs"
  by (induction xs) auto

lemma alphabet_facts:
  "length b64_alphabet = 64" "distinct b64_alphabet" "CHR 0x0A \<notin> set b64_alphabet" "CHR 0x0D \<notin> set b64_alphabet"
  by code_simp+

lemma bytes_range: "\<forall>a \<in> set (bytes_of s). a < 256"
  by (auto simp: bytes_of_def)

lemma base64_letters: "set (base64_encode s) \<subseteq> set b64_alphabet"
  using b64_sextets_range [OF bytes_range [of s]] by (auto simp: base64_encode_def alphabet_facts(1))

lemma base64_round: "base64_decode (base64_encode s) = Some s"
proof -
  let ?ns = "b64_sextets (bytes_of s)"
  note bytes = bytes_range [of s]
  then have range: "n < 64" if "n \<in> set ?ns" for n using b64_sextets_range that by blast
  have letters: "c \<in> set b64_alphabet" if "c \<in> set (base64_encode s)" for c
    using that base64_letters by blast
  then have "filter (\<lambda>c. c \<noteq> CHR 0x0A \<and> c \<noteq> CHR 0x0D) (base64_encode s) = base64_encode s"
    using alphabet_facts(3,4) by (intro filter_True) blast
  moreover have "map (\<lambda>c. index_of c b64_alphabet) (base64_encode s) = map Some ?ns"
    unfolding base64_encode_def map_map comp_def
    by (rule map_cong [OF refl]) (simp add: index_of_nth alphabet_facts range)
  ultimately show ?thesis
    using b64_bytes_sextets [OF bytes]
    by (simp add: base64_decode_def sequence_options_Some string_of_bytes_def bytes_of_def comp_def)
qed

subsection \<open>RFC 3339 with nanoseconds\<close>

fun fixed_digits :: "nat \<Rightarrow> int \<Rightarrow> string" where
  "fixed_digits 0 n = []"
| "fixed_digits (Suc k) n = fixed_digits k (n div 10) @ [digit (n mod 10)]"

definition drop_zeros :: "string \<Rightarrow> string" where
  "drop_zeros s = rev (dropWhile (\<lambda>c. c = CHR ''0'') (rev s))"

definition fraction_text :: "int \<Rightarrow> string" where
  "fraction_text ns = (if ns = 0 then [] else CHR ''.'' # drop_zeros (fixed_digits 9 ns))"

definition rfc3339 :: "time \<Rightarrow> string" where
  "rfc3339 t =
    (let secs = t div second; k = secs mod 86400
     in format_date (secs div 86400) @ CHR ''T'' # pad2 (k div 3600) @ CHR '':'' # pad2 (k div 60 mod 60) @
        CHR '':'' # pad2 (k mod 60) @ fraction_text (t mod second) @ ''Z'')"

text \<open>Two digits, or one where the layout allows it, and what follows.\<close>

definition two_number :: "string \<Rightarrow> (int \<times> string) option" where
  "two_number s = (case s of a # b # r \<Rightarrow>
     if is_digit a \<and> is_digit b then Some (digit_value a * 10 + digit_value b, r) else None | _ \<Rightarrow> None)"

definition hour_number :: "string \<Rightarrow> (int \<times> string) option" where
  "hour_number s = (case s of
     a # b # r \<Rightarrow> if is_digit a \<and> is_digit b then Some (digit_value a * 10 + digit_value b, r)
       else if is_digit a then Some (digit_value a, b # r) else None
   | [a] \<Rightarrow> if is_digit a then Some (digit_value a, []) else None
   | [] \<Rightarrow> None)"

definition expect :: "char \<Rightarrow> string \<Rightarrow> string option" where
  "expect c s = (case s of [] \<Rightarrow> None | x # r \<Rightarrow> if x = c then Some r else None)"

text \<open>A fraction is optional; of its digits the first nine count.\<close>

definition parse_fraction :: "string \<Rightarrow> int \<times> string" where
  "parse_fraction s =
    (case s of
       p # d # r \<Rightarrow>
         if (p = CHR ''.'' \<or> p = CHR '','') \<and> is_digit d then
           let ds = takeWhile is_digit (d # r); used = take 9 ds
           in (digits_value used * 10 ^ (9 - length used), dropWhile is_digit (d # r))
         else (0, s)
     | _ \<Rightarrow> (0, s))"

text \<open>The offset in seconds.\<close>

definition parse_offset :: "string \<Rightarrow> int option" where
  "parse_offset s =
    (if s = ''Z'' then Some 0
     else case s of
       [sign, a, b, colon, c, d] \<Rightarrow>
         if colon = CHR '':'' \<and> list_all is_digit [a, b, c, d] then
           let h = digit_value a * 10 + digit_value b; m = digit_value c * 10 + digit_value d
           in if h > 24 \<or> m > 60 then None
              else if sign = CHR ''+'' then Some ((h * 60 + m) * 60)
              else if sign = CHR ''-'' then Some (- ((h * 60 + m) * 60)) else None
         else None
     | _ \<Rightarrow> None)"

definition parse_rfc3339 :: "string \<Rightarrow> time option" where
  "parse_rfc3339 s =
    Option.bind (parse_date (take 10 s)) (\<lambda>day.
    Option.bind (expect CHR ''T'' (drop 10 s)) (\<lambda>s.
    Option.bind (hour_number s) (\<lambda>(h, s).
    Option.bind (expect CHR '':'' s) (\<lambda>s.
    Option.bind (two_number s) (\<lambda>(m, s).
    Option.bind (expect CHR '':'' s) (\<lambda>s.
    Option.bind (two_number s) (\<lambda>(sec, s).
    if h \<ge> 24 \<or> m \<ge> 60 \<or> sec \<ge> 60 then None
    else (case parse_fraction s of (ns, s) \<Rightarrow>
      Option.bind (parse_offset s) (\<lambda>offset.
      Some ((day * 86400 + h * 3600 + m * 60 + sec - offset) * second + ns))))))))))"

lemma length_fixed_digits [simp]: "length (fixed_digits k n) = k"
  by (induction k arbitrary: n) auto

lemma fixed_digits_digits: "0 \<le> n \<Longrightarrow> list_all is_digit (fixed_digits k n)"
proof (induction k arbitrary: n)
  case (Suc k)
  then have "list_all is_digit (fixed_digits k (n div 10))" by simp
  with Suc.prems show ?case by simp
qed simp

lemma digits_value_fixed: "0 \<le> n \<Longrightarrow> digits_value (fixed_digits k n) = n mod 10 ^ k"
proof (induction k arbitrary: n)
  case 0
  then show ?case by (simp add: digits_value_def)
next
  case (Suc k)
  have "10 * (n div 10 mod 10 ^ k) + n mod 10 = n mod (10 * 10 ^ k)" by (simp add: zmod_zmult2_eq)
  with Suc show ?case by (simp add: digits_value_snoc)
qed

lemma digits_value_zeros: "digits_value (s @ replicate k CHR ''0'') = digits_value s * 10 ^ k"
  by (induction k) (simp_all add: replicate_append_same [symmetric] digits_value_snoc digit_value_def
    append_assoc [symmetric] del: append_assoc replicate_append_same replicate.simps(2) add: replicate_Suc)


lemma drop_zeros_split: "\<exists>k. s = drop_zeros s @ replicate k CHR ''0''"
proof -
  let ?z = "takeWhile (\<lambda>c. c = CHR ''0'') (rev s)"
  have "\<forall>c \<in> set ?z. c = CHR ''0''" by (auto dest: set_takeWhileD)
  then have z: "?z = replicate (length ?z) CHR ''0''" by (metis replicate_length_same)
  have "rev s = ?z @ dropWhile (\<lambda>c. c = CHR ''0'') (rev s)" by simp
  then have "s = drop_zeros s @ rev ?z" by (metis drop_zeros_def rev_append rev_rev_ident)
  with z show ?thesis by (metis rev_replicate)
qed

lemma parse_fraction_none: "parse_fraction ''Z'' = (0, ''Z'')"
  by (simp add: parse_fraction_def)

lemma parse_fraction_text:
  assumes "0 \<le> ns" and "ns < second"
  shows "parse_fraction (fraction_text ns @ ''Z'') = (ns, ''Z'')"
proof (cases "ns = 0")
  case True
  then show ?thesis by (simp add: fraction_text_def parse_fraction_none)
next
  case False
  let ?full = "fixed_digits 9 ns" and ?ds = "drop_zeros (fixed_digits 9 ns)"
  obtain k where k: "?full = ?ds @ replicate k CHR ''0''" using drop_zeros_split by blast
  have len: "length ?ds + k = 9" using arg_cong [OF k, of length] by simp
  have "ns mod 10 ^ 9 = ns" using assms by (simp add: second_def)
  then have v: "digits_value ?full = ns" using digits_value_fixed [OF assms(1)] by metis
  then have value_ds: "digits_value ?ds * 10 ^ k = ns" using k digits_value_zeros by metis
  then have "?ds \<noteq> []" using False by (auto simp: digits_value_def)
  then obtain d r where ds: "?ds = d # r" by (cases ?ds) auto
  have "list_all is_digit ?full" using assms(1) by (rule fixed_digits_digits)
  then have digits: "list_all is_digit (d # r)" using k ds by (metis list_all_append)
  have notZ: "\<not> is_digit CHR ''Z''" by code_simp
  have "takeWhile is_digit ((d # r) @ ''Z'') = d # r" "dropWhile is_digit ((d # r) @ ''Z'') = ''Z''"
    using digits notZ by (simp_all only: takeWhile_append dropWhile_append list_all_iff takeWhile_eq_all_conv dropWhile_eq_Nil_conv) auto
  moreover have "9 - length (d # r) = k" "take 9 (d # r) = d # r" using len ds by simp_all
  ultimately show ?thesis
    using False digits value_ds ds by (simp add: fraction_text_def parse_fraction_def Let_def)
qed

lemma two_number_pad2: "0 \<le> n \<Longrightarrow> n \<le> 99 \<Longrightarrow> two_number (pad2 n @ r) = Some (n, r)"
  by (simp add: two_number_def pad2_def)

lemma hour_number_pad2: "0 \<le> n \<Longrightarrow> n \<le> 99 \<Longrightarrow> hour_number (pad2 n @ r) = Some (n, r)"
  by (simp add: hour_number_def pad2_def)

lemma parse_offset_Z: "parse_offset ''Z'' = Some 0"
  by (simp add: parse_offset_def)

lemma expect_same [simp]: "expect c (c # s) = Some s"
  by (simp add: expect_def)

lemma length_format_date [simp]: "length (format_date n) = 10"
  by (simp add: format_date_def pad2_def pad4_def split: prod.splits)

lemma clock_parts:
  fixes k :: int
  shows "k div 3600 * 3600 + k div 60 mod 60 * 60 + k mod 60 = k"
proof -
  have "k div 3600 = k div 60 div 60" by (simp add: zdiv_zmult2_eq [symmetric])
  then show ?thesis by presburger
qed

lemma parse_rfc3339_round:
  assumes "date_range (t div second div 86400)"
  shows "parse_rfc3339 (rfc3339 t) = Some t"
proof -
  define k where "k = t div second mod 86400"
  have k: "0 \<le> k" "k < 86400" by (simp_all add: k_def)
  have parts: "0 \<le> k div 3600" "k div 3600 \<le> 99" "0 \<le> k div 60 mod 60" "k div 60 mod 60 \<le> 99" "0 \<le> k mod 60" "k mod 60 \<le> 99"
    "k div 3600 < 24" "k div 60 mod 60 < 60" "k mod 60 < 60" using k by auto
  have ns: "0 \<le> t mod second" "t mod second < second" by simp_all
  have written: "rfc3339 t = format_date (t div second div 86400) @ CHR ''T'' # pad2 (k div 3600) @ CHR '':'' #
      pad2 (k div 60 mod 60) @ CHR '':'' # pad2 (k mod 60) @ fraction_text (t mod second) @ ''Z''"
    by (simp add: rfc3339_def k_def Let_def)
  have total: "(t div second div 86400 * 86400 + k div 3600 * 3600 + k div 60 mod 60 * 60 + k mod 60 - 0) * second + t mod second = t"
  proof -
    have "t div second div 86400 * 86400 + k = t div second" by (simp add: k_def)
    then show ?thesis using clock_parts [of k] by (metis (no_types) add.assoc diff_zero div_mult_mod_eq)
  qed
  show ?thesis
    unfolding written parse_rfc3339_def using parts
    by (simp only: take_append drop_append length_format_date take_all drop_all le_refl diff_self_eq_0 take_0 drop_0 append_Nil append_Nil2
      parse_format_date [OF assms] expect_same append_Cons bind.bind_lunit prod.case
      two_number_pad2 hour_number_pad2 parse_fraction_text [OF ns] parse_offset_Z total not_le [symmetric] simp_thms if_False if_cancel not_less)
qed

subsection \<open>The cursor\<close>

definition encodeThreadCursor :: "time \<Rightarrow> id \<Rightarrow> string" where
  "encodeThreadCursor instant k = base64_encode (rfc3339 instant @ CHR ''|'' # k)"

text \<open>\<open>strings.Cut\<close> at the first separator.\<close>

definition cut_at :: "char \<Rightarrow> string \<Rightarrow> (string \<times> string) option" where
  "cut_at c s = (case dropWhile (\<lambda>x. x \<noteq> c) s of [] \<Rightarrow> None | _ # r \<Rightarrow> Some (takeWhile (\<lambda>x. x \<noteq> c) s, r))"

definition decodeThreadCursor :: "string \<Rightarrow> (time \<times> id) result" where
  "decodeThreadCursor cursor =
    (case Option.bind (base64_decode cursor) (cut_at CHR ''|'') of
       None \<Rightarrow> Inl ErrValidation
     | Some (instant, k) \<Rightarrow> (case parse_rfc3339 instant of None \<Rightarrow> Inl ErrValidation | Some t \<Rightarrow> Inr (t, k)))"


lemma digit_not_bar: "0 \<le> n \<Longrightarrow> n \<le> 9 \<Longrightarrow> digit n \<noteq> CHR ''|''"
proof
  assume "0 \<le> n" "n \<le> 9" "digit n = CHR ''|''"
  then have "is_digit CHR ''|''" using is_digit_digit [of n] by simp
  then show False by code_simp
qed

lemma pad2_no_bar: "0 \<le> n \<Longrightarrow> n \<le> 99 \<Longrightarrow> CHR ''|'' \<notin> set (pad2 n)"
proof -
  assume "0 \<le> n" "n \<le> 99"
  then have "digit (n div 10) \<noteq> CHR ''|''" "digit (n mod 10) \<noteq> CHR ''|''" using two_digits [of n] digit_not_bar by blast+
  then show ?thesis unfolding pad2_def by (metis empty_iff empty_set set_ConsD)
qed

lemma format_date_no_bar:
  assumes "date_range n"
  shows "CHR ''|'' \<notin> set (format_date n)"
proof -
  obtain y m d where c: "civil_of_day n = (y, m, d)" by (cases "civil_of_day n") auto
  from civil_of_day_range [OF assms c] have "0 \<le> y" "y < 10000" "0 \<le> m" "m \<le> 99" "0 \<le> d" "d \<le> 99" by auto
  then show ?thesis
    using c hundreds [of y] pad2_no_bar [of "y div 100"] pad2_no_bar [of "y mod 100"] pad2_no_bar [of m] pad2_no_bar [of d]
    by (auto simp: format_date_def pad4_def)
qed

lemma fraction_no_bar: "0 \<le> ns \<Longrightarrow> CHR ''|'' \<notin> set (fraction_text ns)"
proof -
  assume "0 \<le> ns"
  then have "list_all is_digit (fixed_digits 9 ns)" by (rule fixed_digits_digits)
  then have "list_all is_digit (drop_zeros (fixed_digits 9 ns))" by (metis drop_zeros_split list_all_append)
  moreover have "\<not> is_digit CHR ''|''" by code_simp
  ultimately show ?thesis by (auto simp: fraction_text_def list_all_iff)
qed

lemma rfc3339_no_bar:
  assumes "date_range (t div second div 86400)"
  shows "CHR ''|'' \<notin> set (rfc3339 t)"
proof -
  define k where "k = t div second mod 86400"
  have "0 \<le> k div 3600" "k div 3600 \<le> 99" "0 \<le> k div 60 mod 60" "k div 60 mod 60 \<le> 99" "0 \<le> k mod 60" "k mod 60 \<le> 99"
    by (auto simp: k_def)
  then have "CHR ''|'' \<notin> set (pad2 (k div 3600))" "CHR ''|'' \<notin> set (pad2 (k div 60 mod 60))" "CHR ''|'' \<notin> set (pad2 (k mod 60))"
    using pad2_no_bar by blast+
  moreover have "CHR ''|'' \<notin> set (fraction_text (t mod second))" by (rule fraction_no_bar) simp
  ultimately show ?thesis
    using format_date_no_bar [OF assms] unfolding rfc3339_def Let_def k_def by simp
qed

lemma cut_at_first: "c \<notin> set s \<Longrightarrow> cut_at c (s @ c # r) = Some (s, r)"
proof -
  assume "c \<notin> set s"
  then have "\<forall>x \<in> set s. x \<noteq> c" by blast
  then show ?thesis by (simp add: cut_at_def dropWhile_append takeWhile_append)
qed

lemma cursor_round: "date_range (t div second div 86400) \<Longrightarrow> decodeThreadCursor (encodeThreadCursor t k) = Inr (t, k)"
  by (simp add: decodeThreadCursor_def encodeThreadCursor_def base64_round cut_at_first [OF rfc3339_no_bar] parse_rfc3339_round)

text \<open>
  A cursor decodes to the instant, with its nanoseconds, and the identifier it was made of,
  whatever bytes the identifier has.
\<close>

theorem thread_cursor_round:
  assumes "date_range (t div second div 86400)"
  shows "decodeThreadCursor (encodeThreadCursor t k) = Inr (t, k)"
  using assms by (rule cursor_round)

lemma thread_cursor_round_witness:
  "decodeThreadCursor (encodeThreadCursor (739630 * 86400 * second + 34205006007008) ''thr_1|2'') =
    Inr (739630 * 86400 * second + 34205006007008, ''thr_1|2'')"
  by (rule thread_cursor_round) code_simp

end
