(* ===== verification/Agent_Sessions.thy ===== *)
theory Agent_Sessions
  imports Agent_Store Thread_Cursor Notification_Views
begin

text \<open>
  A run as it is streamed: the state rebuilt from the rows (\<open>application/agentthread.go\<close>), the session
  that writes the log of a run and its terminal transitions (\<open>application/agentloop.go\<close>,
  \<open>application/harnessrun.go\<close>), and the submission of a message and the in-process execution
  (\<open>application/agent.go\<close>). The record \<open>agent_library\<close> holds what is not ours: the text of JSON, digests,
  encryption, \<open>strings.ToLower\<close>, and the texts that are not ASCII; \<open>agent_service\<close> is the configuration.
\<close>

record agent_library =
  al_decode :: "string \<Rightarrow> json option"
  al_text :: "json \<Rightarrow> string"
  al_lower :: "string \<Rightarrow> string"
  al_hash :: "string \<Rightarrow> string"
  al_encrypt :: "string \<Rightarrow> string result"
  al_decrypt :: "string \<Rightarrow> string result"
  al_error :: "app_error \<Rightarrow> string"
  al_echo_before :: string
  al_echo_after :: string
  al_echo_empty :: string
  al_image_prompt :: string
  al_cut_marker :: string
  al_untitled :: string

record model_credentials =
  mc_BaseURL :: string
  mc_Model :: string
  mc_APIKey :: string

text \<open>The health of the sidecar is \<open>None\<close> when none is configured.\<close>

record agent_service =
  as_Credentials :: "model_credentials option result"
  as_Sidecar :: "bool option"
  as_SidecarPreferred :: bool
  as_SystemPrompt :: string
  as_Reasoning :: string
  as_ToolsETag :: string
  as_WallClock :: int
  as_ApprovalLimit :: int
  as_MaxTurns :: int
  as_MaxAttempts :: int
  as_Texts :: hook_texts
  as_Notify :: notify_library
  as_NotifySettings :: notification_settings

subsection \<open>Messages on the wire\<close>

text \<open>The stored arguments of a call: whatever is not an object reads as none.\<close>

definition decodeArgsMap :: "agent_library \<Rightarrow> string \<Rightarrow> (string \<times> json) list" where
  "decodeArgsMap lib raw =
    (if trim_space raw = [] then [] else case al_decode lib raw of Some (JObject kvs) \<Rightarrow> kvs | _ \<Rightarrow> [])"

definition approvalFromStatus :: "string \<Rightarrow> approval option" where
  "approvalFromStatus status = (if status = [] then None else Some \<lparr>ap_Status = status, ap_Options = None\<rparr>)"

definition derefString :: "string option \<Rightarrow> string" where
  "derefString p = (case p of None \<Rightarrow> [] | Some x \<Rightarrow> x)"

definition wire_part :: "agent_library \<Rightarrow> message_part \<Rightarrow> part" where
  "wire_part lib p =
    (if mp_Type p = ''reasoning'' then ReasoningPart (mp_ID p) (mp_Text p)
     else if mp_Type p = ''image'' then ImagePart (mp_Text p)
     else if mp_Type p = ''tool-call'' then
       (ToolCallPart (derefString (mp_ToolCallID p)) (mp_ToolName p) (Some (decodeArgsMap lib (mp_ArgsJSON p))))
         \<lparr>pt_Result := (if mp_ResultJSON p = [] then JNull else case al_decode lib (mp_ResultJSON p) of None \<Rightarrow> JNull | Some v \<Rightarrow> v),
          pt_IsError := mp_IsError p, pt_Approval := approvalFromStatus (mp_ApprovalStatus p)\<rparr>
     else TextPart (mp_Text p))"

definition toProtocolMessage :: "agent_library \<Rightarrow> store \<Rightarrow> id \<Rightarrow> agent_message \<Rightarrow> message_status \<Rightarrow> message" where
  "toProtocolMessage lib s userID m status =
    \<lparr>m_ID = am_ID m, m_Role = am_Role m, m_Parts = Some (map (wire_part lib) (ListMessageParts userID (am_ID m) s)),
     m_CreatedAt = rfc3339 (am_CreatedAt m), m_Status = status\<rparr>"

text \<open>The proposals of a thread that wait for a decision, the newest first, at most twenty.\<close>

definition pending_pairs :: "store \<Rightarrow> id \<Rightarrow> id \<Rightarrow> proposal list" where
  "pending_pairs s userID threadID =
    concat (map (\<lambda>q. map (\<lambda>_. q) (filter (\<lambda>p. mp_ProposalID p = Some (pr_ID q) \<and> mp_UserID p = userID \<and> mp_ApprovalStatus p = ''pending'' \<and>
        (\<exists>m \<in> set (s_thread_messages s). am_ID m = mp_MessageID p \<and> am_UserID m = userID \<and> am_ThreadID m = threadID)) (s_parts s)))
      (filter (\<lambda>q. pr_UserID q = userID \<and> pr_Status q = ''pending'') (s_proposals s)))"

definition pendingProposals :: "store \<Rightarrow> id \<Rightarrow> id \<Rightarrow> pending_proposal list" where
  "pendingProposals s userID threadID =
    map (\<lambda>q. \<lparr>pp_ID = pr_ID q, pp_GoalID = pr_GoalID q, pp_BaseRevision = pr_BaseRevision q, pp_Summary = pr_Instruction q\<rparr>)
      (take 20 (sort_key (\<lambda>q. - pr_CreatedAt q) (pending_pairs s userID threadID)))"

definition textOfParts :: "part list \<Rightarrow> string" where
  "textOfParts parts = concat (map pt_Text (filter (\<lambda>p. pt_Type p = ''text'') parts))"

text \<open>The text of the last message of the user.\<close>

definition lastUserText :: "message list \<Rightarrow> string" where
  "lastUserText messages =
    (case filter (\<lambda>m. m_Role m = ''user'') (rev messages) of
       [] \<Rightarrow> [] | m # _ \<Rightarrow> trim_space (textOfParts (slice_elems (m_Parts m))))"

subsection \<open>Sessions\<close>

record run_session =
  ss_UserID :: id
  ss_RunID :: id
  ss_ThreadID :: id
  ss_State :: thread_state
  ss_AssistantID :: id
  ss_AssistantIdx :: nat
  ss_UserText :: string
  ss_LastSeq :: int
  ss_Emitted :: int

text \<open>\<open>dbSink.Emit\<close>: the chunk is validated and appended to the log.\<close>

definition Emit :: "env \<Rightarrow> run_session \<Rightarrow> chunk \<Rightarrow> run_session tx" where
  "Emit en ss c =
    tx_bind (tx_check (Validate c = Inr ()) ErrOther) (\<lambda>_.
    tx_bind (AppendChunk en (ss_UserID ss) (ss_RunID ss) (chunk_json c)) (\<lambda>n.
    tx_return (ss\<lparr>ss_LastSeq := n, ss_Emitted := ss_Emitted ss + 1\<rparr>)))"

definition emit_op :: "env \<Rightarrow> run_session \<Rightarrow> operation wire \<Rightarrow> run_session tx" where
  "emit_op en ss made = (case made of Inl _ \<Rightarrow> tx_fail ErrOther | Inr oper \<Rightarrow> Emit en ss (UpdateState (Some [oper])))"

definition emitSet :: "env \<Rightarrow> run_session \<Rightarrow> string list \<Rightarrow> json \<Rightarrow> run_session tx" where
  "emitSet en ss path v = emit_op en ss (Set_op path v)"

definition sink_checkpoint :: "run_session \<Rightarrow> int" where
  "sink_checkpoint ss = (if ss_Emitted ss = 0 then ss_LastSeq ss else ss_LastSeq ss + 1)"

definition saveState :: "env \<Rightarrow> run_session \<Rightarrow> bool \<Rightarrow> unit tx" where
  "saveState en ss allowDetached =
    SaveRunState en (ss_UserID ss) (ss_RunID ss) (state_json (ss_State ss)) (sink_checkpoint ss) allowDetached"

definition set_message :: "nat \<Rightarrow> (message \<Rightarrow> message) \<Rightarrow> thread_state \<Rightarrow> thread_state" where
  "set_message i f st =
    (let ms = slice_elems (ts_Messages st) in st\<lparr>ts_Messages := Some (if i < length ms then ms[i := f (ms ! i)] else ms)\<rparr>)"

text \<open>
  \<open>beginRun\<close>: the preamble of a run, the history of its thread, and the empty message it streams into.
  Each step is a transaction of its own.
\<close>

definition begin_state :: "agent_run \<Rightarrow> thread_state" where
  "begin_state run = NewState\<lparr>ts_IsRunning := True,
     ts_FastTask := (ts_FastTask NewState)\<lparr>ft_ThreadID := ar_ThreadID run, ft_HarnessMode := ar_HarnessMode run\<rparr>\<rparr>"

fun emit_messages :: "env \<Rightarrow> nat \<Rightarrow> message list \<Rightarrow> run_session \<Rightarrow> run_session op" where
  "emit_messages en i [] ss = op_return ss"
| "emit_messages en i (m # ms) ss =
    op_bind (op_tx (emitSet en ss (MessagePath i) (message_json m))) (\<lambda>ss. emit_messages en (i + 1) ms ss)"

definition new_session :: "agent_run \<Rightarrow> thread_state \<Rightarrow> run_session" where
  "new_session run st = \<lparr>ss_UserID = ar_UserID run, ss_RunID = ar_ID run, ss_ThreadID = ar_ThreadID run, ss_State = st, ss_AssistantID = [], ss_AssistantIdx = 0,
     ss_UserText = [], ss_LastSeq = 0, ss_Emitted = 0\<rparr>"

definition assistant_row :: "agent_run \<Rightarrow> agent_message" where
  "assistant_row run = \<lparr>am_ID = [], am_UserID = ar_UserID run, am_ThreadID = ar_ThreadID run, am_RunID = ar_ID run, am_ParentID = None,
     am_Role = ''assistant'', am_Seq = 0, am_CreatedAt = 0\<rparr>"

definition message_shell :: "agent_message \<Rightarrow> message" where
  "message_shell m = \<lparr>m_ID = am_ID m, m_Role = ''assistant'', m_Parts = Some [], m_CreatedAt = rfc3339 (am_CreatedAt m), m_Status = RunningStatus\<rparr>"

definition beginRun :: "agent_library \<Rightarrow> env \<Rightarrow> agent_run \<Rightarrow> run_session op" where
  "beginRun lib en run =
    op_bind (op_tx (emitSet en (new_session run (begin_state run)) IsRunningPath (JBool True))) (\<lambda>ss.
    op_bind (op_tx (emitSet en ss FastTaskThreadIDPath (JString (ar_ThreadID run)))) (\<lambda>ss.
    op_bind (if ar_HarnessMode run = [] then op_return ss
             else op_tx (emitSet en ss FastTaskHarnessModePath (JString (ar_HarnessMode run)))) (\<lambda>ss.
    op_bind (op_tx (tx_read (\<lambda>s. map (\<lambda>m. toProtocolMessage lib s (ar_UserID run) m (CompleteStatus []))
      (ListThreadMessages (ar_UserID run) (ar_ThreadID run) s)))) (\<lambda>existing.
    op_bind (emit_messages en 0 existing ss) (\<lambda>ss.
    op_bind (op_tx (CreateMessage en (assistant_row run))) (\<lambda>m.
    let shell = message_shell m; idx = nat (am_Seq m - 1);
        ss = ss\<lparr>ss_UserText := lastUserText existing, ss_AssistantID := am_ID m, ss_AssistantIdx := idx,
               ss_State := (ss_State ss)\<lparr>ts_Messages := Some (existing @ [shell])\<rparr>\<rparr>
    in op_tx (emitSet en ss (MessagePath idx) (message_json shell))))))))"

text \<open>\<open>loadRunSession\<close>: the session rebuilt from the rows without emitting, if the run has its message.\<close>

definition session_messages :: "agent_library \<Rightarrow> store \<Rightarrow> agent_run \<Rightarrow> (agent_message \<times> message) list" where
  "session_messages lib s run =
    map (\<lambda>m. (m, toProtocolMessage lib s (ar_UserID run) m
        (if am_RunID m = ar_ID run \<and> am_Role m = ''assistant'' then RunningStatus else CompleteStatus [])))
      (ListThreadMessages (ar_UserID run) (ar_ThreadID run) s)"

text \<open>The position and the row of the last message that satisfies a condition.\<close>

definition last_index :: "('a \<Rightarrow> bool) \<Rightarrow> 'a list \<Rightarrow> (nat \<times> 'a) option" where
  "last_index P xs = (case filter (\<lambda>(i, x). P x) (rev (enumerate 0 xs)) of [] \<Rightarrow> None | p # _ \<Rightarrow> Some p)"

definition loadRunSession :: "agent_library \<Rightarrow> store \<Rightarrow> agent_run \<Rightarrow> run_session option" where
  "loadRunSession lib s run =
    (let rows = session_messages lib s run
     in case last_index (\<lambda>(m, _). am_RunID m = ar_ID run \<and> am_Role m = ''assistant'') rows of
          None \<Rightarrow> None
        | Some (i, (m, _)) \<Rightarrow> if am_ID m = [] then None else
            Some ((new_session run ((begin_state run)\<lparr>ts_Messages := Some (map snd rows),
                ts_FastTask := (ts_FastTask (begin_state run))\<lparr>ft_RunID := (if ar_HarnessMode run = [] then [] else ar_ID run),
                  ft_PendingProposals := Some (pendingProposals s (ar_UserID run) (ar_ThreadID run))\<rparr>\<rparr>))
              \<lparr>ss_AssistantID := am_ID m, ss_AssistantIdx := i, ss_UserText := lastUserText (map snd rows),
               ss_LastSeq := CountChunks (ar_UserID run) (ar_ID run) s\<rparr>))"

definition BeginHarnessRun :: "agent_library \<Rightarrow> env \<Rightarrow> id \<Rightarrow> id \<Rightarrow> unit op" where
  "BeginHarnessRun lib en userID runID =
    op_bind (op_tx (tx_try (GetRun userID runID))) (\<lambda>run.
    op_bind (beginRun lib en run) (\<lambda>ss.
    op_bind (if ar_HarnessMode run = [] then op_return ss
             else op_tx (emitSet en (ss\<lparr>ss_State := (ss_State ss)\<lparr>ts_FastTask := (ts_FastTask (ss_State ss))\<lparr>ft_RunID := ar_ID run\<rparr>\<rparr>\<rparr>)
               FastTaskRunIDPath (JString (ar_ID run)))) (\<lambda>ss.
    op_tx (saveState en ss False))))"

subsection \<open>The parts of a stream\<close>

definition session_parts :: "run_session \<Rightarrow> part list" where
  "session_parts ss =
    (let ms = slice_elems (ts_Messages (ss_State ss))
     in if ss_AssistantIdx ss < length ms then slice_elems (m_Parts (ms ! ss_AssistantIdx ss)) else [])"

definition put_parts_of :: "part list \<Rightarrow> run_session \<Rightarrow> run_session" where
  "put_parts_of ps ss = ss\<lparr>ss_State := set_message (ss_AssistantIdx ss) (\<lambda>m. m\<lparr>m_Parts := Some ps\<rparr>) (ss_State ss)\<rparr>"

definition addTextPart :: "env \<Rightarrow> run_session \<Rightarrow> (nat \<times> run_session) tx" where
  "addTextPart en ss =
    (let idx = length (session_parts ss)
     in tx_bind (emitSet en (put_parts_of (session_parts ss @ [TextPart []]) ss) (PartPath (ss_AssistantIdx ss) idx) (part_json (TextPart [])))
       (\<lambda>ss. tx_return (idx, ss)))"

definition appendTextToPart :: "env \<Rightarrow> nat \<Rightarrow> string \<Rightarrow> run_session \<Rightarrow> run_session tx" where
  "appendTextToPart en idx delta ss =
    (let ps = session_parts ss; p = ps ! idx
     in emit_op en (put_parts_of (ps[idx := p\<lparr>pt_Text := pt_Text p @ delta\<rparr>]) ss)
          (AppendText (PartTextPath (ss_AssistantIdx ss) idx) delta))"

definition text_row :: "id \<Rightarrow> id \<Rightarrow> int \<Rightarrow> string \<Rightarrow> string \<Rightarrow> message_part" where
  "text_row userID messageID idx ty content =
    \<lparr>mp_ID = [], mp_UserID = userID, mp_MessageID = messageID, mp_Idx = idx, mp_Type = ty, mp_Text = content, mp_ToolCallID = None,
     mp_ToolName = [], mp_ArgsJSON = ''{}'', mp_ResultJSON = [], mp_IsError = False, mp_ArtifactJSON = [], mp_ApprovalStatus = [],
     mp_ProposalID = None, mp_ToolModelTurn = 0, mp_ToolArgsReady = False, mp_ToolExecutionClaimed = False, mp_CreatedAt = 0,
     mp_UpdatedAt = 0\<rparr>"

definition persistTextPart :: "env \<Rightarrow> run_session \<Rightarrow> nat \<Rightarrow> string \<Rightarrow> unit tx" where
  "persistTextPart en ss idx content =
    tx_bind (CreatePart en (text_row (ss_UserID ss) (ss_AssistantID ss) (int idx) ''text'' content)) (\<lambda>_. tx_return ())"

subsection \<open>Terminal transitions\<close>

definition mark_message :: "message_status \<Rightarrow> run_session \<Rightarrow> run_session" where
  "mark_message st ss = ss\<lparr>ss_State := set_message (ss_AssistantIdx ss) (\<lambda>m. m\<lparr>m_Status := st\<rparr>) (ss_State ss)\<rparr>"

text \<open>An error of an emission is dropped, and with it the change of the session it would have made.\<close>

definition emit_drop :: "env \<Rightarrow> string list \<Rightarrow> json \<Rightarrow> run_session \<Rightarrow> run_session op" where
  "emit_drop en path v ss = op_catch (op_tx (emitSet en ss path v)) (\<lambda>_. op_return ss)"

definition close_stream :: "env \<Rightarrow> message_status \<Rightarrow> run_session \<Rightarrow> run_session op" where
  "close_stream en st ss =
    op_bind (emit_drop en (MessageStatusPath (ss_AssistantIdx ss)) (status_json st) (mark_message st ss)) (\<lambda>ss.
    emit_drop en IsRunningPath (JBool False) (ss\<lparr>ss_State := (ss_State ss)\<lparr>ts_IsRunning := False\<rparr>\<rparr>))"

definition end_stream :: "env \<Rightarrow> message_status \<Rightarrow> string \<Rightarrow> string \<Rightarrow> string \<Rightarrow> run_session \<Rightarrow> unit op" where
  "end_stream en st status code message ss =
    op_bind (close_stream en st ss) (\<lambda>ss.
    op_bind (op_drop (op_tx (saveState en ss False))) (\<lambda>_.
    op_drop (op_tx (SetRunStatus en (ss_UserID ss) (ss_RunID ss) status code message))))"

definition succeed :: "env \<Rightarrow> run_session \<Rightarrow> unit op" where
  "succeed en ss =
    op_bind (close_stream en (CompleteStatus ''stop'') ss) (\<lambda>ss.
    op_bind (op_tx (saveState en ss False)) (\<lambda>_.
    op_tx (SetRunStatus en (ss_UserID ss) (ss_RunID ss) ''succeeded'' [] [])))"

definition announce_failure :: "agent_service \<Rightarrow> env \<Rightarrow> run_ref \<Rightarrow> string \<Rightarrow> string \<Rightarrow> unit op" where
  "announce_failure svc en run code detail s =
    (Inr (), notifyRunFailed (as_Texts svc) (as_Notify svc) (as_NotifySettings svc) en run code detail s)"

definition failRun :: "agent_service \<Rightarrow> env \<Rightarrow> string \<Rightarrow> string \<Rightarrow> run_session \<Rightarrow> unit op" where
  "failRun svc en code message ss =
    op_bind (end_stream en (IncompleteStatus ''error'') ''failed'' code message ss) (\<lambda>_.
    op_bind (announce_failure svc en \<lparr>rr_ID = ss_RunID ss, rr_ThreadID = ss_ThreadID ss, rr_UserID = ss_UserID ss\<rparr> code message) (\<lambda>_.
    op_fail ErrOther))"

definition cancelRun :: "env \<Rightarrow> run_session \<Rightarrow> unit op" where
  "cancelRun en ss = end_stream en (IncompleteStatus ''cancelled'') ''cancelled'' ''CANCELLED'' ''cancelled by user'' ss"

definition interruptRun :: "env \<Rightarrow> string \<Rightarrow> string \<Rightarrow> run_session \<Rightarrow> unit op" where
  "interruptRun en code message ss = end_stream en (IncompleteStatus ''error'') ''interrupted'' code message ss"

subsection \<open>The reply without a model\<close>

definition echoReply :: "agent_library \<Rightarrow> string \<Rightarrow> string" where
  "echoReply lib userText = al_echo_before lib @ (if userText = [] then al_echo_empty lib else userText) @ al_echo_after lib"

function drop_runes :: "nat \<Rightarrow> string \<Rightarrow> string" where
  "drop_runes n s = (case s of [] \<Rightarrow> [] | c # cs \<Rightarrow> if n = 0 then s else drop_runes (n - 1) (drop (rune_width c cs - 1) cs))"
  by pat_completeness auto
termination
  by (relation "measure (\<lambda>(n, s). n)") auto

declare drop_runes.simps [simp del]

text \<open>The chunks of at most \<open>width\<close> runes; the fuel is the number of bytes, each chunk takes at least one.\<close>

fun split_runes :: "nat \<Rightarrow> nat \<Rightarrow> string \<Rightarrow> string list" where
  "split_runes 0 width s = []"
| "split_runes (Suc n) width s = (if s = [] then [] else take_runes width s # split_runes n width (drop_runes width s))"

definition splitDeltas :: "string \<Rightarrow> int \<Rightarrow> string list" where
  "splitDeltas content width =
    (let k = (if width \<le> 0 then 1 else nat width); ds = split_runes (length content) k content in if ds = [] then [[]] else ds)"

fun append_deltas :: "env \<Rightarrow> nat \<Rightarrow> string list \<Rightarrow> run_session \<Rightarrow> run_session op" where
  "append_deltas en idx [] ss = op_return ss"
| "append_deltas en idx (d # ds) ss = op_bind (op_tx (appendTextToPart en idx d ss)) (append_deltas en idx ds)"

text \<open>A step whose error ends the run: the session at the error is the one before the step.\<close>

definition or_fail :: "agent_service \<Rightarrow> agent_library \<Rightarrow> env \<Rightarrow> run_session \<Rightarrow> 'a op \<Rightarrow> ('a \<Rightarrow> unit op) \<Rightarrow> unit op" where
  "or_fail svc lib en ss m f s =
    (case m s of (Inl e, s') \<Rightarrow> failRun svc en ''STATE_ERROR'' (al_error lib e) ss s' | (Inr a, s') \<Rightarrow> f a s')"

definition deterministicReply :: "agent_service \<Rightarrow> agent_library \<Rightarrow> env \<Rightarrow> run_session \<Rightarrow> unit op" where
  "deterministicReply svc lib en ss =
    or_fail svc lib en ss (op_tx (addTextPart en ss)) (\<lambda>(idx, ss).
    let reply = echoReply lib (ss_UserText ss)
    in or_fail svc lib en ss (append_deltas en idx (splitDeltas reply 12) ss) (\<lambda>ss.
       or_fail svc lib en ss (op_tx (persistTextPart en ss idx reply)) (\<lambda>_. succeed en ss)))"

subsection \<open>Submitting a message\<close>

record command_part =
  cp_Type :: string
  cp_Text :: string
  cp_Image :: string

text \<open>A command with the parts of its message, if it has one.\<close>

record agent_command =
  cmd_Type :: string
  cmd_Message :: "command_part list option"
  cmd_ToolCallID :: string
  cmd_Result :: string
  cmd_DetachHarness :: bool

definition part_text :: "command_part \<Rightarrow> string" where
  "part_text p = (if cp_Type p = ''text'' \<or> cp_Type p = [] then cp_Text p else [])"

definition part_images :: "command_part \<Rightarrow> string list" where
  "part_images p = (if cp_Type p = ''image'' \<and> trim_space (cp_Image p) \<noteq> [] then [trim_space (cp_Image p)] else [])"

definition part_counts :: "command_part \<Rightarrow> bool" where
  "part_counts p \<longleftrightarrow> cp_Type p = ''text'' \<or> cp_Type p = [] \<or> part_images p \<noteq> []"

definition extractUserMessage :: "agent_command list \<Rightarrow> (string \<times> string list) result" where
  "extractUserMessage commands =
    (let parts = concat (map (\<lambda>c. if cmd_Type c = ''add-message'' then (case cmd_Message c of None \<Rightarrow> [] | Some ps \<Rightarrow> ps) else []) commands);
         content = trim_space (concat (map part_text parts)); images = concat (map part_images parts)
     in if \<exists>c \<in> set commands. cmd_Type c = ''add-tool-result'' then Inl ErrEmptyCommand
        else if \<not> (\<exists>p \<in> set parts. part_counts p) \<or> (content = [] \<and> images = []) then Inl ErrEmptyCommand
        else Inr (content, images))"

definition AttachmentMaxPerMessage :: nat where "AttachmentMaxPerMessage = 4"

text \<open>\<open>strings.LastIndex\<close>: what follows the last occurrence.\<close>

fun after_last :: "string \<Rightarrow> string \<Rightarrow> string option" where
  "after_last sub [] = cut_prefix sub []"
| "after_last sub (c # cs) = (case after_last sub cs of Some r \<Rightarrow> Some r | None \<Rightarrow> cut_prefix sub (c # cs))"

definition trim_slash :: "string \<Rightarrow> string" where
  "trim_slash s = (if s \<noteq> [] \<and> last s = CHR ''/'' then butlast s else s)"

definition AttachmentIDFromRef :: "string \<Rightarrow> string option" where
  "AttachmentIDFromRef reference =
    (case after_last ''/agent/attachments/'' reference of
       None \<Rightarrow> None
     | Some r \<Rightarrow> let k = takeWhile (\<lambda>c. c \<noteq> CHR ''?'') (trim_slash r)
         in if k = [] \<or> cut_prefix ''att_'' k = None \<or> (\<exists>c \<in> set k. c \<in> set (''/.'' @ [CHR 0x5C])) then None else Some k)"

definition usable_credentials :: "model_credentials option \<Rightarrow> bool" where
  "usable_credentials c = (case c of None \<Rightarrow> False | Some m \<Rightarrow> mc_BaseURL m \<noteq> [] \<and> mc_APIKey m \<noteq> [] \<and> mc_Model m \<noteq> [])"

definition resolveHarnessMode :: "agent_service \<Rightarrow> agent_library \<Rightarrow> string \<Rightarrow> string result" where
  "resolveHarnessMode svc lib requested =
    (let mode = al_lower lib (trim_space requested)
     in if mode = [] then Inr []
        else if mode \<noteq> ''wasm'' \<and> mode \<noteq> ''sidecar'' then Inl ErrValidation
        else bind_r (as_Credentials svc) (\<lambda>creds.
          if \<not> usable_credentials creds then Inr []
          else let mode = (if mode = ''wasm'' \<and> as_SidecarPreferred svc \<and> as_Sidecar svc = Some True then ''sidecar'' else mode)
            in if mode = ''sidecar'' \<and> as_Sidecar svc \<noteq> Some True then Inl ErrHarnessUnavailable else Inr mode))"

record submit_result =
  sub_ThreadID :: id
  sub_RunID :: id
  sub_NewThread :: bool
  sub_FromSeq :: int
  sub_HarnessMode :: string
  sub_NoStream :: bool

definition zero_run :: agent_run where
  "zero_run = \<lparr>ar_ID = [], ar_UserID = [], ar_ThreadID = [], ar_JobID = [], ar_Status = [], ar_StateJSON = None, ar_CheckpointSeq = 0,
     ar_ParentMessageID = None, ar_HarnessMode = [], ar_CancelRequested = False, ar_ApprovalWaitMs = 0, ar_ModelCalls = 0,
     ar_ModelAttempts = 0, ar_ModelVerifiedStop = [], ar_ModelInflight = [], ar_StartedAt = None, ar_ApprovalStartedAt = None,
     ar_UsageJSON = [], ar_ErrorCode = [], ar_ErrorMessage = [], ar_Revision = 0, ar_CreatedAt = 0, ar_UpdatedAt = 0, ar_FinishedAt = None\<rparr>"

text \<open>The thread a message goes to: the one named, or a new one titled by the message.\<close>

definition message_thread :: "env \<Rightarrow> id \<Rightarrow> string option \<Rightarrow> string \<Rightarrow> (id \<times> bool) tx" where
  "message_thread en userID threadID content =
    (if threadID \<noteq> None \<and> trim_space (derefString threadID) \<noteq> []
     then tx_bind (tx_try (GetThread userID (trim_space (derefString threadID)))) (\<lambda>t. tx_return (th_ID t, False))
     else tx_bind (CreateThread en userID None (if rune_count content > 24 then take_runes 24 content @ ellipsis else content))
       (\<lambda>t. tx_return (th_ID t, True)))"

definition run_job :: "env \<Rightarrow> id \<Rightarrow> id \<Rightarrow> id \<Rightarrow> agent_job" where
  "run_job en k userID runID = (new_job k userID ''agent_run'' ''agent_run'' runID 0 ''{}'' (env_now en))\<lparr>j_MaxAttempts := 1\<rparr>"

text \<open>The references of a message, each with its position.\<close>

definition attach_image :: "env \<Rightarrow> id \<Rightarrow> id \<Rightarrow> id \<Rightarrow> nat \<times> string \<Rightarrow> unit tx" where
  "attach_image en userID threadID messageID = (\<lambda>(i, reference).
    case AttachmentIDFromRef reference of
      None \<Rightarrow> tx_return ()
    | Some k \<Rightarrow> tx_bind (tx_read (GetAttachment userID k)) (\<lambda>found.
        case found of
          Inl _ \<Rightarrow> tx_return ()
        | Inr _ \<Rightarrow> tx_bind (CreatePart en (text_row userID messageID (int i + 1) ''image'' reference)) (\<lambda>_.
            AttachAttachment userID k threadID messageID)))"

definition submit_tx :: "env \<Rightarrow> id \<Rightarrow> string option \<Rightarrow> string \<Rightarrow> string list \<Rightarrow> string \<Rightarrow> submit_result tx" where
  "submit_tx en userID threadID content images mode =
    tx_bind (message_thread en userID threadID content) (\<lambda>(threadID, newThread).
    tx_bind (tx_read (\<lambda>s. \<exists>r \<in> set (s_runs s). ar_UserID r = userID \<and> active_run r)) (\<lambda>busy.
    tx_bind (tx_check (\<not> busy) ErrActiveRunExists) (\<lambda>_.
    tx_bind (unique_as ErrActiveRunExists (CreateRun en (zero_run\<lparr>ar_UserID := userID, ar_ThreadID := threadID, ar_Status := ''queued'',
      ar_StateJSON := Some (JObject []), ar_HarnessMode := mode\<rparr>))) (\<lambda>run.
    tx_bind (if mode = ''wasm'' then tx_return ()
             else tx_bind (NewID en ''job'') (\<lambda>k.
               tx_bind (create_job (run_job en k userID (ar_ID run))) (\<lambda>_.
               UpdateRun en userID (ar_ID run) (\<lambda>r. r\<lparr>ar_JobID := k\<rparr>)))) (\<lambda>_.
    tx_bind (CreateMessage en \<lparr>am_ID = [], am_UserID = userID, am_ThreadID = threadID, am_RunID = ar_ID run, am_ParentID = None,
      am_Role = ''user'', am_Seq = 0, am_CreatedAt = 0\<rparr>) (\<lambda>m.
    tx_bind (CreatePart en (text_row userID (am_ID m) 0 ''text'' content)) (\<lambda>_.
    tx_bind (tx_each (attach_image en userID threadID (am_ID m)) (enumerate 0 images)) (\<lambda>_.
    tx_bind (UpdateRun en userID (ar_ID run) (\<lambda>r. r\<lparr>ar_ParentMessageID := Some (am_ID m)\<rparr>)) (\<lambda>_.
    tx_bind (TouchThread en userID threadID) (\<lambda>_.
    tx_return \<lparr>sub_ThreadID = threadID, sub_RunID = ar_ID run, sub_NewThread = newThread, sub_FromSeq = 0, sub_HarnessMode = mode,
      sub_NoStream = False\<rparr>))))))))))"

text \<open>A message of the user; the receipts of approvals are another flow.\<close>

definition SubmitMessage ::
    "agent_service \<Rightarrow> agent_library \<Rightarrow> env \<Rightarrow> id \<Rightarrow> string option \<Rightarrow> string \<Rightarrow> agent_command list \<Rightarrow> submit_result op" where
  "SubmitMessage svc lib en userID threadID harnessMode commands =
    (case extractUserMessage commands of
       Inl e \<Rightarrow> op_fail e
     | Inr (content, images) \<Rightarrow>
         if length images > AttachmentMaxPerMessage then op_fail ErrTooManyAttachments
         else (case resolveHarnessMode svc lib harnessMode of
           Inl e \<Rightarrow> op_fail e
         | Inr mode \<Rightarrow> op_bind (op_tx (submit_tx en userID threadID content images mode)) (\<lambda>r.
             if mode = ''wasm'' then op_bind (BeginHarnessRun lib en userID (sub_RunID r)) (\<lambda>_. op_return r)
             else op_return r)))"

subsection \<open>Execution by the worker\<close>

definition runPromptText :: "agent_library \<Rightarrow> agent_run \<Rightarrow> store \<Rightarrow> string result" where
  "runPromptText lib run s =
    (let k = derefString (ar_ParentMessageID run); parts = ListMessageParts (ar_UserID run) k s;
         content = concat (map mp_Text (filter (\<lambda>p. mp_Type p = ''text'') parts))
     in if k = [] then Inl ErrOther
        else Inr (if trim_space content = [] \<and> (\<exists>p \<in> set parts. mp_Type p = ''image'') then al_image_prompt lib else content))"

definition terminal_status :: "string \<Rightarrow> bool" where
  "terminal_status status \<longleftrightarrow> status = ''succeeded'' \<or> status = ''failed'' \<or> status = ''cancelled'' \<or> status = ''interrupted''"

text \<open>The run of a job, with what drives a run of the sidecar.\<close>

definition ExecuteRun ::
    "agent_service \<Rightarrow> agent_library \<Rightarrow> env \<Rightarrow> (agent_run \<Rightarrow> unit op) \<Rightarrow> agent_job \<Rightarrow> unit op" where
  "ExecuteRun svc lib en sidecar job =
    op_bind (op_tx (tx_try (GetRun (j_UserID job) (j_SubjectID job)))) (\<lambda>run.
    if terminal_status (ar_Status run) then op_return ()
    else if ar_HarnessMode run = ''sidecar'' then sidecar run
    else if ar_HarnessMode run = ''wasm'' then
      op_tx (SetRunStatus en (j_UserID job) (j_SubjectID job) ''failed'' ''HARNESS_CONFLICT''
        ''a browser-driven run must not be executed by the worker'')
    else op_bind (op_tx (SetRunStatus en (j_UserID job) (j_SubjectID job) ''running'' [] [])) (\<lambda>_.
      op_bind (op_catch (beginRun lib en run) (\<lambda>e.
        op_bind (op_drop (op_tx (SetRunStatus en (j_UserID job) (j_SubjectID job) ''failed'' ''STATE_ERROR'' (al_error lib e)))) (\<lambda>_.
        op_fail e))) (deterministicReply svc lib en)))"

end
