(* ===== verification/Patches.thy ===== *)
theory Patches
  imports Lifecycle Lens_Rules Agent_Sessions
begin

text \<open>
  The operations a model proposes on the tree of a goal: values of type \<open>any\<close> as text and as numbers
  (\<open>textValue\<close>, \<open>intValue\<close> of \<open>application/app.go\<close>), the shape of a list of operations
  (\<open>normalizePatch\<close>, \<open>normalizeCandidates\<close> of \<open>application/agenttools_proposal.go\<close>), the goal with its
  first tasks (\<open>normalizeGoalWithTasks\<close> of \<open>application/agentgoal.go\<close>) and the coordinates
  of a task (\<open>application/lens.go\<close>). A patch is a change set, whose keys are listed once. The sentence
  that explains a refusal is left out: a refused patch is \<open>None\<close>.
\<close>

subsection \<open>Values of type any\<close>

text \<open>
  What the standard library does to such values: \<open>fmt.Sprint\<close> on numbers that are not whole, on lists and maps,
  the conversion of a float that no \<open>int\<close> holds, and \<open>fmt.Sscanf\<close> with \<open>%d\<close>; with the codec of the agent runtime.
\<close>

record patch_library =
  pl_text :: "any_value \<Rightarrow> string"
  pl_wild :: "any_value \<Rightarrow> int"
  pl_scan :: "string \<Rightarrow> int"
  pl_agent :: agent_library

fun any_of_json :: "json \<Rightarrow> any_value" where
  "any_of_json JNull = AnyNil"
| "any_of_json (JBool b) = AnyBool b"
| "any_of_json (JNumber q) = AnyFloat q"
| "any_of_json (JString s) = AnyString s"
| "any_of_json (JArray vs) = AnyList (map any_of_json vs)"
| "any_of_json (JObject kvs) = AnyMap (map (\<lambda>kv. (fst kv, any_of_json (snd kv))) kvs)"

definition any_get :: "changes \<Rightarrow> string \<Rightarrow> any_value" where
  "any_get patch k = (case map_of patch k of None \<Rightarrow> AnyNil | Some v \<Rightarrow> v)"

definition any_has :: "changes \<Rightarrow> string \<Rightarrow> bool" where
  "any_has patch k \<longleftrightarrow> map_of patch k \<noteq> None"

definition sprint_any :: "patch_library \<Rightarrow> any_value \<Rightarrow> string" where
  "sprint_any lib v =
    (case v of
       AnyNil \<Rightarrow> ''<nil>''
     | AnyString s \<Rightarrow> s
     | AnyInt n \<Rightarrow> strconv_Itoa n
     | AnyInt64 n \<Rightarrow> strconv_Itoa n
     | AnyBool b \<Rightarrow> (if b then ''true'' else ''false'')
     | _ \<Rightarrow> pl_text lib v)"

definition any_text :: "patch_library \<Rightarrow> any_value \<Rightarrow> string" where
  "any_text lib v =
    (if v = AnyNil then []
     else let s = trim_space (sprint_any lib v) in if s = ''<nil>'' then [] else s)"

definition truncate_rat :: "rat \<Rightarrow> int" where
  "truncate_rat q = (if q < 0 then \<lceil>q\<rceil> else \<lfloor>q\<rfloor>)"

definition intValue :: "patch_library \<Rightarrow> any_value \<Rightarrow> int" where
  "intValue lib v =
    (case v of
       AnyNil \<Rightarrow> 0
     | AnyInt n \<Rightarrow> n
     | AnyFloat q \<Rightarrow> (let n = truncate_rat q in if - (2 ^ 63) \<le> n \<and> n < 2 ^ 63 then n else pl_wild lib v)
     | AnyNaN \<Rightarrow> pl_wild lib v
     | _ \<Rightarrow> pl_scan lib (sprint_any lib v))"

definition stringArg :: "changes \<Rightarrow> string \<Rightarrow> string" where
  "stringArg args k = (case any_get args k of AnyString s \<Rightarrow> trim_space s | _ \<Rightarrow> [])"

text \<open>The text of a field of a patch; a missing operation is a creation.\<close>

definition patch_text :: "patch_library \<Rightarrow> changes \<Rightarrow> string \<Rightarrow> string" where
  "patch_text lib patch k = any_text lib (any_get patch k)"

definition patch_op :: "patch_library \<Rightarrow> changes \<Rightarrow> string" where
  "patch_op lib patch = (let k = patch_text lib patch ''op'' in if k = [] then ''create'' else k)"

subsection \<open>Coordinates\<close>

record agent_coord =
  xc_X :: int
  xc_Y :: int
  xc_Rationale :: string

definition coordRationaleMaxBytes :: nat where "coordRationaleMaxBytes = 120"

definition truncateRationale :: "string \<Rightarrow> string" where
  "truncateRationale raw =
    (let v = trim_space raw
     in if length v \<le> coordRationaleMaxBytes then v else take (rune_boundary v coordRationaleMaxBytes) v)"

definition normalizeLens :: "string \<Rightarrow> string" where
  "normalizeLens lens = (if trim_space lens = [] then LensResearchRisk else trim_space lens)"

definition coordValue :: "patch_library \<Rightarrow> any_value \<Rightarrow> int option" where
  "coordValue lib v =
    (if v = AnyNil then None
     else let n = intValue lib v in if n < CoordMin \<or> n > CoordMax then None else Some n)"

definition coordFromPatch :: "patch_library \<Rightarrow> changes \<Rightarrow> agent_coord option" where
  "coordFromPatch lib patch =
    (if \<not> any_has patch ''uncertainty'' \<and> \<not> any_has patch ''contribution'' then None
     else
       let or_middle = (\<lambda>k. case coordValue lib (any_get patch k) of None \<Rightarrow> CoordThreshold | Some n \<Rightarrow> n)
       in Some \<lparr>xc_X = or_middle ''uncertainty'', xc_Y = or_middle ''contribution'',
         xc_Rationale = truncateRationale (patch_text lib patch ''coord_rationale'')\<rparr>)"

definition put_coords :: "task_coord list \<Rightarrow> store \<Rightarrow> store" where
  "put_coords rows s = s\<lparr>s_coords := rows\<rparr>"

definition findCoord :: "store \<Rightarrow> id \<Rightarrow> id \<Rightarrow> string \<Rightarrow> task_coord option" where
  "findCoord s userID taskID lens =
    find (\<lambda>c. xy_TaskID c = taskID \<and> xy_UserID c = userID \<and> xy_Lens c = lens) (s_coords s)"

text \<open>The unique index is on the task and the lens.\<close>

definition create_coord :: "task_coord \<Rightarrow> unit tx" where
  "create_coord c = tx_create s_coords put_coords (\<lambda>c. (xy_TaskID c, xy_Lens c)) c"

definition createAgentCoord :: "env \<Rightarrow> id \<Rightarrow> id \<Rightarrow> agent_coord \<Rightarrow> unit tx" where
  "createAgentCoord en userID taskID coord =
    tx_bind (NewID en ''coord'') (\<lambda>k.
    create_coord \<lparr>xy_ID = k, xy_UserID = userID, xy_TaskID = taskID, xy_Lens = LensResearchRisk, xy_X = xc_X coord, xy_Y = xc_Y coord,
      xy_Source = ''agent'', xy_Pinned = False, xy_Rationale = xc_Rationale coord, xy_Revision = 1, xy_CreatedAt = env_now en,
      xy_UpdatedAt = env_now en\<rparr>)"

definition update_coord :: "task_coord \<Rightarrow> (task_coord \<Rightarrow> task_coord) \<Rightarrow> unit tx" where
  "update_coord existing f =
    tx_bind (tx_update s_coords put_coords (\<lambda>c. xy_ID c = xy_ID existing \<and> xy_Revision c = xy_Revision existing) f) (\<lambda>n.
    tx_check (n = 1) ErrRevision)"

definition updateAgentCoord :: "env \<Rightarrow> id \<Rightarrow> id \<Rightarrow> agent_coord \<Rightarrow> unit tx" where
  "updateAgentCoord en userID taskID coord =
    tx_bind (tx_read (\<lambda>s. findCoord s userID taskID LensResearchRisk)) (\<lambda>found.
    case found of
      None \<Rightarrow> createAgentCoord en userID taskID coord
    | Some existing \<Rightarrow>
        if xy_Pinned existing then tx_return ()
        else update_coord existing (\<lambda>c. c\<lparr>xy_X := xc_X coord, xy_Y := xc_Y coord, xy_Source := ''agent'',
          xy_Rationale := xc_Rationale coord, xy_Revision := xy_Revision existing + 1, xy_UpdatedAt := env_now en\<rparr>))"

text \<open>The errors of the domain package are errors of their own there; here they are \<open>ErrOther\<close>.\<close>

definition SetTaskCoord :: "env \<Rightarrow> id \<Rightarrow> id \<Rightarrow> string \<Rightarrow> int \<Rightarrow> int \<Rightarrow> string \<Rightarrow> int \<Rightarrow> task_coord tx" where
  "SetTaskCoord en userID taskID lens x y rationale expected =
    (let lens = normalizeLens lens; rationale = truncateRationale rationale
     in tx_bind (tx_check (ValidLens lens) ErrOther) (\<lambda>_.
        tx_bind (tx_check (ValidateCoord x y = None) ErrOther) (\<lambda>_.
        tx_bind (tx_try (\<lambda>s. RequireLiveTaskTx s userID taskID)) (\<lambda>_.
        tx_bind (tx_read (\<lambda>s. findCoord s userID taskID lens)) (\<lambda>found.
        case found of
          None \<Rightarrow>
            tx_bind (tx_check (expected < 0) ErrNotFound) (\<lambda>_.
            tx_bind (NewID en ''coord'') (\<lambda>k.
            let c = \<lparr>xy_ID = k, xy_UserID = userID, xy_TaskID = taskID, xy_Lens = lens, xy_X = x, xy_Y = y, xy_Source = ''user'',
                  xy_Pinned = True, xy_Rationale = rationale, xy_Revision = 1, xy_CreatedAt = env_now en, xy_UpdatedAt = env_now en\<rparr>
            in tx_bind (create_coord c) (\<lambda>_. tx_return c)))
        | Some existing \<Rightarrow>
            tx_bind (tx_check (\<not> expected < 0) ErrPrecondition) (\<lambda>_.
            tx_bind (tx_check (xy_Revision existing = expected) ErrRevision) (\<lambda>_.
            tx_bind (update_coord existing (\<lambda>c. c\<lparr>xy_X := x, xy_Y := y, xy_Source := ''user'', xy_Pinned := True,
              xy_Rationale := rationale, xy_Revision := expected + 1, xy_UpdatedAt := env_now en\<rparr>)) (\<lambda>_.
            tx_try (\<lambda>s. first_row (filter (\<lambda>c. xy_ID c = xy_ID existing) (s_coords s)))))))))))"

subsection \<open>The shape of a list of operations\<close>

definition any_set :: "changes \<Rightarrow> string \<Rightarrow> any_value \<Rightarrow> changes" where
  "any_set patch k v = AList.update k v patch"

text \<open>A list of prerequisites is replaced by its checked form; a reference names an earlier creation.\<close>

definition checked_list :: "string list option \<Rightarrow> string \<Rightarrow> changes \<Rightarrow> changes option" where
  "checked_list known k patch =
    (case map_of patch k of
       None \<Rightarrow> Some patch
     | Some raw \<Rightarrow> (case taskDependencyList raw of
         Inl _ \<Rightarrow> None
       | Inr vs \<Rightarrow> if case known of None \<Rightarrow> True | Some refs \<Rightarrow> set vs \<subseteq> set refs
           then Some (any_set patch k (AnyStrings vs)) else None))"

definition edit_op :: "string \<Rightarrow> bool" where
  "edit_op k \<longleftrightarrow> k \<in> set [''update'', ''move'', ''supersede'', ''delete'', ''restore'']"

definition node_type :: "string \<Rightarrow> bool" where
  "node_type k \<longleftrightarrow> k = ''milestone'' \<or> k = ''task'' \<or> k = ''action''"

text \<open>One operation, with the references of the creations before it and after it.\<close>

definition normalize_node :: "patch_library \<Rightarrow> string list \<Rightarrow> any_value \<Rightarrow> (changes \<times> string list) option" where
  "normalize_node lib refs item =
    (case item of
       AnyMap patch \<Rightarrow>
         Option.bind (checked_list None ''depends_on'' patch) (\<lambda>patch.
         Option.bind (checked_list (Some refs) ''depends_on_refs'' patch) (\<lambda>patch.
         if patch_op lib patch = ''create'' then
           let ref = patch_text lib patch ''client_ref''; parent = patch_text lib patch ''parent_ref'';
               refs' = (if ref = [] then refs else ref # refs)
           in if \<not> node_type (patch_text lib patch ''type'') \<or>
                 (\<exists>k \<in> set [''title'', ''success_criteria'', ''minimum_action'']. patch_text lib patch k = []) \<or>
                 (ref \<noteq> [] \<and> ref \<in> set refs) \<or> (parent \<noteq> [] \<and> parent \<notin> set refs')
              then None else Some (patch, refs')
         else if edit_op (patch_op lib patch) \<and> patch_text lib patch ''target_id'' \<noteq> [] then Some (patch, refs)
         else None))
     | _ \<Rightarrow> None)"

fun normalize_nodes :: "patch_library \<Rightarrow> string list \<Rightarrow> any_value list \<Rightarrow> changes list option" where
  "normalize_nodes lib refs [] = Some []"
| "normalize_nodes lib refs (item # items) =
    Option.bind (normalize_node lib refs item) (\<lambda>(patch, refs').
    Option.bind (normalize_nodes lib refs' items) (\<lambda>patches. Some (patch # patches)))"

definition normalizePatch :: "patch_library \<Rightarrow> any_value \<Rightarrow> changes list option" where
  "normalizePatch lib raw =
    (case raw of
       AnyList items \<Rightarrow> if items = [] \<or> length items > 40 then None else normalize_nodes lib [] items
     | _ \<Rightarrow> None)"

subsection \<open>Candidates for a day\<close>

fun normalize_candidates :: "patch_library \<Rightarrow> id list \<Rightarrow> any_value list \<Rightarrow> plan_candidate list option" where
  "normalize_candidates lib seen [] = Some []"
| "normalize_candidates lib seen (item # items) =
    (case item of
       AnyMap m \<Rightarrow>
         let taskID = patch_text lib m ''task_id''; first_step = patch_text lib m ''minimum_action'';
             commitment = patch_text lib m ''commitment''
         in if taskID = [] \<or> first_step = [] \<or> rune_count first_step > 2000 \<or> rune_count commitment > 2000 then None
            else if taskID \<in> set seen then normalize_candidates lib seen items
            else Option.bind (normalize_candidates lib (taskID # seen) items) (\<lambda>cs.
              Some (\<lparr>pc_TaskID = taskID, pc_MinimumAction = first_step, pc_Commitment = commitment,
                pc_Reason = patch_text lib m ''reason''\<rparr> # cs))
     | _ \<Rightarrow> None)"

definition normalizeCandidates :: "patch_library \<Rightarrow> any_value \<Rightarrow> plan_candidate list option" where
  "normalizeCandidates lib raw =
    (case raw of
       AnyList items \<Rightarrow> if items = [] \<or> length items > 20 then None else normalize_candidates lib [] items
     | _ \<Rightarrow> None)"

subsection \<open>A goal with its first tasks\<close>

record goal_payload =
  gp_Title :: string
  gp_Description :: string
  gp_SuccessCriteria :: string
  gp_ShortfallReason :: string
  gp_Nodes :: "changes list"

text \<open>The task a node would become: numbers default as in the code, and the fields are checked.\<close>

definition node_task :: "patch_library \<Rightarrow> nat \<Rightarrow> changes \<Rightarrow> task result" where
  "node_task lib i node =
    bind_r (changeInt node ''priority'' 0) (\<lambda>priority.
    bind_r (changeInt node ''estimate_minutes'' 0) (\<lambda>estimate.
    validateTaskFields (zero_task\<lparr>t_Type := patch_text lib node ''type'', t_Title := patch_text lib node ''title'',
      t_Description := patch_text lib node ''description'', t_SuccessCriteria := patch_text lib node ''success_criteria'',
      t_MinimumAction := patch_text lib node ''minimum_action'', t_Position := int i,
      t_Priority := (if priority = 0 then 50 else priority),
      t_EstimateMinutes := (if estimate = 0 then 25 else estimate)\<rparr>)))"

fun goal_nodes_ok :: "patch_library \<Rightarrow> nat \<Rightarrow> string list \<Rightarrow> changes list \<Rightarrow> bool" where
  "goal_nodes_ok lib i refs [] \<longleftrightarrow> True"
| "goal_nodes_ok lib i refs (node # later) \<longleftrightarrow>
    (let ref = patch_text lib node ''client_ref''; parent = patch_text lib node ''parent_ref''
     in patch_op lib node = ''create'' \<and> patch_text lib node ''parent_id'' = [] \<and> patch_text lib node ''target_id'' = [] \<and>
        \<not> any_has node ''depends_on'' \<and> (parent = [] \<or> parent \<in> set refs) \<and> (ref = [] \<or> ref \<notin> set refs) \<and>
        \<not> isl (node_task lib i node) \<and>
        goal_nodes_ok lib (i + 1) (if ref = [] then refs else ref # refs) later)"

definition is_leaf_node :: "patch_library \<Rightarrow> changes list \<Rightarrow> changes \<Rightarrow> bool" where
  "is_leaf_node lib patch node \<longleftrightarrow>
    (any_get node ''type'' = AnyString ''task'' \<or> any_get node ''type'' = AnyString ''action'') \<and>
    (let ref = patch_text lib node ''client_ref'' in ref = [] \<or> (\<forall>n \<in> set patch. patch_text lib n ''parent_ref'' \<noteq> ref))"

definition normalizeGoalWithTasks :: "patch_library \<Rightarrow> changes \<Rightarrow> goal_payload option" where
  "normalizeGoalWithTasks lib args =
    (let p = \<lparr>gp_Title = trim_space (stringArg args ''title''), gp_Description = trim_space (stringArg args ''description''),
           gp_SuccessCriteria = trim_space (stringArg args ''success_criteria''),
           gp_ShortfallReason = trim_space (stringArg args ''shortfall_reason''), gp_Nodes = []\<rparr>;
         goal = zero_goal\<lparr>g_Title := gp_Title p, g_Description := gp_Description p, g_SuccessCriteria := gp_SuccessCriteria p\<rparr>
     in if rune_count (gp_ShortfallReason p) > 2000 \<or> isl (validateGoalFields goal) then None
        else Option.bind (normalizePatch lib (any_get args ''nodes'')) (\<lambda>patch.
          if goal_nodes_ok lib 0 [] patch \<and> (\<exists>n \<in> set patch. is_leaf_node lib patch n)
          then Some (p\<lparr>gp_Nodes := patch\<rparr>) else None))"

end
