(* ===== verification/Proposals.thy ===== *)
theory Proposals
  imports Patches
begin

text \<open>
  Applying and refusing a staged proposal: the tree patch (\<open>ApplyProposal\<close>, \<open>applyProposalTx\<close>,
  \<open>RejectProposal\<close> of \<open>application/app.go\<close>), the guard of a receipt (\<open>application/approval_guard.go\<close>), the
  new goal and the edited goal (\<open>application/agentgoal.go\<close>) and the plan of a day
  (\<open>application/agentdailyplan.go\<close>). The column \<open>goal_id\<close> of a proposal is the empty text where it is
  \<open>NULL\<close>; the snapshot of a plan's inputs keeps the fields the program reads back.
\<close>

subsection \<open>The guard of a receipt\<close>

text \<open>The values \<open>approvalRunKey\<close> and \<open>approvalPartKey\<close> of the context; empty where they are not set.\<close>

record approval_ctx =
  ac_RunID :: id
  ac_PartID :: id

definition guardApprovalTx :: "approval_ctx \<Rightarrow> id \<Rightarrow> unit tx" where
  "guardApprovalTx ac userID =
    (if ac_RunID ac = [] then tx_return ()
     else
       tx_bind (tx_try (\<lambda>s. first_row (filter (owned_run userID (ac_RunID ac)) (s_runs s)))) (\<lambda>run.
       tx_bind (tx_check (\<not> (ar_CancelRequested run \<or>
         (ar_Status run \<noteq> ''awaiting_approval'' \<and> ar_Status run \<noteq> ''interrupted''))) ErrApprovalNotAwaiting) (\<lambda>_.
       if ac_PartID ac = [] then tx_return ()
       else
         tx_bind (tx_try (\<lambda>s. first_row (filter (owned_part userID (ac_PartID ac)) (s_parts s)))) (\<lambda>part.
         tx_check (mp_ApprovalStatus part = ''pending'') ErrApprovalDuplicate))))"

definition applied_json :: "id \<Rightarrow> id \<Rightarrow> json" where
  "applied_json proposalID goalID =
    JObject [(''applied'', JBool True), (''decision'', JString ''approve''), (''goal_id'', JString goalID),
      (''proposal_id'', JString proposalID)]"

definition recordAppliedApprovalTx :: "patch_library \<Rightarrow> env \<Rightarrow> approval_ctx \<Rightarrow> id \<Rightarrow> id \<Rightarrow> id \<Rightarrow> unit tx" where
  "recordAppliedApprovalTx lib en ac userID proposalID goalID =
    (if ac_PartID ac = [] then tx_return ()
     else
       tx_bind (tx_update s_parts put_parts
         (\<lambda>p. owned_part userID (ac_PartID ac) p \<and> mp_ApprovalStatus p = ''pending'')
         (\<lambda>p. p\<lparr>mp_ApprovalStatus := ''approved'', mp_ResultJSON := al_text (pl_agent lib) (applied_json proposalID goalID),
           mp_IsError := False, mp_UpdatedAt := env_now en\<rparr>)) (\<lambda>n.
       tx_check (n = 1) ErrApprovalDuplicate))"

subsection \<open>Rows of proposals\<close>

definition put_proposals :: "proposal list \<Rightarrow> store \<Rightarrow> store" where
  "put_proposals rows s = s\<lparr>s_proposals := rows\<rparr>"

definition pending_proposal :: "id \<Rightarrow> id \<Rightarrow> proposal \<Rightarrow> bool" where
  "pending_proposal userID k p \<longleftrightarrow> pr_ID p = k \<and> pr_UserID p = userID \<and> pr_Status p = ''pending''"

definition not_found :: "'a result \<Rightarrow> 'a result" where
  "not_found r = (case r of Inl ErrRecordNotFound \<Rightarrow> Inl ErrNotFound | _ \<Rightarrow> r)"

definition find_pending :: "store \<Rightarrow> (proposal \<Rightarrow> bool) \<Rightarrow> id \<Rightarrow> id \<Rightarrow> proposal result" where
  "find_pending s P userID k = not_found (first_row (filter (\<lambda>p. pending_proposal userID k p \<and> P p) (s_proposals s)))"

text \<open>A pending row at a revision gets its final status; one that is gone is a moved revision.\<close>

definition settle_proposal :: "env \<Rightarrow> id \<Rightarrow> int \<Rightarrow> string \<Rightarrow> unit tx" where
  "settle_proposal en k revision status =
    tx_bind (tx_update s_proposals put_proposals
      (\<lambda>p. pr_ID p = k \<and> pr_Revision p = revision \<and> pr_Status p = ''pending'')
      (\<lambda>p. p\<lparr>pr_Status := status, pr_Revision := revision + 1, pr_UpdatedAt := env_now en\<rparr>)) (\<lambda>n.
    tx_check (n = 1) ErrRevision)"

definition RejectProposal :: "env \<Rightarrow> id \<Rightarrow> id \<Rightarrow> id \<Rightarrow> int \<Rightarrow> proposal tx" where
  "RejectProposal en userID goalID proposalID expected =
    tx_bind (tx_try (\<lambda>s. find_pending s (\<lambda>p. pr_GoalID p = goalID) userID proposalID)) (\<lambda>proposal.
    tx_bind (tx_check (pr_Revision proposal = expected) ErrRevision) (\<lambda>_.
    tx_bind (settle_proposal en (pr_ID proposal) expected ''rejected'') (\<lambda>_.
    tx_try (\<lambda>s. first_row (filter (\<lambda>p. pr_ID p = pr_ID proposal) (s_proposals s))))))"

subsection \<open>One operation of a tree patch\<close>

text \<open>What the loop over the operations keeps: the tasks by identifier, their parents, the identifiers the references
  of new tasks stand for and the number of new tasks.\<close>

record tree_state =
  tp_ByID :: task_index
  tp_Parents :: "(id, id) gomap"
  tp_Refs :: "(string, id) gomap"
  tp_Created :: int

definition load_live_tree :: "id \<Rightarrow> id \<Rightarrow> tree_state \<Rightarrow> tree_state tx" where
  "load_live_tree userID goalID st = tx_read (\<lambda>s.
    let live = filter (\<lambda>t. t_DeletedAt t = None) (goal_tasks s userID goalID)
    in st\<lparr>tp_ByID := index_tasks live,
      tp_Parents := rev (List.map_filter (\<lambda>t. map_option (\<lambda>p. (t_ID t, p)) (t_ParentID t)) live)\<rparr>)"

text \<open>The parent an operation names: an identifier, or the reference of an earlier creation.\<close>

definition patch_parent :: "patch_library \<Rightarrow> changes \<Rightarrow> (string, id) gomap \<Rightarrow> string result" where
  "patch_parent lib patch refs =
    (let parent = patch_text lib patch ''parent_id''; ref = patch_text lib patch ''parent_ref''
     in if parent \<noteq> [] \<or> ref = [] then Inr parent
        else case map_of refs ref of None \<Rightarrow> Inl ErrValidation | Some k \<Rightarrow> Inr k)"

definition patch_task :: "patch_library \<Rightarrow> env \<Rightarrow> id \<Rightarrow> id \<Rightarrow> id \<Rightarrow> nat \<Rightarrow> changes \<Rightarrow> task" where
  "patch_task lib en k userID goalID i patch =
    (let estimate = intValue lib (any_get patch ''estimate_minutes'')
     in zero_task\<lparr>t_ID := k, t_UserID := userID, t_GoalID := goalID, t_Type := patch_text lib patch ''type'',
          t_Title := patch_text lib patch ''title'', t_Description := patch_text lib patch ''description'',
          t_SuccessCriteria := patch_text lib patch ''success_criteria'',
          t_MinimumAction := patch_text lib patch ''minimum_action'',
          t_Priority := (if any_get patch ''priority'' = AnyNil then 50 else intValue lib (any_get patch ''priority'')),
          t_EstimateMinutes := (if estimate = 0 then 25 else estimate), t_Position := int i, t_Status := ''ready'',
          t_Revision := 1, t_CreatedAt := env_now en, t_UpdatedAt := env_now en\<rparr>)"

definition patch_task_ok :: "task \<Rightarrow> bool" where
  "patch_task_ok t \<longleftrightarrow>
    node_type (t_Type t) \<and> t_Title t \<noteq> [] \<and> t_SuccessCriteria t \<noteq> [] \<and> t_MinimumAction t \<noteq> [] \<and>
    0 \<le> t_Priority t \<and> t_Priority t \<le> 100 \<and> 1 \<le> t_EstimateMinutes t \<and> t_EstimateMinutes t \<le> 1440"

definition attach_parent :: "id \<Rightarrow> string \<Rightarrow> tree_state \<Rightarrow> unit tx" where
  "attach_parent userID parent st =
    (if parent = [] then tx_return ()
     else
       tx_bind (tx_check (map_of (tp_ByID st) parent \<noteq> None) ErrValidation) (\<lambda>_.
       tx_bind (tx_try (\<lambda>s. RequireLiveTaskTx s userID parent)) (\<lambda>t.
       tx_check (\<not> closed_status (t_Status t)) ErrValidation)))"

definition create_task :: "task \<Rightarrow> unit tx" where
  "create_task t = tx_create s_tasks (\<lambda>rows s. s\<lparr>s_tasks := rows\<rparr>) t_ID t"

definition apply_create ::
    "patch_library \<Rightarrow> env \<Rightarrow> id \<Rightarrow> id \<Rightarrow> nat \<Rightarrow> changes \<Rightarrow> tree_state \<Rightarrow> tree_state tx" where
  "apply_create lib en userID goalID i patch st =
    tx_bind (NewID en ''task'') (\<lambda>k.
    let t = patch_task lib en k userID goalID i patch
    in tx_bind (tx_check (patch_task_ok t) ErrValidation) (\<lambda>_.
       tx_bind (tx_try (\<lambda>_. validateTaskFields t)) (\<lambda>t.
       tx_bind (tx_try (\<lambda>_. patch_parent lib patch (tp_Refs st))) (\<lambda>parent.
       tx_bind (attach_parent userID parent st) (\<lambda>_.
       tx_bind (tx_try (\<lambda>_. taskDependenciesFromPatch patch (tp_Refs st))) (\<lambda>(deps, _).
       let t = t\<lparr>t_ParentID := (if parent = [] then None else Some parent), t_DependsOn := deps\<rparr>;
           ref = patch_text lib patch ''client_ref''
       in tx_bind (tx_total (\<lambda>s. validateTaskDependenciesTx s t)) (\<lambda>_.
          tx_bind (create_task t) (\<lambda>_.
          tx_bind (case coordFromPatch lib patch of
                     None \<Rightarrow> tx_return () | Some c \<Rightarrow> createAgentCoord en userID k c) (\<lambda>_.
          tx_return (st\<lparr>tp_ByID := AList.update k t (tp_ByID st),
            tp_Parents := (if parent = [] then tp_Parents st else AList.update k parent (tp_Parents st)),
            tp_Refs := (if ref = [] then tp_Refs st else AList.update ref k (tp_Refs st)),
            tp_Created := tp_Created st + 1\<rparr>))))))))))"

text \<open>A deletion or restoration affects a whole batch, so the tree is loaded again.\<close>

definition apply_lifecycle ::
    "patch_library \<Rightarrow> env \<Rightarrow> id \<Rightarrow> id \<Rightarrow> string \<Rightarrow> changes \<Rightarrow> tree_state \<Rightarrow> tree_state tx" where
  "apply_lifecycle lib en userID goalID kind patch st =
    (let target = patch_text lib patch ''target_id''
     in tx_bind (tx_try (\<lambda>s. not_found (first_row
          (filter (\<lambda>t. t_ID t = target \<and> t_UserID t = userID \<and> t_GoalID t = goalID) (s_tasks s))))) (\<lambda>t.
        tx_bind (if kind = ''delete'' then deleteTaskTx en userID target (t_Revision t)
                 else restoreTaskTx en userID target (t_Revision t)) (\<lambda>_.
        load_live_tree userID goalID st)))"

text \<open>The number fields of an edit, within their bounds.\<close>

fun patch_numbers :: "changes \<Rightarrow> string list \<Rightarrow> changes result" where
  "patch_numbers patch [] = Inr []"
| "patch_numbers patch (k # ks) =
    (if \<not> any_has patch k then patch_numbers patch ks
     else bind_r (changeInt patch k 0) (\<lambda>n.
       bind_r (guard_r (\<not> (k = ''priority'' \<and> (n < 0 \<or> n > 100)) \<and>
         \<not> (k = ''estimate_minutes'' \<and> (n < 1 \<or> n > 1440)) \<and> \<not> (k = ''position'' \<and> n < 0)) ErrValidation) (\<lambda>_.
       bind_r (patch_numbers patch ks) (\<lambda>cs. Inr ((k, AnyInt n) # cs)))))"

definition patch_fields :: "patch_library \<Rightarrow> changes \<Rightarrow> changes result" where
  "patch_fields lib patch =
    (let texts = filter (\<lambda>(k, _). k \<in> set [''type'', ''title'', ''description'', ''success_criteria'', ''minimum_action'',
           ''blocked_reason'']) patch;
         status = patch_text lib patch ''status''
     in if status \<noteq> [] \<and> status \<notin> set [''ready'', ''in_progress'', ''blocked'', ''paused'', ''cancelled''] then Inl ErrValidation
        else bind_r (patch_numbers patch [''priority'', ''estimate_minutes'', ''position'']) (\<lambda>numbers.
          Inr (texts @ (if status = [] then [] else [(''status'', AnyString status)]) @ numbers)))"

text \<open>The move of an edit: the new column, and the parents after it.\<close>

definition patch_move ::
    "patch_library \<Rightarrow> id \<Rightarrow> string \<Rightarrow> string \<Rightarrow> changes \<Rightarrow> tree_state \<Rightarrow> (changes \<times> (id, id) gomap) tx" where
  "patch_move lib userID kind target patch st =
    (let named = any_has patch ''parent_id'' \<or> any_has patch ''parent_ref''
     in if kind = ''move'' \<and> \<not> named then tx_fail ErrValidation
        else if \<not> named then tx_return ([], tp_Parents st)
        else
          tx_bind (tx_try (\<lambda>_. patch_parent lib patch (tp_Refs st))) (\<lambda>parent.
          if parent = [] then tx_return ([(''parent_id'', AnyNil)], AList.delete target (tp_Parents st))
          else
            tx_bind (tx_check (map_of (tp_ByID st) parent \<noteq> None) ErrValidation) (\<lambda>_.
            tx_bind (tx_total (\<lambda>_. map_option Inr (WouldCreateCycle target parent (tp_Parents st)))) (\<lambda>cyclic.
            tx_bind (tx_check (\<not> cyclic) ErrValidation) (\<lambda>_.
            tx_bind (tx_try (\<lambda>s. RequireLiveTaskTx s userID parent)) (\<lambda>_.
            tx_return ([(''parent_id'', AnyString parent)], AList.update target parent (tp_Parents st))))))))"

definition patch_updates ::
    "patch_library \<Rightarrow> id \<Rightarrow> string \<Rightarrow> string \<Rightarrow> changes \<Rightarrow> tree_state \<Rightarrow> (changes \<times> (id, id) gomap) tx" where
  "patch_updates lib userID kind target patch st =
    (if kind = ''supersede'' then tx_return ([(''status'', AnyString ''superseded'')], tp_Parents st)
     else
       tx_bind (tx_try (\<lambda>_. patch_fields lib patch)) (\<lambda>changed.
       tx_bind (patch_move lib userID kind target patch st) (\<lambda>(moved, parents).
       tx_bind (tx_try (\<lambda>_. taskDependenciesFromPatch patch (tp_Refs st))) (\<lambda>(deps, named).
       tx_return (changed @ moved @ (if named then [(''depends_on'', AnyStrings deps)] else []), parents)))))"

definition apply_edit ::
    "patch_library \<Rightarrow> env \<Rightarrow> id \<Rightarrow> string \<Rightarrow> changes \<Rightarrow> tree_state \<Rightarrow> tree_state tx" where
  "apply_edit lib en userID kind patch st =
    (let target = patch_text lib patch ''target_id''
     in case map_of (tp_ByID st) target of
          None \<Rightarrow> tx_fail ErrValidation
        | Some t \<Rightarrow>
            tx_bind (tx_try (\<lambda>s. RequireLiveTaskTx s userID target)) (\<lambda>_.
            tx_bind (patch_updates lib userID kind target patch st) (\<lambda>(updates, parents).
            tx_bind (updateTaskTx en userID target (t_Revision t) updates True) (\<lambda>updated.
            tx_bind (case (if kind = ''update'' then coordFromPatch lib patch else None) of
                       None \<Rightarrow> tx_return () | Some c \<Rightarrow> updateAgentCoord en userID target c) (\<lambda>_.
            tx_return (st\<lparr>tp_ByID := AList.update target updated (tp_ByID st), tp_Parents := parents\<rparr>))))))"

definition apply_patch ::
    "patch_library \<Rightarrow> env \<Rightarrow> id \<Rightarrow> id \<Rightarrow> nat \<Rightarrow> changes \<Rightarrow> tree_state \<Rightarrow> tree_state tx" where
  "apply_patch lib en userID goalID i patch st =
    (let kind = patch_op lib patch
     in if kind = ''create'' then apply_create lib en userID goalID i patch st
        else if kind = ''delete'' \<or> kind = ''restore'' then apply_lifecycle lib en userID goalID kind patch st
        else if kind = ''update'' \<or> kind = ''move'' \<or> kind = ''supersede'' then apply_edit lib en userID kind patch st
        else tx_fail ErrValidation)"

fun apply_patches ::
    "patch_library \<Rightarrow> env \<Rightarrow> id \<Rightarrow> id \<Rightarrow> nat \<Rightarrow> changes list \<Rightarrow> tree_state \<Rightarrow> tree_state tx" where
  "apply_patches lib en userID goalID i [] st = tx_return st"
| "apply_patches lib en userID goalID i (patch # patches) st =
    tx_bind (apply_patch lib en userID goalID i patch st) (apply_patches lib en userID goalID (i + 1) patches)"

subsection \<open>A tree patch\<close>

definition tree_revision :: "store \<Rightarrow> id \<Rightarrow> int" where
  "tree_revision s goalID = foldl max 0 (map tr_Revision (filter (\<lambda>r. tr_GoalID r = goalID) (s_trees s)))"

definition applyProposalTx ::
    "patch_library \<Rightarrow> env \<Rightarrow> approval_ctx \<Rightarrow> id \<Rightarrow> id \<Rightarrow> changes list \<Rightarrow> int option \<Rightarrow> int tx" where
  "applyProposalTx lib en ac userID proposalID patches expected =
    tx_bind (tx_try (\<lambda>s. find_pending s (\<lambda>_. True) userID proposalID)) (\<lambda>current.
    tx_bind (tx_try (\<lambda>s. RequireLiveGoalTx s userID (pr_GoalID current))) (\<lambda>goal.
    tx_bind (tx_check (g_Status goal = ''active'') ErrConflict) (\<lambda>_.
    tx_bind (tx_read (\<lambda>s. tree_revision s (pr_GoalID current))) (\<lambda>revision.
    tx_bind (tx_check (\<not> (expected \<noteq> None \<and> revision \<noteq> the expected)) ErrRevision) (\<lambda>_.
    tx_bind (tx_check (\<not> (pr_BaseRevision current > 0 \<and> pr_BaseRevision current \<noteq> revision)) ErrRevision) (\<lambda>_.
    tx_bind (load_live_tree userID (pr_GoalID current)
      \<lparr>tp_ByID = [], tp_Parents = [], tp_Refs = [], tp_Created = 0\<rparr>) (\<lambda>st.
    tx_bind (apply_patches lib en userID (pr_GoalID current) 0 patches st) (\<lambda>st.
    tx_bind (snapshotTaskTree en userID (pr_GoalID current) ''agent proposal applied'' ''agent'') (\<lambda>_.
    tx_bind (refreshLifecycleScheduleTx en userID False) (\<lambda>_.
    tx_bind (settle_proposal en (pr_ID current) (pr_Revision current) ''applied'') (\<lambda>_.
    tx_bind (recordAppliedApprovalTx lib en ac userID (pr_ID current) (pr_GoalID current)) (\<lambda>_.
    tx_bind (createOutbox en userID ''task_tree.proposal_applied''
      [(''proposal_id'', PText (pr_ID current)), (''goal_id'', PText (pr_GoalID current))]) (\<lambda>_.
    tx_return (tp_Created st))))))))))))))"

definition ApplyProposal ::
    "patch_library \<Rightarrow> env \<Rightarrow> approval_ctx \<Rightarrow> id \<Rightarrow> id \<Rightarrow> changes list \<Rightarrow> int option \<Rightarrow> int tx" where
  "ApplyProposal lib en ac userID proposalID patches expected =
    tx_bind (guardApprovalTx ac userID) (\<lambda>_. applyProposalTx lib en ac userID proposalID patches expected)"

end
