(* ===== verification/Plan_Proposals.thy ===== *)
theory Plan_Proposals
  imports Proposals
begin

text \<open>
  The proposals that are not tree patches: a new goal with its first tasks and an edited goal
  (\<open>ApplyGoalWithTasks\<close>, \<open>ApplyGoalUpdateProposal\<close> of \<open>application/agentgoal.go\<close>), and the plan of a day
  (\<open>ApplyDailyPlanProposal\<close>, \<open>markProposalApplied\<close>, \<open>buildAgentPlanItem\<close> of \<open>application/agentdailyplan.go\<close>).
\<close>

subsection \<open>A new goal\<close>

text \<open>The payload read into its struct and written back, as the arguments the shape check reads.\<close>

definition goal_with_tasks_args :: "json \<Rightarrow> changes result" where
  "goal_with_tasks_args v =
    bind_r (dec_object v) (\<lambda>kvs.
    bind_r (dec_string (obj_get kvs ''title'')) (\<lambda>title.
    bind_r (dec_string (obj_get kvs ''description'')) (\<lambda>description.
    bind_r (dec_string (obj_get kvs ''success_criteria'')) (\<lambda>criteria.
    bind_r (dec_string (obj_get kvs ''shortfall_reason'')) (\<lambda>shortfall.
    bind_r (dec_list dec_map (obj_get kvs ''nodes'')) (\<lambda>ns.
    Inr [(''title'', AnyString title), (''description'', AnyString description),
      (''success_criteria'', AnyString criteria), (''shortfall_reason'', AnyString shortfall),
      (''nodes'', case ns of None \<Rightarrow> AnyNil
        | Some ms \<Rightarrow> AnyList (map (\<lambda>m. case m of None \<Rightarrow> AnyNil | Some kvs \<Rightarrow> any_of_json (JObject kvs)) ms))]))))))"

definition decode_text :: "patch_library \<Rightarrow> string \<Rightarrow> (json \<Rightarrow> 'a result) \<Rightarrow> 'a result" where
  "decode_text lib t f = (case al_decode (pl_agent lib) t of None \<Rightarrow> Inl ErrJSON | Some v \<Rightarrow> f v)"

definition or_validation :: "'a result \<Rightarrow> 'a result" where
  "or_validation r = (case r of Inl _ \<Rightarrow> Inl ErrValidation | Inr a \<Rightarrow> Inr a)"

text \<open>The first active goal of a user becomes the primary one.\<close>

definition primary_goal_tx :: "env \<Rightarrow> id \<Rightarrow> id \<Rightarrow> unit tx" where
  "primary_goal_tx en userID goalID =
    tx_bind (tx_read (\<lambda>s. planningSettingsTx s userID)) (\<lambda>settings.
    if ps_Revision settings = 0
    then tx_create s_settings (\<lambda>rows s. s\<lparr>s_settings := rows\<rparr>) ps_UserID
      (settings\<lparr>ps_PrimaryGoalID := Some goalID, ps_Revision := 1, ps_CreatedAt := env_now en, ps_UpdatedAt := env_now en\<rparr>)
    else
      tx_bind (tx_update s_settings (\<lambda>rows s. s\<lparr>s_settings := rows\<rparr>)
        (\<lambda>p. ps_UserID p = userID \<and> ps_Revision p = ps_Revision settings)
        (\<lambda>p. p\<lparr>ps_PrimaryGoalID := Some goalID, ps_Revision := ps_Revision settings + 1, ps_UpdatedAt := env_now en\<rparr>)) (\<lambda>_.
      tx_return ()))"

definition ApplyGoalWithTasks ::
    "patch_library \<Rightarrow> env \<Rightarrow> approval_ctx \<Rightarrow> id \<Rightarrow> id \<Rightarrow> id \<Rightarrow> (goal \<times> int) tx" where
  "ApplyGoalWithTasks lib en ac userID proposalID threadID =
    tx_bind (guardApprovalTx ac userID) (\<lambda>_.
    tx_bind (tx_try (\<lambda>s. find_pending s (\<lambda>p. pr_Kind p = ''goal_with_tasks'' \<and> pr_GoalID p = []) userID proposalID)) (\<lambda>current.
    tx_bind (tx_try (\<lambda>_. or_validation (decode_text lib (pr_PatchJSON current) goal_with_tasks_args))) (\<lambda>args.
    tx_bind (tx_try (\<lambda>_. case normalizeGoalWithTasks lib args of None \<Rightarrow> Inl ErrValidation | Some p \<Rightarrow> Inr p)) (\<lambda>payload.
    tx_bind (tx_try (\<lambda>s. not_found (first_row
      (filter (\<lambda>t. owned_thread userID threadID t \<and> th_Status t = ''regular'') (s_threads s))))) (\<lambda>thread.
    tx_bind (tx_read (\<lambda>s. filter (active_goal userID) (s_goals s) = [])) (\<lambda>no_goal.
    tx_bind (createGoalTx en userID (zero_goal\<lparr>g_Title := gp_Title payload, g_Description := gp_Description payload,
      g_SuccessCriteria := gp_SuccessCriteria payload\<rparr>)) (\<lambda>goal.
    tx_bind (tx_update s_proposals put_proposals
      (\<lambda>p. pr_ID p = pr_ID current \<and> pr_Status p = ''pending'' \<and> pr_GoalID p = []) (\<lambda>p. p\<lparr>pr_GoalID := g_ID goal\<rparr>)) (\<lambda>_.
    tx_bind (applyProposalTx lib en ac userID (pr_ID current) (gp_Nodes payload) (Some 0)) (\<lambda>created.
    tx_bind (if no_goal then primary_goal_tx en userID (g_ID goal) else tx_return ()) (\<lambda>_.
    tx_bind (tx_update s_threads put_threads (\<lambda>t. th_ID t = th_ID thread)
      (\<lambda>t. t\<lparr>th_GoalID := Some (g_ID goal), th_UpdatedAt := env_now en\<rparr>)) (\<lambda>_.
    tx_bind (tx_try (\<lambda>s. find_active_user s userID)) (\<lambda>u.
    let (loc, zone) = resolveZone (env_zones en) [u_Timezone u]
    in tx_bind (refreshScheduleTx en u (format_local loc (env_now en)) loc zone) (\<lambda>_.
       tx_return (goal, created))))))))))))))"

subsection \<open>An edited goal\<close>

definition goal_update_changes :: "json \<Rightarrow> changes result" where
  "goal_update_changes v =
    bind_r (dec_object v) (\<lambda>kvs. bind_r (dec_map (obj_get kvs ''changes'')) (\<lambda>m.
      case m of None \<Rightarrow> Inr [] | Some cs \<Rightarrow> Inr (map (\<lambda>kv. (fst kv, any_of_json (snd kv))) cs)))"

definition ApplyGoalUpdateProposal ::
    "patch_library \<Rightarrow> env \<Rightarrow> approval_ctx \<Rightarrow> id \<Rightarrow> id \<Rightarrow> goal tx" where
  "ApplyGoalUpdateProposal lib en ac userID proposalID =
    tx_bind (guardApprovalTx ac userID) (\<lambda>_.
    tx_bind (tx_try (\<lambda>s. find_pending s (\<lambda>p. pr_Kind p = ''goal_update'') userID proposalID)) (\<lambda>current.
    tx_bind (tx_try (\<lambda>_. or_validation (decode_text lib (pr_PatchJSON current) goal_update_changes))) (\<lambda>changed.
    tx_bind (tx_check (changed \<noteq> []) ErrValidation) (\<lambda>_.
    tx_bind (updateGoalTx en userID (pr_GoalID current) (pr_BaseRevision current) changed) (\<lambda>goal.
    tx_bind (settle_proposal en (pr_ID current) (pr_Revision current) ''applied'') (\<lambda>_.
    tx_bind (recordAppliedApprovalTx lib en ac userID (pr_ID current) (pr_GoalID current)) (\<lambda>_.
    tx_return goal)))))))"

subsection \<open>The plan of a day\<close>

text \<open>A missing baseline belongs to a proposal older than the protection; the empty one says there was no plan.\<close>

record plan_payload =
  dp_LocalDate :: string
  dp_Timezone :: string
  dp_AvailableMinutes :: int
  dp_Candidates :: "plan_candidate list"
  dp_BasePlan :: "(id \<times> int) option"

definition plan_candidate_of_json :: "json \<Rightarrow> plan_candidate result" where
  "plan_candidate_of_json v =
    bind_r (dec_object v) (\<lambda>kvs.
    bind_r (dec_string (obj_get kvs ''task_id'')) (\<lambda>k.
    bind_r (dec_string (obj_get kvs ''minimum_action'')) (\<lambda>first_step.
    bind_r (dec_string (obj_get kvs ''commitment'')) (\<lambda>commitment.
    bind_r (dec_string (obj_get kvs ''reason'')) (\<lambda>reason.
    Inr \<lparr>pc_TaskID = k, pc_MinimumAction = first_step, pc_Commitment = commitment, pc_Reason = reason\<rparr>)))))"

definition base_plan_of_json :: "json \<Rightarrow> (id \<times> int) option result" where
  "base_plan_of_json v =
    (if v = JNull then Inr None
     else bind_r (dec_object v) (\<lambda>kvs.
       bind_r (dec_string (obj_get kvs ''plan_id'')) (\<lambda>k.
       bind_r (dec_int (obj_get kvs ''revision'')) (\<lambda>n. Inr (Some (k, n))))))"

definition plan_payload_of_json :: "json \<Rightarrow> plan_payload result" where
  "plan_payload_of_json v =
    bind_r (dec_object v) (\<lambda>kvs.
    bind_r (dec_string (obj_get kvs ''local_date'')) (\<lambda>date.
    bind_r (dec_string (obj_get kvs ''timezone'')) (\<lambda>zone.
    bind_r (dec_int (obj_get kvs ''available_minutes'')) (\<lambda>available.
    bind_r (dec_list plan_candidate_of_json (obj_get kvs ''candidates'')) (\<lambda>cs.
    bind_r (base_plan_of_json (obj_get kvs ''base_plan'')) (\<lambda>base.
    Inr \<lparr>dp_LocalDate = date, dp_Timezone = zone, dp_AvailableMinutes = available,
      dp_Candidates = (case cs of None \<Rightarrow> [] | Some cs \<Rightarrow> cs), dp_BasePlan = base\<rparr>))))))"

definition payload_zone :: "env \<Rightarrow> store \<Rightarrow> id \<Rightarrow> plan_payload \<Rightarrow> string result" where
  "payload_zone en s userID payload =
    (let zone = trim_space (dp_Timezone payload)
     in if zone \<noteq> [] then Inr zone
        else bind_r (find_user s userID) (\<lambda>u. Inr (snd (resolveZone (env_zones en) [u_Timezone u]))))"

definition payload_date :: "env \<Rightarrow> string \<Rightarrow> plan_payload \<Rightarrow> string result" where
  "payload_date en zone payload =
    (let date = trim_space (dp_LocalDate payload)
     in case env_zones en zone of
          None \<Rightarrow> Inl ErrValidation
        | Some loc \<Rightarrow>
            if date = [] then Inr (format_local loc (env_now en))
            else bind_r (ParseDateInZone (env_zones en) date zone) (\<lambda>_. Inr date))"

text \<open>The map \<open>agentByTask\<close>: a later candidate of a task replaces an earlier one.\<close>

definition agent_by_task :: "plan_candidate list \<Rightarrow> id \<Rightarrow> plan_candidate" where
  "agent_by_task cs k = gomap_get \<lparr>pc_TaskID = [], pc_MinimumAction = [], pc_Commitment = [], pc_Reason = []\<rparr>
    (rev (map (\<lambda>c. (pc_TaskID c, c)) cs)) k"

definition agent_first_step :: "plan_candidate \<Rightarrow> task \<Rightarrow> string" where
  "agent_first_step c t = (if pc_MinimumAction c \<noteq> [] then pc_MinimumAction c else t_MinimumAction t)"

definition buildAgentPlanItem :: "env \<Rightarrow> id \<Rightarrow> id \<Rightarrow> id \<Rightarrow> int \<Rightarrow> int \<Rightarrow> task \<Rightarrow> plan_candidate \<Rightarrow> plan_item" where
  "buildAgentPlanItem en k userID planID revision position t c =
    (let first_step = agent_first_step c t; commitment = trim_space (pc_Commitment c)
     in \<lparr>i_ID = k, i_LogicalID = k, i_UserID = userID, i_PlanID = planID, i_TaskID = Some (t_ID t), i_Kind = ''core'',
         i_Title = t_Title t, i_Commitment = (if commitment = [] then first_step else commitment),
         i_MinimumAction = first_step, i_AllowedTypes = ''result,step,time,minimum_action'', i_Status = ''planned'',
         i_CompletionType = [], i_CompletionSummary = [], i_PlanRevision = revision,
         i_TargetMinutes = planningTargetMinutes defaultDailyBudget, i_Position = position, i_Revision = 1,
         i_CreatedAt = env_now en, i_UpdatedAt = env_now en\<rparr>)"

definition agent_candidate :: "plan_candidate list \<Rightarrow> task \<Rightarrow> candidate" where
  "agent_candidate cs t = \<lparr>c_ID = t_ID t, c_Status = t_Status t, c_Priority = t_Priority t, c_Position = t_Position t,
     c_Estimate = t_EstimateMinutes t, c_MinimumAction = agent_first_step (agent_by_task cs (t_ID t)) t,
     c_GoalActive = True, c_DependencyDone = True\<rparr>"

text \<open>The items of the selected candidates, with the identity of an earlier item of the task.\<close>

fun agent_items ::
    "env \<Rightarrow> id \<Rightarrow> id \<Rightarrow> int \<Rightarrow> int \<Rightarrow> int \<Rightarrow> (id, id) gomap \<Rightarrow> task_index \<Rightarrow> plan_candidate list \<Rightarrow>
     candidate list \<Rightarrow> plan_item list tx" where
  "agent_items en userID planID revision position target logical byID cs [] = tx_return []"
| "agent_items en userID planID revision position target logical byID cs (c # chosen) =
    (let t = gomap_get zero_task byID (c_ID c)
     in tx_bind (NewID en ''dpi'') (\<lambda>k.
        tx_bind (tx_read (\<lambda>s.
          let known = gomap_get [] logical (t_ID t)
          in if known = [] then historicalLogicalItemIDTx s userID planID (t_ID t) else known)) (\<lambda>logicalID.
        let item = (buildAgentPlanItem en k userID planID revision position t (agent_by_task cs (t_ID t)))\<lparr>
              i_TargetMinutes := target, i_LogicalID := (if logicalID \<noteq> [] then logicalID else k)\<rparr>
        in tx_bind (agent_items en userID planID revision (position + 1) target logical byID cs chosen) (\<lambda>items.
           tx_return (item # items)))))"

definition markProposalApplied :: "patch_library \<Rightarrow> env \<Rightarrow> approval_ctx \<Rightarrow> proposal option \<Rightarrow> unit tx" where
  "markProposalApplied lib en ac proposal =
    (case proposal of
       None \<Rightarrow> tx_return ()
     | Some p \<Rightarrow>
         tx_bind (settle_proposal en (pr_ID p) (pr_Revision p) ''applied'') (\<lambda>_.
         recordAppliedApprovalTx lib en ac (pr_UserID p) (pr_ID p) (pr_GoalID p)))"

text \<open>The plan the user saw has to be the one that is replaced; a proposal always carries its baseline.\<close>

definition base_plan_holds :: "proposal option \<Rightarrow> (id \<times> int) option \<Rightarrow> daily_plan option \<Rightarrow> bool" where
  "base_plan_holds proposal base existing \<longleftrightarrow>
    (case base of
       None \<Rightarrow> proposal = None
     | Some (k, n) \<Rightarrow> (case existing of
         None \<Rightarrow> k = [] \<and> n = 0
       | Some plan \<Rightarrow> k = p_ID plan \<and> n = p_Revision plan))"

text \<open>The items kept of the plan that is replaced, with the identities of all its items.\<close>

definition keep_protected :: "env \<Rightarrow> id \<Rightarrow> daily_plan option \<Rightarrow> (plan_item list \<times> (id, id) gomap) tx" where
  "keep_protected en userID existing =
    (case existing of
       None \<Rightarrow> tx_return ([], [])
     | Some plan \<Rightarrow>
         tx_bind (tx_read (\<lambda>s. plan_items_by_position s plan)) (\<lambda>oldItems.
         tx_bind (tx_try (\<lambda>s. protectedPlanItemsTx s userID plan oldItems)) (\<lambda>protected.
         tx_bind (replan_items en userID plan (p_CurrentRevision plan + 1) protected oldItems) (\<lambda>kept.
         tx_return (kept, logical_by_task oldItems)))))"

definition agent_selection :: "plan_candidate list \<Rightarrow> task list \<Rightarrow> plan_item list \<Rightarrow> int \<Rightarrow> candidate list" where
  "agent_selection cs ts kept resolved =
    (let (_, coreSlots, _) = remainingPlanBudget kept resolved;
         retained = set (List.map_filter i_TaskID kept)
     in take (nat coreSlots)
          (SelectDailyCandidates (map (agent_candidate cs) (filter (\<lambda>t. t_ID t \<notin> retained) ts)) resolved))"

definition write_agent_plan ::
    "patch_library \<Rightarrow> env \<Rightarrow> approval_ctx \<Rightarrow> id \<Rightarrow> proposal option \<Rightarrow> string \<Rightarrow> string \<Rightarrow> id \<Rightarrow> plan_input \<Rightarrow>
     plan_item list \<Rightarrow> daily_plan option \<Rightarrow> daily_plan tx" where
  "write_agent_plan lib en ac userID proposal date zone planID inp items existing =
    (case existing of
       Some old \<Rightarrow>
         let newRevision = p_CurrentRevision old + 1;
             plan = freezePlanWithCore en (old\<lparr>p_ManualItemsRemoved := False, p_CurrentRevision := newRevision,
               p_Revision := p_Revision old + 1, p_Status := ''active'', p_UpdatedAt := env_now en\<rparr>) (hasCoreItem items)
         in tx_bind (tx_each create_item items) (\<lambda>_.
            tx_bind (record_revision en (p_ID old) newRevision inp items ''agent proposal replan'') (\<lambda>_.
            tx_bind (update_plan (p_ID old) (p_Revision old) (\<lambda>p. p\<lparr>p_CurrentRevision := newRevision,
              p_Revision := p_Revision old + 1, p_Status := ''active'', p_UpdatedAt := env_now en,
              p_FrozenAt := p_FrozenAt plan, p_ManualItemsRemoved := False\<rparr>)) (\<lambda>one.
            tx_bind (tx_check one ErrRevision) (\<lambda>_.
            tx_bind (markProposalApplied lib en ac proposal) (\<lambda>_.
            tx_bind (createOutbox en userID ''daily_plan.replanned''
              [(''plan_id'', PText (p_ID old)), (''revision'', PInt newRevision)]) (\<lambda>_.
            tx_return plan))))))
     | None \<Rightarrow>
         let today = format_local (the (env_zones en zone)) (env_now en);
             plan = (new_plan planID userID date zone (env_now en))\<lparr>p_AlgorithmVersion := ''deterministic-v1'',
               p_FrozenAt := (if date \<le> today \<and> items \<noteq> [] then Some (env_now en) else None)\<rparr>
         in tx_bind (create_plan_or_conflict plan) (\<lambda>_.
            tx_bind (tx_each create_item items) (\<lambda>_.
            tx_bind (record_revision en planID 1 inp items ''agent proposal'') (\<lambda>_.
            tx_bind (markProposalApplied lib en ac proposal) (\<lambda>_.
            tx_bind (createOutbox en userID ''daily_plan.created'' [(''plan_id'', PText planID)]) (\<lambda>_.
            tx_return plan))))))"

definition ApplyDailyPlanProposal ::
    "patch_library \<Rightarrow> env \<Rightarrow> approval_ctx \<Rightarrow> id \<Rightarrow> proposal option \<Rightarrow> plan_payload \<Rightarrow> (daily_plan \<times> plan_item list) tx" where
  "ApplyDailyPlanProposal lib en ac userID proposal payload =
    tx_bind (tx_check (dp_Candidates payload \<noteq> []) ErrValidation) (\<lambda>_.
    tx_bind (tx_check (\<not> (dp_AvailableMinutes payload \<noteq> 0 \<and>
      (dp_AvailableMinutes payload < 30 \<or> dp_AvailableMinutes payload > 480))) ErrValidation) (\<lambda>_.
    tx_bind (tx_try (\<lambda>s. payload_zone en s userID payload)) (\<lambda>zone.
    tx_bind (tx_try (\<lambda>_. payload_date en zone payload)) (\<lambda>date.
    tx_bind (guardApprovalTx ac userID) (\<lambda>_.
    tx_bind (tx_read (\<lambda>s. eligiblePlanningTasksTx s userID (map pc_TaskID (dp_Candidates payload)))) (\<lambda>(ts, settings).
    tx_bind (tx_check (ts \<noteq> []) ErrValidation) (\<lambda>_.
    tx_bind (tx_try (\<lambda>_. resolvePlanningBudget (dp_AvailableMinutes payload) settings)) (\<lambda>resolved.
    tx_bind (tx_read (\<lambda>s. planningTaskIndexTx s userID)) (\<lambda>scopeTasks.
    tx_bind (tx_read (\<lambda>s. case find_dated_plan s userID date zone of Inl _ \<Rightarrow> None | Inr plan \<Rightarrow> Some plan)) (\<lambda>existing.
    tx_bind (tx_check (case existing of None \<Rightarrow> True | Some plan \<Rightarrow> p_Status plan = ''active'') ErrConflict) (\<lambda>_.
    tx_bind (tx_check (base_plan_holds proposal (dp_BasePlan payload) existing) ErrRevision) (\<lambda>_.
    tx_bind (keep_protected en userID existing) (\<lambda>(kept, logical).
    tx_bind (case existing of None \<Rightarrow> NewID en ''plan'' | Some plan \<Rightarrow> tx_return (p_ID plan)) (\<lambda>planID.
    let (_, _, target) = remainingPlanBudget kept resolved;
        chosen = agent_selection (dp_Candidates payload) ts kept resolved;
        byID = index_tasks ts;
        revision = (case existing of None \<Rightarrow> 1 | Some plan \<Rightarrow> p_CurrentRevision plan + 1);
        inp = no_input\<lparr>in_Source := ''agent_proposal'', in_LocalDate := date, in_AvailableMinutes := resolved,
          in_Candidates := dp_Candidates payload, in_Algorithm := ''deterministic-v1'',
          in_Scopes := selected_scopes scopeTasks (map (\<lambda>c. gomap_get zero_task byID (c_ID c)) chosen)\<rparr>
    in tx_bind (agent_items en userID planID revision (next_position kept) target logical byID
         (dp_Candidates payload) chosen) (\<lambda>added.
       tx_bind (write_agent_plan lib en ac userID proposal date zone planID inp (kept @ added) existing) (\<lambda>plan.
       tx_return (plan, kept @ added)))))))))))))))))"

end
