(* ===== verification/Agent_Harness.thy ===== *)
theory Agent_Harness
  imports Agent_Sessions
begin

text \<open>
  The host that drives a run: its capability tokens (\<open>application/harness.go\<close>), the end of a run by
  completion, cancellation or loss of the host (\<open>application/harnesslifecycle.go\<close>), and the state a
  client restores from (\<open>application/agentthread.go\<close>). A fresh token is an argument, the random text the
  code draws; the digest of the tool manifest and the credentials are part of \<open>agent_service\<close>. The
  number of runs the reaper returns beside an error is left out.
\<close>

subsection \<open>Tuning\<close>

definition harnessTokenTTL :: int where "harnessTokenTTL = 30 * minute"

definition harnessRenewBelow :: int where "harnessRenewBelow = 10 * minute"

definition HarnessHeartbeatLoss :: int where "HarnessHeartbeatLoss = 45 * second"

definition harnessPickupGrace :: int where "harnessPickupGrace = 60 * second"

definition HarnessCancelGrace :: int where "HarnessCancelGrace = 5 * second"

definition InstructionsLimit :: nat where "InstructionsLimit = 64 * 1024"

definition LibfxVersion :: string where "LibfxVersion = ''0.0.10''"

definition ApprovalWaitLimit :: int where "ApprovalWaitLimit = 15 * minute"

definition rotationGrace :: int where "rotationGrace = 30 * second"

record harness_principal =
  hp_TokenID :: id
  hp_UserID :: id
  hp_ThreadID :: id
  hp_RunID :: id
  hp_Mode :: string

record run_grant =
  rg_HarnessToken :: string
  rg_Prompt :: string
  rg_RunID :: id
  rg_ThreadID :: id
  rg_Model :: string
  rg_Instructions :: string
  rg_ToolsETag :: string
  rg_ExpiresAt :: time
  rg_HeartbeatIntervalS :: int
  rg_LibfxVersion :: string
  rg_Reasoning :: string
  rg_ContextDegraded :: bool

record heartbeat_reply =
  hb_CancelRequested :: bool
  hb_RunStatus :: string
  hb_ExpiresAt :: time
  hb_HarnessToken :: string

subsection \<open>Issuing a token\<close>

definition truncateInstructions :: "agent_library \<Rightarrow> string \<Rightarrow> string" where
  "truncateInstructions lib s =
    (if length s \<le> InstructionsLimit then s
     else take (rune_boundary s (InstructionsLimit - length (al_cut_marker lib))) s @ al_cut_marker lib)"

definition IsTerminalRunStatus :: "string \<Rightarrow> bool" where
  "IsTerminalRunStatus status = terminal_status status"

definition token_row :: "env \<Rightarrow> agent_library \<Rightarrow> agent_service \<Rightarrow> agent_run \<Rightarrow> string \<Rightarrow> harness_token" where
  "token_row en lib svc run plaintext =
    \<lparr>ht_Generation = [], ht_NextTokenCipher = [], ht_RotationUntil = None, ht_ID = [], ht_TokenHash = al_hash lib plaintext,
     ht_UserID = ar_UserID run, ht_ThreadID = ar_ThreadID run, ht_RunID = ar_ID run, ht_Mode = ar_HarnessMode run,
     ht_ToolsETag = as_ToolsETag svc, ht_ExpiresAt = env_now en + harnessTokenTTL, ht_LastHeartbeatAt = None, ht_RevokedAt = None,
     ht_CreatedAt = env_now en\<rparr>"

text \<open>The transaction of a grant: the older tokens of the run end, and a queued run starts.\<close>

definition grant_tx :: "agent_service \<Rightarrow> agent_library \<Rightarrow> env \<Rightarrow> agent_run \<Rightarrow> string \<Rightarrow> unit tx" where
  "grant_tx svc lib en run plaintext =
    tx_bind (tx_try (GetRun (ar_UserID run) (ar_ID run))) (\<lambda>fresh.
    tx_bind (tx_check (\<not> (IsTerminalRunStatus (ar_Status fresh) \<or> ar_CancelRequested fresh)) ErrRunNotActive) (\<lambda>_.
    tx_bind (RevokeHarnessTokensForRun en (ar_ID run)) (\<lambda>_.
    tx_bind (CreateHarnessToken en (token_row en lib svc run plaintext)) (\<lambda>_.
    if ar_Status fresh = ''queued''
    then UpdateRun en (ar_UserID run) (ar_ID run) (\<lambda>r. r\<lparr>ar_Status := ''running'', ar_StartedAt := Some (env_now en)\<rparr>)
    else tx_return ()))))"

definition grant_check :: "agent_service \<Rightarrow> agent_run \<Rightarrow> string \<Rightarrow> bool \<Rightarrow> model_credentials result" where
  "grant_check svc run etag browserOnly =
    bind_r (guard_r (\<not> IsTerminalRunStatus (ar_Status run)) ErrRunNotActive) (\<lambda>_.
    bind_r (guard_r (browserOnly \<longrightarrow> ar_HarnessMode run = ''wasm'') ErrHarnessUnavailable) (\<lambda>_.
    bind_r (guard_r (ar_HarnessMode run = ''wasm'' \<or> ar_HarnessMode run = ''sidecar'') ErrHarnessUnavailable) (\<lambda>_.
    bind_r (as_Credentials svc) (\<lambda>creds.
    case creds of
      None \<Rightarrow> Inl ErrHarnessUnavailable
    | Some c \<Rightarrow> if \<not> usable_credentials creds then Inl ErrHarnessUnavailable
        else if trim_space etag \<noteq> [] \<and> trim_space etag \<noteq> as_ToolsETag svc then Inl ErrToolsETagStale
        else Inr c))))"

definition issueRunGrant ::
    "agent_service \<Rightarrow> agent_library \<Rightarrow> env \<Rightarrow> string \<Rightarrow> id \<Rightarrow> id \<Rightarrow> string \<Rightarrow> bool \<Rightarrow> run_grant op" where
  "issueRunGrant svc lib en plaintext userID runID etag browserOnly =
    op_bind (op_tx (tx_try (GetRun userID runID))) (\<lambda>run.
    op_bind (op_tx (tx_try (\<lambda>_. grant_check svc run etag browserOnly))) (\<lambda>creds.
    op_bind (op_tx (grant_tx svc lib en run plaintext)) (\<lambda>_.
    op_bind (op_tx (tx_try (GetThread (ar_UserID run) (ar_ThreadID run)))) (\<lambda>_.
    op_bind (op_tx (tx_try (runPromptText lib run))) (\<lambda>prompt.
    op_return \<lparr>rg_HarnessToken = plaintext, rg_Prompt = prompt, rg_RunID = ar_ID run, rg_ThreadID = ar_ThreadID run,
      rg_Model = mc_Model creds, rg_Instructions = truncateInstructions lib (as_SystemPrompt svc), rg_ToolsETag = as_ToolsETag svc,
      rg_ExpiresAt = env_now en + harnessTokenTTL, rg_HeartbeatIntervalS = 10, rg_LibfxVersion = LibfxVersion,
      rg_Reasoning = as_Reasoning svc, rg_ContextDegraded = False\<rparr>)))))"

subsection \<open>Presenting a token\<close>

definition validTokenRow :: "env \<Rightarrow> harness_token \<Rightarrow> bool" where
  "validTokenRow en t = usable_token (env_now en) t"

definition bearer_text :: "string \<Rightarrow> string option" where
  "bearer_text authorization = map_option trim_space (cut_prefix ''Bearer '' (trim_space authorization))"

definition AuthenticateHarness :: "agent_library \<Rightarrow> env \<Rightarrow> string \<Rightarrow> store \<Rightarrow> harness_principal result" where
  "AuthenticateHarness lib en authorization s =
    (case bearer_text authorization of
       None \<Rightarrow> Inl ErrHarnessToken
     | Some plaintext \<Rightarrow>
         if plaintext = [] then Inl ErrHarnessToken
         else (case GetHarnessTokenByHash (al_hash lib plaintext) s of
             Inl _ \<Rightarrow> Inl ErrHarnessToken
           | Inr t \<Rightarrow>
               if \<not> validTokenRow en t then Inl ErrHarnessToken
               else (case GetRun (ht_UserID t) (ht_RunID t) s of
                   Inl _ \<Rightarrow> Inl ErrHarnessToken
                 | Inr run \<Rightarrow> if IsTerminalRunStatus (ar_Status run) then Inl ErrHarnessToken
                     else Inr \<lparr>hp_TokenID = ht_ID t, hp_UserID = ht_UserID t, hp_ThreadID = ht_ThreadID t, hp_RunID = ht_RunID t,
                       hp_Mode = ht_Mode t\<rparr>)))"

text \<open>A token close to its end is replaced; one that was replaced already hands out the same successor.\<close>

definition renewed_row :: "env \<Rightarrow> agent_library \<Rightarrow> harness_principal \<Rightarrow> harness_token \<Rightarrow> string \<Rightarrow> harness_token" where
  "renewed_row en lib p old plaintext =
    \<lparr>ht_Generation = ht_Generation old, ht_NextTokenCipher = [], ht_RotationUntil = None, ht_ID = [], ht_TokenHash = al_hash lib plaintext,
     ht_UserID = hp_UserID p, ht_ThreadID = hp_ThreadID p, ht_RunID = hp_RunID p, ht_Mode = hp_Mode p, ht_ToolsETag = ht_ToolsETag old,
     ht_ExpiresAt = env_now en + harnessTokenTTL, ht_LastHeartbeatAt = None, ht_RevokedAt = None, ht_CreatedAt = env_now en\<rparr>"

definition renewToken :: "agent_library \<Rightarrow> env \<Rightarrow> string \<Rightarrow> harness_principal \<Rightarrow> (string \<times> time) tx" where
  "renewToken lib en fresh p =
    tx_bind (tx_try (GetHarnessToken (hp_TokenID p))) (\<lambda>old.
    tx_bind (tx_check (validTokenRow en old) ErrHarnessToken) (\<lambda>_.
    if ht_NextTokenCipher old \<noteq> [] then
      tx_bind (tx_try (\<lambda>_. al_decrypt lib (ht_NextTokenCipher old))) (\<lambda>plaintext.
      tx_bind (tx_try (GetHarnessTokenByHash (al_hash lib plaintext))) (\<lambda>successor.
      tx_bind (BeatHarnessToken (ht_ID successor) (env_now en)) (\<lambda>_.
      tx_return (plaintext, ht_ExpiresAt successor))))
    else
      tx_bind (tx_try (\<lambda>_. al_encrypt lib fresh)) (\<lambda>cipher.
      tx_bind (CreateHarnessToken en (renewed_row en lib p old fresh)) (\<lambda>_.
      tx_bind (tx_update s_tokens put_tokens (\<lambda>t. ht_ID t = ht_ID old \<and> ht_RevokedAt t = None)
        (\<lambda>t. t\<lparr>ht_RevokedAt := Some (env_now en), ht_RotationUntil := Some (env_now en + rotationGrace), ht_NextTokenCipher := cipher\<rparr>)) (\<lambda>_.
      tx_return (fresh, env_now en + harnessTokenTTL))))))"

definition HarnessHeartbeat :: "agent_library \<Rightarrow> env \<Rightarrow> string \<Rightarrow> harness_principal \<Rightarrow> heartbeat_reply op" where
  "HarnessHeartbeat lib en fresh p =
    op_bind (op_tx (tx_try (GetRun (hp_UserID p) (hp_RunID p)))) (\<lambda>run.
    op_bind (op_tx (tx_try (\<lambda>s. case GetHarnessToken (hp_TokenID p) s of Inl _ \<Rightarrow> Inl ErrHarnessToken
      | Inr t \<Rightarrow> if validTokenRow en t then Inr t else Inl ErrHarnessToken))) (\<lambda>old.
    let reply = \<lparr>hb_CancelRequested = ar_CancelRequested run, hb_RunStatus = ar_Status run, hb_ExpiresAt = ht_ExpiresAt old, hb_HarnessToken = []\<rparr>
    in if ht_RevokedAt old \<noteq> None then
         op_bind (op_tx (renewToken lib en fresh p)) (\<lambda>(renewed, expires).
         op_return (reply\<lparr>hb_HarnessToken := renewed, hb_ExpiresAt := expires\<rparr>))
       else op_bind (op_tx (BeatHarnessToken (hp_TokenID p) (env_now en))) (\<lambda>ok.
         if \<not> ok then op_fail ErrHarnessToken
         else op_bind (op_tx (tx_try (GetHarnessToken (hp_TokenID p)))) (\<lambda>t.
           if ht_ExpiresAt t - env_now en < harnessRenewBelow then
             op_bind (op_tx (renewToken lib en fresh p)) (\<lambda>(renewed, expires).
             op_return (if renewed = [] then reply\<lparr>hb_ExpiresAt := ht_ExpiresAt t\<rparr>
               else reply\<lparr>hb_HarnessToken := renewed, hb_ExpiresAt := expires\<rparr>))
           else op_return (reply\<lparr>hb_ExpiresAt := ht_ExpiresAt t\<rparr>)))))"

text \<open>Every endpoint of a host starts here.\<close>

definition activeRun :: "env \<Rightarrow> harness_principal \<Rightarrow> store \<Rightarrow> agent_run result" where
  "activeRun en p s =
    bind_r (if hp_TokenID p = [] then Inr ()
            else case GetHarnessToken (hp_TokenID p) s of
                Inl _ \<Rightarrow> Inl ErrHarnessToken | Inr t \<Rightarrow> guard_r (validTokenRow en t) ErrHarnessToken) (\<lambda>_.
    bind_r (GetRun (hp_UserID p) (hp_RunID p) s) (\<lambda>run.
    if ar_ThreadID run \<noteq> hp_ThreadID p then Inl ErrHarnessToken
    else if IsTerminalRunStatus (ar_Status run) then Inl ErrRunNotActive else Inr run))"

definition runWallClock :: "agent_service \<Rightarrow> int" where
  "runWallClock svc = (if as_WallClock svc > 0 then as_WallClock svc else 180 * second)"

definition wallClockExceeded :: "agent_service \<Rightarrow> agent_run \<Rightarrow> time \<Rightarrow> bool" where
  "wallClockExceeded svc run now \<longleftrightarrow>
    now - (case ar_StartedAt run of None \<Rightarrow> ar_CreatedAt run | Some t \<Rightarrow> t) - ar_ApprovalWaitMs run * 1000000 > runWallClock svc"

subsection \<open>The end of a run\<close>

text \<open>The transaction of the end: a run the user cancelled ends cancelled, whatever was asked for.\<close>

definition final_status :: "agent_run \<Rightarrow> string \<times> string \<times> string \<Rightarrow> string \<times> string \<times> string" where
  "final_status current wanted = (if ar_CancelRequested current then (''cancelled'', ''CANCELLED'', ''cancelled by user'') else wanted)"

definition final_mark :: "string \<Rightarrow> string \<Rightarrow> message_status" where
  "final_mark status reason =
    (if status = ''cancelled'' then IncompleteStatus ''cancelled''
     else if status = ''succeeded'' then CompleteStatus ''stop''
     else IncompleteStatus (if reason = [] then ''error'' else reason))"

definition emit_final :: "env \<Rightarrow> message_status \<Rightarrow> run_session option \<Rightarrow> unit tx" where
  "emit_final en st sess =
    (case sess of
       None \<Rightarrow> tx_return ()
     | Some ss \<Rightarrow> tx_bind (emitSet en ss (MessageStatusPath (ss_AssistantIdx ss)) (status_json st)) (\<lambda>ss.
         tx_bind (emitSet en ss IsRunningPath (JBool False)) (\<lambda>_. tx_return ())))"

definition finish_tx :: "env \<Rightarrow> run_session option \<Rightarrow> agent_run \<Rightarrow> string \<times> string \<times> string \<Rightarrow> string \<Rightarrow> unit tx" where
  "finish_tx en sess run wanted reason =
    tx_bind (tx_try (GetRun (ar_UserID run) (ar_ID run))) (\<lambda>current.
    if IsTerminalRunStatus (ar_Status current) then tx_return ()
    else case final_status current wanted of (status, code, message) \<Rightarrow>
      tx_bind (emit_final en (final_mark status reason) sess) (\<lambda>_.
      tx_bind (SetRunStatus en (ar_UserID run) (ar_ID run) status code message) (\<lambda>_.
      tx_bind (RevokeHarnessTokensForRun en (ar_ID run)) (\<lambda>_. tx_return ()))))"

definition finishRun :: "agent_library \<Rightarrow> env \<Rightarrow> agent_run \<Rightarrow> string \<times> string \<times> string \<Rightarrow> string \<Rightarrow> unit op" where
  "finishRun lib en run wanted reason =
    op_bind (op_tx (tx_read (\<lambda>s. loadRunSession lib s run))) (\<lambda>sess. op_tx (finish_tx en sess run wanted reason))"

definition cancelled_by_user :: "string \<times> string \<times> string" where
  "cancelled_by_user = (''cancelled'', ''CANCELLED'', ''cancelled by user'')"

definition CancelRunJob :: "env \<Rightarrow> id \<Rightarrow> id \<Rightarrow> unit op" where
  "CancelRunJob en userID runID =
    op_bind (op_tx (tx_try (GetRun userID runID))) (\<lambda>run.
    if ar_JobID run = [] then op_tx (UpdateRun en userID runID (\<lambda>r. r\<lparr>ar_CancelRequested := True\<rparr>))
    else op_tx (tx_write (\<lambda>s. s\<lparr>s_jobs := update_rows (\<lambda>j. j_ID j = ar_JobID run \<and> j_UserID j = userID)
      (\<lambda>j. j\<lparr>j_CancelRequested := True, j_UpdatedAt := env_now en\<rparr>) (s_jobs s)\<rparr>)))"

definition RequestCancellation :: "agent_library \<Rightarrow> env \<Rightarrow> id \<Rightarrow> id \<Rightarrow> unit op" where
  "RequestCancellation lib en userID runID =
    op_bind (op_tx (tx_try (GetRun userID runID))) (\<lambda>run.
    if IsTerminalRunStatus (ar_Status run) then op_return ()
    else if ar_HarnessMode run = [] then CancelRunJob en userID runID
    else op_bind (op_tx (RequestRunCancellation en userID runID)) (\<lambda>changed.
      if \<not> changed then op_return ()
      else op_bind (op_tx (tx_read (ActiveHarnessTokenForRun en runID))) (\<lambda>host.
        case host of
          Inr _ \<Rightarrow> op_return ()
        | Inl e \<Rightarrow> if e = ErrRecordNotFound then finishRun lib en run cancelled_by_user ''cancelled'' else op_fail e)))"

text \<open>
  \<open>strings.EqualFold\<close> against a lower-case ASCII word: the letters, and the two runes outside ASCII
  that fold to one, the long s and the Kelvin sign.
\<close>

fun fold_letters :: "string \<Rightarrow> string" where
  "fold_letters (a # b # c # s) =
    (if [a, b] = [CHR 0xC5, CHR 0xBF] then CHR ''s'' # fold_letters (c # s)
     else if [a, b, c] = [CHR 0xE2, CHR 0x84, CHR 0xAA] then CHR ''k'' # fold_letters s
     else (if 65 \<le> byte_value a \<and> byte_value a \<le> 90 then char_of (byte_value a + 32) else a) # fold_letters (b # c # s))"
| "fold_letters [a, b] =
    (if [a, b] = [CHR 0xC5, CHR 0xBF] then ''s''
     else map (\<lambda>x. if 65 \<le> byte_value x \<and> byte_value x \<le> 90 then char_of (byte_value x + 32) else x) [a, b])"
| "fold_letters [a] = [if 65 \<le> byte_value a \<and> byte_value a \<le> 90 then char_of (byte_value a + 32) else a]"
| "fold_letters [] = []"

record completion =
  co_StopReason :: string
  co_Checkpoint :: string
  co_LibfxVersion :: string

definition saveCheckpoint :: "env \<Rightarrow> harness_principal \<Rightarrow> completion \<Rightarrow> unit tx" where
  "saveCheckpoint en p c =
    (if co_Checkpoint c = [] then tx_return ()
     else SaveThreadCheckpoint en (hp_UserID p) (hp_ThreadID p) (co_Checkpoint c)
       (if co_LibfxVersion c = [] then LibfxVersion else co_LibfxVersion c) (Some (hp_RunID p)))"

text \<open>What a report of the host asks for, with the reason shown in the stream.\<close>

definition completion_outcome :: "agent_run \<Rightarrow> completion \<Rightarrow> (string \<times> string \<times> string) \<times> string" where
  "completion_outcome run c =
    (let stop = fold_letters (co_StopReason c)
     in if ar_CancelRequested run \<or> stop = ''cancelled'' then (cancelled_by_user, ''cancelled'')
        else if stop = ''error'' then ((''failed'', ''PROVIDER_ERROR'', ''the harness reported a failed turn''), ''error'')
        else if stop = ''stop'' \<or> stop = ''end_turn'' then
          (if ar_ModelCalls run = 0 \<or> ar_ModelVerifiedStop run \<noteq> ''stop'' \<or> ar_ModelInflight run \<noteq> []
           then ((''failed'', ''EMPTY_COMPLETION'', ''no completed model response''), ''error'')
           else ((''succeeded'', [], []), ''stop''))
        else ((''failed'', ''UNKNOWN_STOP_REASON'', ''unrecognized host stop reason''), ''error''))"

definition CompleteRun :: "agent_library \<Rightarrow> env \<Rightarrow> harness_principal \<Rightarrow> completion \<Rightarrow> unit op" where
  "CompleteRun lib en p c =
    op_bind (op_tx (tx_try (GetRun (hp_UserID p) (hp_RunID p)))) (\<lambda>run.
    if IsTerminalRunStatus (ar_Status run) then op_return ()
    else op_bind (op_tx (tx_try (\<lambda>s. case GetHarnessToken (hp_TokenID p) s of Inl _ \<Rightarrow> Inl ErrHarnessToken
        | Inr t \<Rightarrow> guard_r (validTokenRow en t) ErrHarnessToken))) (\<lambda>_.
      op_bind (op_tx (saveCheckpoint en p c)) (\<lambda>_.
      case completion_outcome run c of (wanted, reason) \<Rightarrow> finishRun lib en run wanted reason)))"

definition GetThreadCheckpoint :: "harness_principal \<Rightarrow> store \<Rightarrow> string result" where
  "GetThreadCheckpoint p s = bind_r (GetThread (hp_UserID p) (hp_ThreadID p) s) (\<lambda>_. Inr LibfxVersion)"

definition PutThreadCheckpoint :: "env \<Rightarrow> harness_principal \<Rightarrow> string \<Rightarrow> string \<Rightarrow> unit tx" where
  "PutThreadCheckpoint en p checkpoint version =
    SaveThreadCheckpoint en (hp_UserID p) (hp_ThreadID p) checkpoint
      (if trim_space version = [] then LibfxVersion else trim_space version) (Some (hp_RunID p))"

text \<open>The record of a run that never got as far as a host.\<close>

definition failHarnessRun :: "agent_service \<Rightarrow> agent_library \<Rightarrow> env \<Rightarrow> agent_run \<Rightarrow> string \<Rightarrow> string \<Rightarrow> unit op" where
  "failHarnessRun svc lib en run code message =
    op_bind (finishRun lib en run (''failed'', code, message) ''error'') (\<lambda>_.
    op_bind (announce_failure svc en \<lparr>rr_ID = ar_ID run, rr_ThreadID = ar_ThreadID run, rr_UserID = ar_UserID run\<rparr> code message) (\<lambda>_.
    op_fail ErrOther))"

subsection \<open>The reaper\<close>

definition overdue_approval :: "agent_service \<Rightarrow> time \<Rightarrow> agent_run \<Rightarrow> bool" where
  "overdue_approval svc now r \<longleftrightarrow> ar_Status r = ''awaiting_approval'' \<and>
    (case ar_ApprovalStartedAt r of None \<Rightarrow> False
     | Some t \<Rightarrow> t < now - (if as_ApprovalLimit svc > 0 then as_ApprovalLimit svc else ApprovalWaitLimit))"

fun reap_stale :: "agent_library \<Rightarrow> env \<Rightarrow> id list \<Rightarrow> stale_run list \<Rightarrow> nat op" where
  "reap_stale lib en seen [] = op_return 0"
| "reap_stale lib en seen (x # xs) =
    (if sr_RunID x \<in> set seen then reap_stale lib en seen xs
     else op_bind (op_tx (tx_read (GetRun (sr_UserID x) (sr_RunID x)))) (\<lambda>found.
       case found of
         Inl e \<Rightarrow> reap_stale lib en (sr_RunID x # seen) xs
       | Inr run \<Rightarrow>
           if IsTerminalRunStatus (ar_Status run) then reap_stale lib en (sr_RunID x # seen) xs
           else op_bind (finishRun lib en run (''interrupted'', ''INTERRUPTED'',
               if sr_Reason x = ''HARNESS_NEVER_STARTED'' then ''no harness host picked up the run''
               else ''harness host stopped responding'') ''error'') (\<lambda>_.
             op_bind (reap_stale lib en (sr_RunID x # seen) xs) (\<lambda>n. op_return (n + 1)))))"

definition ReapHarnessRuns :: "agent_service \<Rightarrow> agent_library \<Rightarrow> env \<Rightarrow> nat op" where
  "ReapHarnessRuns svc lib en =
    op_bind (op_tx (tx_read (ListStaleHarnessRuns (env_now en - HarnessHeartbeatLoss) (env_now en - harnessPickupGrace)))) (\<lambda>stale.
    op_bind (op_tx (tx_read (\<lambda>s. filter (overdue_approval svc (env_now en)) (s_runs s)))) (\<lambda>expired.
    op_bind (op_each (\<lambda>run. finishRun lib en run (''failed'', ''APPROVAL_TIMEOUT'', ''approval deadline exceeded'') ''error'') expired) (\<lambda>_.
    op_bind (reap_stale lib en [] stale) (\<lambda>lost.
    op_bind (op_tx (tx_read (ListCancellingRunsSince (env_now en - HarnessCancelGrace)))) (\<lambda>overdue.
    op_bind (op_each (\<lambda>run. finishRun lib en run cancelled_by_user ''cancelled'') overdue) (\<lambda>_.
    op_return (length expired + lost + length overdue)))))))"

definition PruneHarnessTokens :: "env \<Rightarrow> nat tx" where
  "PruneHarnessTokens en = DeleteExpiredHarnessTokens (env_now en - harnessTokenTTL)"

subsection \<open>Restoring a conversation\<close>

text \<open>A stored snapshot counts when it can be read and holds messages.\<close>

definition restored_state :: "json option \<Rightarrow> thread_state option" where
  "restored_state v =
    (case v of None \<Rightarrow> None
     | Some x \<Rightarrow> (case state_of_json x of Inl _ \<Rightarrow> None | Inr st \<Rightarrow> if slice_elems (ts_Messages st) = [] then None else Some st))"

definition latest_mark :: "string \<Rightarrow> message_status" where
  "latest_mark status =
    (if status = ''queued'' \<or> status = ''running'' then RunningStatus
     else if status = ''awaiting_approval'' then RequiresActionStatus
     else if status = ''failed'' \<or> status = ''cancelled'' \<or> status = ''interrupted'' then IncompleteStatus ''error''
     else CompleteStatus [])"

definition rebuilt_messages :: "agent_library \<Rightarrow> store \<Rightarrow> id \<Rightarrow> id \<Rightarrow> (agent_message \<Rightarrow> message_status) \<Rightarrow> message list" where
  "rebuilt_messages lib s userID threadID mark =
    map (\<lambda>m. toProtocolMessage lib s userID m (mark m)) (ListThreadMessages userID threadID s)"

text \<open>\<open>None\<close> when the user has never started a run.\<close>

definition LatestThreadState :: "agent_library \<Rightarrow> id \<Rightarrow> store \<Rightarrow> thread_state option" where
  "LatestThreadState lib userID s =
    (case LatestRun userID s of
       Inl _ \<Rightarrow> None
     | Inr run \<Rightarrow>
         let st = (case restored_state (ar_StateJSON run) of
             Some st \<Rightarrow> st
           | None \<Rightarrow> NewState\<lparr>ts_Messages := Some (rebuilt_messages lib s userID (ar_ThreadID run)
               (\<lambda>m. if am_Role m = ''assistant'' \<and> am_RunID m = ar_ID run then latest_mark (ar_Status run) else CompleteStatus []))\<rparr>)
         in Some (st\<lparr>ts_FastTask := (ts_FastTask st)\<lparr>ft_ThreadID := ar_ThreadID run, ft_HarnessMode := ar_HarnessMode run, ft_RunID := ar_ID run\<rparr>,
              ts_IsRunning := (ar_Status run = ''queued'' \<or> ar_Status run = ''running'')\<rparr>))"

definition thread_mark :: "string \<Rightarrow> message_status" where
  "thread_mark status =
    (if status = ''queued'' \<or> status = ''running'' \<or> status = ''cancelling'' then RunningStatus
     else if status = ''awaiting_approval'' then RequiresActionStatus else CompleteStatus [])"

definition ThreadState :: "agent_library \<Rightarrow> id \<Rightarrow> id \<Rightarrow> store \<Rightarrow> thread_state result" where
  "ThreadState lib userID threadID s =
    bind_r (GetThread userID threadID s) (\<lambda>thread.
    let ft = (ts_FastTask NewState)\<lparr>ft_ThreadID := th_ID thread, ft_ActiveGoalID := derefString (th_GoalID thread),
          ft_PendingProposals := Some (pendingProposals s userID threadID)\<rparr>
    in case GetActiveRunByThread userID threadID s of
         Inl _ \<Rightarrow> Inr (NewState\<lparr>ts_FastTask := ft, ts_Messages := Some (rebuilt_messages lib s userID threadID (\<lambda>_. CompleteStatus []))\<rparr>)
       | Inr run \<Rightarrow>
           let ft = ft\<lparr>ft_HarnessMode := ar_HarnessMode run, ft_RunID := (if ar_HarnessMode run = [] then [] else ar_ID run)\<rparr>;
               running = (ar_Status run = ''queued'' \<or> ar_Status run = ''running'' \<or> ar_Status run = ''cancelling'')
           in case restored_state (ar_StateJSON run) of
                Some st \<Rightarrow> Inr (st\<lparr>ts_FastTask := ft, ts_IsRunning := running\<rparr>)
              | None \<Rightarrow> Inr (NewState\<lparr>ts_FastTask := ft, ts_IsRunning := running, ts_Messages := Some (rebuilt_messages lib s userID threadID
                  (\<lambda>m. if am_Role m = ''assistant'' \<and> am_RunID m = ar_ID run then thread_mark (ar_Status run) else CompleteStatus []))\<rparr>))"

text \<open>The snapshot and the run a stream resumes from, if one is active.\<close>

definition resume_of :: "agent_run result \<Rightarrow> (json \<times> id) option" where
  "resume_of found =
    (case found of Inl _ \<Rightarrow> None
     | Inr run \<Rightarrow> Some (case ar_StateJSON run of None \<Rightarrow> JObject [] | Some v \<Rightarrow> v, ar_ID run))"

definition ResumeState :: "id \<Rightarrow> id \<Rightarrow> store \<Rightarrow> (json \<times> id) option result" where
  "ResumeState userID threadID s = bind_r (GetThread userID threadID s) (\<lambda>_. Inr (resume_of (GetActiveRunByThread userID threadID s)))"

definition ResumeCurrentState :: "id \<Rightarrow> store \<Rightarrow> (json \<times> id) option" where
  "ResumeCurrentState userID s = resume_of (GetActiveRunForUser userID s)"

end
