(* ===== verification/Approvals.thy ===== *)
theory Approvals
  imports Plan_Proposals Agent_Harness
begin

text \<open>
  The receipt of a decision on a staged proposal (\<open>application/agentapproval.go\<close>): it is applied or refused, written
  onto the part of the tool call, and the run goes on or stays ended (\<open>application/approval_recovery.go\<close>); with the
  projection of today's plan a receipt carries (\<open>application/taskeligibility_view.go\<close>) and the
  routing of commands (\<open>SubmitCommands\<close> of \<open>application/agent.go\<close>). The lock around a receipt is the
  sequence of the model; a call outside a transaction keeps what earlier transactions wrote.
\<close>

subsection \<open>What a receipt says about today\<close>

text \<open>The sentences of the program that are not ASCII.\<close>

record approval_texts =
  at_Unavailable :: string
  at_NotArranged :: string
  at_Arranged :: string
  at_NotSwitched :: string
  at_KeptItems :: string
  at_Availability :: "availability \<Rightarrow> string"
  at_NoDirection :: "string \<Rightarrow> string"
  at_OtherDirection :: "string \<Rightarrow> string \<Rightarrow> string"
  at_ConflictNotice :: string

record today_summary =
  sm_Status :: string
  sm_Message :: string
  sm_Items :: "plan_item list"
  sm_MilestoneCount :: nat
  sm_WorkItemCount :: nat

definition approvalGoalContextTx :: "approval_texts \<Rightarrow> store \<Rightarrow> id \<Rightarrow> id \<Rightarrow> string result" where
  "approvalGoalContextTx tx s userID goalID =
    (if goalID = [] then Inr []
     else case find_goal s goalID userID of
       Inl _ \<Rightarrow> Inr []
     | Inr changed \<Rightarrow>
         let primaryID = primaryGoalTx s userID (planningSettingsTx s userID)
         in if primaryID = goalID then Inr []
            else if primaryID = [] then Inr (at_NoDirection tx (g_Title changed))
            else bind_r (find_goal s primaryID userID) (\<lambda>primary.
              Inr (at_OtherDirection tx (g_Title changed) (g_Title primary))))"

definition retained_core :: "plan_item \<Rightarrow> bool" where
  "retained_core i \<longleftrightarrow> i_Kind i = ''core'' \<and> (i_Status i = ''planned'' \<or> i_Status i = ''in_progress'' \<or> i_Status i = ''satisfied'')"

text \<open>The status, the message and the items of the summary, where everything can be read.\<close>

definition today_view :: "approval_texts \<Rightarrow> env \<Rightarrow> store \<Rightarrow> id \<Rightarrow> id \<Rightarrow> (string \<times> string \<times> plan_item list) result" where
  "today_view tx en s userID goalID =
    bind_r (find_user s userID) (\<lambda>u.
    let (loc, zone) = resolveZone (env_zones en) [u_Timezone u]
    in bind_r (approvalGoalContextTx tx s userID goalID) (\<lambda>context.
       case find_dated_plan s userID (format_local loc (env_now en)) zone of
         Inl _ \<Rightarrow> Inr (''not_arranged'',
           if context = [] then at_NotArranged tx else context @ at_NotSwitched tx @ at_NotArranged tx, [])
       | Inr plan \<Rightarrow>
           let items = livePlanItemsTx s plan
           in bind_r (planningAvailabilityTx s userID plan items) (\<lambda>availability.
              let kept = (if p_Status plan = ''active'' then filter retained_core items else []);
                  message = (if kept = [] then at_Availability tx availability else at_Arranged tx)
              in Inr (if kept = [] then av_Status availability else ''arranged'',
                   if context = [] then message
                   else if kept \<noteq> [] then context @ at_KeptItems tx else context @ at_NotSwitched tx @ message, kept))))"

definition approvalTodaySummary :: "approval_texts \<Rightarrow> env \<Rightarrow> id \<Rightarrow> id \<Rightarrow> store \<Rightarrow> today_summary" where
  "approvalTodaySummary tx en userID goalID s =
    (let live = (if goalID = [] then [] else filter (\<lambda>t. t_DeletedAt t = None) (goal_tasks s userID goalID));
         (status, message, items) = (case today_view tx en s userID goalID of
            Inl _ \<Rightarrow> (''unavailable'', at_Unavailable tx, []) | Inr v \<Rightarrow> v)
     in \<lparr>sm_Status = status, sm_Message = message, sm_Items = items,
         sm_MilestoneCount = length (filter (\<lambda>t. t_Type t = ''milestone'') live),
         sm_WorkItemCount = length (filter (\<lambda>t. t_Type t = ''task'' \<or> t_Type t = ''action'') live)\<rparr>)"

definition json_int :: "int \<Rightarrow> json" where
  "json_int n = JNumber (of_int n)"

definition summary_json :: "today_summary \<Rightarrow> json" where
  "summary_json sm = JObject [(''status'', JString (sm_Status sm)), (''message'', JString (sm_Message sm)),
     (''items'', JArray (map (\<lambda>i. JObject [(''title'', JString (i_Title i)), (''commitment'', JString (i_Commitment i)),
       (''minimum_action'', JString (i_MinimumAction i)), (''target_minutes'', json_int (i_TargetMinutes i))]) (sm_Items sm))),
     (''milestone_count'', json_int (int (sm_MilestoneCount sm))), (''work_item_count'', json_int (int (sm_WorkItemCount sm)))]"

subsection \<open>The run of a receipt\<close>

text \<open>One settled call does not release the other pending ones, nor revive an ended run.\<close>

definition pending_parts :: "store \<Rightarrow> id \<Rightarrow> id \<Rightarrow> message_part list" where
  "pending_parts s userID runID =
    filter (\<lambda>p. mp_UserID p = userID \<and> mp_ApprovalStatus p = ''pending'' \<and>
      (\<exists>m \<in> set (s_thread_messages s). am_ID m = mp_MessageID p \<and> am_UserID m = userID \<and> am_RunID m = runID)) (s_parts s)"

definition setApprovalRunStatus :: "env \<Rightarrow> id \<Rightarrow> id \<Rightarrow> string tx" where
  "setApprovalRunStatus en userID runID =
    tx_bind (tx_try (GetRun userID runID)) (\<lambda>run.
    if IsTerminalRunStatus (ar_Status run) \<or> ar_CancelRequested run \<or> ar_Status run = ''cancelling''
    then tx_return (ar_Status run)
    else
      tx_bind (tx_read (\<lambda>s. if pending_parts s userID runID \<noteq> [] then ''awaiting_approval'' else ''running'')) (\<lambda>status.
      tx_bind (SetApprovalStatus userID runID status (env_now en)) (\<lambda>_.
      tx_return status)))"

definition with_active_goal :: "id \<Rightarrow> run_session \<Rightarrow> run_session" where
  "with_active_goal goalID ss =
    ss\<lparr>ss_State := (ss_State ss)\<lparr>ts_FastTask := (ts_FastTask (ss_State ss))\<lparr>ft_ActiveGoalID := goalID\<rparr>\<rparr>\<rparr>"

definition with_pending :: "pending_proposal list \<Rightarrow> run_session \<Rightarrow> run_session" where
  "with_pending ps ss =
    ss\<lparr>ss_State := (ss_State ss)\<lparr>ts_FastTask := (ts_FastTask (ss_State ss))\<lparr>ft_PendingProposals := Some ps\<rparr>\<rparr>\<rparr>"

definition fasttask_of :: "run_session \<Rightarrow> json" where
  "fasttask_of ss = fasttask_json (ts_FastTask (ss_State ss))"

definition op_read :: "(store \<Rightarrow> 'a) \<Rightarrow> 'a op" where
  "op_read f = op_tx (tx_read f)"

definition refresh_session :: "agent_library \<Rightarrow> env \<Rightarrow> id \<Rightarrow> agent_run \<Rightarrow> id \<Rightarrow> run_session \<Rightarrow> unit op" where
  "refresh_session lib en userID run partID ss =
    (let ss = mark_message (IncompleteStatus ''error'') (ss\<lparr>ss_State := (ss_State ss)\<lparr>ts_IsRunning := False\<rparr>\<rparr>)
     in op_bind (op_read (GetThread userID (ar_ThreadID run))) (\<lambda>thread.
        let ss = (case thread of Inl _ \<Rightarrow> ss | Inr t \<Rightarrow> with_active_goal (derefString (th_GoalID t)) ss)
        in op_bind (op_read (GetPart userID partID)) (\<lambda>part.
           op_bind (case part of Inl _ \<Rightarrow> op_return ss
             | Inr p \<Rightarrow> op_tx (emitSet en ss (PartPath (ss_AssistantIdx ss) (nat (mp_Idx p))) (part_json (wire_part lib p)))) (\<lambda>ss.
           op_bind (op_tx (emitSet en ss FastTaskPath (fasttask_of ss))) (\<lambda>ss.
           op_bind (op_tx (emitSet en ss IsRunningPath (JBool False))) (\<lambda>ss.
           op_tx (saveState en ss (ar_ErrorCode run = ''HOST_DETACHED''))))))))"

definition refreshDetachedApproval :: "agent_library \<Rightarrow> env \<Rightarrow> id \<Rightarrow> agent_run \<Rightarrow> id \<Rightarrow> unit op" where
  "refreshDetachedApproval lib en userID run partID =
    op_bind (op_read (\<lambda>s. loadRunSession lib s run)) (\<lambda>loaded.
    op_bind (case loaded of None \<Rightarrow> op_return () | Some ss \<Rightarrow> refresh_session lib en userID run partID ss) (\<lambda>_.
    if ar_ErrorCode run = ''HOST_DETACHED'' then op_return ()
    else op_tx (SaveThreadCheckpoint en userID (ar_ThreadID run) [] [] None)))"

definition continue_session :: "agent_library \<Rightarrow> env \<Rightarrow> id \<Rightarrow> agent_run \<Rightarrow> id \<Rightarrow> string \<Rightarrow> run_session \<Rightarrow> unit op" where
  "continue_session lib en userID run partID status ss =
    (let mark = (if status = ''awaiting_approval'' then RequiresActionStatus else RunningStatus)
     in op_bind (emit_drop en (MessageStatusPath (ss_AssistantIdx ss)) (status_json mark) (mark_message mark ss)) (\<lambda>ss.
        op_bind (op_read (GetPart userID partID)) (\<lambda>part.
        op_bind (case part of
            Inl _ \<Rightarrow> op_return ss
          | Inr p \<Rightarrow>
              let i = nat (mp_Idx p); updated = wire_part lib p;
                  ss = (if i < length (session_parts ss) then put_parts_of ((session_parts ss)[i := updated]) ss else ss)
              in emit_drop en (PartPath (ss_AssistantIdx ss) i) (part_json updated) ss) (\<lambda>ss.
        op_bind (op_read (\<lambda>s. (pendingProposals s userID (ar_ThreadID run), GetThread userID (ar_ThreadID run) s))) (\<lambda>(ps, thread).
        let ss = with_pending ps ss;
            ss = (case thread of Inl _ \<Rightarrow> ss
              | Inr t \<Rightarrow> (case th_GoalID t of None \<Rightarrow> ss | Some g \<Rightarrow> with_active_goal g ss))
        in op_bind (emit_drop en FastTaskPath (fasttask_of ss) ss) (\<lambda>ss.
           op_tx (saveState en ss False)))))))"

definition continueHarnessRun :: "agent_library \<Rightarrow> env \<Rightarrow> id \<Rightarrow> agent_run \<Rightarrow> id \<Rightarrow> unit op" where
  "continueHarnessRun lib en userID run partID =
    op_bind (op_tx (setApprovalRunStatus en userID (ar_ID run))) (\<lambda>status.
    if IsTerminalRunStatus status then refreshDetachedApproval lib en userID run partID
    else if status = ''cancelling'' then op_return ()
    else op_bind (op_read (\<lambda>s. loadRunSession lib s run)) (\<lambda>loaded.
      case loaded of None \<Rightarrow> op_return () | Some ss \<Rightarrow> continue_session lib en userID run partID status ss))"

definition releaseHarnessRun :: "agent_library \<Rightarrow> env \<Rightarrow> id \<Rightarrow> agent_run \<Rightarrow> id \<Rightarrow> unit op" where
  "releaseHarnessRun lib en userID run partID =
    (if ar_HarnessMode run = [] then op_return () else op_drop (continueHarnessRun lib en userID run partID))"

definition requeueRun :: "env \<Rightarrow> id \<Rightarrow> agent_run \<Rightarrow> unit tx" where
  "requeueRun en userID run =
    tx_bind (NewID en ''job'') (\<lambda>k.
    tx_bind (create_job (run_job en k userID (ar_ID run))) (\<lambda>_.
    tx_bind (tx_update s_runs put_runs (owned_run userID (ar_ID run))
      (\<lambda>r. r\<lparr>ar_Status := ''running'', ar_JobID := k, ar_Revision := ar_Revision r + 1, ar_UpdatedAt := env_now en\<rparr>)) (\<lambda>_.
    tx_return ())))"

subsection \<open>A browser that comes back\<close>

text \<open>The rows the join counts: the pending part of the run with its pending proposal.\<close>

definition pending_joins :: "store \<Rightarrow> id \<Rightarrow> id \<Rightarrow> id \<Rightarrow> nat" where
  "pending_joins s userID runID partID =
    sum_list (map (\<lambda>p. length (filter (\<lambda>m. am_ID m = mp_MessageID p \<and> am_UserID m = userID \<and> am_RunID m = runID) (s_thread_messages s)) *
        length (filter (\<lambda>q. mp_ProposalID p = Some (pr_ID q) \<and> pr_UserID q = userID \<and> pr_Status q = ''pending'') (s_proposals s)))
      (filter (\<lambda>p. owned_part userID partID p \<and> mp_ApprovalStatus p = ''pending'') (s_parts s)))"

definition parked_browser :: "agent_run \<Rightarrow> bool" where
  "parked_browser r \<longleftrightarrow> ar_HarnessMode r = ''wasm'' \<and> ar_Status r = ''awaiting_approval'' \<and> \<not> ar_CancelRequested r"

definition detach_tx :: "env \<Rightarrow> id \<Rightarrow> id \<Rightarrow> id \<Rightarrow> unit tx" where
  "detach_tx en userID runID partID =
    tx_bind (tx_try (GetRun userID runID)) (\<lambda>run.
    tx_bind (tx_check (parked_browser run) ErrApprovalNotAwaiting) (\<lambda>_.
    tx_bind (tx_read (\<lambda>s. pending_joins s userID runID partID)) (\<lambda>pending.
    tx_bind (tx_check (pending = 1) ErrApprovalNotAwaiting) (\<lambda>_.
    tx_bind (tx_update s_runs put_runs
      (\<lambda>r. owned_run userID runID r \<and> ar_Revision r = ar_Revision run \<and> parked_browser r)
      (\<lambda>r. r\<lparr>ar_Status := ''interrupted'', ar_ErrorCode := ''HOST_DETACHED'',
        ar_ErrorMessage := ''pending proposal explicitly settled from a restored browser'',
        ar_FinishedAt := Some (env_now en), ar_UpdatedAt := env_now en, ar_Revision := ar_Revision run + 1\<rparr>)) (\<lambda>n.
    tx_bind (tx_check (n = 1) ErrApprovalNotAwaiting) (\<lambda>_.
    tx_bind (RevokeHarnessTokensForRun en runID) (\<lambda>_.
    SaveThreadCheckpoint en userID (ar_ThreadID run) [] [] None)))))))"

definition detachPendingBrowserApproval :: "agent_library \<Rightarrow> env \<Rightarrow> id \<Rightarrow> id \<Rightarrow> id \<Rightarrow> agent_run op" where
  "detachPendingBrowserApproval lib en userID runID partID =
    op_bind (op_tx (detach_tx en userID runID partID)) (\<lambda>_.
    op_bind (op_tx (tx_try (GetRun userID runID))) (\<lambda>current.
    op_bind (refreshDetachedApproval lib en userID current partID) (\<lambda>_.
    op_return current)))"

end
