(* ===== verification/Receipts.thy ===== *)
theory Receipts
  imports Approvals
begin

text \<open>
  \<open>ResolveApproval\<close> of \<open>application/agentapproval.go\<close>: the checks of a receipt, the application of the proposal by
  the tool that staged it, the record of the decision or of the conflict, and the end of the receipt; and
  \<open>SubmitCommands\<close> of \<open>application/agent.go\<close>, which sends a receipt here and a message to a run.
\<close>

subsection \<open>What is written onto the part\<close>

text \<open>Go marshals a map with its keys sorted.\<close>

definition sorted_object :: "(string \<times> json) list \<Rightarrow> json" where
  "sorted_object kvs = JObject (sort_key fst kvs)"

definition conflict_json :: "string \<Rightarrow> json" where
  "conflict_json reason = sorted_object [(''decision'', JString ''conflict''), (''applied'', JBool False),
     (''error'', JString ''the approved change could not be applied; read the current state before proposing a corrected change''),
     (''detail'', JString reason)]"

definition pending_part :: "id \<Rightarrow> id \<Rightarrow> message_part \<Rightarrow> bool" where
  "pending_part userID partID p \<longleftrightarrow> owned_part userID partID p \<and> mp_ApprovalStatus p = ''pending''"

definition decide_part :: "env \<Rightarrow> (message_part \<Rightarrow> bool) \<Rightarrow> string \<Rightarrow> string \<Rightarrow> bool \<Rightarrow> nat tx" where
  "decide_part en P status resultJSON isError =
    tx_update s_parts put_parts P (\<lambda>p. p\<lparr>mp_ApprovalStatus := status, mp_ResultJSON := resultJSON, mp_IsError := isError,
      mp_UpdatedAt := env_now en\<rparr>)"

definition decide_proposal :: "env \<Rightarrow> id \<Rightarrow> id \<Rightarrow> string \<Rightarrow> nat tx" where
  "decide_proposal en userID k status =
    tx_update s_proposals put_proposals (pending_proposal userID k)
      (\<lambda>p. p\<lparr>pr_Status := status, pr_Revision := pr_Revision p + 1, pr_UpdatedAt := env_now en\<rparr>)"

text \<open>The notice a conflict leaves in the message, as a part of its own.\<close>

definition conflict_notice :: "agent_library \<Rightarrow> approval_texts \<Rightarrow> env \<Rightarrow> id \<Rightarrow> id \<Rightarrow> unit tx" where
  "conflict_notice lib tx en userID messageID =
    tx_bind (tx_try (GetMessage userID messageID)) (\<lambda>m.
    tx_bind (tx_read (NextPartIdx userID (am_ID m))) (\<lambda>idx.
    tx_bind (CreatePartAtIdx en (text_row userID (am_ID m) idx ''text'' (at_ConflictNotice tx))) (\<lambda>notice.
    case Set_op (PartPath (nat (am_Seq m - 1)) (nat idx)) (part_json (wire_part lib notice)) of
      Inl _ \<Rightarrow> tx_fail ErrOther
    | Inr oper \<Rightarrow> tx_bind (AppendChunk en userID (am_RunID m) (chunk_json (UpdateState (Some [oper])))) (\<lambda>_. tx_return ()))))"

definition recordConflict :: "agent_library \<Rightarrow> approval_texts \<Rightarrow> env \<Rightarrow> id \<Rightarrow> id \<Rightarrow> string \<Rightarrow> unit tx" where
  "recordConflict lib tx en userID partID reason =
    tx_bind (tx_try (GetPart userID partID)) (\<lambda>part.
    tx_bind (decide_part en (pending_part userID partID) ''conflict'' (al_text lib (conflict_json reason)) True) (\<lambda>n.
    if n \<noteq> 1 then tx_return ()
    else
      tx_bind (case mp_ProposalID part of
          None \<Rightarrow> tx_return () | Some k \<Rightarrow> tx_bind (decide_proposal en userID k ''conflict'') (\<lambda>_. tx_return ())) (\<lambda>_.
      conflict_notice lib tx en userID (mp_MessageID part))))"

definition recordApproval :: "env \<Rightarrow> id \<Rightarrow> id \<Rightarrow> string \<Rightarrow> string \<Rightarrow> unit tx" where
  "recordApproval en userID partID status resultJSON =
    tx_bind (decide_part en (\<lambda>p. owned_part userID partID p \<and> (mp_ApprovalStatus p = ''pending'' \<or> mp_ApprovalStatus p = status))
      status resultJSON False) (\<lambda>n.
    tx_check (n = 1) ErrApprovalDuplicate)"

subsection \<open>Applying an approved proposal\<close>

text \<open>A failed application is written down as a conflict and gives the run back, unless the receipt itself came too late.\<close>

definition conflicted ::
    "patch_library \<Rightarrow> approval_texts \<Rightarrow> env \<Rightarrow> id \<Rightarrow> agent_run \<Rightarrow> id \<Rightarrow> string \<Rightarrow> app_error \<Rightarrow> 'a op" where
  "conflicted lib tx en userID run partID reason e =
    op_bind (op_tx (recordConflict (pl_agent lib) tx en userID partID reason)) (\<lambda>_.
    op_bind (releaseHarnessRun (pl_agent lib) en userID run partID) (\<lambda>_.
    op_fail e))"

definition apply_or_conflict ::
    "patch_library \<Rightarrow> approval_texts \<Rightarrow> env \<Rightarrow> id \<Rightarrow> agent_run \<Rightarrow> id \<Rightarrow> 'a tx \<Rightarrow> 'a op" where
  "apply_or_conflict lib tx en userID run partID m =
    op_catch (op_tx m) (\<lambda>e.
      if e = ErrApprovalNotAwaiting \<or> e = ErrApprovalDuplicate then op_fail e
      else conflicted lib tx en userID run partID (al_error (pl_agent lib) e) e)"

definition receipt_fields :: "string \<Rightarrow> id \<Rightarrow> (string \<times> json) list \<Rightarrow> (string \<times> json) list" where
  "receipt_fields kind proposalID kvs =
    [(''decision'', JString ''approve''), (''applied'', JBool True), (''kind'', JString kind),
     (''proposal_id'', JString proposalID)] @ kvs"

definition tree_patches_of_json :: "json \<Rightarrow> changes list result" where
  "tree_patches_of_json v =
    bind_r (dec_list dec_map v) (\<lambda>ms.
    Inr (map (\<lambda>m. case m of None \<Rightarrow> [] | Some kvs \<Rightarrow> map (\<lambda>kv. (fst kv, any_of_json (snd kv))) kvs) (slice_elems ms)))"

definition apply_by_tool ::
    "patch_library \<Rightarrow> approval_texts \<Rightarrow> env \<Rightarrow> approval_ctx \<Rightarrow> id \<Rightarrow> agent_run \<Rightarrow> message_part \<Rightarrow> proposal \<Rightarrow>
     (string \<times> json) list op" where
  "apply_by_tool lib tx en ac userID run part p =
    (let tool = mp_ToolName part; kind = pr_Kind p; partID = mp_ID part
     in if tool = ''propose_goal_with_tasks'' then
          if kind \<noteq> ''goal_with_tasks'' then op_fail ErrValidation
          else op_bind (apply_or_conflict lib tx en userID run partID (ApplyGoalWithTasks lib en ac userID (pr_ID p) (ar_ThreadID run)))
            (\<lambda>(goal, n). op_return (receipt_fields ''goal_with_tasks'' (pr_ID p)
              [(''goal_id'', JString (g_ID goal)), (''created_tasks'', json_int n)]))
        else if tool = ''propose_goal_update'' then
          if kind \<noteq> ''goal_update'' then op_fail ErrValidation
          else op_bind (apply_or_conflict lib tx en userID run partID (ApplyGoalUpdateProposal lib en ac userID (pr_ID p)))
            (\<lambda>goal. op_return (receipt_fields ''goal_update'' (pr_ID p)
              [(''goal_id'', JString (g_ID goal)), (''revision'', json_int (g_Revision goal))]))
        else if tool = ''propose_daily_plan'' then
          if kind \<noteq> ''daily_plan'' \<and> kind \<noteq> ''task_tree_patch'' then op_fail ErrValidation
          else (case decode_text lib (pr_PatchJSON p) plan_payload_of_json of
              Inl _ \<Rightarrow> conflicted lib tx en userID run partID ''the daily plan proposal could not be read'' ErrValidation
            | Inr payload \<Rightarrow>
                op_bind (apply_or_conflict lib tx en userID run partID (ApplyDailyPlanProposal lib en ac userID (Some p) payload))
                (\<lambda>(plan, items). op_return (receipt_fields ''daily_plan'' (pr_ID p)
                  [(''plan_id'', JString (p_ID plan)), (''revision'', json_int (p_CurrentRevision plan)),
                   (''item_count'', json_int (int (length items)))])))
        else if tool = ''propose_task_tree_patch'' then
          if kind \<noteq> ''task_tree_patch'' then op_fail ErrValidation
          else (case decode_text lib (pr_PatchJSON p) tree_patches_of_json of
              Inl _ \<Rightarrow> conflicted lib tx en userID run partID
                ''the task tree proposal could not be read; read the current tree and submit a corrected proposal'' ErrValidation
            | Inr patches \<Rightarrow>
                op_bind (apply_or_conflict lib tx en userID run partID
                  (ApplyProposal lib en ac userID (pr_ID p) patches (Some (pr_BaseRevision p))))
                (\<lambda>n. op_return (receipt_fields ''task_tree_patch'' (pr_ID p) [(''tree_revision'', json_int n)])))
        else op_fail ErrValidation)"

text \<open>The receipt with the plan of today after the commit; of a tree, with its revision instead of the number of new tasks.\<close>

definition owned_tree_revision :: "store \<Rightarrow> id \<Rightarrow> id \<Rightarrow> int" where
  "owned_tree_revision s goalID userID =
    foldl max 0 (map tr_Revision (filter (\<lambda>r. tr_GoalID r = goalID \<and> tr_UserID r = userID) (s_trees s)))"

definition receipt_json ::
    "approval_texts \<Rightarrow> env \<Rightarrow> store \<Rightarrow> id \<Rightarrow> string \<Rightarrow> proposal \<Rightarrow> (string \<times> json) list \<Rightarrow> json" where
  "receipt_json tx en s userID tool p kvs =
    (let goalID = (case obj_get kvs ''goal_id'' of JString k \<Rightarrow> k | _ \<Rightarrow> pr_GoalID p);
         kvs = obj_set kvs ''today_summary'' (summary_json (approvalTodaySummary tx en userID goalID s))
     in sorted_object (if tool = ''propose_task_tree_patch''
          then obj_set kvs ''tree_revision'' (json_int (owned_tree_revision s goalID userID)) else kvs))"

definition approve_part ::
    "patch_library \<Rightarrow> approval_texts \<Rightarrow> env \<Rightarrow> approval_ctx \<Rightarrow> id \<Rightarrow> agent_run \<Rightarrow> message_part \<Rightarrow> unit op" where
  "approve_part lib tx en ac userID run part =
    (case mp_ProposalID part of
       None \<Rightarrow> op_fail ErrApprovalNotAwaiting
     | Some k \<Rightarrow>
         op_bind (op_read (\<lambda>s. find (pending_proposal userID k) (s_proposals s))) (\<lambda>found.
         case found of
           None \<Rightarrow> op_fail ErrApprovalDuplicate
         | Some p \<Rightarrow>
             op_bind (apply_by_tool lib tx en ac userID run part p) (\<lambda>kvs.
             op_bind (op_read (\<lambda>s. receipt_json tx en s userID (mp_ToolName part) p kvs)) (\<lambda>receipt.
             op_tx (recordApproval en userID (mp_ID part) ''approved'' (al_text (pl_agent lib) receipt))))))"

definition reject_part ::
    "patch_library \<Rightarrow> env \<Rightarrow> approval_ctx \<Rightarrow> id \<Rightarrow> message_part \<Rightarrow> string \<Rightarrow> unit tx" where
  "reject_part lib en ac userID part reason =
    tx_bind (guardApprovalTx ac userID) (\<lambda>_.
    tx_bind (case mp_ProposalID part of
        None \<Rightarrow> tx_return ()
      | Some k \<Rightarrow> tx_bind (decide_proposal en userID k ''rejected'') (\<lambda>n. tx_check (n = 1) ErrApprovalDuplicate)) (\<lambda>_.
    tx_bind (decide_part en (pending_part userID (mp_ID part)) ''rejected'' (al_text (pl_agent lib) (sorted_object
      [(''decision'', JString ''reject''), (''reason'', JString reason), (''applied'', JBool False)])) False) (\<lambda>_.
    tx_return ())))"

subsection \<open>A receipt\<close>

text \<open>The part and the run a receipt is for; a detached run keeps its pending proposals.\<close>

definition receipt_target :: "id \<Rightarrow> string \<Rightarrow> store \<Rightarrow> (message_part \<times> agent_run) result" where
  "receipt_target userID toolCallID s =
    bind_r (GetPartByToolCallID userID toolCallID s) (\<lambda>part.
    bind_r (guard_r (\<not> (mp_Type part \<noteq> ''tool-call'' \<or> mp_ApprovalStatus part = [])) ErrApprovalNotAwaiting) (\<lambda>_.
    bind_r (guard_r (mp_ApprovalStatus part = ''pending'') ErrApprovalDuplicate) (\<lambda>_.
    bind_r (GetMessage userID (mp_MessageID part) s) (\<lambda>msg.
    bind_r (GetRun userID (am_RunID msg) s) (\<lambda>run.
    let detached = ar_HarnessMode run \<noteq> [] \<and> ar_Status run = ''interrupted'' \<and> \<not> ar_CancelRequested run
    in bind_r (guard_r (\<not> (ar_CancelRequested run \<or> (ar_Status run \<noteq> ''awaiting_approval'' \<and> \<not> detached))) ErrApprovalNotAwaiting) (\<lambda>_.
       Inr (part, run)))))))"

text \<open>An unreadable field of the decision reads as empty.\<close>

definition decision_field :: "patch_library \<Rightarrow> string \<Rightarrow> string \<Rightarrow> string" where
  "decision_field lib raw k =
    (case al_decode (pl_agent lib) raw of
       Some (JObject kvs) \<Rightarrow> (case obj_get kvs k of JString v \<Rightarrow> v | _ \<Rightarrow> [])
     | _ \<Rightarrow> [])"

definition receipt_result :: "agent_run \<Rightarrow> int \<Rightarrow> bool \<Rightarrow> submit_result" where
  "receipt_result run fromSeq noStream =
    \<lparr>sub_ThreadID = ar_ThreadID run, sub_RunID = ar_ID run, sub_NewThread = False, sub_FromSeq = fromSeq,
     sub_HarnessMode = [], sub_NoStream = noStream\<rparr>"

definition finish_receipt :: "patch_library \<Rightarrow> env \<Rightarrow> id \<Rightarrow> agent_run \<Rightarrow> id \<Rightarrow> submit_result op" where
  "finish_receipt lib en userID run partID =
    op_bind (op_tx (tx_try (GetRun userID (ar_ID run)))) (\<lambda>current.
    if IsTerminalRunStatus (ar_Status current) then
      op_bind (refreshDetachedApproval (pl_agent lib) en userID current partID) (\<lambda>_. op_return (receipt_result run (ar_CheckpointSeq run) True))
    else if ar_HarnessMode run \<noteq> [] then
      op_bind (continueHarnessRun (pl_agent lib) en userID run partID) (\<lambda>_. op_return (receipt_result run (ar_CheckpointSeq run) True))
    else op_bind (op_tx (requeueRun en userID run)) (\<lambda>_. op_return (receipt_result run (ar_CheckpointSeq run) False)))"

definition settle_receipt ::
    "patch_library \<Rightarrow> approval_texts \<Rightarrow> env \<Rightarrow> id \<Rightarrow> message_part \<Rightarrow> agent_run \<Rightarrow> string \<Rightarrow> string \<Rightarrow> submit_result op" where
  "settle_receipt lib tx en userID part run decision reason =
    (let ac = \<lparr>ac_RunID = ar_ID run, ac_PartID = mp_ID part\<rparr>
     in op_bind (if decision = ''approve'' then approve_part lib tx en ac userID run part
                 else op_tx (reject_part lib en ac userID part reason)) (\<lambda>_.
        finish_receipt lib en userID run (mp_ID part)))"

definition ResolveApproval :: "patch_library \<Rightarrow> approval_texts \<Rightarrow> env \<Rightarrow> id \<Rightarrow> agent_command \<Rightarrow> submit_result op" where
  "ResolveApproval lib tx en userID cmd =
    (let toolCallID = trim_space (cmd_ToolCallID cmd)
     in if toolCallID = [] then op_fail ErrEmptyCommand
        else op_bind (op_tx (tx_try (receipt_target userID toolCallID))) (\<lambda>(part, run).
          let decision = al_lower (pl_agent lib) (trim_space (decision_field lib (cmd_Result cmd) ''decision''))
          in if decision \<noteq> ''approve'' \<and> decision \<noteq> ''reject'' then op_fail ErrEmptyCommand
             else op_bind (if cmd_DetachHarness cmd \<and> ar_HarnessMode run = ''wasm'' \<and> ar_Status run = ''awaiting_approval''
                 then detachPendingBrowserApproval (pl_agent lib) en userID (ar_ID run) (mp_ID part) else op_return run) (\<lambda>run.
               settle_receipt lib tx en userID part run decision (decision_field lib (cmd_Result cmd) ''reason''))))"

subsection \<open>The routing of commands\<close>

definition is_receipt :: "agent_command \<Rightarrow> bool" where
  "is_receipt c \<longleftrightarrow> cmd_Type c = ''add-tool-result'' \<and> trim_space (cmd_ToolCallID c) \<noteq> []"

definition firstToolResult :: "agent_command list \<Rightarrow> agent_command option" where
  "firstToolResult commands = find is_receipt commands"

definition receipt_thread :: "id \<Rightarrow> agent_command \<Rightarrow> string option \<Rightarrow> store \<Rightarrow> unit result" where
  "receipt_thread userID cmd threadID s =
    (case threadID of
       None \<Rightarrow> Inr ()
     | Some k \<Rightarrow>
         if \<not> cmd_DetachHarness cmd then Inr ()
         else bind_r (GetPartByToolCallID userID (cmd_ToolCallID cmd) s) (\<lambda>part.
           bind_r (GetMessage userID (mp_MessageID part) s) (\<lambda>msg.
           guard_r (am_ThreadID msg = trim_space k) ErrRecordNotFound)))"

definition SubmitCommands ::
    "agent_service \<Rightarrow> patch_library \<Rightarrow> approval_texts \<Rightarrow> env \<Rightarrow> id \<Rightarrow> string option \<Rightarrow> string \<Rightarrow> string \<Rightarrow>
     agent_command list \<Rightarrow> submit_result op" where
  "SubmitCommands svc lib tx en userID threadID harnessMode state commands =
    (if \<exists>c \<in> set commands. cmd_DetachHarness c \<and> (cmd_Type c \<noteq> ''add-tool-result'' \<or> length commands \<noteq> 1 \<or> state \<noteq> [])
     then op_fail ErrEmptyCommand
     else case firstToolResult commands of
       Some cmd \<Rightarrow>
         op_bind (op_tx (tx_try (receipt_thread userID cmd threadID))) (\<lambda>_.
         if \<exists>c \<in> set commands. cmd_Type c = ''add-message'' then op_fail ErrEmptyCommand
         else ResolveApproval lib tx en userID cmd)
     | None \<Rightarrow> SubmitMessage svc (pl_agent lib) en userID threadID harnessMode commands)"

end
