(* ===== verification/Agent_Threads.thy ===== *)
theory Agent_Threads
  imports Agent_Harness Image_Metadata
begin

text \<open>
  The catalogue of conversations (\<open>application/agentthreads.go\<close>) and the store of their images
  (\<open>application/attachments.go\<close>). The disk is a map from paths to bytes; making a directory, writing and
  removing a file succeed, reading and \<open>os.Stat\<close> fail where there is no file. An attachment store that is
  not configured has the empty directory; a directory that is configured is a cleaned path.
\<close>

subsection \<open>Titles\<close>

text \<open>\<open>strings.Fields\<close>: the words between white space; the first argument is the word being read, reversed.\<close>

function words_from :: "string \<Rightarrow> string \<Rightarrow> string list" where
  "words_from w s =
    (case s of
       [] \<Rightarrow> if w = [] then [] else [rev w]
     | c # cs \<Rightarrow> (case cut_any space_seqs s of
           Some r \<Rightarrow> if length r < length s then (if w = [] then [] else [rev w]) @ words_from [] r else []
         | None \<Rightarrow> words_from (c # w) cs))"
  by pat_completeness auto
termination
  by (relation "measure (\<lambda>(w, s). length s)") auto

declare words_from.simps [simp del]

definition go_words :: "string \<Rightarrow> string list" where
  "go_words s = words_from [] s"

definition threadTitleRunes :: nat where "threadTitleRunes = 30"

definition deterministicTitle :: "string \<Rightarrow> string" where
  "deterministicTitle content =
    (let folded = join_char CHR '' '' (go_words content)
     in if rune_count folded > threadTitleRunes then take_runes threadTitleRunes folded else folded)"

subsection \<open>Views and pages\<close>

record thread_view =
  tv_ID :: id
  tv_Title :: string
  tv_Status :: string
  tv_GoalID :: "id option"
  tv_Custom :: string
  tv_LastMessageAt :: "time option"
  tv_CreatedAt :: time
  tv_UpdatedAt :: time

record thread_page =
  tp_Items :: "thread_view list"
  tp_NextCursor :: string
  tp_HasMore :: bool

definition viewOfThread :: "agent_thread \<Rightarrow> thread_view" where
  "viewOfThread t = \<lparr>tv_ID = th_ID t, tv_Title = th_Title t, tv_Status = th_Status t, tv_GoalID = th_GoalID t, tv_Custom = th_Custom t,
     tv_LastMessageAt = th_LastMessageAt t, tv_CreatedAt = th_CreatedAt t, tv_UpdatedAt = th_UpdatedAt t\<rparr>"

definition viewsWithThreadTitles :: "id \<Rightarrow> agent_thread list \<Rightarrow> store \<Rightarrow> thread_view list" where
  "viewsWithThreadTitles userID threads s =
    (let untitled = map th_ID (filter (\<lambda>t. trim_space (th_Title t) = []) threads);
         texts = FirstThreadMessageTexts userID untitled s
     in map (\<lambda>t. let view = viewOfThread t in
          if trim_space (tv_Title view) = [] then view\<lparr>tv_Title := deterministicTitle (gomap_get [] texts (th_ID t))\<rparr> else view) threads)"

definition thread_page_limit :: "int \<Rightarrow> int" where
  "thread_page_limit limit = (if limit \<le> 0 \<or> limit > 100 then 20 else limit)"

definition cursor_of :: "string \<Rightarrow> (time \<times> id) option result" where
  "cursor_of cursor =
    (if trim_space cursor = [] then Inr None
     else case decodeThreadCursor cursor of Inl _ \<Rightarrow> Inl ErrValidation | Inr c \<Rightarrow> Inr (Some c))"

definition ListAgentThreads :: "id \<Rightarrow> string \<Rightarrow> string \<Rightarrow> int \<Rightarrow> store \<Rightarrow> thread_page result" where
  "ListAgentThreads userID status cursor limit s =
    (let limit = thread_page_limit limit in
     bind_r (cursor_of cursor) (\<lambda>after.
     bind_r (ListThreads userID status after (limit + 1) s) (\<lambda>threads.
     let more = length threads > nat limit; threads = (if more then take (nat limit) threads else threads)
     in Inr \<lparr>tp_Items = viewsWithThreadTitles userID threads s,
          tp_NextCursor = (if more \<and> threads \<noteq> [] then encodeThreadCursor (thread_activity (last threads)) (th_ID (last threads)) else []),
          tp_HasMore = more\<rparr>)))"

subsection \<open>Operations\<close>

definition CreateAgentThread :: "env \<Rightarrow> id \<Rightarrow> id option \<Rightarrow> string \<Rightarrow> thread_view tx" where
  "CreateAgentThread en userID goalID title =
    tx_bind (case goalID of
        None \<Rightarrow> tx_return None
      | Some g \<Rightarrow> tx_bind (tx_try (\<lambda>s. RequireLiveGoalTx s userID (trim_space g))) (\<lambda>goal. tx_return (Some (g_ID goal)))) (\<lambda>binding.
    tx_bind (CreateThread en userID binding title) (\<lambda>t. tx_return (viewOfThread t)))"

definition GetAgentThread :: "id \<Rightarrow> id \<Rightarrow> store \<Rightarrow> thread_view result" where
  "GetAgentThread userID threadID s =
    bind_r (GetThread userID threadID s) (\<lambda>t. Inr (viewsWithThreadTitles userID [t] s ! 0))"

definition UpdateAgentThread :: "env \<Rightarrow> id \<Rightarrow> id \<Rightarrow> string option \<Rightarrow> string option \<Rightarrow> thread_view op" where
  "UpdateAgentThread en userID threadID title custom =
    (let cleaned = map_option (\<lambda>x. let x = trim_space x in if rune_count x > 120 then take_runes 120 x else x) title;
         data = map_option trim_space custom
     in if (case data of None \<Rightarrow> False | Some v \<Rightarrow> length v > 4096) then op_fail ErrValidation
        else op_bind (if cleaned = None \<and> data = None then op_return ()
            else op_tx (UpdateThread en userID threadID (\<lambda>t. t\<lparr>th_Title := (case cleaned of None \<Rightarrow> th_Title t | Some x \<Rightarrow> x),
              th_Custom := (case data of None \<Rightarrow> th_Custom t | Some x \<Rightarrow> x)\<rparr>))) (\<lambda>_.
          op_tx (tx_try (GetAgentThread userID threadID))))"

definition SetAgentThreadStatus :: "env \<Rightarrow> id \<Rightarrow> id \<Rightarrow> string \<Rightarrow> thread_view op" where
  "SetAgentThreadStatus en userID threadID status =
    (if status \<noteq> ''regular'' \<and> status \<noteq> ''archived'' then op_fail ErrValidation
     else op_bind (op_tx (UpdateThread en userID threadID (\<lambda>t. t\<lparr>th_Status := status\<rparr>))) (\<lambda>_.
       op_tx (tx_try (GetAgentThread userID threadID))))"

definition GenerateThreadTitle :: "agent_library \<Rightarrow> env \<Rightarrow> id \<Rightarrow> id \<Rightarrow> string op" where
  "GenerateThreadTitle lib en userID threadID =
    op_bind (op_tx (tx_try (GetThread userID threadID))) (\<lambda>_.
    op_bind (op_tx (tx_read (FirstThreadMessageText userID threadID))) (\<lambda>content.
    let title = (if deterministicTitle content = [] then al_untitled lib else deterministicTitle content)
    in op_bind (op_tx (UpdateThread en userID threadID (\<lambda>t. t\<lparr>th_Title := title\<rparr>))) (\<lambda>_. op_return title)))"

subsection \<open>Images\<close>

type_synonym disk = "string \<rightharpoonup> byte list"

datatype upload_error =
    StorageUnset
  | ErrAttachmentEmpty
  | ErrAttachmentTooLarge
  | ErrAttachmentQuota
  | ErrNoFile
  | ImageError image_error
  | RowError app_error

record attachment_view =
  av_AttachmentID :: id
  av_Mime :: string
  av_Width :: int
  av_Height :: int
  av_Bytes :: int
  av_ThreadID :: "id option"
  av_CreatedAt :: time

definition AttachmentMaxBytes :: nat where "AttachmentMaxBytes = 8 * 1024 * 1024"

definition AttachmentMaxPerThread :: nat where "AttachmentMaxPerThread = 100"

definition AttachmentMaxThreadBytes :: int where "AttachmentMaxThreadBytes = 500 * 1024 * 1024"

definition AttachmentOrphanTTL :: int where "AttachmentOrphanTTL = 24 * 60 * minute"

definition viewOfAttachment :: "agent_attachment \<Rightarrow> attachment_view" where
  "viewOfAttachment a = \<lparr>av_AttachmentID = at_ID a, av_Mime = at_Mime a, av_Width = at_Width a, av_Height = at_Height a, av_Bytes = at_Bytes a,
     av_ThreadID = at_ThreadID a, av_CreatedAt = at_CreatedAt a\<rparr>"

text \<open>\<open>filepath.Base\<close> of an identifier, and the file of an attachment.\<close>

definition base_name :: "string \<Rightarrow> string" where
  "base_name k =
    (let k' = rev (dropWhile (\<lambda>c. c = CHR ''/'') (rev k))
     in if k = [] then ''.'' else if k' = [] then ''/'' else rev (takeWhile (\<lambda>c. c \<noteq> CHR ''/'') (rev k')))"

definition pathFor :: "string \<Rightarrow> id \<Rightarrow> string \<Rightarrow> string" where
  "pathFor dir k mime = dir @ CHR ''/'' # base_name k @ imageExtension mime"

definition named_thread :: "id option \<Rightarrow> bool" where
  "named_thread threadID \<longleftrightarrow> trim_space (derefString threadID) \<noteq> []"

text \<open>Type, metadata and dimensions of an upload.\<close>

definition checked_image ::
    "(byte list \<Rightarrow> (nat \<times> nat) option) \<Rightarrow> byte list \<Rightarrow> upload_error + (string \<times> byte list \<times> nat \<times> nat)" where
  "checked_image decodeConfig data =
    (if data = [] then Inl ErrAttachmentEmpty
     else if length data > AttachmentMaxBytes then Inl ErrAttachmentTooLarge
     else case sniffImageMime data of
       None \<Rightarrow> Inl (ImageError ErrUnsupportedImage)
     | Some mime \<Rightarrow> if imageExtension mime = [] then Inl (ImageError ErrUnsupportedImage)
         else (case stripImageMetadata mime data of
             Inl _ \<Rightarrow> Inl (ImageError ErrUnsupportedImage)
           | Inr cleaned \<Rightarrow> (case imageDimensions decodeConfig mime cleaned (length data - length cleaned) of
               Inl e \<Rightarrow> Inl (ImageError e)
             | Inr (width, height) \<Rightarrow> Inr (mime, cleaned, width, height))))"

definition quota_exceeded :: "id \<Rightarrow> id option \<Rightarrow> nat \<Rightarrow> store \<Rightarrow> bool" where
  "quota_exceeded userID threadID bytes s =
    (named_thread threadID \<and>
     (case AttachmentTotals userID (derefString threadID) s of
        (n, bs) \<Rightarrow> n + 1 > AttachmentMaxPerThread \<or> bs + int bytes > AttachmentMaxThreadBytes))"

definition Upload ::
    "(byte list \<Rightarrow> (nat \<times> nat) option) \<Rightarrow> string \<Rightarrow> env \<Rightarrow> id \<Rightarrow> id option \<Rightarrow> byte list \<Rightarrow> store \<times> disk \<Rightarrow>
       (upload_error + attachment_view) \<times> store \<times> disk" where
  "Upload decodeConfig dir en userID threadID data = (\<lambda>(s, disk).
    if dir = [] then (Inl StorageUnset, s, disk)
    else case checked_image decodeConfig data of
      Inl e \<Rightarrow> (Inl e, s, disk)
    | Inr (mime, cleaned, width, height) \<Rightarrow>
        if quota_exceeded userID threadID (length cleaned) s then (Inl ErrAttachmentQuota, s, disk)
        else (case NewID en ''att'' s of
            Inl e \<Rightarrow> (Inl (RowError e), s, disk)
          | Inr (k, s) \<Rightarrow>
              let path = pathFor dir k mime;
                  row = \<lparr>at_ID = k, at_UserID = userID, at_ThreadID = (if named_thread threadID then Some (trim_space (derefString threadID)) else None),
                    at_MessageID = None, at_Mime = mime, at_Bytes = int (length cleaned), at_Width = int width, at_Height = int height,
                    at_Path = path, at_CreatedAt = 0\<rparr>
              in (case CreateAttachment en row s of
                    Inl e \<Rightarrow> (Inl (RowError e), s, disk(path := None))
                  | Inr (a, s) \<Rightarrow> (Inr (viewOfAttachment a), s, disk(path \<mapsto> cleaned)))))"

definition GetImage :: "id \<Rightarrow> id \<Rightarrow> store \<times> disk \<Rightarrow> upload_error + (attachment_view \<times> string)" where
  "GetImage userID k = (\<lambda>(s, disk).
    case GetAttachment userID k s of
      Inl e \<Rightarrow> Inl (RowError e)
    | Inr a \<Rightarrow> if disk (at_Path a) = None then Inl ErrNoFile else Inr (viewOfAttachment a, at_Path a))"

text \<open>A store that is not configured removes nothing.\<close>

definition DeleteFile :: "bool \<Rightarrow> agent_attachment \<Rightarrow> disk \<Rightarrow> disk" where
  "DeleteFile configured a disk = (if \<not> configured \<or> at_Path a = [] then disk else disk(at_Path a := None))"

definition DeleteImage :: "id \<Rightarrow> id \<Rightarrow> store \<times> disk \<Rightarrow> unit result \<times> store \<times> disk" where
  "DeleteImage userID k = (\<lambda>(s, disk).
    case DeleteAttachment userID k s of
      (Inl e, s) \<Rightarrow> (Inl e, s, disk)
    | (Inr a, s) \<Rightarrow> (Inr (), s, DeleteFile True a disk))"

definition BindImage :: "id \<Rightarrow> id \<Rightarrow> id \<Rightarrow> id \<Rightarrow> unit tx" where
  "BindImage userID k threadID messageID = AttachAttachment userID k threadID messageID"

definition DataURI :: "(byte list \<Rightarrow> string) \<Rightarrow> id \<Rightarrow> id \<Rightarrow> store \<times> disk \<Rightarrow> string option" where
  "DataURI base64 userID k = (\<lambda>(s, disk).
    case GetAttachment userID k s of
      Inl _ \<Rightarrow> None
    | Inr a \<Rightarrow> if at_Bytes a > int AttachmentMaxBytes then None
        else (case disk (at_Path a) of
            None \<Rightarrow> None
          | Some data \<Rightarrow> if int (length data) \<noteq> at_Bytes a then None
              else Some (''data:'' @ at_Mime a @ '';base64,'' @ base64 data)))"

definition ReapOrphans :: "bool \<Rightarrow> time \<Rightarrow> store \<times> disk \<Rightarrow> nat result \<times> store \<times> disk" where
  "ReapOrphans configured now = (\<lambda>(s, disk).
    if \<not> configured then (Inr 0, s, disk)
    else let orphans = OrphanAttachments (now - AttachmentOrphanTTL) s in
      case op_tx (DeleteAttachments (map at_ID orphans)) s of
        (Inl e, s) \<Rightarrow> (Inl e, s, disk)
      | (Inr removed, s) \<Rightarrow> (Inr removed, s, fold (DeleteFile True) orphans disk))"

text \<open>A conversation is deleted with its run cancelled first and its files removed last.\<close>

definition DeleteAgentThread :: "agent_library \<Rightarrow> env \<Rightarrow> id \<Rightarrow> id \<Rightarrow> store \<times> disk \<Rightarrow> unit result \<times> store \<times> disk" where
  "DeleteAgentThread lib en userID threadID = (\<lambda>(s, disk).
    case GetThread userID threadID s of
      Inl e \<Rightarrow> (Inl e, s, disk)
    | Inr _ \<Rightarrow>
        let s1 = (case GetActiveRunByThread userID threadID s of
                Inl _ \<Rightarrow> s | Inr run \<Rightarrow> snd (RequestCancellation lib en userID (ar_ID run) s));
            attachments = ThreadAttachments userID threadID s1
        in (case op_tx (DeleteThread userID threadID) s1 of
              (Inl e, s2) \<Rightarrow> (Inl e, s2, disk)
            | (Inr _, s2) \<Rightarrow> (Inr (), s2, fold (DeleteFile True) attachments disk)))"

end
