(* ===== verification/Store_Relations.thy ===== *)
theory Store_Relations
  imports Agent_Threads
begin

text \<open>
  What every outcome of a call does to the store, as a relation: a transaction that returns an error
  leaves the store, a call of several transactions keeps what the earlier ones wrote. The locale is
  the interface between such a relation and the proofs about the agent runtime: a reflexive and transitive
  relation is kept by the combinators, so a call keeps it when its basic steps do.
\<close>

named_theorems within_simps
named_theorems within_intro

definition tx_within :: "(store \<Rightarrow> store \<Rightarrow> bool) \<Rightarrow> 'a tx \<Rightarrow> bool" where
  "tx_within R m \<longleftrightarrow> (\<forall>s a s'. m s = Inr (a, s') \<longrightarrow> R s s')"

definition op_within :: "(store \<Rightarrow> store \<Rightarrow> bool) \<Rightarrow> 'a op \<Rightarrow> bool" where
  "op_within R m \<longleftrightarrow> (\<forall>s. R s (snd (m s)))"

lemma tx_withinD: "tx_within R m \<Longrightarrow> m s = Inr (a, s') \<Longrightarrow> R s s'"
  by (simp add: tx_within_def)

lemma op_withinD: "op_within R m \<Longrightarrow> R s (snd (m s))"
  by (simp add: op_within_def)

locale store_relation =
  fixes R :: "store \<Rightarrow> store \<Rightarrow> bool"
  assumes rel_refl: "R s s"
    and rel_trans: "R s s' \<Longrightarrow> R s' s'' \<Longrightarrow> R s s''"
begin

lemma within_bind: "tx_within R m \<Longrightarrow> (\<And>a. tx_within R (f a)) \<Longrightarrow> tx_within R (tx_bind m f)"
  unfolding tx_within_def tx_bind_Inr using rel_trans by metis

lemma within_basic:
  "tx_within R (tx_return a)" "tx_within R (tx_fail e)" "tx_within R (tx_check b e)"
  "tx_within R (tx_read f)" "tx_within R (tx_try r)"
  using rel_refl by (auto simp: tx_within_def go_simps)

lemma within_write: "(\<And>s. R s (h s)) \<Longrightarrow> tx_within R (tx_write h)"
  by (auto simp: tx_within_def)

lemma within_cases:
  "(b \<Longrightarrow> tx_within R m) \<Longrightarrow> (\<not> b \<Longrightarrow> tx_within R n) \<Longrightarrow> tx_within R (if b then m else n)"
  "(x = None \<Longrightarrow> tx_within R m) \<Longrightarrow> (\<And>y. x = Some y \<Longrightarrow> tx_within R (k y)) \<Longrightarrow>
    tx_within R (case x of None \<Rightarrow> m | Some y \<Rightarrow> k y)"
  "(\<And>e. r = Inl e \<Longrightarrow> tx_within R (l e)) \<Longrightarrow> (\<And>y. r = Inr y \<Longrightarrow> tx_within R (k' y)) \<Longrightarrow>
    tx_within R (case r of Inl e \<Rightarrow> l e | Inr y \<Rightarrow> k' y)"
  "(\<And>y z. p = (y, z) \<Longrightarrow> tx_within R (q y z)) \<Longrightarrow> tx_within R (case p of (y, z) \<Rightarrow> q y z)"
  by (cases b, simp_all) (cases x, simp_all, cases r, simp_all, cases p, simp)

lemma within_let: "(\<And>x. x = v \<Longrightarrow> tx_within R (f x)) \<Longrightarrow> tx_within R (let x = v in f x)"
  by simp

lemma within_each: "(\<And>x. tx_within R (f x)) \<Longrightarrow> tx_within R (tx_each f xs)"
  by (induction xs) (auto intro: within_bind within_basic)

lemma within_unique_as: "tx_within R m \<Longrightarrow> tx_within R (unique_as e m)"
  by (auto simp: tx_within_def unique_as_def split: sum.splits)

lemma within_must_affect: "tx_within R m \<Longrightarrow> tx_within R (must_affect m)"
  unfolding must_affect_def by (intro within_bind within_basic)

lemma within_update: "(\<And>s. R s (put (update_rows P f (rows s)) s)) \<Longrightarrow> tx_within R (tx_update rows put P f)"
  unfolding tx_update_def by (intro within_bind within_basic within_write)

lemma within_create: "(\<And>s. key r \<notin> set (map key (rows s)) \<Longrightarrow> R s (put (rows s @ [r]) s)) \<Longrightarrow> tx_within R (tx_create rows put key r)"
  by (auto simp: tx_within_def tx_create_def go_simps)

lemma within_op_tx: "tx_within R m \<Longrightarrow> op_within R (op_tx m)"
  using rel_refl by (auto simp: tx_within_def op_within_def op_tx_def split: sum.splits)

lemma within_op_basic: "op_within R (op_return a)" "op_within R (op_fail e)"
  using rel_refl by (simp_all add: op_within_def op_return_def op_fail_def)

lemma within_op_bind: "op_within R m \<Longrightarrow> (\<And>a. op_within R (f a)) \<Longrightarrow> op_within R (op_bind m f)"
  unfolding op_within_def
proof
  fix s
  assume m: "\<forall>s. R s (snd (m s))" and f: "\<And>a. \<forall>s. R s (snd (f a s))"
  show "R s (snd (op_bind m f s))"
  proof (cases "m s")
    case (Pair r s1)
    with m have step: "R s s1" by (metis snd_conv)
    with Pair f rel_trans [OF step] show ?thesis by (cases r) (simp_all add: op_bind_def)
  qed
qed

lemma within_op_drop: "op_within R m \<Longrightarrow> op_within R (op_drop m)"
  by (simp add: op_within_def op_drop_def)

lemma within_op_catch: "op_within R m \<Longrightarrow> (\<And>e. op_within R (h e)) \<Longrightarrow> op_within R (op_catch m h)"
  unfolding op_within_def
proof
  fix s
  assume m: "\<forall>s. R s (snd (m s))" and h: "\<And>e. \<forall>s. R s (snd (h e s))"
  show "R s (snd (op_catch m h s))"
  proof (cases "m s")
    case (Pair r s1)
    with m have step: "R s s1" by (metis snd_conv)
    with Pair h rel_trans [OF step] show ?thesis by (cases r) (simp_all add: op_catch_def)
  qed
qed

lemma within_op_each: "(\<And>x. op_within R (f x)) \<Longrightarrow> op_within R (op_each f xs)"
  by (induction xs) (auto intro: within_op_bind within_op_basic)

lemma within_op_cases:
  "(b \<Longrightarrow> op_within R m) \<Longrightarrow> (\<not> b \<Longrightarrow> op_within R n) \<Longrightarrow> op_within R (if b then m else n)"
  "(x = None \<Longrightarrow> op_within R m) \<Longrightarrow> (\<And>y. x = Some y \<Longrightarrow> op_within R (k y)) \<Longrightarrow>
    op_within R (case x of None \<Rightarrow> m | Some y \<Rightarrow> k y)"
  "(\<And>e. r = Inl e \<Longrightarrow> op_within R (l e)) \<Longrightarrow> (\<And>y. r = Inr y \<Longrightarrow> op_within R (k' y)) \<Longrightarrow>
    op_within R (case r of Inl e \<Rightarrow> l e | Inr y \<Rightarrow> k' y)"
  "(\<And>y z. p = (y, z) \<Longrightarrow> op_within R (q y z)) \<Longrightarrow> op_within R (case p of (y, z) \<Rightarrow> q y z)"
  by (cases b, simp_all) (cases x, simp_all, cases r, simp_all, cases p, simp)

lemma within_op_let: "(\<And>x. x = v \<Longrightarrow> op_within R (f x)) \<Longrightarrow> op_within R (let x = v in f x)"
  by simp

lemma within_or_fail:
  assumes "op_within R m" "\<And>a. op_within R (f a)" "\<And>code message. op_within R (failRun svc en code message ss)"
  shows "op_within R (or_fail svc lib en ss m f)"
  unfolding op_within_def
proof
  fix s
  have step: "R s (snd (m s))" using assms(1) by (rule op_withinD)
  show "R s (snd (or_fail svc lib en ss m f s))"
  proof (cases "m s")
    case (Pair r s1)
    with step have "R s s1" by simp
    moreover have "R s1 (snd (failRun svc en ''STATE_ERROR'' (al_error lib e) ss s1))" for e using assms(3) by (rule op_withinD)
    moreover have "R s1 (snd (f a s1))" for a using assms(2) by (rule op_withinD)
    ultimately show ?thesis using Pair rel_trans by (cases r) (auto simp: or_fail_def)
  qed
qed

lemmas within_combine = within_bind within_basic within_cases within_let within_each within_unique_as within_must_affect
  within_op_tx within_op_basic within_op_bind within_op_drop within_op_catch within_op_each within_op_cases within_op_let within_or_fail

text \<open>A part of the store that the relation does not look at.\<close>

lemma within_keeps: "(\<And>s s'. g s' = g s \<Longrightarrow> R s s') \<Longrightarrow> tx_keeps g m \<Longrightarrow> tx_within R m"
  by (auto simp: tx_within_def tx_keeps_def)

end

subsection \<open>Frames\<close>

lemma tx_update_Inr:
  "tx_update rows put P f s = Inr (n, s') \<longleftrightarrow> n = rows_affected P (rows s) \<and> s' = put (update_rows P f (rows s)) s"
  by (auto simp: tx_update_def go_simps)

lemma keeps_update [tx_frame]: "(\<And>rs s. g (put rs s) = g s) \<Longrightarrow> tx_keeps g (tx_update rows put P f)"
  unfolding tx_update_def by (intro tx_frame) auto

lemma keeps_create [tx_frame]: "(\<And>rs s. g (put rs s) = g s) \<Longrightarrow> tx_keeps g (tx_create rows put key r)"
  unfolding tx_create_def by (intro tx_frame) auto

lemma keeps_must_affect [tx_frame]: "tx_keeps g m \<Longrightarrow> tx_keeps g (must_affect m)"
  unfolding must_affect_def by (intro tx_frame)

lemma keeps_let [tx_frame]: "(\<And>x. x = v \<Longrightarrow> tx_keeps g (f x)) \<Longrightarrow> tx_keeps g (let x = v in f x)"
  by simp

text \<open>The calls that touch neither the rows of runs nor their log.\<close>

definition agent_rows :: "store \<Rightarrow> agent_run list \<times> run_chunk list" where
  "agent_rows s = (s_runs s, s_chunks s)"

lemmas put_simps = put_threads_def put_tokens_def put_messages_def put_parts_def put_chunks_def put_attachments_def

lemma keeps_rows [tx_frame]:
  "tx_keeps agent_rows (CreateThread en u g t)" "tx_keeps agent_rows (TouchThread en u k)" "tx_keeps agent_rows (UpdateThread en u k change)"
  "tx_keeps agent_rows (SaveThreadCheckpoint en u k c v run)" "tx_keeps agent_rows (CreateMessage en msg)" "tx_keeps agent_rows (CreatePart en p)"
  "tx_keeps agent_rows (update_part en Q h)" "tx_keeps agent_rows (CreateHarnessToken en tok)" "tx_keeps agent_rows (BeatHarnessToken k n)"
  "tx_keeps agent_rows (RevokeHarnessToken k n)" "tx_keeps agent_rows (RevokeHarnessTokensForRun en k)"
  "tx_keeps agent_rows (DeleteExpiredHarnessTokens n)" "tx_keeps agent_rows (CreateAttachment en a)"
  "tx_keeps agent_rows (AttachAttachment u k thr m)" "tx_keeps agent_rows (DeleteAttachments ks)" "tx_keeps agent_rows (create_job j)"
  unfolding CreateThread_def TouchThread_def UpdateThread_def SaveThreadCheckpoint_def CreateMessage_def CreatePart_def update_part_def
    CreateHarnessToken_def BeatHarnessToken_def RevokeHarnessToken_def RevokeHarnessTokensForRun_def DeleteExpiredHarnessTokens_def
    CreateAttachment_def AttachAttachment_def DeleteAttachments_def create_job_def
  by (intro tx_frame | simp add: put_simps agent_rows_def)+

lemma Publish_runs [tx_frame]: "tx_keeps agent_rows (Publish lib st en u e)"
  unfolding Publish_def newMessage_def create_notices_def by (intro tx_frame | simp add: Let_def agent_rows_def)+



subsection \<open>The runtime over its basic calls\<close>

text \<open>
  What the sessions and hosts of a run need of the calls they are made of. Whatever relation these keep, every
  operation of the runtime keeps.
\<close>

named_theorems run_calls

locale runtime_relation = store_relation R for R :: "store \<Rightarrow> store \<Rightarrow> bool" +
  assumes rows_in: "agent_rows s' = agent_rows s \<Longrightarrow> R s s'"
    and SetRunStatus_in: "tx_within R (SetRunStatus en u k status code message)"
    and job_in: "tx_within R (UpdateRun en u k (\<lambda>r. r\<lparr>ar_JobID := j\<rparr>))"
    and parent_in: "tx_within R (UpdateRun en u k (\<lambda>r. r\<lparr>ar_ParentMessageID := m\<rparr>))"
    and flag_in: "tx_within R (UpdateRun en u k (\<lambda>r. r\<lparr>ar_CancelRequested := True\<rparr>))"
    and AppendChunk_in: "tx_within R (AppendChunk en u k chunk)"
    and SaveRunState_in: "tx_within R (SaveRunState en u k state seq d)"
    and RequestRunCancellation_in: "tx_within R (RequestRunCancellation en u k)"
    and grant_in: "tx_within R (grant_tx svc lib en run plaintext)"
begin

declare SetRunStatus_in [run_calls] job_in [run_calls] parent_in [run_calls] flag_in [run_calls] AppendChunk_in [run_calls]
  SaveRunState_in [run_calls] RequestRunCancellation_in [run_calls] grant_in [run_calls]

lemma rows_kept: "tx_keeps agent_rows m \<Longrightarrow> tx_within R m"
  by (auto simp: tx_within_def tx_keeps_def intro: rows_in)

lemma announce_runs: "op_within R (announce_failure svc en run code detail)"
  unfolding op_within_def announce_failure_def notifyRunFailed_def fire_and_forget_def
  using tx_keepsD [OF Publish_runs] by (auto intro!: rows_in split: sum.splits)

text \<open>Sessions.\<close>

lemma stream_runs [run_calls]:
  "tx_within R (Emit en ss c)" "tx_within R (emit_op en ss made)" "tx_within R (emitSet en ss path v)"
  "tx_within R (saveState en ss d)"
proof -
  show emit: "tx_within R (Emit en ss c)" for c unfolding Emit_def by (intro within_combine run_calls)
  show emit_op: "tx_within R (emit_op en ss made)" for made unfolding emit_op_def by (intro within_combine run_calls emit)
  show "tx_within R (emitSet en ss path v)" unfolding emitSet_def by (rule emit_op)
  show "tx_within R (saveState en ss d)" unfolding saveState_def by (intro within_combine run_calls)
qed

lemma emit_messages_runs [run_calls]: "op_within R (emit_messages en i ms ss)"
  by (induction ms arbitrary: i ss) (auto intro!: within_combine run_calls)

lemma begin_runs [run_calls]: "op_within R (beginRun lib en run)" "op_within R (BeginHarnessRun lib en u k)"
proof -
  show beginning: "op_within R (beginRun lib en run)" for run
    unfolding beginRun_def by (intro within_combine run_calls rows_kept [OF keeps_rows(5)])
  show "op_within R (BeginHarnessRun lib en u k)" unfolding BeginHarnessRun_def by (intro within_combine run_calls beginning)
qed

lemma part_runs [run_calls]:
  "tx_within R (addTextPart en ss)" "tx_within R (appendTextToPart en i d ss)" "tx_within R (persistTextPart en ss i c)"
  unfolding addTextPart_def appendTextToPart_def persistTextPart_def
  by (intro within_combine run_calls rows_kept [OF keeps_rows(6)])+

lemma close_runs [run_calls]: "op_within R (emit_drop en path v ss)" "op_within R (close_stream en st ss)"
proof -
  show drop: "op_within R (emit_drop en path v ss)" for path v ss unfolding emit_drop_def by (intro within_combine run_calls)
  show "op_within R (close_stream en st ss)" unfolding close_stream_def by (intro within_combine run_calls drop)
qed

lemma end_runs [run_calls]:
  "op_within R (end_stream en st status code message ss)" "op_within R (succeed en ss)" "op_within R (failRun svc en code message ss)"
  "op_within R (cancelRun en ss)" "op_within R (interruptRun en code message ss)"
proof -
  show stream: "op_within R (end_stream en st status code message ss)" for st status code message
    unfolding end_stream_def by (intro within_combine run_calls)
  show "op_within R (succeed en ss)" unfolding succeed_def by (intro within_combine run_calls)
  show "op_within R (failRun svc en code message ss)" unfolding failRun_def by (intro within_combine run_calls announce_runs stream)
  show "op_within R (cancelRun en ss)" "op_within R (interruptRun en code message ss)"
    unfolding cancelRun_def interruptRun_def by (rule stream)+
qed

lemma append_deltas_runs [run_calls]: "op_within R (append_deltas en i ds ss)"
  by (induction ds arbitrary: ss) (auto intro!: within_combine run_calls)

lemma reply_runs [run_calls]: "op_within R (deterministicReply svc lib en ss)"
  unfolding deterministicReply_def by (intro within_combine run_calls)

lemma ExecuteRun_runs: "(\<And>run. op_within R (sidecar run)) \<Longrightarrow> op_within R (ExecuteRun svc lib en sidecar job)"
  unfolding ExecuteRun_def by (intro within_combine run_calls)

text \<open>Hosts.\<close>

lemma host_runs [run_calls]:
  "op_within R (issueRunGrant svc lib en plaintext u k etag browserOnly)" "tx_within R (renewToken lib en new p)"
  "op_within R (HarnessHeartbeat lib en new p)"
proof -
  show "op_within R (issueRunGrant svc lib en plaintext u k etag browserOnly)"
    unfolding issueRunGrant_def by (intro within_combine run_calls)
  show renew: "tx_within R (renewToken lib en new p)" for p
    unfolding renewToken_def
    by (intro within_combine rows_kept [OF keeps_rows(8)] rows_kept [OF keeps_rows(9)] rows_kept [OF keeps_update]) (simp add: put_simps agent_rows_def)
  show "op_within R (HarnessHeartbeat lib en new p)"
    unfolding HarnessHeartbeat_def by (intro within_combine run_calls renew rows_kept [OF keeps_rows(9)])
qed

lemma finish_runs [run_calls]:
  "tx_within R (finish_tx en sess run wanted reason)" "op_within R (finishRun lib en run wanted reason)"
proof -
  have emit: "tx_within R (emit_final en st sess)" for st unfolding emit_final_def by (intro within_combine run_calls)
  show fin: "tx_within R (finish_tx en sess run wanted reason)" for sess wanted
    unfolding finish_tx_def
    by (intro within_combine run_calls rows_kept [OF keeps_rows(11)]; (cases wanted)?) (auto intro!: within_combine run_calls rows_kept [OF keeps_rows(11)] simp: emit_final_def split: option.splits)
  show "op_within R (finishRun lib en run wanted reason)"
    unfolding finishRun_def by (intro within_combine run_calls fin)
qed

lemma cancel_runs [run_calls]: "op_within R (CancelRunJob en u k)" "op_within R (RequestCancellation lib en u k)"
proof -
  show job: "op_within R (CancelRunJob en u k)" for u k
    unfolding CancelRunJob_def by (intro within_combine run_calls within_write rows_in) (simp add: agent_rows_def)
  show "op_within R (RequestCancellation lib en u k)"
    unfolding RequestCancellation_def by (intro within_combine run_calls job)
qed

lemma complete_runs [run_calls]:
  "tx_within R (saveCheckpoint en p c)" "op_within R (CompleteRun lib en p c)" "tx_within R (PutThreadCheckpoint en p x v)"
  "op_within R (failHarnessRun svc lib en run code message)" "tx_within R (PruneHarnessTokens en)"
proof -
  show save: "tx_within R (saveCheckpoint en p c)" unfolding saveCheckpoint_def by (intro within_combine rows_kept [OF keeps_rows(4)])
  show "op_within R (CompleteRun lib en p c)" unfolding CompleteRun_def by (intro within_combine run_calls save)
  show "tx_within R (PutThreadCheckpoint en p x v)" unfolding PutThreadCheckpoint_def by (rule rows_kept [OF keeps_rows(4)])
  show "op_within R (failHarnessRun svc lib en run code message)"
    unfolding failHarnessRun_def by (intro within_combine run_calls announce_runs)
  show "tx_within R (PruneHarnessTokens en)" unfolding PruneHarnessTokens_def by (rule rows_kept [OF keeps_rows(12)])
qed

lemma reap_runs [run_calls]: "op_within R (reap_stale lib en seen xs)" "op_within R (ReapHarnessRuns svc lib en)"
proof -
  show stale: "op_within R (reap_stale lib en seen xs)" for seen xs
    by (induction xs arbitrary: seen) (auto intro!: within_combine run_calls simp only: reap_stale.simps)
  show "op_within R (ReapHarnessRuns svc lib en)"
    unfolding ReapHarnessRuns_def by (intro within_combine run_calls stale)
qed

end

end
