(* ===== verification/Agent_Run_Relations.thy ===== *)
theory Agent_Run_Relations
  imports Store_Relations
begin

text \<open>
  What the calls of the agent runtime may do to the rows of runs: a run that has ended keeps its outcome,
  and a run whose cancellation was asked for neither starts again nor succeeds. Every call except the one
  that creates a run keeps this relation.
\<close>

subsection \<open>The relation\<close>

definition outcome :: "agent_run \<Rightarrow> string \<times> string \<times> string \<times> time option" where
  "outcome r = (ar_Status r, ar_ErrorCode r, ar_ErrorMessage r, ar_FinishedAt r)"

definition going :: "string \<Rightarrow> bool" where
  "going status \<longleftrightarrow> status = ''succeeded'' \<or> status = ''running''"

definition settles :: "agent_run \<Rightarrow> agent_run \<Rightarrow> bool" where
  "settles r r' \<longleftrightarrow> ar_ID r' = ar_ID r \<and> ar_UserID r' = ar_UserID r \<and> ar_ThreadID r' = ar_ThreadID r \<and>
    (active_run r \<or> outcome r' = outcome r) \<and>
    (\<not> ar_CancelRequested r \<or> ar_CancelRequested r' \<and> (going (ar_Status r') \<longrightarrow> ar_Status r' = ar_Status r))"

definition evolves :: "store \<Rightarrow> store \<Rightarrow> bool" where
  "evolves s s' \<longleftrightarrow> (\<exists>P g. s_runs s' = map g (filter P (s_runs s)) \<and> (\<forall>r \<in> set (s_runs s). settles r (g r)))"

definition runs_distinct :: "store \<Rightarrow> bool" where
  "runs_distinct s \<longleftrightarrow> distinct (map ar_ID (s_runs s))"

definition run_rel :: "store \<Rightarrow> store \<Rightarrow> bool" where
  "run_rel s s' \<longleftrightarrow> (runs_distinct s \<longrightarrow> evolves s s')"

lemma settles_refl [simp]: "settles r r"
  by (simp add: settles_def)

lemma settles_trans: "settles a b \<Longrightarrow> settles b c \<Longrightarrow> settles a c"
  unfolding settles_def outcome_def active_run_def by (metis prod.inject)

lemma evolves_refl: "evolves s s"
  unfolding evolves_def by (intro exI [of _ "\<lambda>_. True"] exI [of _ "\<lambda>r. r"]) simp

lemma evolves_trans:
  assumes "evolves s s'" and "evolves s' s''"
  shows "evolves s s''"
proof -
  obtain P g where 1: "s_runs s' = map g (filter P (s_runs s))" "\<forall>r \<in> set (s_runs s). settles r (g r)"
    using assms(1) by (auto simp: evolves_def)
  obtain Q h where 2: "s_runs s'' = map h (filter Q (s_runs s'))" "\<forall>r \<in> set (s_runs s'). settles r (h r)"
    using assms(2) by (auto simp: evolves_def)
  let ?k = "\<lambda>r. if P r then h (g r) else r"
  have "s_runs s'' = map ?k (filter (\<lambda>r. P r \<and> Q (g r)) (s_runs s))"
    by (simp add: 1(1) 2(1) filter_map comp_def conj_commute)
  moreover have "settles r (?k r)" if "r \<in> set (s_runs s)" for r
  proof (cases "P r")
    case True
    with that 1(1) have "g r \<in> set (s_runs s')" by simp
    with True 1(2) 2(2) that show ?thesis using settles_trans [of r "g r" "h (g r)"] by simp
  qed simp
  ultimately show ?thesis unfolding evolves_def by (intro exI [of _ "\<lambda>r. P r \<and> Q (g r)"] exI [of _ ?k]) blast
qed

lemma evolves_ids:
  assumes "evolves s s'"
  shows "runs_distinct s \<Longrightarrow> runs_distinct s'"
proof -
  obtain P g where p: "s_runs s' = map g (filter P (s_runs s))" "\<forall>r \<in> set (s_runs s). settles r (g r)"
    using assms by (auto simp: evolves_def)
  have "map ar_ID (s_runs s') = map ar_ID (filter P (s_runs s))"
    unfolding p(1) map_map using p(2) by (intro map_cong) (auto simp: settles_def)
  then show "runs_distinct s \<Longrightarrow> runs_distinct s'" by (simp add: runs_distinct_def distinct_map_filter)
qed

interpretation runs: store_relation run_rel
proof
  show "run_rel s s" for s by (simp add: run_rel_def evolves_refl)
  show "run_rel s s''" if "run_rel s s'" "run_rel s' s''" for s s' s''
    using that evolves_ids evolves_trans unfolding run_rel_def by blast
qed

subsection \<open>Basic steps\<close>

lemma run_rel_same: "s_runs s' = s_runs s \<Longrightarrow> run_rel s s'"
  unfolding run_rel_def evolves_def by (intro impI exI [of _ "\<lambda>_. True"] exI [of _ "\<lambda>r. r"]) simp

lemma run_rel_update:
  assumes "\<And>r. runs_distinct s \<Longrightarrow> r \<in> set (s_runs s) \<Longrightarrow> P r \<Longrightarrow> settles r (f r)"
  shows "run_rel s (put_runs (update_rows P f (s_runs s)) s)"
  unfolding run_rel_def evolves_def
  by (intro impI exI [of _ "\<lambda>_. True"] exI [of _ "\<lambda>r. if P r then f r else r"]) (simp add: put_runs_def update_rows_def assms)

lemma runs_update: "(\<And>r. P r \<Longrightarrow> settles r (f r)) \<Longrightarrow> tx_within run_rel (tx_update s_runs put_runs P f)"
  by (rule runs.within_update) (simp add: run_rel_update)

lemma runs_kept: "tx_keeps s_runs m \<Longrightarrow> tx_within run_rel m"
  by (rule runs.within_keeps [OF run_rel_same])

subsection \<open>The queries\<close>

lemma first_owned: "GetRun u k s = Inr r \<Longrightarrow> r \<in> set (s_runs s) \<and> ar_ID r = k \<and> ar_UserID r = u"
  by (auto simp: GetRun_def first_row_def owned_run_def split: list.splits dest!: arg_cong [of _ _ set])

lemma same_run:
  assumes "runs_distinct s" and "r \<in> set (s_runs s)" and "r' \<in> set (s_runs s)" and "ar_ID r = ar_ID r'"
  shows "r = r'"
  using assms by (auto simp: runs_distinct_def distinct_map dest: inj_onD)

lemma SetRunStatus_runs: "tx_within run_rel (SetRunStatus en u k status code message)"
  unfolding SetRunStatus_def
  by (intro runs.within_must_affect runs_update) (auto simp: settles_def outcome_def going_def)

lemma updateRun_runs: "(\<And>r. settles r (change r)) \<Longrightarrow> tx_within run_rel (updateRun en u k change d)"
  unfolding updateRun_def
  by (intro runs.within_must_affect runs_update) (simp add: settles_def outcome_def active_run_def)

lemma UpdateRun_runs:
  "tx_within run_rel (UpdateRun en u k (\<lambda>r. r\<lparr>ar_JobID := j\<rparr>))"
  "tx_within run_rel (UpdateRun en u k (\<lambda>r. r\<lparr>ar_ParentMessageID := m\<rparr>))"
  "tx_within run_rel (UpdateRun en u k (\<lambda>r. r\<lparr>ar_CancelRequested := True\<rparr>))"
  unfolding UpdateRun_def by (intro updateRun_runs; simp add: settles_def outcome_def)+

lemma AppendChunk_runs: "tx_within run_rel (AppendChunk en u k chunk)"
  unfolding AppendChunk_def
  by (intro runs.within_combine runs_update runs_kept [OF keeps_create])
    (simp_all add: put_simps settles_def outcome_def split: sum.splits)

lemma SaveRunState_runs: "tx_within run_rel (SaveRunState en u k state seq d)"
  unfolding SaveRunState_def by (intro runs.within_combine updateRun_runs) (simp add: settles_def outcome_def)

lemma interrupt_runs:
  "tx_within run_rel (MarkInterruptedRuns en code)" "tx_within run_rel (InterruptRuns en ks code message)"
  unfolding MarkInterruptedRuns_def InterruptRuns_def
  by (intro runs.within_combine runs_update;
    auto simp: settles_def outcome_def going_def interrupted_run_def active_run_def containsActiveStatus_def activeRunStatuses_def)+

lemma count_runs:
  "tx_within run_rel (CountModelCall en u k)" "tx_within run_rel (RequestRunCancellation en u k)"
  "tx_within run_rel (AddApprovalWait en u k waited)" "tx_within run_rel (AcquireModelAttempt en u k a b t)"
  "tx_within run_rel (ReleaseModelAttempt en u k attempt)"
  unfolding CountModelCall_def RequestRunCancellation_def AddApprovalWait_def AcquireModelAttempt_def ReleaseModelAttempt_def
  by (intro runs.within_combine runs_update runs_kept [OF tx_keeps_NewID];
    auto simp: settles_def outcome_def going_def active_run_def containsActiveStatus_def activeRunStatuses_def)+

lemma approval_row_settles: "active_run r \<Longrightarrow> \<not> ar_CancelRequested r \<Longrightarrow> settles r (approval_row status now r)"
  by (auto simp: settles_def approval_row_def Let_def split: option.splits)

lemma SetApprovalStatus_runs: "tx_within run_rel (SetApprovalStatus u k status now)"
  unfolding tx_within_def
proof (intro allI impI)
  fix s a s'
  assume run: "SetApprovalStatus u k status now s = Inr (a, s')"
  show "run_rel s s'"
  proof (cases "GetRun u k s")
    case (Inl e)
    with run show ?thesis by (auto simp: SetApprovalStatus_def go_simps)
  next
    case (Inr r)
    note r = first_owned [OF Inr]
    show ?thesis
    proof (cases "ar_CancelRequested r \<or> \<not> active_run r")
      case True
      with run Inr show ?thesis by (auto simp: SetApprovalStatus_def go_simps intro: runs.rel_refl)
    next
      case False
      then have "s' = put_runs (update_rows (\<lambda>x. owned_run u k x \<and> ar_Revision x = ar_Revision r) (approval_row status now) (s_runs s)) s"
        using run Inr by (auto simp: SetApprovalStatus_def tx_update_def go_simps)
      then show ?thesis
        using False same_run [OF _ _ conjunct1 [OF r]] r
        by (auto intro!: run_rel_update approval_row_settles simp: owned_run_def)
    qed
  qed
qed

lemma DeleteThread_runs: "tx_within run_rel (DeleteThread u k)"
proof -
  have "run_rel s s'" if "s_runs s' = filter P (s_runs s)" for s s' P
    using that unfolding run_rel_def evolves_def by (intro impI exI [of _ P] exI [of _ "\<lambda>r. r"]) simp
  then show ?thesis unfolding tx_within_def DeleteThread_def by (auto simp: go_simps)
qed

lemma grant_tx_runs: "tx_within run_rel (grant_tx svc lib en run plaintext)"
  unfolding tx_within_def
proof (intro allI impI)
  fix s a s'
  assume grant: "grant_tx svc lib en run plaintext s = Inr (a, s')"
  then obtain fresh s1 where fresh: "GetRun (ar_UserID run) (ar_ID run) s = Inr fresh"
      and live: "\<not> (IsTerminalRunStatus (ar_Status fresh) \<or> ar_CancelRequested fresh)" and s1: "s_runs s1 = s_runs s"
      and rest: "(if ar_Status fresh = ''queued''
        then UpdateRun en (ar_UserID run) (ar_ID run) (\<lambda>r. r\<lparr>ar_Status := ''running'', ar_StartedAt := Some (env_now en)\<rparr>)
        else tx_return ()) s1 = Inr (a, s')"
    unfolding grant_tx_def by (auto simp: go_simps dest!: tx_keepsD [OF keeps_rows(8)] tx_keepsD [OF keeps_rows(11)] simp: agent_rows_def)
  note r = first_owned [OF fresh]
  have "run_rel s1 s'"
  proof (cases "ar_Status fresh = ''queued''")
    case True
    have row: "settles x (x\<lparr>ar_Status := ''running'', ar_StartedAt := t, ar_UpdatedAt := v, ar_Revision := w\<rparr>)"
      if "runs_distinct s1" "x \<in> set (s_runs s1)" "owned_run (ar_UserID run) (ar_ID run) x" for x t v w
    proof -
      have "x = fresh" using that r s1 same_run [of s1 x fresh] by (simp add: owned_run_def)
      with True live show ?thesis by (auto simp: settles_def active_run_def containsActiveStatus_def activeRunStatuses_def)
    qed
    from True rest have "UpdateRun en (ar_UserID run) (ar_ID run) (\<lambda>r. r\<lparr>ar_Status := ''running'', ar_StartedAt := Some (env_now en)\<rparr>) s1 = Inr (a, s')"
      by simp
    then show ?thesis
      by (auto simp: UpdateRun_def updateRun_def must_affect_def tx_update_def go_simps intro!: run_rel_update row)
  next
    case False
    with rest show ?thesis by (auto intro: runs.rel_refl)
  qed
  then show "run_rel s s'" using run_rel_same [OF s1] runs.rel_trans by blast
qed

interpretation runtime: runtime_relation run_rel
proof unfold_locales
  show "run_rel s s'" if "agent_rows s' = agent_rows s" for s s' using that by (simp add: agent_rows_def run_rel_same)
qed (intro SetRunStatus_runs UpdateRun_runs AppendChunk_runs SaveRunState_runs count_runs(2) grant_tx_runs)+

lemma DeleteAgentThread_runs: "run_rel s (fst (snd (DeleteAgentThread lib en u k (s, disk))))"
proof -
  let ?s1 = "case GetActiveRunByThread u k s of Inl _ \<Rightarrow> s | Inr run \<Rightarrow> snd (RequestCancellation lib en u (ar_ID run) s)"
  have "run_rel s ?s1" using op_withinD [OF runtime.cancel_runs(2)] runs.rel_refl by (simp split: sum.splits)
  moreover have "run_rel ?s1 (snd (op_tx (DeleteThread u k) ?s1))"
    by (rule op_withinD [OF runs.within_op_tx [OF DeleteThread_runs]])
  ultimately have "run_rel s (snd (op_tx (DeleteThread u k) ?s1))" by (rule runs.rel_trans)
  then show ?thesis using runs.rel_refl [of s]
    by (auto simp: DeleteAgentThread_def Let_def split: sum.splits prod.splits)
qed

subsection \<open>A new run\<close>

lemma CreateRun_appends:
  "CreateRun en run s = Inr (r, s') \<Longrightarrow> s_runs s' = s_runs s @ [r] \<and> ar_ID r \<notin> ar_ID ` set (s_runs s) \<and> ar_UserID r = ar_UserID run"
  by (auto simp: CreateRun_def tx_create_def put_runs_def go_simps Let_def split: if_splits)

lemma unique_as_Inr: "unique_as e m s = Inr x \<longleftrightarrow> m s = Inr x"
  by (auto simp: unique_as_def split: sum.splits)

lemma message_thread_keeps: "tx_keeps agent_rows (message_thread en u k c)"
  unfolding message_thread_def by (intro tx_frame)

lemma attach_image_keeps: "tx_keeps agent_rows (attach_image en u k m x)"
  unfolding attach_image_def tx_keeps_def
  by (auto simp: go_simps dest!: tx_keepsD [OF keeps_rows(6)] tx_keepsD [OF keeps_rows(14)] split: option.splits sum.splits prod.splits)

lemma bind_Inr:
  assumes "tx_bind m f s = Inr r"
  obtains a s1 where "m s = Inr (a, s1)" and "f a s1 = Inr r"
  using assms by (auto simp: tx_bind_Inr)

lemma tx_bind_read: "tx_bind (tx_read q) f s = f (q s) s"
  by (simp add: tx_bind_def)

lemma tx_bind_check: "tx_bind (tx_check b e) f s = (if b then f () s else Inl e)"
  by (simp add: tx_bind_def tx_check_def)

lemma submit_creates:
  assumes "submit_tx en u k c images mode s = Inr (res, s')"
  shows "\<exists>r s2. s_runs s2 = s_runs s @ [r] \<and> ar_ID r \<notin> ar_ID ` set (s_runs s) \<and> ar_UserID r = u \<and>
    \<not> (\<exists>x \<in> set (s_runs s). ar_UserID x = u \<and> active_run x) \<and> run_rel s2 s'"
proof -
  let ?run = "\<lambda>k. zero_run\<lparr>ar_UserID := u, ar_ThreadID := k, ar_Status := ''queued'', ar_StateJSON := Some (JObject []), ar_HarnessMode := mode\<rparr>"
  let ?rest = "\<lambda>a r. tx_bind (if mode = ''wasm'' then tx_return ()
             else tx_bind (NewID en ''job'') (\<lambda>k.
               tx_bind (create_job (run_job en k u (ar_ID r))) (\<lambda>_.
               UpdateRun en u (ar_ID r) (\<lambda>r. r\<lparr>ar_JobID := k\<rparr>)))) (\<lambda>_.
    tx_bind (CreateMessage en \<lparr>am_ID = [], am_UserID = u, am_ThreadID = fst a, am_RunID = ar_ID r, am_ParentID = None,
      am_Role = ''user'', am_Seq = 0, am_CreatedAt = 0\<rparr>) (\<lambda>m.
    tx_bind (CreatePart en (text_row u (am_ID m) 0 ''text'' c)) (\<lambda>_.
    tx_bind (tx_each (attach_image en u (fst a) (am_ID m)) (enumerate 0 images)) (\<lambda>_.
    tx_bind (UpdateRun en u (ar_ID r) (\<lambda>r. r\<lparr>ar_ParentMessageID := Some (am_ID m)\<rparr>)) (\<lambda>_.
    tx_bind (TouchThread en u (fst a)) (\<lambda>_.
    tx_return \<lparr>sub_ThreadID = fst a, sub_RunID = ar_ID r, sub_NewThread = snd a, sub_FromSeq = 0, sub_HarnessMode = mode,
      sub_NoStream = False\<rparr>))))))"
  obtain a s1 where s1: "message_thread en u k c s = Inr (a, s1)"
      and step: "tx_bind (tx_read (\<lambda>s. \<exists>r \<in> set (s_runs s). ar_UserID r = u \<and> active_run r)) (\<lambda>busy.
        tx_bind (tx_check (\<not> busy) ErrActiveRunExists) (\<lambda>_.
        tx_bind (unique_as ErrActiveRunExists (CreateRun en (?run (fst a)))) (?rest a))) s1 = Inr (res, s')"
    using assms unfolding submit_tx_def split_beta by (rule bind_Inr)
  from step have idle: "\<not> (\<exists>x \<in> set (s_runs s1). ar_UserID x = u \<and> active_run x)"
      and step: "tx_bind (unique_as ErrActiveRunExists (CreateRun en (?run (fst a)))) (?rest a) s1 = Inr (res, s')"
    by (simp_all only: tx_bind_read tx_bind_check sum.distinct simp_thms split: if_splits)
  obtain r s2 where r: "CreateRun en (?run (fst a)) s1 = Inr (r, s2)" and rest: "?rest a r s2 = Inr (res, s')"
    using bind_Inr [OF step] unfolding unique_as_Inr by blast
  have same: "s_runs s1 = s_runs s" using tx_keepsD [OF message_thread_keeps s1] by (simp add: agent_rows_def)
  have "tx_within run_rel (?rest a r)"
    by (intro runs.within_combine run_calls runtime.rows_kept [OF tx_keeps_NewID] runtime.rows_kept [OF keeps_rows(16)] runtime.rows_kept [OF keeps_rows(5)]
      runtime.rows_kept [OF keeps_rows(6)] runtime.rows_kept [OF attach_image_keeps] runtime.rows_kept [OF keeps_rows(2)]) (simp add: agent_rows_def)
  with rest have "run_rel s2 s'" by (auto dest: tx_withinD)
  with CreateRun_appends [OF r] idle same show ?thesis by (intro exI [of _ r] exI [of _ s2]) simp
qed

end
