(* ===== verification/Planning_Frames.thy ===== *)
theory Planning_Frames
  imports Receipts Agent_Run_Relations
begin

text \<open>
  What planning, goals, tasks and proposals leave alone. The locale is the interface: a view of the store that the
  writes to the planning tables do not change is kept by every operation on goals, tasks, plans and patches, down
  to the refresh of seven days. Its instances are the rows of the agent runtime and the proposals.
\<close>

lemma keeps_sum [tx_frame]:
  "(\<And>e. r = Inl e \<Longrightarrow> tx_keeps g (l e)) \<Longrightarrow> (\<And>y. r = Inr y \<Longrightarrow> tx_keeps g (k y)) \<Longrightarrow>
    tx_keeps g (case r of Inl e \<Rightarrow> l e | Inr y \<Rightarrow> k y)"
  by (cases r) simp_all

lemma keeps_result [tx_frame]: "tx_keeps g (\<lambda>s. Inr (a, s))" "tx_keeps g (\<lambda>s. Inl e)"
  by (simp_all add: tx_keeps_def)

locale planning_frame =
  fixes g :: "store \<Rightarrow> 'b"
  assumes keeps_plans: "\<And>x s. g (s\<lparr>s_plans := x\<rparr>) = g s"
    and keeps_items: "\<And>x s. g (s\<lparr>s_items := x\<rparr>) = g s"
    and keeps_revisions: "\<And>x s. g (s\<lparr>s_revisions := x\<rparr>) = g s"
    and keeps_tasks: "\<And>x s. g (s\<lparr>s_tasks := x\<rparr>) = g s"
    and keeps_goals: "\<And>x s. g (s\<lparr>s_goals := x\<rparr>) = g s"
    and keeps_trees: "\<And>x s. g (s\<lparr>s_trees := x\<rparr>) = g s"
    and keeps_settings: "\<And>x s. g (s\<lparr>s_settings := x\<rparr>) = g s"
    and keeps_coords: "\<And>x s. g (s\<lparr>s_coords := x\<rparr>) = g s"
    and keeps_outbox: "\<And>x s. g (s\<lparr>s_outbox := x\<rparr>) = g s"
    and keeps_next: "\<And>x s. g (s\<lparr>s_next := x\<rparr>) = g s"
begin

lemmas writes = keeps_plans keeps_items keeps_revisions keeps_tasks keeps_goals keeps_trees keeps_settings keeps_coords
  keeps_outbox keeps_next

lemma keeps_fold: "(\<And>x s. g (f x s) = g s) \<Longrightarrow> g (fold f xs s) = g s"
  by (induction xs arbitrary: s) simp_all

subsection \<open>Rows of plans\<close>

lemma rows_kept [tx_frame]:
  "tx_keeps g (NewID en p)" "tx_keeps g (createOutbox en u ty kvs)" "tx_keeps g (create_plan plan)" "tx_keeps g (create_revision r)"
  "tx_keeps g (create_item item)" "tx_keeps g (update_plan k n f)" "tx_keeps g (update_item k n h)" "tx_keeps g (touchPlanTx en k)"
  "tx_keeps g (snapshotTaskTree en u k reason source)" "tx_keeps g (release_plan en ks plan)"
  unfolding create_plan_def create_revision_def create_item_def update_plan_def update_item_def touchPlanTx_def
    snapshotTaskTree_def release_plan_def createOutbox_def
  by (intro tx_frame | simp add: writes Let_def)+

lemma close_kept: "g (close_past u zone date now s) = g s"
  unfolding close_past_def by (rule keeps_fold) (simp add: close_plan_def close_items_def writes)

lemma structure_loop_kept [tx_frame]: "tx_keeps g (structure_loop en u protected parents byID items)"
  by (induction items) (auto intro!: tx_frame simp: Let_def writes)

lemma days_kept [tx_frame]:
  "tx_keeps g (load_day en sc first plan)" "tx_keeps g (keep_day sc first assigned plan existing protected changed reason)"
  unfolding load_day_def keep_day_def refreshTodayTaskStructureTx_def by (intro tx_frame | simp add: Let_def)+

lemma prepare_day_kept [tx_frame]: "tx_keeps g (prepare_day en sc first date assigned)"
  unfolding prepare_day_def by (intro tx_frame)

lemma prepare_later_kept [tx_frame]: "tx_keeps g (prepare_later en sc dates assigned)"
  by (induction dates arbitrary: assigned) (auto intro!: tx_frame simp: Let_def writes)

lemma prepare_days_kept [tx_frame]: "tx_keeps g (prepare_days en sc dates)"
  by (cases dates) (simp_all, (intro tx_frame)+)

lemma fill_slots_kept [tx_frame]: "tx_keeps g (fill_slots en sc parents target first n position day later queue)"
  by (induction n arbitrary: position day later queue)
    (auto intro!: tx_frame simp: newScheduledItem_def)

lemma fill_day_kept [tx_frame]: "tx_keeps g (fill_day en sc parents first day later queue)"
  unfolding fill_day_def by (intro tx_frame | simp add: Let_def)+

lemma fill_later_kept [tx_frame]: "tx_keeps g (fill_later en sc days queue)"
  by (induction days arbitrary: queue) (auto intro!: tx_frame simp: Let_def writes)

lemma fill_days_kept [tx_frame]: "tx_keeps g (fill_days en sc parents days queue)"
  by (cases days) (simp_all, (intro tx_frame)+)

lemma append_kept [tx_frame]: "tx_keeps g (append_item plan n item)" "tx_keeps g (clone_item en plan b item)"
  "tx_keeps g (record_schedule en plan items inp reason)"
  unfolding append_item_def clone_item_def record_schedule_def by (intro tx_frame | simp add: Let_def)+

lemma save_day_kept [tx_frame]:
  "tx_keeps g (saveScheduleDayTx en settings b day)" "tx_keeps g (save_day en sc day)"
  unfolding save_day_def saveScheduleDayTx_def appendScheduleDayTx_def
  by (intro tx_frame | simp add: Let_def supersede_open_def writes)+

lemma refreshScheduleTx_kept [tx_frame]: "tx_keeps g (refreshScheduleTx en u date loc zone)"
  unfolding refreshScheduleTx_def by (intro tx_frame | simp add: Let_def close_kept)+

subsection \<open>Goals and tasks\<close>

lemma release_kept [tx_frame]: "tx_keeps g (releaseTodayItemsTx en u ks)"
  unfolding releaseTodayItemsTx_def by (intro tx_frame | simp add: Let_def)+

lemma withdrawn_kept [tx_frame]: "tx_keeps g (withdrawn_tasks u items)"
  by (induction items) (auto intro!: tx_frame simp: Let_def writes)

lemma refreshLifecycle_kept [tx_frame]: "tx_keeps g (refreshLifecycleScheduleTx en u b)"
  unfolding refreshLifecycleScheduleTx_def preserve_today_def by (intro tx_frame | simp add: Let_def writes)+

lemma sync_items_kept [tx_frame]: "tx_keeps g (sync_items en u old t protected items)"
  by (induction items) (auto intro!: tx_frame simp: Let_def writes)

lemma sync_kept [tx_frame]: "tx_keeps g (syncEditedTaskTodayItemsTx en u old t)"
  unfolding syncEditedTaskTodayItemsTx_def sync_plan_def by (intro tx_frame | simp add: Let_def)+

lemma goals_kept [tx_frame]: "tx_keeps g (createGoalTx en u goal)" "tx_keeps g (updateGoalTx en u k n changes)"
  unfolding createGoalTx_def updateGoalTx_def by (intro tx_frame | simp add: Let_def writes)+

lemma tasks_kept [tx_frame]: "tx_keeps g (updateTaskTx en u k n changes b)" "tx_keeps g (deleteTaskTx en u k n)"
  "tx_keeps g (restoreTaskTx en u k n)"
  unfolding updateTaskTx_def deleteTaskTx_def restoreTaskTx_def delete_tasks_def restore_tasks_def
  by (intro tx_frame | simp add: Let_def writes)+

lemma coords_kept [tx_frame]: "tx_keeps g (createAgentCoord en u k c)" "tx_keeps g (updateAgentCoord en u k c)"
  unfolding createAgentCoord_def updateAgentCoord_def create_coord_def update_coord_def
  by (intro tx_frame | simp add: put_coords_def writes)+

subsection \<open>Operations of a patch\<close>

lemma create_task_kept [tx_frame]: "tx_keeps g (create_task t)" "tx_keeps g (load_live_tree u k st)" "tx_keeps g (attach_parent u p st)"
  unfolding create_task_def load_live_tree_def attach_parent_def by (intro tx_frame | simp add: writes)+

lemma patch_updates_kept [tx_frame]: "tx_keeps g (patch_updates lib u kind target patch st)"
  unfolding patch_updates_def patch_move_def by (intro tx_frame | simp add: Let_def)+

lemma apply_patch_kept [tx_frame]: "tx_keeps g (apply_patch lib en u k i patch st)"
  unfolding apply_patch_def apply_create_def apply_lifecycle_def apply_edit_def by (intro tx_frame | simp add: Let_def)+

lemma apply_patches_kept [tx_frame]: "tx_keeps g (apply_patches lib en u k i patches st)"
  by (induction patches arbitrary: i st) (auto intro!: tx_frame simp: Let_def writes)

subsection \<open>The plan of a day\<close>

lemma replan_items_kept [tx_frame]: "tx_keeps g (replan_items en u plan n protected items)"
  by (induction items) (auto intro!: tx_frame simp: Let_def writes)

lemma agent_items_kept [tx_frame]: "tx_keeps g (agent_items en u planID n position target logical byID cs chosen)"
  by (induction chosen arbitrary: position) (auto intro!: tx_frame simp: Let_def)

lemma plan_rows_kept [tx_frame]: "tx_keeps g (keep_protected en u existing)" "tx_keeps g (record_revision en k n inp items reason)"
  "tx_keeps g (primary_goal_tx en u k)"
  unfolding keep_protected_def record_revision_def primary_goal_tx_def by (intro tx_frame | simp add: writes)+

lemma create_or_conflict_kept [tx_frame]: "tx_keeps g (create_plan_or_conflict plan)"
  using rows_kept(3) [of plan] by (auto simp: tx_keeps_def create_plan_or_conflict_def split: sum.splits app_error.splits)

end

end
