(* ===== verification/Receipt_Relations.thy ===== *)
theory Receipt_Relations
  imports Planning_Frames
begin

text \<open>
  What a receipt does to the rows it is not about, whatever its outcome. The locale is the interface between a view of the
  store and the applications of a proposal: a view that planning leaves alone and that the settling of the proposal, the
  record on the part and the links of a new goal leave alone too, is kept by every successful application. Its
  instances are the runs and the keys of the parts; with the first, a receipt is a step of the runtime like any other call.
\<close>

subsection \<open>Calls that succeed\<close>

declare tx_update_Inr [go_simps]

lemma tx_keeps_then: "tx_keeps g m \<Longrightarrow> m s = Inr (a, s') \<Longrightarrow> g s' = g s"
  by (simp add: tx_keeps_def)

lemma guardApproval_keeps [tx_frame]: "tx_keeps g (guardApprovalTx ac u)"
  unfolding guardApprovalTx_def by (intro tx_frame)

definition op_ok :: "(store \<Rightarrow> 'b) \<Rightarrow> 'a op \<Rightarrow> bool" where
  "op_ok g m \<longleftrightarrow> (\<forall>s a s'. m s = (Inr a, s') \<longrightarrow> g s' = g s)"

lemma op_bind_Inr: "op_bind m f s = (Inr b, s') \<longleftrightarrow> (\<exists>a s1. m s = (Inr a, s1) \<and> f a s1 = (Inr b, s'))"
  by (auto simp: op_bind_def split: prod.splits sum.splits)

lemma op_tx_Inr: "op_tx m s = (Inr a, s') \<longleftrightarrow> m s = Inr (a, s')"
  by (auto simp: op_tx_def split: sum.splits)

lemma op_ok_rules:
  "tx_keeps g m \<Longrightarrow> op_ok g (op_tx m)" "op_ok g (op_return a)" "op_ok g (op_fail e)"
  by (auto simp: op_ok_def op_tx_Inr tx_keeps_def op_return_def op_fail_def)

lemma op_ok_bind: "op_ok g m \<Longrightarrow> (\<And>a. op_ok g (f a)) \<Longrightarrow> op_ok g (op_bind m f)"
  unfolding op_ok_def op_bind_Inr by metis

text \<open>An application written down as a conflict is never a success.\<close>

lemma conflicted_fails: "conflicted lib tx en u run k reason e s \<noteq> (Inr a, s')"
  by (auto simp: conflicted_def op_bind_Inr op_fail_def)

lemma apply_or_conflict_Inr: "apply_or_conflict lib tx en u run k m s = (Inr a, s') \<longleftrightarrow> m s = Inr (a, s')"
  by (auto simp: apply_or_conflict_def op_catch_def op_tx_def op_fail_def conflicted_fails split: sum.splits)

lemma op_ok_apply: "tx_keeps g m \<Longrightarrow> op_ok g (apply_or_conflict lib tx en u run k m)" "op_ok g (conflicted lib tx en u run k reason e)"
  by (auto simp: op_ok_def apply_or_conflict_Inr tx_keeps_def conflicted_fails)

lemma op_ok_cases:
  "(b \<Longrightarrow> op_ok g m) \<Longrightarrow> (\<not> b \<Longrightarrow> op_ok g n) \<Longrightarrow> op_ok g (if b then m else n)"
  "(\<And>e. r = Inl e \<Longrightarrow> op_ok g (l e)) \<Longrightarrow> (\<And>y. r = Inr y \<Longrightarrow> op_ok g (k y)) \<Longrightarrow>
    op_ok g (case r of Inl e \<Rightarrow> l e | Inr y \<Rightarrow> k y)"
  "(\<And>y z. p = (y, z) \<Longrightarrow> op_ok g (q y z)) \<Longrightarrow> op_ok g (case p of (y, z) \<Rightarrow> q y z)"
  by (cases b, simp_all) (cases r, simp_all, cases p, simp)

subsection \<open>Applications\<close>

locale receipt_frame = planning_frame g for g :: "store \<Rightarrow> 'b" +
  assumes settle_kept: "tx_keeps g (settle_proposal en k n st)"
    and applied_kept: "tx_keeps g (recordAppliedApprovalTx lib en ac u k goalID)"
    and linked_kept: "tx_keeps g (tx_update s_proposals put_proposals P (\<lambda>p. p\<lparr>pr_GoalID := goalID\<rparr>))"
    and thread_kept: "tx_keeps g (tx_update s_threads put_threads Q h)"
begin

lemmas receipt_kept = settle_kept applied_kept linked_kept thread_kept

lemma applications_kept:
  "tx_keeps g (applyProposalTx lib en ac u k patches e)"
  "tx_keeps g (write_agent_plan lib en ac u p date zone planID inp items existing)"
  unfolding applyProposalTx_def write_agent_plan_def markProposalApplied_def by (intro tx_frame receipt_kept | simp add: Let_def)+

lemma apply_by_tool_kept: "op_ok g (apply_by_tool lib tx en ac u run part p)"
proof -
  have "tx_keeps g (ApplyGoalWithTasks lib en ac u (pr_ID p) (ar_ThreadID run))" "tx_keeps g (ApplyGoalUpdateProposal lib en ac u (pr_ID p))"
      "tx_keeps g (ApplyProposal lib en ac u (pr_ID p) patches e)" "tx_keeps g (ApplyDailyPlanProposal lib en ac u (Some p) payload)"
    for patches e payload
    unfolding ApplyGoalWithTasks_def ApplyGoalUpdateProposal_def ApplyProposal_def ApplyDailyPlanProposal_def
    by (intro tx_frame receipt_kept applications_kept | simp add: Let_def)+
  then show ?thesis unfolding apply_by_tool_def Let_def by (intro op_ok_cases op_ok_bind op_ok_apply op_ok_rules)
qed

end

subsection \<open>The runtime\<close>

interpretation run_rows: receipt_frame agent_rows
  by unfold_locales (auto simp: agent_rows_def settle_proposal_def recordAppliedApprovalTx_def put_proposals_def put_parts_def put_threads_def
    intro!: tx_frame)

lemma decisions_keep_runs [tx_frame]: "tx_keeps agent_rows (decide_part en P st v b)" "tx_keeps agent_rows (decide_proposal en u k st)"
  unfolding decide_part_def decide_proposal_def
  by (intro tx_frame | simp add: agent_rows_def put_parts_def put_proposals_def)+

lemma notice_keeps_runs: "tx_keeps agent_rows (CreatePartAtIdx en p)"
  unfolding CreatePartAtIdx_def by (intro tx_frame)

lemma approve_part_runs: "op_ok agent_rows (approve_part lib tx en ac u run part)"
  unfolding approve_part_def recordApproval_def op_read_def op_ok_def
  using run_rows.apply_by_tool_kept [unfolded op_ok_def]
  by (auto simp: op_bind_Inr op_tx_Inr op_fail_def go_simps put_parts_def decide_part_def agent_rows_def split: option.splits)

lemma reject_part_runs: "tx_keeps agent_rows (reject_part lib en ac u part reason)"
  unfolding reject_part_def by (intro tx_frame)

lemma applications_runs:
  "tx_keeps agent_rows (ApplyGoalWithTasks lib en ac u k thread)" "tx_keeps agent_rows (ApplyGoalUpdateProposal lib en ac u k)"
  "tx_keeps agent_rows (ApplyProposal lib en ac u k patches e)" "tx_keeps agent_rows (ApplyDailyPlanProposal lib en ac u p payload)"
  unfolding ApplyGoalWithTasks_def ApplyGoalUpdateProposal_def ApplyProposal_def ApplyDailyPlanProposal_def
  by (intro tx_frame run_rows.receipt_kept run_rows.applications_kept | simp add: Let_def)+

text \<open>A relation along the runtime is kept by the steps of a receipt too, up to the point where the run goes on.\<close>

locale approval_relation = runtime_relation R for R :: "store \<Rightarrow> store \<Rightarrow> bool" +
  assumes approval_in: "tx_within R (SetApprovalStatus u k status now)"
    and parked_in: "tx_within R (detach_tx en u k pk)"
begin

lemma refreshed_within: "op_within R (refreshDetachedApproval lib en u run k)"
  unfolding refreshDetachedApproval_def refresh_session_def op_read_def Let_def
  by (intro within_combine stream_runs rows_kept [OF keeps_rows(4)])

lemma continued_within: "op_within R (continueHarnessRun lib en u run k)"
proof -
  have "tx_within R (setApprovalRunStatus en u k)" for k
    unfolding setApprovalRunStatus_def by (intro within_combine approval_in)
  then show ?thesis
    unfolding continueHarnessRun_def continue_session_def op_read_def Let_def
    by (intro within_combine stream_runs close_runs refreshed_within)
qed

lemma detached_within: "op_within R (detachPendingBrowserApproval lib en u k pk)"
  unfolding detachPendingBrowserApproval_def by (intro within_combine parked_in refreshed_within)

lemma conflicted_within: "op_within R (conflicted lib tx en u run k reason e)"
proof -
  have "tx_within R (recordConflict l tx en u k reason)" for l
    unfolding recordConflict_def conflict_notice_def Let_def
    by (intro within_combine AppendChunk_in rows_kept [OF decisions_keep_runs(1)] rows_kept [OF decisions_keep_runs(2)]
      rows_kept [OF notice_keeps_runs])
  then show ?thesis unfolding conflicted_def releaseHarnessRun_def by (intro within_combine continued_within)
qed

lemma approved_within: "op_within R (approve_part lib tx en ac u run part)"
proof -
  have "op_within R (apply_or_conflict lib tx en u run k m)" if "tx_keeps agent_rows m" for k and m :: "'a tx"
    unfolding apply_or_conflict_def using that by (intro within_combine rows_kept conflicted_within)
  note conflict = this
  have "op_within R (apply_by_tool lib tx en ac u run part p)" for p
    unfolding apply_by_tool_def Let_def by (intro within_combine conflict conflicted_within applications_runs)
  then show ?thesis
    unfolding approve_part_def recordApproval_def op_read_def by (intro within_combine rows_kept [OF decisions_keep_runs(1)])
qed

lemma decided_within:
  "op_within R (if decision = ''approve'' then approve_part lib tx en ac u run part else op_tx (reject_part lib en ac u part reason))"
  by (intro within_combine approved_within rows_kept [OF reject_part_runs])

lemma resolved_within:
  assumes "\<And>en u run. tx_within R (requeueRun en u run)"
  shows "op_within R (ResolveApproval lib tx en u cmd)"
proof -
  have "op_within R (finish_receipt lib en u run k)" for run k
    unfolding finish_receipt_def by (intro within_combine assms refreshed_within continued_within)
  then have "op_within R (settle_receipt lib tx en u part run decision reason)" for part run decision reason
    unfolding settle_receipt_def Let_def by (intro within_combine decided_within)
  then show ?thesis unfolding ResolveApproval_def Let_def by (intro within_combine detached_within)
qed

end

subsection \<open>Runs\<close>

lemma detach_runs: "tx_within run_rel (detach_tx en u k pk)"
  unfolding detach_tx_def
  by (intro runs.within_combine runs_update runs_kept [of "RevokeHarnessTokensForRun en k"] runs_kept [of "SaveThreadCheckpoint en u a b c d" for a b c d])
    (auto simp: RevokeHarnessTokensForRun_def SaveThreadCheckpoint_def put_tokens_def put_threads_def settles_def outcome_def active_run_def
      parked_browser_def going_def activeRunStatuses_def containsActiveStatus_def intro!: tx_frame)

interpretation run_approvals: approval_relation run_rel
  by unfold_locales (rule SetApprovalStatus_runs detach_runs)+

text \<open>The run of a receipt when it is queued again: it is the active one it was, or a host drives it.\<close>

definition resumable :: "id \<Rightarrow> agent_run \<Rightarrow> store \<Rightarrow> bool" where
  "resumable u run s \<longleftrightarrow> ar_HarnessMode run \<noteq> [] \<or> (\<exists>r. GetRun u (ar_ID run) s = Inr r \<and> active_run r \<and> \<not> ar_CancelRequested r)"

lemma requeue_runs:
  assumes "GetRun u (ar_ID run) s = Inr r" "active_run r" "\<not> ar_CancelRequested r"
  shows "run_rel s (snd (op_tx (requeueRun en u run) s))"
proof (cases "requeueRun en u run s")
  case (Inl e)
  then show ?thesis by (simp add: op_tx_def runs.rel_refl)
next
  case (Inr x)
  obtain k s1 s2 where k: "NewID en ''job'' s = Inr (k, s1)" and job: "create_job (run_job en k u (ar_ID run)) s1 = Inr ((), s2)"
      and x: "snd x = put_runs (update_rows (owned_run u (ar_ID run))
        (\<lambda>r. r\<lparr>ar_Status := ''running'', ar_JobID := k, ar_Revision := ar_Revision r + 1, ar_UpdatedAt := env_now en\<rparr>) (s_runs s2)) s2"
    using Inr by (cases x) (auto simp: requeueRun_def tx_bind_Inr tx_update_Inr)
  have same: "s_runs s2 = s_runs s"
    using k job tx_keeps_then [OF keeps_rows(16) job] by (auto simp: go_simps agent_rows_def)
  have "run_rel s2 (snd x)"
    unfolding x
  proof (rule run_rel_update)
    fix q assume q: "runs_distinct s2" "q \<in> set (s_runs s2)" "owned_run u (ar_ID run) q"
    then have "q = r" using first_owned [OF assms(1)] same_run [of s q r] by (auto simp: runs_distinct_def same owned_run_def)
    then show "settles q (q\<lparr>ar_Status := ''running'', ar_JobID := k, ar_Revision := ar_Revision q + 1, ar_UpdatedAt := env_now en\<rparr>)"
      using assms(2,3) by (simp add: settles_def)
  qed
  moreover have "run_rel s s2" using same by (rule run_rel_same)
  ultimately show ?thesis using Inr runs.rel_trans by (simp add: op_tx_def split_beta)
qed

lemma finish_receipt_runs:
  assumes "resumable u run s"
  shows "run_rel s (snd (finish_receipt lib en u run k s))"
proof (cases "GetRun u (ar_ID run) s")
  case (Inl e)
  then show ?thesis by (simp add: finish_receipt_def op_bind_def op_tx_def tx_try_def runs.rel_refl)
next
  case (Inr r)
  have bound: "snd (op_bind m (\<lambda>_. op_return x) s) = snd (m s)" for m :: "unit op" and x :: submit_result
    by (cases "m s") (auto simp: op_bind_def op_return_def split: sum.splits)
  show ?thesis
  proof (cases "IsTerminalRunStatus (ar_Status r) \<or> ar_HarnessMode run \<noteq> []")
    case True
    then show ?thesis
      using Inr op_withinD [OF run_approvals.refreshed_within [of "pl_agent lib" en u r k], of s]
        op_withinD [OF run_approvals.continued_within [of "pl_agent lib" en u run k], of s]
      by (auto simp: finish_receipt_def op_bind_def [of "op_tx m" for m] op_tx_def tx_try_def bound)
  next
    case False
    have "run_rel s (snd (op_tx (requeueRun en u run) s))"
      using assms False Inr by (intro requeue_runs [of u run s r]) (auto simp: resumable_def)
    then show ?thesis using False Inr by (simp add: finish_receipt_def op_bind_def [of "op_tx (tx_try m)" for m] op_tx_def [of "tx_try m" for m] tx_try_def bound)
  qed
qed

lemma settle_runs:
  assumes "resumable u run s"
  shows "run_rel s (snd (settle_receipt lib tx en u part run decision reason s))"
proof -
  define ac where "ac = \<lparr>ac_RunID = ar_ID run, ac_PartID = mp_ID part\<rparr>"
  define m where "m = (if decision = ''approve'' then approve_part lib tx en ac u run part else op_tx (reject_part lib en ac u part reason))"
  have all: "op_within run_rel m" unfolding m_def by (rule run_approvals.decided_within)
  have kept: "op_ok agent_rows m" unfolding m_def by (intro op_ok_cases approve_part_runs op_ok_rules reject_part_runs)
  have eq: "settle_receipt lib tx en u part run decision reason s = op_bind m (\<lambda>_. finish_receipt lib en u run (mp_ID part)) s"
    by (simp add: settle_receipt_def m_def ac_def Let_def)
  show ?thesis
  proof (cases "m s")
    case (Pair r s1)
    have first: "run_rel s s1" using op_withinD [OF all, of s] Pair by simp
    show ?thesis
    proof (cases r)
      case (Inl e)
      then show ?thesis using first Pair by (simp add: eq op_bind_def)
    next
      case (Inr x)
      have "s_runs s1 = s_runs s" using kept Pair Inr by (auto simp: op_ok_def agent_rows_def)
      then have "resumable u run s1" using assms by (simp add: resumable_def GetRun_def)
      then have "run_rel s1 (snd (finish_receipt lib en u run (mp_ID part) s1))" by (rule finish_receipt_runs)
      then show ?thesis using first Pair Inr runs.rel_trans by (simp add: eq op_bind_def)
    qed
  qed
qed

text \<open>A restored browser ends the turn it had parked; the run keeps its host mode.\<close>

lemma GetRun_update:
  assumes "\<And>r. ar_ID (f r) = ar_ID r \<and> ar_UserID (f r) = ar_UserID r" and "s_runs s' = update_rows P f (s_runs s)"
  shows "GetRun u k s' = (case GetRun u k s of Inl e \<Rightarrow> Inl e | Inr r \<Rightarrow> Inr (if P r then f r else r))"
proof -
  have "filter (owned_run u k) (s_runs s') = map (\<lambda>r. if P r then f r else r) (filter (owned_run u k) (s_runs s))"
    unfolding assms(2) update_rows_def filter_map
    by (rule arg_cong [of _ _ "map _"], rule filter_cong) (auto simp: owned_run_def assms(1))
  then show ?thesis by (cases "filter (owned_run u k) (s_runs s)") (simp_all add: GetRun_def first_row_def)
qed

lemma refresh_keeps_mode:
  assumes "detachPendingBrowserApproval lib en u k pk s = (Inr run, s')"
  shows "ar_HarnessMode run \<noteq> []"
proof -
  from assms obtain s1 where tx: "detach_tx en u k pk s = Inr ((), s1)" and run: "GetRun u k s1 = Inr run"
    by (auto simp: detachPendingBrowserApproval_def op_bind_Inr op_tx_Inr op_return_def go_simps)
  have keep: "tx_keeps s_runs (RevokeHarnessTokensForRun en k)"
    unfolding RevokeHarnessTokensForRun_def by (intro tx_frame) (simp add: put_tokens_def)
  have check: "tx_keeps s_runs (SaveThreadCheckpoint en u a b c d)" for a b c d
    unfolding SaveThreadCheckpoint_def by (intro tx_frame) (simp_all add: put_threads_def)
  from tx obtain r where r: "GetRun u k s = Inr r" "parked_browser r" and s1: "s_runs s1 =
      update_rows (\<lambda>q. owned_run u k q \<and> ar_Revision q = ar_Revision r \<and> parked_browser q)
        (\<lambda>q. q\<lparr>ar_Status := ''interrupted'', ar_ErrorCode := ''HOST_DETACHED'',
          ar_ErrorMessage := ''pending proposal explicitly settled from a restored browser'',
          ar_FinishedAt := Some (env_now en), ar_UpdatedAt := env_now en, ar_Revision := ar_Revision r + 1\<rparr>) (s_runs s)"
    unfolding detach_tx_def
    by (auto simp: go_simps put_runs_def dest!: tx_keeps_then [OF keep] tx_keeps_then [OF check])
  have "run = (if owned_run u k r \<and> parked_browser r then r\<lparr>ar_Status := ''interrupted'', ar_ErrorCode := ''HOST_DETACHED'',
          ar_ErrorMessage := ''pending proposal explicitly settled from a restored browser'',
          ar_FinishedAt := Some (env_now en), ar_UpdatedAt := env_now en, ar_Revision := ar_Revision r + 1\<rparr> else r)"
    using run r(1) by (simp add: GetRun_update [OF _ s1])
  then show ?thesis using r(2) by (auto simp: parked_browser_def)
qed

lemma receipt_target_resumable:
  assumes "receipt_target u call s = Inr (part, run)"
  shows "resumable u run s"
proof -
  from assms obtain k where k: "GetRun u k s = Inr run" and ok: "\<not> ar_CancelRequested run" "ar_HarnessMode run = [] \<Longrightarrow> ar_Status run = ''awaiting_approval''"
    by (auto simp: receipt_target_def guard_r_def bind_r_def Let_def split: sum.splits if_splits)
  from k have "ar_ID run = k" using first_owned by blast
  with k ok show ?thesis
    by (auto simp: resumable_def active_run_def containsActiveStatus_def activeRunStatuses_def)
qed

lemma ResolveApproval_runs: "op_within run_rel (ResolveApproval lib tx en u cmd)"
  unfolding op_within_def
proof
  fix s
  let ?call = "trim_space (cmd_ToolCallID cmd)"
  define decision where "decision = al_lower (pl_agent lib) (trim_space (decision_field lib (cmd_Result cmd) ''decision''))"
  show "run_rel s (snd (ResolveApproval lib tx en u cmd s))"
  proof (cases "?call = []")
    case True
    then show ?thesis by (simp add: ResolveApproval_def op_fail_def runs.rel_refl)
  next
    case False
    note call = this
    show ?thesis
    proof (cases "receipt_target u ?call s")
      case (Inl e)
      then show ?thesis using call by (simp add: ResolveApproval_def op_bind_def op_tx_def tx_try_def runs.rel_refl)
    next
      case (Inr target)
      obtain part run where target: "receipt_target u ?call s = Inr (part, run)" using Inr by (cases target) simp
      define start where "start = (if cmd_DetachHarness cmd \<and> ar_HarnessMode run = ''wasm'' \<and> ar_Status run = ''awaiting_approval''
        then detachPendingBrowserApproval (pl_agent lib) en u (ar_ID run) (mp_ID part) else op_return run)"
      have eq: "ResolveApproval lib tx en u cmd s = (if decision \<noteq> ''approve'' \<and> decision \<noteq> ''reject'' then op_fail ErrEmptyCommand
          else op_bind start (\<lambda>run. settle_receipt lib tx en u part run decision (decision_field lib (cmd_Result cmd) ''reason''))) s"
        using call target
        by (simp add: ResolveApproval_def Let_def decision_def start_def op_bind_def [of "op_tx (tx_try m)" for m] op_tx_def [of "tx_try m" for m] tx_try_def)
      have first: "run_rel s (snd (start s))" unfolding start_def by (intro op_withinD runs.within_combine run_approvals.detached_within)
      have ready: "resumable u run' s1" if "start s = (Inr run', s1)" for run' s1
        using that receipt_target_resumable [OF target] refresh_keeps_mode
        by (auto simp: start_def op_return_def resumable_def split: if_splits)
      show ?thesis
      proof (cases "start s")
        case (Pair r s1)
        then show ?thesis
        proof (cases r)
          case (Inl e)
          then show ?thesis using first Pair runs.rel_refl by (simp add: eq op_bind_def op_fail_def)
        next
          case (Inr run')
          then have "run_rel s1 (snd (settle_receipt lib tx en u part run' decision (decision_field lib (cmd_Result cmd) ''reason'') s1))"
            using Pair ready by (intro settle_runs) blast
          then have "run_rel s (snd (settle_receipt lib tx en u part run' decision (decision_field lib (cmd_Result cmd) ''reason'') s1))"
            using first Pair by (auto intro: runs.rel_trans)
          then show ?thesis using Pair Inr runs.rel_refl by (simp add: eq op_bind_def op_fail_def)
        qed
      qed
    qed
  qed
qed

end
