(* ===== verification/Agent_Run_Properties.thy ===== *)
theory Agent_Run_Properties
  imports Receipt_Relations Notification_Properties
begin

text \<open>
  What holds of the runs of the agent whatever the order of its calls: a user has one active run at a
  time, a run that ended keeps its outcome and is closed to its host, and a cancelled run does not
  succeed; and where the tokens and checkpoints of a run differ from the comments.
\<close>

subsection \<open>Calls\<close>

text \<open>
  The calls of the runtime, each with a clock of its own and any arguments, stale ones included, and the
  transactions that their other callers (the proxy, the tools) run by themselves; a receipt of a decision is one, with everything
  the application of its proposal does.
\<close>

inductive runtime_call :: "store \<Rightarrow> store \<Rightarrow> bool" where
  submits: "runtime_call s (snd (SubmitMessage svc lib en u thread mode commands s))"
| submits_tx: "submit_tx en u thread content images mode s = Inr (res, s') \<Longrightarrow> runtime_call s s'"
| resolves: "runtime_call s (snd (ResolveApproval plib texts en u cmd s))"
| begins: "runtime_call s (snd (BeginHarnessRun lib en u k s))"
| executes: "runtime_call s (snd (ExecuteRun svc lib en (\<lambda>_. op_return ()) job s))"
| grants: "runtime_call s (snd (issueRunGrant svc lib en plaintext u k etag browserOnly s))"
| beats: "runtime_call s (snd (HarnessHeartbeat lib en fresh p s))"
| completes: "runtime_call s (snd (CompleteRun lib en p c s))"
| checkpoints: "runtime_call s (snd (op_tx (PutThreadCheckpoint en p checkpoint version) s))"
| cancels: "runtime_call s (snd (RequestCancellation lib en u k s))"
| finishes: "runtime_call s (snd (finishRun lib en run wanted reason s))"
| finishes_tx: "runtime_call s (snd (op_tx (finish_tx en sess run wanted reason) s))"
| fails: "runtime_call s (snd (failHarnessRun svc lib en run code message s))"
| reaps: "runtime_call s (snd (ReapHarnessRuns svc lib en s))"
| prunes: "runtime_call s (snd (op_tx (PruneHarnessTokens en) s))"
| restarts: "runtime_call s (snd (op_tx (MarkInterruptedRuns en code) s))"
| interrupts: "runtime_call s (snd (op_tx (InterruptRuns en ks code message) s))"
| marks: "runtime_call s (snd (op_tx (SetRunStatus en u k status code message) s))"
| appends: "runtime_call s (snd (op_tx (AppendChunk en u k chunk) s))"
| saves: "runtime_call s (snd (op_tx (SaveRunState en u k state seq allowDetached) s))"
| attempts: "runtime_call s (snd (op_tx (AcquireModelAttempt en u k maxAttempts maxTurns token) s))"
| releases: "runtime_call s (snd (op_tx (ReleaseModelAttempt en u k attempt) s))"
| counts: "runtime_call s (snd (op_tx (CountModelCall en u k) s))"
| asks: "runtime_call s (snd (op_tx (SetApprovalStatus u k status now) s))"
| waits: "runtime_call s (snd (op_tx (AddApprovalWait en u k waited) s))"

text \<open>The deletion of a conversation is the call that removes runs.\<close>

inductive agent_call :: "store \<Rightarrow> store \<Rightarrow> bool" where
  runtime: "runtime_call s s' \<Longrightarrow> agent_call s s'"
| deletes: "agent_call s (fst (snd (DeleteAgentThread lib en u k (s, disk))))"

text \<open>Every call but a submission is an evolution of the runs there are.\<close>

lemma runtime_call_evolves:
  assumes "runtime_call s s'"
  shows "run_rel s s' \<or> (\<exists>en u t c images mode res s1. submit_tx en u t c images mode s = Inr (res, s1) \<and> run_rel s1 s')"
  using assms
proof cases
  case (submits svc lib en u thread mode commands)
  show ?thesis
  proof (cases "extractUserMessage commands")
    case (Inr m)
    show ?thesis
    proof (cases "length (snd m) > AttachmentMaxPerMessage")
      case False
      show ?thesis
      proof (cases "resolveHarnessMode svc lib mode")
        case mode: (Inr md)
        show ?thesis
        proof (cases "submit_tx en u thread (fst m) (snd m) md s")
          case sub: (Inr r)
          have "s' = snd ((if md = ''wasm'' then op_bind (BeginHarnessRun lib en u (sub_RunID (fst r))) (\<lambda>_. op_return (fst r))
              else op_return (fst r)) (snd r))"
            using submits Inr False mode sub by (auto simp: SubmitMessage_def op_bind_def op_tx_def split_beta)
          moreover have "op_within run_rel (if md = ''wasm'' then op_bind (BeginHarnessRun lib en u (sub_RunID (fst r))) (\<lambda>_. op_return (fst r))
              else op_return (fst r))"
            by (intro runs.within_combine run_calls)
          ultimately have "run_rel (snd r) s'" by (simp add: op_withinD)
          with sub show ?thesis by (metis prod.collapse)
        next
          case (Inl e)
          with submits Inr False mode have "s' = s" by (auto simp: SubmitMessage_def op_bind_def op_tx_def split_beta)
          then show ?thesis by (simp add: runs.rel_refl)
        qed
      next
        case (Inl e)
        with submits Inr False have "s' = s" by (auto simp: SubmitMessage_def op_fail_def split_beta)
        then show ?thesis by (simp add: runs.rel_refl)
      qed
    next
      case True
      with submits Inr have "s' = s" by (auto simp: SubmitMessage_def op_fail_def split_beta)
      then show ?thesis by (simp add: runs.rel_refl)
    qed
  next
    case (Inl e)
    with submits have "s' = s" by (auto simp: SubmitMessage_def op_fail_def)
    then show ?thesis by (simp add: runs.rel_refl)
  qed
next
  case (submits_tx en u thread content images mode res)
  then show ?thesis using runs.rel_refl by blast
next
  case (executes svc lib en job)
  have "op_within run_rel (ExecuteRun svc lib en (\<lambda>_. op_return ()) job)" by (rule runtime.ExecuteRun_runs) (rule runs.within_op_basic)
  then show ?thesis unfolding executes by (blast dest: op_withinD)
qed (auto intro!: disjI1 op_withinD [of run_rel] ResolveApproval_runs runs.within_op_tx run_calls interrupt_runs count_runs SetApprovalStatus_runs)

lemma call_evolves:
  "agent_call s s' \<Longrightarrow> run_rel s s' \<or> (\<exists>en u t c images mode res s1. submit_tx en u t c images mode s = Inr (res, s1) \<and> run_rel s1 s')"
  by (erule agent_call.cases) (use runtime_call_evolves DeleteAgentThread_runs in blast)+

subsection \<open>One active run\<close>

definition runs_ok :: "store \<Rightarrow> bool" where
  "runs_ok s \<longleftrightarrow> runs_distinct s \<and>
    (\<forall>x \<in> set (s_runs s). \<forall>y \<in> set (s_runs s). active_run x \<and> active_run y \<and> ar_UserID x = ar_UserID y \<longrightarrow> ar_ID x = ar_ID y)"

lemma evolved_row:
  assumes "evolves s s'" and "r' \<in> set (s_runs s')"
  shows "\<exists>r \<in> set (s_runs s). settles r r'"
proof -
  obtain P g where p: "s_runs s' = map g (filter P (s_runs s))" "\<forall>r \<in> set (s_runs s). settles r (g r)" using assms(1) by (auto simp: evolves_def)
  from assms(2) obtain r where "r' = g r" "r \<in> set (s_runs s)" unfolding p(1) by (auto simp only: set_map set_filter)
  with p(2) show ?thesis by blast
qed

lemma settles_active: "settles r r' \<Longrightarrow> active_run r' \<Longrightarrow> active_run r"
  by (auto simp: settles_def outcome_def active_run_def)

lemma evolves_ok:
  assumes "evolves s s'" and "runs_ok s"
  shows "runs_ok s'"
  unfolding runs_ok_def
proof (intro conjI ballI impI)
  show "runs_distinct s'" using assms evolves_ids by (simp add: runs_ok_def)
  fix x y assume rows: "x \<in> set (s_runs s')" "y \<in> set (s_runs s')" and both: "active_run x \<and> active_run y \<and> ar_UserID x = ar_UserID y"
  obtain a where a: "a \<in> set (s_runs s)" "settles a x" using evolved_row [OF assms(1) rows(1)] by blast
  obtain b where b: "b \<in> set (s_runs s)" "settles b y" using evolved_row [OF assms(1) rows(2)] by blast
  have "active_run a" "active_run b" using settles_active a(2) b(2) both by blast+
  moreover have "ar_UserID a = ar_UserID b" using a(2) b(2) both by (simp add: settles_def)
  ultimately have "ar_ID a = ar_ID b" using assms(2) a(1) b(1) unfolding runs_ok_def by blast
  then show "ar_ID x = ar_ID y" using a(2) b(2) by (simp add: settles_def)
qed

lemma runs_ok_append:
  assumes "runs_ok s" and "s_runs s2 = s_runs s @ [r]" and "ar_ID r \<notin> ar_ID ` set (s_runs s)"
    and "\<not> (\<exists>x \<in> set (s_runs s). ar_UserID x = ar_UserID r \<and> active_run x)"
  shows "runs_ok s2"
  unfolding runs_ok_def
proof (intro conjI ballI impI)
  show "runs_distinct s2" using assms(1-3) by (simp add: runs_ok_def runs_distinct_def)
  fix x y assume "x \<in> set (s_runs s2)" "y \<in> set (s_runs s2)" and both: "active_run x \<and> active_run y \<and> ar_UserID x = ar_UserID y"
  then have "x = r \<or> x \<in> set (s_runs s)" "y = r \<or> y \<in> set (s_runs s)" using assms(2) by auto
  with both assms(1,4) show "ar_ID x = ar_ID y" unfolding runs_ok_def by metis
qed

lemma submit_ok:
  assumes "submit_tx en u t c images mode s = Inr (res, s')" and "runs_ok s"
  shows "runs_ok s'"
proof -
  obtain r s2 where r: "s_runs s2 = s_runs s @ [r]" "ar_ID r \<notin> ar_ID ` set (s_runs s)" "ar_UserID r = u"
      "\<not> (\<exists>x \<in> set (s_runs s). ar_UserID x = u \<and> active_run x)" "run_rel s2 s'"
    using submit_creates [OF assms(1)] by blast
  then have ok: "runs_ok s2" using runs_ok_append [OF assms(2)] by blast
  then have "evolves s2 s'" using r(5) by (simp add: run_rel_def runs_ok_def)
  then show ?thesis using ok by (rule evolves_ok)
qed

lemma call_ok: "agent_call s s' \<Longrightarrow> runs_ok s \<Longrightarrow> runs_ok s'"
proof -
  assume call: "agent_call s s'" and ok: "runs_ok s"
  have step: "runs_ok b" if "run_rel a b" "runs_ok a" for a b
  proof (rule evolves_ok [OF _ that(2)])
    show "evolves a b" using that by (simp add: run_rel_def runs_ok_def)
  qed
  from call_evolves [OF call] show "runs_ok s'"
    using step ok submit_ok by blast
qed

lemma distinct_all_equal: "(\<And>x y. x \<in> set xs \<Longrightarrow> y \<in> set xs \<Longrightarrow> x = y) \<Longrightarrow> distinct xs \<Longrightarrow> length xs \<le> 1"
proof (cases xs rule: remdups_adj.cases)
  case (3 x y zs)
  assume same: "\<And>x y. x \<in> set xs \<Longrightarrow> y \<in> set xs \<Longrightarrow> x = y" and "distinct xs"
  have "x = y" by (rule same) (simp_all add: 3)
  with 3 \<open>distinct xs\<close> show ?thesis by simp
qed simp_all

text \<open>
  C24. Whatever calls are made, in any order, by any hosts and with stale arguments, no user ever has two
  active runs, and no two runs share an identifier.
\<close>

theorem one_active_run:
  assumes "agent_call\<^sup>*\<^sup>* s s'" and "runs_ok s"
  shows "distinct (map ar_ID (s_runs s')) \<and> length (filter (\<lambda>r. ar_UserID r = u \<and> active_run r) (s_runs s')) \<le> 1"
proof -
  from assms have ok: "runs_ok s'" by (induction rule: rtranclp_induct) (auto intro: call_ok)
  then have ids: "distinct (map ar_ID (s_runs s'))" by (simp add: runs_ok_def runs_distinct_def)
  let ?f = "filter (\<lambda>r. ar_UserID r = u \<and> active_run r) (s_runs s')"
  have "x = y" if "x \<in> set ?f" "y \<in> set ?f" for x y
    using that ok same_run [of s' x y] unfolding runs_ok_def by simp
  moreover have "distinct ?f" using ids by (simp add: distinct_map)
  ultimately have "length ?f \<le> 1" by (rule distinct_all_equal)
  with ids show ?thesis by simp
qed

text \<open>Two messages, one after the other's run has been cancelled by its owner.\<close>

definition first_submit :: "store \<Rightarrow> store" where
  "first_submit s = (case submit_tx (sample_env 10) ''usr'' None ''hello'' [] ''wasm'' s of Inl _ \<Rightarrow> s | Inr (_, s') \<Rightarrow> s')"

lemma first_submit_call: "agent_call\<^sup>*\<^sup>* s (first_submit s)"
  by (cases "submit_tx (sample_env 10) ''usr'' None ''hello'' [] ''wasm'' s")
    (auto simp: first_submit_def intro!: r_into_rtranclp intro: runtime submits_tx)

definition between :: "store \<Rightarrow> store" where
  "between s = snd (op_tx (SetRunStatus (sample_env 20) ''usr'' ''run_uu'' ''cancelled'' ''CANCELLED'' []) s)"

lemma one_active_run_witness:
  "distinct (map ar_ID (s_runs (first_submit (between (first_submit sample_store))))) \<and>
   length (filter (\<lambda>r. ar_UserID r = ''usr'' \<and> active_run r) (s_runs (first_submit (between (first_submit sample_store))))) \<le> 1"
proof (rule one_active_run)
  show "agent_call\<^sup>*\<^sup>* sample_store (first_submit (between (first_submit sample_store)))"
    using first_submit_call [of sample_store] first_submit_call [of "between (first_submit sample_store)"] runtime [OF marks [of "first_submit sample_store"]]
    unfolding between_def by (meson rtranclp.rtrancl_into_rtrancl rtranclp_trans)
  show "runs_ok sample_store" by (simp add: runs_ok_def runs_distinct_def sample_store_def empty_store_def)
qed

lemma two_runs_there: "map ar_Status (s_runs (first_submit (between (first_submit sample_store)))) = [''cancelled'', ''queued'']"
  by code_simp

subsection \<open>The end of a run\<close>

lemma settled_by:
  assumes "run_rel s1 s'" and "runs_distinct s1" and "r \<in> set (s_runs s1)" and "r' \<in> set (s_runs s')" and "ar_ID r' = ar_ID r"
  shows "settles r r'"
proof -
  have "evolves s1 s'" using assms(1,2) by (simp add: run_rel_def)
  then obtain x where x: "x \<in> set (s_runs s1)" "settles x r'" using evolved_row assms(4) by blast
  then have "ar_ID x = ar_ID r" using assms(5) by (simp add: settles_def)
  then have "x = r" using same_run assms(2,3) x(1) by blast
  with x(2) show ?thesis by simp
qed



text \<open>
  C26. A run that has ended is closed to its host: no token of it authenticates, no endpoint accepts a
  principal of it, no grant is issued for it, and a report or a cancellation changes nothing. The comment in
  \<open>CompleteRun\<close> says that the checkpoint of a late report is worth keeping; it is dropped.
\<close>

theorem ended_run_is_closed:
  assumes "GetRun (hp_UserID p) (hp_RunID p) s = Inr run" and "terminal_status (ar_Status run)"
  shows "(\<forall>q. AuthenticateHarness lib en authorization s = Inr q \<longrightarrow> (hp_UserID q, hp_RunID q) \<noteq> (hp_UserID p, hp_RunID p)) \<and>
    (\<forall>r. activeRun en p s \<noteq> Inr r) \<and>
    issueRunGrant svc lib en plaintext (hp_UserID p) (hp_RunID p) etag browserOnly s = (Inl ErrRunNotActive, s) \<and>
    CompleteRun lib en p report s = (Inr (), s) \<and>
    RequestCancellation lib en (hp_UserID p) (hp_RunID p) s = (Inr (), s)"
proof -
  have ended: "IsTerminalRunStatus (ar_Status run)" using assms(2) by (simp add: IsTerminalRunStatus_def)
  have "AuthenticateHarness lib en authorization s \<noteq> Inr q" if "(hp_UserID q, hp_RunID q) = (hp_UserID p, hp_RunID p)" for q
    using that assms(1) ended by (auto simp: AuthenticateHarness_def split: option.splits sum.splits if_splits)
  moreover have "activeRun en p s \<noteq> Inr r" for r using assms(1) ended by (auto simp: activeRun_def go_simps split: if_splits)
  moreover have "issueRunGrant svc lib en plaintext (hp_UserID p) (hp_RunID p) etag browserOnly s = (Inl ErrRunNotActive, s)"
    using assms(1) ended by (simp add: issueRunGrant_def op_bind_def op_tx_def tx_try_def grant_check_def)
  moreover have "CompleteRun lib en p report s = (Inr (), s)"
    using assms(1) ended by (simp add: CompleteRun_def op_bind_def op_tx_def tx_try_def op_return_def)
  moreover have "RequestCancellation lib en (hp_UserID p) (hp_RunID p) s = (Inr (), s)"
    using assms(1) ended by (simp add: RequestCancellation_def op_bind_def op_tx_def tx_try_def op_return_def)
  ultimately show ?thesis by blast
qed

lemma token_rows:
  "s_tokens (s\<lparr>s_runs := rs\<rparr>) = s_tokens s" "s_runs (s\<lparr>s_tokens := ts\<rparr>) = s_runs s"
  by simp_all

lemma GetRun_only:
  assumes "q \<in> set (s_runs s)" and "\<And>y. y \<in> set (s_runs s) \<Longrightarrow> owned_run u k y \<Longrightarrow> y = q" and "owned_run u k q"
  shows "GetRun u k s = Inr q"
proof (cases "filter (owned_run u k) (s_runs s)")
  case Nil
  with assms(1,3) show ?thesis by (simp add: filter_empty_conv)
next
  case (Cons y ys)
  then have "y \<in> set (filter (owned_run u k) (s_runs s))" by simp
  then have "y = q" using assms(2) by simp
  with Cons show ?thesis by (simp add: GetRun_def first_row_def)
qed

lemma SetRunStatus_effect:
  assumes "SetRunStatus en u k status code message s = Inr ((), s')" and "runs_distinct s" and "GetRun u k s = Inr r"
  shows "\<exists>r'. GetRun u k s' = Inr r' \<and> outcome r' = (status, code, message, if containsActiveStatus status then ar_FinishedAt r else Some (env_now en)) \<and>
    s_tokens s' = s_tokens s \<and> (\<forall>x \<in> set (s_runs s). x \<noteq> r \<longrightarrow> x \<in> set (s_runs s'))"
proof -
  note r = first_owned [OF assms(3)]
  let ?P = "\<lambda>r. owned_run u k r \<and> active_run r \<and> (status = ''succeeded'' \<or> status = ''running'' \<longrightarrow> \<not> ar_CancelRequested r \<and> ar_Status r \<noteq> ''cancelling'')"
  let ?f = "\<lambda>r. r\<lparr>ar_Status := status, ar_ErrorCode := code, ar_ErrorMessage := message, ar_UpdatedAt := env_now en,
         ar_Revision := ar_Revision r + 1,
         ar_FinishedAt := (if containsActiveStatus status then ar_FinishedAt r else Some (env_now en))\<rparr>"
  have s': "s' = put_runs (update_rows ?P ?f (s_runs s)) s" and hit: "rows_affected ?P (s_runs s) \<noteq> 0"
    using assms(1) unfolding SetRunStatus_def must_affect_def tx_update_def by (auto simp: go_simps)
  from hit obtain x where "x \<in> set (s_runs s)" "?P x" by (auto simp: rows_affected_def filter_empty_conv)
  moreover from this have "x = r" using same_run [OF assms(2)] r by (auto simp: owned_run_def)
  ultimately have Pr: "?P r" by simp
  have upd: "update_rows ?P ?f (s_runs s) = map (\<lambda>x. if ar_ID x = ar_ID r then ?f r else x) (s_runs s)"
    by (rule update_key(1)) (use assms(2) r Pr in \<open>auto simp: runs_distinct_def owned_run_def\<close>)
  have rows: "s_runs s' = map (\<lambda>x. if ar_ID x = ar_ID r then ?f r else x) (s_runs s)" using s' upd by (simp add: put_runs_def)
  define q where "q = ?f r"
  have q: "ar_ID q = ar_ID r" "owned_run u k q" "outcome q = (status, code, message, if containsActiveStatus status then ar_FinishedAt r else Some (env_now en))"
    using r by (simp_all add: q_def owned_run_def outcome_def)
  have rows: "s_runs s' = map (\<lambda>x. if ar_ID x = ar_ID r then q else x) (s_runs s)" using rows unfolding q_def .
  have "(if ar_ID r = ar_ID r then q else r) \<in> set (s_runs s')" unfolding rows set_map using r by (rule imageI [OF conjunct1])
  then have "q \<in> set (s_runs s')" by simp
  moreover have "y = q" if y: "y \<in> set (s_runs s')" "owned_run u k y" for y
  proof -
    obtain x where x: "x \<in> set (s_runs s)" "y = (if ar_ID x = ar_ID r then q else x)" using y(1) unfolding rows by (auto simp only: set_map)
    show ?thesis
    proof (cases "ar_ID x = ar_ID r")
      case False
      with x(2) y(2) r show ?thesis by (simp add: owned_run_def)
    qed (simp add: x(2))
  qed
  ultimately have "GetRun u k s' = Inr q" by (intro GetRun_only q(2))
  moreover have "x \<in> set (s_runs s')" if "x \<in> set (s_runs s)" "x \<noteq> r" for x
  proof -
    have "ar_ID x \<noteq> ar_ID r" using that same_run [OF assms(2)] r by blast
    then have "x = (if ar_ID x = ar_ID r then q else x)" by simp
    then show ?thesis unfolding rows set_map using that(1) by (rule image_eqI)
  qed
  ultimately show ?thesis using s' by (intro exI [of _ q]) (simp add: q(3) put_runs_def)
qed

lemma stream_keeps_tokens:
  "tx_keeps s_tokens (AppendChunk en u k c)" "tx_keeps s_tokens (emit_final en st sess)"
proof -
  show append: "tx_keeps s_tokens (AppendChunk en u k c)" for u k c
    unfolding AppendChunk_def by (intro tx_frame | simp add: put_chunks_def put_runs_def)+
  have emit: "tx_keeps s_tokens (emitSet en ss path v)" for ss path v
    unfolding emitSet_def emit_op_def Emit_def
    by (cases "Set_op path v") (auto intro!: tx_frame append)
  show "tx_keeps s_tokens (emit_final en st sess)"
    unfolding emit_final_def by (intro tx_frame emit)
qed

lemma SetRunStatus_found: "SetRunStatus en u k status code message s = Inr ((), s') \<Longrightarrow> \<exists>r. GetRun u k s = Inr r"
  by (auto simp: SetRunStatus_def must_affect_def tx_update_def rows_affected_def GetRun_def first_row_def go_simps filter_empty_conv
      split: list.splits)

lemma revoked_unusable: "\<not> usable_token now (revoked_token t x)"
  by (simp add: usable_token_def revoked_token_def)

text \<open>
  C27. The end of a run is one transaction: the run gets the outcome that was asked for, or the cancellation
  its owner asked for before, with the time; no token of the run is usable any more at any time, and the tokens of other
  runs are as they were.
\<close>

theorem finish_closes_run:
  assumes "finish_tx en sess run wanted reason s = Inr ((), s')" and "runs_distinct s"
    and "GetRun (ar_UserID run) (ar_ID run) s = Inr current" and "\<not> terminal_status (ar_Status current)" and "terminal_status (fst wanted)"
  shows "(\<exists>r. GetRun (ar_UserID run) (ar_ID run) s' = Inr r \<and>
      (ar_Status r, ar_ErrorCode r, ar_ErrorMessage r) = final_status current wanted \<and> ar_FinishedAt r = Some (env_now en)) \<and>
    (\<forall>t \<in> set (s_tokens s'). ht_RunID t \<noteq> ar_ID run \<or> (\<forall>now. \<not> usable_token now t)) \<and>
    filter (\<lambda>t. ht_RunID t \<noteq> ar_ID run) (s_tokens s') = filter (\<lambda>t. ht_RunID t \<noteq> ar_ID run) (s_tokens s)"
proof -
  obtain status code message where fin: "final_status current wanted = (status, code, message)" by (cases "final_status current wanted") auto
  have ended: "terminal_status status" using fin assms(5) by (auto simp: final_status_def terminal_status_def split: if_splits)
  then have idle: "\<not> containsActiveStatus status" by (auto simp: terminal_status_def containsActiveStatus_def activeRunStatuses_def)
  obtain s1 s2 where emit: "emit_final en (final_mark status reason) sess s = Inr ((), s1)"
      and set: "SetRunStatus en (ar_UserID run) (ar_ID run) status code message s1 = Inr ((), s2)"
      and s': "s' = put_tokens (update_rows (\<lambda>t. ht_RunID t = ar_ID run) (revoked_token (env_now en)) (s_tokens s2)) s2"
    using assms(1,3,4) fin by (auto simp: finish_tx_def IsTerminalRunStatus_def RevokeHarnessTokensForRun_def tx_update_def go_simps)
  have "run_rel s s1" using emit by (rule tx_withinD [rotated]) (auto simp: emit_final_def intro!: runs.within_combine run_calls split: option.splits)
  then have dist: "runs_distinct s1" using assms(2) evolves_ids by (simp add: run_rel_def)
  obtain r where "GetRun (ar_UserID run) (ar_ID run) s1 = Inr r" using SetRunStatus_found [OF set] by blast
  from SetRunStatus_effect [OF set dist this] obtain r' where r': "GetRun (ar_UserID run) (ar_ID run) s2 = Inr r'"
      "outcome r' = (status, code, message, Some (env_now en))" "s_tokens s2 = s_tokens s1"
    using idle by auto
  have "GetRun (ar_UserID run) (ar_ID run) s' = Inr r'" using r'(1) s' by (simp add: GetRun_def put_tokens_def)
  moreover have "s_tokens s' = update_rows (\<lambda>t. ht_RunID t = ar_ID run) (revoked_token (env_now en)) (s_tokens s)"
    using s' r'(3) tx_keepsD [OF stream_keeps_tokens(2) emit] by (simp add: put_tokens_def)
  moreover have "filter (\<lambda>t. ht_RunID t \<noteq> k) (update_rows (\<lambda>t. ht_RunID t = k) (revoked_token now) ts) = filter (\<lambda>t. ht_RunID t \<noteq> k) ts" for k now ts
    by (rule update_rows_filter_other) (auto simp: revoked_token_def)
  ultimately show ?thesis using r'(2) fin by (auto simp: outcome_def update_rows_def revoked_unusable)
qed

subsection \<open>Tokens and checkpoints\<close>

definition sample_library :: agent_library where
  "sample_library = \<lparr>al_decode = (\<lambda>_. None), al_text = (\<lambda>_. []), al_lower = (\<lambda>x. x), al_hash = (\<lambda>x. CHR ''#'' # x),
     al_encrypt = Inr, al_decrypt = Inr, al_error = (\<lambda>_. []), al_echo_before = [], al_echo_after = [], al_echo_empty = [],
     al_image_prompt = [], al_cut_marker = [], al_untitled = []\<rparr>"

definition sample_run :: agent_run where
  "sample_run = zero_run\<lparr>ar_ID := ''run'', ar_UserID := ''usr'', ar_ThreadID := ''thr'', ar_Status := ''running'', ar_HarnessMode := ''wasm''\<rparr>"

definition sample_token :: harness_token where
  "sample_token = \<lparr>ht_Generation = ''g'', ht_NextTokenCipher = [], ht_RotationUntil = None, ht_ID = ''tok'', ht_TokenHash = ''#old'',
     ht_UserID = ''usr'', ht_ThreadID = ''thr'', ht_RunID = ''run'', ht_Mode = ''wasm'', ht_ToolsETag = [], ht_ExpiresAt = 5 * minute,
     ht_LastHeartbeatAt = None, ht_RevokedAt = None, ht_CreatedAt = 0\<rparr>"

definition sample_host :: harness_principal where
  "sample_host = \<lparr>hp_TokenID = ''tok'', hp_UserID = ''usr'', hp_ThreadID = ''thr'', hp_RunID = ''run'', hp_Mode = ''wasm''\<rparr>"

definition sample_agents :: store where
  "sample_agents = empty_store\<lparr>s_runs := [sample_run], s_tokens := [sample_token]\<rparr>"

lemma ended_run_is_closed_witness:
  defines "s \<equiv> empty_store\<lparr>s_runs := [sample_run\<lparr>ar_Status := ''interrupted''\<rparr>], s_tokens := [sample_token]\<rparr>"
  shows "CompleteRun sample_library (sample_env 0) sample_host \<lparr>co_StopReason = ''stop'', co_Checkpoint = ''x'', co_LibfxVersion = []\<rparr> s = (Inr (), s)"
  using ended_run_is_closed [of sample_host s "sample_run\<lparr>ar_Status := ''interrupted''\<rparr>"]
  by (simp add: s_def sample_host_def GetRun_def owned_run_def first_row_def sample_run_def terminal_status_def)

lemma finish_closes_run_witness:
  defines "s \<equiv> sample_agents\<lparr>s_runs := [sample_run\<lparr>ar_CancelRequested := True, ar_Status := ''cancelling''\<rparr>]\<rparr>"
  shows "\<exists>s'. finish_tx (sample_env 1) None sample_run (''succeeded'', [], []) ''stop'' s = Inr ((), s') \<and>
    (\<exists>r. GetRun ''usr'' ''run'' s' = Inr r \<and> ar_Status r = ''cancelled'')"
proof -
  let ?c = "sample_run\<lparr>ar_CancelRequested := True, ar_Status := ''cancelling''\<rparr>"
  have "finish_tx (sample_env 1) None sample_run (''succeeded'', [], []) ''stop'' s = Inr ((), s\<lparr>
      s_runs := [?c\<lparr>ar_Status := ''cancelled'', ar_ErrorCode := ''CANCELLED'', ar_ErrorMessage := ''cancelled by user'', ar_UpdatedAt := 1,
         ar_Revision := 1, ar_FinishedAt := Some 1\<rparr>], s_tokens := [revoked_token 1 sample_token]\<rparr>)" (is "_ = Inr ((), ?s)")
    unfolding s_def by code_simp
  moreover have "GetRun (ar_UserID sample_run) (ar_ID sample_run) s = Inr ?c" "runs_distinct s" unfolding s_def by code_simp+
  moreover have "\<not> terminal_status (ar_Status ?c)" "terminal_status (fst (''succeeded'', [] :: string, [] :: string))" by code_simp+
  ultimately have "\<exists>r. GetRun (ar_UserID sample_run) (ar_ID sample_run) ?s = Inr r \<and>
      (ar_Status r, ar_ErrorCode r, ar_ErrorMessage r) = final_status ?c (''succeeded'', [], []) \<and> ar_FinishedAt r = Some (env_now (sample_env 1))"
    using finish_closes_run [of "sample_env 1" None sample_run "(''succeeded'', [], [])" "''stop''" s ?s ?c] by blast
  then have "\<exists>r. GetRun ''usr'' ''run'' ?s = Inr r \<and> ar_Status r = ''cancelled''"
    by (auto simp: final_status_def sample_run_def)
  with \<open>finish_tx _ _ _ _ _ s = _\<close> show ?thesis by blast
qed

text \<open>
  The comment of \<open>renewToken\<close> says that a run has at most one usable token at any instant. After a
  renewal the old token is still accepted, and so is its successor, until the grace of the rotation ends.
\<close>

theorem two_tokens_after_renewal:
  "\<exists>s reply. HarnessHeartbeat sample_library (sample_env 0) ''new'' sample_host sample_agents = (Inr reply, s) \<and>
    hb_HarnessToken reply = ''new'' \<and>
    (\<exists>p q. AuthenticateHarness sample_library (sample_env (20 * second)) ''Bearer old'' s = Inr p \<and>
      AuthenticateHarness sample_library (sample_env (20 * second)) ''Bearer new'' s = Inr q \<and> hp_TokenID p \<noteq> hp_TokenID q)"
proof -
  let ?r = "HarnessHeartbeat sample_library (sample_env 0) ''new'' sample_host sample_agents"
  let ?a = "AuthenticateHarness sample_library (sample_env (20 * second)) ''Bearer old'' (snd ?r)"
  let ?b = "AuthenticateHarness sample_library (sample_env (20 * second)) ''Bearer new'' (snd ?r)"
  have "\<not> isl (fst ?r) \<and> hb_HarnessToken (projr (fst ?r)) = ''new'' \<and> \<not> isl ?a \<and> \<not> isl ?b \<and> hp_TokenID (projr ?a) \<noteq> hp_TokenID (projr ?b)"
    by code_simp
  then show ?thesis by (intro exI [of _ "snd ?r"] exI [of _ "projr (fst ?r)"] conjI exI [of _ "projr ?a"] exI [of _ "projr ?b"]) (simp_all add: prod_eq_iff)
qed

interpretation threads: store_relation "\<lambda>s s'. s_threads s' = s_threads s"
  by unfold_locales simp_all

lemma threads_kept: "tx_keeps s_threads m \<Longrightarrow> tx_within (\<lambda>s s'. s_threads s' = s_threads s) m"
  by (auto simp: tx_within_def dest: tx_keepsD)

lemma finishRun_threads: "op_within (\<lambda>s s'. s_threads s' = s_threads s) (finishRun lib en run wanted reason)"
proof -
  have append: "tx_keeps s_threads (AppendChunk en u k c)" for u k c
    unfolding AppendChunk_def by (intro tx_frame | simp add: put_chunks_def put_runs_def)+
  have emit: "tx_keeps s_threads (emitSet en ss path v)" for ss path v
    unfolding emitSet_def emit_op_def Emit_def by (cases "Set_op path v") (auto intro!: tx_frame append)
  have rest: "tx_keeps s_threads (SetRunStatus en u k status code message)" "tx_keeps s_threads (RevokeHarnessTokensForRun en k)"
    for u k status code message
    unfolding SetRunStatus_def RevokeHarnessTokensForRun_def by (intro tx_frame | simp add: put_runs_def put_tokens_def)+
  have "tx_keeps s_threads (emit_final en st sess)" for st sess unfolding emit_final_def by (intro tx_frame emit)
  then have "tx_keeps s_threads (finish_tx en sess run wanted reason)" for sess
    unfolding finish_tx_def by (intro tx_frame rest)
  then show ?thesis unfolding finishRun_def by (intro threads.within_combine threads_kept)
qed

text \<open>
  The checkpoint of a conversation is only written for its newest run: a host of an older run, or of one
  that gave its host up, cannot replace what a newer run left.
\<close>

theorem older_run_keeps_off:
  assumes "runs_distinct s" and "GetRun (hp_UserID p) (hp_RunID p) s = Inr r"
    and "host_detached r \<or>
      (\<exists>n \<in> set (s_runs s). ar_UserID n = hp_UserID p \<and> ar_ThreadID n = hp_ThreadID p \<and> ar_CreatedAt r < ar_CreatedAt n)"
  shows "PutThreadCheckpoint en p checkpoint version s = Inl ErrRecordNotFound \<and>
    s_threads (snd (CompleteRun lib en p report s)) = s_threads s"
proof -
  note r = first_owned [OF assms(2)]
  have "x = r" if "x \<in> set (s_runs s)" "ar_ID x = hp_RunID p" for x using same_run [OF assms(1) that(1) conjunct1 [OF r]] that(2) r by simp
  then have "\<not> checkpoint_owner s (hp_UserID p) (hp_ThreadID p) (hp_RunID p)"
    using assms(3) unfolding checkpoint_owner_def by blast
  then have save: "SaveThreadCheckpoint en (hp_UserID p) (hp_ThreadID p) c v (Some (hp_RunID p)) s = Inl ErrRecordNotFound" for c v
    by (simp add: SaveThreadCheckpoint_def must_affect_def tx_update_def tx_bind_def rows_affected_def tx_check_def)
  have "s_threads (snd (CompleteRun lib en p report s)) = s_threads s"
  proof (cases "co_Checkpoint report = []")
    case True
    then have "op_within (\<lambda>s s'. s_threads s' = s_threads s) (CompleteRun lib en p report)"
      unfolding CompleteRun_def saveCheckpoint_def by (intro threads.within_combine finishRun_threads) simp_all
    then show ?thesis by (rule op_withinD)
  next
    case False
    then show ?thesis
      by (simp add: CompleteRun_def op_bind_def op_tx_def saveCheckpoint_def save tx_try_def op_return_def split: sum.splits prod.splits)
  qed
  then show ?thesis by (simp add: PutThreadCheckpoint_def save)
qed

lemma older_run_keeps_off_witness:
  defines "s \<equiv> sample_agents\<lparr>s_runs := [sample_run, sample_run\<lparr>ar_ID := ''new'', ar_CreatedAt := 1\<rparr>]\<rparr>"
  shows "PutThreadCheckpoint (sample_env 2) sample_host ''x'' [] s = Inl ErrRecordNotFound \<and>
    s_threads (snd (CompleteRun sample_library (sample_env 2) sample_host \<lparr>co_StopReason = ''stop'', co_Checkpoint = ''x'', co_LibfxVersion = []\<rparr> s)) = s_threads s"
  by (rule older_run_keeps_off [of _ _ sample_run])
    (simp_all add: s_def sample_agents_def empty_store_def sample_run_def sample_host_def zero_run_def runs_distinct_def GetRun_def owned_run_def first_row_def)

end
