(* ===== verification/Agent_Log_Properties.thy ===== *)
theory Agent_Log_Properties
  imports Agent_Run_Properties Transport_Properties
begin

text \<open>
  The log of a run and its snapshot: from its first chunk on, whatever else is called, the snapshot in the
  row is the replay of the log, the log has no gaps, and a client that resumes from a snapshot catches up by
  the chunks after its checkpoint.
\<close>

subsection \<open>The relation\<close>

definition log_texts :: "id \<Rightarrow> id \<Rightarrow> store \<Rightarrow> json list" where
  "log_texts u k s = map rc_ChunkJSON (run_chunks u k s)"

definition log_ok :: "json option \<Rightarrow> id \<Rightarrow> id \<Rightarrow> store \<Rightarrow> bool" where
  "log_ok start u k s \<longleftrightarrow> run_chunks u k s \<noteq> [] \<and> k \<in> ar_ID ` set (s_runs s) \<and>
    map rc_Seq (run_chunks u k s) = map int [0..<length (run_chunks u k s)] \<and>
    (\<forall>r \<in> set (s_runs s). owned_run u k r \<longrightarrow>
      ar_CheckpointSeq r = int (length (run_chunks u k s)) \<and> replay start (log_texts u k s) = Inr (ar_StateJSON r))"

definition log_rel :: "id \<Rightarrow> id \<Rightarrow> store \<Rightarrow> store \<Rightarrow> bool" where
  "log_rel u k s s' \<longleftrightarrow> (\<exists>new. run_chunks u k s' = run_chunks u k s @ new) \<and> (\<forall>start. log_ok start u k s \<longrightarrow> log_ok start u k s')"

interpretation logs: store_relation "log_rel u k" for u k
proof
  show "log_rel u k s s" for s by (simp add: log_rel_def)
  show "log_rel u k s s''" if "log_rel u k s s'" "log_rel u k s' s''" for s s' s''
    using that unfolding log_rel_def by (metis append.assoc)
qed

lemma log_rel_same: "agent_rows s' = agent_rows s \<Longrightarrow> log_rel u k s s'"
  by (simp add: log_rel_def log_ok_def log_texts_def run_chunks_def agent_rows_def)

lemma log_rel_cong: "s_runs s1 = s_runs s2 \<Longrightarrow> run_chunks u k s1 = run_chunks u k s2 \<Longrightarrow> log_rel u k s s2 \<Longrightarrow> log_rel u k s s1"
proof -
  assume same: "s_runs s1 = s_runs s2" "run_chunks u k s1 = run_chunks u k s2"
  then have "log_ok start u k s1 = log_ok start u k s2" for start unfolding log_ok_def log_texts_def by (simp only:)
  then show "log_rel u k s s2 \<Longrightarrow> log_rel u k s s1" unfolding log_rel_def same by blast
qed

text \<open>What a change of rows must keep.\<close>

definition snap :: "agent_run \<Rightarrow> id \<times> id \<times> json option \<times> int" where
  "snap r = (ar_ID r, ar_UserID r, ar_StateJSON r, ar_CheckpointSeq r)"

lemma log_rel_update:
  assumes "\<And>r. P r \<Longrightarrow> ar_ID (f r) = ar_ID r \<and> ar_UserID (f r) = ar_UserID r \<and> (owned_run u k r \<longrightarrow> snap (f r) = snap r)"
  shows "log_rel u k s (put_runs (update_rows P f (s_runs s)) s)"
proof -
  have chunks: "run_chunks u k (put_runs rs s) = run_chunks u k s" for rs by (simp add: run_chunks_def put_runs_def)
  have ids: "ar_ID ` set (update_rows P f (s_runs s)) = ar_ID ` set (s_runs s)"
    unfolding update_rows_def set_map image_image by (intro image_cong refl) (simp add: assms)
  have rows: "snap r' \<in> snap ` {r \<in> set (s_runs s). owned_run u k r}" if r': "r' \<in> set (update_rows P f (s_runs s))" "owned_run u k r'" for r'
  proof -
    obtain r where r: "r \<in> set (s_runs s)" "r' = (if P r then f r else r)" using r'(1) by (auto simp only: update_rows_def set_map)
    have "owned_run u k r \<and> snap r' = snap r" using r(2) r'(2) assms [of r] by (cases "P r") (auto simp: owned_run_def)
    with r(1) show ?thesis by blast
  qed
  have "log_ok start u k (put_runs (update_rows P f (s_runs s)) s)" if ok: "log_ok start u k s" for start
    unfolding log_ok_def log_texts_def chunks
  proof (intro conjI ballI impI)
    show "run_chunks u k s \<noteq> []" "map rc_Seq (run_chunks u k s) = map int [0..<length (run_chunks u k s)]"
      "k \<in> ar_ID ` set (s_runs (put_runs (update_rows P f (s_runs s)) s))"
      using ok ids by (simp_all add: log_ok_def put_runs_def)
    fix r' assume r': "r' \<in> set (s_runs (put_runs (update_rows P f (s_runs s)) s))" "owned_run u k r'"
    have "r' \<in> set (update_rows P f (s_runs s))" using r'(1) by (simp add: put_runs_def)
    then obtain r where "r \<in> set (s_runs s)" "owned_run u k r" "snap r' = snap r" using rows r'(2) by blast
    then show "ar_CheckpointSeq r' = int (length (run_chunks u k s))" "replay start (map rc_ChunkJSON (run_chunks u k s)) = Inr (ar_StateJSON r')"
      using ok by (simp_all add: log_ok_def log_texts_def snap_def)
  qed
  then show ?thesis by (simp add: log_rel_def chunks)
qed

lemma logs_update:
  "(\<And>r. P r \<Longrightarrow> snap (f r) = snap r) \<Longrightarrow> tx_within (log_rel u k) (tx_update s_runs put_runs P f)"
  by (rule logs.within_update, rule log_rel_update) (simp add: snap_def)

lemma logs_kept: "tx_keeps agent_rows m \<Longrightarrow> tx_within (log_rel u k) m"
  by (rule logs.within_keeps [OF log_rel_same])

lemma replay_snoc: "replay v (xs @ [x]) = bind_r (replay v xs) (\<lambda>v. bind_r (ApplyStateJSON v x) (\<lambda>w. Inr (Some w)))"
  by (induction xs arbitrary: v) (auto simp: bind_r_def split: sum.split)

lemma max_of_upt: "max_of (map int [0..<Suc n]) = Some (int n)"
proof -
  have "fold max (map int xs) (int a) = int (fold max xs a)" for xs a by (induction xs arbitrary: a) (simp_all add: of_nat_max [symmetric])
  moreover have "fold max [1..<Suc n] 0 = n"
    by (induction n) (simp_all add: max_def)
  moreover have "[0..<Suc n] = 0 # [1..<Suc n]" by (simp add: upt_conv_Cons)
  ultimately show ?thesis unfolding max_of_def by (metis (no_types, lifting) list.map(2) list.simps(5) of_nat_0)
qed

lemma updated_row: "r' \<in> set (update_rows P f rows) \<Longrightarrow> \<exists>r \<in> set rows. r' = (if P r then f r else r)"
  by (auto simp: update_rows_def)

lemma update_ids: "(\<And>r. ar_ID (f r) = ar_ID r) \<Longrightarrow> ar_ID ` set (update_rows P f rows) = ar_ID ` set rows"
  unfolding update_rows_def set_map image_image by (intro image_cong refl) simp

text \<open>A new row with a key of its own.\<close>

lemma log_rel_append:
  assumes "s_runs s' = s_runs s @ [r]" and "s_chunks s' = s_chunks s" and "ar_ID r \<notin> ar_ID ` set (s_runs s)"
  shows "log_rel u k s s'"
proof -
  have "run_chunks u k s' = run_chunks u k s" using assms(2) by (simp add: run_chunks_def)
  moreover have "\<not> owned_run u k r" if "k \<in> ar_ID ` set (s_runs s)" using that assms(3) by (auto simp: owned_run_def)
  ultimately show ?thesis using assms(1) by (auto simp: log_rel_def log_ok_def log_texts_def)
qed

subsection \<open>The basic calls\<close>

lemma status_logs:
  "tx_within (log_rel u k) (SetRunStatus en v j status code message)" "tx_within (log_rel u k) (RequestRunCancellation en v j)"
  "tx_within (log_rel u k) (MarkInterruptedRuns en code)" "tx_within (log_rel u k) (InterruptRuns en ks code message)"
  "tx_within (log_rel u k) (CountModelCall en v j)" "tx_within (log_rel u k) (AddApprovalWait en v j waited)"
  "tx_within (log_rel u k) (AcquireModelAttempt en v j a b t)" "tx_within (log_rel u k) (ReleaseModelAttempt en v j attempt)"
  unfolding SetRunStatus_def RequestRunCancellation_def MarkInterruptedRuns_def InterruptRuns_def CountModelCall_def AddApprovalWait_def
    AcquireModelAttempt_def ReleaseModelAttempt_def
  by (intro logs.within_combine logs_update logs_kept [OF tx_keeps_NewID]; simp add: snap_def interrupted_run_def agent_rows_def)+

lemma SetApprovalStatus_logs: "tx_within (log_rel u k) (SetApprovalStatus v j status now)"
  unfolding SetApprovalStatus_def
  by (intro logs.within_combine logs_update) (simp_all add: snap_def approval_row_def Let_def split: option.splits)

lemma UpdateRun_logs: "(\<And>r. snap (change r) = snap r) \<Longrightarrow> tx_within (log_rel u k) (UpdateRun en v j change)"
  unfolding UpdateRun_def updateRun_def by (intro logs.within_combine logs_update) (simp add: snap_def)

lemma grant_logs: "tx_within (log_rel u k) (grant_tx svc lib en run plaintext)"
  unfolding grant_tx_def
  by (intro logs.within_combine logs_kept [OF keeps_rows(8)] logs_kept [OF keeps_rows(11)] UpdateRun_logs) (simp add: snap_def)

lemma SaveRunState_logs: "tx_within (log_rel u k) (SaveRunState en v j state seq d)"
  unfolding tx_within_def
proof (intro allI impI)
  fix s a s'
  assume save: "SaveRunState en v j state seq d s = Inr (a, s')"
  show "log_rel u k s s'"
  proof (cases "CountChunks v j s > 0")
    case True
    with save show ?thesis by (auto simp: SaveRunState_def go_simps intro: logs.rel_refl)
  next
    case False
    let ?f = "\<lambda>r. r\<lparr>ar_StateJSON := Some state, ar_CheckpointSeq := seq, ar_UpdatedAt := env_now en, ar_Revision := ar_Revision r + 1\<rparr>"
    let ?P = "\<lambda>r. owned_run v j r \<and> (d \<or> \<not> host_detached r)"
    have s': "s' = put_runs (update_rows ?P ?f (s_runs s)) s"
      using save False by (auto simp: SaveRunState_def updateRun_def must_affect_def tx_update_def go_simps)
    show ?thesis
    proof (cases "(v, j) = (u, k)")
      case True
      with False have "run_chunks u k s = []" by (simp add: CountChunks_def)
      then show ?thesis by (simp add: log_rel_def log_ok_def s' run_chunks_def put_runs_def)
    next
      case False
      then have "log_rel u k s (put_runs (update_rows ?P ?f (s_runs s)) s)"
        by (intro log_rel_update) (auto simp: owned_run_def)
      then show ?thesis by (simp add: s')
    qed
  qed
qed

lemma chunk_appended:
  assumes "AppendChunk en u k c s = Inr (n, s')"
  shows "\<exists>r v. GetRun u k s = Inr r \<and> ApplyStateJSON (ar_StateJSON r) c = Inr v \<and> n = NextChunkSeq u k s \<and>
    s_chunks s' = s_chunks s @ [\<lparr>rc_RunID = k, rc_Seq = n, rc_UserID = u, rc_ChunkJSON = c, rc_CreatedAt = env_now en\<rparr>] \<and>
    s_runs s' = update_rows (owned_run u k) (\<lambda>r. r\<lparr>ar_StateJSON := Some v, ar_CheckpointSeq := n + 1, ar_UpdatedAt := env_now en\<rparr>) (s_runs s)"
proof -
  from assms obtain r where r: "GetRun u k s = Inr r" by (auto simp: AppendChunk_def go_simps)
  show ?thesis
  proof (cases "ApplyStateJSON (ar_StateJSON r) c")
    case (Inl e)
    with assms r show ?thesis by (simp add: AppendChunk_def go_simps)
  next
    case (Inr v)
    with assms r show ?thesis
      by (auto simp: AppendChunk_def tx_create_def tx_update_def go_simps put_chunks_def put_runs_def)
  qed
qed

lemma AppendChunk_logs: "tx_within (log_rel u k) (AppendChunk en v j c)"
  unfolding tx_within_def
proof (intro allI impI)
  fix s n s'
  assume append: "AppendChunk en v j c s = Inr (n, s')"
  then obtain r w where a: "GetRun v j s = Inr r" "ApplyStateJSON (ar_StateJSON r) c = Inr w" "n = NextChunkSeq v j s"
      "s_chunks s' = s_chunks s @ [\<lparr>rc_RunID = j, rc_Seq = n, rc_UserID = v, rc_ChunkJSON = c, rc_CreatedAt = env_now en\<rparr>]"
      "s_runs s' = update_rows (owned_run v j) (\<lambda>r. r\<lparr>ar_StateJSON := Some w, ar_CheckpointSeq := n + 1, ar_UpdatedAt := env_now en\<rparr>) (s_runs s)"
    using chunk_appended by blast
  let ?f = "\<lambda>r. r\<lparr>ar_StateJSON := Some w, ar_CheckpointSeq := n + 1, ar_UpdatedAt := env_now en\<rparr>"
  show "log_rel u k s s'"
  proof (cases "(v, j) = (u, k)")
    case False
    have chunks: "run_chunks u k s' = run_chunks u k s" using False a(4) by (auto simp: run_chunks_def)
    have "log_rel u k s (put_runs (update_rows (owned_run v j) ?f (s_runs s)) s)"
      by (rule log_rel_update) (use False in \<open>auto simp: owned_run_def\<close>)
    moreover have "s_runs s' = s_runs (put_runs (update_rows (owned_run v j) ?f (s_runs s)) s)" unfolding a(5) by (simp add: put_runs_def)
    moreover have "run_chunks u k s' = run_chunks u k (put_runs (update_rows (owned_run v j) ?f (s_runs s)) s)"
      unfolding chunks by (simp add: put_runs_def run_chunks_def)
    ultimately show ?thesis using log_rel_cong by blast
  next
    case True
    let ?cs = "run_chunks u k s"
    have chunks: "run_chunks u k s' = ?cs @ [\<lparr>rc_RunID = k, rc_Seq = n, rc_UserID = u, rc_ChunkJSON = c, rc_CreatedAt = env_now en\<rparr>]"
      using True a(4) by (simp add: run_chunks_def)
    have "log_ok start u k s'" if ok: "log_ok start u k s" for start
    proof -
      obtain m where m: "length ?cs = Suc m" using ok by (auto simp: log_ok_def neq_Nil_conv)
      have seqs: "map rc_Seq ?cs = map int [0..<length ?cs]" using ok by (simp add: log_ok_def)
      then have n: "n = int (length ?cs)" using a(3) True m max_of_upt [of m] by (simp add: NextChunkSeq_def)
      have "r \<in> set (s_runs s)" "owned_run u k r" using first_owned [OF a(1)] True by (auto simp: owned_run_def)
      then have "replay start (log_texts u k s) = Inr (ar_StateJSON r)" using ok by (simp add: log_ok_def)
      then have "replay start (log_texts u k s') = Inr (Some w)"
        using a(2) by (simp add: log_texts_def chunks replay_snoc)
      moreover have "ar_StateJSON x = Some w \<and> ar_CheckpointSeq x = n + 1" if x: "x \<in> set (s_runs s')" "owned_run u k x" for x
      proof -
        obtain y where y: "x = (if owned_run v j y then ?f y else y)" using updated_row [OF x(1) [unfolded a(5)]] by blast
        have "owned_run v j y" by (rule ccontr) (use y x(2) True in simp)
        with y show ?thesis by simp
      qed
      moreover have "k \<in> ar_ID ` set (s_runs s')"
        unfolding a(5) using ok by (subst update_ids) (simp_all add: log_ok_def)
      ultimately show ?thesis using seqs n chunks by (simp add: log_ok_def)
    qed
    then show ?thesis using chunks by (simp add: log_rel_def)
  qed
qed

interpretation log_runtime: runtime_relation "log_rel u k" for u k
proof unfold_locales
  show "log_rel u k s s'" if "agent_rows s' = agent_rows s" for s s' using that by (rule log_rel_same)
qed (intro status_logs AppendChunk_logs SaveRunState_logs grant_logs UpdateRun_logs; simp add: snap_def)+

lemma approval_logs: "tx_within (log_rel u k) (detach_tx en v j pk)" "tx_within (log_rel u k) (requeueRun en v run)"
  unfolding detach_tx_def requeueRun_def
  by (intro logs.within_combine logs_update logs_kept [OF keeps_rows(11)] logs_kept [OF keeps_rows(4)] logs_kept [OF keeps_rows(16)]
      logs_kept [OF tx_keeps_NewID]; simp add: snap_def agent_rows_def)+

interpretation log_approvals: approval_relation "log_rel u k" for u k
  by unfold_locales (rule SetApprovalStatus_logs approval_logs)+

subsection \<open>Calls\<close>

lemma CreateRun_logs: "tx_within (log_rel u k) (CreateRun en run)"
  unfolding tx_within_def
proof (intro allI impI)
  fix s r s'
  assume create: "CreateRun en run s = Inr (r, s')"
  have "s_chunks s' = s_chunks s"
    using create by (auto simp: CreateRun_def tx_create_def put_runs_def go_simps Let_def split: if_splits)
  with CreateRun_appends [OF create] show "log_rel u k s s'" by (intro log_rel_append) auto
qed

lemma submit_logs: "tx_within (log_rel u k) (submit_tx en v thread content images mode)"
  unfolding submit_tx_def
  by (intro logs.within_combine logs_kept [OF message_thread_keeps] logs_kept [OF tx_keeps_NewID] logs_kept [OF keeps_rows(16)]
      logs_kept [OF keeps_rows(5)] logs_kept [OF keeps_rows(6)] logs_kept [OF attach_image_keeps] logs_kept [OF keeps_rows(2)]
      CreateRun_logs UpdateRun_logs) (simp_all add: snap_def agent_rows_def)

lemma Submit_logs: "op_within (log_rel u k) (SubmitMessage svc lib en v thread mode commands)"
  unfolding SubmitMessage_def by (intro logs.within_combine run_calls submit_logs)

lemma runtime_call_logs:
  assumes "runtime_call s s'"
  shows "log_rel u k s s'"
  using assms
proof cases
  case (submits svc lib en v thread mode commands)
  then show ?thesis using op_withinD [OF Submit_logs] by blast
next
  case (submits_tx en v thread content images mode res)
  then show ?thesis using tx_withinD [OF submit_logs] by blast
next
  case (resolves plib texts en v cmd)
  have "op_within (log_rel u k) (ResolveApproval plib texts en v cmd)" by (rule log_approvals.resolved_within) (rule approval_logs)
  then show ?thesis unfolding resolves by (rule op_withinD)
next
  case (executes svc lib en job)
  have "op_within (log_rel u k) (ExecuteRun svc lib en (\<lambda>_. op_return ()) job)"
    by (rule log_runtime.ExecuteRun_runs) (rule logs.within_op_basic)
  then show ?thesis unfolding executes by (blast dest: op_withinD)
qed (auto intro!: op_withinD [of "log_rel u k"] logs.within_op_tx run_calls status_logs SetApprovalStatus_logs)

lemma calls_log: "runtime_call\<^sup>*\<^sup>* s s' \<Longrightarrow> log_rel u k s s'"
  by (induction rule: rtranclp_induct) (auto intro: logs.rel_refl logs.rel_trans runtime_call_logs)

lemma first_chunk:
  assumes "run_chunks u k s = []" and "runs_distinct s" and "GetRun u k s = Inr r" and "AppendChunk en u k c s = Inr (n, s')"
  shows "log_ok (ar_StateJSON r) u k s'"
proof -
  obtain w where w: "ApplyStateJSON (ar_StateJSON r) c = Inr w" "n = NextChunkSeq u k s"
      "s_chunks s' = s_chunks s @ [\<lparr>rc_RunID = k, rc_Seq = n, rc_UserID = u, rc_ChunkJSON = c, rc_CreatedAt = env_now en\<rparr>]"
      "s_runs s' = update_rows (owned_run u k) (\<lambda>r. r\<lparr>ar_StateJSON := Some w, ar_CheckpointSeq := n + 1, ar_UpdatedAt := env_now en\<rparr>) (s_runs s)"
    using chunk_appended [OF assms(4)] assms(3) by auto
  have n: "n = 0" using w(2) assms(1) by (simp add: NextChunkSeq_def max_of_def)
  have chunks: "run_chunks u k s' = [\<lparr>rc_RunID = k, rc_Seq = n, rc_UserID = u, rc_ChunkJSON = c, rc_CreatedAt = env_now en\<rparr>]"
    using assms(1) w(3) by (simp add: run_chunks_def)
  have "ar_CheckpointSeq x = 1 \<and> ar_StateJSON x = Some w" if x: "x \<in> set (s_runs s')" "owned_run u k x" for x
  proof -
    obtain y where y: "x = (if owned_run u k y then y\<lparr>ar_StateJSON := Some w, ar_CheckpointSeq := n + 1, ar_UpdatedAt := env_now en\<rparr> else y)"
      using updated_row [OF x(1) [unfolded w(4)]] by blast
    have "owned_run u k y" by (rule ccontr) (use y x(2) in simp)
    with y n show ?thesis by simp
  qed
  moreover have "k \<in> ar_ID ` set (s_runs s')"
    unfolding w(4) using first_owned [OF assms(3)] by (subst update_ids) auto
  ultimately show ?thesis using n w(1) by (simp add: log_ok_def chunks log_texts_def)
qed

lemma chunks_from:
  assumes "map rc_Seq cs = map int [0..<length cs]"
  shows "sort_key rc_Seq (filter (\<lambda>c. int n \<le> rc_Seq c) cs) = drop n cs"
proof -
  have seq: "rc_Seq (cs ! i) = int i" if "i < length cs" for i
    using arg_cong [OF assms, of "\<lambda>xs. xs ! i"] that by simp
  have "filter (\<lambda>c. int n \<le> rc_Seq c) (take n cs) = []" using seq by (auto simp: filter_empty_conv in_set_conv_nth)
  moreover have "filter (\<lambda>c. int n \<le> rc_Seq c) (drop n cs) = drop n cs" using seq by (auto simp: filter_id_conv in_set_conv_nth)
  ultimately have "filter (\<lambda>c. int n \<le> rc_Seq c) cs = drop n cs"
    using filter_append [of "\<lambda>c. int n \<le> rc_Seq c" "take n cs" "drop n cs"] by simp
  moreover have "sorted (map rc_Seq (drop n cs))" by (simp add: drop_map [symmetric] assms sorted_map sorted_wrt_drop) 
  ultimately show ?thesis by (simp add: sorted_sort_id sort_key_id_if_sorted)
qed

lemma replay_append: "replay v (xs @ ys) = bind_r (replay v xs) (\<lambda>w. replay w ys)"
  by (induction xs arbitrary: v) (auto simp: bind_r_def split: sum.split)

text \<open>
  C28. From the first chunk of a run on, whatever calls follow, the snapshot in its row is the replay of its log
  over the snapshot it began with; and a client that holds the snapshot of any earlier moment reaches the
  current one by the chunks from the checkpoint stored with it.
\<close>

theorem resumed_stream_catches_up:
  assumes "run_chunks u k s0 = []" and "runs_distinct s0" and "GetRun u k s0 = Inr r0" and "AppendChunk en u k c s0 = Inr (n, s1)"
    and "runtime_call\<^sup>*\<^sup>* s1 s" and "GetRun u k s = Inr r" and "runtime_call\<^sup>*\<^sup>* s s'" and "GetRun u k s' = Inr r'"
  shows "replay (ar_StateJSON r0) (map rc_ChunkJSON (ListChunksFrom u k 0 s')) = Inr (ar_StateJSON r') \<and>
    replay (ar_StateJSON r) (map rc_ChunkJSON (ListChunksFrom u k (ar_CheckpointSeq r) s')) = Inr (ar_StateJSON r')"
proof -
  let ?v = "ar_StateJSON r0"
  have ok1: "log_ok ?v u k s1" by (rule first_chunk [OF assms(1-4)])
  have ok: "log_ok ?v u k s" using calls_log [OF assms(5)] ok1 by (simp add: log_rel_def)
  have ok': "log_ok ?v u k s'" and "\<exists>new. run_chunks u k s' = run_chunks u k s @ new"
    using calls_log [OF assms(7)] ok by (simp_all add: log_rel_def)
  then obtain new where new: "run_chunks u k s' = run_chunks u k s @ new" by blast
  have row: "replay ?v (log_texts u k x) = Inr (ar_StateJSON y) \<and> ar_CheckpointSeq y = int (length (run_chunks u k x))"
    if "log_ok ?v u k x" "GetRun u k x = Inr y" for x y
    using that first_owned [OF that(2)] by (simp add: log_ok_def owned_run_def)
  have from_seq: "ListChunksFrom u k (int j) s' = drop j (run_chunks u k s')" for j
    unfolding ListChunksFrom_def by (rule chunks_from) (use ok' in \<open>simp add: log_ok_def\<close>)
  have "replay ?v (map rc_ChunkJSON (ListChunksFrom u k 0 s')) = Inr (ar_StateJSON r')"
    using from_seq [of 0] row [OF ok' assms(8)] by (simp add: log_texts_def)
  moreover have "ListChunksFrom u k (ar_CheckpointSeq r) s' = new"
    using from_seq [of "length (run_chunks u k s)"] row [OF ok assms(6)] new by simp
  moreover have "replay (ar_StateJSON r) (map rc_ChunkJSON new) = Inr (ar_StateJSON r')"
    using row [OF ok' assms(8)] row [OF ok assms(6)] by (simp add: log_texts_def new replay_append)
  ultimately show ?thesis by simp
qed

definition logged :: "json \<Rightarrow> store \<Rightarrow> store" where
  "logged c s = snd (op_tx (AppendChunk (sample_env 1) ''usr'' ''run'' c) s)"

definition one_chunk :: store where
  "one_chunk = logged (sample_event [''isRunning''] (JBool True)) sample_agents"

definition two_chunks :: store where
  "two_chunks = logged (sample_event [''fasttask'', ''runId''] (JString ''run'')) one_chunk"

lemma resumed_stream_catches_up_witness:
  "replay (ar_StateJSON sample_run) (map rc_ChunkJSON (ListChunksFrom ''usr'' ''run'' 0 two_chunks)) = Inr (ar_StateJSON (hd (s_runs two_chunks))) \<and>
   replay (ar_StateJSON (hd (s_runs one_chunk))) (map rc_ChunkJSON (ListChunksFrom ''usr'' ''run'' (ar_CheckpointSeq (hd (s_runs one_chunk))) two_chunks)) =
     Inr (ar_StateJSON (hd (s_runs two_chunks)))"
proof (rule resumed_stream_catches_up)
  let ?c = "sample_event [''isRunning''] (JBool True)"
  have "isl (AppendChunk (sample_env 1) ''usr'' ''run'' ?c sample_agents) = False" by code_simp
  then obtain n s where "AppendChunk (sample_env 1) ''usr'' ''run'' ?c sample_agents = Inr (n, s)"
    by (cases "AppendChunk (sample_env 1) ''usr'' ''run'' ?c sample_agents") auto
  then show "AppendChunk (sample_env 1) ''usr'' ''run'' ?c sample_agents =
      Inr (fst (projr (AppendChunk (sample_env 1) ''usr'' ''run'' ?c sample_agents)), one_chunk)"
    by (simp add: one_chunk_def logged_def op_tx_def)
  show "runtime_call\<^sup>*\<^sup>* one_chunk one_chunk" by simp
  show "runtime_call\<^sup>*\<^sup>* one_chunk two_chunks" unfolding two_chunks_def logged_def by (intro r_into_rtranclp appends)
qed (code_simp+)

end
