(* ===== verification/Thread_Pages.thy ===== *)
theory Thread_Pages
  imports Agent_Threads Lens_Rules
begin

text \<open>
  The pages of the catalogue of conversations: following the cursors from the first page lists every
  conversation once, in the order of activity, whatever the size of a page.
\<close>

subsection \<open>The text of a cursor is not blank\<close>

lemma trim_space_plain:
  assumes "s \<noteq> []" and "\<And>p. p \<in> set space_seqs \<Longrightarrow> p \<noteq> [] \<and> hd p \<noteq> hd s \<and> last p \<noteq> last s"
  shows "trim_space s = s"
proof -
  have "cut_left space_seqs s = s" by (rule cut_left_none) (use assms in metis)+
  moreover have "cut_left (map rev space_seqs) (rev s) = rev s"
  proof (rule cut_left_none)
    fix p assume "p \<in> set (map rev space_seqs)"
    then obtain q where "p = rev q" "q \<in> set space_seqs" by auto
    then show "p \<noteq> [] \<and> hd p \<noteq> hd (rev s)" using assms(2) [of q] by (auto simp: hd_rev)
  qed (use assms(1) in simp)
  ultimately show ?thesis by (simp add: trim_space_def)
qed

lemma spaces_not_letters: "list_all (\<lambda>p. p \<noteq> [] \<and> hd p \<notin> set b64_alphabet \<and> last p \<notin> set b64_alphabet) space_seqs"
  by code_simp

lemma b64_sextets_nonempty: "bs \<noteq> [] \<Longrightarrow> b64_sextets bs \<noteq> []"
  by (cases bs rule: b64_sextets.cases) auto

lemma cursor_not_blank: "trim_space (encodeThreadCursor t k) \<noteq> []"
proof -
  let ?c = "encodeThreadCursor t k"
  have ne: "?c \<noteq> []" using b64_sextets_nonempty [of "bytes_of (rfc3339 t @ CHR ''|'' # k)"]
    by (simp add: encodeThreadCursor_def base64_encode_def bytes_of_def)
  then have "hd ?c \<in> set b64_alphabet" "last ?c \<in> set b64_alphabet"
    using base64_letters unfolding encodeThreadCursor_def by (meson hd_in_set last_in_set subsetD)+
  then have "trim_space ?c = ?c" using spaces_not_letters ne by (intro trim_space_plain) (auto simp: list_all_iff)
  with ne show ?thesis by simp
qed

lemma cursor_of_encoded: "date_range (t div second div 86400) \<Longrightarrow> cursor_of (encodeThreadCursor t k) = Inr (Some (t, k))"
  by (simp add: cursor_of_def cursor_not_blank cursor_round)

subsection \<open>What a page holds\<close>

definition listed :: "id \<Rightarrow> string \<Rightarrow> store \<Rightarrow> agent_thread list" where
  "listed userID status s = sort_key thread_order (filter (\<lambda>t. th_UserID t = userID \<and> (status = [] \<or> th_Status t = status)) (s_threads s))"

lemma thread_order_less: "thread_order x < thread_order t \<longleftrightarrow> after_cursor (Some (thread_activity x, th_ID x)) t"
  by (auto simp: thread_order_def after_cursor_def less_prod_def)

lemma drop_after:
  assumes "sorted (map f xs)" and "distinct (map f xs)" and "i < length xs"
  shows "filter (\<lambda>t. f (xs ! i) < (f t :: 'b :: linorder)) xs = drop (Suc i) xs"
proof -
  have st: "sorted_wrt (<) (map f xs)" using assms(1,2) by (simp add: strict_sorted_iff)
  have "filter (\<lambda>t. f (xs ! i) < f t) (take (Suc i) xs) = []"
  proof (rule filter_False, intro ballI)
    fix t assume "t \<in> set (take (Suc i) xs)"
    then obtain j where "j < Suc i" "j < length xs" "t = xs ! j" by (auto simp: in_set_conv_nth)
    then show "\<not> f (xs ! i) < f t" using assms(1,3) sorted_nth_mono [of "map f xs" j i] by simp
  qed
  moreover have "filter (\<lambda>t. f (xs ! i) < f t) (drop (Suc i) xs) = drop (Suc i) xs"
  proof (rule filter_True, intro ballI)
    fix t assume "t \<in> set (drop (Suc i) xs)"
    then obtain j where "j < length xs - Suc i" "t = xs ! (Suc i + j)" by (auto simp: in_set_conv_nth)
    then show "f (xs ! i) < f t" using st sorted_wrt_nth_less [OF st, of i "Suc i + j"] by simp
  qed
  ultimately show ?thesis using filter_append [of _ "take (Suc i) xs" "drop (Suc i) xs"] by simp
qed

lemma ListThreads_after:
  assumes "status \<in> {[], ''regular'', ''archived''}" and "0 < limit"
    and "filter (after_cursor cursor) (listed u status s) = drop i (listed u status s)"
  shows "ListThreads u status cursor limit s = Inr (take (nat limit) (drop i (listed u status s)))"
proof -
  have "sort_key thread_order (filter (\<lambda>t. th_UserID t = u \<and> (status = [] \<or> th_Status t = status) \<and> after_cursor cursor t) (s_threads s)) =
      filter (after_cursor cursor) (listed u status s)"
    unfolding listed_def filter_sort [symmetric] filter_filter by (metis (no_types, lifting) conj_assoc conj_commute)
  with assms show ?thesis by (auto simp: ListThreads_def Let_def)
qed

fun all_pages :: "nat \<Rightarrow> id \<Rightarrow> string \<Rightarrow> string \<Rightarrow> int \<Rightarrow> store \<Rightarrow> thread_page list result" where
  "all_pages 0 u status cursor limit s = Inl DoesNotReturn"
| "all_pages (Suc n) u status cursor limit s =
    bind_r (ListAgentThreads u status cursor limit s) (\<lambda>page.
      if tp_HasMore page then bind_r (all_pages n u status (tp_NextCursor page) limit s) (\<lambda>pages. Inr (page # pages))
      else Inr [page])"

definition page_ids :: "thread_page \<Rightarrow> id list" where
  "page_ids page = map tv_ID (tp_Items page)"

lemma views_ids: "map tv_ID (viewsWithThreadTitles u ts s) = map th_ID ts"
  by (simp add: viewsWithThreadTitles_def Let_def viewOfThread_def comp_def if_distrib cong: if_cong)

lemma thread_page_limit_pos: "0 < thread_page_limit limit" "thread_page_limit limit \<le> 100"
  by (simp_all add: thread_page_limit_def)

lemma one_page:
  assumes "status \<in> {[], ''regular'', ''archived''}" and "cursor_of cursor = Inr after"
    and "filter (after_cursor after) (listed u status s) = drop i (listed u status s)"
  shows "\<exists>page. ListAgentThreads u status cursor limit s = Inr page \<and>
    page_ids page = map th_ID (take (nat (thread_page_limit limit)) (drop i (listed u status s))) \<and>
    (tp_HasMore page \<longleftrightarrow> i + nat (thread_page_limit limit) < length (listed u status s)) \<and>
    (tp_HasMore page \<longrightarrow> tp_NextCursor page =
      (let x = listed u status s ! (i + nat (thread_page_limit limit) - 1) in encodeThreadCursor (thread_activity x) (th_ID x)))"
proof -
  let ?L = "listed u status s" and ?n = "nat (thread_page_limit limit)"
  have n: "0 < ?n" "nat (thread_page_limit limit + 1) = Suc ?n" using thread_page_limit_pos(1) [of limit] by auto
  have "0 < thread_page_limit limit + 1" using thread_page_limit_pos(1) [of limit] by simp
  note page = ListThreads_after [OF assms(1) this assms(3), unfolded n(2)]
  let ?more = "i + ?n < length ?L"
  have more: "length (take (Suc ?n) (drop i ?L)) > ?n \<longleftrightarrow> ?more" by auto
  have cut: "take ?n (take (Suc ?n) (drop i ?L)) = take ?n (drop i ?L)" by simp
  have all: "take (Suc ?n) (drop i ?L) = take ?n (drop i ?L)" if "\<not> ?more" using that by simp
  have tail: "last (take ?n (drop i ?L)) = ?L ! (i + ?n - 1)" "take ?n (drop i ?L) \<noteq> []" if "?more"
    using that n(1) by (simp_all add: last_conv_nth min_def)
  show ?thesis
  proof (cases ?more)
    case True
    then show ?thesis using more cut tail page assms(2)
      by (simp add: ListAgentThreads_def Let_def page_ids_def views_ids)
  next
    case False
    then show ?thesis using more all page assms(2)
      by (simp add: ListAgentThreads_def Let_def page_ids_def views_ids)
  qed
qed

definition thread_times_ok :: "store \<Rightarrow> bool" where
  "thread_times_ok s \<longleftrightarrow> distinct (map th_ID (s_threads s)) \<and> (\<forall>t \<in> set (s_threads s). date_range (thread_activity t div second div 86400))"

lemma listed_facts:
  assumes "thread_times_ok s"
  shows "sorted (map thread_order (listed u status s))" "distinct (map thread_order (listed u status s))"
    "\<forall>t \<in> set (listed u status s). date_range (thread_activity t div second div 86400)"
    "length (listed u status s) \<le> length (s_threads s)"
proof -
  show "sorted (map thread_order (listed u status s))" by (simp add: listed_def)
  have "distinct (map th_ID (filter P (s_threads s)))" for P using assms by (simp add: thread_times_ok_def distinct_map_filter)
  then have "distinct (map th_ID (listed u status s))" unfolding listed_def by (simp add: distinct_map)
  then show "distinct (map thread_order (listed u status s))"
    by (simp add: distinct_map) (auto simp: inj_on_def thread_order_def)
  show "\<forall>t \<in> set (listed u status s). date_range (thread_activity t div second div 86400)" "length (listed u status s) \<le> length (s_threads s)"
    using assms by (auto simp: listed_def thread_times_ok_def)
qed

lemma pages_from:
  assumes "status \<in> {[], ''regular'', ''archived''}" and "thread_times_ok s" and "length (listed u status s) - i < n"
    and "cursor_of cursor = Inr after" and "filter (after_cursor after) (listed u status s) = drop i (listed u status s)"
  shows "\<exists>pages. all_pages n u status cursor limit s = Inr pages \<and>
    concat (map page_ids pages) = map th_ID (drop i (listed u status s)) \<and> (\<forall>p \<in> set pages. length (page_ids p) \<le> nat (thread_page_limit limit))"
  using assms(3-5)
proof (induction n arbitrary: i cursor after)
  case (Suc n)
  let ?L = "listed u status s" and ?n = "nat (thread_page_limit limit)"
  obtain page where page: "ListAgentThreads u status cursor limit s = Inr page" "page_ids page = map th_ID (take ?n (drop i ?L))"
      "tp_HasMore page \<longleftrightarrow> i + ?n < length ?L"
      "tp_HasMore page \<longrightarrow> tp_NextCursor page = (let x = ?L ! (i + ?n - 1) in encodeThreadCursor (thread_activity x) (th_ID x))"
    using one_page [OF assms(1) Suc.prems(2,3)] by blast
  show ?case
  proof (cases "tp_HasMore page")
    case False
    with page show ?thesis by simp
  next
    case True
    let ?x = "?L ! (i + ?n - 1)"
    have n: "0 < ?n" "i + ?n < length ?L" using thread_page_limit_pos(1) [of limit] page(3) True by simp_all
    then have idx: "i + ?n - 1 < length ?L" "Suc (i + ?n - 1) = i + ?n" by simp_all
    have cursor: "cursor_of (tp_NextCursor page) = Inr (Some (thread_activity ?x, th_ID ?x))"
      using page(4) True listed_facts(3) [OF assms(2), of u status] idx(1) by (simp add: Let_def cursor_of_encoded)
    have after: "filter (after_cursor (Some (thread_activity ?x, th_ID ?x))) ?L = drop (i + ?n) ?L"
      using drop_after [OF listed_facts(1,2) [OF assms(2)] idx(1)] unfolding thread_order_less idx(2) .
    have "length ?L - (i + ?n) < n" using Suc.prems(1) n by simp
    from Suc.IH [OF this cursor after] obtain pages where p: "all_pages n u status (tp_NextCursor page) limit s = Inr pages"
        "concat (map page_ids pages) = map th_ID (drop (i + ?n) ?L)" "\<forall>p \<in> set pages. length (page_ids p) \<le> ?n"
      by blast
    have "take ?n (drop i ?L) @ drop (i + ?n) ?L = drop i ?L"
      using append_take_drop_id [of ?n "drop i ?L"] by (simp add: add.commute)
    then have "map th_ID (take ?n (drop i ?L)) @ map th_ID (drop (i + ?n) ?L) = map th_ID (drop i ?L)" by (metis map_append)
    with page(1,2) p True show ?thesis by simp
  qed
qed simp

text \<open>
  C29. Following the cursors from the first page ends, and lists every conversation of the user that has the status, each
  once, by descending activity and identifier; no page is longer than the limit, or than twenty where the
  limit is out of range.
\<close>

theorem pages_list_every_thread:
  assumes "status \<in> {[], ''regular'', ''archived''}" and "thread_times_ok s"
  shows "\<exists>pages. all_pages (length (s_threads s) + 1) u status [] limit s = Inr pages \<and>
    concat (map page_ids pages) = map th_ID (listed u status s) \<and> (\<forall>p \<in> set pages. length (page_ids p) \<le> nat (thread_page_limit limit))"
proof -
  have "cursor_of [] = Inr None" by code_simp
  moreover have "filter (after_cursor None) (listed u status s) = drop 0 (listed u status s)" by (simp add: after_cursor_def)
  moreover have "length (listed u status s) - 0 < length (s_threads s) + 1" using listed_facts(4) [OF assms(2), of u status] by simp
  ultimately show ?thesis using pages_from [OF assms, of u 0 "length (s_threads s) + 1" "[]" None limit] by simp
qed

definition sample_thread :: "id \<Rightarrow> time \<Rightarrow> agent_thread" where
  "sample_thread k t = \<lparr>th_ID = k, th_UserID = ''usr'', th_GoalID = None, th_Title = ''T'', th_Status = ''regular'', th_Custom = [],
     th_Checkpoint = [], th_LibfxVersion = [], th_LastMessageAt = None, th_CreatedAt = 739630 * 86400 * second + t, th_UpdatedAt = 0\<rparr>"

definition sample_threads :: store where
  "sample_threads = empty_store\<lparr>s_threads := [sample_thread ''a'' 1, sample_thread ''b'' 2, sample_thread ''c'' 2]\<rparr>"

lemma pages_list_every_thread_witness:
  "\<exists>pages. all_pages 4 ''usr'' ''regular'' [] 2 sample_threads = Inr pages \<and> concat (map page_ids pages) = [''c'', ''b'', ''a'']"
proof -
  have "thread_times_ok sample_threads" by code_simp
  moreover have "map th_ID (listed ''usr'' ''regular'' sample_threads) = [''c'', ''b'', ''a'']" by code_simp
  moreover have "length (s_threads sample_threads) + 1 = 4" by code_simp
  ultimately show ?thesis using pages_list_every_thread [of "''regular''" sample_threads "''usr''" 2] by auto
qed

end
