(* ===== verification/Image_Properties.thy ===== *)
theory Image_Properties
  imports Image_Metadata
begin

text \<open>
  What the rebuilding of images guarantees: the three rebuilders against the chunks and segments of
  their containers, and two places where an upload behaves otherwise than its comments say.
\<close>

lemma cut_in_four: "take a xs @ take b (drop a xs) @ take c (drop (a + b) xs) @ drop (a + b + c) xs = xs"
  by (metis append_assoc append_take_drop_id take_add)

subsection \<open>PNG\<close>

text \<open>A chunk is its kind and its body, the check sum included.\<close>

type_synonym png_chunk = "byte list \<times> byte list"

definition png_render :: "png_chunk \<Rightarrow> byte list" where
  "png_render c = big_bytes 4 (length (snd c) - 4) @ fst c @ snd c"

definition png_chunk_ok :: "png_chunk \<Rightarrow> bool" where
  "png_chunk_ok c \<longleftrightarrow> length (fst c) = 4 \<and> 4 \<le> length (snd c) \<and> length (snd c) - 4 < 256 ^ 4"

text \<open>Chunks up to the first end chunk.\<close>

fun png_wf :: "png_chunk list \<Rightarrow> bool" where
  "png_wf [] = False"
| "png_wf (c # cs) = (png_chunk_ok c \<and> (if fst c = ascii ''IEND'' then cs = [] else png_wf cs))"

definition png_keep :: "png_chunk \<Rightarrow> bool" where
  "png_keep c \<longleftrightarrow> fst c \<notin> set png_dropped"

definition png_file :: "png_chunk list \<Rightarrow> byte list" where
  "png_file cs = png_signature @ concat (map png_render cs)"

lemma length_signature [simp]: "length png_signature = 8"
  by (simp add: png_signature_def)

lemma end_kept: "ascii ''IEND'' \<notin> set png_dropped"
  by code_simp

lemma png_wf_filter: "png_wf cs \<Longrightarrow> png_wf (filter png_keep cs)"
  by (induction cs) (auto simp: png_keep_def end_kept split: if_splits)

lemma png_render_parts:
  assumes "png_chunk_ok c"
  shows "take 4 (png_render c @ r) = big_bytes 4 (length (snd c) - 4)" "take 4 (drop 4 (png_render c @ r)) = fst c"
    "bigEndian (big_bytes 4 (length (snd c) - 4)) = length (snd c) - 4"
    "12 + (length (snd c) - 4) = length (png_render c)" "8 \<le> length (png_render c)"
  using assms by (simp_all add: png_render_def png_chunk_ok_def bigEndian_big_bytes)

lemma png_loop_chunk:
  assumes "png_chunk_ok c"
  shows "png_loop (png_render c @ r) out =
    (let out = (if png_keep c then out @ png_render c else out)
     in if fst c = ascii ''IEND'' then Inr out else png_loop r out)"
  using png_render_parts(1,2) [OF assms, of r] png_render_parts(3-) [OF assms]
  by (subst png_loop.simps) (simp add: png_keep_def Let_def)

lemma png_loop_render:
  "png_wf cs \<Longrightarrow> png_loop (concat (map png_render cs) @ trail) out = Inr (out @ concat (map png_render (filter png_keep cs)))"
  by (induction cs arbitrary: out) (auto simp: png_loop_chunk Let_def)

lemma png_cut:
  assumes "8 \<le> length rest" and "12 + bigEndian (take 4 rest) \<le> length rest"
  shows "\<exists>c. png_chunk_ok c \<and> rest = png_render c @ drop (12 + bigEndian (take 4 rest)) rest \<and> fst c = take 4 (drop 4 rest)"
proof -
  let ?n = "bigEndian (take 4 rest)"
  let ?c = "(take 4 (drop 4 rest), take (4 + ?n) (drop 8 rest))"
  have len: "length (take 4 rest) = 4" using assms by simp
  have "big_bytes 4 ?n = take 4 rest" using big_bytes_bigEndian [of "take 4 rest"] len by simp
  moreover have "length (snd ?c) - 4 = ?n" using assms by simp
  moreover have "take 4 rest @ take 4 (drop 4 rest) @ take (4 + ?n) (drop 8 rest) @ drop (12 + ?n) rest = rest"
    using cut_in_four [of 4 rest 4 "4 + ?n"] by simp
  moreover have "?n < 256 ^ 4" using bigEndian_bound [of "take 4 rest"] len by simp
  ultimately show ?thesis using assms by (intro exI [of _ ?c]) (simp add: png_render_def png_chunk_ok_def)
qed

lemma png_loop_parse:
  "png_loop rest out = Inr res \<Longrightarrow> \<exists>cs trail. png_wf cs \<and> rest = concat (map png_render cs) @ trail"
proof (induction rest out arbitrary: res rule: png_loop.induct)
  case (1 rest out)
  let ?next = "12 + bigEndian (take 4 rest)"
  have ok: "8 \<le> length rest" "?next \<le> length rest"
    using 1(2) by (subst (asm) png_loop.simps; auto split: if_splits simp: Let_def)+
  obtain c where c: "png_chunk_ok c" "rest = png_render c @ drop ?next rest" "fst c = take 4 (drop 4 rest)"
    using png_cut [OF ok] by blast
  show ?case
  proof (cases "fst c = ascii ''IEND''")
    case True
    with c show ?thesis by (intro exI [of _ "[c]"] exI [of _ "drop ?next rest"]) simp
  next
    case False
    then have "png_loop (drop ?next rest) (if take 4 (drop 4 rest) \<in> set png_dropped then out else out @ take ?next rest) = Inr res"
      using 1(2) ok c(3) by (subst (asm) png_loop.simps) (simp add: Let_def)
    then obtain cs trail where "png_wf cs" "drop ?next rest = concat (map png_render cs) @ trail"
      using 1(1) [OF _ refl refl refl _ refl] ok False c(3) by (metis (no_types, lifting) not_less)
    with c False show ?thesis by (intro exI [of _ "c # cs"] exI [of _ trail]) simp
  qed
qed

lemma png_exact:
  "stripPNGChunks data = Inr out \<longleftrightarrow>
    (\<exists>cs trail. png_wf cs \<and> data = png_file cs @ trail \<and> out = png_file (filter png_keep cs))"
proof
  assume strip: "stripPNGChunks data = Inr out"
  then have sig: "take 8 data = png_signature" and loop: "png_loop (drop 8 data) png_signature = Inr out"
    by (auto simp: stripPNGChunks_def has_prefix_def split: if_splits)
  obtain cs trail where cs: "png_wf cs" "drop 8 data = concat (map png_render cs) @ trail" using png_loop_parse [OF loop] by blast
  have "data = png_file cs @ trail" using sig cs(2) append_take_drop_id [of 8 data] by (simp add: png_file_def)
  moreover have "out = png_file (filter png_keep cs)" using loop cs by (simp add: png_loop_render png_file_def)
  ultimately show "\<exists>cs trail. png_wf cs \<and> data = png_file cs @ trail \<and> out = png_file (filter png_keep cs)" using cs(1) by blast
next
  assume "\<exists>cs trail. png_wf cs \<and> data = png_file cs @ trail \<and> out = png_file (filter png_keep cs)"
  then show "stripPNGChunks data = Inr out"
    by (auto simp: stripPNGChunks_def png_file_def has_prefix_def png_loop_render)
qed

subsection \<open>WebP\<close>

text \<open>A chunk is its kind, its body and its padding.\<close>

type_synonym webp_chunk = "byte list \<times> byte list \<times> byte list"

definition webp_render :: "webp_chunk \<Rightarrow> byte list" where
  "webp_render = (\<lambda>(kind, body, pad). kind @ little_bytes 4 (length body) @ body @ pad)"

definition webp_keep :: "webp_chunk \<Rightarrow> bool" where
  "webp_keep c \<longleftrightarrow> fst c \<notin> set webp_dropped"

text \<open>The padding may be missing at the very end; less than a chunk header may follow the last chunk.\<close>

fun webp_wf :: "webp_chunk list \<Rightarrow> byte list \<Rightarrow> bool" where
  "webp_wf [] trail = (length trail < 8)"
| "webp_wf ((kind, body, pad) # cs) trail =
    (length kind = 4 \<and> length body < 256 ^ 4 \<and>
     (length pad = length body mod 2 \<or> pad = [] \<and> cs = [] \<and> trail = []) \<and> webp_wf cs trail)"

definition webp_file :: "byte list \<Rightarrow> webp_chunk list \<Rightarrow> byte list" where
  "webp_file sz cs = ascii ''RIFF'' @ sz @ ascii ''WEBP'' @ concat (map webp_render cs)"

lemma webp_render_nonempty: "webp_render c \<noteq> []"
  by (cases c) (auto simp: webp_render_def dest: arg_cong [of "little_bytes 4 _" "[]" length])

lemma webp_wf_filter: "webp_wf cs trail \<Longrightarrow> webp_wf (filter webp_keep cs) []"
  by (induction cs trail rule: webp_wf.induct) auto

lemma webp_loop_chunk:
  assumes "length kind = 4" "length body < 256 ^ 4" "length pad = length body mod 2 \<or> pad = [] \<and> r = []"
  shows "webp_loop (webp_render (kind, body, pad) @ r) out =
    webp_loop r (if webp_keep (kind, body, pad) then out @ webp_render (kind, body, pad) else out)"
proof -
  let ?c = "webp_render (kind, body, pad) @ r" and ?n = "length body"
  have n: "littleEndian (take 4 (drop 4 ?c)) = ?n" using assms(1,2) by (simp add: webp_render_def littleEndian_little_bytes)
  have kind: "take 4 ?c = kind" and long: "\<not> length ?c < 8" "\<not> length ?c < 8 + ?n" using assms(1) by (simp_all add: webp_render_def)
  let ?next = "if odd ?n \<and> 8 + ?n + 1 \<le> length ?c then 8 + ?n + 1 else 8 + ?n"
  have next_len: "?next = length (webp_render (kind, body, pad))"
  proof (cases "odd ?n")
    case True
    with assms show ?thesis by (auto simp: webp_render_def odd_iff_mod_2_eq_one)
  next
    case False
    with assms(1,3) have "pad = []" by auto
    with False assms(1) show ?thesis by (simp add: webp_render_def)
  qed
  have "drop ?next ?c = r" "take ?next ?c = webp_render (kind, body, pad)" unfolding next_len by simp_all
  then show ?thesis using n kind long
    by (subst webp_loop.simps) (simp only: Let_def if_False webp_keep_def fst_conv not_less if_not_P if_P cong: if_cong, auto)
qed

lemma webp_loop_render:
  "webp_wf cs trail \<Longrightarrow> webp_loop (concat (map webp_render cs) @ trail) out = Inr (out @ concat (map webp_render (filter webp_keep cs)))"
proof (induction cs trail arbitrary: out rule: webp_wf.induct)
  case (1 trail)
  then show ?case by (subst webp_loop.simps) simp
next
  case (2 kind body pad cs trail)
  then have "length pad = length body mod 2 \<or> pad = [] \<and> concat (map webp_render cs) @ trail = []" by auto
  with 2 show ?case by (simp add: webp_loop_chunk)
qed

lemma webp_cut:
  assumes "8 \<le> length rest" and "8 + littleEndian (take 4 (drop 4 rest)) \<le> length rest"
  shows "\<exists>kind body pad r. length kind = 4 \<and> length body < 256 ^ 4 \<and> (length pad = length body mod 2 \<or> pad = [] \<and> r = []) \<and>
    rest = webp_render (kind, body, pad) @ r"
proof -
  let ?n = "littleEndian (take 4 (drop 4 rest))"
  let ?body = "take ?n (drop 8 rest)" and ?after = "drop (8 + ?n) rest"
  let ?pad = "take (?n mod 2) ?after" and ?r = "drop (?n mod 2) ?after"
  have len: "length (take 4 (drop 4 rest)) = 4" using assms(1) by simp
  have n: "?n < 256 ^ 4" using littleEndian_bound [of "take 4 (drop 4 rest)"] len by simp
  have body: "length ?body = ?n" using assms by simp
  have "little_bytes 4 ?n = take 4 (drop 4 rest)" using little_bytes_littleEndian [of "take 4 (drop 4 rest)"] len by simp
  moreover have "rest = take 4 rest @ take 4 (drop 4 rest) @ ?body @ ?pad @ ?r"
    unfolding append_take_drop_id using cut_in_four [of 4 rest 4 ?n] by simp
  ultimately have "rest = webp_render (take 4 rest, ?body, ?pad) @ ?r"
    unfolding webp_render_def prod.case body append_assoc by argo
  moreover have "length ?pad = length ?body mod 2 \<or> ?pad = [] \<and> ?r = []"
  proof (cases "?after = []")
    case False
    then have "length ?after \<ge> 1" by (simp add: Suc_le_eq)
    then have "length ?pad = ?n mod 2" by simp
    with body show ?thesis by simp
  qed simp
  moreover have "length (take 4 rest) = 4" "length ?body < 256 ^ 4" using assms(1) n by (simp, simp only: body)
  ultimately show ?thesis by blast
qed

lemma webp_loop_parse: "webp_loop rest out = Inr res \<Longrightarrow> \<exists>cs trail. webp_wf cs trail \<and> rest = concat (map webp_render cs) @ trail"
proof (induction "length rest" arbitrary: rest out rule: less_induct)
  case less
  show ?case
  proof (cases "length rest < 8")
    case True
    then show ?thesis by (intro exI [of _ "[]"] exI [of _ rest]) simp
  next
    case False
    then have "8 + littleEndian (take 4 (drop 4 rest)) \<le> length rest"
      using less.prems by (subst (asm) webp_loop.simps) (auto simp: Let_def split: if_splits)
    then obtain kind body pad r where c: "length kind = 4" "length body < 256 ^ 4"
        "length pad = length body mod 2 \<or> pad = [] \<and> r = []" "rest = webp_render (kind, body, pad) @ r"
      using webp_cut [of rest] False by (auto simp only: not_less)
    have "length r < length rest" using c(1,4) by (simp add: webp_render_def)
    moreover have "webp_loop r (if webp_keep (kind, body, pad) then out @ webp_render (kind, body, pad) else out) = Inr res"
      using less.prems c by (simp only: webp_loop_chunk)
    ultimately obtain cs trail where cs: "webp_wf cs trail" "r = concat (map webp_render cs) @ trail" using less.hyps by blast
    have "cs = [] \<and> trail = []" if "r = []"
      using that cs(2) by (cases cs) (simp_all add: webp_render_nonempty)
    then have "length pad = length body mod 2 \<or> pad = [] \<and> cs = [] \<and> trail = []" using c(3) by argo
    then have "webp_wf ((kind, body, pad) # cs) trail" using c(1,2) cs(1) by (simp only: webp_wf.simps)
    with c(4) cs(2) show ?thesis by (intro exI [of _ "(kind, body, pad) # cs"] exI [of _ trail]) simp
  qed
qed

definition webp_size :: "webp_chunk list \<Rightarrow> byte list" where
  "webp_size cs = little_bytes 4 (4 + length (concat (map webp_render cs)))"

lemma length_ascii [simp]: "length (ascii s) = length s"
  by (simp add: ascii_def)

lemma webp_exact:
  "stripWebPChunks data = Inr out \<longleftrightarrow>
    (\<exists>sz cs trail. length sz = 4 \<and> webp_wf cs trail \<and> data = webp_file sz cs @ trail \<and>
      out = webp_file (webp_size (filter webp_keep cs)) (filter webp_keep cs))" (is "_ \<longleftrightarrow> ?parts")
proof -
  have out: "take 4 (x @ [0, 0, 0, 0] @ y @ r) @ little_bytes 4 (length (x @ [0, 0, 0, 0] @ y @ r) - 8) @ drop 8 (x @ [0, 0, 0, 0] @ y @ r) =
      x @ little_bytes 4 (4 + length r) @ y @ r" if "length x = 4" "length y = 4" for x y r :: "byte list"
    using that by simp
  show ?thesis
  proof
    assume strip: "stripWebPChunks data = Inr out"
    then have head: "take (length (ascii ''RIFF'')) data = ascii ''RIFF''" "take 4 (drop 8 data) = ascii ''WEBP''" "12 \<le> length data"
      by (auto simp: stripWebPChunks_def has_prefix_def split: if_splits)
    obtain res where loop: "webp_loop (drop 12 data) (ascii ''RIFF'' @ [0, 0, 0, 0] @ ascii ''WEBP'') = Inr res"
        and res: "out = take 4 res @ little_bytes 4 (length res - 8) @ drop 8 res"
      using strip by (auto simp: stripWebPChunks_def go_simps split: if_splits)
    obtain cs trail where cs: "webp_wf cs trail" "drop 12 data = concat (map webp_render cs) @ trail" using webp_loop_parse [OF loop] by blast
    have "data = webp_file (take 4 (drop 4 data)) cs @ trail"
      using cut_in_four [of 4 data 4 4] head cs(2) by (simp add: webp_file_def numeral_eq_Suc)
    moreover have "res = ascii ''RIFF'' @ [0, 0, 0, 0] @ ascii ''WEBP'' @ concat (map webp_render (filter webp_keep cs))"
      using loop webp_loop_render [OF cs(1)] unfolding cs(2) by simp
    then have "out = webp_file (webp_size (filter webp_keep cs)) (filter webp_keep cs)"
      unfolding webp_file_def webp_size_def res by (simp only: out length_ascii list.size)
    ultimately show ?parts using cs(1) head(3) by (intro exI [of _ "take 4 (drop 4 data)"]) auto
  next
    assume ?parts
    then obtain sz cs trail where p: "length sz = 4" "webp_wf cs trail" "data = webp_file sz cs @ trail"
        "out = webp_file (webp_size (filter webp_keep cs)) (filter webp_keep cs)" by blast
    then have "drop 12 data = concat (map webp_render cs) @ trail" "\<not> length data < 12" "has_prefix data (ascii ''RIFF'')"
        "take 4 (drop 8 data) = ascii ''WEBP''"
      by (simp_all add: webp_file_def has_prefix_def)
    then show "stripWebPChunks data = Inr out"
      unfolding stripWebPChunks_def p(4) webp_file_def webp_size_def using webp_loop_render [OF p(2)]
      by (simp add: eval_nat_numeral)
  qed
qed

subsection \<open>JPEG\<close>

text \<open>A segment is the number of fill bytes before its marker, the marker and the payload, if it has one.\<close>

type_synonym jpeg_segment = "nat \<times> byte \<times> byte list option"

definition jpeg_render :: "jpeg_segment \<Rightarrow> byte list" where
  "jpeg_render = (\<lambda>(fill, marker, payload). replicate fill 0xFF @ [0xFF, marker] @
     (case payload of None \<Rightarrow> [] | Some p \<Rightarrow> big_bytes 2 (length p + 2) @ p))"

definition jpeg_ok :: "jpeg_segment \<Rightarrow> bool" where
  "jpeg_ok = (\<lambda>(fill, marker, payload). marker \<noteq> 0xFF \<and>
     (case payload of None \<Rightarrow> jpeg_bare marker | Some p \<Rightarrow> \<not> jpeg_bare marker \<and> length p + 2 < 256 ^ 2))"

definition jpeg_marker :: "jpeg_segment \<Rightarrow> byte" where
  "jpeg_marker = (\<lambda>(fill, marker, payload). marker)"

definition unfilled :: "jpeg_segment \<Rightarrow> jpeg_segment" where
  "unfilled = (\<lambda>(fill, marker, payload). (0, marker, payload))"

text \<open>The segments before the first scan, the header of the scan, and what follows it.\<close>

definition jpeg_wf :: "jpeg_segment list \<Rightarrow> jpeg_segment \<Rightarrow> bool" where
  "jpeg_wf segs scan \<longleftrightarrow> list_all jpeg_ok (segs @ [scan]) \<and> jpeg_marker scan = 0xDA \<and> (\<forall>g \<in> set segs. jpeg_marker g \<noteq> 0xDA)"

definition jpeg_file :: "jpeg_segment list \<Rightarrow> byte list \<Rightarrow> byte list" where
  "jpeg_file segs rest = [0xFF, 0xD8] @ concat (map jpeg_render segs) @ rest"

definition jpeg_kept :: "jpeg_segment list \<Rightarrow> jpeg_segment list" where
  "jpeg_kept segs = map unfilled (filter (\<lambda>g. \<not> jpeg_dropped (jpeg_marker g)) segs)"

lemma bare_not_dropped: "jpeg_bare m \<Longrightarrow> \<not> jpeg_dropped m"
  by (auto simp: jpeg_bare_def jpeg_dropped_def)

lemma scan_not_bare: "\<not> jpeg_bare 0xDA"
  by (simp add: jpeg_bare_def)

lemma dropWhile_fill: "m \<noteq> 0xFF \<Longrightarrow> dropWhile (\<lambda>b. b = 0xFF) (replicate n 0xFF @ 0xFF # m # r) = m # r"
  by (induction n) simp_all

lemma hd_fill: "replicate n 0xFF @ 0xFF # m # r \<noteq> [] \<and> hd (replicate n 0xFF @ 0xFF # m # r) = 0xFF"
  by (cases n) simp_all

lemma jpeg_loop_at:
  assumes "m \<noteq> 0xFF"
  shows "jpeg_loop (replicate n 0xFF @ 0xFF # m # r) out =
    (if jpeg_bare m then jpeg_loop r (out @ [0xFF, m])
     else if length r < 2 \<or> bigEndian (take 2 r) < 2 \<or> bigEndian (take 2 r) > length r then Inl ErrUnsupportedImage
     else let segment = 0xFF # m # take (bigEndian (take 2 r)) r; r' = drop (bigEndian (take 2 r)) r in
       if m = 0xDA then Inr (out @ segment @ r') else jpeg_loop r' (if jpeg_dropped m then out else out @ segment))"
  by (subst jpeg_loop.simps) (simp add: hd_fill dropWhile_fill [OF assms] Let_def)

lemma payload_parts:
  assumes "length p + 2 < 256 ^ 2"
  shows "bigEndian (take 2 (big_bytes 2 (length p + 2) @ p @ r)) = length p + 2"
    "take (length p + 2) (big_bytes 2 (length p + 2) @ p @ r) = big_bytes 2 (length p + 2) @ p"
    "drop (length p + 2) (big_bytes 2 (length p + 2) @ p @ r) = r"
  using assms by (simp_all add: bigEndian_big_bytes)

lemma jpeg_loop_segment:
  assumes "jpeg_ok g"
  shows "jpeg_loop (jpeg_render g @ r) out =
    (if jpeg_marker g = 0xDA then Inr (out @ jpeg_render (unfilled g) @ r)
     else jpeg_loop r (if jpeg_dropped (jpeg_marker g) then out else out @ jpeg_render (unfilled g)))"
proof -
  obtain n m payload where g: "g = (n, m, payload)" by (cases g) auto
  show ?thesis
  proof (cases payload)
    case None
    with assms g have m: "m \<noteq> 0xFF" "jpeg_bare m" "m \<noteq> 0xDA" by (auto simp: jpeg_ok_def scan_not_bare)
    with g None show ?thesis
      by (simp add: jpeg_render_def unfilled_def jpeg_marker_def jpeg_loop_at bare_not_dropped)
  next
    case (Some p)
    with assms g have m: "m \<noteq> 0xFF" "\<not> jpeg_bare m" "length p + 2 < 256 ^ 2" by (auto simp: jpeg_ok_def)
    have render: "jpeg_render g @ r = replicate n 0xFF @ 0xFF # m # (big_bytes 2 (length p + 2) @ p @ r)"
      and out: "jpeg_render (unfilled g) = 0xFF # m # (big_bytes 2 (length p + 2) @ p)" and marker: "jpeg_marker g = m"
      using g Some by (simp_all add: jpeg_render_def unfilled_def jpeg_marker_def)
    show ?thesis
      unfolding render out marker jpeg_loop_at [OF m(1)] payload_parts [OF m(3)] Let_def using m(2) by simp
  qed
qed

lemma jpeg_loop_render:
  "jpeg_wf segs scan \<Longrightarrow> jpeg_loop (concat (map jpeg_render segs) @ jpeg_render scan @ r) out =
    Inr (out @ concat (map jpeg_render (jpeg_kept segs)) @ jpeg_render (unfilled scan) @ r)"
  by (induction segs arbitrary: out) (auto simp: jpeg_wf_def jpeg_kept_def jpeg_loop_segment)

lemma fill_cut:
  assumes "rest \<noteq> []" "hd rest = 0xFF" "dropWhile (\<lambda>b. b = 0xFF) rest = m # r"
  shows "\<exists>n. rest = replicate n (0xFF :: byte) @ 0xFF # m # r" and "m \<noteq> 0xFF"
proof -
  let ?f = "takeWhile (\<lambda>b. b = 0xFF) rest"
  have "\<forall>b \<in> set ?f. b = 0xFF" by (auto dest: set_takeWhileD)
  then have rep: "?f = replicate (length ?f) 0xFF" by (metis replicate_length_same)
  have "?f \<noteq> []" using assms(1,2) by (cases rest) auto
  then obtain k where "length ?f = Suc k" by (cases "length ?f") auto
  with rep have "?f = replicate k 0xFF @ [0xFF]" by (metis replicate_Suc replicate_append_same)
  moreover have "rest = ?f @ m # r" using assms(3) takeWhile_dropWhile_id [of "\<lambda>b. b = 0xFF" rest] by metis
  ultimately show "\<exists>n. rest = replicate n 0xFF @ 0xFF # m # r" by (metis append.assoc append_Cons append_Nil)
  show "m \<noteq> 0xFF" using assms(3) by (simp add: dropWhile_eq_Cons_conv)
qed

lemma payload_cut:
  assumes "2 \<le> bigEndian (take 2 r)" "bigEndian (take 2 r) \<le> length r"
  shows "\<exists>p. length p + 2 < 256 ^ 2 \<and> r = big_bytes 2 (length p + 2) @ p @ drop (bigEndian (take 2 r)) r"
proof -
  let ?n = "bigEndian (take 2 r)" and ?p = "take (bigEndian (take 2 r) - 2) (drop 2 r)"
  have two: "length (take 2 r) = 2" using assms by simp
  have len: "length ?p + 2 = ?n" using assms by simp
  have "big_bytes 2 ?n = take 2 r" using big_bytes_bigEndian [of "take 2 r"] two by simp
  moreover have "?n < 256 ^ 2" using bigEndian_bound [of "take 2 r"] two by simp
  moreover have "r = take 2 r @ ?p @ drop ?n r"
  proof -
    have n: "2 + 0 + (?n - 2) = ?n" using assms(1) by simp
    show ?thesis using cut_in_four [of 2 r 0 "?n - 2"] unfolding n by simp
  qed
  ultimately show ?thesis using len by metis
qed

lemma jpeg_loop_refuses:
  "rest = [] \<or> hd rest \<noteq> 0xFF \<or> dropWhile (\<lambda>b. b = 0xFF) rest = [] \<Longrightarrow> jpeg_loop rest out = Inl ErrUnsupportedImage"
  by (subst jpeg_loop.simps) (auto simp del: dropWhile_eq_Nil_conv)

lemma jpeg_loop_parse:
  "jpeg_loop rest out = Inr res \<Longrightarrow> \<exists>segs scan r. jpeg_wf segs scan \<and> rest = concat (map jpeg_render segs) @ jpeg_render scan @ r"
proof (induction "length rest" arbitrary: rest out rule: less_induct)
  case less
  have "\<not> (rest = [] \<or> hd rest \<noteq> 0xFF \<or> dropWhile (\<lambda>b. b = 0xFF) rest = [])"
    using less.prems jpeg_loop_refuses by force
  then obtain n m r where rest: "rest = replicate n 0xFF @ 0xFF # m # r" and m: "m \<noteq> 0xFF" 
    using fill_cut [of rest] by (metis neq_Nil_conv)
  note at = less.prems [unfolded rest jpeg_loop_at [OF m]]
  have "\<exists>g r. jpeg_ok g \<and> rest = jpeg_render g @ r"
  proof (cases "jpeg_bare m")
    case True
    then have "jpeg_ok (n, m, None)" "rest = jpeg_render (n, m, None) @ r" using m rest by (simp_all add: jpeg_ok_def jpeg_render_def)
    then show ?thesis by blast
  next
    case False
    with at have "2 \<le> bigEndian (take 2 r)" "bigEndian (take 2 r) \<le> length r" by (auto split: if_splits)
    then obtain p where p: "length p + 2 < 256 ^ 2" "r = big_bytes 2 (length p + 2) @ p @ drop (bigEndian (take 2 r)) r"
      using payload_cut by blast
    have "jpeg_ok (n, m, Some p)" using m False p(1) by (simp add: jpeg_ok_def)
    moreover have "rest = jpeg_render (n, m, Some p) @ drop (bigEndian (take 2 r)) r"
      unfolding jpeg_render_def rest using p(2) by simp
    ultimately show ?thesis by blast
  qed
  then obtain g r where g: "jpeg_ok g" "rest = jpeg_render g @ r" by blast
  show ?case
  proof (cases "jpeg_marker g = 0xDA")
    case True
    with g show ?thesis by (intro exI [of _ "[]"] exI [of _ g] exI [of _ r]) (auto simp: jpeg_wf_def)
  next
    case False
    have "length r < length rest" using g(2) by (simp add: jpeg_render_def split: prod.splits)
    moreover obtain out' where "jpeg_loop r out' = Inr res" using less.prems False unfolding g(2) jpeg_loop_segment [OF g(1)] by (auto simp only: if_False)
    ultimately obtain segs scan r' where "jpeg_wf segs scan" "r = concat (map jpeg_render segs) @ jpeg_render scan @ r'"
      using less.hyps by blast
    with g False show ?thesis by (intro exI [of _ "g # segs"] exI [of _ scan] exI [of _ r']) (simp add: jpeg_wf_def)
  qed
qed

lemma jpeg_exact:
  "stripJPEGMarkers data = Inr out \<longleftrightarrow>
    (\<exists>segs scan r. jpeg_wf segs scan \<and> data = jpeg_file (segs @ [scan]) r \<and> out = jpeg_file (jpeg_kept segs @ [unfilled scan]) r)"
proof
  assume strip: "stripJPEGMarkers data = Inr out"
  then have loop: "jpeg_loop (drop 2 data) [0xFF, 0xD8] = Inr out" and len: "4 \<le> length data" and hd: "data ! 0 = 0xFF" "data ! 1 = 0xD8"
    by (auto simp: stripJPEGMarkers_def split: if_splits)
  obtain segs scan r where p: "jpeg_wf segs scan" "drop 2 data = concat (map jpeg_render segs) @ jpeg_render scan @ r"
    using jpeg_loop_parse [OF loop] by blast
  have "take 2 data = [0xFF, 0xD8]" using len hd by (simp add: list_eq_iff_nth_eq less_2_cases_iff)
  then have "data = jpeg_file (segs @ [scan]) r" using p(2) append_take_drop_id [of 2 data] by (simp add: jpeg_file_def)
  moreover have "out = jpeg_file (jpeg_kept segs @ [unfilled scan]) r"
    using loop unfolding p(2) jpeg_loop_render [OF p(1)] by (simp add: jpeg_file_def)
  ultimately show "\<exists>segs scan r. jpeg_wf segs scan \<and> data = jpeg_file (segs @ [scan]) r \<and> out = jpeg_file (jpeg_kept segs @ [unfilled scan]) r"
    using p(1) by blast
next
  assume "\<exists>segs scan r. jpeg_wf segs scan \<and> data = jpeg_file (segs @ [scan]) r \<and> out = jpeg_file (jpeg_kept segs @ [unfilled scan]) r"
  then obtain segs scan r where p: "jpeg_wf segs scan" "data = jpeg_file (segs @ [scan]) r" "out = jpeg_file (jpeg_kept segs @ [unfilled scan]) r"
    by blast
  have "2 \<le> length (jpeg_render scan)" by (simp add: jpeg_render_def split: prod.splits)
  then have "\<not> length data < 4" "data ! 0 = 0xFF" "data ! 1 = 0xD8" "drop 2 data = concat (map jpeg_render segs) @ jpeg_render scan @ r"
    using p(2) by (simp_all add: jpeg_file_def)
  then show "stripJPEGMarkers data = Inr out"
    by (simp add: stripJPEGMarkers_def jpeg_loop_render [OF p(1)] p(3) jpeg_file_def)
qed

subsection \<open>What is stored\<close>

text \<open>
  C30. An image is accepted exactly when its container is well formed, and rebuilt from exactly the chunks that are no
  metadata: for PNG the chunks up to the first end chunk, for JPEG the segments before the first
  scan without their fill bytes, for WebP all chunks with their padding and the size of what is left.
\<close>

theorem rebuilt_exactly:
  "(stripImageMetadata ''image/png'' data = Inr out \<longleftrightarrow>
     (\<exists>cs trail. png_wf cs \<and> data = png_file cs @ trail \<and> out = png_file (filter png_keep cs))) \<and>
   (stripImageMetadata ''image/jpeg'' data = Inr out \<longleftrightarrow>
     (\<exists>segs scan r. jpeg_wf segs scan \<and> data = jpeg_file (segs @ [scan]) r \<and> out = jpeg_file (jpeg_kept segs @ [unfilled scan]) r)) \<and>
   (stripImageMetadata ''image/webp'' data = Inr out \<longleftrightarrow>
     (\<exists>sz cs trail. length sz = 4 \<and> webp_wf cs trail \<and> data = webp_file sz cs @ trail \<and>
       out = webp_file (webp_size (filter webp_keep cs)) (filter webp_keep cs)))"
  by (simp add: stripImageMetadata_def png_exact jpeg_exact webp_exact)

lemma render_filter_le: "length (concat (map f (filter P xs))) \<le> length (concat (map f xs))"
  by (induction xs) auto

lemma png_again: "stripPNGChunks data = Inr out \<Longrightarrow> stripPNGChunks out = Inr out \<and> length out \<le> length data"
proof -
  assume "stripPNGChunks data = Inr out"
  then obtain cs trail where p: "png_wf cs" "data = png_file cs @ trail" "out = png_file (filter png_keep cs)" unfolding png_exact by blast
  have "stripPNGChunks out = Inr out"
    unfolding png_exact using png_wf_filter [OF p(1)] p(3) by (intro exI [of _ "filter png_keep cs"] exI [of _ "[]"]) simp
  moreover have "length out \<le> length data" using p(2,3) render_filter_le [of png_render png_keep cs] by (simp add: png_file_def)
  ultimately show ?thesis by blast
qed

lemma webp_again: "stripWebPChunks data = Inr out \<Longrightarrow> stripWebPChunks out = Inr out \<and> length out \<le> length data"
proof -
  assume "stripWebPChunks data = Inr out"
  then obtain sz cs trail where p: "length sz = 4" "webp_wf cs trail" "data = webp_file sz cs @ trail"
      "out = webp_file (webp_size (filter webp_keep cs)) (filter webp_keep cs)" unfolding webp_exact by blast
  have "stripWebPChunks out = Inr out"
    unfolding webp_exact using webp_wf_filter [OF p(2)] p(4)
    by (intro exI [of _ "webp_size (filter webp_keep cs)"] exI [of _ "filter webp_keep cs"] exI [of _ "[]"]) (simp add: webp_size_def)
  moreover have "length out \<le> length data" using p(1,3,4) render_filter_le [of webp_render webp_keep cs]
    by (simp add: webp_file_def webp_size_def)
  ultimately show ?thesis by blast
qed

lemma unfilled_simps: "jpeg_marker (unfilled g) = jpeg_marker g" "jpeg_ok (unfilled g) = jpeg_ok g" "unfilled (unfilled g) = unfilled g"
    "length (jpeg_render (unfilled g)) \<le> length (jpeg_render g)"
  by (cases g; simp add: unfilled_def jpeg_marker_def jpeg_ok_def jpeg_render_def)+

lemma kept_le: "length (concat (map jpeg_render (jpeg_kept segs))) \<le> length (concat (map jpeg_render segs))"
proof (induction segs)
  case (Cons g segs)
  with unfilled_simps(4) [of g] show ?case by (auto simp: jpeg_kept_def)
qed (simp add: jpeg_kept_def)

lemma kept_again: "jpeg_kept (jpeg_kept segs) = jpeg_kept segs"
  by (induction segs) (auto simp: jpeg_kept_def unfilled_simps)

lemma jpeg_again: "stripJPEGMarkers data = Inr out \<Longrightarrow> stripJPEGMarkers out = Inr out \<and> length out \<le> length data"
proof -
  assume "stripJPEGMarkers data = Inr out"
  then obtain segs scan r where p: "jpeg_wf segs scan" "data = jpeg_file (segs @ [scan]) r"
      "out = jpeg_file (jpeg_kept segs @ [unfilled scan]) r" unfolding jpeg_exact by blast
  have "jpeg_wf (jpeg_kept segs) (unfilled scan)"
    using p(1) by (auto simp: jpeg_wf_def jpeg_kept_def list_all_iff unfilled_simps)
  then have "stripJPEGMarkers out = Inr out"
    unfolding jpeg_exact using p(3) by (intro exI [of _ "jpeg_kept segs"] exI [of _ "unfilled scan"] exI [of _ r]) (simp add: kept_again unfilled_simps)
  moreover have "length out \<le> length data" using p(2,3) kept_le [of segs] unfilled_simps(4) [of scan] by (simp add: jpeg_file_def)
  ultimately show ?thesis by blast
qed

text \<open>
  What was rebuilt is rebuilt as it is, and is never longer than the upload: the buffer of its length is never outgrown.
\<close>

theorem rebuilding_is_idempotent:
  assumes "stripImageMetadata mime data = Inr out"
  shows "stripImageMetadata mime out = Inr out \<and> length out \<le> length data"
  using assms png_again [of data out] jpeg_again [of data out] webp_again [of data out]
  by (auto simp: stripImageMetadata_def split: if_splits)

definition sample_webp :: "byte list \<Rightarrow> byte list" where
  "sample_webp extra = ascii ''RIFF'' @ [22, 0, 0, 0] @ ascii ''WEBPVP8 '' @ [10, 0, 0, 0, 0, 0, 0, 0, 0, 0x9D, 0x01, 0x2A, 0, 0] @ extra"

definition sample_exif :: "byte list" where
  "sample_exif = ascii ''EXIF'' @ [1, 0, 0, 0, 0x55, 0]"

lemma rebuilding_is_idempotent_witness:
  "stripImageMetadata ''image/webp'' (sample_webp []) = Inr (sample_webp []) \<and> length (sample_webp []) \<le> length (sample_webp sample_exif)"
  by (rule rebuilding_is_idempotent [of _ "sample_webp sample_exif"]) code_simp

subsection \<open>Where the comments are wrong\<close>

definition sample_jpeg :: "byte list" where
  "sample_jpeg = [0xFF, 0xD8, 0xFF, 0xDA, 0, 2, 0x12, 0xFF, 0xE1, 0, 8] @ ascii ''Exif'' @ [0, 0, 0xFF, 0xD9]"

text \<open>
  The comment in \<open>stripJPEGMarkers\<close> says that no metadata follows the header of the first scan. The
  format allows application segments before every later scan: an EXIF segment there is stored unchanged.
\<close>

theorem exif_after_scan_is_kept:
  "sniffImageMime sample_jpeg = Some ''image/jpeg'' \<and> stripImageMetadata ''image/jpeg'' sample_jpeg = Inr sample_jpeg"
  by code_simp

text \<open>
  A frame whose sync code lies in the last bytes of a lossy WebP image makes the upload read past the slice:
  the loop leaves room for five bytes and reads seven.
\<close>

theorem short_frame_panics:
  "sniffImageMime (sample_webp []) = Some ''image/webp'' \<and>
   bind_r (stripImageMetadata ''image/webp'' (sample_webp []))
     (\<lambda>out. imageDimensions decodeConfig ''image/webp'' out (length (sample_webp []) - length out)) = Inl SliceOutOfRange"
  by code_simp

end
