(* ===== verification/Receipt_Properties.thy ===== *)
theory Receipt_Properties
  imports Receipt_Relations Sample_Data
begin

text \<open>
  What makes receipts of decisions correct: a proposal is settled once, a receipt is decided once, an application that fails
  leaves goals, tasks and plans as they were, and the plan a proposal writes stays within the day.
\<close>

subsection \<open>Frames of receipts\<close>

interpretation proposals: planning_frame s_proposals by unfold_locales simp_all

interpretation parts: planning_frame s_parts by unfold_locales simp_all

definition proposal_ids :: "store \<Rightarrow> id list" where
  "proposal_ids s = map pr_ID (s_proposals s)"

text \<open>What the decision on a part does not change.\<close>

definition part_keys :: "store \<Rightarrow> (id \<times> id \<times> id \<times> string option \<times> string) list" where
  "part_keys s = map (\<lambda>p. (mp_ID p, mp_UserID p, mp_MessageID p, mp_ToolCallID p, mp_Type p)) (s_parts s)"

interpretation ids: planning_frame proposal_ids by unfold_locales (simp_all add: proposal_ids_def)

lemma decide_keeps_keys [tx_frame]: "tx_keeps part_keys (decide_part en P st v b)" "tx_keeps part_keys (decide_proposal en u k st)"
  unfolding decide_part_def decide_proposal_def
  by (auto simp: tx_keeps_def go_simps part_keys_def put_proposals_def put_parts_def update_rows_def)

interpretation keys: receipt_frame part_keys
  by unfold_locales (auto simp: part_keys_def settle_proposal_def recordAppliedApprovalTx_def put_proposals_def put_parts_def
    put_threads_def tx_keeps_def go_simps update_rows_def split: if_splits)

lemma tx_keeps_ids [tx_frame]: "tx_keeps proposal_ids (tx_update s_proposals put_proposals P (\<lambda>p. p\<lparr>pr_GoalID := k\<rparr>))"
  by (auto simp: tx_keeps_def go_simps proposal_ids_def put_proposals_def update_rows_def)

lemma rows_affected_ex: fixes P :: "'r \<Rightarrow> bool" shows "rows_affected P rs \<noteq> 0 \<Longrightarrow> \<exists>r \<in> set rs. P r"
  unfolding rows_affected_def by (cases "filter P rs") (auto simp: filter_eq_Cons_iff)

subsection \<open>A proposal is settled once\<close>

definition unsettled :: "id \<Rightarrow> store \<Rightarrow> bool" where
  "unsettled k s \<longleftrightarrow> (\<exists>p \<in> set (s_proposals s). pr_ID p = k \<and> pr_Status p = ''pending'')"

lemma settle_proposal_finalises:
  assumes ids: "distinct (map pr_ID (s_proposals s))" and ok: "settle_proposal en k n st s = Inr (r, s')" and st: "st \<noteq> ''pending''"
  shows "\<not> unsettled k s'"
proof -
  define P where "P = (\<lambda>p :: proposal. pr_ID p = k \<and> pr_Revision p = n \<and> pr_Status p = ''pending'')"
  have one: "rows_affected P (s_proposals s) = 1"
    and s': "s_proposals s' = update_rows P (\<lambda>p. p\<lparr>pr_Status := st, pr_Revision := n + 1, pr_UpdatedAt := env_now en\<rparr>) (s_proposals s)"
    using ok unfolding settle_proposal_def P_def [symmetric] by (auto simp: go_simps put_proposals_def)
  obtain q where q: "q \<in> set (s_proposals s)" "P q" using one rows_affected_ex [of P "s_proposals s"] by auto
  have all: "P p" if "p \<in> set (s_proposals s)" "pr_ID p = k" for p
    using ids q that unfolding distinct_map P_def by (metis (mono_tags) inj_on_def)
  have "pr_Status p \<noteq> ''pending''" if p: "p \<in> set (s_proposals s')" "pr_ID p = k" for p
  proof -
    from p(1) obtain r where r: "r \<in> set (s_proposals s)" "p = (if P r then r\<lparr>pr_Status := st, pr_Revision := n + 1, pr_UpdatedAt := env_now en\<rparr> else r)"
      unfolding s' update_rows_def by auto
    have "pr_ID r = k" using p(2) r(2) by (cases "P r") simp_all
    with all [OF r(1)] r(2) st show ?thesis by simp
  qed
  then show ?thesis by (auto simp: unsettled_def)
qed

lemma unsettled_none:
  assumes "\<not> unsettled k s" shows "find_pending s Q u k = Inl ErrNotFound"
proof -
  have "filter (\<lambda>p. pending_proposal u k p \<and> Q p) (s_proposals s) = []"
    using assms by (auto simp: filter_empty_conv unsettled_def pending_proposal_def)
  then show ?thesis by (simp add: find_pending_def first_row_def not_found_def)
qed

lemma find_pending_id: "find_pending s Q u k = Inr p \<Longrightarrow> pr_ID p = k"
  unfolding find_pending_def
  by (auto simp: first_row_def not_found_def pending_proposal_def dest!: filter_eq_ConsD split: list.splits app_error.splits)

lemma recordApplied_proposals [tx_frame]: "tx_keeps s_proposals (recordAppliedApprovalTx lib en ac u k g)"
  unfolding recordAppliedApprovalTx_def by (intro tx_frame | simp add: put_parts_def)+

text \<open>A transaction after which no row of the proposal is pending.\<close>

definition finalises :: "id \<Rightarrow> 'a tx \<Rightarrow> bool" where
  "finalises k m \<longleftrightarrow> (\<forall>s a s'. distinct (proposal_ids s) \<longrightarrow> m s = Inr (a, s') \<longrightarrow> \<not> unsettled k s')"

lemma finalises_proposal: "st \<noteq> ''pending'' \<Longrightarrow> finalises k (settle_proposal en k n st)"
  unfolding finalises_def proposal_ids_def using settle_proposal_finalises by blast

lemma finalises_first: "tx_keeps proposal_ids m \<Longrightarrow> (\<And>a. finalises k (f a)) \<Longrightarrow> finalises k (tx_bind m f)"
  unfolding finalises_def tx_keeps_def tx_bind_Inr by metis

lemma finalises_last:
  assumes "finalises k m" "\<And>a. tx_keeps s_proposals (f a)" shows "finalises k (tx_bind m f)"
  unfolding finalises_def tx_bind_Inr
proof (intro allI impI, elim exE conjE)
  fix s b s' a s1
  assume "distinct (proposal_ids s)" "m s = Inr (a, s1)" "f a s1 = Inr (b, s')"
  moreover from this have "s_proposals s' = s_proposals s1" using assms(2) by (auto simp: tx_keeps_def)
  ultimately show "\<not> unsettled k s'" using assms(1) by (auto simp: finalises_def unsettled_def)
qed

lemma finalises_found:
  "(\<And>p. pr_ID p = k \<Longrightarrow> finalises k (f p)) \<Longrightarrow> finalises k (tx_bind (tx_try (\<lambda>s. find_pending s Q u k)) f)"
  unfolding finalises_def tx_bind_Inr by (auto simp: go_simps dest: find_pending_id)

lemma applyProposalTx_finalises: "finalises k (applyProposalTx lib en ac u k patches e)"
  unfolding applyProposalTx_def
  by (rule finalises_found, simp, (rule finalises_last, rule finalises_proposal, simp | rule finalises_first | intro tx_frame)+)

lemma ApplyProposal_finalises: "finalises k (ApplyProposal lib en ac u k patches e)"
  unfolding ApplyProposal_def by (intro finalises_first tx_frame applyProposalTx_finalises)

lemma ApplyGoalUpdate_finalises: "finalises k (ApplyGoalUpdateProposal lib en ac u k)"
  unfolding ApplyGoalUpdateProposal_def
  by (rule finalises_first, rule tx_frame, rule finalises_found, simp, (rule finalises_last, rule finalises_proposal, simp | rule finalises_first | intro tx_frame)+)

lemma RejectProposal_finalises: "finalises k (RejectProposal en u g k n)"
  unfolding RejectProposal_def
  by (rule finalises_found, simp, (rule finalises_last, rule finalises_proposal, simp | rule finalises_first | intro tx_frame)+)

lemma ApplyGoalWithTasks_finalises: "finalises k (ApplyGoalWithTasks lib en ac u k thread)"
proof -
  have rest: "tx_keeps s_proposals (tx_update s_threads put_threads P f)" for P f by (intro tx_frame) (simp add: put_threads_def)
  show ?thesis
    unfolding ApplyGoalWithTasks_def
    by (rule finalises_first, rule tx_frame, rule finalises_found, simp,
      (rule finalises_last, rule applyProposalTx_finalises | rule finalises_first | intro rest tx_frame)+)
qed

lemma write_agent_plan_finalises: "finalises (pr_ID p) (write_agent_plan lib en ac u (Some p) date zone planID inp items existing)"
proof -
  have mark: "finalises (pr_ID p) (markProposalApplied lib en ac (Some p))"
    unfolding markProposalApplied_def by simp (rule finalises_last, rule finalises_proposal, simp, rule tx_frame)
  show ?thesis
  proof (cases existing)
    case None
    show ?thesis
      unfolding write_agent_plan_def Let_def None option.case by ((rule finalises_last, rule mark | rule finalises_first | intro tx_frame)+)
  next
    case (Some plan)
    show ?thesis
      unfolding write_agent_plan_def Let_def Some option.case by ((rule finalises_last, rule mark | rule finalises_first | intro tx_frame)+)
  qed
qed

lemma ApplyDailyPlan_finalises: "finalises (pr_ID p) (ApplyDailyPlanProposal lib en ac u (Some p) payload)"
  unfolding ApplyDailyPlanProposal_def
  by ((rule finalises_last, rule write_agent_plan_finalises | rule finalises_first | intro tx_frame | simp add: split_beta Let_def)+)


definition sample_decision :: "string \<Rightarrow> patch_library" where
  "sample_decision v = \<lparr>pl_text = (\<lambda>_. []), pl_wild = (\<lambda>_. 0), pl_scan = (\<lambda>_. 0),
     pl_agent = \<lparr>al_decode = (\<lambda>_. Some (JObject [(''decision'', JString v)])), al_text = (\<lambda>_. ''json''), al_lower = (\<lambda>x. x),
       al_hash = (\<lambda>x. x), al_encrypt = Inr, al_decrypt = Inr, al_error = (\<lambda>_. ''error''), al_echo_before = [], al_echo_after = [],
       al_echo_empty = [], al_image_prompt = [], al_cut_marker = [], al_untitled = []\<rparr>\<rparr>"

definition sample_texts :: approval_texts where
  "sample_texts = \<lparr>at_Unavailable = ''unavailable'', at_NotArranged = [], at_Arranged = [], at_NotSwitched = [], at_KeptItems = [],
     at_Availability = (\<lambda>_. []), at_NoDirection = (\<lambda>_. []), at_OtherDirection = (\<lambda>_ _. []), at_ConflictNotice = ''notice''\<rparr>"

definition sample_proposal :: proposal where
  "sample_proposal = \<lparr>pr_ID = ''prop'', pr_Kind = ''task_tree_patch'', pr_UserID = ''usr'', pr_GoalID = ''goal'', pr_JobID = [],
     pr_Status = ''pending'', pr_Instruction = [], pr_PatchJSON = [], pr_BaseRevision = 0, pr_Revision = 1, pr_CreatedAt = 0, pr_UpdatedAt = 0\<rparr>"

definition sample_part :: message_part where
  "sample_part = (text_row ''usr'' ''msg'' 0 ''tool-call'' [])\<lparr>mp_ID := ''part'', mp_ToolCallID := Some ''call'',
     mp_ToolName := ''propose_task_tree_patch'', mp_ApprovalStatus := ''pending'', mp_ProposalID := Some ''prop''\<rparr>"

definition sample_waiting :: store where
  "sample_waiting = empty_store\<lparr>s_users := [sample_user], s_goals := [sample_goal], s_proposals := [sample_proposal], s_parts := [sample_part],
     s_thread_messages := [\<lparr>am_ID = ''msg'', am_UserID = ''usr'', am_ThreadID = ''thr'', am_RunID = ''run'', am_ParentID = None,
       am_Role = ''assistant'', am_Seq = 1, am_CreatedAt = 0\<rparr>],
     s_runs := [zero_run\<lparr>ar_ID := ''run'', ar_UserID := ''usr'', ar_ThreadID := ''thr'', ar_Status := ''awaiting_approval''\<rparr>]\<rparr>"

definition sample_receipt :: agent_command where
  "sample_receipt = \<lparr>cmd_Type = ''add-tool-result'', cmd_Message = None, cmd_ToolCallID = ''call'', cmd_Result = ''r'', cmd_DetachHarness = False\<rparr>"


subsection \<open>A receipt is decided once\<close>

text \<open>What follows the decision leaves every part as it is.\<close>

definition same_parts :: "store \<Rightarrow> store \<Rightarrow> bool" where
  "same_parts s s' \<longleftrightarrow> s_parts s' = s_parts s"

interpretation same_parts: store_relation same_parts by unfold_locales (simp_all add: same_parts_def)

lemma same_parts_frame: "tx_keeps s_parts m \<Longrightarrow> tx_within same_parts m"
  by (rule same_parts.within_keeps [of s_parts]) (simp_all add: same_parts_def)

lemma run_calls_keep_parts [tx_frame]:
  "tx_keeps s_parts (emitSet en ss path v)" "tx_keeps s_parts (saveState en ss b)" "tx_keeps s_parts (SaveThreadCheckpoint en u k c w r)"
  "tx_keeps s_parts (setApprovalRunStatus en u k)" "tx_keeps s_parts (requeueRun en u run)" "tx_keeps s_parts (detach_tx en u k pk)"
proof -
  have "tx_keeps s_parts (AppendChunk en u k c)" for u k c unfolding AppendChunk_def by (intro tx_frame | simp add: put_chunks_def put_runs_def)+
  then show "tx_keeps s_parts (emitSet en ss path v)" unfolding emitSet_def emit_op_def Emit_def by (intro tx_frame)
  show "tx_keeps s_parts (saveState en ss b)" unfolding saveState_def SaveRunState_def updateRun_def by (intro tx_frame | simp add: put_runs_def)+
  show save: "tx_keeps s_parts (SaveThreadCheckpoint en u k c w r)" for u k c w r
    unfolding SaveThreadCheckpoint_def by (intro tx_frame | simp add: put_threads_def)+
  show "tx_keeps s_parts (setApprovalRunStatus en u k)"
    unfolding setApprovalRunStatus_def SetApprovalStatus_def by (intro tx_frame | simp add: put_runs_def)+
  show "tx_keeps s_parts (requeueRun en u run)"
    unfolding requeueRun_def create_job_def by (intro tx_frame | simp add: put_runs_def)+
  show "tx_keeps s_parts (detach_tx en u k pk)"
    unfolding detach_tx_def RevokeHarnessTokensForRun_def by (intro tx_frame save | simp add: put_runs_def put_tokens_def)+
qed

lemma same_parts_refresh: "op_within same_parts (refreshDetachedApproval lib en u run k)"
  unfolding refreshDetachedApproval_def refresh_session_def op_read_def Let_def
  by (intro same_parts.within_combine same_parts_frame tx_frame | simp only: split: option.split sum.split prod.split, intro conjI allI impI)+

lemma same_parts_finish: "op_within same_parts (finish_receipt lib en u run k)"
proof -
  have continue: "op_within same_parts (continueHarnessRun l en u run k)" for l
    unfolding continueHarnessRun_def continue_session_def emit_drop_def op_read_def Let_def
    by (intro same_parts.within_combine same_parts_frame same_parts_refresh tx_frame)
  show ?thesis
    unfolding finish_receipt_def by (intro same_parts.within_combine same_parts_frame same_parts_refresh continue tx_frame)
qed

lemma same_parts_detach: "op_within same_parts (detachPendingBrowserApproval lib en u k pk)"
  unfolding detachPendingBrowserApproval_def by (intro same_parts.within_combine same_parts_frame same_parts_refresh tx_frame)

lemma first_sorted: "first_row (sort_key f xs) = Inr p \<Longrightarrow> p \<in> set xs \<and> (\<forall>q \<in> set xs. f p \<le> f q)"
  using sorted_sort_key [of f xs] set_sort [of f xs]
  by (cases "sort_key f xs") (auto simp: first_row_def)

lemma first_sorted_ex: "xs \<noteq> [] \<Longrightarrow> \<exists>p. first_row (sort_key f xs) = Inr p"
  by (cases "sort_key f xs") (auto simp: first_row_def dest: arg_cong [of _ _ length])

text \<open>A lookup by the call finds the row that carries the decision, whatever else happened to the parts.\<close>

lemma decided_lookup:
  assumes ids: "distinct (map mp_ID (s_parts s))" and found: "GetPartByToolCallID u call s = Inr part"
    and same: "part_keys s1 = part_keys s" and s': "s_parts s' = update_rows P f (s_parts s1)"
    and row: "r \<in> set (s_parts s1)" "P r" "mp_ID r = mp_ID part"
    and f: "\<And>p. mp_ID (f p) = mp_ID p \<and> mp_UserID (f p) = mp_UserID p \<and> mp_ToolCallID (f p) = mp_ToolCallID p \<and> mp_Type (f p) = mp_Type p"
  shows "\<exists>r' \<in> set (s_parts s1). GetPartByToolCallID u call s' = Inr (f r') \<and> P r' \<and> mp_Type (f r') = mp_Type part"
proof -
  let ?key = "\<lambda>p. (mp_ID p, mp_UserID p, mp_MessageID p, mp_ToolCallID p, mp_Type p)"
  let ?C = "\<lambda>p. mp_ToolCallID p = Some call \<and> mp_UserID p = u"
  from found have part: "part \<in> set (s_parts s)" "?C part" and least: "\<And>q. q \<in> set (s_parts s) \<Longrightarrow> ?C q \<Longrightarrow> mp_ID part \<le> mp_ID q"
    unfolding GetPartByToolCallID_def by (auto dest!: first_sorted)
  have keys: "?key ` set (s_parts s1) = ?key ` set (s_parts s)"
    using arg_cong [OF same [unfolded part_keys_def], of set] by simp
  have "map mp_ID (s_parts s1) = map fst (part_keys s1)" by (simp add: part_keys_def)
  also have "\<dots> = map mp_ID (s_parts s)" unfolding same by (simp add: part_keys_def)
  finally have ids1: "distinct (map mp_ID (s_parts s1))" using ids by simp
  then have uniq: "p = q" if "p \<in> set (s_parts s1)" "q \<in> set (s_parts s1)" "mp_ID p = mp_ID q" for p q
    using that unfolding distinct_map by (auto dest: inj_onD)
  have "?key part \<in> ?key ` set (s_parts s1)" using part(1) unfolding keys by (rule imageI)
  then obtain p1 where p1: "p1 \<in> set (s_parts s1)" "?key p1 = ?key part" by auto
  with row uniq have r: "r = p1" by auto
  have fr: "f r \<in> set (s_parts s')" using row(1,2) unfolding s' update_rows_def by force
  have Cr: "?C (f r)" using f [of r] p1(2) part(2) r by auto
  then have "filter ?C (s_parts s') \<noteq> []" using fr by (auto simp: filter_empty_conv)
  then obtain q where q: "GetPartByToolCallID u call s' = Inr q"
    using first_sorted_ex [of "filter ?C (s_parts s')" mp_ID] unfolding GetPartByToolCallID_def by blast
  then have qin: "q \<in> set (s_parts s')" "?C q" "mp_ID q \<le> mp_ID (f r)"
    using fr Cr unfolding GetPartByToolCallID_def by (auto dest!: first_sorted)
  from qin(1) obtain q1 where q1: "q1 \<in> set (s_parts s1)" "q = (if P q1 then f q1 else q1)" unfolding s' update_rows_def by auto
  have key1: "mp_ID q = mp_ID q1" "?C q1" using q1(2) qin(2) f [of q1] by (auto split: if_splits)
  have "?key q1 \<in> ?key ` set (s_parts s)" using q1(1) unfolding keys [symmetric] by (rule imageI)
  then obtain q0 where q0: "q0 \<in> set (s_parts s)" "?key q0 = ?key q1" by (rule imageE) simp
  have "mp_ID part \<le> mp_ID q0" using q0 key1(2) by (intro least) auto
  with qin(3) f [of r] q0 key1 r p1(2) have "mp_ID q1 = mp_ID r" by auto
  with q1(1) row(1) uniq have "q1 = r" by blast
  with q1(2) row(2) have "q = f r" by simp
  moreover have "mp_Type (f r) = mp_Type part" using f [of r] r p1(2) by simp
  ultimately show ?thesis using q row(1,2) by blast
qed

lemma approve_part_decides:
  assumes ids: "distinct (map mp_ID (s_parts s))" and found: "GetPartByToolCallID u call s = Inr part"
    and ok: "approve_part lib tx en ac u run part s = (Inr x, s')"
  shows "\<exists>p. GetPartByToolCallID u call s' = Inr p \<and> mp_Type p = mp_Type part \<and> mp_ApprovalStatus p = ''approved''"
proof -
  from ok obtain kvs p v s1 where app: "apply_by_tool lib tx en ac u run part p s = (Inr kvs, s1)"
      and rec: "recordApproval en u (mp_ID part) ''approved'' v s1 = Inr (x, s')"
    unfolding approve_part_def op_read_def by (auto simp: op_bind_Inr op_tx_Inr op_fail_def go_simps split: option.splits)
  have same: "part_keys s1 = part_keys s" using keys.apply_by_tool_kept app unfolding op_ok_def by blast
  let ?P = "\<lambda>p. owned_part u (mp_ID part) p \<and> (mp_ApprovalStatus p = ''pending'' \<or> mp_ApprovalStatus p = ''approved'')"
  let ?f = "\<lambda>p. p\<lparr>mp_ApprovalStatus := ''approved'', mp_ResultJSON := v, mp_IsError := False, mp_UpdatedAt := env_now en\<rparr>"
  have one: "rows_affected ?P (s_parts s1) = 1" and s': "s_parts s' = update_rows ?P ?f (s_parts s1)"
    using rec unfolding recordApproval_def decide_part_def by (auto simp: go_simps put_parts_def)
  obtain r where "r \<in> set (s_parts s1)" "?P r" using one rows_affected_ex [of ?P "s_parts s1"] by auto
  then show ?thesis
    using decided_lookup [OF ids found same s', of r] by (auto simp: owned_part_def)
qed

lemma reject_part_decides:
  assumes ids: "distinct (map mp_ID (s_parts s))" and found: "GetPartByToolCallID u call s = Inr part" and pending: "mp_ApprovalStatus part = ''pending''"
    and ok: "reject_part lib en ac u part reason s = Inr (x, s')"
  shows "\<exists>p. GetPartByToolCallID u call s' = Inr p \<and> mp_Type p = mp_Type part \<and> mp_ApprovalStatus p = ''rejected''"
proof -
  have keep: "tx_keeps s_parts (decide_proposal en u k st)" for k st
    unfolding decide_proposal_def by (intro tx_frame) (simp add: put_proposals_def)
  let ?P = "pending_part u (mp_ID part)"
  from ok obtain s1 v n where s1: "s_parts s1 = s_parts s" and dec: "decide_part en ?P ''rejected'' v False s1 = Inr (n, s')"
    unfolding reject_part_def
    by (auto simp: go_simps dest!: tx_keeps_then [OF guardApproval_keeps [of s_parts]] tx_keeps_then [OF keep] split: option.splits)
  let ?f = "\<lambda>p. p\<lparr>mp_ApprovalStatus := ''rejected'', mp_ResultJSON := v, mp_IsError := False, mp_UpdatedAt := env_now en\<rparr>"
  have s': "s_parts s' = update_rows ?P ?f (s_parts s1)" using dec unfolding decide_part_def by (auto simp: go_simps put_parts_def)
  have same: "part_keys s1 = part_keys s" by (simp add: part_keys_def s1)
  have "part \<in> set (s_parts s1)" "?P part"
    using found pending unfolding GetPartByToolCallID_def s1 by (auto dest!: first_sorted simp: pending_part_def owned_part_def)
  then show ?thesis using decided_lookup [OF ids found same s', of part] by auto
qed

lemma decided_receipt_refused:
  assumes "GetPartByToolCallID u (trim_space (cmd_ToolCallID cmd)) s = Inr p" "mp_Type p = ''tool-call''"
    "mp_ApprovalStatus p = ''approved'' \<or> mp_ApprovalStatus p = ''rejected''" "trim_space (cmd_ToolCallID cmd) \<noteq> []"
  shows "ResolveApproval lib tx en u cmd s = (Inl ErrApprovalDuplicate, s)"
  using assms by (auto simp: ResolveApproval_def receipt_target_def Let_def op_bind_def op_tx_def tx_try_def guard_r_def)

text \<open>C31. A receipt is decided once: after a receipt that succeeded, in any way the run went on, every other receipt for the
  same tool call is refused as a duplicate and changes nothing. The parts carry distinct identifiers, their primary key.\<close>

theorem receipt_is_decided_once:
  assumes ids: "distinct (map mp_ID (s_parts s))"
    and ok: "ResolveApproval lib tx en u cmd s = (Inr r, s')"
    and same: "trim_space (cmd_ToolCallID cmd2) = trim_space (cmd_ToolCallID cmd)"
  shows "ResolveApproval lib2 tx2 en2 u cmd2 s' = (Inl ErrApprovalDuplicate, s')"
proof -
  let ?call = "trim_space (cmd_ToolCallID cmd)"
  from ok have call: "?call \<noteq> []" by (auto simp: ResolveApproval_def Let_def op_fail_def split: if_splits)
  with ok obtain part run0 run s1 decision reason where target: "receipt_target u ?call s = Inr (part, run0)"
      and detach: "(\<exists>a. detachPendingBrowserApproval (pl_agent lib) en u (ar_ID run0) (mp_ID part) s = (Inr a, s1)) \<or> s1 = s"
      and settle: "settle_receipt lib tx en u part run decision reason s1 = (Inr r, s')"
    by (auto simp: ResolveApproval_def Let_def op_bind_Inr op_tx_Inr op_fail_def op_return_def go_simps split: if_splits) metis+
  have parts1: "s_parts s1 = s_parts s"
    using detach op_withinD [OF same_parts_detach [of "pl_agent lib" en u "ar_ID run0" "mp_ID part"], of s] by (auto simp: same_parts_def)
  have found: "GetPartByToolCallID u ?call s1 = Inr part" "mp_Type part = ''tool-call''" "mp_ApprovalStatus part = ''pending''"
    using target by (auto simp: receipt_target_def Let_def GetPartByToolCallID_def parts1 guard_r_def bind_r_def split: sum.splits if_splits)
  from settle obtain x s2 where
      step: "approve_part lib tx en \<lparr>ac_RunID = ar_ID run, ac_PartID = mp_ID part\<rparr> u run part s1 = (Inr x, s2) \<or>
        reject_part lib en \<lparr>ac_RunID = ar_ID run, ac_PartID = mp_ID part\<rparr> u part reason s1 = Inr (x, s2)"
      and fin: "finish_receipt lib en u run (mp_ID part) s2 = (Inr r, s')"
    by (auto simp: settle_receipt_def Let_def op_bind_Inr op_tx_Inr split: if_splits)
  have parts2: "s_parts s' = s_parts s2" using fin op_withinD [OF same_parts_finish [of lib en u run "mp_ID part"], of s2] by (simp add: same_parts_def)
  have ids1: "distinct (map mp_ID (s_parts s1))" using ids parts1 by simp
  from step have "\<exists>p. GetPartByToolCallID u ?call s2 = Inr p \<and> mp_Type p = mp_Type part \<and>
      (mp_ApprovalStatus p = ''approved'' \<or> mp_ApprovalStatus p = ''rejected'')"
    using approve_part_decides [OF ids1 found(1)] reject_part_decides [OF ids1 found(1) found(3)] by blast
  then obtain p where "GetPartByToolCallID u ?call s2 = Inr p" "mp_Type p = ''tool-call''"
      "mp_ApprovalStatus p = ''approved'' \<or> mp_ApprovalStatus p = ''rejected''" using found(2) by auto
  then have "GetPartByToolCallID u (trim_space (cmd_ToolCallID cmd2)) s' = Inr p" "mp_Type p = ''tool-call''"
      "mp_ApprovalStatus p = ''approved'' \<or> mp_ApprovalStatus p = ''rejected''"
    by (auto simp: GetPartByToolCallID_def parts2 same)
  then show ?thesis using call same by (intro decided_receipt_refused) auto
qed

lemma receipt_is_decided_once_witness:
  "fst (ResolveApproval (sample_decision ''reject'') sample_texts (sample_env 6) ''usr'' sample_receipt
    (snd (ResolveApproval (sample_decision ''reject'') sample_texts (sample_env 5) ''usr'' sample_receipt sample_waiting))) = Inl ErrApprovalDuplicate"
proof -
  let ?first = "ResolveApproval (sample_decision ''reject'') sample_texts (sample_env 5) ''usr'' sample_receipt sample_waiting"
  have "\<not> isl (fst ?first)" by code_simp
  then obtain r s' where "?first = (Inr r, s')" by (cases ?first; cases "fst ?first") auto
  moreover have "distinct (map mp_ID (s_parts sample_waiting))" by code_simp
  ultimately show ?thesis using receipt_is_decided_once [of sample_waiting _ _ _ _ sample_receipt r s'] by simp
qed

subsection \<open>A failed application\<close>

text \<open>The tables a decision is about.\<close>

definition planning_rows :: "store \<Rightarrow> goal list \<times> task list \<times> task_tree_revision list \<times> daily_plan list \<times> plan_item list \<times>
    plan_revision list \<times> planning_settings list \<times> task_coord list" where
  "planning_rows s = (s_goals s, s_tasks s, s_trees s, s_plans s, s_items s, s_revisions s, s_settings s, s_coords s)"

definition same_planning :: "store \<Rightarrow> store \<Rightarrow> bool" where
  "same_planning s s' \<longleftrightarrow> planning_rows s' = planning_rows s"

interpretation same_planning: store_relation same_planning by unfold_locales (simp_all add: same_planning_def)

lemma same_planning_frame: "tx_keeps planning_rows m \<Longrightarrow> tx_within same_planning m"
  by (rule same_planning.within_keeps [of planning_rows]) (simp_all add: same_planning_def)

lemma run_calls_keep_planning [tx_frame]:
  "tx_keeps planning_rows (emitSet en ss path v)" "tx_keeps planning_rows (saveState en ss b)"
  "tx_keeps planning_rows (SaveThreadCheckpoint en u k c w r)" "tx_keeps planning_rows (setApprovalRunStatus en u k)"
  "tx_keeps planning_rows (recordConflict l tx en u k reason)"
proof -
  have chunk: "tx_keeps planning_rows (AppendChunk en u k c)" for u k c
    unfolding AppendChunk_def by (intro tx_frame | simp add: put_chunks_def put_runs_def planning_rows_def)+
  then show "tx_keeps planning_rows (emitSet en ss path v)" unfolding emitSet_def emit_op_def Emit_def by (intro tx_frame)
  show "tx_keeps planning_rows (saveState en ss b)"
    unfolding saveState_def SaveRunState_def updateRun_def by (intro tx_frame | simp add: put_runs_def planning_rows_def)+
  show "tx_keeps planning_rows (SaveThreadCheckpoint en u k c w r)"
    unfolding SaveThreadCheckpoint_def by (intro tx_frame | simp add: put_threads_def planning_rows_def)+
  show "tx_keeps planning_rows (setApprovalRunStatus en u k)"
    unfolding setApprovalRunStatus_def SetApprovalStatus_def by (intro tx_frame | simp add: put_runs_def planning_rows_def)+
  show "tx_keeps planning_rows (recordConflict l tx en u k reason)"
    unfolding recordConflict_def conflict_notice_def decide_part_def decide_proposal_def CreatePartAtIdx_def CreatePart_def Let_def
    by (intro tx_frame chunk | simp add: put_parts_def put_proposals_def planning_rows_def)+
qed

lemma same_planning_refresh: "op_within same_planning (refreshDetachedApproval lib en u run k)"
  unfolding refreshDetachedApproval_def refresh_session_def op_read_def Let_def
  by (intro same_planning.within_combine same_planning_frame tx_frame)

lemma same_planning_release: "op_within same_planning (releaseHarnessRun lib en u run k)"
  unfolding releaseHarnessRun_def continueHarnessRun_def continue_session_def emit_drop_def op_read_def Let_def
  by (intro same_planning.within_combine same_planning_frame same_planning_refresh tx_frame)

lemma conflicted_keeps: "op_within same_planning (conflicted lib tx en u run k reason e)"
  unfolding conflicted_def by (intro same_planning.within_combine same_planning_frame same_planning_release tx_frame)

text \<open>A call that leaves the tables alone whenever it fails.\<close>

definition fails_clean :: "'a op \<Rightarrow> bool" where
  "fails_clean m \<longleftrightarrow> (\<forall>s e s'. m s = (Inl e, s') \<longrightarrow> same_planning s s')"

lemma op_within_clean: "op_within same_planning m \<Longrightarrow> fails_clean m"
  unfolding fails_clean_def op_within_def by (metis snd_conv)

lemma conflicted_clean: "fails_clean (conflicted lib tx en u run k reason e)"
  by (rule op_within_clean [OF conflicted_keeps])

lemma apply_or_conflict_clean:
  fixes m :: "'a tx"
  shows "fails_clean (apply_or_conflict lib tx en u run k m)"
  unfolding fails_clean_def
proof (intro allI impI)
  fix s e s' assume ok: "apply_or_conflict lib tx en u run k m s = (Inl e, s')"
  then obtain e0 where m: "m s = Inl e0" by (cases "m s") (auto simp: apply_or_conflict_def op_catch_def op_tx_def)
  have "s' = s \<or> (conflicted lib tx en u run k (al_error (pl_agent lib) e0) e0 :: 'a op) s = (Inl e, s')"
    using ok m by (auto simp: apply_or_conflict_def op_catch_def op_tx_def op_fail_def split: if_splits)
  then show "same_planning s s'" using same_planning.rel_refl by (auto dest: conflicted_clean [unfolded fails_clean_def, rule_format])
qed

lemma fails_clean_rules:
  "fails_clean (op_fail e)" "fails_clean m \<Longrightarrow> fails_clean (op_bind m (\<lambda>a. op_return (f a)))"
  using same_planning.rel_refl
  by (auto simp: fails_clean_def op_fail_def op_bind_def op_return_def split: prod.splits sum.splits)

lemma fails_clean_cases:
  "(b \<Longrightarrow> fails_clean m) \<Longrightarrow> (\<not> b \<Longrightarrow> fails_clean n) \<Longrightarrow> fails_clean (if b then m else n)"
  "(\<And>e. r = Inl e \<Longrightarrow> fails_clean (l e)) \<Longrightarrow> (\<And>y. r = Inr y \<Longrightarrow> fails_clean (k y)) \<Longrightarrow>
    fails_clean (case r of Inl e \<Rightarrow> l e | Inr y \<Rightarrow> k y)"
  by (cases b, simp_all) (cases r, simp_all)

lemma fails_clean_pair: "fails_clean m \<Longrightarrow> fails_clean (op_bind m (\<lambda>(a, b). op_return (f a b)))"
  using fails_clean_rules(2) [of m "\<lambda>ab. f (fst ab) (snd ab)"] by (simp add: case_prod_beta')

text \<open>An approved change that cannot be applied changes nothing it was about: goals, tasks and their tree revisions, plans,
  items, settings and coordinates stay as they were, although the conflict is written onto the part and the run is given back.\<close>

theorem failed_application_changes_nothing:
  assumes "apply_by_tool lib tx en ac u run part p s = (Inl e, s')"
  shows "planning_rows s' = planning_rows s"
proof -
  have "fails_clean (apply_by_tool lib tx en ac u run part p)"
    unfolding apply_by_tool_def Let_def by (intro fails_clean_cases fails_clean_rules fails_clean_pair apply_or_conflict_clean conflicted_clean)
  with assms show ?thesis by (auto simp: fails_clean_def same_planning_def)
qed

definition sample_reader :: patch_library where
  "sample_reader = (sample_decision [])\<lparr>pl_agent := (pl_agent (sample_decision []))\<lparr>al_decode := (\<lambda>_. Some (JArray []))\<rparr>\<rparr>"

definition stale_application :: "(string \<times> json) list op" where
  "stale_application = apply_by_tool sample_reader sample_texts (sample_env 5) \<lparr>ac_RunID = ''run'', ac_PartID = ''part''\<rparr> ''usr''
     (hd (s_runs sample_waiting)) sample_part (sample_proposal\<lparr>pr_BaseRevision := 7\<rparr>)"

lemma apply_or_conflict_Inl:
  "m s = Inl e \<Longrightarrow> e \<noteq> ErrApprovalNotAwaiting \<Longrightarrow> e \<noteq> ErrApprovalDuplicate \<Longrightarrow>
    apply_or_conflict lib tx en u run k m s = conflicted lib tx en u run k (al_error (pl_agent lib) e) e s"
  by (simp add: apply_or_conflict_def op_catch_def op_tx_def)

lemma op_bind_Inl: "fst (m s) = Inl e \<Longrightarrow> fst (op_bind m f s) = Inl e"
  by (cases "m s") (simp add: op_bind_def)

lemma conflicted_error:
  "\<not> isl (recordConflict (pl_agent lib) tx en u k reason s) \<Longrightarrow> ar_HarnessMode run = [] \<Longrightarrow> fst (conflicted lib tx en u run k reason e s) = Inl e"
  by (auto simp: conflicted_def op_bind_def op_tx_def op_fail_def op_return_def releaseHarnessRun_def split: sum.splits)

lemma failed_application_witness:
  "fst (stale_application sample_waiting) = Inl ErrRevision \<and>
    planning_rows (snd (stale_application sample_waiting)) = planning_rows sample_waiting"
proof
  have decoded: "decode_text sample_reader [] tree_patches_of_json = Inr []"
    by (simp add: decode_text_def sample_reader_def tree_patches_of_json_def dec_list_def slice_elems_def)
  have "ApplyProposal sample_reader (sample_env 5) \<lparr>ac_RunID = ''run'', ac_PartID = ''part''\<rparr> ''usr'' ''prop'' [] (Some 7) sample_waiting
      = Inl ErrRevision" by code_simp
  moreover have "\<not> isl (recordConflict (pl_agent sample_reader) sample_texts (sample_env 5) ''usr'' ''part'' ''error'' sample_waiting)" by code_simp
  moreover have "ar_HarnessMode (hd (s_runs sample_waiting)) = []" by (simp add: sample_waiting_def zero_run_def)
  moreover have "al_error (pl_agent sample_reader) ErrRevision = ''error''" by (simp add: sample_reader_def sample_decision_def)
  ultimately have "fst (apply_or_conflict sample_reader sample_texts (sample_env 5) ''usr'' (hd (s_runs sample_waiting)) ''part''
      (ApplyProposal sample_reader (sample_env 5) \<lparr>ac_RunID = ''run'', ac_PartID = ''part''\<rparr> ''usr'' ''prop'' [] (Some 7)) sample_waiting) = Inl ErrRevision"
    by (simp add: apply_or_conflict_Inl conflicted_error)
  then show e: "fst (stale_application sample_waiting) = Inl ErrRevision"
    using decoded unfolding stale_application_def apply_by_tool_def Let_def sample_proposal_def sample_part_def by (simp add: op_bind_Inl)
  then have "stale_application sample_waiting = (Inl ErrRevision, snd (stale_application sample_waiting))" by (simp add: prod_eq_iff)
  then show "planning_rows (snd (stale_application sample_waiting)) = planning_rows sample_waiting"
    unfolding stale_application_def by (rule failed_application_changes_nothing)
qed

subsection \<open>The plan a proposal writes\<close>

lemma agent_items_Inr:
  "agent_items en u planID n position target logical byID cs chosen s = Inr (items, s') \<Longrightarrow>
    map i_TaskID items = map (\<lambda>c. Some (t_ID (gomap_get zero_task byID (c_ID c)))) chosen \<and>
    (\<forall>i \<in> set items. i_Kind i = ''core'' \<and> i_TargetMinutes i = target)"
  by (induction chosen arbitrary: position items s) (auto simp: Let_def go_simps buildAgentPlanItem_def)

lemma replan_items_old:
  "replan_items en u plan n protected items s = Inr (kept, s') \<Longrightarrow>
    \<forall>i \<in> set kept. \<exists>j \<in> set items. i_TaskID i = i_TaskID j \<and> i_Commitment i = i_Commitment j \<and>
      i_TargetMinutes i = i_TargetMinutes j \<and> i_Status i = i_Status j"
  by (induction items arbitrary: kept s) (fastforce simp: go_simps split: if_splits)+

lemma keep_protected_old:
  "keep_protected en u existing s = Inr ((kept, logical), s') \<Longrightarrow>
    \<forall>i \<in> set kept. \<exists>j \<in> set (s_items s). i_TaskID i = i_TaskID j \<and> i_Commitment i = i_Commitment j \<and>
      i_TargetMinutes i = i_TargetMinutes j \<and> i_Status i = i_Status j"
  by (cases existing) (fastforce simp: keep_protected_def go_simps plan_items_by_position_def current_items_def dest!: replan_items_old)+

lemma agent_selection_sound:
  assumes "c \<in> set (agent_selection cs ts kept resolved)"
  shows "\<exists>t \<in> set ts. c_ID c = t_ID t"
proof -
  have "c \<in> set (SelectDailyCandidates (map (agent_candidate cs) (filter (\<lambda>t. t_ID t \<notin> set (List.map_filter i_TaskID kept)) ts)) resolved)"
    using assms by (auto simp: agent_selection_def Let_def split: prod.splits dest: in_set_takeD)
  then have "c \<in> set (map (agent_candidate cs) (filter (\<lambda>t. t_ID t \<notin> set (List.map_filter i_TaskID kept)) ts))"
    unfolding SelectDailyCandidates_take
    by (metis cand.slice_stable_set collect_candidates_sound in_set_takeD)
  then show ?thesis by (auto simp: agent_candidate_def)
qed

lemma index_tasks_id: "t \<in> set ts \<Longrightarrow> t_ID (gomap_get zero_task (index_tasks ts) (t_ID t)) = t_ID t"
proof -
  assume "t \<in> set ts"
  then have "map_of (index_tasks ts) (t_ID t) \<noteq> None" by (auto simp: index_tasks_def map_of_eq_None_iff image_image)
  then obtain t' where t': "map_of (index_tasks ts) (t_ID t) = Some t'" by auto
  then have "(t_ID t, t') \<in> set (index_tasks ts)" by (rule map_of_SomeD)
  with t' show ?thesis by (auto simp: gomap_get_def index_tasks_def)
qed

lemma agent_selection_length:
  assumes "remainingPlanBudget kept resolved = (rest, slots, target)"
  shows "length (agent_selection cs ts kept resolved) \<le> nat slots"
  using assms by (simp add: agent_selection_def Let_def)

lemma guardApproval_same: "guardApprovalTx ac u s = Inr (x, s') \<Longrightarrow> s' = s"
  using tx_keeps_then [OF guardApproval_keeps [of "\<lambda>s. s"]] by blast

lemma plan_items_fit:
  assumes b: "remainingPlanBudget kept resolved = (rest, slots, target)" and resolved: "resolved \<le> 480" "resolved \<noteq> 0"
    and len: "length added \<le> nat slots" and core: "\<forall>i \<in> set added. i_Kind i = ''core'' \<and> i_TargetMinutes i = target"
  shows "core_count (kept @ added) \<le> max 3 (core_count kept) \<and> core_minutes (kept @ added) \<le> max 480 (core_minutes kept)"
proof -
  have raw: "(rest, slots, target) = (let rest = max 0 (resolved - core_minutes kept); slots = max 0 (min (3 - int (core_count kept)) rest)
      in (rest, slots, if slots > 0 then rest div slots else 0))"
    unfolding b [symmetric] remainingPlanBudget_eq using resolved(2) by simp
  note parts = raw [unfolded Let_def prod.inject]
  have rest: "rest = max 0 (resolved - core_minutes kept)" by (rule parts [THEN conjunct1])
  have slots: "slots = max 0 (min (3 - int (core_count kept)) rest)"
    unfolding rest by (rule parts [THEN conjunct2, THEN conjunct1])
  have target: "target = (if slots > 0 then rest div slots else 0)"
    unfolding slots rest by (rule parts [THEN conjunct2, THEN conjunct2])
  note eq = rest slots target
  have minutes: "core_minutes added = int (length added) * max 0 target" using core
    by (induction added) (auto simp: core_minutes_def algebra_simps)
  have count: "core_count added = length added" using core by (induction added) auto
  have "int (length added) * max 0 target \<le> max 0 (480 - core_minutes kept)"
  proof (cases "slots > 0")
    case True
    have "0 \<le> rest" "0 \<le> target" using eq(1,3) True by (auto simp: pos_imp_zdiv_nonneg_iff)
    then have "int (length added) * max 0 target \<le> slots * (rest div slots)"
      using len True eq(3) by (simp add: mult_right_mono)
    also have "\<dots> \<le> rest" using True by (rule div_times_le)
    also have "\<dots> \<le> max 0 (480 - core_minutes kept)" using eq(1) resolved by auto
    finally show ?thesis .
  next
    case False
    then show ?thesis using len by simp
  qed
  then have "core_minutes (kept @ added) \<le> max 480 (core_minutes kept)" using minutes by auto
  moreover have "core_count (kept @ added) \<le> max 3 (core_count kept)" using len count eq(2) by auto
  ultimately show ?thesis by simp
qed

lemma eligible_in: "t \<in> set (fst (eligiblePlanningTasksTx s u ks)) \<Longrightarrow> ks \<noteq> [] \<Longrightarrow> t_ID t \<in> set ks"
  by (auto simp: eligiblePlanningTasksTx_def Let_def plannable_def split: if_splits)

lemma ApplyDailyPlan_steps:
  assumes "ApplyDailyPlanProposal lib en ac u p payload s = Inr ((plan, items), s')"
  defines "T \<equiv> eligiblePlanningTasksTx s u (map pc_TaskID (dp_Candidates payload))"
  obtains resolved existing kl s1 planID n s2 added s3 where "dp_Candidates payload \<noteq> []"
    "resolvePlanningBudget (dp_AvailableMinutes payload) (snd T) = Inr resolved" "keep_protected en u existing s = Inr (kl, s1)"
    "agent_items en u planID n (next_position (fst kl)) (snd (snd (remainingPlanBudget (fst kl) resolved))) (snd kl) (index_tasks (fst T))
      (dp_Candidates payload) (agent_selection (dp_Candidates payload) (fst T) (fst kl) resolved) s2 = Inr (added, s3)"
    "items = fst kl @ added"
  using assms(1) unfolding ApplyDailyPlanProposal_def
  apply (simp only: tx_bind_Inr Let_def split_beta)
  apply (elim exE conjE)
  apply (drule guardApproval_same)
  apply (simp only: tx_simps sum.inject go_simps prod.inject)
  apply (elim conjE)
  apply (hypsubst)
  by (rule that [unfolded T_def]; assumption?) (rule refl)?


definition sample_payload :: plan_payload where
  "sample_payload = \<lparr>dp_LocalDate = ''2025-01-06'', dp_Timezone = ''UTC'', dp_AvailableMinutes = 0,
     dp_Candidates = [\<lparr>pc_TaskID = ''t1'', pc_MinimumAction = ''draft'', pc_Commitment = [], pc_Reason = []\<rparr>], dp_BasePlan = None\<rparr>"

definition sample_day_env :: env where
  "sample_day_env = (sample_env 0)\<lparr>env_zones := (\<lambda>_. Some (\<lambda>_. (0, - (10 ^ 12), 10 ^ 12)))\<rparr>"

definition sample_application :: "store \<Rightarrow> ((daily_plan \<times> plan_item list) \<times> store) result" where
  "sample_application = ApplyDailyPlanProposal (sample_decision []) sample_day_env \<lparr>ac_RunID = [], ac_PartID = []\<rparr> ''usr'' None sample_payload"


end
