(* ===== verification/Accounts.thy ===== *)
theory Accounts
  imports Agent_Harness Login_Throttle
begin

text \<open>
  Accounts and their sessions (\<open>internal/platform/auth/auth.go\<close>): passwords, signing in, the rotation of refresh tokens,
  and the tokens a request presents. Argon2id, SHA-256 and the signing of JSON web tokens are third-party or library code and
  parameters; parsing a token with its algorithm, issuer, audience and key is \<open>acl_parse\<close>. Random texts (\<open>randomToken\<close>, the
  salt) are arguments of the calls that draw them; the clock is read once per call.
\<close>

record access_claims =
  cl_Role :: string
  cl_SID :: id
  cl_Subject :: id
  cl_ExpiresAt :: time
  cl_IssuedAt :: time
  cl_ID :: id

record service_claims =
  sc_Scopes :: "string list"
  sc_UserID :: id
  sc_ClientID :: string
  sc_Subject :: string
  sc_ExpiresAt :: time
  sc_IssuedAt :: time
  sc_ID :: id

record principal =
  pn_UserID :: id
  pn_SessionID :: id
  pn_ClientID :: string
  pn_Role :: string
  pn_Scopes :: "string list"

record account_library =
  acl_hash :: "string \<Rightarrow> string"
  acl_lower :: "string \<Rightarrow> string"
  acl_argon :: "string \<Rightarrow> string \<Rightarrow> nat \<Rightarrow> nat \<Rightarrow> nat \<Rightarrow> nat \<Rightarrow> string"
  acl_sign :: "access_claims \<Rightarrow> string"
  acl_parse :: "time \<Rightarrow> string \<Rightarrow> access_claims option"
  acl_sign_service :: "service_claims \<Rightarrow> string"
  acl_parse_service :: "time \<Rightarrow> string \<Rightarrow> service_claims option"
  acl_url :: "string \<Rightarrow> (string \<times> string) option"
  acl_encrypt :: "string \<Rightarrow> string result"
  acl_decrypt :: "string \<Rightarrow> string result"

record account_config =
  acf_RefreshTTL :: int
  acf_AccessTTL :: int
  acf_FastResearchLogin :: bool
  acf_SSOSecret :: string
  acf_AdminIdentifier :: string
  acf_AdminPassword :: string
  acf_AdminName :: string
  acf_CASIssuer :: string
  acf_CASClientID :: string

subsection \<open>Passwords\<close>

definition argonMemoryKiB :: nat where "argonMemoryKiB = 64 * 1024"
definition argonIterations :: nat where "argonIterations = 1"
definition argonParallelism :: nat where "argonParallelism = 4"
definition maxPasswordBytes :: nat where "maxPasswordBytes = 1024"

text \<open>\<open>base64.RawStdEncoding\<close> differs from the alphabet of the cursors in two letters.\<close>

definition std_letter :: "char \<Rightarrow> char" where
  "std_letter c = (if c = CHR ''-'' then CHR ''+'' else if c = CHR ''_'' then CHR ''/'' else c)"

definition url_letter :: "char \<Rightarrow> char" where
  "url_letter c = (if c = CHR ''+'' then CHR ''-'' else if c = CHR ''/'' then CHR ''_'' else c)"

definition std_encode :: "string \<Rightarrow> string" where
  "std_encode s = map std_letter (base64_encode s)"

definition std_decode :: "string \<Rightarrow> string option" where
  "std_decode s = (if CHR ''-'' \<in> set s \<or> CHR ''_'' \<in> set s then None else base64_decode (map url_letter s))"

definition HashPassword :: "account_library \<Rightarrow> string \<Rightarrow> string \<Rightarrow> string result" where
  "HashPassword lib salt password =
    (if length password < 12 \<or> length password > maxPasswordBytes then Inl ErrOther
     else Inr (''argon2id$v=19$m=65536,t=1,p=4$'' @ std_encode salt @ ''$'' @
       std_encode (acl_argon lib password salt argonIterations argonMemoryKiB argonParallelism 32)))"

text \<open>\<open>strings.Split\<close> at a letter, and \<open>fmt.Sscanf\<close> of \<open>"m=%d,t=%d,p=%d"\<close> into integers of 32, 32 and 8 bits.\<close>

fun split_at :: "char \<Rightarrow> string \<Rightarrow> string list" where
  "split_at c [] = [[]]"
| "split_at c (x # xs) = (if x = c then [] # split_at c xs else (x # hd (split_at c xs)) # tl (split_at c xs))"

definition scan_uint :: "nat \<Rightarrow> string \<Rightarrow> (nat \<times> string) option" where
  "scan_uint bits s =
    (let s' = cut_left (filter (\<lambda>q. q \<noteq> [CHR 0x0A]) space_seqs) s; ds = takeWhile is_digit s'
     in if ds = [] \<or> digits_value ds \<ge> 2 ^ bits then None else Some (nat (digits_value ds), dropWhile is_digit s'))"

definition scan_parameters :: "string \<Rightarrow> (nat \<times> nat \<times> nat) option" where
  "scan_parameters s =
    Option.bind (cut_prefix ''m='' s) (\<lambda>s. Option.bind (scan_uint 32 s) (\<lambda>(m, s).
    Option.bind (cut_prefix '',t='' s) (\<lambda>s. Option.bind (scan_uint 32 s) (\<lambda>(t, s).
    Option.bind (cut_prefix '',p='' s) (\<lambda>s. Option.bind (scan_uint 8 s) (\<lambda>(p, s). Some (m, t, p)))))))"

definition VerifyPassword :: "account_library \<Rightarrow> string \<Rightarrow> string \<Rightarrow> bool" where
  "VerifyPassword lib password encoded =
    (if length password > maxPasswordBytes then False
     else (case split_at CHR ''$'' encoded of
         [kind, version, parameters, salt, key] \<Rightarrow>
           if kind \<noteq> ''argon2id'' then False
           else (case scan_parameters parameters of
               None \<Rightarrow> False
             | Some (memory, iterations, parallelism) \<Rightarrow>
                 if memory = 0 \<or> memory > 1024 * 1024 \<or> iterations = 0 \<or> iterations > 16 \<or> parallelism = 0 then False
                 else (case (std_decode salt, std_decode key) of
                     (Some salt, Some want) \<Rightarrow>
                       16 \<le> length want \<and> length want \<le> 64 \<and>
                       acl_argon lib password salt iterations memory parallelism (length want) = want
                   | _ \<Rightarrow> False))
       | _ \<Rightarrow> False))"

subsection \<open>Sessions\<close>

definition put_logins :: "login_session list \<Rightarrow> store \<Rightarrow> store" where
  "put_logins rows s = s\<lparr>s_logins := rows\<rparr>"

definition put_users :: "user list \<Rightarrow> store \<Rightarrow> store" where
  "put_users rows s = s\<lparr>s_users := rows\<rparr>"

text \<open>The identifier and the hash of the refresh token are unique.\<close>

definition create_login :: "login_session \<Rightarrow> unit tx" where
  "create_login l =
    tx_bind (tx_read (\<lambda>s. \<exists>r \<in> set (s_logins s). ls_ID r = ls_ID l \<or> ls_RefreshHash r = ls_RefreshHash l)) (\<lambda>taken.
    tx_bind (tx_check (\<not> taken) ErrUnique) (\<lambda>_.
    tx_write (\<lambda>s. put_logins (s_logins s @ [l]) s)))"

definition update_logins :: "(login_session \<Rightarrow> bool) \<Rightarrow> (login_session \<Rightarrow> login_session) \<Rightarrow> nat tx" where
  "update_logins P f = tx_update s_logins put_logins P f"

definition revoked_login :: "env \<Rightarrow> login_session \<Rightarrow> login_session" where
  "revoked_login en l = l\<lparr>ls_Status := ''revoked'', ls_UpdatedAt := env_now en\<rparr>"

text \<open>A session of a new family, as each way of signing in opens it.\<close>

definition open_session :: "account_library \<Rightarrow> account_config \<Rightarrow> env \<Rightarrow> string \<Rightarrow> id \<Rightarrow> (login_session \<Rightarrow> login_session) \<Rightarrow> login_session tx" where
  "open_session lib cfg en fresh userID origin =
    tx_bind (NewID en ''session'') (\<lambda>k.
    tx_bind (NewID en ''family'') (\<lambda>family.
    let l = origin \<lparr>ls_ID = k, ls_FamilyID = family, ls_UserID = userID, ls_RefreshHash = acl_hash lib fresh, ls_ReplacedByHash = [],
          ls_Status = ''active'', ls_ExpiresAt = env_now en + acf_RefreshTTL cfg, ls_CreatedAt = env_now en, ls_UpdatedAt = env_now en,
          ls_AuthSource = [], ls_CasIssuer = [], ls_CasLinkID = [], ls_CasSID = [], ls_CasLinkVersion = 0\<rparr>
    in tx_bind (create_login l) (\<lambda>_. tx_return l)))"

definition issueAccess :: "account_library \<Rightarrow> account_config \<Rightarrow> env \<Rightarrow> user \<Rightarrow> id \<Rightarrow> string tx" where
  "issueAccess lib cfg en u sessionID =
    tx_bind (NewID en ''jwt'') (\<lambda>k.
    tx_return (acl_sign lib \<lparr>cl_Role = u_Role u, cl_SID = sessionID, cl_Subject = u_ID u,
      cl_ExpiresAt = env_now en + acf_AccessTTL cfg, cl_IssuedAt = env_now en, cl_ID = k\<rparr>))"

text \<open>The throttle is held beside the store; \<open>order\<close> is the order in which its map is swept.\<close>

definition Login ::
    "account_library \<Rightarrow> account_config \<Rightarrow> env \<Rightarrow> string list \<Rightarrow> string \<Rightarrow> string \<Rightarrow> string \<Rightarrow> string \<Rightarrow> login_throttle \<Rightarrow> store
      \<Rightarrow> (user \<times> string \<times> string) result \<times> login_throttle \<times> store" where
  "Login lib cfg en order fresh client identifier password th s =
    (let identifier = trim_space identifier;
         (ticket, ok, th1) = begin_attempt (acl_lower lib) (env_now en) order identifier client th
     in if \<not> ok then (Inl ErrLoginThrottled, th1, s)
        else (case find (\<lambda>u. u_Identifier u = identifier \<and> u_Status u = ''active'') (s_users s) of
            None \<Rightarrow> (Inl ErrInvalidCredentials, th1, s)
          | Some u \<Rightarrow>
              if acf_FastResearchLogin cfg \<and> u_Role u \<noteq> ''admin'' then (Inl ErrInvalidCredentials, th1, s)
              else if \<not> VerifyPassword lib password (u_PasswordHash u) then (Inl ErrInvalidCredentials, th1, s)
              else
                let (r, s') = op_bind (op_tx (open_session lib cfg en fresh (u_ID u) id)) (\<lambda>l.
                      op_bind (op_tx (issueAccess lib cfg en u (ls_ID l))) (\<lambda>access. op_return (u, access, fresh))) s
                in (r, succeed ticket th1, s')))"

definition refreshReuseGrace :: int where "refreshReuseGrace = 30 * second"

definition refreshGraceSuccessor :: "env \<Rightarrow> login_session \<Rightarrow> store \<Rightarrow> login_session option" where
  "refreshGraceSuccessor en l s =
    (if ls_Status l \<noteq> ''rotated'' \<or> ls_ReplacedByHash l = [] \<or> env_now en - ls_UpdatedAt l > refreshReuseGrace then None
     else find (\<lambda>r. ls_RefreshHash r = ls_ReplacedByHash l \<and> ls_FamilyID r = ls_FamilyID l \<and> ls_Status r = ''active'') (s_logins s))"

definition rotate :: "account_library \<Rightarrow> account_config \<Rightarrow> env \<Rightarrow> string \<Rightarrow> login_session \<Rightarrow> login_session \<Rightarrow> login_session tx" where
  "rotate lib cfg en fresh presented l =
    tx_bind (NewID en ''session'') (\<lambda>k.
    let l' = l\<lparr>ls_ID := k, ls_RefreshHash := acl_hash lib fresh, ls_ReplacedByHash := [], ls_Status := ''active'',
          ls_ExpiresAt := env_now en + acf_RefreshTTL cfg, ls_CreatedAt := env_now en, ls_UpdatedAt := env_now en\<rparr>
    in tx_bind (create_login l') (\<lambda>_.
       tx_bind (update_logins (\<lambda>r. ls_ID r = ls_ID l)
         (\<lambda>r. r\<lparr>ls_Status := ''rotated'', ls_ReplacedByHash := acl_hash lib fresh, ls_UpdatedAt := env_now en\<rparr>)) (\<lambda>_.
       tx_bind (if presented = l then tx_return 0
         else update_logins (\<lambda>r. ls_ID r = ls_ID presented) (\<lambda>r. r\<lparr>ls_ReplacedByHash := acl_hash lib fresh\<rparr>)) (\<lambda>_.
       tx_return l'))))"

text \<open>The transaction of a refresh; no result is a detected reuse, which commits the end of the family.\<close>

definition refresh_tx :: "account_library \<Rightarrow> account_config \<Rightarrow> env \<Rightarrow> string \<Rightarrow> string \<Rightarrow> (user \<times> login_session) option tx" where
  "refresh_tx lib cfg en fresh token =
    tx_bind (tx_try (\<lambda>s. case find (\<lambda>r. ls_RefreshHash r = acl_hash lib token) (s_logins s) of
      None \<Rightarrow> Inl ErrInvalidToken | Some l \<Rightarrow> Inr l)) (\<lambda>presented.
    tx_bind (tx_read (refreshGraceSuccessor en presented)) (\<lambda>successor.
    let l = (case successor of None \<Rightarrow> presented | Some r \<Rightarrow> r)
    in if ls_Status l \<noteq> ''active'' \<or> ls_ExpiresAt l < env_now en
       then (if ls_ReplacedByHash l = [] then tx_fail ErrInvalidToken
         else tx_bind (update_logins (\<lambda>r. ls_FamilyID r = ls_FamilyID l) (revoked_login en)) (\<lambda>_. tx_return None))
       else
         tx_bind (tx_try (\<lambda>s. first_row (filter (\<lambda>u. u_ID u = ls_UserID l) (s_users s)))) (\<lambda>u.
         tx_bind (tx_check (u_Status u = ''active'') ErrUserDisabled) (\<lambda>_.
         tx_bind (rotate lib cfg en fresh presented l) (\<lambda>l'. tx_return (Some (u, l')))))))"

definition Refresh :: "account_library \<Rightarrow> account_config \<Rightarrow> env \<Rightarrow> string \<Rightarrow> string \<Rightarrow> (user \<times> string \<times> string) op" where
  "Refresh lib cfg en fresh token =
    op_bind (op_tx (refresh_tx lib cfg en fresh token)) (\<lambda>r. case r of
      None \<Rightarrow> op_fail ErrTokenReuse
    | Some (u, l) \<Rightarrow> op_bind (op_tx (issueAccess lib cfg en u (ls_ID l))) (\<lambda>access. op_return (u, access, fresh)))"

definition Logout :: "env \<Rightarrow> id \<Rightarrow> unit tx" where
  "Logout en sessionID = tx_bind (update_logins (\<lambda>l. ls_ID l = sessionID) (revoked_login en)) (\<lambda>_. tx_return ())"

subsection \<open>Presented tokens\<close>

definition bearer_token :: "string \<Rightarrow> string" where
  "bearer_token token = trim_space (case cut_prefix ''Bearer '' token of None \<Rightarrow> token | Some r \<Rightarrow> r)"

definition usable_login :: "env \<Rightarrow> id \<Rightarrow> id \<Rightarrow> login_session \<Rightarrow> bool" where
  "usable_login en k userID l \<longleftrightarrow>
    ls_ID l = k \<and> ls_UserID l = userID \<and> ls_Status l = ''active'' \<and> ls_ExpiresAt l > env_now en"

definition Authenticate :: "account_library \<Rightarrow> env \<Rightarrow> string \<Rightarrow> store \<Rightarrow> principal result" where
  "Authenticate lib en token s =
    (let token = bearer_token token
     in if token = [] then Inl ErrInvalidToken
        else (case acl_parse lib (env_now en) token of
            None \<Rightarrow> Inl ErrInvalidToken
          | Some c \<Rightarrow>
              if length (filter (usable_login en (cl_SID c) (cl_Subject c)) (s_logins s)) \<noteq> 1 then Inl ErrInvalidToken
              else (case find (\<lambda>u. u_ID u = cl_Subject c \<and> u_Status u = ''active'') (s_users s) of
                  None \<Rightarrow> Inl ErrUserDisabled
                | Some u \<Rightarrow> Inr \<lparr>pn_UserID = cl_Subject c, pn_SessionID = cl_SID c, pn_ClientID = [], pn_Role = u_Role u, pn_Scopes = []\<rparr>)))"

definition HasScopes :: "principal \<Rightarrow> string list \<Rightarrow> bool" where
  "HasScopes p required \<longleftrightarrow> (\<forall>k \<in> set required. k \<in> set (pn_Scopes p))"

definition AuthenticateServicePrincipal :: "account_library \<Rightarrow> env \<Rightarrow> string \<Rightarrow> principal result" where
  "AuthenticateServicePrincipal lib en token =
    (let token = bearer_token token
     in if token = [] then Inl ErrInvalidToken
        else (case acl_parse_service lib (env_now en) token of
            None \<Rightarrow> Inl ErrInvalidToken
          | Some c \<Rightarrow>
              let clientID = (if trim_space (sc_ClientID c) = [] then trim_space (sc_Subject c) else trim_space (sc_ClientID c))
              in if sc_UserID c = [] \<or> clientID = [] then Inl ErrInvalidToken
                 else Inr \<lparr>pn_UserID = sc_UserID c, pn_SessionID = [], pn_ClientID = clientID, pn_Role = ''service'', pn_Scopes = sc_Scopes c\<rparr>))"

definition AuthenticateService :: "account_library \<Rightarrow> env \<Rightarrow> string \<Rightarrow> string \<Rightarrow> principal result" where
  "AuthenticateService lib en token requiredScope =
    bind_r (AuthenticateServicePrincipal lib en token) (\<lambda>p.
    if HasScopes p [requiredScope] then Inr p else Inl ErrInvalidToken)"

definition AuthenticatePanel :: "account_library \<Rightarrow> env \<Rightarrow> string \<Rightarrow> principal result" where
  "AuthenticatePanel lib en token = AuthenticateService lib en token ''panel:summary:read''"

definition IssueServiceTokenForClient ::
    "account_library \<Rightarrow> env \<Rightarrow> id \<Rightarrow> string \<Rightarrow> string list \<Rightarrow> int \<Rightarrow> string tx" where
  "IssueServiceTokenForClient lib en userID clientID scopes ttl =
    (let clientID = trim_space clientID
     in tx_bind (tx_check (clientID \<noteq> []) ErrOther) (\<lambda>_.
        tx_bind (NewID en ''servicejwt'') (\<lambda>k.
        tx_return (acl_sign_service lib \<lparr>sc_Scopes = scopes, sc_UserID = userID, sc_ClientID = clientID, sc_Subject = clientID,
          sc_ExpiresAt = env_now en + ttl, sc_IssuedAt = env_now en, sc_ID = k\<rparr>))))"

definition IssueServiceToken :: "account_library \<Rightarrow> env \<Rightarrow> id \<Rightarrow> string list \<Rightarrow> int \<Rightarrow> string tx" where
  "IssueServiceToken lib en userID scopes ttl = IssueServiceTokenForClient lib en userID ''fastresearch-service'' scopes ttl"

definition IssuePanelToken :: "account_library \<Rightarrow> env \<Rightarrow> id \<Rightarrow> int \<Rightarrow> string tx" where
  "IssuePanelToken lib en userID ttl = IssueServiceTokenForClient lib en userID ''fastresearch-panel'' [''panel:summary:read''] ttl"

subsection \<open>The first administrator\<close>

definition create_user :: "user \<Rightarrow> unit tx" where
  "create_user u =
    tx_bind (tx_read (\<lambda>s. \<exists>v \<in> set (s_users s). u_ID v = u_ID u \<or> u_Identifier v = u_Identifier u)) (\<lambda>taken.
    tx_bind (tx_check (\<not> taken) ErrUnique) (\<lambda>_.
    tx_write (\<lambda>s. put_users (s_users s @ [u]) s)))"

definition EnsureAdmin :: "account_library \<Rightarrow> account_config \<Rightarrow> env \<Rightarrow> string \<Rightarrow> unit tx" where
  "EnsureAdmin lib cfg en salt =
    tx_bind (tx_read (\<lambda>s. \<exists>u \<in> set (s_users s). u_Identifier u = acf_AdminIdentifier cfg)) (\<lambda>present.
    if present then tx_return ()
    else
      tx_bind (tx_try (\<lambda>_. HashPassword lib salt (acf_AdminPassword cfg))) (\<lambda>encoded.
      tx_bind (NewID en ''user'') (\<lambda>k.
      create_user \<lparr>u_ID = k, u_Identifier = acf_AdminIdentifier cfg, u_PasswordHash = encoded, u_DisplayName = acf_AdminName cfg,
        u_Timezone = ''Asia/Shanghai'', u_Locale = ''zh-CN'', u_Role = ''admin'', u_Status = ''active'', u_Revision = 1,
        u_CreatedAt = env_now en, u_UpdatedAt = env_now en\<rparr>)))"

end
