(* ===== verification/Sign_On.thy ===== *)
theory Sign_On
  imports Accounts
begin

text \<open>
  Signing in through other services (\<open>internal/platform/auth/fastresearch.go\<close> and \<open>fastcas.go\<close>): tickets of FastResearch and the
  links, sessions and notices of FastCAS. The clients of the two services are third-party code and HTTP; what they answer is a
  parameter. The client of FastCAS reads and deletes the rows of its transactions through \<open>Put\<close> and \<open>Take\<close>, so finishing
  a login is a call on the store.
\<close>

subsection \<open>FastResearch\<close>

record research_identity =
  rid_AccountID :: id
  rid_KeyID :: id
  rid_Person :: string

definition put_research :: "research_account list \<Rightarrow> store \<Rightarrow> store" where
  "put_research rows s = s\<lparr>s_research := rows\<rparr>"

definition research_name :: string where
  "research_name = ''FastResearch '' @ [CHR 0xE7, CHR 0x94, CHR 0xA8, CHR 0xE6, CHR 0x88, CHR 0xB7]"

definition create_mapping :: "research_account \<Rightarrow> unit tx" where
  "create_mapping m =
    tx_bind (tx_read (\<lambda>s. \<exists>r \<in> set (s_research s). rsa_AccountID r = rsa_AccountID m \<or> rsa_UserID r = rsa_UserID m)) (\<lambda>taken.
    tx_bind (tx_check (\<not> taken) ErrUnique) (\<lambda>_.
    tx_write (\<lambda>s. put_research (s_research s @ [m]) s)))"

definition new_member :: "env \<Rightarrow> research_identity \<Rightarrow> user tx" where
  "new_member en ident =
    tx_bind (NewID en ''user'') (\<lambda>k.
    let u = \<lparr>u_ID = k, u_Identifier = ''fastresearch:'' @ rid_AccountID ident, u_PasswordHash = [],
          u_DisplayName = (if rid_Person ident = [] then research_name else rid_Person ident), u_Timezone = ''Asia/Shanghai'',
          u_Locale = ''zh-CN'', u_Role = ''member'', u_Status = ''active'', u_Revision = 1, u_CreatedAt = env_now en, u_UpdatedAt = env_now en\<rparr>
    in tx_bind (create_user u) (\<lambda>_.
       tx_bind (create_mapping \<lparr>rsa_AccountID = rid_AccountID ident, rsa_UserID = k, rsa_KeyID = rid_KeyID ident,
         rsa_Person = rid_Person ident, rsa_CreatedAt = env_now en, rsa_UpdatedAt = env_now en\<rparr>) (\<lambda>_. tx_return u)))"

definition known_member :: "env \<Rightarrow> research_identity \<Rightarrow> research_account \<Rightarrow> user tx" where
  "known_member en ident m =
    tx_bind (tx_try (\<lambda>s. first_row (filter (\<lambda>u. u_ID u = rsa_UserID m) (s_users s)))) (\<lambda>u.
    tx_bind (tx_check (u_Status u = ''active'') ErrUserDisabled) (\<lambda>_.
    let renamed = rid_Person ident \<noteq> [] \<and> u_DisplayName u \<noteq> rid_Person ident;
        rename = (\<lambda>v. v\<lparr>u_DisplayName := rid_Person ident, u_Revision := u_Revision u + 1, u_UpdatedAt := env_now en\<rparr>)
    in tx_bind (if renamed then tx_update s_users put_users (\<lambda>v. u_ID v = u_ID u) rename else tx_return 0) (\<lambda>_.
       tx_bind (tx_update s_research put_research (\<lambda>r. rsa_AccountID r = rsa_AccountID m)
         (\<lambda>r. r\<lparr>rsa_KeyID := rid_KeyID ident, rsa_Person := rid_Person ident, rsa_UpdatedAt := env_now en\<rparr>)) (\<lambda>_.
       tx_return (if renamed then rename u else u)))))"

definition research_tx :: "account_library \<Rightarrow> account_config \<Rightarrow> env \<Rightarrow> string \<Rightarrow> research_identity \<Rightarrow> user tx" where
  "research_tx lib cfg en fresh ident =
    tx_bind (tx_read (\<lambda>s. find (\<lambda>r. rsa_AccountID r = rid_AccountID ident) (s_research s))) (\<lambda>mapping.
    tx_bind (case mapping of None \<Rightarrow> new_member en ident | Some m \<Rightarrow> known_member en ident m) (\<lambda>u.
    tx_bind (open_session lib cfg en fresh (u_ID u) (\<lambda>l. l\<lparr>ls_AuthSource := ''fastresearch''\<rparr>)) (\<lambda>_. tx_return u)))"

definition issueFastResearchSession ::
    "account_library \<Rightarrow> account_config \<Rightarrow> env \<Rightarrow> string \<Rightarrow> research_identity \<Rightarrow> (user \<times> string \<times> string) op" where
  "issueFastResearchSession lib cfg en fresh ident =
    op_bind (op_tx (research_tx lib cfg en fresh ident)) (\<lambda>u.
    op_bind (op_tx (tx_try (\<lambda>s. first_row (filter (\<lambda>l. ls_RefreshHash l = acl_hash lib fresh) (s_logins s))))) (\<lambda>l.
    op_bind (op_tx (issueAccess lib cfg en u (ls_ID l))) (\<lambda>access. op_return (u, access, fresh))))"

text \<open>\<open>exchange\<close> is the answer of FastResearch to a ticket.\<close>

definition LoginFastResearch ::
    "account_library \<Rightarrow> account_config \<Rightarrow> env \<Rightarrow> string \<Rightarrow> (string \<Rightarrow> research_identity result) \<Rightarrow> string
      \<Rightarrow> (user \<times> string \<times> string) op" where
  "LoginFastResearch lib cfg en fresh exchange ticket =
    (let ticket = trim_space ticket
     in if \<not> acf_FastResearchLogin cfg \<or> length ticket < 24 \<or> length ticket > 512 then op_fail ErrOther
        else (case exchange ticket of
            Inl e \<Rightarrow> op_fail e
          | Inr answer \<Rightarrow>
              let ident = \<lparr>rid_AccountID = trim_space (rid_AccountID answer), rid_KeyID = trim_space (rid_KeyID answer),
                    rid_Person = trim_space (rid_Person answer)\<rparr>
              in if rid_AccountID ident = [] \<or> length (rid_AccountID ident) > 200 \<or> rid_KeyID ident = [] \<or> length (rid_KeyID ident) > 200
                 then op_fail ErrOther else issueFastResearchSession lib cfg en fresh ident))"

definition CompareFastResearchSecret :: "account_config \<Rightarrow> string \<Rightarrow> bool" where
  "CompareFastResearchSecret cfg candidate \<longleftrightarrow> acf_FastResearchLogin cfg \<and> candidate = acf_SSOSecret cfg"

subsection \<open>Transactions of FastCAS\<close>

definition put_cas_transactions :: "cas_transaction list \<Rightarrow> store \<Rightarrow> store" where
  "put_cas_transactions rows s = s\<lparr>s_cas_transactions := rows\<rparr>"

definition PutTransaction :: "env \<Rightarrow> cas_transaction \<Rightarrow> unit tx" where
  "PutTransaction en t =
    tx_bind (tx_write (\<lambda>s. put_cas_transactions (filter (\<lambda>r. ctx_ExpiresAt r > env_now en) (s_cas_transactions s)) s)) (\<lambda>_.
    tx_create s_cas_transactions put_cas_transactions ctx_State t)"

text \<open>A transaction is taken once, and not after it expired; \<open>decode\<close> reads its payload.\<close>

definition TakeTransaction :: "env \<Rightarrow> (string \<Rightarrow> 'a result) \<Rightarrow> string \<Rightarrow> 'a option tx" where
  "TakeTransaction en decode state =
    tx_bind (tx_read (\<lambda>s. find (\<lambda>r. ctx_State r = state) (s_cas_transactions s))) (\<lambda>found. case found of
      None \<Rightarrow> tx_return None
    | Some r \<Rightarrow>
        tx_bind (tx_write (\<lambda>s. put_cas_transactions (filter (\<lambda>q. ctx_State q \<noteq> ctx_State r) (s_cas_transactions s)) s)) (\<lambda>_.
        if ctx_ExpiresAt r \<le> env_now en then tx_return None
        else tx_bind (tx_try (\<lambda>_. decode (ctx_Payload r))) (\<lambda>v. tx_return (Some v))))"

subsection \<open>Links of FastCAS\<close>

record cas_remote =
  rl_ID :: id
  rl_ClientID :: string
  rl_LocalRef :: id
  rl_Subject :: string
  rl_State :: string
  rl_Version :: int
  rl_VerifiedAt :: time

record cas_identity =
  ci_Issuer :: string
  ci_Subject :: string
  ci_SessionID :: string

record cas_pending =
  cp_Purpose :: string
  cp_LocalAccountRef :: id
  cp_LocalSessionID :: id

definition put_cas_links :: "cas_link list \<Rightarrow> store \<Rightarrow> store" where
  "put_cas_links rows s = s\<lparr>s_cas_links := rows\<rparr>"

definition put_cas_events :: "cas_event list \<Rightarrow> store \<Rightarrow> store" where
  "put_cas_events rows s = s\<lparr>s_cas_events := rows\<rparr>"

definition casAudit :: "env \<Rightarrow> id \<Rightarrow> string \<Rightarrow> id \<Rightarrow> unit tx" where
  "casAudit en userID action k =
    tx_bind (NewID en ''audit'') (\<lambda>a.
    tx_write (\<lambda>s. s\<lparr>s_audits := s_audits s @ [\<lparr>aa_ID = a, aa_ActorUserID = userID, aa_TargetUserID = None, aa_Action = action,
      aa_DetailJSON = [(''link_id'', PText k)], aa_CreatedAt = env_now en\<rparr>]\<rparr>))"

text \<open>\<open>INSERT OR IGNORE\<close> of an event, and whether it was new.\<close>

definition new_event :: "env \<Rightarrow> string \<Rightarrow> id \<Rightarrow> bool tx" where
  "new_event en issuer k =
    tx_bind (tx_read (\<lambda>s. \<exists>e \<in> set (s_cas_events s). ce_Issuer e = issuer \<and> ce_ID e = k)) (\<lambda>known.
    if known then tx_return False
    else tx_bind (tx_write (\<lambda>s. put_cas_events (s_cas_events s @ [\<lparr>ce_Issuer = issuer, ce_ID = k, ce_ProcessedAt = env_now en\<rparr>]) s)) (\<lambda>_.
      tx_return True))"

definition link_state :: "string \<Rightarrow> bool" where
  "link_state k \<longleftrightarrow> k = ''prepared'' \<or> k = ''active'' \<or> k = ''revoked''"

text \<open>The columns of a link are checked, and a user and a subject have one link that is not revoked.\<close>

definition create_link :: "cas_link \<Rightarrow> unit tx" where
  "create_link l =
    tx_bind (tx_read (\<lambda>s. \<exists>r \<in> set (s_cas_links s). lk_ID r = lk_ID l \<or>
      lk_State r \<noteq> ''revoked'' \<and> lk_State l \<noteq> ''revoked'' \<and> lk_Issuer r = lk_Issuer l \<and>
      (lk_UserID r = lk_UserID l \<or> lk_Subject r = lk_Subject l))) (\<lambda>taken.
    tx_bind (tx_check (\<not> taken) ErrUnique) (\<lambda>_.
    tx_bind (tx_check (link_state (lk_State l)) ErrOther) (\<lambda>_.
    tx_write (\<lambda>s. put_cas_links (s_cas_links s @ [l]) s))))"

definition localLink :: "string \<Rightarrow> cas_remote \<Rightarrow> cas_link" where
  "localLink issuer l =
    \<lparr>lk_ID = rl_ID l, lk_Issuer = issuer, lk_ClientID = rl_ClientID l, lk_UserID = rl_LocalRef l, lk_Subject = rl_Subject l,
      lk_State = rl_State l, lk_Version = rl_Version l, lk_VerifiedAt = rl_VerifiedAt l\<rparr>"

definition applied_link :: "account_config \<Rightarrow> cas_remote \<Rightarrow> cas_link \<Rightarrow> bool" where
  "applied_link cfg l r \<longleftrightarrow>
    lk_ID r = rl_ID l \<and> lk_Issuer r = acf_CASIssuer cfg \<and> lk_Subject r = rl_Subject l \<and> lk_UserID r = rl_LocalRef l \<and>
    lk_Version r \<le> rl_Version l \<and> lk_State r \<noteq> ''revoked''"

definition link_tx :: "account_config \<Rightarrow> env \<Rightarrow> cas_remote \<Rightarrow> unit tx" where
  "link_tx cfg en l =
    tx_bind (tx_update s_cas_links put_cas_links (applied_link cfg l) (\<lambda>r. r\<lparr>lk_State := rl_State l, lk_Version := rl_Version l\<rparr>)) (\<lambda>n.
    if n = 0 then tx_return ()
    else
      tx_bind (tx_check (link_state (rl_State l)) ErrOther) (\<lambda>_.
      tx_bind (if rl_State l = ''revoked''
        then update_logins (\<lambda>r. ls_AuthSource r = ''fastcas'' \<and> ls_CasIssuer r = acf_CASIssuer cfg \<and> ls_CasLinkID r = rl_ID l) (revoked_login en)
        else tx_return 0) (\<lambda>_.
      tx_bind (tx_write (\<lambda>s. put_cas_events (filter (\<lambda>e. \<not> ce_ProcessedAt e < env_now en - 30 * 24 * 3600 * second) (s_cas_events s)) s)) (\<lambda>_.
      casAudit en (rl_LocalRef l) (''fastcas.'' @ rl_State l) (rl_ID l)))))"

definition applyFastCASLink :: "account_config \<Rightarrow> env \<Rightarrow> cas_remote \<Rightarrow> id \<Rightarrow> unit tx" where
  "applyFastCASLink cfg en l eventID =
    (if eventID = [] then link_tx cfg en l
     else tx_bind (new_event en (acf_CASIssuer cfg) eventID) (\<lambda>fresh. if fresh then link_tx cfg en l else tx_return ()))"

text \<open>The sessions that stand on a link of a subject.\<close>

definition subject_login :: "account_config \<Rightarrow> string \<Rightarrow> store \<Rightarrow> login_session \<Rightarrow> bool" where
  "subject_login cfg subject s l \<longleftrightarrow>
    ls_AuthSource l = ''fastcas'' \<and> ls_CasIssuer l = acf_CASIssuer cfg \<and>
    (\<exists>r \<in> set (s_cas_links s). lk_ID r = ls_CasLinkID l \<and> lk_Issuer r = acf_CASIssuer cfg \<and> lk_ClientID r = acf_CASClientID cfg \<and>
      lk_Subject r = subject)"

definition end_logins :: "env \<Rightarrow> (store \<Rightarrow> login_session \<Rightarrow> bool) \<Rightarrow> unit tx" where
  "end_logins en P = tx_bind (tx_read P) (\<lambda>Q. tx_bind (update_logins Q (revoked_login en)) (\<lambda>_. tx_return ()))"

definition applyFastCASIdentityDisable :: "account_config \<Rightarrow> env \<Rightarrow> id \<Rightarrow> string \<Rightarrow> unit tx" where
  "applyFastCASIdentityDisable cfg en eventID subject =
    tx_bind (new_event en (acf_CASIssuer cfg) eventID) (\<lambda>fresh.
    if fresh then end_logins en (subject_login cfg subject) else tx_return ())"

definition ApplyFastCASLogout :: "account_config \<Rightarrow> env \<Rightarrow> id \<Rightarrow> string \<Rightarrow> string \<Rightarrow> unit tx" where
  "ApplyFastCASLogout cfg en noticeID subject sid =
    tx_bind (new_event en (acf_CASIssuer cfg) noticeID) (\<lambda>fresh.
    if fresh then end_logins en (\<lambda>s l. subject_login cfg subject s l \<and> (sid = [] \<or> ls_CasSID l = sid)) else tx_return ())"

datatype cas_notification = LinkRevoked id cas_remote | IdentityStatus id string string

definition ApplyFastCASNotification :: "account_config \<Rightarrow> env \<Rightarrow> cas_notification \<Rightarrow> unit tx" where
  "ApplyFastCASNotification cfg en event =
    (case event of
       LinkRevoked k l \<Rightarrow> applyFastCASLink cfg en l k
     | IdentityStatus k subject status \<Rightarrow>
         if status = ''disabled'' then applyFastCASIdentityDisable cfg en k subject else tx_return ())"

subsection \<open>Signing in through FastCAS\<close>

record cas_client =
  cc_finish :: "string \<Rightarrow> string \<Rightarrow> id \<Rightarrow> id \<Rightarrow> (cas_pending \<times> cas_identity) op"
  cc_prepare :: "cas_pending \<Rightarrow> cas_identity \<Rightarrow> cas_remote result"
  cc_activate :: "id \<Rightarrow> cas_remote result"
  cc_get :: "id \<Rightarrow> cas_remote result"
  cc_revoke :: "cas_remote \<Rightarrow> cas_remote result"
  cc_resolve :: "string \<Rightarrow> cas_remote result"
  cc_state :: "string \<Rightarrow> string option"
  cc_pending :: "string \<Rightarrow> cas_pending option"

record cas_result =
  cr_User :: "user option"
  cr_AccessToken :: string
  cr_RefreshToken :: string
  cr_Linked :: bool

definition live_login :: "env \<Rightarrow> principal \<Rightarrow> store \<Rightarrow> bool" where
  "live_login en p s \<longleftrightarrow> length (filter (usable_login en (pn_SessionID p) (pn_UserID p)) (s_logins s)) = 1"

definition ProveFastCASLocal ::
    "account_library \<Rightarrow> env \<Rightarrow> string list \<Rightarrow> string \<Rightarrow> principal \<Rightarrow> string \<Rightarrow> login_throttle \<Rightarrow> store \<Rightarrow> unit result \<times> login_throttle" where
  "ProveFastCASLocal lib en order client p password th s =
    (case find (\<lambda>u. u_ID u = pn_UserID p \<and> u_Status u = ''active'') (s_users s) of
       None \<Rightarrow> (Inl ErrOther, th)
     | Some u \<Rightarrow>
         let (ticket, ok, th1) = begin_attempt (acl_lower lib) (env_now en) order (u_Identifier u) client th
         in if \<not> ok then (Inl ErrLoginThrottled, th1)
            else if \<not> VerifyPassword lib password (u_PasswordHash u) then (Inl ErrOther, th1)
            else if \<not> live_login en p s then (Inl ErrOther, th1)
            else (Inr (), succeed ticket th1))"

definition loginFastCAS ::
    "account_library \<Rightarrow> account_config \<Rightarrow> env \<Rightarrow> string \<Rightarrow> cas_identity \<Rightarrow> cas_remote \<Rightarrow> cas_result tx" where
  "loginFastCAS lib cfg en fresh ident l =
    tx_bind (tx_try (\<lambda>s. case find (\<lambda>r. lk_ID r = rl_ID l \<and> lk_Issuer r = ci_Issuer ident \<and> lk_Subject r = ci_Subject ident \<and>
        lk_State r = ''active'' \<and> lk_Version r = rl_Version l \<and> lk_UserID r = rl_LocalRef l) (s_cas_links s) of
      None \<Rightarrow> Inl ErrOther | Some r \<Rightarrow> Inr r)) (\<lambda>local.
    tx_bind (tx_try (\<lambda>s. case find (\<lambda>u. u_ID u = lk_UserID local \<and> u_Status u = ''active'') (s_users s) of
      None \<Rightarrow> Inl ErrUserDisabled | Some u \<Rightarrow> Inr u)) (\<lambda>u.
    tx_bind (open_session lib cfg en fresh (lk_UserID local) (\<lambda>r. r\<lparr>ls_AuthSource := ''fastcas'', ls_CasIssuer := ci_Issuer ident,
      ls_CasSID := ci_SessionID ident, ls_CasLinkID := rl_ID l, ls_CasLinkVersion := rl_Version l\<rparr>)) (\<lambda>r.
    tx_bind (issueAccess lib cfg en u (ls_ID r)) (\<lambda>access.
    tx_bind (casAudit en (lk_UserID local) ''fastcas.login'' (rl_ID l)) (\<lambda>_.
    tx_return \<lparr>cr_User = Some u, cr_AccessToken = access, cr_RefreshToken = fresh, cr_Linked = False\<rparr>)))))"

text \<open>The session a link was started from, when the present one is a later session of its family.\<close>

definition link_origin :: "cas_client \<Rightarrow> env \<Rightarrow> string \<Rightarrow> principal \<Rightarrow> store \<Rightarrow> id" where
  "link_origin c en callback p s =
    (case Option.bind (cc_state c callback) (\<lambda>state. Option.bind (find (\<lambda>r. ctx_State r = state) (s_cas_transactions s)) (\<lambda>r. cc_pending c (ctx_Payload r))) of
       None \<Rightarrow> pn_SessionID p
     | Some t \<Rightarrow>
         if cp_Purpose t \<noteq> ''link'' \<or> cp_LocalAccountRef t \<noteq> pn_UserID p then pn_SessionID p
         else (case (find (\<lambda>l. ls_ID l = cp_LocalSessionID t \<and> ls_UserID l = pn_UserID p) (s_logins s),
             find (usable_login en (pn_SessionID p) (pn_UserID p)) (s_logins s)) of
             (Some original, Some current) \<Rightarrow>
               if ls_FamilyID original = ls_FamilyID current \<and> ls_FamilyID original \<noteq> [] then cp_LocalSessionID t else pn_SessionID p
           | _ \<Rightarrow> pn_SessionID p))"

definition prepare_tx :: "account_config \<Rightarrow> env \<Rightarrow> principal \<Rightarrow> cas_remote \<Rightarrow> unit tx" where
  "prepare_tx cfg en p l =
    tx_bind (tx_read (\<lambda>s. \<exists>u \<in> set (s_users s). u_ID u = pn_UserID p \<and> u_Status u = ''active'')) (\<lambda>present.
    tx_bind (tx_check present ErrRecordNotFound) (\<lambda>_.
    tx_bind (tx_read (live_login en p)) (\<lambda>live.
    tx_bind (tx_check live ErrOther) (\<lambda>_.
    tx_bind (create_link (localLink (acf_CASIssuer cfg) l)) (\<lambda>_.
    casAudit en (pn_UserID p) ''fastcas.prepare'' (rl_ID l))))))"

definition op_remote :: "'a result \<Rightarrow> 'a op" where
  "op_remote r = (case r of Inl e \<Rightarrow> op_fail e | Inr a \<Rightarrow> op_return a)"

text \<open>A link that was prepared here and not activated is brought up to date before the login.\<close>

definition settle_prepared :: "cas_client \<Rightarrow> account_config \<Rightarrow> env \<Rightarrow> string \<Rightarrow> unit op" where
  "settle_prepared c cfg en subject =
    op_bind (op_tx (tx_read (\<lambda>s. find (\<lambda>r. lk_Issuer r = acf_CASIssuer cfg \<and> lk_Subject r = subject \<and> lk_State r = ''prepared'') (s_cas_links s))))
      (\<lambda>pending. case pending of
        None \<Rightarrow> op_return ()
      | Some r \<Rightarrow>
          op_bind (op_remote (cc_get c (lk_ID r))) (\<lambda>remote.
          op_bind (if rl_State remote = ''prepared'' then op_remote (cc_activate c (lk_ID r)) else op_return remote) (\<lambda>remote.
          op_tx (applyFastCASLink cfg en remote []))))"

definition CompleteFastCAS ::
    "account_library \<Rightarrow> cas_client \<Rightarrow> account_config \<Rightarrow> env \<Rightarrow> string \<Rightarrow> string \<Rightarrow> string \<Rightarrow> principal option \<Rightarrow> cas_result op" where
  "CompleteFastCAS lib c cfg en fresh callback binding p =
    (if acf_CASIssuer cfg = [] then op_fail ErrFastCASDisabled
     else
       op_bind (op_tx (tx_read (\<lambda>s. case p of None \<Rightarrow> [] | Some p \<Rightarrow> link_origin c en callback p s))) (\<lambda>sessionID.
       op_bind (cc_finish c callback binding (case p of None \<Rightarrow> [] | Some p \<Rightarrow> pn_UserID p) sessionID) (\<lambda>(t, ident).
       if cp_Purpose t = ''link'' then
         (case p of
            None \<Rightarrow> op_fail ErrOther
          | Some p \<Rightarrow>
              op_bind (op_remote (cc_prepare c t ident)) (\<lambda>l.
              if rl_LocalRef l \<noteq> pn_UserID p then op_fail ErrOther
              else
                op_bind (op_tx (prepare_tx cfg en p l)) (\<lambda>_.
                op_bind (op_remote (cc_activate c (rl_ID l))) (\<lambda>l.
                op_bind (op_tx (applyFastCASLink cfg en l [])) (\<lambda>_.
                op_return \<lparr>cr_User = None, cr_AccessToken = [], cr_RefreshToken = [], cr_Linked = True\<rparr>)))))
       else if cp_Purpose t \<noteq> ''login'' then op_fail ErrOther
       else
         op_bind (settle_prepared c cfg en (ci_Subject ident)) (\<lambda>_.
         op_bind (op_remote (cc_resolve c (ci_Subject ident))) (\<lambda>l.
         op_tx (loginFastCAS lib cfg en fresh ident l))))))"

definition UpdateFastCASLink ::
    "account_library \<Rightarrow> cas_client \<Rightarrow> account_config \<Rightarrow> env \<Rightarrow> string list \<Rightarrow> string \<Rightarrow> principal \<Rightarrow> id \<Rightarrow> string \<Rightarrow> bool \<Rightarrow> login_throttle
      \<Rightarrow> store \<Rightarrow> cas_remote result \<times> login_throttle \<times> store" where
  "UpdateFastCASLink lib c cfg en order client p k password revoke th s =
    (if acf_CASIssuer cfg = [] then (Inl ErrFastCASDisabled, th, s)
     else if \<not> (\<exists>r \<in> set (s_cas_links s). lk_ID r = k \<and> lk_Issuer r = acf_CASIssuer cfg \<and> lk_UserID r = pn_UserID p)
     then (Inl ErrRecordNotFound, th, s)
     else
       let (proof, th1) = (if revoke then ProveFastCASLocal lib en order client p password th s else (Inr (), th))
       in case proof of
            Inl e \<Rightarrow> (Inl e, th1, s)
          | Inr _ \<Rightarrow>
              let (r, s') = op_bind (op_remote (cc_get c k)) (\<lambda>l.
                    op_bind (if revoke then op_remote (cc_revoke c l)
                      else if rl_State l = ''prepared'' then op_remote (cc_activate c k) else op_return l) (\<lambda>l.
                    op_bind (op_tx (applyFastCASLink cfg en l [])) (\<lambda>_. op_return l))) s
              in (r, th1, s'))"

end
