(* ===== verification/Administration.thy ===== *)
theory Administration
  imports Accounts
begin

text \<open>
  Administration (\<open>admin.go\<close>, \<open>provider.go\<close>): the gate of the administrators, users with their sessions, and model providers with
  their keys. Parsing a URL and sealing a secret are parameters. The detail of an audit event lists the fields that were given.
\<close>

subsection \<open>Users\<close>

record create_user_command =
  cuc_Identifier :: string
  cuc_Password :: string
  cuc_DisplayName :: string
  cuc_Timezone :: string
  cuc_Locale :: string
  cuc_Role :: string

record update_user_command =
  uuc_DisplayName :: "string option"
  uuc_Timezone :: "string option"
  uuc_Locale :: "string option"
  uuc_Role :: "string option"
  uuc_Status :: "string option"

definition normalizeRole :: "account_library \<Rightarrow> string \<Rightarrow> string" where
  "normalizeRole lib role = (if role = [] then ''member'' else acl_lower lib (trim_space role))"

definition validRole :: "string \<Rightarrow> bool" where
  "validRole role \<longleftrightarrow> role = ''member'' \<or> role = ''admin''"

definition currentAdmin :: "principal option \<Rightarrow> store \<Rightarrow> user result" where
  "currentAdmin p s =
    (case p of
       None \<Rightarrow> Inl ErrForbidden
     | Some p \<Rightarrow>
         if pn_UserID p = [] \<or> pn_Role p \<noteq> ''admin'' then Inl ErrForbidden
         else bind_r (find_user s (pn_UserID p)) (\<lambda>u.
           if u_Role u \<noteq> ''admin'' \<or> u_Status u \<noteq> ''active'' then Inl ErrForbidden else Inr u))"

definition CreateUser :: "account_library \<Rightarrow> env \<Rightarrow> string \<Rightarrow> user \<Rightarrow> create_user_command \<Rightarrow> user tx" where
  "CreateUser lib en salt actor cmd =
    (let identifier = acl_lower lib (trim_space (cuc_Identifier cmd));
         name = trim_space (cuc_DisplayName cmd);
         role = normalizeRole lib (cuc_Role cmd);
         zone = (if cuc_Timezone cmd = [] then ''Asia/Shanghai'' else cuc_Timezone cmd);
         locale = (if cuc_Locale cmd = [] then ''zh-CN'' else cuc_Locale cmd)
     in tx_bind (tx_check (3 \<le> length identifier \<and> length identifier \<le> 120 \<and> name \<noteq> [] \<and> validRole role) ErrValidation) (\<lambda>_.
        tx_bind (tx_check (env_zones en zone \<noteq> None) ErrValidation) (\<lambda>_.
        tx_bind (tx_try (\<lambda>_. case HashPassword lib salt (cuc_Password cmd) of Inl _ \<Rightarrow> Inl ErrValidation | Inr v \<Rightarrow> Inr v)) (\<lambda>encoded.
        tx_bind (NewID en ''user'') (\<lambda>k.
        let u = \<lparr>u_ID = k, u_Identifier = identifier, u_PasswordHash = encoded, u_DisplayName = name, u_Timezone = zone, u_Locale = locale,
              u_Role = role, u_Status = ''active'', u_Revision = 1, u_CreatedAt = env_now en, u_UpdatedAt = env_now en\<rparr>
        in tx_bind (unique_as ErrConflict (create_user u)) (\<lambda>_.
           tx_bind (auditAdmin en actor k ''user.created'' [(''role'', PText role)]) (\<lambda>_. tx_return u)))))))"

text \<open>The sessions of a user that a decision about the user ends.\<close>

definition end_user_logins :: "env \<Rightarrow> id \<Rightarrow> nat tx" where
  "end_user_logins en userID = update_logins (\<lambda>l. ls_UserID l = userID \<and> ls_Status l = ''active'') (revoked_login en)"

definition other_active_admin :: "id \<Rightarrow> store \<Rightarrow> bool" where
  "other_active_admin k s \<longleftrightarrow> (\<exists>u \<in> set (s_users s). u_Role u = ''admin'' \<and> u_Status u = ''active'' \<and> u_ID u \<noteq> k)"

text \<open>A field that was given and satisfies a condition.\<close>

definition given_and :: "('a \<Rightarrow> bool) \<Rightarrow> 'a option \<Rightarrow> bool" where
  "given_and P x = (case x of None \<Rightarrow> False | Some v \<Rightarrow> P v)"

lemma given_and [simp]: "given_and P x \<longleftrightarrow> (\<exists>v. x = Some v \<and> P v)"
  by (simp add: given_and_def split: option.split)

text \<open>The change takes the role of an administrator away, or the account of an active user.\<close>

definition demotes :: "update_user_command \<Rightarrow> user \<Rightarrow> bool" where
  "demotes cmd u \<longleftrightarrow>
    given_and (\<lambda>r. u_Role u = ''admin'' \<and> r \<noteq> ''admin'') (uuc_Role cmd) \<or>
    given_and (\<lambda>k. u_Status u = ''active'' \<and> k \<noteq> ''active'') (uuc_Status cmd)"

definition or_else :: "'a option \<Rightarrow> 'a \<Rightarrow> 'a" where
  "or_else x a = (case x of None \<Rightarrow> a | Some b \<Rightarrow> b)"

definition changed_user :: "env \<Rightarrow> int \<Rightarrow> update_user_command \<Rightarrow> user \<Rightarrow> user" where
  "changed_user en expected cmd u =
    u\<lparr>u_DisplayName := (case uuc_DisplayName cmd of None \<Rightarrow> u_DisplayName u | Some v \<Rightarrow> trim_space v),
      u_Timezone := or_else (uuc_Timezone cmd) (u_Timezone u), u_Locale := or_else (uuc_Locale cmd) (u_Locale u),
      u_Role := or_else (uuc_Role cmd) (u_Role u), u_Status := or_else (uuc_Status cmd) (u_Status u),
      u_Revision := expected + 1, u_UpdatedAt := env_now en\<rparr>"

definition given :: "string \<Rightarrow> string option \<Rightarrow> (string \<times> string) list" where
  "given k v = (case v of None \<Rightarrow> [] | Some x \<Rightarrow> [(k, x)])"

definition user_changes :: "update_user_command \<Rightarrow> (string \<times> payload_value) list" where
  "user_changes cmd = [(''changes'', PFields (given ''DisplayName'' (uuc_DisplayName cmd) @ given ''Timezone'' (uuc_Timezone cmd) @
    given ''Locale'' (uuc_Locale cmd) @ given ''Role'' (uuc_Role cmd) @ given ''Status'' (uuc_Status cmd)))]"

definition find_row :: "('r \<Rightarrow> bool) \<Rightarrow> (store \<Rightarrow> 'r list) \<Rightarrow> store \<Rightarrow> 'r result" where
  "find_row P rows s = (case find P (rows s) of None \<Rightarrow> Inl ErrNotFound | Some r \<Rightarrow> Inr r)"

definition update_user_tx :: "env \<Rightarrow> user \<Rightarrow> id \<Rightarrow> int \<Rightarrow> update_user_command \<Rightarrow> unit tx" where
  "update_user_tx en actor k expected cmd =
    tx_bind (tx_try (find_row (\<lambda>u. u_ID u = k) s_users)) (\<lambda>u.
    tx_bind (tx_check (u_Revision u = expected) ErrRevision) (\<lambda>_.
    tx_bind (tx_read (other_active_admin k)) (\<lambda>other.
    tx_bind (tx_check (\<not> demotes cmd u \<or> other) ErrConflict) (\<lambda>_.
    tx_bind (tx_check (\<not> given_and (\<lambda>v. trim_space v = []) (uuc_DisplayName cmd)) ErrValidation) (\<lambda>_.
    tx_bind (if uuc_Status cmd = Some ''disabled'' then end_user_logins en k else tx_return 0) (\<lambda>_.
    tx_bind (tx_update s_users put_users (\<lambda>v. u_ID v = k \<and> u_Revision v = expected) (changed_user en expected cmd)) (\<lambda>n.
    tx_bind (tx_check (n = 1) ErrRevision) (\<lambda>_.
    auditAdmin en actor k ''user.updated'' (user_changes cmd)))))))))"

definition UpdateUser :: "account_library \<Rightarrow> env \<Rightarrow> user \<Rightarrow> id \<Rightarrow> int \<Rightarrow> update_user_command \<Rightarrow> user op" where
  "UpdateUser lib en actor k expected cmd =
    (let cmd = cmd\<lparr>uuc_Role := map_option (normalizeRole lib) (uuc_Role cmd)\<rparr>
     in if given_and (\<lambda>r. \<not> validRole r) (uuc_Role cmd) \<or>
           given_and (\<lambda>v. v \<noteq> ''active'' \<and> v \<noteq> ''disabled'') (uuc_Status cmd) \<or>
           given_and (\<lambda>z. env_zones en z = None) (uuc_Timezone cmd)
        then op_fail ErrValidation
        else op_bind (op_tx (update_user_tx en actor k expected cmd)) (\<lambda>_.
          op_tx (tx_try (\<lambda>s. first_row (filter (\<lambda>u. u_ID u = k) (s_users s))))))"

definition ResetUserPassword :: "account_library \<Rightarrow> env \<Rightarrow> string \<Rightarrow> user \<Rightarrow> id \<Rightarrow> string \<Rightarrow> unit tx" where
  "ResetUserPassword lib en salt actor k password =
    tx_bind (tx_try (\<lambda>_. case HashPassword lib salt password of Inl _ \<Rightarrow> Inl ErrValidation | Inr v \<Rightarrow> Inr v)) (\<lambda>encoded.
    tx_bind (tx_update s_users put_users (\<lambda>u. u_ID u = k)
      (\<lambda>u. u\<lparr>u_PasswordHash := encoded, u_Revision := u_Revision u + 1, u_UpdatedAt := env_now en\<rparr>)) (\<lambda>n.
    tx_bind (tx_check (n = 1) ErrNotFound) (\<lambda>_.
    tx_bind (end_user_logins en k) (\<lambda>_.
    auditAdmin en actor k ''user.password_reset'' [(''sessions_revoked'', PBool True)]))))"

definition RevokeUserSessions :: "env \<Rightarrow> user \<Rightarrow> id \<Rightarrow> unit tx" where
  "RevokeUserSessions en actor k =
    tx_bind (end_user_logins en k) (\<lambda>n. auditAdmin en actor k ''user.sessions_revoked'' [(''count'', PInt (int n))])"

subsection \<open>Model providers\<close>

record provider_command =
  pvc_Name :: string
  pvc_BaseURL :: string
  pvc_ModelName :: string
  pvc_TranscriptionModel :: string
  pvc_APIKey :: string
  pvc_Status :: string
  pvc_IsDefault :: bool

record update_provider_command =
  upc_Name :: "string option"
  upc_BaseURL :: "string option"
  upc_ModelName :: "string option"
  upc_TranscriptionModel :: "string option"
  upc_APIKey :: "string option"
  upc_Status :: "string option"
  upc_IsDefault :: "bool option"

definition put_providers :: "model_provider list \<Rightarrow> store \<Rightarrow> store" where
  "put_providers rows s = s\<lparr>s_providers := rows\<rparr>"

definition http_url :: "account_library \<Rightarrow> string \<Rightarrow> bool" where
  "http_url lib s = (case acl_url lib s of None \<Rightarrow> False | Some (scheme, host) \<Rightarrow> (scheme = ''http'' \<or> scheme = ''https'') \<and> host \<noteq> [])"

definition validateProviderCommand :: "account_library \<Rightarrow> provider_command \<Rightarrow> bool" where
  "validateProviderCommand lib cmd \<longleftrightarrow>
    trim_space (pvc_Name cmd) \<noteq> [] \<and> trim_space (pvc_ModelName cmd) \<noteq> [] \<and> trim_space (pvc_BaseURL cmd) \<noteq> [] \<and>
    http_url lib (trim_space (pvc_BaseURL cmd)) \<and> pvc_Status cmd \<in> {[], ''active'', ''disabled''}"

text \<open>The key is sealed and shown by its first and last letters.\<close>

definition encryptProviderKey :: "account_library \<Rightarrow> string \<Rightarrow> (string \<times> string) result" where
  "encryptProviderKey lib key =
    (let key = trim_space key
     in if length key < 12 then Inl ErrValidation
        else bind_r (acl_encrypt lib key) (\<lambda>c. Inr (c, take 4 key @ ''...'' @ drop (length key - 4) key)))"

definition clearDefaultProvider :: "env \<Rightarrow> bool \<Rightarrow> unit tx" where
  "clearDefaultProvider en clear =
    (if \<not> clear then tx_return ()
     else tx_bind (tx_update s_providers put_providers mdl_IsDefault (\<lambda>p. p\<lparr>mdl_IsDefault := False, mdl_UpdatedAt := env_now en\<rparr>)) (\<lambda>_. tx_return ()))"

definition create_provider :: "model_provider \<Rightarrow> unit tx" where
  "create_provider p =
    tx_bind (tx_read (\<lambda>s. \<exists>q \<in> set (s_providers s). mdl_ID q = mdl_ID p \<or> mdl_Name q = mdl_Name p)) (\<lambda>taken.
    tx_bind (tx_check (\<not> taken) ErrUnique) (\<lambda>_.
    tx_write (\<lambda>s. put_providers (s_providers s @ [p]) s)))"

definition CreateModelProvider :: "account_library \<Rightarrow> env \<Rightarrow> user \<Rightarrow> provider_command \<Rightarrow> model_provider tx" where
  "CreateModelProvider lib en actor cmd =
    tx_bind (tx_check (validateProviderCommand lib cmd) ErrValidation) (\<lambda>_.
    tx_bind (tx_try (\<lambda>_. encryptProviderKey lib (pvc_APIKey cmd))) (\<lambda>(ciphertext, hint).
    tx_bind (NewID en ''provider'') (\<lambda>k.
    let off = pvc_Status cmd = ''disabled'';
        p = \<lparr>mdl_ID = k, mdl_Name = trim_space (pvc_Name cmd), mdl_ProviderType = ''openai_compatible'', mdl_BaseURL = trim_right_slashes (pvc_BaseURL cmd),
          mdl_ModelName = trim_space (pvc_ModelName cmd), mdl_TranscriptionModel = trim_space (pvc_TranscriptionModel cmd),
          mdl_APIKeyCiphertext = ciphertext, mdl_APIKeyHint = hint, mdl_Status = (if off then ''disabled'' else ''active''),
          mdl_IsDefault = (pvc_IsDefault cmd \<and> \<not> off), mdl_Revision = 1, mdl_CreatedAt = env_now en, mdl_UpdatedAt = env_now en\<rparr>
    in tx_bind (clearDefaultProvider en (mdl_IsDefault p)) (\<lambda>_.
       tx_bind (unique_as ErrConflict (create_provider p)) (\<lambda>_.
       tx_bind (auditAdmin en actor [] ''model_provider.created'' [(''provider_id'', PText k), (''name'', PText (mdl_Name p)),
         (''is_default'', PBool (mdl_IsDefault p))]) (\<lambda>_. tx_return p))))))"

definition provider_edit_ok :: "account_library \<Rightarrow> update_provider_command \<Rightarrow> bool" where
  "provider_edit_ok lib cmd \<longleftrightarrow>
    \<not> given_and (\<lambda>v. trim_space v = []) (upc_Name cmd) \<and>
    \<not> given_and (\<lambda>v. \<not> http_url lib (trim_space v)) (upc_BaseURL cmd) \<and>
    \<not> given_and (\<lambda>v. trim_space v = []) (upc_ModelName cmd) \<and>
    \<not> given_and (\<lambda>v. v \<noteq> ''active'' \<and> v \<noteq> ''disabled'') (upc_Status cmd)"

definition new_key :: "account_library \<Rightarrow> update_provider_command \<Rightarrow> (string \<times> string) result" where
  "new_key lib cmd =
    (case upc_APIKey cmd of None \<Rightarrow> Inr ([], []) | Some key \<Rightarrow> if key = [] then Inr ([], []) else encryptProviderKey lib key)"

text \<open>A provider that is or becomes the default is made active, whatever status was asked for.\<close>

definition changed_provider ::
    "env \<Rightarrow> int \<Rightarrow> update_provider_command \<Rightarrow> string \<times> string \<Rightarrow> bool \<Rightarrow> model_provider \<Rightarrow> model_provider" where
  "changed_provider en expected cmd key isDefault p =
    p\<lparr>mdl_Name := (case upc_Name cmd of None \<Rightarrow> mdl_Name p | Some v \<Rightarrow> trim_space v),
      mdl_BaseURL := (case upc_BaseURL cmd of None \<Rightarrow> mdl_BaseURL p | Some v \<Rightarrow> trim_right_slashes (trim_space v)),
      mdl_ModelName := (case upc_ModelName cmd of None \<Rightarrow> mdl_ModelName p | Some v \<Rightarrow> trim_space v),
      mdl_TranscriptionModel := (case upc_TranscriptionModel cmd of None \<Rightarrow> mdl_TranscriptionModel p | Some v \<Rightarrow> trim_space v),
      mdl_APIKeyCiphertext := (if fst key = [] then mdl_APIKeyCiphertext p else fst key),
      mdl_APIKeyHint := (if fst key = [] then mdl_APIKeyHint p else snd key),
      mdl_Status := (if isDefault then ''active'' else or_else (upc_Status cmd) (mdl_Status p)),
      mdl_IsDefault := (if isDefault then True else if upc_IsDefault cmd \<noteq> None then False else mdl_IsDefault p),
      mdl_Revision := expected + 1, mdl_UpdatedAt := env_now en\<rparr>"

definition update_provider_tx :: "account_library \<Rightarrow> env \<Rightarrow> user \<Rightarrow> id \<Rightarrow> int \<Rightarrow> update_provider_command \<Rightarrow> unit tx" where
  "update_provider_tx lib en actor k expected cmd =
    tx_bind (tx_try (find_row (\<lambda>p. mdl_ID p = k) s_providers)) (\<lambda>p.
    tx_bind (tx_check (mdl_Revision p = expected) ErrRevision) (\<lambda>_.
    tx_bind (tx_check (provider_edit_ok lib cmd) ErrValidation) (\<lambda>_.
    tx_bind (tx_try (\<lambda>_. new_key lib cmd)) (\<lambda>key.
    let isDefault = or_else (upc_IsDefault cmd) (mdl_IsDefault p); p' = changed_provider en expected cmd key isDefault p
    in tx_bind (clearDefaultProvider en isDefault) (\<lambda>_.
       tx_bind (tx_read (\<lambda>s. \<exists>q \<in> set (s_providers s). mdl_ID q \<noteq> k \<and> mdl_Name q = mdl_Name p')) (\<lambda>taken.
       tx_bind (tx_check (\<not> taken) ErrUnique) (\<lambda>_.
       tx_bind (tx_update s_providers put_providers (\<lambda>q. mdl_ID q = k \<and> mdl_Revision q = expected) (changed_provider en expected cmd key isDefault)) (\<lambda>n.
       tx_bind (tx_check (n = 1) ErrRevision) (\<lambda>_.
       auditAdmin en actor [] ''model_provider.updated'' [(''provider_id'', PText k), (''changes'', PFields
         (given ''Name'' (upc_Name cmd) @ given ''BaseURL'' (upc_BaseURL cmd) @ given ''ModelName'' (upc_ModelName cmd) @
          given ''TranscriptionModel'' (upc_TranscriptionModel cmd) @ given ''Status'' (upc_Status cmd)))])))))))))"

definition reread_provider :: "id \<Rightarrow> model_provider op" where
  "reread_provider k = op_tx (tx_try (\<lambda>s. first_row (filter (\<lambda>p. mdl_ID p = k) (s_providers s))))"

definition UpdateModelProvider :: "account_library \<Rightarrow> env \<Rightarrow> user \<Rightarrow> id \<Rightarrow> int \<Rightarrow> update_provider_command \<Rightarrow> model_provider op" where
  "UpdateModelProvider lib en actor k expected cmd =
    op_bind (op_tx (update_provider_tx lib en actor k expected cmd)) (\<lambda>_. reread_provider k)"

definition activate_tx :: "env \<Rightarrow> user \<Rightarrow> id \<Rightarrow> unit tx" where
  "activate_tx en actor k =
    tx_bind (tx_try (find_row (\<lambda>p. mdl_ID p = k) s_providers)) (\<lambda>p.
    tx_bind (clearDefaultProvider en True) (\<lambda>_.
    tx_bind (tx_update s_providers put_providers (\<lambda>q. mdl_ID q = k)
      (\<lambda>q. q\<lparr>mdl_Status := ''active'', mdl_IsDefault := True, mdl_Revision := mdl_Revision p + 1, mdl_UpdatedAt := env_now en\<rparr>)) (\<lambda>n.
    tx_bind (tx_check (n = 1) ErrRevision) (\<lambda>_.
    auditAdmin en actor [] ''model_provider.activated'' [(''provider_id'', PText k)]))))"

definition ActivateModelProvider :: "env \<Rightarrow> user \<Rightarrow> id \<Rightarrow> model_provider op" where
  "ActivateModelProvider en actor k = op_bind (op_tx (activate_tx en actor k)) (\<lambda>_. reread_provider k)"

definition DeleteModelProvider :: "env \<Rightarrow> user \<Rightarrow> id \<Rightarrow> unit tx" where
  "DeleteModelProvider en actor k =
    tx_bind (tx_try (find_row (\<lambda>p. mdl_ID p = k) s_providers)) (\<lambda>p.
    tx_bind (tx_check (\<not> mdl_IsDefault p) ErrConflict) (\<lambda>_.
    tx_bind (tx_write (\<lambda>s. put_providers (filter (\<lambda>q. mdl_ID q \<noteq> mdl_ID p) (s_providers s)) s)) (\<lambda>_.
    auditAdmin en actor [] ''model_provider.deleted'' [(''provider_id'', PText k), (''name'', PText (mdl_Name p))])))"

text \<open>The provider the worker uses: the active default, then the active one changed last.\<close>

definition provider_before :: "model_provider \<Rightarrow> model_provider \<Rightarrow> bool" where
  "provider_before p q \<longleftrightarrow> mdl_IsDefault p \<and> \<not> mdl_IsDefault q \<or> mdl_IsDefault p = mdl_IsDefault q \<and> mdl_UpdatedAt p > mdl_UpdatedAt q"

fun first_provider :: "model_provider list \<Rightarrow> model_provider option" where
  "first_provider [] = None"
| "first_provider (p # ps) =
    (case first_provider ps of None \<Rightarrow> Some p | Some q \<Rightarrow> if provider_before q p then Some q else Some p)"

definition ActiveProviderRuntime :: "account_library \<Rightarrow> store \<Rightarrow> (model_provider \<times> string) option result" where
  "ActiveProviderRuntime lib s =
    (case first_provider (filter (\<lambda>p. mdl_Status p = ''active'') (s_providers s)) of
       None \<Rightarrow> Inr None
     | Some p \<Rightarrow> bind_r (acl_decrypt lib (mdl_APIKeyCiphertext p)) (\<lambda>key. Inr (Some (p, key))))"

end
