(* ===== verification/Account_Relations.thy ===== *)
theory Account_Relations
  imports Sign_On Administration Store_Relations
begin

text \<open>
  What the calls on accounts do to the sessions. The relation combines an invariant of the rows with what a later state
  can hold: no session that ended is active again, and a family without an active session gets none. It is an instance of
  the interface \<open>store_relation\<close>, so a call keeps it when its transactions do. Identifiers are never drawn twice: the
  calls share an injective sequence of UUIDs.
\<close>

subsection \<open>The invariant\<close>

definition live :: "login_session \<Rightarrow> bool" where
  "live l \<longleftrightarrow> ls_Status l = ''active''"

definition family_name :: "(nat \<Rightarrow> string) \<Rightarrow> nat \<Rightarrow> id" where
  "family_name uuid i = ''family_'' @ uuid i"

definition logins_unique :: "(nat \<Rightarrow> string) \<Rightarrow> store \<Rightarrow> bool" where
  "logins_unique uuid s \<longleftrightarrow>
    distinct (map ls_ID (s_logins s)) \<and>
    (\<forall>l \<in> set (s_logins s). \<exists>i < s_next s. ls_FamilyID l = family_name uuid i) \<and>
    (\<forall>l \<in> set (s_logins s). \<forall>r \<in> set (s_logins s). ls_FamilyID l = ls_FamilyID r \<longrightarrow>
      ls_UserID l = ls_UserID r \<and> (live l \<and> live r \<longrightarrow> l = r))"

definition active_user :: "store \<Rightarrow> id \<Rightarrow> bool" where
  "active_user s k \<longleftrightarrow> (\<exists>u \<in> set (s_users s). u_ID u = k \<and> u_Status u = ''active'')"

definition linked :: "store \<Rightarrow> login_session \<Rightarrow> bool" where
  "linked s l \<longleftrightarrow> (ls_AuthSource l = ''fastcas'' \<longrightarrow>
    (\<exists>k \<in> set (s_cas_links s). lk_ID k = ls_CasLinkID l \<and> lk_Issuer k = ls_CasIssuer l \<and> lk_UserID k = ls_UserID l \<and> lk_State k \<noteq> ''revoked''))"

definition account_ok :: "(nat \<Rightarrow> string) \<Rightarrow> store \<Rightarrow> bool" where
  "account_ok uuid s \<longleftrightarrow>
    distinct (map u_ID (s_users s)) \<and> distinct (map lk_ID (s_cas_links s)) \<and> logins_unique uuid s \<and>
    (\<forall>l \<in> set (s_logins s). live l \<longrightarrow> active_user s (ls_UserID l) \<and> linked s l)"

lemma logins_uniqueD:
  assumes "logins_unique uuid s"
  shows "distinct (map ls_ID (s_logins s))"
    and "l \<in> set (s_logins s) \<Longrightarrow> \<exists>i < s_next s. ls_FamilyID l = family_name uuid i"
    and "l \<in> set (s_logins s) \<Longrightarrow> r \<in> set (s_logins s) \<Longrightarrow> ls_FamilyID l = ls_FamilyID r \<Longrightarrow> ls_UserID l = ls_UserID r"
    and "l \<in> set (s_logins s) \<Longrightarrow> r \<in> set (s_logins s) \<Longrightarrow> ls_FamilyID l = ls_FamilyID r \<Longrightarrow> live l \<Longrightarrow> live r \<Longrightarrow> l = r"
  using assms unfolding logins_unique_def by blast+

text \<open>What an active session of a later state was before.\<close>

definition carried :: "store \<Rightarrow> store \<Rightarrow> bool" where
  "carried s s' \<longleftrightarrow>
    ls_ID ` set (s_logins s) \<subseteq> ls_ID ` set (s_logins s') \<and> ls_FamilyID ` set (s_logins s) \<subseteq> ls_FamilyID ` set (s_logins s') \<and>
    s_next s \<le> s_next s' \<and>
    (\<forall>l' \<in> set (s_logins s'). live l' \<longrightarrow>
      (ls_ID l' \<in> ls_ID ` set (s_logins s) \<longrightarrow> (\<exists>l \<in> set (s_logins s). live l \<and> ls_ID l = ls_ID l')) \<and>
      (ls_FamilyID l' \<in> ls_FamilyID ` set (s_logins s) \<longrightarrow> (\<exists>l \<in> set (s_logins s). live l \<and> ls_FamilyID l = ls_FamilyID l')))"

definition account_rel :: "(nat \<Rightarrow> string) \<Rightarrow> store \<Rightarrow> store \<Rightarrow> bool" where
  "account_rel uuid s s' \<longleftrightarrow> (account_ok uuid s \<longrightarrow> account_ok uuid s' \<and> carried s s')"

lemma carried_refl: "carried s s"
  by (auto simp: carried_def)

lemma carried_trans:
  assumes "carried s s1" and "carried s1 s2"
  shows "carried s s2"
proof -
  have "(ls_ID l \<in> ls_ID ` set (s_logins s) \<longrightarrow> (\<exists>r \<in> set (s_logins s). live r \<and> ls_ID r = ls_ID l)) \<and>
      (ls_FamilyID l \<in> ls_FamilyID ` set (s_logins s) \<longrightarrow> (\<exists>r \<in> set (s_logins s). live r \<and> ls_FamilyID r = ls_FamilyID l))"
    if l: "l \<in> set (s_logins s2)" "live l" for l
  proof (intro conjI impI)
    assume k: "ls_ID l \<in> ls_ID ` set (s_logins s)"
    have "ls_ID l \<in> ls_ID ` set (s_logins s1)" using k assms(1) unfolding carried_def by (meson subsetD)
    then obtain q where q: "q \<in> set (s_logins s1)" "live q" "ls_ID q = ls_ID l" using assms(2) l unfolding carried_def by blast
    with k have "ls_ID q \<in> ls_ID ` set (s_logins s)" by simp
    then show "\<exists>r \<in> set (s_logins s). live r \<and> ls_ID r = ls_ID l" using assms(1) q unfolding carried_def by metis
  next
    assume k: "ls_FamilyID l \<in> ls_FamilyID ` set (s_logins s)"
    have "ls_FamilyID l \<in> ls_FamilyID ` set (s_logins s1)" using k assms(1) unfolding carried_def by (meson subsetD)
    then obtain q where q: "q \<in> set (s_logins s1)" "live q" "ls_FamilyID q = ls_FamilyID l" using assms(2) l unfolding carried_def by blast
    with k have "ls_FamilyID q \<in> ls_FamilyID ` set (s_logins s)" by simp
    then show "\<exists>r \<in> set (s_logins s). live r \<and> ls_FamilyID r = ls_FamilyID l" using assms(1) q unfolding carried_def by metis
  qed
  then show ?thesis using assms unfolding carried_def by (meson order_trans)
qed

interpretation accounts: store_relation "account_rel uuid" for uuid
  by unfold_locales (auto simp: account_rel_def intro: carried_refl carried_trans)

subsection \<open>Steps\<close>

lemma account_rel_frame:
  assumes "s_users s' = s_users s" "s_logins s' = s_logins s" "s_cas_links s' = s_cas_links s" "s_next s \<le> s_next s'"
  shows "account_rel uuid s s'"
proof -
  have "logins_unique uuid s'" if "logins_unique uuid s"
    using that assms(4) unfolding logins_unique_def assms(2) by (meson order_less_le_trans)
  then show ?thesis
    using assms by (auto simp: account_rel_def account_ok_def carried_def active_user_def linked_def)
qed

text \<open>Sessions that only end: what identifies them and where they come from stays.\<close>

definition origin :: "login_session \<Rightarrow> id \<times> id \<times> id \<times> string \<times> string \<times> id" where
  "origin l = (ls_ID l, ls_FamilyID l, ls_UserID l, ls_AuthSource l, ls_CasIssuer l, ls_CasLinkID l)"

lemma update_sets: "set (update_rows P f rows) = (\<lambda>r. if P r then f r else r) ` set rows"
  by (simp add: update_rows_def)

lemma origin_update:
  assumes "\<And>l. origin (f l) = origin l"
  shows "map ls_ID (update_rows P f rows) = map ls_ID rows" and "map ls_FamilyID (update_rows P f rows) = map ls_FamilyID rows"
  using assms by (auto simp: update_rows_def origin_def)

lemma logins_end:
  assumes ok: "account_ok uuid s" and f: "\<And>l. origin (f l) = origin l" "\<And>l. l \<in> set (s_logins s) \<Longrightarrow> P l \<Longrightarrow> live (f l) \<Longrightarrow> live l"
    and s': "s_logins s' = update_rows P f (s_logins s)" "s_users s' = s_users s" "s_cas_links s' = s_cas_links s" "s_next s' = s_next s"
  shows "account_ok uuid s' \<and> carried s s'"
proof -
  define g where "g = (\<lambda>l. if P l then f l else l)"
  have rows: "set (s_logins s') = g ` set (s_logins s)" using s'(1) by (simp add: update_sets g_def)
  have g: "origin (g l) = origin l" for l using f(1) by (simp add: g_def)
  have glive: "live (g l) \<Longrightarrow> live l" if "l \<in> set (s_logins s)" for l using f(2) that by (simp add: g_def split: if_splits)
  have eqs: "ls_ID (g l) = ls_ID l" "ls_FamilyID (g l) = ls_FamilyID l" "ls_UserID (g l) = ls_UserID l" "linked s (g l) = linked s l" for l
    using g [of l] by (simp_all add: origin_def linked_def)
  have u: "logins_unique uuid s" using ok by (simp add: account_ok_def)
  have "logins_unique uuid s'"
    unfolding logins_unique_def rows
  proof (intro conjI ballI impI)
    show "distinct (map ls_ID (s_logins s'))" using u origin_update(1) [of f P, OF f(1)] by (simp add: s'(1) logins_unique_def)
    show "\<exists>i < s_next s'. ls_FamilyID l = family_name uuid i" if "l \<in> g ` set (s_logins s)" for l
      using that u s'(4) by (auto simp: logins_unique_def eqs)
    fix l r assume l: "l \<in> g ` set (s_logins s)" and r: "r \<in> g ` set (s_logins s)" and same: "ls_FamilyID l = ls_FamilyID r"
    obtain l0 r0 where 0: "l0 \<in> set (s_logins s)" "l = g l0" "r0 \<in> set (s_logins s)" "r = g r0" using l r by blast
    have family: "ls_FamilyID l0 = ls_FamilyID r0" using same 0 by (simp add: eqs)
    show "ls_UserID l = ls_UserID r" using logins_uniqueD(3) [OF u 0(1,3) family] 0 by (simp add: eqs)
    assume "live l \<and> live r"
    then have "l0 = r0" using 0 glive logins_uniqueD(4) [OF u 0(1,3) family] by blast
    then show "l = r" using 0 by simp
  qed
  moreover have "active_user s' (ls_UserID l) \<and> linked s' l" if l: "l \<in> set (s_logins s')" "live l" for l
  proof -
    obtain l0 where "l0 \<in> set (s_logins s)" "l = g l0" using l(1) rows by blast
    moreover have "linked s' (g l0) = linked s l0" "active_user s' = active_user s"
      using s' eqs(4) [of l0] by (simp_all add: linked_def active_user_def fun_eq_iff)
    ultimately show ?thesis using l(2) glive ok by (auto simp: account_ok_def eqs)
  qed
  moreover have "carried s s'"
    unfolding carried_def rows using s'(4) glive by (auto simp: image_image eqs)
  ultimately show ?thesis using ok s' by (simp add: account_ok_def)
qed

text \<open>A new session, of a new family or of one that has no active session.\<close>

lemma logins_add:
  assumes ok: "account_ok uuid s" and inj: "inj uuid"
    and l: "live l" "ls_ID l \<notin> ls_ID ` set (s_logins s)" "active_user s (ls_UserID l)" "linked s l"
    and family: "ls_FamilyID l = family_name uuid i" "i < s_next s'" "\<And>r. r \<in> set (s_logins s) \<Longrightarrow> ls_FamilyID r = ls_FamilyID l \<Longrightarrow> \<not> live r \<and> ls_UserID r = ls_UserID l"
    and s': "s_logins s' = s_logins s @ [l]" "s_users s' = s_users s" "s_cas_links s' = s_cas_links s" "s_next s \<le> s_next s'"
  shows "account_ok uuid s'"
proof -
  have u: "logins_unique uuid s" using ok by (simp add: account_ok_def)
  have "logins_unique uuid s'"
    unfolding logins_unique_def s'(1)
  proof (intro conjI ballI impI)
    show "distinct (map ls_ID (s_logins s @ [l]))" using u l(2) by (simp add: logins_unique_def)
    show "\<exists>i < s_next s'. ls_FamilyID r = family_name uuid i" if "r \<in> set (s_logins s @ [l])" for r
    proof (cases "r = l")
      case False
      then have "r \<in> set (s_logins s)" using that by simp
      then show ?thesis using logins_uniqueD(2) [OF u] s'(4) by (meson order_less_le_trans)
    qed (use family in blast)
    fix r q assume r: "r \<in> set (s_logins s @ [l])" "q \<in> set (s_logins s @ [l])" "ls_FamilyID r = ls_FamilyID q"
    have old: "r \<in> set (s_logins s) \<or> r = l" "q \<in> set (s_logins s) \<or> q = l" using r by auto
    show "ls_UserID r = ls_UserID q" using old logins_uniqueD(3) [OF u _ _ r(3)] family(3) r(3) by metis
    assume "live r \<and> live q"
    then show "r = q" using old logins_uniqueD(4) [OF u _ _ r(3)] family(3) r(3) by metis
  qed
  then show ?thesis using ok l s' by (auto simp: account_ok_def active_user_def linked_def)
qed

lemma fresh_family:
  assumes "account_ok uuid s" "inj uuid" "s_next s \<le> i" "r \<in> set (s_logins s)"
  shows "ls_FamilyID r \<noteq> family_name uuid i"
proof -
  from assms(1,4) obtain j where "j < s_next s" "ls_FamilyID r = family_name uuid j" unfolding account_ok_def logins_unique_def by blast
  then show ?thesis using assms(2,3) by (auto simp: family_name_def dest: injD)
qed

subsection \<open>Ending sessions\<close>

lemma ending_within:
  assumes "\<And>l. origin (f l) = origin l" "\<And>l. live (f l) \<Longrightarrow> live l"
  shows "tx_within (account_rel uuid) (update_logins P f)"
  unfolding update_logins_def
proof (rule accounts.within_update)
  fix s
  show "account_rel uuid s (put_logins (update_rows P f (s_logins s)) s)"
    unfolding account_rel_def using assms by (intro impI logins_end [of uuid s f P]) (auto simp: put_logins_def)
qed

lemma revoked_origin [simp]: "origin (revoked_login en l) = origin l" "\<not> live (revoked_login en l)"
  by (simp_all add: origin_def revoked_login_def live_def)

lemma ends_within: "tx_within (account_rel uuid) (update_logins P (revoked_login en))" "tx_within (account_rel uuid) (Logout en k)"
    "tx_within (account_rel uuid) (end_user_logins en k)" "tx_within (account_rel uuid) (end_logins en Q)"
proof -
  show "tx_within (account_rel uuid) (update_logins P (revoked_login en))" for P by (rule ending_within) simp_all
  note revoke = this
  show "tx_within (account_rel uuid) (Logout en k)" "tx_within (account_rel uuid) (end_user_logins en k)"
      "tx_within (account_rel uuid) (end_logins en Q)"
    unfolding Logout_def end_user_logins_def end_logins_def by (intro accounts.within_combine revoke)+
qed

lemma revoke_rel: "account_rel uuid s (put_logins (update_rows P (revoked_login en) (s_logins s)) s)"
  using tx_withinD [OF ends_within(1) [of uuid P en], of s] by (auto simp: update_logins_def tx_update_Inr)

text \<open>What touches neither users, sessions nor links.\<close>

lemma frame_within:
  "(\<And>s a s'. m s = Inr (a, s') \<Longrightarrow> s_users s' = s_users s \<and> s_logins s' = s_logins s \<and> s_cas_links s' = s_cas_links s \<and> s_next s \<le> s_next s')
    \<Longrightarrow> tx_within (account_rel uuid) m"
  unfolding tx_within_def using account_rel_frame by blast

lemma frames_within: "tx_within (account_rel uuid) (NewID en p)" "tx_within (account_rel uuid) (auditAdmin en actor k action detail)"
    "tx_within (account_rel uuid) (casAudit en k action link)" "tx_within (account_rel uuid) (issueAccess lib cfg en u k)"
    "tx_within (account_rel uuid) (new_event en issuer k)" "tx_within (account_rel uuid) (tx_write (\<lambda>s. put_cas_events (h s) s))"
    "tx_within (account_rel uuid) (create_mapping m)" "tx_within (account_rel uuid) (tx_update s_research put_research P f)"
  by (rule frame_within, auto simp: auditAdmin_def casAudit_def issueAccess_def new_event_def create_mapping_def tx_update_Inr go_simps
    put_cas_events_def put_research_def split: if_splits)+

subsection \<open>Signing in\<close>

lemma create_login_Inr:
  "create_login l s = Inr (u, s') \<longleftrightarrow> (\<forall>r \<in> set (s_logins s). ls_ID r \<noteq> ls_ID l \<and> ls_RefreshHash r \<noteq> ls_RefreshHash l) \<and>
    s' = s\<lparr>s_logins := s_logins s @ [l]\<rparr>"
  by (auto simp: create_login_def put_logins_def go_simps)

lemma open_session_rel:
  assumes opened: "open_session lib cfg en fresh k f s = Inr (l, s')" and en: "env_uuid en = uuid" "inj uuid"
    and f: "\<And>l. ls_ID (f l) = ls_ID l \<and> ls_FamilyID (f l) = ls_FamilyID l \<and> ls_UserID (f l) = ls_UserID l \<and> ls_Status (f l) = ls_Status l"
    and user: "active_user s k" and link: "\<And>l. ls_UserID l = k \<Longrightarrow> ls_AuthSource l = [] \<Longrightarrow> linked s (f l)"
  shows "account_rel uuid s s'" and "live l" "ls_UserID l = k" "ls_ID l \<notin> ls_ID ` set (s_logins s)" "s_logins s' = s_logins s @ [l]"
proof -
  from opened have l: "ls_FamilyID l = family_name uuid (Suc (s_next s))" "ls_UserID l = k" "live l" "ls_ID l \<notin> ls_ID ` set (s_logins s)" "linked s l"
      and s': "s_logins s' = s_logins s @ [l]" "s_users s' = s_users s" "s_cas_links s' = s_cas_links s" "s_next s' = Suc (Suc (s_next s))"
    using f link by (auto simp: open_session_def go_simps Let_def create_login_Inr en family_name_def live_def)
  then show "live l" "ls_UserID l = k" "ls_ID l \<notin> ls_ID ` set (s_logins s)" "s_logins s' = s_logins s @ [l]" by auto
  show "account_rel uuid s s'"
    unfolding account_rel_def
  proof
    assume ok: "account_ok uuid s"
    have fresh: "ls_FamilyID r \<noteq> ls_FamilyID l" if "r \<in> set (s_logins s)" for r
      using fresh_family [OF ok en(2) _ that, of "Suc (s_next s)"] l(1) by simp
    have "account_ok uuid s'"
      by (rule logins_add [OF ok en(2) l(3,4) _ l(5) l(1), of s']) (use user l s' fresh in auto)
    moreover have "carried s s'"
    proof -
      have "ls_FamilyID l \<notin> ls_FamilyID ` set (s_logins s)" using fresh by force
      then show ?thesis using l(4) s' by (auto simp: carried_def)
    qed
    ultimately show "account_ok uuid s' \<and> carried s s'" by simp
  qed
qed

subsection \<open>Rotation\<close>

definition rotated_out :: "account_library \<Rightarrow> env \<Rightarrow> string \<Rightarrow> login_session \<Rightarrow> login_session" where
  "rotated_out lib en fresh r = r\<lparr>ls_Status := ''rotated'', ls_ReplacedByHash := acl_hash lib fresh, ls_UpdatedAt := env_now en\<rparr>"

definition pointed :: "account_library \<Rightarrow> string \<Rightarrow> login_session \<Rightarrow> login_session" where
  "pointed lib fresh r = r\<lparr>ls_ReplacedByHash := acl_hash lib fresh\<rparr>"

definition successor_of :: "account_library \<Rightarrow> account_config \<Rightarrow> env \<Rightarrow> string \<Rightarrow> nat \<Rightarrow> login_session \<Rightarrow> login_session" where
  "successor_of lib cfg en fresh n l =
    l\<lparr>ls_ID := ''session_'' @ env_uuid en n, ls_RefreshHash := acl_hash lib fresh, ls_ReplacedByHash := [], ls_Status := ''active'',
      ls_ExpiresAt := env_now en + acf_RefreshTTL cfg, ls_CreatedAt := env_now en, ls_UpdatedAt := env_now en\<rparr>"

lemma update_snoc: "\<not> P r \<Longrightarrow> update_rows P f (xs @ [r]) = update_rows P f xs @ [r]"
  by (simp add: update_rows_def)

text \<open>The rows after a rotation: the successor stands behind the old rows, of which one or two were written.\<close>

lemma rotate_Inr:
  assumes "rotate lib cfg en fresh p l s = Inr (l', s')" and "p \<in> set (s_logins s)" "l \<in> set (s_logins s)"
  shows "l' = successor_of lib cfg en fresh (s_next s) l" and "ls_ID l' \<notin> ls_ID ` set (s_logins s)"
    and "ls_RefreshHash l' \<notin> ls_RefreshHash ` set (s_logins s)" and "s_users s' = s_users s" "s_cas_links s' = s_cas_links s" "s_next s' = Suc (s_next s)"
    and "s_logins s' = update_rows (\<lambda>r. p \<noteq> l \<and> ls_ID r = ls_ID p) (pointed lib fresh)
      (update_rows (\<lambda>r. ls_ID r = ls_ID l) (rotated_out lib en fresh) (s_logins s)) @ [l']"
proof -
  have made: "l' = successor_of lib cfg en fresh (s_next s) l" "\<forall>r \<in> set (s_logins s). ls_ID r \<noteq> ls_ID l' \<and> ls_RefreshHash r \<noteq> ls_RefreshHash l'"
      and s': "s_users s' = s_users s \<and> s_cas_links s' = s_cas_links s \<and> s_next s' = Suc (s_next s) \<and>
        s_logins s' = update_rows (\<lambda>r. p \<noteq> l \<and> ls_ID r = ls_ID p) (pointed lib fresh)
          (update_rows (\<lambda>r. ls_ID r = ls_ID l) (rotated_out lib en fresh) (s_logins s @ [l']))"
    using assms(1)
    by (auto simp: rotate_def go_simps Let_def create_login_Inr update_logins_def tx_update_Inr put_logins_def successor_of_def
      pointed_def rotated_out_def update_rows_def split: if_splits)
  then show "l' = successor_of lib cfg en fresh (s_next s) l" "s_users s' = s_users s" "s_cas_links s' = s_cas_links s" "s_next s' = Suc (s_next s)"
    by auto
  show "ls_ID l' \<notin> ls_ID ` set (s_logins s)" "ls_RefreshHash l' \<notin> ls_RefreshHash ` set (s_logins s)" using made(2) by force+
  have other: "ls_ID l' \<noteq> ls_ID l" "ls_ID l' \<noteq> ls_ID p" using made(2) assms(2,3) by metis+
  then have "update_rows (\<lambda>r. ls_ID r = ls_ID l) (rotated_out lib en fresh) (s_logins s @ [l']) =
      update_rows (\<lambda>r. ls_ID r = ls_ID l) (rotated_out lib en fresh) (s_logins s) @ [l']" by (simp add: update_snoc)
  with s' other show "s_logins s' = update_rows (\<lambda>r. p \<noteq> l \<and> ls_ID r = ls_ID p) (pointed lib fresh)
      (update_rows (\<lambda>r. ls_ID r = ls_ID l) (rotated_out lib en fresh) (s_logins s)) @ [l']" by (simp add: update_snoc)
qed

lemma rotate_rel:
  assumes made: "rotate lib cfg en fresh p l s = Inr (l', s')" and p: "p \<in> set (s_logins s)" and l: "l \<in> set (s_logins s)" "live l"
    and inj: "inj uuid" and user: "active_user s (ls_UserID l)"
  shows "account_rel uuid s s'"
  unfolding account_rel_def
proof
  assume ok: "account_ok uuid s"
  note rows = rotate_Inr [OF made p l(1)]
  define s1 where "s1 = put_logins (update_rows (\<lambda>r. ls_ID r = ls_ID l) (rotated_out lib en fresh) (s_logins s)) s"
  define s2 where "s2 = put_logins (update_rows (\<lambda>r. p \<noteq> l \<and> ls_ID r = ls_ID p) (pointed lib fresh) (s_logins s1)) s1"
  have u: "logins_unique uuid s" using ok by (simp add: account_ok_def)
  have 1: "account_ok uuid s1 \<and> carried s s1"
    by (rule logins_end [OF ok, of "rotated_out lib en fresh" "\<lambda>r. ls_ID r = ls_ID l"])
      (auto simp: s1_def put_logins_def rotated_out_def origin_def live_def)
  have 2: "account_ok uuid s2 \<and> carried s1 s2"
    by (rule logins_end [of uuid s1 "pointed lib fresh" "\<lambda>r. p \<noteq> l \<and> ls_ID r = ls_ID p"])
      (use 1 in \<open>auto simp: s2_def put_logins_def pointed_def origin_def live_def\<close>)
  have same: "s_users s2 = s_users s" "s_cas_links s2 = s_cas_links s" "s_next s2 = s_next s" "s_logins s' = s_logins s2 @ [l']"
    using rows(7) by (simp_all add: s2_def s1_def put_logins_def)
  have ids: "ls_ID ` set (s_logins s2) = ls_ID ` set (s_logins s)"
    using origin_update(1) [of "pointed lib fresh"] origin_update(1) [of "rotated_out lib en fresh"]
    by (simp add: s2_def s1_def put_logins_def pointed_def rotated_out_def origin_def flip: set_map)
  have l': "live l'" "ls_UserID l' = ls_UserID l" "ls_FamilyID l' = ls_FamilyID l" and linked: "linked s2 l' = linked s l"
    using rows(1) same by (simp_all add: successor_of_def live_def linked_def)
  have dead: "\<not> live r \<and> ls_UserID r = ls_UserID l'" if r: "r \<in> set (s_logins s2)" "ls_FamilyID r = ls_FamilyID l'" for r
  proof -
    obtain q where q: "q \<in> set (s_logins s)" "ls_FamilyID r = ls_FamilyID q" "ls_UserID r = ls_UserID q" "live r \<longrightarrow> live q \<and> ls_ID q \<noteq> ls_ID l"
      using r(1) by (auto simp: s2_def s1_def put_logins_def update_sets pointed_def rotated_out_def live_def split: if_splits)
    have family: "ls_FamilyID q = ls_FamilyID l" using q(2) r(2) l'(3) by simp
    then have "\<not> live r" using q(1,4) l logins_uniqueD(4) [OF u q(1) l(1)] by blast
    then show ?thesis using logins_uniqueD(3) [OF u q(1) l(1) family] q(3) l'(2) by simp
  qed
  obtain i where i: "i < s_next s" "ls_FamilyID l' = family_name uuid i" using logins_uniqueD(2) [OF u l(1)] l'(3) by auto
  have "account_ok uuid s'"
  proof (rule logins_add [OF _ inj l'(1) _ _ _ i(2)])
    show "account_ok uuid s2" using 2 by simp
    show "active_user s2 (ls_UserID l')" using user l' same by (simp add: active_user_def)
    show "linked s2 l'" using ok l linked by (simp add: account_ok_def)
  qed (use rows(2,4-6) same ids dead i(1) in auto)
  moreover have "carried s s'"
  proof -
    have old: "carried s s2" using 1 2 carried_trans by blast
    have "ls_ID l' \<notin> ls_ID ` set (s_logins s)" by (rule rows(2))
    then show ?thesis using old l l' same(4) rows(6) same(3) unfolding carried_def by auto
  qed
  ultimately show "account_ok uuid s' \<and> carried s s'" by simp
qed

text \<open>The session a refresh replaces: the one the token names, or its successor within the grace.\<close>

lemma grace_successor:
  assumes "refreshGraceSuccessor en p s = Some r"
  shows "r \<in> set (s_logins s)" "live r" "ls_FamilyID r = ls_FamilyID p" "ls_RefreshHash r = ls_ReplacedByHash p" "ls_Status p = ''rotated''"
  using assms by (auto simp: refreshGraceSuccessor_def live_def find_Some_iff split: if_splits)

lemma refresh_Some:
  assumes "refresh_tx lib cfg en fresh token s = Inr (Some (u, l'), s')"
  obtains p l where "p \<in> set (s_logins s)" "ls_RefreshHash p = acl_hash lib token" "l \<in> set (s_logins s)" "live l"
    "ls_FamilyID l = ls_FamilyID p" "l = p \<or> refreshGraceSuccessor en p s = Some l" "\<not> ls_ExpiresAt l < env_now en"
    "u \<in> set (s_users s)" "u_ID u = ls_UserID l" "u_Status u = ''active''" "rotate lib cfg en fresh p l s = Inr (l', s')"
proof -
  from assms obtain p where p: "find (\<lambda>r. ls_RefreshHash r = acl_hash lib token) (s_logins s) = Some p"
    by (auto simp: refresh_tx_def go_simps split: option.splits)
  define l where "l = (case refreshGraceSuccessor en p s of None \<Rightarrow> p | Some r \<Rightarrow> r)"
  have p': "p \<in> set (s_logins s)" "ls_RefreshHash p = acl_hash lib token" using p by (auto simp: find_Some_iff)
  have l: "live l" "\<not> ls_ExpiresAt l < env_now en"
    and u: "first_row (filter (\<lambda>u. u_ID u = ls_UserID l) (s_users s)) = Inr u" "u_Status u = ''active''"
    and r: "rotate lib cfg en fresh p l s = Inr (l', s')"
    using assms p by (auto simp: refresh_tx_def go_simps Let_def l_def [symmetric] live_def split: if_splits)
  have "u \<in> set (s_users s)" "u_ID u = ls_UserID l"
    using u(1) by (auto simp: first_row_def split: list.splits dest!: arg_cong [of "filter _ _" _ set])
  moreover have "l \<in> set (s_logins s)" "ls_FamilyID l = ls_FamilyID p" "l = p \<or> refreshGraceSuccessor en p s = Some l"
    using p'(1) grace_successor [of en p s] by (auto simp: l_def split: option.splits)
  ultimately show ?thesis using that p' l u r by blast
qed

lemma refresh_None:
  assumes "refresh_tx lib cfg en fresh token s = Inr (None, s')"
  obtains p where "p \<in> set (s_logins s)" "ls_RefreshHash p = acl_hash lib token"
    "s' = put_logins (update_rows (\<lambda>r. ls_FamilyID r = ls_FamilyID p) (revoked_login en) (s_logins s)) s"
proof -
  from assms obtain p where p: "find (\<lambda>r. ls_RefreshHash r = acl_hash lib token) (s_logins s) = Some p"
    by (auto simp: refresh_tx_def go_simps split: option.splits)
  define l where "l = (case refreshGraceSuccessor en p s of None \<Rightarrow> p | Some r \<Rightarrow> r)"
  have "s' = put_logins (update_rows (\<lambda>r. ls_FamilyID r = ls_FamilyID l) (revoked_login en) (s_logins s)) s"
    using assms p by (auto simp: refresh_tx_def go_simps Let_def l_def [symmetric] update_logins_def tx_update_Inr split: if_splits)
  moreover have "ls_FamilyID l = ls_FamilyID p" using grace_successor [of en p s] by (auto simp: l_def split: option.splits)
  moreover have "p \<in> set (s_logins s)" "ls_RefreshHash p = acl_hash lib token" using p by (auto simp: find_Some_iff)
  ultimately show ?thesis using that [of p] by simp
qed

lemma refresh_within:
  assumes "inj uuid"
  shows "tx_within (account_rel uuid) (refresh_tx lib cfg en fresh token)"
  unfolding tx_within_def
proof (intro allI impI)
  fix s r s'
  assume refresh: "refresh_tx lib cfg en fresh token s = Inr (r, s')"
  show "account_rel uuid s s'"
  proof (cases r)
    case None
    then have "refresh_tx lib cfg en fresh token s = Inr (None, s')" using refresh by simp
    then show ?thesis by (rule refresh_None) (simp add: revoke_rel)
  next
    case (Some x)
    then have "refresh_tx lib cfg en fresh token s = Inr (Some (fst x, snd x), s')" using refresh by simp
    then show ?thesis
    proof (rule refresh_Some)
      fix p l
      assume p: "p \<in> set (s_logins s)" and l: "l \<in> set (s_logins s)" "live l" and u: "fst x \<in> set (s_users s)" "u_ID (fst x) = ls_UserID l"
        "u_Status (fst x) = ''active''" and made: "rotate lib cfg en fresh p l s = Inr (snd x, s')"
      show ?thesis by (rule rotate_rel [OF made p l assms]) (use u in \<open>auto simp: active_user_def\<close>)
    qed
  qed
qed

subsection \<open>Users\<close>

lemma create_user_Inr:
  "create_user u s = Inr (x, s') \<longleftrightarrow> (\<forall>v \<in> set (s_users s). u_ID v \<noteq> u_ID u \<and> u_Identifier v \<noteq> u_Identifier u) \<and>
    s' = s\<lparr>s_users := s_users s @ [u]\<rparr>"
  by (auto simp: create_user_def put_users_def go_simps)

text \<open>A change of the users alone, after which the owner of every active session is still active.\<close>

lemma users_rel:
  assumes same: "s_logins s' = s_logins s" "s_cas_links s' = s_cas_links s" "s_next s' = s_next s"
    and ids: "distinct (map u_ID (s_users s)) \<Longrightarrow> distinct (map u_ID (s_users s'))"
    and kept: "\<And>l. l \<in> set (s_logins s) \<Longrightarrow> live l \<Longrightarrow> active_user s (ls_UserID l) \<Longrightarrow> active_user s' (ls_UserID l)"
  shows "account_rel uuid s s'"
proof -
  have "logins_unique uuid s' = logins_unique uuid s" by (simp only: logins_unique_def same)
  moreover have "linked s' = linked s" by (simp only: linked_def [abs_def] same)
  moreover have "carried s s'" by (simp only: carried_def same) blast
  ultimately show ?thesis using ids kept by (simp add: account_rel_def account_ok_def same)
qed

lemma create_user_within: "tx_within (account_rel uuid) (create_user u)"
  unfolding tx_within_def create_user_Inr
proof (intro allI impI, elim conjE)
  fix s s' :: store and a :: unit
  assume "\<forall>v \<in> set (s_users s). u_ID v \<noteq> u_ID u \<and> u_Identifier v \<noteq> u_Identifier u" and s': "s' = s\<lparr>s_users := s_users s @ [u]\<rparr>"
  then have "u_ID u \<notin> u_ID ` set (s_users s)" by force
  then show "account_rel uuid s s'" by (intro users_rel) (auto simp: s' active_user_def)
qed

lemma users_update_rel:
  assumes f: "\<And>v. u_ID (f v) = u_ID v"
    and kept: "\<And>v l. v \<in> set (s_users s) \<Longrightarrow> P v \<Longrightarrow> u_Status v = ''active'' \<Longrightarrow> l \<in> set (s_logins s) \<Longrightarrow> live l \<Longrightarrow>
      ls_UserID l = u_ID v \<Longrightarrow> u_Status (f v) = ''active''"
  shows "account_rel uuid s (put_users (update_rows P f (s_users s)) s)"
proof (rule users_rel)
  let ?t = "put_users (update_rows P f (s_users s)) s"
  have "map u_ID (update_rows P f (s_users s)) = map u_ID (s_users s)" using f by (simp add: update_rows_def)
  then show "distinct (map u_ID (s_users s)) \<Longrightarrow> distinct (map u_ID (s_users ?t))" by (simp add: put_users_def)
  fix l assume l: "l \<in> set (s_logins s)" "live l" and "active_user s (ls_UserID l)"
  then obtain v where v: "v \<in> set (s_users s)" "u_ID v = ls_UserID l" "u_Status v = ''active''" by (auto simp: active_user_def)
  let ?w = "if P v then f v else v"
  have "?w \<in> set (s_users ?t)" using v(1) by (simp add: put_users_def update_sets)
  moreover have "u_ID ?w = ls_UserID l" "u_Status ?w = ''active''" using v f kept [OF v(1) _ v(3) l] by simp_all
  ultimately show "active_user ?t (ls_UserID l)" unfolding active_user_def by blast
qed (simp_all add: put_users_def)

lemma keep_status_within:
  "(\<And>v. u_ID (f v) = u_ID v \<and> u_Status (f v) = u_Status v) \<Longrightarrow> tx_within (account_rel uuid) (tx_update s_users put_users P f)"
  by (rule accounts.within_update, rule users_update_rel) simp_all

lemma administration_within: "tx_within (account_rel uuid) (EnsureAdmin lib cfg en salt)" "tx_within (account_rel uuid) (CreateUser lib en salt actor cc)"
    "tx_within (account_rel uuid) (ResetUserPassword lib en salt actor k password)" "tx_within (account_rel uuid) (RevokeUserSessions en actor k)"
proof -
  show "tx_within (account_rel uuid) (EnsureAdmin lib cfg en salt)"
    unfolding EnsureAdmin_def by (intro accounts.within_combine frames_within create_user_within)
  show "tx_within (account_rel uuid) (CreateUser lib en salt actor cc)"
    unfolding CreateUser_def Let_def by (intro accounts.within_combine frames_within create_user_within)
  show "tx_within (account_rel uuid) (ResetUserPassword lib en salt actor k password)"
    unfolding ResetUserPassword_def by (intro accounts.within_combine frames_within ends_within keep_status_within) simp
  show "tx_within (account_rel uuid) (RevokeUserSessions en actor k)"
    unfolding RevokeUserSessions_def by (intro accounts.within_combine frames_within ends_within)
qed

text \<open>A user is disabled only together with the sessions.\<close>

lemma end_user_logins_Inr:
  assumes "end_user_logins en k s = Inr (n, s')"
  shows "s_users s' = s_users s" and "l \<in> set (s_logins s') \<Longrightarrow> ls_UserID l = k \<Longrightarrow> \<not> live l"
proof -
  have s': "s' = put_logins (update_rows (\<lambda>l. ls_UserID l = k \<and> ls_Status l = ''active'') (revoked_login en) (s_logins s)) s"
    using assms by (simp add: end_user_logins_def update_logins_def tx_update_Inr)
  show "s_users s' = s_users s" unfolding s' by (simp add: put_logins_def)
  assume l: "l \<in> set (s_logins s')" and k: "ls_UserID l = k"
  have "l \<in> (\<lambda>r. if ls_UserID r = k \<and> ls_Status r = ''active'' then revoked_login en r else r) ` set (s_logins s)"
    using l unfolding s' by (simp add: put_logins_def update_sets)
  then obtain r where "l = (if ls_UserID r = k \<and> ls_Status r = ''active'' then revoked_login en r else r)"
    by (rule imageE) blast
  then show "\<not> live l" using k by (auto simp: live_def revoked_login_def split: if_splits)
qed

lemma update_user_within:
  assumes status: "\<And>v. uuc_Status cmd = Some v \<Longrightarrow> v = ''active'' \<or> v = ''disabled''"
  shows "tx_within (account_rel uuid) (update_user_tx en actor k expected cmd)"
proof -
  have step: "tx_within (account_rel uuid) (tx_bind (if uuc_Status cmd = Some ''disabled'' then end_user_logins en k else tx_return 0) (\<lambda>_.
      tx_bind (tx_update s_users put_users (\<lambda>v. u_ID v = k \<and> u_Revision v = expected) (changed_user en expected cmd)) (\<lambda>n. rest n)))"
    if rest: "\<And>n. tx_within (account_rel uuid) (rest n)" for rest :: "nat \<Rightarrow> unit tx"
    unfolding tx_within_def tx_bind_Inr
  proof (intro allI impI, elim exE conjE)
    fix s a s3 n s1 m s2
    assume first: "(if uuc_Status cmd = Some ''disabled'' then end_user_logins en k else tx_return 0) s = Inr (n, s1)"
      and second: "tx_update s_users put_users (\<lambda>v. u_ID v = k \<and> u_Revision v = expected) (changed_user en expected cmd) s1 = Inr (m, s2)"
      and last: "rest m s2 = Inr (a, s3)"
    have 1: "account_rel uuid s s1"
      using first tx_withinD [OF ends_within(3)] accounts.rel_refl by (auto simp: go_simps split: if_splits)
    have "account_rel uuid s1 (put_users (update_rows (\<lambda>v. u_ID v = k \<and> u_Revision v = expected) (changed_user en expected cmd) (s_users s1)) s1)"
    proof (rule users_update_rel)
      fix v :: user and l :: login_session
      assume v: "u_ID v = k \<and> u_Revision v = expected" "u_Status v = ''active''" and l: "l \<in> set (s_logins s1)" "live l" "ls_UserID l = u_ID v"
      have "uuc_Status cmd \<noteq> Some ''disabled''" using first l v end_user_logins_Inr(2) [of en k s n s1 l] by auto
      then show "u_Status (changed_user en expected cmd v) = ''active''" using v status by (auto simp: changed_user_def or_else_def split: option.splits)
    qed (simp add: changed_user_def)
    then have "account_rel uuid s1 s2" using second by (simp add: tx_update_Inr)
    with 1 tx_withinD [OF rest last] show "account_rel uuid s s3" by (blast intro: accounts.rel_trans)
  qed
  have rest: "tx_within (account_rel uuid) (tx_bind (tx_check (n = 1) ErrRevision) (\<lambda>_. auditAdmin en actor k ''user.updated'' (user_changes cmd)))" for n :: nat
    by (intro accounts.within_combine frames_within)
  show ?thesis unfolding update_user_tx_def
    by (rule accounts.within_bind accounts.within_basic step rest)+
qed

end
