(* ===== verification/Account_Calls.thy ===== *)
theory Account_Calls
  imports Account_Relations
begin

text \<open>
  The calls of \<open>Account_Relations\<close>, continued: links, the ways to sign in, and \<open>account_call\<close>, the step relation of
  every call that writes users, sessions or links. Each keeps \<open>account_rel\<close>.
\<close>

subsection \<open>Links\<close>

lemma links_rel:
  assumes same: "s_users s' = s_users s" "s_logins s' = s_logins s" "s_next s' = s_next s"
    and ids: "distinct (map lk_ID (s_cas_links s)) \<Longrightarrow> distinct (map lk_ID (s_cas_links s'))"
    and kept: "\<And>l. l \<in> set (s_logins s) \<Longrightarrow> live l \<Longrightarrow> linked s l \<Longrightarrow> linked s' l"
  shows "account_rel uuid s s'"
proof -
  have "logins_unique uuid s' = logins_unique uuid s" by (simp only: logins_unique_def same)
  moreover have "active_user s' = active_user s" by (simp only: active_user_def [abs_def] same)
  moreover have "carried s s'" by (simp only: carried_def same) blast
  ultimately show ?thesis using ids kept by (simp add: account_rel_def account_ok_def same)
qed

lemma create_link_within: "tx_within (account_rel uuid) (create_link l)"
  unfolding tx_within_def
proof (intro allI impI)
  fix s s' :: store and a :: unit
  assume "create_link l s = Inr (a, s')"
  then have new: "\<forall>r \<in> set (s_cas_links s). lk_ID r \<noteq> lk_ID l" and s': "s' = put_cas_links (s_cas_links s @ [l]) s"
    by (auto simp: create_link_def go_simps)
  have "lk_ID l \<notin> lk_ID ` set (s_cas_links s)" using new by force
  then show "account_rel uuid s s'" by (intro links_rel) (auto simp: s' put_cas_links_def linked_def)
qed

definition link_login :: "account_config \<Rightarrow> cas_remote \<Rightarrow> login_session \<Rightarrow> bool" where
  "link_login cfg l r \<longleftrightarrow> ls_AuthSource r = ''fastcas'' \<and> ls_CasIssuer r = acf_CASIssuer cfg \<and> ls_CasLinkID r = rl_ID l"

definition set_state :: "cas_remote \<Rightarrow> cas_link \<Rightarrow> cas_link" where
  "set_state l r = r\<lparr>lk_State := rl_State l, lk_Version := rl_Version l\<rparr>"

text \<open>The state of a link is written; with a revocation the sessions on it end.\<close>

lemma link_step:
  assumes ended: "rl_State l = ''revoked'' \<Longrightarrow> P = link_login cfg l"
  shows "account_rel uuid s (put_cas_links (update_rows (applied_link cfg l) (set_state l) (s_cas_links s))
    (put_logins (update_rows P (revoked_login en) (s_logins s)) s))" (is "account_rel uuid s ?t")
proof -
  let ?m = "put_logins (update_rows P (revoked_login en) (s_logins s)) s"
  have "account_rel uuid ?m ?t"
  proof (rule links_rel)
    show "distinct (map lk_ID (s_cas_links ?t))" if "distinct (map lk_ID (s_cas_links ?m))"
    proof -
      have "map lk_ID (update_rows (applied_link cfg l) (set_state l) (s_cas_links s)) = map lk_ID (s_cas_links s)"
        by (simp add: update_rows_def set_state_def)
      then show ?thesis using that by (simp add: put_cas_links_def put_logins_def)
    qed
    fix r assume r: "r \<in> set (s_logins ?m)" "live r" "linked ?m r"
    show "linked ?t r"
      unfolding linked_def
    proof
      assume cas: "ls_AuthSource r = ''fastcas''"
      then obtain k where k: "k \<in> set (s_cas_links s)" "lk_ID k = ls_CasLinkID r" "lk_Issuer k = ls_CasIssuer r" "lk_UserID k = ls_UserID r"
          "lk_State k \<noteq> ''revoked''"
        using r(3) by (auto simp: linked_def put_logins_def)
      let ?k = "if applied_link cfg l k then set_state l k else k"
      have "lk_State ?k \<noteq> ''revoked''"
      proof (cases "applied_link cfg l k \<and> rl_State l = ''revoked''")
        case True
        then have "link_login cfg l r" using k cas by (auto simp: link_login_def applied_link_def)
        moreover have "r \<in> (\<lambda>q. if P q then revoked_login en q else q) ` set (s_logins s)"
          using r(1) by (simp add: put_logins_def update_sets)
        then obtain q where "r = (if P q then revoked_login en q else q)" by (rule imageE) blast
        ultimately have False using r(2) ended True by (auto simp: live_def revoked_login_def split: if_splits)
        then show ?thesis ..
      qed (use k(5) in \<open>auto simp: set_state_def\<close>)
      moreover have "?k \<in> set (s_cas_links ?t)" using k(1) by (simp add: put_cas_links_def update_sets)
      moreover have "lk_ID ?k = ls_CasLinkID r" "lk_Issuer ?k = ls_CasIssuer r" "lk_UserID ?k = ls_UserID r"
        using k by (simp_all add: set_state_def)
      ultimately show "\<exists>k \<in> set (s_cas_links ?t). lk_ID k = ls_CasLinkID r \<and> lk_Issuer k = ls_CasIssuer r \<and> lk_UserID k = ls_UserID r \<and>
        lk_State k \<noteq> ''revoked''" by blast
    qed
  qed (simp_all add: put_cas_links_def put_logins_def)
  then show ?thesis using revoke_rel accounts.rel_trans by blast
qed

lemma link_within: "tx_within (account_rel uuid) (link_tx cfg en l)"
proof -
  have rest: "tx_within (account_rel uuid) (tx_bind (tx_write (\<lambda>s. put_cas_events (h s) s)) (\<lambda>_. casAudit en k action link))" for h k action link
    by (intro accounts.within_combine frames_within)
  show ?thesis
    unfolding tx_within_def
  proof (intro allI impI)
    fix s s' :: store and a :: unit
    let ?u = "update_rows (applied_link cfg l) (set_state l) (s_cas_links s)"
    let ?s1 = "put_cas_links ?u s"
    assume run: "link_tx cfg en l s = Inr (a, s')"
    show "account_rel uuid s s'"
    proof (cases "rows_affected (applied_link cfg l) (s_cas_links s) = 0")
      case True
      then have "?u = s_cas_links s" by (auto simp: rows_affected_def update_rows_def filter_empty_conv intro: map_idI)
      then have "s' = s" using run True by (simp add: link_tx_def go_simps tx_update_Inr put_cas_links_def flip: set_state_def)
      then show ?thesis by (simp add: accounts.rel_refl)
    next
      case False
      define m where "m = (if rl_State l = ''revoked'' then update_logins (link_login cfg l) (revoked_login en) else tx_return 0)"
      define r where "r = tx_bind (tx_write (\<lambda>s. put_cas_events (filter (\<lambda>e. \<not> ce_ProcessedAt e < env_now en - 30 * 24 * 3600 * second)
        (s_cas_events s)) s)) (\<lambda>_. casAudit en (rl_LocalRef l) (''fastcas.'' @ rl_State l) (rl_ID l))"
      have "link_tx cfg en l = tx_bind (tx_update s_cas_links put_cas_links (applied_link cfg l) (set_state l)) (\<lambda>n.
          if n = 0 then tx_return () else tx_bind (tx_check (link_state (rl_State l)) ErrOther) (\<lambda>_. tx_bind m (\<lambda>_. r)))"
        unfolding link_tx_def m_def r_def link_login_def [abs_def] set_state_def [abs_def] by simp
      then obtain n1 s1 where s1: "tx_update s_cas_links put_cas_links (applied_link cfg l) (set_state l) s = Inr (n1, s1)"
          and then1: "(if n1 = 0 then tx_return () else tx_bind (tx_check (link_state (rl_State l)) ErrOther) (\<lambda>_. tx_bind m (\<lambda>_. r))) s1 = Inr (a, s')"
        using run by (auto simp only: tx_bind_Inr)
      have "n1 \<noteq> 0" "s1 = ?s1" using s1 False by (simp_all add: tx_update_Inr)
      with then1 obtain u where "tx_bind (tx_check (link_state (rl_State l)) ErrOther) (\<lambda>_. tx_bind m (\<lambda>_. r)) ?s1 = Inr (u, s')" by simp
      then obtain n s2 where s2: "m ?s1 = Inr (n, s2)" and last: "r s2 = Inr (u, s')"
        by (auto simp only: tx_bind_Inr tx_check_Inr)
      define P where "P = (\<lambda>r. rl_State l = ''revoked'' \<and> link_login cfg l r)"
      have "s2 = put_cas_links ?u (put_logins (update_rows P (revoked_login en) (s_logins s)) s)"
        using s2 by (auto simp: m_def P_def update_logins_def tx_update_Inr put_cas_links_def put_logins_def update_rows_def tx_return_def split: if_splits)
      then have "account_rel uuid s s2" using link_step [of l P cfg] by (simp add: P_def)
      then show ?thesis using tx_withinD [OF rest last [unfolded r_def]] accounts.rel_trans by blast
    qed
  qed
qed

text \<open>Notices, and the preparation of a link.\<close>

lemma cas_within: "tx_within (account_rel uuid) (applyFastCASLink cfg en l k)" "tx_within (account_rel uuid) (ApplyFastCASNotification cfg en e)"
    "tx_within (account_rel uuid) (ApplyFastCASLogout cfg en k subject sid)" "tx_within (account_rel uuid) (prepare_tx cfg en p l)"
proof -
  show apply_link: "tx_within (account_rel uuid) (applyFastCASLink cfg en l k)" for l k
    unfolding applyFastCASLink_def by (intro accounts.within_combine frames_within link_within)
  show "tx_within (account_rel uuid) (ApplyFastCASNotification cfg en e)"
    by (cases e) (auto simp: ApplyFastCASNotification_def applyFastCASIdentityDisable_def
      intro!: accounts.within_combine frames_within ends_within apply_link)
  show "tx_within (account_rel uuid) (ApplyFastCASLogout cfg en k subject sid)"
    unfolding ApplyFastCASLogout_def by (intro accounts.within_combine frames_within ends_within)
  show "tx_within (account_rel uuid) (prepare_tx cfg en p l)"
    unfolding prepare_tx_def by (intro accounts.within_combine frames_within create_link_within)
qed

subsection \<open>Ways to sign in\<close>

lemma find_SomeD: "find P xs = Some x \<Longrightarrow> x \<in> set xs" "find P xs = Some x \<Longrightarrow> P x"
  by (auto simp: find_Some_iff)

lemma loginFastCAS_within:
  assumes en: "env_uuid en = uuid" "inj uuid"
  shows "tx_within (account_rel uuid) (loginFastCAS lib cfg en fresh ident l)"
  unfolding tx_within_def
proof (intro allI impI)
  fix s s' :: store and a
  let ?f = "\<lambda>r. r\<lparr>ls_AuthSource := ''fastcas'', ls_CasIssuer := ci_Issuer ident, ls_CasSID := ci_SessionID ident,
    ls_CasLinkID := rl_ID l, ls_CasLinkVersion := rl_Version l\<rparr>"
  assume "loginFastCAS lib cfg en fresh ident l s = Inr (a, s')"
  then obtain k u r s1 s2 access where found: "find (\<lambda>r. lk_ID r = rl_ID l \<and> lk_Issuer r = ci_Issuer ident \<and>
        lk_Subject r = ci_Subject ident \<and> lk_State r = ''active'' \<and> lk_Version r = rl_Version l \<and> lk_UserID r = rl_LocalRef l) (s_cas_links s) = Some k"
        "find (\<lambda>u. u_ID u = lk_UserID k \<and> u_Status u = ''active'') (s_users s) = Some u"
      and opened: "open_session lib cfg en fresh (lk_UserID k) ?f s = Inr (r, s1)"
      and access: "issueAccess lib cfg en u (ls_ID r) s1 = Inr (access, s2)" and audit: "casAudit en (lk_UserID k) ''fastcas.login'' (rl_ID l) s2 = Inr ((), s')"
    unfolding loginFastCAS_def by (auto simp: tx_bind_Inr tx_try_Inr split: option.splits)
  note k = find_SomeD [OF found(1)] and u = find_SomeD [OF found(2)]
  have "account_rel uuid s s1"
    by (rule open_session_rel(1) [OF opened en]) (use k u in \<open>auto simp: active_user_def linked_def\<close>)
  then show "account_rel uuid s s'"
    using tx_withinD [OF frames_within(4) access] tx_withinD [OF frames_within(3) audit] accounts.rel_trans by blast
qed

lemma new_member_within: "tx_within (account_rel uuid) (new_member en ident)" "tx_within (account_rel uuid) (known_member en ident m)"
proof -
  show "tx_within (account_rel uuid) (new_member en ident)"
    unfolding new_member_def Let_def by (intro accounts.within_combine frames_within create_user_within)
  show "tx_within (account_rel uuid) (known_member en ident m)"
    unfolding known_member_def Let_def by (intro accounts.within_combine frames_within keep_status_within) simp_all
qed

lemma member_active:
  "new_member en ident s = Inr (u, s') \<Longrightarrow> active_user s' (u_ID u)"
  "known_member en ident m s = Inr (u, s') \<Longrightarrow> active_user s' (u_ID u)"
proof -
  show "active_user s' (u_ID u)" if "new_member en ident s = Inr (u, s')"
    using that by (auto simp: new_member_def Let_def go_simps create_user_Inr create_mapping_def put_research_def active_user_def)
  assume "known_member en ident m s = Inr (u, s')"
  then obtain v s1 n where v: "first_row (filter (\<lambda>u. u_ID u = rsa_UserID m) (s_users s)) = Inr v" "u_Status v = ''active''"
      and first: "(if rid_Person ident \<noteq> [] \<and> u_DisplayName v \<noteq> rid_Person ident then tx_update s_users put_users (\<lambda>w. u_ID w = u_ID v)
        (\<lambda>w. w\<lparr>u_DisplayName := rid_Person ident, u_Revision := u_Revision v + 1, u_UpdatedAt := env_now en\<rparr>) else tx_return 0) s = Inr (n, s1)"
      and rest: "s_users s' = s_users s1" "u_ID u = u_ID v"
    unfolding known_member_def Let_def by (auto simp: tx_bind_Inr tx_try_Inr tx_check_Inr tx_update_Inr put_research_def)
  have "v \<in> set (s_users s)"
    using v(1) by (auto simp: first_row_def split: list.splits dest!: arg_cong [of "filter _ _" _ set])
  then have "active_user s (u_ID v)" using v(2) by (auto simp: active_user_def)
  moreover have "active_user s1 i" if active: "active_user s i" for i
  proof -
    obtain w where w: "w \<in> set (s_users s)" "u_ID w = i" "u_Status w = ''active''" using active unfolding active_user_def by blast
    obtain P f where f: "s_users s1 = update_rows P f (s_users s)" "\<And>x. u_ID (f x) = u_ID x \<and> u_Status (f x) = u_Status x"
    proof (cases "rid_Person ident \<noteq> [] \<and> u_DisplayName v \<noteq> rid_Person ident")
      case True
      with first show ?thesis
        by (intro that [of "\<lambda>w. u_ID w = u_ID v"
            "\<lambda>w. w\<lparr>u_DisplayName := rid_Person ident, u_Revision := u_Revision v + 1, u_UpdatedAt := env_now en\<rparr>"])
          (auto simp: tx_update_Inr put_users_def)
    next
      case False
      with first show ?thesis by (intro that [of "\<lambda>_. False" id]) (auto simp: update_rows_def)
    qed
    have "(if P w then f w else w) \<in> set (s_users s1)" using w(1) f(1) by (simp add: update_sets)
    moreover have "u_ID (if P w then f w else w) = i" "u_Status (if P w then f w else w) = ''active''" using w f(2) by simp_all
    ultimately show ?thesis unfolding active_user_def by blast
  qed
  ultimately show "active_user s' (u_ID u)" using rest by (simp add: active_user_def)
qed

lemma research_within:
  assumes en: "env_uuid en = uuid" "inj uuid"
  shows "tx_within (account_rel uuid) (research_tx lib cfg en fresh ident)"
  unfolding tx_within_def
proof (intro allI impI)
  fix s s' :: store and a
  assume "research_tx lib cfg en fresh ident s = Inr (a, s')"
  then obtain u l s1 where member: "(case find (\<lambda>r. rsa_AccountID r = rid_AccountID ident) (s_research s) of
        None \<Rightarrow> new_member en ident | Some m \<Rightarrow> known_member en ident m) s = Inr (u, s1)"
      and opened: "open_session lib cfg en fresh (u_ID u) (\<lambda>l. l\<lparr>ls_AuthSource := ''fastresearch''\<rparr>) s1 = Inr (l, s')"
    unfolding research_tx_def by (auto simp: tx_bind_Inr)
  have "account_rel uuid s s1" "active_user s1 (u_ID u)"
    using member tx_withinD [OF new_member_within(1)] tx_withinD [OF new_member_within(2)] member_active by (auto split: option.splits)
  moreover have "account_rel uuid s1 s'"
    by (rule open_session_rel(1) [OF opened en]) (use calculation(2) in \<open>auto simp: linked_def\<close>)
  ultimately show "account_rel uuid s s'" using accounts.rel_trans by blast
qed

lemma sign_in_within:
  assumes en: "env_uuid en = uuid" "inj uuid"
  shows "account_rel uuid s (snd (snd (Login lib cfg en order fresh client identifier password th s)))"
    and "op_within (account_rel uuid) (LoginFastResearch lib cfg en fresh exchange ticket)"
    and "op_within (account_rel uuid) (Refresh lib cfg en fresh token)"
proof -
  show "op_within (account_rel uuid) (LoginFastResearch lib cfg en fresh exchange ticket)"
    unfolding LoginFastResearch_def issueFastResearchSession_def Let_def
    by (intro accounts.within_combine frames_within research_within en)
  show "op_within (account_rel uuid) (Refresh lib cfg en fresh token)"
    unfolding Refresh_def by (intro accounts.within_combine frames_within refresh_within en)
  let ?rest = "\<lambda>u l. op_bind (op_tx (issueAccess lib cfg en u (ls_ID l))) (\<lambda>access. op_return (u, access, fresh))"
  have "account_rel uuid s (snd (op_bind (op_tx (open_session lib cfg en fresh (u_ID u) id)) (?rest u) s))"
    if u: "u \<in> set (s_users s)" "u_Status u = ''active''" for u
  proof (cases "open_session lib cfg en fresh (u_ID u) id s")
    case (Inl e)
    then show ?thesis by (simp add: op_bind_def op_tx_def accounts.rel_refl)
  next
    case (Inr x)
    obtain l s1 where x: "open_session lib cfg en fresh (u_ID u) id s = Inr (l, s1)" using Inr by (cases x) simp
    have "account_rel uuid s s1"
      by (rule open_session_rel(1) [OF x en]) (use u in \<open>auto simp: active_user_def linked_def\<close>)
    moreover have rest: "op_within (account_rel uuid) (?rest u l)" by (intro accounts.within_combine frames_within)
    have "snd (op_bind (op_tx (open_session lib cfg en fresh (u_ID u) id)) (?rest u) s) = snd (?rest u l s1)"
      using x by (simp add: op_bind_def [of "op_tx (open_session lib cfg en fresh (u_ID u) id)"] op_tx_def [of "open_session lib cfg en fresh (u_ID u) id"])
    ultimately show ?thesis using accounts.rel_trans [OF _ op_withinD [OF rest]] by simp
  qed
  then show "account_rel uuid s (snd (snd (Login lib cfg en order fresh client identifier password th s)))"
    unfolding Login_def Let_def by (auto simp: accounts.rel_refl find_Some_iff split_beta split: option.splits)
qed


subsection \<open>The calls\<close>

text \<open>The client of FastCAS writes only the rows of its transactions, through \<open>PutTransaction\<close> and \<open>TakeTransaction\<close>.\<close>

definition finish_law :: "cas_client \<Rightarrow> bool" where
  "finish_law c \<longleftrightarrow> (\<forall>callback binding k sid s. \<exists>rows. snd (cc_finish c callback binding k sid s) = put_cas_transactions rows s)"

lemma cas_login_within:
  assumes en: "env_uuid en = uuid" "inj uuid"
  shows "finish_law c \<Longrightarrow> op_within (account_rel uuid) (CompleteFastCAS lib c cfg en fresh callback binding p)"
    and "account_rel uuid s (snd (snd (UpdateFastCASLink lib c cfg en order client q k password revoke th s)))"
proof -
  have remote: "op_within (account_rel uuid) (op_remote r)" for r :: "'x result"
    unfolding op_remote_def by (intro accounts.within_combine)
  have finish: "op_within (account_rel uuid) (cc_finish c callback binding k sid)" if law: "finish_law c" for k sid
    unfolding op_within_def
  proof
    fix s
    obtain rows where "snd (cc_finish c callback binding k sid s) = put_cas_transactions rows s" using law unfolding finish_law_def by blast
    then show "account_rel uuid s (snd (cc_finish c callback binding k sid s))" by (simp add: account_rel_frame put_cas_transactions_def)
  qed
  show "op_within (account_rel uuid) (CompleteFastCAS lib c cfg en fresh callback binding p)" if "finish_law c"
    using that
    unfolding CompleteFastCAS_def settle_prepared_def
    by (intro accounts.within_combine remote finish cas_within loginFastCAS_within en)
  have "op_within (account_rel uuid) (op_bind (op_remote (cc_get c k)) (\<lambda>l.
      op_bind (if revoke then op_remote (cc_revoke c l)
        else if rl_State l = ''prepared'' then op_remote (cc_activate c k) else op_return l) (\<lambda>l.
      op_bind (op_tx (applyFastCASLink cfg en l [])) (\<lambda>_. op_return l))))"
    by (intro accounts.within_combine remote cas_within)
  then show "account_rel uuid s (snd (snd (UpdateFastCASLink lib c cfg en order client q k password revoke th s)))"
    by (auto simp: UpdateFastCASLink_def Let_def split_beta accounts.rel_refl op_within_def split: sum.splits)
qed

lemma UpdateUser_within: "op_within (account_rel uuid) (UpdateUser lib en actor k expected cmd)"
  unfolding UpdateUser_def Let_def by (intro accounts.within_combine update_user_within) auto

inductive account_call :: "(nat \<Rightarrow> string) \<Rightarrow> store \<Rightarrow> store \<Rightarrow> bool" for uuid where
  signs_in: "env_uuid en = uuid \<Longrightarrow> account_call uuid s (snd (snd (Login lib cfg en order fresh client identifier password th s)))"
| refreshes: "env_uuid en = uuid \<Longrightarrow> account_call uuid s (snd (Refresh lib cfg en fresh token s))"
| logs_out: "env_uuid en = uuid \<Longrightarrow> account_call uuid s (snd (op_tx (Logout en k) s))"
| signs_in_research: "env_uuid en = uuid \<Longrightarrow> account_call uuid s (snd (LoginFastResearch lib cfg en fresh exchange ticket s))"
| signs_in_cas: "env_uuid en = uuid \<Longrightarrow> finish_law c \<Longrightarrow> account_call uuid s (snd (CompleteFastCAS lib c cfg en fresh callback binding p s))"
| changes_link: "env_uuid en = uuid \<Longrightarrow>
    account_call uuid s (snd (snd (UpdateFastCASLink lib c cfg en order client q k password revoke th s)))"
| is_notified: "env_uuid en = uuid \<Longrightarrow> account_call uuid s (snd (op_tx (ApplyFastCASNotification cfg en event) s))"
| is_logged_out: "env_uuid en = uuid \<Longrightarrow> account_call uuid s (snd (op_tx (ApplyFastCASLogout cfg en k subject sid) s))"
| starts: "env_uuid en = uuid \<Longrightarrow> account_call uuid s (snd (op_tx (EnsureAdmin lib cfg en salt) s))"
| creates: "env_uuid en = uuid \<Longrightarrow> account_call uuid s (snd (op_tx (CreateUser lib en salt actor cc) s))"
| updates: "env_uuid en = uuid \<Longrightarrow> account_call uuid s (snd (UpdateUser lib en actor k expected cmd s))"
| resets: "env_uuid en = uuid \<Longrightarrow> account_call uuid s (snd (op_tx (ResetUserPassword lib en salt actor k password) s))"
| revokes: "env_uuid en = uuid \<Longrightarrow> account_call uuid s (snd (op_tx (RevokeUserSessions en actor k) s))"

lemma account_call_rel: "account_call uuid s s' \<Longrightarrow> inj uuid \<Longrightarrow> account_rel uuid s s'"
  by (induction rule: account_call.induct)
    (rule sign_in_within cas_login_within op_withinD [OF sign_in_within(2)] op_withinD [OF sign_in_within(3)]
      op_withinD [OF cas_login_within(1)] op_withinD [OF UpdateUser_within] op_withinD [OF accounts.within_op_tx]
      ends_within cas_within administration_within | assumption)+

lemma account_calls_rel:
  assumes "(account_call uuid)\<^sup>*\<^sup>* s s'" and inj: "inj uuid"
  shows "account_rel uuid s s'"
  using assms(1) by induction (blast intro: accounts.rel_refl accounts.rel_trans account_call_rel [OF _ inj])+

end
