(* ===== verification/Account_Properties.thy ===== *)
theory Account_Properties
  imports Account_Calls Sample_Data
begin

text \<open>
  What the calls on accounts guarantee. Sessions: a family has one active session, an active session has an active owner and a
  link that was not revoked, and what ended stays ended; a replaced refresh token that comes back late ends its family, and one that
  comes back within the grace is answered with a new session.
\<close>

subsection \<open>What ended stays ended\<close>

lemma carried_dead:
  assumes "carried s s'" and "distinct (map ls_ID (s_logins s))" and "l \<in> set (s_logins s)" "\<not> live l"
    and "r \<in> set (s_logins s')" "ls_ID r = ls_ID l"
  shows "\<not> live r"
proof
  assume "live r"
  moreover have "ls_ID r \<in> ls_ID ` set (s_logins s)" unfolding assms(6) using assms(3) by (rule imageI)
  ultimately obtain q where q: "q \<in> set (s_logins s)" "live q" "ls_ID q = ls_ID r" using assms(1,5) unfolding carried_def by meson
  then have "q = l" using assms(2,3,6) by (metis distinct_map inj_onD)
  then show False using q(2) assms(4) by simp
qed

lemma carried_dead_family:
  assumes "carried s s'" and "\<And>q. q \<in> set (s_logins s) \<Longrightarrow> ls_FamilyID q = family \<Longrightarrow> \<not> live q" and "family \<in> ls_FamilyID ` set (s_logins s)"
    and "r \<in> set (s_logins s')" "ls_FamilyID r = family"
  shows "\<not> live r"
proof
  assume "live r"
  moreover have "ls_FamilyID r \<in> ls_FamilyID ` set (s_logins s)" unfolding assms(5) by (rule assms(3))
  ultimately obtain q where "q \<in> set (s_logins s)" "live q" "ls_FamilyID q = ls_FamilyID r" using assms(1,4) unfolding carried_def by meson
  then show False using assms(2,5) by simp
qed

text \<open>The decisions about a user that end the sessions of the user.\<close>

inductive ends_access :: "id \<Rightarrow> store \<Rightarrow> store \<Rightarrow> bool" where
  revoked: "RevokeUserSessions en actor k s = Inr ((), s') \<Longrightarrow> ends_access k s s'"
| password_reset: "ResetUserPassword lib en salt actor k password s = Inr ((), s') \<Longrightarrow> ends_access k s s'"
| disabled: "UpdateUser lib en actor k expected cmd s = (Inr u, s') \<Longrightarrow> uuc_Status cmd = Some ''disabled'' \<Longrightarrow> ends_access k s s'"

lemma end_user_logins_rows:
  "end_user_logins en k s = Inr (n, s') \<Longrightarrow>
    s_logins s' = update_rows (\<lambda>l. ls_UserID l = k \<and> ls_Status l = ''active'') (revoked_login en) (s_logins s)"
  by (simp add: end_user_logins_def update_logins_def tx_update_Inr put_logins_def)

lemma auditAdmin_logins: "auditAdmin en actor k action detail s = Inr (a, s') \<Longrightarrow> s_logins s' = s_logins s"
  by (auto simp: auditAdmin_def go_simps)

lemma ends_access_rows:
  assumes "ends_access k s s'"
  obtains en where "s_logins s' = update_rows (\<lambda>l. ls_UserID l = k \<and> ls_Status l = ''active'') (revoked_login en) (s_logins s)"
  using assms
proof cases
  case (revoked en actor)
  then obtain n s1 where ended: "end_user_logins en k s = Inr (n, s1)"
      and audit: "auditAdmin en actor k ''user.sessions_revoked'' [(''count'', PInt (int n))] s1 = Inr ((), s')"
    unfolding RevokeUserSessions_def by (auto simp only: tx_bind_Inr)
  show ?thesis by (rule that) (simp add: auditAdmin_logins [OF audit] end_user_logins_rows [OF ended])
next
  case (password_reset lib en salt actor password)
  then obtain encoded m n s1 s2 where s1: "tx_update s_users put_users (\<lambda>u. u_ID u = k)
        (\<lambda>u. u\<lparr>u_PasswordHash := encoded, u_Revision := u_Revision u + 1, u_UpdatedAt := env_now en\<rparr>) s = Inr (m, s1)"
      and ended: "end_user_logins en k s1 = Inr (n, s2)" and audit: "auditAdmin en actor k ''user.password_reset'' [(''sessions_revoked'', PBool True)] s2 = Inr ((), s')"
    unfolding ResetUserPassword_def by (auto simp only: tx_bind_Inr tx_check_Inr tx_try_Inr)
  have "s_logins s1 = s_logins s" using s1 by (simp add: tx_update_Inr put_users_def)
  then show ?thesis by (intro that) (simp add: auditAdmin_logins [OF audit] end_user_logins_rows [OF ended])
next
  case (disabled lib en actor expected cmd u)
  let ?cmd = "cmd\<lparr>uuc_Role := map_option (normalizeRole lib) (uuc_Role cmd)\<rparr>"
  have "update_user_tx en actor k expected ?cmd s = Inr ((), s')"
    using disabled(1)
    by (auto simp: UpdateUser_def Let_def op_bind_def op_tx_def op_fail_def tx_try_def split: if_splits sum.splits)
  moreover have "(if uuc_Status ?cmd = Some ''disabled'' then end_user_logins en k else tx_return 0) = end_user_logins en k"
    using disabled(2) by simp
  ultimately obtain n m s1 s2 where ended: "end_user_logins en k s = Inr (n, s1)"
      and s2: "tx_update s_users put_users (\<lambda>v. u_ID v = k \<and> u_Revision v = expected) (changed_user en expected ?cmd) s1 = Inr (m, s2)"
      and audit: "auditAdmin en actor k ''user.updated'' (user_changes ?cmd) s2 = Inr ((), s')"
    unfolding update_user_tx_def by (auto simp only: tx_bind_Inr tx_check_Inr tx_try_Inr tx_simps sum.inject prod.inject)
  have "s_logins s2 = s_logins s1" using s2 by (simp add: tx_update_Inr put_users_def)
  then show ?thesis by (intro that) (simp add: auditAdmin_logins [OF audit] end_user_logins_rows [OF ended])
qed


subsection \<open>A sample\<close>

definition sample_library :: account_library where
  "sample_library = \<lparr>acl_hash = id, acl_lower = id, acl_argon = (\<lambda>password salt _ _ _ n. take n (password @ salt @ replicate n CHR ''x'')),
     acl_sign = (\<lambda>c. cl_SID c @ ''!'' @ cl_Subject c),
     acl_parse = (\<lambda>_ t. Some \<lparr>cl_Role = [], cl_SID = takeWhile (\<lambda>c. c \<noteq> CHR ''!'') t, cl_Subject = tl (dropWhile (\<lambda>c. c \<noteq> CHR ''!'') t),
       cl_ExpiresAt = 0, cl_IssuedAt = 0, cl_ID = []\<rparr>),
     acl_sign_service = (\<lambda>_. []), acl_parse_service = (\<lambda>_ _. None), acl_url = (\<lambda>_. None), acl_encrypt = Inr, acl_decrypt = Inr\<rparr>"

definition sample_account_config :: account_config where
  "sample_account_config = \<lparr>acf_RefreshTTL = 3600 * second, acf_AccessTTL = 60 * second, acf_FastResearchLogin = True, acf_SSOSecret = ''s'',
     acf_AdminIdentifier = ''root'', acf_AdminPassword = ''long enough!'', acf_AdminName = ''Root'', acf_CASIssuer = [], acf_CASClientID = []\<rparr>"

definition sample_uuid :: "nat \<Rightarrow> string" where
  "sample_uuid = env_uuid (sample_env 0)"

lemma sample_uuid: "inj sample_uuid" "env_uuid (sample_env t) = sample_uuid"
proof -
  show "env_uuid (sample_env t) = sample_uuid" by (simp add: sample_uuid_def sample_env_def)
  show "inj sample_uuid"
  proof (rule injI)
    fix m n assume "sample_uuid m = sample_uuid n"
    then have "length (sample_uuid m) = length (sample_uuid n)" by simp
    then show "m = n" by (simp add: sample_uuid_def sample_env_def)
  qed
qed

definition sample_sign_in :: "string \<Rightarrow> store \<Rightarrow> (user \<times> string \<times> string) result \<times> store" where
  "sample_sign_in fresh = LoginFastResearch sample_library sample_account_config (sample_env 0) fresh
     (\<lambda>_. Inr \<lparr>rid_AccountID = ''acc'', rid_KeyID = ''key'', rid_Person = ''P''\<rparr>) ''ticket-of-at-least-24-letters''"

definition sample_refresh :: "time \<Rightarrow> string \<Rightarrow> string \<Rightarrow> store \<Rightarrow> (user \<times> string \<times> string) result \<times> store" where
  "sample_refresh now = Refresh sample_library sample_account_config (sample_env now)"

definition signed_in :: store where "signed_in = snd (sample_sign_in ''r1'' empty_store)"
definition refreshed :: store where "refreshed = snd (sample_refresh second ''r2'' ''r1'' signed_in)"

lemma sample_calls: "account_call sample_uuid s (snd (sample_sign_in fresh s))" "account_call sample_uuid s (snd (sample_refresh now fresh token s))"
  unfolding sample_sign_in_def sample_refresh_def by (rule account_call.intros sample_uuid)+

lemma one_call: "(account_call sample_uuid)\<^sup>*\<^sup>* s (snd (sample_sign_in fresh s))"
    "(account_call sample_uuid)\<^sup>*\<^sup>* s (snd (sample_refresh now fresh token s))"
  by (rule r_into_rtranclp, rule sample_calls)+

lemma empty_account_ok: "account_ok uuid empty_store"
  by (simp add: account_ok_def logins_unique_def empty_store_def)

lemma refreshed_calls: "(account_call sample_uuid)\<^sup>*\<^sup>* empty_store signed_in" "(account_call sample_uuid)\<^sup>*\<^sup>* empty_store refreshed"
  using sample_calls unfolding signed_in_def refreshed_def by (blast intro: rtranclp.rtrancl_into_rtrancl rtranclp.rtrancl_refl)+

lemma sample_account_ok: "account_ok sample_uuid signed_in" "account_ok sample_uuid refreshed"
  using account_calls_rel [OF refreshed_calls(1) sample_uuid(1)] account_calls_rel [OF refreshed_calls(2) sample_uuid(1)] empty_account_ok
  by (simp_all add: account_rel_def)

subsection \<open>Properties\<close>



text \<open>C35. After an administrator revoked the sessions of a user, reset the password or disabled the user, whatever is called
  afterwards: an access token of a session from before is refused as invalid, and no session of that session's family is active,
  so that no refresh token of the family opens one again.\<close>

theorem ended_access_stays_ended:
  assumes ok: "account_ok uuid s" "inj uuid" and ended: "ends_access k s s1" and later: "(account_call uuid)\<^sup>*\<^sup>* s1 s2"
    and l: "l \<in> set (s_logins s)" "ls_UserID l = k"
    and token: "\<And>c. acl_parse lib (env_now en) (bearer_token token) = Some c \<Longrightarrow> cl_SID c = ls_ID l"
  shows "Authenticate lib en token s2 = Inl ErrInvalidToken \<and> (\<forall>r \<in> set (s_logins s2). ls_FamilyID r = ls_FamilyID l \<longrightarrow> \<not> live r)"
proof -
  from ended obtain en' where rows: "s_logins s1 = update_rows (\<lambda>l. ls_UserID l = k \<and> ls_Status l = ''active'') (revoked_login en') (s_logins s)"
    by (rule ends_access_rows)
  have calls: "account_rel uuid s s1" using ended
  proof cases
    case revoked
    then show ?thesis by (rule tx_withinD [OF administration_within(4)])
  next
    case password_reset
    from this(1) show ?thesis by (rule tx_withinD [OF administration_within(3)])
  next
    case (disabled lib en actor expected cmd u)
    then show ?thesis using op_withinD [OF UpdateUser_within, of uuid s lib en actor k expected cmd] by simp
  qed
  then have ok1: "account_ok uuid s1" using ok(1) by (simp add: account_rel_def)
  then have carried: "carried s1 s2" and unique: "logins_unique uuid s" "logins_unique uuid s1"
    using account_calls_rel [OF later ok(2)] ok(1) by (simp_all add: account_rel_def account_ok_def)
  define m where "m = (if ls_UserID l = k \<and> ls_Status l = ''active'' then revoked_login en' l else l)"
  have m: "m \<in> set (s_logins s1)" "\<not> live m" "ls_ID m = ls_ID l" "ls_FamilyID m = ls_FamilyID l"
    using l unfolding rows update_sets m_def by (auto simp: live_def revoked_login_def)
  have dead: "\<not> live q" if q: "q \<in> set (s_logins s1)" "ls_FamilyID q = ls_FamilyID l" for q
  proof -
    have "q \<in> (\<lambda>r. if ls_UserID r = k \<and> ls_Status r = ''active'' then revoked_login en' r else r) ` set (s_logins s)"
      using q(1) unfolding rows update_sets .
    then obtain r where r: "r \<in> set (s_logins s)" "q = (if ls_UserID r = k \<and> ls_Status r = ''active'' then revoked_login en' r else r)"
      by (rule imageE) blast
    then have "ls_FamilyID r = ls_FamilyID l" using q(2) by (auto simp: revoked_login_def split: if_splits)
    then have "ls_UserID r = k" using logins_uniqueD(3) [OF unique(1) r(1) l(1)] l(2) by simp
    then show ?thesis using r(2) by (auto simp: live_def revoked_login_def split: if_splits)
  qed
  have family: "\<not> live r" if "r \<in> set (s_logins s2)" "ls_FamilyID r = ls_FamilyID l" for r
  proof (rule carried_dead_family [OF carried dead _ that])
    show "ls_FamilyID l \<in> ls_FamilyID ` set (s_logins s1)" using imageI [OF m(1), of ls_FamilyID] m(4) by simp
  qed
  have "\<not> live r" if "r \<in> set (s_logins s2)" "ls_ID r = ls_ID l" for r
    using carried_dead [OF carried logins_uniqueD(1) [OF unique(2)] m(1,2) that(1)] that(2) m(3) by simp
  then have none: "filter (usable_login en (ls_ID l) u) (s_logins s2) = []" for u
    by (auto simp: filter_empty_conv usable_login_def live_def)
  have "Authenticate lib en token s2 = Inl ErrInvalidToken"
  proof (cases "acl_parse lib (env_now en) (bearer_token token)")
    case (Some c)
    then show ?thesis using token [OF Some] none by (simp add: Authenticate_def Let_def)
  qed (simp add: Authenticate_def Let_def)
  with family show ?thesis by blast
qed


definition sample_actor :: user where "sample_actor = sample_user\<lparr>u_ID := ''adm'', u_Role := ''admin''\<rparr>"
definition member_id :: id where "member_id = ls_UserID (hd (s_logins signed_in))"
definition signed_out :: store where "signed_out = snd (op_tx (RevokeUserSessions (sample_env second) sample_actor member_id) signed_in)"
definition member_token :: string where "member_token = ls_ID (hd (s_logins signed_in)) @ ''!'' @ member_id"

lemma ended_access_witness:
  "\<not> isl (Authenticate sample_library (sample_env second) member_token signed_in) \<and>
    Authenticate sample_library (sample_env second) member_token (snd (sample_sign_in ''r2'' signed_out)) = Inl ErrInvalidToken"
proof
  show "\<not> isl (Authenticate sample_library (sample_env second) member_token signed_in)" by code_simp
  let ?l = "hd (s_logins signed_in)"
  have l: "?l \<in> set (s_logins signed_in)" by (rule hd_in_set) code_simp
  have "RevokeUserSessions (sample_env second) sample_actor member_id signed_in = Inr ((), signed_out)"
    by (simp add: signed_out_def op_tx_def RevokeUserSessions_def end_user_logins_def update_logins_def tx_update_def auditAdmin_def
      tx_bind_def NewID_def)
  then have ended: "ends_access member_id signed_in signed_out" by (rule ends_access.revoked)
  have token: "cl_SID c = ls_ID ?l" if "acl_parse sample_library (env_now (sample_env second)) (bearer_token member_token) = Some c" for c
  proof -
    have "map_option cl_SID (acl_parse sample_library (env_now (sample_env second)) (bearer_token member_token)) = Some (ls_ID ?l)" by code_simp
    then show ?thesis using that by simp
  qed
  show "Authenticate sample_library (sample_env second) member_token (snd (sample_sign_in ''r2'' signed_out)) = Inl ErrInvalidToken"
    using ended_access_stays_ended [OF sample_account_ok(1) sample_uuid(1) ended one_call(1) l _ token]
    by (simp add: member_id_def)
qed

text \<open>C36. A refresh token that was replaced and is presented again more than thirty seconds later is refused as a reuse, and
  whatever is called afterwards, no session of its family is active again: the holder of the stolen token and the owner both have
  to sign in anew.\<close>

theorem reused_token_ends_family:
  assumes ok: "account_ok uuid s" "inj uuid"
    and p: "find (\<lambda>r. ls_RefreshHash r = acl_hash lib token) (s_logins s) = Some p" "ls_Status p = ''rotated''" "ls_ReplacedByHash p \<noteq> []"
    and late: "env_now en > ls_UpdatedAt p + 30 * second" and en: "env_uuid en = uuid"
    and later: "(account_call uuid)\<^sup>*\<^sup>* (snd (Refresh lib cfg en fresh token s)) s2"
  shows "fst (Refresh lib cfg en fresh token s) = Inl ErrTokenReuse \<and>
    (\<forall>r \<in> set (s_logins s2). ls_FamilyID r = ls_FamilyID p \<longrightarrow> \<not> live r)"
proof -
  let ?s1 = "put_logins (update_rows (\<lambda>r. ls_FamilyID r = ls_FamilyID p) (revoked_login en) (s_logins s)) s"
  have "refreshGraceSuccessor en p s = None" using late by (simp add: refreshGraceSuccessor_def refreshReuseGrace_def)
  then have "refresh_tx lib cfg en fresh token s = Inr (None, ?s1)"
    using p by (simp add: refresh_tx_def go_simps update_logins_def tx_update_Inr)
  then have step: "Refresh lib cfg en fresh token s = (Inl ErrTokenReuse, ?s1)"
    by (simp add: Refresh_def op_bind_def op_tx_def op_fail_def)
  have in_s: "p \<in> set (s_logins s)" using p(1) by (rule find_SomeD)
  have "account_rel uuid ?s1 s2" using later step by (intro account_calls_rel ok(2)) simp
  moreover have "account_rel uuid s ?s1" by (rule revoke_rel)
  ultimately have carried: "carried ?s1 s2" using ok(1) by (simp add: account_rel_def)
  have dead: "\<not> live q" if q: "q \<in> set (s_logins ?s1)" "ls_FamilyID q = ls_FamilyID p" for q
  proof -
    have "q \<in> (\<lambda>r. if ls_FamilyID r = ls_FamilyID p then revoked_login en r else r) ` set (s_logins s)"
      using q(1) by (simp add: put_logins_def update_sets)
    then obtain r where "q = (if ls_FamilyID r = ls_FamilyID p then revoked_login en r else r)" by (rule imageE) blast
    then show ?thesis using q(2) by (auto split: if_splits)
  qed
  have "ls_FamilyID ` set (s_logins s) \<subseteq> ls_FamilyID ` set (s_logins ?s1)"
    using \<open>account_rel uuid s ?s1\<close> ok(1) by (simp add: account_rel_def carried_def)
  then have "ls_FamilyID p \<in> ls_FamilyID ` set (s_logins ?s1)" using in_s by blast
  then have "\<not> live r" if "r \<in> set (s_logins s2)" "ls_FamilyID r = ls_FamilyID p" for r
    using carried_dead_family [OF carried dead _ that] by blast
  then show ?thesis by (simp add: step)
qed

lemma reused_token_witness:
  "fst (sample_refresh (40 * second) ''r3'' ''r1'' refreshed) = Inl ErrTokenReuse \<and>
    filter (\<lambda>r. ls_FamilyID r = ls_FamilyID (hd (s_logins refreshed)) \<and> live r)
      (s_logins (snd (sample_refresh (41 * second) ''r4'' ''r2'' (snd (sample_refresh (40 * second) ''r3'' ''r1'' refreshed))))) = []"
proof -
  let ?p = "hd (s_logins refreshed)"
  have p: "find (\<lambda>r. ls_RefreshHash r = acl_hash sample_library ''r1'') (s_logins refreshed) = Some ?p"
      "ls_Status ?p = ''rotated''" "ls_ReplacedByHash ?p \<noteq> []" "env_now (sample_env (40 * second)) > ls_UpdatedAt ?p + 30 * second"
    by code_simp+
  let ?s1 = "snd (Refresh sample_library sample_account_config (sample_env (40 * second)) ''r3'' ''r1'' refreshed)"
  have later: "(account_call sample_uuid)\<^sup>*\<^sup>* ?s1 (snd (sample_refresh (41 * second) ''r4'' ''r2'' ?s1))" by (rule one_call)
  show ?thesis
    using reused_token_ends_family [OF sample_account_ok(2) sample_uuid(1) p sample_uuid(2) later]
    by (simp add: sample_refresh_def filter_empty_conv)
qed

end
