(* ===== verification/Refresh_Properties.thy ===== *)
theory Refresh_Properties
  imports Account_Properties
begin

subsection \<open>A refresh whose answer was lost\<close>

lemma find_update_rows:
  "(\<And>r. P (f r) = P r) \<Longrightarrow> find P (update_rows Q f xs) = map_option (\<lambda>r. if Q r then f r else r) (find P xs)"
  by (induction xs) (auto simp: update_rows_def)

lemma find_snoc: "find P (xs @ [r]) = (case find P xs of None \<Rightarrow> if P r then Some r else None | Some x \<Rightarrow> Some x)"
  by (induction xs) auto

text \<open>A rotation takes place when the new identifier and the new hash are not used.\<close>

lemma rotate_returns:
  assumes "''session_'' @ env_uuid en (s_next s) \<notin> ls_ID ` set (s_logins s)" "acl_hash lib fresh \<notin> ls_RefreshHash ` set (s_logins s)"
  obtains s' where "rotate lib cfg en fresh p l s = Inr (successor_of lib cfg en fresh (s_next s) l, s')"
proof -
  have "\<exists>s'. rotate lib cfg en fresh p l s = Inr (successor_of lib cfg en fresh (s_next s) l, s')"
    using assms
    by (auto simp: rotate_def go_simps Let_def create_login_Inr update_logins_def tx_update_Inr successor_of_def image_iff)
  then show ?thesis using that by blast
qed

lemma Refresh_Inr:
  assumes "Refresh lib cfg en fresh token s = (Inr (u, access, t), s')"
  obtains l s1 where "refresh_tx lib cfg en fresh token s = Inr (Some (u, l), s1)" "t = fresh" "s_logins s' = s_logins s1" "s_users s' = s_users s1"
  using assms by (auto simp: Refresh_def op_bind_def op_tx_def op_fail_def op_return_def issueAccess_def go_simps NewID_def tx_bind_def
    split: sum.splits option.splits prod.splits)

lemma Refresh_returns:
  assumes "refresh_tx lib cfg en fresh token s = Inr (Some (u, l), s1)"
  obtains access s' where "Refresh lib cfg en fresh token s = (Inr (u, access, fresh), s')" "s_logins s' = s_logins s1"
  using assms by (auto simp: Refresh_def op_bind_def op_tx_def op_fail_def op_return_def issueAccess_def NewID_def tx_bind_def)

text \<open>The rows after the first refresh: the token names the row that was rotated out, and its successor stands last.\<close>

lemma after_refresh:
  assumes p: "find (\<lambda>r. ls_RefreshHash r = acl_hash lib token) (s_logins s) = Some p" "live p"
    and first: "refresh_tx lib cfg en fresh token s = Inr (Some (u, l), s1)"
  shows "find (\<lambda>r. ls_RefreshHash r = acl_hash lib token) (s_logins s1) = Some (rotated_out lib en fresh p)"
    and "find (\<lambda>r. ls_RefreshHash r = acl_hash lib fresh \<and> ls_FamilyID r = ls_FamilyID p \<and> ls_Status r = ''active'') (s_logins s1) = Some l"
    and "l = successor_of lib cfg en fresh (s_next s) p" "l \<in> set (s_logins s1)" "s_users s1 = s_users s"
    and "first_row (filter (\<lambda>u. u_ID u = ls_UserID p) (s_users s)) = Inr u" "u_Status u = ''active''"
proof -
  have none: "refreshGraceSuccessor en p s = None" using p(2) by (simp add: refreshGraceSuccessor_def live_def)
  have step: "rotate lib cfg en fresh p p s = Inr (l, s1)"
    and u: "first_row (filter (\<lambda>u. u_ID u = ls_UserID p) (s_users s)) = Inr u" "u_Status u = ''active''"
    using first p none by (auto simp: refresh_tx_def go_simps Let_def live_def split: if_splits)
  show "first_row (filter (\<lambda>u. u_ID u = ls_UserID p) (s_users s)) = Inr u" "u_Status u = ''active''" by (rule u)+
  have in_s: "p \<in> set (s_logins s)" using p(1) by (rule find_SomeD)
  note rows = rotate_Inr [OF step in_s in_s]
  have s1: "s_logins s1 = update_rows (\<lambda>r. ls_ID r = ls_ID p) (rotated_out lib en fresh) (s_logins s) @ [l]"
    using rows(7) by (simp add: update_rows_def)
  show "l = successor_of lib cfg en fresh (s_next s) p" "l \<in> set (s_logins s1)" "s_users s1 = s_users s" using rows(1,4) s1 by simp_all
  show "find (\<lambda>r. ls_RefreshHash r = acl_hash lib token) (s_logins s1) = Some (rotated_out lib en fresh p)"
    unfolding s1 find_snoc by (subst find_update_rows) (simp_all add: rotated_out_def p(1))
  have "find (\<lambda>r. ls_RefreshHash r = acl_hash lib fresh \<and> ls_FamilyID r = ls_FamilyID p \<and> ls_Status r = ''active'')
      (update_rows (\<lambda>r. ls_ID r = ls_ID p) (rotated_out lib en fresh) (s_logins s)) = None"
  proof (unfold find_None_iff, intro notI, elim exE conjE)
    fix r assume r: "r \<in> set (update_rows (\<lambda>r. ls_ID r = ls_ID p) (rotated_out lib en fresh) (s_logins s))" "ls_RefreshHash r = acl_hash lib fresh"
    then obtain q where "q \<in> set (s_logins s)" "ls_RefreshHash q = ls_RefreshHash r"
      by (auto simp: update_sets rotated_out_def split: if_splits)
    then show False using rows(1,3) r(2) by (force simp: successor_of_def)
  qed
  then show "find (\<lambda>r. ls_RefreshHash r = acl_hash lib fresh \<and> ls_FamilyID r = ls_FamilyID p \<and> ls_Status r = ''active'') (s_logins s1) = Some l"
    unfolding s1 find_snoc using rows(1) by (simp add: successor_of_def)
qed



end
