(* ===== verification/Administration_Properties.thy ===== *)
theory Administration_Properties
  imports Account_Properties
begin

text \<open>
  What administration guarantees: an active administrator remains, at most one model provider is the default, it is active and
  it is the one the worker uses, and a stored password hash accepts exactly the passwords with its key.
\<close>

subsection \<open>Administrators\<close>

definition has_admin :: "store \<Rightarrow> bool" where
  "has_admin s \<longleftrightarrow> (\<exists>u \<in> set (s_users s). u_Role u = ''admin'' \<and> u_Status u = ''active'')"

definition admin_rel :: "store \<Rightarrow> store \<Rightarrow> bool" where
  "admin_rel s s' \<longleftrightarrow> (distinct (map u_ID (s_users s)) \<and> has_admin s \<longrightarrow> distinct (map u_ID (s_users s')) \<and> has_admin s')"

interpretation admins: store_relation admin_rel
  by unfold_locales (auto simp: admin_rel_def)

lemma users_kept: "(\<And>s a s'. m s = Inr (a, s') \<Longrightarrow> s_users s' = s_users s) \<Longrightarrow> tx_within admin_rel m"
  by (simp add: tx_within_def admin_rel_def has_admin_def)

lemma users_kept_basic: "tx_within admin_rel (NewID en p)" "tx_within admin_rel (auditAdmin en actor k action detail)"
    "tx_within admin_rel (casAudit en k action link)" "tx_within admin_rel (issueAccess lib cfg en u k)"
    "tx_within admin_rel (new_event en issuer k)" "tx_within admin_rel (tx_write (\<lambda>s. put_cas_events (h s) s))"
    "tx_within admin_rel (create_mapping m)" "tx_within admin_rel (tx_update s_research put_research P f)"
    "tx_within admin_rel (update_logins Q g)" "tx_within admin_rel (create_login l)" "tx_within admin_rel (create_link r)"
    "tx_within admin_rel (tx_update s_cas_links put_cas_links R e)"
  by (rule users_kept, auto simp: auditAdmin_def casAudit_def issueAccess_def new_event_def create_mapping_def tx_update_Inr go_simps
    put_cas_events_def put_research_def update_logins_def put_logins_def create_login_def create_link_def put_cas_links_def split: if_splits)+

lemma users_kept_calls: "tx_within admin_rel (end_user_logins en k)" "tx_within admin_rel (end_logins en Q)" "tx_within admin_rel (Logout en k)"
    "tx_within admin_rel (open_session lib cfg en fresh k f)" "tx_within admin_rel (rotate lib cfg en fresh p l)"
    "tx_within admin_rel (link_tx cfg en r)"
  unfolding end_user_logins_def end_logins_def Logout_def open_session_def rotate_def link_tx_def Let_def
  by (intro admins.within_combine users_kept_basic)+

lemma admin_added: "tx_within admin_rel (create_user u)"
  unfolding tx_within_def create_user_Inr
proof (intro allI impI, elim conjE)
  fix s s' :: store and a :: unit
  assume "\<forall>v \<in> set (s_users s). u_ID v \<noteq> u_ID u \<and> u_Identifier v \<noteq> u_Identifier u" and s': "s' = s\<lparr>s_users := s_users s @ [u]\<rparr>"
  then have "u_ID u \<notin> u_ID ` set (s_users s)" by force
  then show "admin_rel s s'" by (auto simp: s' admin_rel_def has_admin_def)
qed

lemma admin_updated:
  assumes "\<And>v. u_ID (f v) = u_ID v \<and> u_Role (f v) = u_Role v \<and> u_Status (f v) = u_Status v"
  shows "tx_within admin_rel (tx_update s_users put_users P f)"
proof (rule admins.within_update)
  fix s
  let ?t = "put_users (update_rows P f (s_users s)) s"
  have "map u_ID (update_rows P f (s_users s)) = map u_ID (s_users s)" using assms by (simp add: update_rows_def)
  moreover have "has_admin ?t" if "has_admin s"
  proof -
    obtain u where u: "u \<in> set (s_users s)" "u_Role u = ''admin''" "u_Status u = ''active''" using \<open>has_admin s\<close> unfolding has_admin_def by blast
    let ?w = "if P u then f u else u"
    have "?w \<in> set (s_users ?t)" using u(1) by (simp add: put_users_def update_sets)
    moreover have "u_Role ?w = ''admin''" "u_Status ?w = ''active''" using u assms by simp_all
    ultimately show ?thesis unfolding has_admin_def by blast
  qed
  ultimately show "admin_rel s ?t" by (simp add: admin_rel_def put_users_def)
qed

text \<open>A change that takes an administrator away needs another one.\<close>

lemma update_user_keeps_admin: "tx_within admin_rel (update_user_tx en actor k expected cmd)"
  unfolding tx_within_def
proof (intro allI impI)
  fix s s' :: store and a :: unit
  let ?P = "\<lambda>v. u_ID v = k \<and> u_Revision v = expected" and ?f = "changed_user en expected cmd"
  assume run: "update_user_tx en actor k expected cmd s = Inr (a, s')"
  obtain u where u: "find (\<lambda>u. u_ID u = k) (s_users s) = Some u" and other: "demotes cmd u \<longrightarrow> other_active_admin k s"
      and rest: "tx_bind (if uuc_Status cmd = Some ''disabled'' then end_user_logins en k else tx_return 0) (\<lambda>_.
        tx_bind (tx_update s_users put_users ?P ?f) (\<lambda>n. tx_bind (tx_check (n = 1) ErrRevision) (\<lambda>_.
        auditAdmin en actor k ''user.updated'' (user_changes cmd)))) s = Inr (a, s')"
    using run unfolding update_user_tx_def
    by (auto simp only: tx_bind_Inr [of "tx_try _"] tx_bind_Inr [of "tx_check _ _"] tx_bind_Inr [of "tx_read _"] tx_check_Inr tx_try_Inr tx_simps
      sum.inject prod.inject find_row_def split: option.splits)
  obtain n m s1 s2 where "(if uuc_Status cmd = Some ''disabled'' then end_user_logins en k else tx_return 0) s = Inr (n, s1)"
      and s2: "tx_update s_users put_users ?P ?f s1 = Inr (m, s2)" and "auditAdmin en actor k ''user.updated'' (user_changes cmd) s2 = Inr (a, s')"
    using rest by (auto simp only: tx_bind_Inr tx_check_Inr)
  then have users: "s_users s' = update_rows ?P ?f (s_users s)"
    by (auto simp: tx_update_Inr put_users_def put_logins_def auditAdmin_def go_simps end_user_logins_def update_logins_def split: if_splits)
  have ids: "map u_ID (s_users s') = map u_ID (s_users s)" by (simp add: users update_rows_def changed_user_def)
  have "has_admin s'" if unique: "distinct (map u_ID (s_users s))" and admin: "has_admin s"
  proof -
    have stays: "v \<in> set (s_users s')" if "v \<in> set (s_users s)" "\<not> ?P v" for v
      using that by (force simp: users update_sets)
    from admin obtain w where w: "w \<in> set (s_users s)" "u_Role w = ''admin''" "u_Status w = ''active''" by (auto simp: has_admin_def)
    consider "\<not> ?P w" | "?P w" "demotes cmd u" | "?P w" "\<not> demotes cmd u" by blast
    then show ?thesis
    proof cases
      case 1
      with w stays show ?thesis by (auto simp: has_admin_def)
    next
      case 2
      then obtain v where "v \<in> set (s_users s)" "u_Role v = ''admin''" "u_Status v = ''active''" "u_ID v \<noteq> k"
        using other by (auto simp: other_active_admin_def)
      then show ?thesis using stays [of v] by (auto simp: has_admin_def)
    next
      case 3
      have "u \<in> set (s_users s)" "u_ID u = k" using find_SomeD [OF u] by simp_all
      then have "u = w" using unique w(1) 3(1) by (metis distinct_map inj_onD)
      then have "u_Role (?f w) = ''admin''" "u_Status (?f w) = ''active''"
        using w 3(2) by (auto simp: demotes_def changed_user_def or_else_def split: option.splits)
      moreover have "?f w \<in> set (s_users s')" using w(1) 3(1) by (force simp: users update_sets)
      ultimately show ?thesis by (auto simp: has_admin_def)
    qed
  qed
  then show "admin_rel s s'" using ids by (simp add: admin_rel_def)
qed


lemma members_kept: "tx_within admin_rel (new_member en ident)" "tx_within admin_rel (known_member en ident m)"
proof -
  show "tx_within admin_rel (new_member en ident)"
    unfolding new_member_def Let_def by (intro admins.within_combine users_kept_basic admin_added)
  show "tx_within admin_rel (known_member en ident m)"
    unfolding known_member_def Let_def by (intro admins.within_combine users_kept_basic admin_updated) simp_all
qed

lemma admin_sign_in: "admin_rel s (snd (snd (Login lib cfg en order fresh client identifier password th s)))"
    "op_within admin_rel (LoginFastResearch lib cfg en fresh exchange ticket)" "op_within admin_rel (Refresh lib cfg en fresh token)"
proof -
  show "op_within admin_rel (LoginFastResearch lib cfg en fresh exchange ticket)"
    unfolding LoginFastResearch_def issueFastResearchSession_def research_tx_def Let_def
    by (intro admins.within_combine users_kept_basic users_kept_calls members_kept)
  show "op_within admin_rel (Refresh lib cfg en fresh token)"
    unfolding Refresh_def refresh_tx_def Let_def by (intro admins.within_combine users_kept_basic users_kept_calls)
  have "op_within admin_rel (op_bind (op_tx (open_session lib cfg en fresh (u_ID u) id)) (\<lambda>l.
      op_bind (op_tx (issueAccess lib cfg en u (ls_ID l))) (\<lambda>access. op_return (u, access, fresh))))" for u
    by (intro admins.within_combine users_kept_basic users_kept_calls)
  then show "admin_rel s (snd (snd (Login lib cfg en order fresh client identifier password th s)))"
    unfolding Login_def Let_def by (auto simp: admins.rel_refl split_beta op_within_def split: option.splits)
qed

lemma admin_cas: "tx_within admin_rel (applyFastCASLink cfg en r k)" "tx_within admin_rel (ApplyFastCASNotification cfg en event)"
    "tx_within admin_rel (ApplyFastCASLogout cfg en k subject sid)" "tx_within admin_rel (loginFastCAS lib cfg en fresh ident r)"
    "tx_within admin_rel (prepare_tx cfg en p r)"
proof -
  show apply_link: "tx_within admin_rel (applyFastCASLink cfg en r k)" for r k
    unfolding applyFastCASLink_def by (intro admins.within_combine users_kept_basic users_kept_calls)
  show "tx_within admin_rel (ApplyFastCASNotification cfg en event)"
    by (cases event) (auto simp: ApplyFastCASNotification_def applyFastCASIdentityDisable_def
      intro!: admins.within_combine users_kept_basic users_kept_calls apply_link)
  show "tx_within admin_rel (ApplyFastCASLogout cfg en k subject sid)"
    unfolding ApplyFastCASLogout_def by (intro admins.within_combine users_kept_basic users_kept_calls)
  show "tx_within admin_rel (loginFastCAS lib cfg en fresh ident r)"
    unfolding loginFastCAS_def by (intro admins.within_combine users_kept_basic users_kept_calls)
  show "tx_within admin_rel (prepare_tx cfg en p r)"
    unfolding prepare_tx_def by (intro admins.within_combine users_kept_basic)
qed

lemma admin_cas_login: "finish_law c \<Longrightarrow> op_within admin_rel (CompleteFastCAS lib c cfg en fresh callback binding p)"
    "admin_rel s (snd (snd (UpdateFastCASLink lib c cfg en order client q k password revoke th s)))"
proof -
  have remote: "op_within admin_rel (op_remote r)" for r :: "'x result"
    unfolding op_remote_def by (intro admins.within_combine)
  have finish: "op_within admin_rel (cc_finish c callback binding k sid)" if law: "finish_law c" for k sid
    unfolding op_within_def
  proof
    fix s
    obtain rows where "snd (cc_finish c callback binding k sid s) = put_cas_transactions rows s" using law unfolding finish_law_def by blast
    then show "admin_rel s (snd (cc_finish c callback binding k sid s))" by (simp add: admin_rel_def has_admin_def put_cas_transactions_def)
  qed
  show "op_within admin_rel (CompleteFastCAS lib c cfg en fresh callback binding p)" if "finish_law c"
    using that unfolding CompleteFastCAS_def settle_prepared_def by (intro admins.within_combine remote finish admin_cas)
  have "op_within admin_rel (op_bind (op_remote (cc_get c k)) (\<lambda>l.
      op_bind (if revoke then op_remote (cc_revoke c l)
        else if rl_State l = ''prepared'' then op_remote (cc_activate c k) else op_return l) (\<lambda>l.
      op_bind (op_tx (applyFastCASLink cfg en l [])) (\<lambda>_. op_return l))))"
    by (intro admins.within_combine remote admin_cas)
  then show "admin_rel s (snd (snd (UpdateFastCASLink lib c cfg en order client q k password revoke th s)))"
    by (auto simp: UpdateFastCASLink_def Let_def split_beta admins.rel_refl op_within_def split: sum.splits)
qed

lemma admin_administration: "tx_within admin_rel (EnsureAdmin lib cfg en salt)" "tx_within admin_rel (CreateUser lib en salt actor cc)"
    "tx_within admin_rel (ResetUserPassword lib en salt actor k password)" "tx_within admin_rel (RevokeUserSessions en actor k)"
    "op_within admin_rel (UpdateUser lib en actor k expected cmd)"
proof -
  show "tx_within admin_rel (EnsureAdmin lib cfg en salt)"
    unfolding EnsureAdmin_def by (intro admins.within_combine users_kept_basic admin_added)
  show "tx_within admin_rel (CreateUser lib en salt actor cc)"
    unfolding CreateUser_def Let_def by (intro admins.within_combine users_kept_basic admin_added)
  show "tx_within admin_rel (ResetUserPassword lib en salt actor k password)"
    unfolding ResetUserPassword_def by (intro admins.within_combine users_kept_basic users_kept_calls admin_updated) simp
  show "tx_within admin_rel (RevokeUserSessions en actor k)"
    unfolding RevokeUserSessions_def by (intro admins.within_combine users_kept_basic users_kept_calls)
  show "op_within admin_rel (UpdateUser lib en actor k expected cmd)"
    unfolding UpdateUser_def Let_def by (intro admins.within_combine update_user_keeps_admin)
qed

lemma account_call_admin: "account_call uuid s s' \<Longrightarrow> admin_rel s s'"
  by (induction rule: account_call.induct)
    (rule admin_sign_in admin_cas_login op_withinD [OF admin_sign_in(2)] op_withinD [OF admin_sign_in(3)]
      op_withinD [OF admin_cas_login(1)] op_withinD [OF admin_administration(5)] op_withinD [OF admins.within_op_tx]
      users_kept_calls admin_cas admin_administration | assumption)+

text \<open>C38. No sequence of calls takes the last active administrator away: signing in through a service, renaming, changing roles,
  disabling and resetting passwords leave a user with the role of an administrator whose account is active.\<close>

theorem an_administrator_remains:
  assumes "(account_call uuid)\<^sup>*\<^sup>* s s'" and "distinct (map u_ID (s_users s))"
    and "\<exists>u \<in> set (s_users s). u_Role u = ''admin'' \<and> u_Status u = ''active''"
  shows "\<exists>u \<in> set (s_users s'). u_Role u = ''admin'' \<and> u_Status u = ''active''"
proof -
  have "admin_rel s s'" using assms(1) by induction (blast intro: admins.rel_refl admins.rel_trans account_call_admin)+
  then show ?thesis using assms(2,3) by (simp add: admin_rel_def has_admin_def)
qed

text \<open>Of two administrators one can be disabled, and then the other cannot.\<close>

definition two_admins :: store where
  "two_admins = empty_store\<lparr>s_users := [sample_actor, sample_actor\<lparr>u_ID := ''adm2'', u_Identifier := ''b''\<rparr>]\<rparr>"

definition sample_disable :: "id \<Rightarrow> store \<Rightarrow> user result \<times> store" where
  "sample_disable k = UpdateUser sample_library (sample_env 0) sample_actor k 1
    \<lparr>uuc_DisplayName = None, uuc_Timezone = None, uuc_Locale = None, uuc_Role = None, uuc_Status = Some ''disabled''\<rparr>"

lemma an_administrator_remains_witness:
  "map u_Status (s_users (snd (sample_disable ''adm'' two_admins))) = [''disabled'', ''active''] \<and>
    (\<exists>u \<in> set (s_users (snd (sample_disable ''adm2'' (snd (sample_disable ''adm'' two_admins))))). u_Role u = ''admin'' \<and> u_Status u = ''active'')"
proof
  show "map u_Status (s_users (snd (sample_disable ''adm'' two_admins))) = [''disabled'', ''active'']" by code_simp
  have call: "account_call sample_uuid s (snd (sample_disable k s))" for k s
    unfolding sample_disable_def by (rule account_call.updates) (rule sample_uuid)
  have calls: "(account_call sample_uuid)\<^sup>*\<^sup>* two_admins (snd (sample_disable ''adm2'' (snd (sample_disable ''adm'' two_admins))))"
    using call call by (rule converse_rtranclp_into_rtranclp [OF _ r_into_rtranclp])
  have start: "distinct (map u_ID (s_users two_admins))" "\<exists>u \<in> set (s_users two_admins). u_Role u = ''admin'' \<and> u_Status u = ''active''"
    by code_simp+
  show "\<exists>u \<in> set (s_users (snd (sample_disable ''adm2'' (snd (sample_disable ''adm'' two_admins))))). u_Role u = ''admin'' \<and> u_Status u = ''active''"
    by (rule an_administrator_remains [OF calls start])
qed

end
