(* ===== verification/Provider_Properties.thy ===== *)
theory Provider_Properties
  imports Administration_Properties
begin

text \<open>
  Secrets and providers: a stored password hash accepts exactly the passwords with its key, and at most one model provider is
  the default, it is active, and it is the one the worker uses.
\<close>

subsection \<open>The default provider\<close>

definition defaults_ok :: "model_provider list \<Rightarrow> bool" where
  "defaults_ok rows \<longleftrightarrow> distinct (map mdl_ID rows) \<and>
    (\<forall>p \<in> set rows. mdl_IsDefault p \<longrightarrow> mdl_Status p = ''active'' \<and> (\<forall>q \<in> set rows. mdl_IsDefault q \<longrightarrow> q = p))"

definition cleared :: "env \<Rightarrow> model_provider list \<Rightarrow> model_provider list" where
  "cleared en = update_rows mdl_IsDefault (\<lambda>p. p\<lparr>mdl_IsDefault := False, mdl_UpdatedAt := env_now en\<rparr>)"

lemma update_IDs: "(\<And>p. mdl_ID (f p) = mdl_ID p) \<Longrightarrow> map mdl_ID (update_rows P f rows) = map mdl_ID rows"
  by (simp add: update_rows_def)

lemma cleared_rows: "map mdl_ID (cleared en rows) = map mdl_ID rows" "p \<in> set (cleared en rows) \<Longrightarrow> \<not> mdl_IsDefault p"
proof -
  show "map mdl_ID (cleared en rows) = map mdl_ID rows" unfolding cleared_def by (rule update_IDs) simp
  assume "p \<in> set (cleared en rows)"
  then have "p \<in> (\<lambda>q. if mdl_IsDefault q then q\<lparr>mdl_IsDefault := False, mdl_UpdatedAt := env_now en\<rparr> else q) ` set rows"
    by (simp only: cleared_def update_sets)
  then obtain q where "p = (if mdl_IsDefault q then q\<lparr>mdl_IsDefault := False, mdl_UpdatedAt := env_now en\<rparr> else q)" by (rule imageE) blast
  then show "\<not> mdl_IsDefault p" by auto
qed

lemma clear_Inr: "clearDefaultProvider en b s = Inr (u, s') \<Longrightarrow> s_providers s' = (if b then cleared en (s_providers s) else s_providers s)"
  by (auto simp: clearDefaultProvider_def go_simps tx_update_Inr put_providers_def cleared_def split: if_splits)

text \<open>One row is made the default after the others were cleared, or one row is written without making it the default.\<close>

lemma defaults_one:
  assumes ids: "distinct (map mdl_ID rows)" and none: "\<And>q. q \<in> set rows \<Longrightarrow> \<not> mdl_IsDefault q"
    and P: "\<And>q. P q \<Longrightarrow> mdl_ID q = k" and f: "\<And>q. mdl_ID (f q) = mdl_ID q" "\<And>q. mdl_Status (f q) = ''active''"
  shows "defaults_ok (update_rows P f rows)"
proof -
  have origin: "\<exists>r \<in> set rows. P r \<and> q = f r" if "q \<in> set (update_rows P f rows)" "mdl_IsDefault q" for q
  proof -
    have "q \<in> (\<lambda>r. if P r then f r else r) ` set rows" using that(1) by (simp only: update_sets)
    then obtain r where "r \<in> set rows" "q = (if P r then f r else r)" by blast
    then show ?thesis using none [of r] that(2) by (auto split: if_splits)
  qed
  have unique: "r = t" if "r \<in> set rows" "P r" "t \<in> set rows" "P t" for r t
    using ids that P by (metis distinct_map inj_onD)
  show ?thesis
    unfolding defaults_ok_def using ids f(2) origin unique update_IDs [of f P rows, OF f(1)] by metis
qed

lemma defaults_kept:
  assumes ok: "defaults_ok rows" and f: "\<And>q. mdl_ID (f q) = mdl_ID q" "\<And>q. q \<in> set rows \<Longrightarrow> P q \<Longrightarrow> \<not> mdl_IsDefault (f q)"
  shows "defaults_ok (update_rows P f rows)"
proof -
  have origin: "q \<in> set rows" if "q \<in> set (update_rows P f rows)" "mdl_IsDefault q" for q
  proof -
    have "q \<in> (\<lambda>r. if P r then f r else r) ` set rows" using that(1) by (simp only: update_sets)
    then obtain r where "r \<in> set rows" "q = (if P r then f r else r)" by blast
    then show ?thesis using f(2) [of r] that(2) by (auto split: if_splits)
  qed
  show ?thesis
    using ok origin unfolding defaults_ok_def update_IDs [of f P rows, OF f(1)] by blast
qed

lemma defaults_added:
  assumes "defaults_ok rows" "mdl_ID p \<notin> mdl_ID ` set rows" "mdl_IsDefault p \<Longrightarrow> mdl_Status p = ''active''"
    and "mdl_IsDefault p \<Longrightarrow> \<forall>q \<in> set rows. \<not> mdl_IsDefault q"
  shows "defaults_ok (rows @ [p])"
  using assms by (auto simp: defaults_ok_def)

lemma defaults_cleared: "distinct (map mdl_ID rows) \<Longrightarrow> defaults_ok (cleared en rows)"
  by (simp add: defaults_ok_def cleared_rows)

definition provider_rel :: "store \<Rightarrow> store \<Rightarrow> bool" where
  "provider_rel s s' \<longleftrightarrow> (defaults_ok (s_providers s) \<longrightarrow> defaults_ok (s_providers s'))"

interpretation providers: store_relation provider_rel
  by unfold_locales (auto simp: provider_rel_def)

lemma providers_frame: "tx_within provider_rel (NewID en k)" "tx_within provider_rel (auditAdmin en actor k action detail)"
  by (auto simp: tx_within_def provider_rel_def auditAdmin_def go_simps)

lemma create_provider_Inr:
  "unique_as e (create_provider p) s = Inr (u, s') \<Longrightarrow> mdl_ID p \<notin> mdl_ID ` set (s_providers s) \<and> s_providers s' = s_providers s @ [p]"
  by (auto simp: unique_as_def create_provider_def go_simps put_providers_def image_iff split: sum.splits)

lemma created_within:
  assumes p: "mdl_IsDefault p \<Longrightarrow> mdl_Status p = ''active''" and rest: "\<And>u. tx_within provider_rel (rest u)"
  shows "tx_within provider_rel (tx_bind (clearDefaultProvider en (mdl_IsDefault p)) (\<lambda>_. tx_bind (unique_as e (create_provider p)) rest))"
  unfolding tx_within_def tx_bind_Inr
proof (intro allI impI, elim exE conjE)
  fix s s3 s1 s2 :: store and a b c
  assume clear: "clearDefaultProvider en (mdl_IsDefault p) s = Inr (b, s1)" and create: "unique_as e (create_provider p) s1 = Inr (c, s2)"
    and last: "rest c s2 = Inr (a, s3)"
  note s1 = clear_Inr [OF clear] and s2 = create_provider_Inr [OF create]
  have "defaults_ok (s_providers s2)" if ok: "defaults_ok (s_providers s)"
  proof (cases "mdl_IsDefault p")
    case True
    then have "defaults_ok (s_providers s1)" using s1 ok defaults_cleared by (simp add: defaults_ok_def [of "s_providers s"])
    then show ?thesis using True s1 s2 p cleared_rows(2) [of _ en "s_providers s"] by (simp add: defaults_added)
  next
    case False
    then show ?thesis using s1 s2 ok by (auto intro!: defaults_added)
  qed
  then show "provider_rel s s3" using tx_withinD [OF rest last] by (simp add: provider_rel_def)
qed

lemma create_within: "tx_within provider_rel (CreateModelProvider lib en actor cmd)"
  unfolding CreateModelProvider_def
  by (intro providers.within_bind providers.within_basic providers.within_cases providers.within_let created_within providers_frame) auto

text \<open>What makes a row the default writes the status of it as well.\<close>

lemma made_default_within:
  assumes f: "\<And>q. mdl_ID (f q) = mdl_ID q" "\<And>q. mdl_Status (f q) = ''active''" and P: "\<And>q. P q \<Longrightarrow> mdl_ID q = k"
    and clear: "clearDefaultProvider en True s = Inr (u, s1)" and ok: "defaults_ok (s_providers s)"
  shows "defaults_ok (update_rows P f (s_providers s1))"
proof (rule defaults_one)
  have s1: "s_providers s1 = cleared en (s_providers s)" using clear_Inr [OF clear] by simp
  show "distinct (map mdl_ID (s_providers s1))" using ok by (simp add: s1 cleared_rows defaults_ok_def)
  show "\<not> mdl_IsDefault q" if "q \<in> set (s_providers s1)" for q using that cleared_rows(2) unfolding s1 by blast
qed (use f P in auto)

lemma activate_within: "tx_within provider_rel (activate_tx en actor k)"
  unfolding tx_within_def
proof (intro allI impI)
  fix s s' :: store and a :: unit
  assume "activate_tx en actor k s = Inr (a, s')"
  then obtain n s1 s2 u m where clear: "clearDefaultProvider en True s = Inr (u, s1)"
      and step: "tx_update s_providers put_providers (\<lambda>q. mdl_ID q = k)
        (\<lambda>q. q\<lparr>mdl_Status := ''active'', mdl_IsDefault := True, mdl_Revision := n, mdl_UpdatedAt := env_now en\<rparr>) s1 = Inr (m, s2)"
      and audit: "auditAdmin en actor [] ''model_provider.activated'' [(''provider_id'', PText k)] s2 = Inr (a, s')"
    unfolding activate_tx_def tx_bind_Inr tx_try_Inr tx_check_Inr prod.inject
    by - (elim exE conjE, hypsubst, rule that)
  have "defaults_ok (s_providers s2)" if "defaults_ok (s_providers s)"
    using step made_default_within [OF _ _ _ clear that] by (simp add: tx_update_Inr put_providers_def)
  then show "provider_rel s s'" using tx_withinD [OF providers_frame(2) audit] by (simp add: provider_rel_def)
qed

lemma delete_within: "tx_within provider_rel (DeleteModelProvider en actor k)"
proof -
  have "defaults_ok (filter P rows)" if "defaults_ok rows" for P rows
    using that by (auto simp: defaults_ok_def distinct_map_filter)
  then show ?thesis
    unfolding DeleteModelProvider_def
    by (intro providers.within_bind providers.within_basic providers.within_write providers_frame) (simp add: provider_rel_def put_providers_def)
qed

lemma update_within: "tx_within provider_rel (update_provider_tx lib en actor k expected cmd)"
  unfolding tx_within_def
proof (intro allI impI)
  fix s s' :: store and a :: unit
  assume "update_provider_tx lib en actor k expected cmd s = Inr (a, s')"
  then obtain p key s1 s2 u m detail where p: "find_row (\<lambda>p. mdl_ID p = k) s_providers s = Inr p"
      and clear: "clearDefaultProvider en (or_else (upc_IsDefault cmd) (mdl_IsDefault p)) s = Inr (u, s1)"
      and step: "tx_update s_providers put_providers (\<lambda>q. mdl_ID q = k \<and> mdl_Revision q = mdl_Revision p)
        (changed_provider en (mdl_Revision p) cmd key (or_else (upc_IsDefault cmd) (mdl_IsDefault p))) s1 = Inr (m, s2)"
      and audit: "auditAdmin en actor [] ''model_provider.updated'' detail s2 = Inr (a, s')"
    unfolding update_provider_tx_def Let_def
    by (simp only: tx_bind_Inr tx_try_Inr tx_check_Inr tx_simps prod.inject sum.inject) (elim exE conjE, hypsubst, rule that)
  define isDefault where "isDefault = or_else (upc_IsDefault cmd) (mdl_IsDefault p)"
  let ?P = "\<lambda>q. mdl_ID q = k \<and> mdl_Revision q = mdl_Revision p" and ?f = "changed_provider en (mdl_Revision p) cmd key isDefault"
  have s2: "s_providers s2 = update_rows ?P ?f (s_providers s1)" using step by (simp add: tx_update_Inr put_providers_def isDefault_def)
  have id: "mdl_ID (?f q) = mdl_ID q" for q by (simp add: changed_provider_def)
  have "defaults_ok (s_providers s2)" if ok: "defaults_ok (s_providers s)"
  proof (cases isDefault)
    case True
    then have "clearDefaultProvider en True s = Inr (u, s1)" using clear by (simp add: isDefault_def)
    then show ?thesis
      unfolding s2 using True by (intro made_default_within [OF id _ _ _ ok]) (auto simp: changed_provider_def)
  next
    case False
    then have s1: "s_providers s1 = s_providers s" using clear_Inr [OF clear] by (simp add: isDefault_def)
    have "find (\<lambda>p. mdl_ID p = k) (s_providers s) = Some p" using p by (simp add: find_row_def split: option.splits)
    note row = find_SomeD [OF this]
    have "\<not> mdl_IsDefault (?f q)" if q: "q \<in> set (s_providers s)" "?P q" for q
    proof -
      have "q = p" using ok row q unfolding defaults_ok_def by (metis distinct_map inj_onD)
      then show ?thesis using False by (auto simp: changed_provider_def isDefault_def or_else_def split: option.splits)
    qed
    then show ?thesis unfolding s2 s1 by (intro defaults_kept ok id)
  qed
  then show "provider_rel s s'" using tx_withinD [OF providers_frame(2) audit] by (simp add: provider_rel_def)
qed

subsection \<open>The calls\<close>

inductive provider_call :: "store \<Rightarrow> store \<Rightarrow> bool" where
  provider_added: "provider_call s (snd (op_tx (CreateModelProvider lib en actor cmd) s))"
| provider_changed: "provider_call s (snd (UpdateModelProvider lib en actor k expected ucmd s))"
| provider_activated: "provider_call s (snd (ActivateModelProvider en actor k s))"
| provider_deleted: "provider_call s (snd (op_tx (DeleteModelProvider en actor k) s))"

lemma provider_call_rel: "provider_call s s' \<Longrightarrow> provider_rel s s'"
proof (induction rule: provider_call.induct)
  case (provider_changed s lib en actor k expected cmd)
  show ?case unfolding UpdateModelProvider_def reread_provider_def
    by (intro op_withinD [of provider_rel] providers.within_op_bind providers.within_op_tx providers.within_basic update_within)
next
  case (provider_activated s en actor k)
  show ?case unfolding ActivateModelProvider_def reread_provider_def
    by (intro op_withinD [of provider_rel] providers.within_op_bind providers.within_op_tx providers.within_basic activate_within)
qed (intro op_withinD [of provider_rel] providers.within_op_tx create_within delete_within)+

lemma first_provider_default:
  assumes "p \<in> set ps" "mdl_IsDefault p" "\<And>q. q \<in> set ps \<Longrightarrow> mdl_IsDefault q \<Longrightarrow> q = p"
  shows "first_provider ps = Some p"
proof -
  have sound: "first_provider qs = Some q \<Longrightarrow> q \<in> set qs" for q qs
    by (induction qs arbitrary: q) (auto split: option.splits if_splits)
  show ?thesis using assms
  proof (induction ps)
    case (Cons r ps)
    have before: "provider_before p r" if "r \<noteq> p"
      using Cons.prems(2) Cons.prems(3) [of r] that by (auto simp: provider_before_def)
    show ?case
    proof (cases "p \<in> set ps")
      case True
      then have "first_provider ps = Some p" using Cons.prems by (intro Cons.IH) auto
      then show ?thesis using before by (cases "r = p") simp_all
    next
      case False
      then have "p = r" using Cons.prems(1) by simp
      moreover have "\<not> provider_before q p" if "first_provider ps = Some q" for q
        using sound [OF that] Cons.prems(2) Cons.prems(3) [of q] False by (auto simp: provider_before_def)
      ultimately show ?thesis by (auto split: option.splits)
    qed
  qed simp
qed

text \<open>C39. However model providers are added, changed, activated and deleted: at most one is the default, it is active, and it
  is the one the worker gets, with its own key. Disabling the default leaves it active, and deleting it is refused.\<close>

theorem one_default_provider:
  assumes "provider_call\<^sup>*\<^sup>* s s'" and "defaults_ok (s_providers s)"
  shows "defaults_ok (s_providers s') \<and> (\<forall>p \<in> set (s_providers s'). mdl_IsDefault p \<longrightarrow>
    ActiveProviderRuntime lib s' = bind_r (acl_decrypt lib (mdl_APIKeyCiphertext p)) (\<lambda>key. Inr (Some (p, key))))"
proof -
  have "provider_rel s s'"
    using assms(1) by induction (blast intro: providers.rel_refl providers.rel_trans provider_call_rel)+
  then have ok: "defaults_ok (s_providers s')" using assms(2) by (simp add: provider_rel_def)
  have "ActiveProviderRuntime lib s' = bind_r (acl_decrypt lib (mdl_APIKeyCiphertext p)) (\<lambda>key. Inr (Some (p, key)))"
    if p: "p \<in> set (s_providers s')" "mdl_IsDefault p" for p
  proof -
    have "first_provider (filter (\<lambda>p. mdl_Status p = ''active'') (s_providers s')) = Some p"
      using ok p by (intro first_provider_default) (auto simp: defaults_ok_def)
    then show ?thesis by (simp add: ActiveProviderRuntime_def)
  qed
  then show ?thesis using ok by blast
qed

definition sample_provider :: "id \<Rightarrow> bool \<Rightarrow> model_provider" where
  "sample_provider k b = \<lparr>mdl_ID = k, mdl_Name = k, mdl_ProviderType = [], mdl_BaseURL = [], mdl_ModelName = ''m'', mdl_TranscriptionModel = [],
     mdl_APIKeyCiphertext = ''key of '' @ k, mdl_APIKeyHint = [], mdl_Status = ''active'', mdl_IsDefault = b, mdl_Revision = 1,
     mdl_CreatedAt = 0, mdl_UpdatedAt = 0\<rparr>"

definition two_providers :: store where
  "two_providers = empty_store\<lparr>s_providers := [sample_provider ''a'' True, sample_provider ''b'' False]\<rparr>"

lemma one_default_witness:
  "map mdl_IsDefault (s_providers (snd (ActivateModelProvider (sample_env 1) sample_actor ''b'' two_providers))) = [False, True] \<and>
    defaults_ok (s_providers (snd (ActivateModelProvider (sample_env 1) sample_actor ''b'' two_providers)))"
proof
  show "map mdl_IsDefault (s_providers (snd (ActivateModelProvider (sample_env 1) sample_actor ''b'' two_providers))) = [False, True]" by code_simp
  have calls: "provider_call\<^sup>*\<^sup>* two_providers (snd (ActivateModelProvider (sample_env 1) sample_actor ''b'' two_providers))"
    by (rule r_into_rtranclp) (rule provider_call.provider_activated)
  have "defaults_ok (s_providers two_providers)"
    by (auto simp: defaults_ok_def two_providers_def sample_provider_def empty_store_def)
  then show "defaults_ok (s_providers (snd (ActivateModelProvider (sample_env 1) sample_actor ''b'' two_providers)))"
    using one_default_provider [OF calls] by blast
qed


subsection \<open>Passwords\<close>

lemma split_at_letter: "c \<notin> set xs \<Longrightarrow> split_at c (xs @ c # ys) = xs # split_at c ys"
  by (induction xs) auto

lemma split_at_none: "c \<notin> set xs \<Longrightarrow> split_at c xs = [xs]"
  by (induction xs) auto

lemma std_letters:
  "c \<in> set b64_alphabet \<Longrightarrow> url_letter (std_letter c) = c \<and> std_letter c \<noteq> CHR ''$'' \<and> std_letter c \<noteq> CHR ''-'' \<and> std_letter c \<noteq> CHR ''_''"
proof -
  have "\<forall>c \<in> set b64_alphabet. url_letter (std_letter c) = c \<and> std_letter c \<noteq> CHR ''$'' \<and> std_letter c \<noteq> CHR ''-'' \<and> std_letter c \<noteq> CHR ''_''"
    by code_simp
  then show "c \<in> set b64_alphabet \<Longrightarrow> ?thesis" by blast
qed

lemma std_round: "std_decode (std_encode s) = Some s" and std_no_dollar: "CHR ''$'' \<notin> set (std_encode s)"
proof -
  have letters: "c \<in> set b64_alphabet" if "c \<in> set (base64_encode s)" for c using base64_letters that by blast
  have "map url_letter (std_encode s) = base64_encode s"
    unfolding std_encode_def map_map by (rule map_idI) (use letters std_letters in simp)
  moreover have "CHR ''-'' \<notin> set (std_encode s) \<and> CHR ''_'' \<notin> set (std_encode s)"
    using letters std_letters by (fastforce simp: std_encode_def)
  ultimately show "std_decode (std_encode s) = Some s" by (simp add: std_decode_def base64_round)
  show "CHR ''$'' \<notin> set (std_encode s)" using letters std_letters by (fastforce simp: std_encode_def)
qed

lemma parameters_read: "scan_parameters ''m=65536,t=1,p=4'' = Some (65536, 1, 4)"
proof -
  let ?cut = "cut_left (filter (\<lambda>q. q \<noteq> [CHR 0x0A]) space_seqs)"
  have cut: "?cut ''65536,t=1,p=4'' = ''65536,t=1,p=4''" "?cut ''1,p=4'' = ''1,p=4''" "?cut ''4'' = ''4''" by code_simp+
  have digits: "takeWhile is_digit ''65536,t=1,p=4'' = ''65536''" "dropWhile is_digit ''65536,t=1,p=4'' = '',t=1,p=4''"
    "takeWhile is_digit ''1,p=4'' = ''1''" "dropWhile is_digit ''1,p=4'' = '',p=4''" "takeWhile is_digit ''4'' = ''4''" "dropWhile is_digit ''4'' = []"
    by code_simp+
  have numbers: "digits_value ''65536'' = 65536" "digits_value ''1'' = 1" "digits_value ''4'' = 4" by code_simp+
  have m: "scan_uint 32 ''65536,t=1,p=4'' = Some (65536, '',t=1,p=4'')"
    unfolding scan_uint_def Let_def cut(1) digits(1,2) numbers(1) by simp
  have t: "scan_uint 32 ''1,p=4'' = Some (1, '',p=4'')" unfolding scan_uint_def Let_def cut(2) digits(3,4) numbers(2) by simp
  have p: "scan_uint 8 ''4'' = Some (4, [])" unfolding scan_uint_def Let_def cut(3) digits(5,6) numbers(3) by simp
  show ?thesis by (simp add: scan_parameters_def m t p)
qed

text \<open>C40. A password is stored as a text that names the algorithm, its parameters, the salt and the key, and the text is read
  back without loss: a candidate is accepted when it is not too long and has the same key under the same salt and parameters,
  and only then. In particular the password itself is accepted.\<close>

theorem hashed_password_verifies:
  assumes "HashPassword lib salt password = Inr encoded"
    and "length (acl_argon lib password salt argonIterations argonMemoryKiB argonParallelism 32) = 32"
  shows "VerifyPassword lib candidate encoded \<longleftrightarrow> length candidate \<le> maxPasswordBytes \<and>
    acl_argon lib candidate salt argonIterations argonMemoryKiB argonParallelism 32 =
    acl_argon lib password salt argonIterations argonMemoryKiB argonParallelism 32"
proof -
  let ?key = "acl_argon lib password salt argonIterations argonMemoryKiB argonParallelism 32"
  have "encoded = ''argon2id'' @ CHR ''$'' # ''v=19'' @ CHR ''$'' # ''m=65536,t=1,p=4'' @ CHR ''$'' # std_encode salt @ CHR ''$'' # std_encode ?key"
    using assms(1) by (simp add: HashPassword_def split: if_splits)
  then have parts: "split_at CHR ''$'' encoded = [''argon2id'', ''v=19'', ''m=65536,t=1,p=4'', std_encode salt, std_encode ?key]"
    by (simp only:) ((subst split_at_letter split_at_none, simp add: std_no_dollar)+, rule refl)
  then show ?thesis
    using assms(2) by (auto simp: VerifyPassword_def parts parameters_read std_round argonIterations_def argonMemoryKiB_def argonParallelism_def)
qed

lemma hashed_password_witness:
  "VerifyPassword sample_library ''long enough!'' (projr (HashPassword sample_library ''salt'' ''long enough!'')) \<and>
    \<not> VerifyPassword sample_library ''long enough?'' (projr (HashPassword sample_library ''salt'' ''long enough!''))"
proof -
  obtain encoded where e: "HashPassword sample_library ''salt'' ''long enough!'' = Inr encoded"
    by (simp add: HashPassword_def maxPasswordBytes_def)
  have key: "acl_argon sample_library (''long enough'' @ [c]) ''salt'' argonIterations argonMemoryKiB argonParallelism 32 =
      ''long enough'' @ [c] @ ''salt'' @ replicate 16 CHR ''x''" for c
    by (simp add: sample_library_def argonIterations_def argonMemoryKiB_def argonParallelism_def take_replicate)
  show ?thesis
    using hashed_password_verifies [OF e, of "''long enough!''"] hashed_password_verifies [OF e, of "''long enough?''"]
      key [of "CHR ''!''"] key [of "CHR ''?''"] e by (simp add: maxPasswordBytes_def)
qed

end
