(* ===== verification/Spec2Isabelle.thy ===== *)
theory Spec2Isabelle
  imports Domain_Rules Task_Graph_Properties Login_Throttle Lens_Rules Plan_Rules_Properties Schedule_Properties
    Schedule_Dates Session_Properties Transport_Properties Job_Properties Agent_Tools_Properties
 Notification_Properties Notification_Views
    Agent_Log_Properties Thread_Pages Image_Properties Receipt_Properties Refresh_Properties Provider_Properties
begin

text \<open>
  FastTask is a planner for long goals: a Go server keeps goals, trees of tasks, seven days of
  plans, work sessions and the evidence of progress in one SQL database; a worker runs agent
  jobs from a queue; an agent proposes changes through tools and streams its state to the
  client. This development models the server's own logic under \<open>src/internal\<close> and proves what
  makes it correct. It reads the database as lists of rows, and each operation as a function.

  \<^bold>\<open>How the model corresponds to the code.\<close> A Go struct that is a row is a record of \<open>Models\<close>,
  with a prefix per type (\<open>t_Title\<close> is \<open>Task.Title\<close>); the tables are the fields of the record
  \<open>store\<close> of \<open>Store\<close>. A transaction is a function from the store to an error or a result
  with the new store (\<open>'a tx\<close>): \<open>tx_bind\<close> is sequencing with the early return of an error, and
  an error leaves the caller with the old store, which is the rollback. Functions that do not
  write return a value of the sum \<open>'a result\<close>; the sentinel errors of the packages are the
  constructors of \<open>app_error\<close>. An \<open>UPDATE\<close> with its \<open>WHERE\<close> is \<open>update_rows\<close>, its
  \<open>RowsAffected\<close> is \<open>rows_affected\<close>. Go maps are association lists, \<open>string\<close> is the list of its
  bytes, \<open>int\<close> is \<open>int\<close>, instants and durations are nanoseconds, counted from the first day
  of year 1. What a call reads from outside the store, the clock, fresh identifiers, the time zone
  database and a digest, is the record \<open>env\<close>. Where the source uses a library that is not part of
  the repository (a digest, Unicode case mapping, the text of a JSON value, a provider), the function is
  an argument of the definitions, gathered in a record per component.

  \<^bold>\<open>The theories.\<close>
  \<^item> \<open>Go_Prelude\<close>: errors, results, maps, trimming and splitting of strings, key comparators and the
    locale \<open>invariant_machine\<close>, which is interpreted for every component with state.
    \<open>Go_Time\<close>: calendar, date formats, zones and local midnights. \<open>Json_Values\<close>: decoded JSON,
    integers as text. \<open>Models\<close>, \<open>Store\<close>: rows, tables, transactions and frames (\<open>tx_keeps\<close>).
  \<^item> \<open>Domain_Rules\<close>, \<open>Lens_Rules\<close> (\<open>domain/rules.go\<close>, \<open>domain/lens.go\<close>): the choice of daily
    candidates is the best admissible list of three; the move check accepts exactly the moves that leave the
    tree acyclic; weeks and local days.
  \<^item> \<open>Task_Graph\<close>, \<open>Task_Graph_Proofs\<close>, \<open>Task_Eligibility\<close>, \<open>Task_Store\<close>, \<open>Task_Graph_Properties\<close>
    (\<open>taskdependency.go\<close> and the checks of tasks in the store): the depth-first search decides
    soundness of the prerequisite graph, eligibility means that every prerequisite is done, and a validated
    edit keeps the graphs of the database sound. The fuel of the search is the number of tasks plus two
    (\<open>graph_fuel\<close>): each call on a fresh task removes one, and \<open>visit_fuel\<close> shows it never runs out.
  \<^item> \<open>Plan_Rules\<close>, \<open>Plan_Store\<close>, \<open>Plan_Source\<close>, \<open>Plan_Availability\<close>, \<open>Plan_Schedule\<close>, \<open>Plan_Commands\<close>
    (\<open>planning.go\<close>, \<open>planning_guard.go\<close>, \<open>planning_selection_scope.go\<close>, \<open>planning_task_edits.go\<close>,
    \<open>plandelete.go\<close>, plans in \<open>app.go\<close>): the refresh of seven days and the commands on a
    day. \<open>Plan_Rules_Properties\<close>, \<open>Schedule_Properties\<close>, \<open>Schedule_Dates\<close>: budgets, no task planned twice,
    no day overfilled, and which dates are refreshed.
  \<^item> \<open>Field_Rules\<close>, \<open>Lifecycle\<close> (\<open>lifecycle.go\<close>, \<open>taskdependency_patch.go\<close>), \<open>Progress\<close>
    (\<open>planprogress.go\<close>), \<open>Work_Sessions\<close> (sessions in \<open>app.go\<close>): goals, tasks, evidence, sessions.
    \<open>Session_Properties\<close>: the session machine refines exact time keeping, and no user ever
    has two open sessions.
  \<^item> \<open>Login_Throttle\<close> (\<open>platform/auth/throttle.go\<close>): bounds on the table and on guessing.
  \<^item> \<open>Transport\<close>, \<open>Transport_Properties\<close> (\<open>agent/protocol\<close>): chunks, state, replay and framing of the
    stream; round trips and the equivalence of streaming with setting.
  \<^item> \<open>Jobs\<close>, \<open>Job_Properties\<close> (\<open>jobservice.go\<close>, \<open>worker.go\<close>, \<open>supportjobs.go\<close>, \<open>jobdispatch.go\<close>,
    \<open>scheduler/scheduler.go\<close>): the queue under any interleaving of clients, workers and recovery. The
    locale \<open>job_queue\<close> asks of the materializers only that they leave the jobs alone.
  \<^item> \<open>Agent_Tools\<close>, \<open>Agent_Tools_Properties\<close> (\<open>agenttool.go\<close>): the registry and the argument check.
  \<^item> \<open>Notifications\<close>, \<open>Notification_Views\<close>, \<open>Notification_Properties\<close> (\<open>notification.go\<close>,
    \<open>notificationtarget.go\<close>, \<open>notificationhooks.go\<close>, \<open>notify/notify.go\<close>): channels, targets, the queue of
    messages and its dispatcher. One pass tries no message twice; two properties show what is not guaranteed, a bound on
    the claims and that a late rejection meets the address it is about.
  \<^item> \<open>Agent_Store\<close>, \<open>Agent_Sessions\<close>, \<open>Agent_Harness\<close> (\<open>persistence/agent.go\<close>, \<open>persistence/harness.go\<close>,
    \<open>agent.go\<close>, \<open>agentloop.go\<close>, \<open>agentthread.go\<close>, \<open>harness.go\<close>, \<open>harnesslifecycle.go\<close>): messages, runs, their log
    and the hosts that drive them. \<open>Store_Relations\<close> states as locales (\<open>store_relation\<close>, \<open>runtime_relation\<close>) what a
    relation between stores has to satisfy to hold along every call; \<open>Agent_Run_Relations\<close>,
    \<open>Agent_Run_Properties\<close> and \<open>Agent_Log_Properties\<close> interpret them: a user has at most one active run, an ended
    run stays ended and closed to its host, and the log of a run replays to its snapshot.
  \<^item> \<open>Thread_Cursor\<close>, \<open>Agent_Threads\<close>, \<open>Thread_Pages\<close> (\<open>agentthreads.go\<close>, \<open>persistence/threads.go\<close>,
    \<open>attachments.go\<close>): conversations, their cursors, and uploads over rows and files; paging lists each once.
  \<^item> \<open>Image_Metadata\<close>, \<open>Image_Properties\<close> (\<open>attachmentimage.go\<close>): the bytes of uploaded images, rebuilt without
    metadata; exactly the well-formed containers are accepted.
  \<^item> \<open>Patches\<close>, \<open>Proposals\<close>, \<open>Plan_Proposals\<close> (\<open>agenttools_proposal.go\<close>, \<open>lens.go\<close>, \<open>app.go\<close>,
    \<open>agentgoal.go\<close>, \<open>agentdailyplan.go\<close>, \<open>approval_guard.go\<close>): the shape of what a tool proposes, coordinates, and the four
    ways a proposal is applied, as a patch of the tree, a new goal, an edited goal or the plan of a day.
  \<^item> \<open>Approvals\<close>, \<open>Receipts\<close> (\<open>agentapproval.go\<close>, \<open>approval_recovery.go\<close>, \<open>taskeligibility_view.go\<close>,
    \<open>agent.go\<close>): what a decision says about the day, how the run goes on, and the receipt that ties them together.
    \<open>Planning_Frames\<close> and \<open>Receipt_Relations\<close> state as locales (\<open>planning_frame\<close>, \<open>receipt_frame\<close>) what a relation between
    stores needs to hold along the application and the receipt; \<open>Receipt_Properties\<close> interprets them: a receipt is decided
    once, a settled proposal stays settled, a failed application changes nothing, and an approved plan fits the day.
  \<^item> \<open>Accounts\<close>, \<open>Sign_On\<close>, \<open>Administration\<close> (\<open>platform/auth/auth.go\<close>, \<open>fastcas.go\<close>, \<open>fastresearch.go\<close>, \<open>admin.go\<close>,
    \<open>provider.go\<close>): passwords, sessions and the rotation of their refresh tokens, signing in through other services, users and
    model providers. \<open>Account_Relations\<close> interprets \<open>store_relation\<close> by what the calls leave of the sessions: an ended session
    stays ended, and a family without an active session gets none. \<open>Account_Calls\<close> is the step relation of the calls;
    \<open>Account_Properties\<close>, \<open>Refresh_Properties\<close>, \<open>Administration_Properties\<close> and \<open>Provider_Properties\<close> show that sessions stay sound
    and ended access ended, that a reused refresh token ends its family and a lost answer can be retried, that an administrator and at
    most one default provider remain, and that a stored password text accepts exactly the passwords of its key.
  \<open>Sample_Data\<close> holds the rows on which the witnesses evaluate the model.

  \<^bold>\<open>Concurrency.\<close> The database runs one writing transaction at a time, so interleavings are sequences of
  transactions. Where the code reads in one transaction and writes in another (a cancellation, a claim and
  its finish, a send), the two are separate operations and the properties quantify over what comes
  between.

  \<^bold>\<open>Not modelled.\<close> Failures of the database itself, the HTTP handlers, the clients of model providers and
  sibling services, the computation of password hashes and the signing of tokens, start-up and migrations: they are input
  and output around the operations here, or code of third parties. The components list of the manifest names
  each file.
\<close>

end
